(* ===== verification/Prelude.thy ===== *)
theory Prelude
  imports Main "HOL-Library.List_Lexorder" "HOL-Library.Char_ord" "HOL-Library.Sublist"
begin

text \<open>
  Shared vocabulary of the development.

  \<^item> \<open>datetime\<close>: an aware UTC datetime, as a number of microseconds since a fixed epoch;
    \<open>timedelta_seconds\<close> is Python's \<open>timedelta(seconds=n)\<close>.
  \<^item> \<open>json\<close>: the values that \<open>json.dumps\<close> stores and \<open>json.loads\<close> reads back.
  \<^item> \<open>truthy\<close>: Python's truth value of an optional string (\<open>None\<close> and the empty string
    are false).
  \<^item> SQL tables are lists of rows in rowid order. \<open>fetchone\<close> is a \<open>SELECT\<close> with
    \<open>fetchone()\<close>, \<open>sql_update\<close> is \<open>UPDATE ... WHERE\<close>, \<open>rowcount\<close> the number of rows
    its \<open>WHERE\<close> matches, \<open>sql_delete\<close> is \<open>DELETE ... WHERE\<close>.
  \<^item> \<open>keyed\<close>: a table whose key column is a primary key.
  \<^item> the collections \<open>sql_simps\<close> (how queries see updates) and \<open>lifecycle_simps\<close> (the
    operations of the aggregates, unfolded), used by the component theories.
\<close>

named_theorems sql_simps
named_theorems lifecycle_simps

type_synonym datetime = int

definition timedelta_seconds :: "int \<Rightarrow> int" where
  "timedelta_seconds n = n * 1000000"

datatype json =
    JNull
  | JBool bool
  | JInt int
  | JStr string
  | JList "json list"
  | JObj "(string \<times> json) list"

definition truthy :: "string option \<Rightarrow> bool" where
  "truthy s = (case s of None \<Rightarrow> False | Some cs \<Rightarrow> cs \<noteq> [])"

lemma truthy_simps [simp]:
  "truthy None = False"
  "truthy (Some cs) = (cs \<noteq> [])"
  by (simp_all add: truthy_def)

subsection \<open>Tables\<close>

definition fetchone :: "('r \<Rightarrow> bool) \<Rightarrow> 'r list \<Rightarrow> 'r option" where
  "fetchone P rows = find P rows"

definition sql_update :: "('r \<Rightarrow> bool) \<Rightarrow> ('r \<Rightarrow> 'r) \<Rightarrow> 'r list \<Rightarrow> 'r list" where
  "sql_update P f rows = map (\<lambda>r. if P r then f r else r) rows"

definition sql_delete :: "('r \<Rightarrow> bool) \<Rightarrow> 'r list \<Rightarrow> 'r list" where
  "sql_delete P rows = filter (\<lambda>r. \<not> P r) rows"

definition rowcount :: "('r \<Rightarrow> bool) \<Rightarrow> 'r list \<Rightarrow> nat" where
  "rowcount P rows = length (filter P rows)"

definition keyed :: "('r \<Rightarrow> 'k) \<Rightarrow> 'r list \<Rightarrow> bool" where
  "keyed key rows \<longleftrightarrow> distinct (map key rows)"

lemma fetchone_SomeD: "fetchone P rows = Some r \<Longrightarrow> r \<in> set rows \<and> P r"
  by (auto simp: fetchone_def find_Some_iff)

lemma fetchone_None_iff: "fetchone P rows = None \<longleftrightarrow> (\<forall>r\<in>set rows. \<not> P r)"
  by (auto simp: fetchone_def find_None_iff)

lemma fetchone_Nil [sql_simps]: "fetchone P [] = None"
  by (simp add: fetchone_def)

lemma fetchone_Cons [sql_simps]: "fetchone P (r # rs) = (if P r then Some r else fetchone P rs)"
  by (simp add: fetchone_def)

lemma fetchone_append [sql_simps]:
  "fetchone P (xs @ ys) = (case fetchone P xs of None \<Rightarrow> fetchone P ys | Some r \<Rightarrow> Some r)"
  by (induction xs) (auto simp: fetchone_def)

lemma set_sql_update: "set (sql_update P f rows) = (\<lambda>r. if P r then f r else r) ` set rows"
  by (simp add: sql_update_def)

lemma sql_update_cases:
  assumes "r \<in> set (sql_update P f rows)"
  obtains r' where "r' \<in> set rows" "P r'" "r = f r'"
    | "r \<in> set rows" "\<not> P r"
  using assms by (auto simp: set_sql_update split: if_splits)

lemma length_sql_update [simp]: "length (sql_update P f rows) = length rows"
  by (simp add: sql_update_def)

lemma map_key_sql_update:
  assumes "\<And>r. P r \<Longrightarrow> key (f r) = key r"
  shows "map key (sql_update P f rows) = map key rows"
  using assms by (auto simp: sql_update_def)

lemma keyed_sql_update:
  assumes "keyed key rows" and "\<And>r. P r \<Longrightarrow> key (f r) = key r"
  shows "keyed key (sql_update P f rows)"
  using assms by (simp add: keyed_def map_key_sql_update)

lemma keyed_append1:
  "keyed key (rows @ [r]) \<longleftrightarrow> keyed key rows \<and> key r \<notin> key ` set rows"
  by (auto simp: keyed_def)

lemma keyed_filter: "keyed key rows \<Longrightarrow> keyed key (filter P rows)"
  by (simp add: keyed_def distinct_map_filter)

lemma keyed_eqD:
  assumes "keyed key rows" and "r \<in> set rows" and "s \<in> set rows" and "key r = key s"
  shows "r = s"
  using assms by (auto simp: keyed_def distinct_map inj_on_def)

lemma key_notin: "k \<notin> f ` set xs \<Longrightarrow> x \<in> set xs \<Longrightarrow> f x \<noteq> k"
  by auto

lemma keyed_fetchone:
  assumes "keyed key rows" and "r \<in> set rows"
  shows "fetchone (\<lambda>x. key x = key r) rows = Some r"
proof -
  have "fetchone (\<lambda>x. key x = key r) rows \<noteq> None"
    using assms(2) by (auto simp: fetchone_None_iff)
  then obtain s where s: "fetchone (\<lambda>x. key x = key r) rows = Some s"
    by blast
  with assms have "s = r"
    by (auto dest!: fetchone_SomeD intro: keyed_eqD)
  with s show ?thesis by simp
qed

lemma fetchone_key_sql_update [sql_simps]:
  assumes "\<And>r. P r \<Longrightarrow> key (f r) = key r"
  shows "fetchone (\<lambda>r. key r = k) (sql_update P f rows) =
    map_option (\<lambda>r. if P r then f r else r) (fetchone (\<lambda>r. key r = k) rows)"
  using assms by (induction rows) (auto simp: fetchone_def sql_update_def)

lemma fetchone_cong: "(\<And>r. r \<in> set rows \<Longrightarrow> P r = Q r) \<Longrightarrow> fetchone P rows = fetchone Q rows"
  by (induction rows) (auto simp: fetchone_def)

lemma keyed_fetchone_unique:
  assumes "keyed key rows" and "fetchone (\<lambda>r. key r = k) rows = Some r"
    and "s \<in> set rows" and "key s = k"
  shows "s = r"
  using assms by (auto dest!: fetchone_SomeD intro: keyed_eqD)

lemma keyed_fetchone_conj:
  assumes "keyed key rows" and "fetchone (\<lambda>r. key r = k) rows = Some r"
  shows "fetchone (\<lambda>r. key r = k \<and> Q r) rows = (if Q r then Some r else None)"
proof (cases "Q r")
  case True
  have "fetchone (\<lambda>r. key r = k \<and> Q r) rows = fetchone (\<lambda>r. key r = k) rows"
    using True keyed_fetchone_unique [OF assms] by (intro fetchone_cong) auto
  with True assms(2) show ?thesis by simp
next
  case False
  then have "\<forall>s\<in>set rows. \<not> (key s = k \<and> Q s)"
    using keyed_fetchone_unique [OF assms] by auto
  with False show ?thesis by (simp add: fetchone_None_iff)
qed

lemma sql_update_append [simp]: "sql_update P f (xs @ ys) = sql_update P f xs @ sql_update P f ys"
  by (simp add: sql_update_def)

lemma sql_update_id: "(\<And>r. r \<in> set rows \<Longrightarrow> \<not> P r) \<Longrightarrow> sql_update P f rows = rows"
  by (induction rows) (auto simp: sql_update_def)

lemma sql_update_keyed:
  assumes "keyed key rows" and "r \<in> set rows" and "key r = k" and "Q r"
  shows "sql_update (\<lambda>x. key x = k \<and> Q x) f rows = sql_update (\<lambda>x. key x = k) f rows"
  using assms by (auto simp: sql_update_def dest: keyed_eqD)

lemma rowcount_keyed:
  assumes "keyed key rows" and "r \<in> set rows" and "key r = k" and "Q r"
  shows "rowcount (\<lambda>x. key x = k \<and> Q x) rows = 1"
  using assms
proof (induction rows)
  case Nil
  then show ?case by simp
next
  case (Cons a rows)
  show ?case
  proof (cases "key a = k")
    case True
    with Cons.prems have "a = r" by (auto simp: keyed_def)
    moreover from True Cons.prems have "filter (\<lambda>x. key x = k \<and> Q x) rows = []"
      by (auto simp: keyed_def filter_empty_conv image_iff)
    ultimately show ?thesis using Cons.prems by (simp add: rowcount_def)
  next
    case False
    with Cons show ?thesis by (auto simp: rowcount_def keyed_def)
  qed
qed

end
