(* ===== verification/Policy_Kernel.thy ===== *)
theory Policy_Kernel
  imports Prelude
begin

text \<open>
  The shared policy kernel (\<open>app/domain/policy.py\<close>): the three outcomes every policy can
  return, the execution modes, and the decision record with its non-empty reason check.
\<close>

datatype PolicyOutcome = ALLOW | DENY | REQUIRE_APPROVAL

datatype PolicyDecisionKind = ADMISSION | PLAN | SELECTION | ALLOCATION

datatype ExecutionMode = REALTIME | UNATTENDED | DELEGATED

record PolicyDecision =
  pd_outcome :: PolicyOutcome
  pd_reason :: string
  pd_policy :: string
  pd_version :: string

datatype policy_error = ValueError string

text \<open>\<open>PolicyDecision.__post_init__\<close>: an empty reason is refused.\<close>

definition PolicyDecision_new ::
  "PolicyOutcome \<Rightarrow> string \<Rightarrow> string \<Rightarrow> string \<Rightarrow> policy_error + PolicyDecision" where
  "PolicyDecision_new oc reason pol ver =
     (if reason = [] then Inl (ValueError ''policy decision reason must not be empty'')
      else Inr \<lparr>pd_outcome = oc, pd_reason = reason, pd_policy = pol, pd_version = ver\<rparr>)"

text \<open>The decision with the default policy name and version, for a literal reason.\<close>

definition decision :: "PolicyOutcome \<Rightarrow> string \<Rightarrow> PolicyDecision" where
  "decision oc reason =
     \<lparr>pd_outcome = oc, pd_reason = reason, pd_policy = ''unknown'', pd_version = ''unknown''\<rparr>"

lemma decision_is_constructed:
  "reason \<noteq> [] \<Longrightarrow> PolicyDecision_new oc reason ''unknown'' ''unknown'' = Inr (decision oc reason)"
  by (simp add: PolicyDecision_new_def decision_def)

lemma decision_simps [simp]:
  "pd_outcome (decision oc reason) = oc"
  "pd_reason (decision oc reason) = reason"
  by (simp_all add: decision_def)

end
