(* ===== verification/Tool_Policy.thy ===== *)
theory Tool_Policy
  imports Policy_Kernel
begin

text \<open>
  Tools and the tool policy (\<open>app/domain/tool.py\<close>, \<open>app/domain/tool_policy.py\<close>): which tools an agent is
  shown and which calls may be executed without asking. Arguments and grants are JSON values, whose objects have
  string keys; a set of names is a list. A definition is an object of the program, compared by identity in the
  tool service, and so is a request: \<open>td_object\<close> and \<open>tq_object\<close> are these identities. What an approval decider does when it is called is one of three:
  it raises, it returns something that is not a decision, or it decides.
\<close>

section \<open>Values\<close>

datatype RiskLevel = SAFE | CONFIRM | DANGEROUS

datatype ToolSourceType = BUILTIN | KNOWLEDGE | SKILL | MCP | PLUGIN | AGENT

datatype ToolResultStatus = SUCCESS | ERROR | PERMISSION_DENIED | TIMEOUT | SKIPPED

record ToolDefinition =
  td_object :: nat
  td_name :: string
  td_description :: string
  td_input_schema :: json
  td_risk_level :: RiskLevel
  td_permissions :: "string list"
  td_timeout_seconds :: int
  td_enabled :: bool
  td_source_type :: ToolSourceType
  td_toolset :: string
  td_managed :: bool
  td_realtime_only :: bool

record ToolCallRequest =
  tq_object :: nat
  tq_id :: string
  tq_name :: string
  tq_arguments :: "(string \<times> json) list"

record ApprovalRequest =
  aq_session_id :: string
  aq_tool_call_id :: string
  aq_tool_name :: string
  aq_arguments :: "(string \<times> json) list"
  aq_description :: string
  aq_risk_level :: RiskLevel
  aq_metadata :: "(string \<times> json) list option"

record ApprovalDecision =
  ad_allowed :: bool
  ad_scope :: string
  ad_reason :: string

datatype decider_answer = Decider_Raises | Not_A_Decision | Decided ApprovalDecision

record ToolExecutionContext =
  tx_allowed_confirm_tools :: "(string \<times> json) list"
  tx_session_id :: "string option"
  tx_run_id :: "string option"
  tx_metadata :: "(string \<times> json) list"
  tx_trusted_metadata :: "(string \<times> json) list"
  tx_execution_context_mode :: string
  tx_permitted_managed_tools :: "string list"
  tx_enabled_override :: "string list option"
  tx_approval_decider :: "(ApprovalRequest \<Rightarrow> decider_answer) option"
  tx_granted_tools :: "string list"

definition ToolExecutionContext_default :: ToolExecutionContext where
  "ToolExecutionContext_default =
     \<lparr>tx_allowed_confirm_tools = [], tx_session_id = None, tx_run_id = None, tx_metadata = [], tx_trusted_metadata = [],
      tx_execution_context_mode = ''realtime'', tx_permitted_managed_tools = [], tx_enabled_override = None,
      tx_approval_decider = None, tx_granted_tools = []\<rparr>"

record ToolResult =
  tr_tool_call_id :: string
  tr_tool_name :: string
  tr_status :: ToolResultStatus
  tr_content :: json
  tr_duration_ms :: int
  tr_terminal :: bool

text \<open>A result with the default duration that does not end the turn.\<close>

definition tool_result :: "string \<Rightarrow> string \<Rightarrow> ToolResultStatus \<Rightarrow> json \<Rightarrow> ToolResult" where
  "tool_result cid name status content =
     \<lparr>tr_tool_call_id = cid, tr_tool_name = name, tr_status = status, tr_content = content, tr_duration_ms = 0,
      tr_terminal = False\<rparr>"

section \<open>Equality of JSON values in Python\<close>

text \<open>A \<open>bool\<close> is an \<open>int\<close>, and a dict is compared without the order of its keys.\<close>

fun json_number :: "json \<Rightarrow> int option" where
  "json_number (JBool b) = Some (if b then 1 else 0)"
| "json_number (JInt i) = Some i"
| "json_number j = None"

lemma zip_fst_size [termination_simp]: "(a, b) \<in> set (zip xs ys) \<Longrightarrow> size a < Suc (size_list size xs)"
  by (auto dest!: set_zip_leftD intro: size_list_estimation' le_imp_less_Suc)

fun py_eq :: "json \<Rightarrow> json \<Rightarrow> bool" where
  "py_eq (JObj a) (JObj b) \<longleftrightarrow>
     length a = length b \<and> list_all (\<lambda>p. case map_of b (fst p) of None \<Rightarrow> False | Some w \<Rightarrow> py_eq (snd p) w) a"
| "py_eq (JList xs) (JList ys) \<longleftrightarrow> length xs = length ys \<and> list_all (\<lambda>p. py_eq (fst p) (snd p)) (zip xs ys)"
| "py_eq (JStr s) (JStr t) \<longleftrightarrow> s = t"
| "py_eq JNull JNull \<longleftrightarrow> True"
| "py_eq a b \<longleftrightarrow> json_number a \<noteq> None \<and> json_number a = json_number b"

section \<open>The policy\<close>

datatype ToolExposurePolicy = DEFAULT | SAFE_ONLY

datatype tool_error = ToolValueError string | ToolNotFoundError | ToolDefinitionChangedError

definition can_expose :: "ToolDefinition \<Rightarrow> ToolExposurePolicy \<Rightarrow> string list \<Rightarrow> string list \<Rightarrow> bool" where
  "can_expose d exposure granted permitted =
     (if \<not> td_enabled d then False
      else if exposure = DEFAULT then True
      else if td_realtime_only d then False
      else if td_risk_level d = DANGEROUS then False
      else if td_managed d \<and> td_name d \<in> set permitted then True
      else if td_risk_level d = SAFE \<and> td_source_type d \<noteq> AGENT then True
      else td_risk_level d = SAFE \<and> granted \<noteq> [] \<and> td_name d \<in> set granted)"

definition validate_definition :: "ToolDefinition \<Rightarrow> tool_error + unit" where
  "validate_definition d =
     (if td_managed d \<and> td_risk_level d \<noteq> CONFIRM
      then Inl (ToolValueError ''managed tools must use confirm risk level'') else Inr ())"

definition argument_grant_matches :: "json option \<Rightarrow> (string \<times> json) list \<Rightarrow> bool" where
  "argument_grant_matches grant arguments =
     (case grant of
        Some (JObj g) \<Rightarrow>
          if g = [] then arguments = []
          else list_all (\<lambda>p. case map_of arguments (fst p) of None \<Rightarrow> False | Some v \<Rightarrow> py_eq v (snd p)) g
      | _ \<Rightarrow> False)"

definition confirm_grant :: "string \<Rightarrow> ToolExecutionContext option \<Rightarrow> json option" where
  "confirm_grant name ctx = (case ctx of None \<Rightarrow> None | Some c \<Rightarrow> map_of (tx_allowed_confirm_tools c) name)"

definition evaluate_execution :: "ToolDefinition \<Rightarrow> ToolCallRequest \<Rightarrow> ToolExecutionContext option \<Rightarrow> PolicyDecision" where
  "evaluate_execution d rq ctx =
     (if \<not> td_enabled d then decision DENY ''tool_disabled''
      else if td_risk_level d = SAFE then decision ALLOW ''safe_tool''
      else if td_managed d then
        (if (case ctx of None \<Rightarrow> False | Some c \<Rightarrow> tq_name rq \<in> set (tx_permitted_managed_tools c))
         then decision ALLOW ''managed_grant''
         else decision REQUIRE_APPROVAL ''managed_approval_required'')
      else (let grant = confirm_grant (tq_name rq) ctx in
            if grant = Some (JStr ''session'') then decision ALLOW ''session_grant''
            else if argument_grant_matches grant (tq_arguments rq) then decision ALLOW ''argument_grant''
            else decision REQUIRE_APPROVAL
                   (if td_risk_level d = DANGEROUS then ''dangerous_approval_required'' else ''confirm_approval_required'')))"

definition valid_grant :: "string \<times> json \<Rightarrow> bool" where
  "valid_grant p \<longleftrightarrow> fst p \<noteq> [] \<and> (snd p = JStr ''session'' \<or> (case snd p of JObj _ \<Rightarrow> True | _ \<Rightarrow> False))"

definition copy_valid_confirm_grants :: "(string \<times> json) list \<Rightarrow> (string \<times> json) list" where
  "copy_valid_confirm_grants grants = filter valid_grant grants"

text \<open>\<open>d[k] = v\<close> on a dict: the place of an old key is kept.\<close>

definition obj_set :: "string \<Rightarrow> 'v \<Rightarrow> (string \<times> 'v) list \<Rightarrow> (string \<times> 'v) list" where
  "obj_set k v kvs =
     (if k \<in> fst ` set kvs then map (\<lambda>p. if fst p = k then (k, v) else p) kvs else kvs @ [(k, v)])"

definition policy_authorize_once ::
  "ToolDefinition \<Rightarrow> ToolCallRequest \<Rightarrow> ToolExecutionContext option \<Rightarrow> tool_error + ToolExecutionContext" where
  "policy_authorize_once d rq ctx =
     (if td_name d \<noteq> tq_name rq then Inl (ToolValueError ''definition and request names must match'')
      else if td_risk_level d \<notin> {CONFIRM, DANGEROUS}
      then Inl (ToolValueError ''only confirm or dangerous tools can receive one-time authorization'')
      else (let c = (case ctx of None \<Rightarrow> ToolExecutionContext_default | Some c \<Rightarrow> c) in
            if pd_outcome (evaluate_execution d rq (Some c)) \<noteq> REQUIRE_APPROVAL
            then Inl (ToolValueError ''tool call does not currently require approval'')
            else (let grants = copy_valid_confirm_grants (tx_allowed_confirm_tools c);
                      permitted = tx_permitted_managed_tools c
                  in if td_managed d
                     then Inr (c\<lparr>tx_allowed_confirm_tools := grants, tx_permitted_managed_tools := tq_name rq # permitted\<rparr>)
                     else Inr (c\<lparr>tx_allowed_confirm_tools := obj_set (tq_name rq) (JObj (tq_arguments rq)) grants\<rparr>))))"

section \<open>Lemmas\<close>

lemma map_of_replace:
  "map_of (map (\<lambda>p. if fst p = k then (k, v) else p) xs) x = (if x = k \<and> k \<in> fst ` set xs then Some v else map_of xs x)"
  by (induction xs) (auto simp: rev_image_eqI)

lemma map_of_obj_set [simp]: "map_of (obj_set k v kvs) = (map_of kvs)(k \<mapsto> v)"
proof (cases "k \<in> fst ` set kvs")
  case True
  then show ?thesis by (simp add: obj_set_def map_of_replace fun_eq_iff)
next
  case False
  then have "map_of kvs k = None" by (simp add: map_of_eq_None_iff)
  with False show ?thesis by (auto simp: obj_set_def map_add_def fun_eq_iff split: option.splits)
qed

text \<open>JSON objects that Python can hold: no key twice, at any depth.\<close>

fun proper :: "json \<Rightarrow> bool" where
  "proper (JObj kvs) \<longleftrightarrow> distinct (map fst kvs) \<and> list_all (\<lambda>p. proper (snd p)) kvs"
| "proper (JList xs) \<longleftrightarrow> list_all proper xs"
| "proper j \<longleftrightarrow> True"

lemma py_eq_refl: "proper j \<Longrightarrow> py_eq j j"
proof (induction j)
  case (JList xs)
  then show ?case by (auto simp: list_all_iff set_zip)
next
  case (JObj kvs)
  then show ?case by (force simp: list_all_iff)
qed auto

text \<open>A call matches the grant of its own arguments.\<close>

lemma own_arguments_match: "proper (JObj args) \<Longrightarrow> argument_grant_matches (Some (JObj args)) args"
  by (auto simp: argument_grant_matches_def list_all_iff intro!: py_eq_refl)

text \<open>The calls that the policy allows, and why.\<close>

definition authorized :: "ToolDefinition \<Rightarrow> ToolCallRequest \<Rightarrow> ToolExecutionContext option \<Rightarrow> bool" where
  "authorized d rq ctx \<longleftrightarrow> td_enabled d \<and>
     (td_risk_level d = SAFE \<or>
      (\<exists>c. ctx = Some c \<and>
        (if td_managed d then tq_name rq \<in> set (tx_permitted_managed_tools c)
         else map_of (tx_allowed_confirm_tools c) (tq_name rq) = Some (JStr ''session'') \<or>
              argument_grant_matches (map_of (tx_allowed_confirm_tools c) (tq_name rq)) (tq_arguments rq))))"

lemma evaluate_allow_iff: "pd_outcome (evaluate_execution d rq ctx) = ALLOW \<longleftrightarrow> authorized d rq ctx"
  by (cases ctx) (auto simp: evaluate_execution_def authorized_def confirm_grant_def Let_def argument_grant_matches_def)

lemma evaluate_outcome_cases:
  "pd_outcome (evaluate_execution d rq ctx) =
     (if \<not> td_enabled d then DENY else if authorized d rq ctx then ALLOW else REQUIRE_APPROVAL)"
  by (cases ctx) (auto simp: evaluate_execution_def authorized_def confirm_grant_def Let_def argument_grant_matches_def)

text \<open>What is shown to an unattended run may be executed there without asking.\<close>

lemma safe_only_allows:
  assumes "can_expose d SAFE_ONLY granted (tx_permitted_managed_tools c)" and "td_name d = tq_name rq"
  shows "pd_outcome (evaluate_execution d rq (Some c)) = ALLOW"
proof -
  from assms(1) have "td_enabled d" "td_risk_level d = SAFE \<or> td_managed d \<and> td_name d \<in> set (tx_permitted_managed_tools c)"
    unfolding can_expose_def by (metis ToolExposurePolicy.distinct(2))+
  with assms(2) have "authorized d rq (Some c)" unfolding authorized_def by force
  then show ?thesis by (simp add: evaluate_allow_iff)
qed

text \<open>An approval authorizes exactly the call that was approved: same tool, and a superset of its arguments.\<close>

lemma authorize_once_grants:
  assumes "policy_authorize_once d rq ctx = Inr c"
  shows "td_name d = tq_name rq \<and> td_risk_level d \<noteq> SAFE \<and> td_enabled d \<and> \<not> authorized d rq ctx \<and>
    (if td_managed d then tq_name rq \<in> set (tx_permitted_managed_tools c)
     else map_of (tx_allowed_confirm_tools c) (tq_name rq) = Some (JObj (tq_arguments rq)))"
proof -
  let ?c = "case ctx of None \<Rightarrow> ToolExecutionContext_default | Some c \<Rightarrow> c"
  from assms have need: "pd_outcome (evaluate_execution d rq (Some ?c)) = REQUIRE_APPROVAL"
    and parts: "td_name d = tq_name rq" "td_risk_level d \<in> {CONFIRM, DANGEROUS}"
    by (simp_all add: policy_authorize_once_def Let_def split: if_splits)
  have "authorized d rq ctx \<Longrightarrow> authorized d rq (Some ?c)" using parts(2) by (cases ctx) (auto simp: authorized_def)
  with need have "td_enabled d" "\<not> authorized d rq ctx" by (auto simp: evaluate_outcome_cases split: if_splits)
  moreover from assms need parts have "c = (if td_managed d
      then ?c\<lparr>tx_allowed_confirm_tools := copy_valid_confirm_grants (tx_allowed_confirm_tools ?c),
              tx_permitted_managed_tools := tq_name rq # tx_permitted_managed_tools ?c\<rparr>
      else ?c\<lparr>tx_allowed_confirm_tools :=
              obj_set (tq_name rq) (JObj (tq_arguments rq)) (copy_valid_confirm_grants (tx_allowed_confirm_tools ?c))\<rparr>)"
    by (simp add: policy_authorize_once_def Let_def split: if_splits)
  then have "if td_managed d then tq_name rq \<in> set (tx_permitted_managed_tools c)
     else map_of (tx_allowed_confirm_tools c) (tq_name rq) = Some (JObj (tq_arguments rq))" by simp
  ultimately show ?thesis using parts by auto
qed

lemma authorize_once_allows:
  assumes "policy_authorize_once d rq ctx = Inr c" and "proper (JObj (tq_arguments rq))"
  shows "authorized d rq (Some c)"
  using authorize_once_grants [OF assms(1)] own_arguments_match [OF assms(2)] by (simp add: authorized_def split: if_splits)

end
