(* ===== verification/Python_Text.thy ===== *)
theory Python_Text
  imports Prelude
begin

text \<open>
  The parts of Python's \<open>str\<close> and \<open>int\<close> that the sources use. A text is a list of characters
  with codes below 256, for which the definitions are Python's own: white space, \<open>strip\<close>,
  \<open>lower\<close>, reading and writing decimal numerals. On such texts Unicode normalization (NFC) is
  the identity, since no composed or combining character is involved.
\<close>

definition py_space :: "char \<Rightarrow> bool" where
  "py_space c \<longleftrightarrow> of_char c \<in> {9, 10, 11, 12, 13, 28, 29, 30, 31, 32, 133, 160 :: nat}"

text \<open>\<open>str.strip()\<close>.\<close>

definition py_strip :: "string \<Rightarrow> string" where
  "py_strip s = rev (dropWhile py_space (rev (dropWhile py_space s)))"

text \<open>\<open>str.lower()\<close>: the letters of ASCII and of the Latin-1 supplement (215 is the
  multiplication sign).\<close>

definition lower_char :: "char \<Rightarrow> char" where
  "lower_char c =
     (let n = of_char c :: nat
      in if (65 \<le> n \<and> n \<le> 90) \<or> (192 \<le> n \<and> n \<le> 222 \<and> n \<noteq> 215) then char_of (n + 32) else c)"

definition py_lower :: "string \<Rightarrow> string" where
  "py_lower s = map lower_char s"

text \<open>\<open>unicodedata.normalize("NFC", s)\<close>.\<close>

definition nfc :: "string \<Rightarrow> string" where
  "nfc s = s"

section \<open>Numerals\<close>

definition digit_val :: "char \<Rightarrow> int option" where
  "digit_val c = (let n = of_char c :: int in if 48 \<le> n \<and> n \<le> 57 then Some (n - 48) else None)"

fun py_digits :: "int \<Rightarrow> bool \<Rightarrow> string \<Rightarrow> int option" where
  "py_digits acc after_digit [] = (if after_digit then Some acc else None)"
| "py_digits acc after_digit (c # cs) =
     (case digit_val c of
        Some d \<Rightarrow> py_digits (10 * acc + d) True cs
      | None \<Rightarrow> if c = CHR ''_'' \<and> after_digit then py_digits acc False cs else None)"

definition py_int_str :: "string \<Rightarrow> int option" where
  "py_int_str s =
     (case py_strip s of
        [] \<Rightarrow> None
      | c # cs \<Rightarrow>
          if c = CHR ''-'' then map_option uminus (py_digits 0 False cs)
          else if c = CHR ''+'' then py_digits 0 False cs
          else py_digits 0 False (c # cs))"

fun nat_digits :: "nat \<Rightarrow> string" where
  "nat_digits n = (if n < 10 then [char_of (48 + n)]
                   else nat_digits (n div 10) @ [char_of (48 + n mod 10)])"

declare nat_digits.simps [simp del]

text \<open>\<open>str(i)\<close>, and SQLite's \<open>CAST(i AS TEXT)\<close>.\<close>

definition int_text :: "int \<Rightarrow> string" where
  "int_text i = (if i < 0 then CHR ''-'' # nat_digits (nat (- i)) else nat_digits (nat i))"

section \<open>Stripping\<close>

lemma dropWhile_idem: "dropWhile P (dropWhile P xs) = dropWhile P xs"
  by (induction xs) auto

lemma dropWhile_rev_comm:
  "dropWhile P (rev (dropWhile P (rev (dropWhile P xs)))) = rev (dropWhile P (rev (dropWhile P xs)))"
proof (cases "dropWhile P xs")
  case (Cons y ys)
  then have "\<not> P y" by (metis hd_dropWhile list.distinct(1) list.sel(1))
  then show ?thesis unfolding Cons by (simp add: dropWhile_append3)
next
  case Nil
  then show ?thesis unfolding Nil by simp
qed

lemma py_strip_idem [simp]: "py_strip (py_strip s) = py_strip s"
  unfolding py_strip_def dropWhile_rev_comm by (simp add: dropWhile_idem)

text \<open>Python's \<open>x or y\<close> on optional strings.\<close>

definition py_or :: "string option \<Rightarrow> string option \<Rightarrow> string option" where
  "py_or a b = (if truthy a then a else b)"

end
