(* ===== verification/Budget.thy ===== *)
theory Budget
  imports Policy_Kernel Python_Text
begin

text \<open>
  The run budget (\<open>app/domain/budget.py\<close>, \<open>app/domain/budget_policy.py\<close>,
  \<open>app/application/budget_service.py\<close>): typed reservations, the policy that decides them
  against a snapshot of the account, the account that applies the decisions, and the service
  that keeps one account per run. Counts and tokens are \<open>int\<close>. Python's \<open>float\<close> and
  \<open>Decimal\<close> amounts are a type \<open>'f\<close> with an order, addition, subtraction and zero, and no
  law about them, so a theorem that does not ask for more holds for rounding arithmetic too;
  the integer \<open>max_wall_seconds\<close>, which the code compares with a float, is given in \<open>'f\<close>.
  Every account operation runs under the account's lock, hence atomically; the clock is an
  argument.
\<close>

section \<open>Value objects\<close>

datatype BudgetReserveKind = LLM_CALL | TOOL_CALL | SANDBOX_RESOURCE | WALL_TIME

record 'f BudgetConfig =
  bc_max_wall_seconds :: 'f
  bc_max_llm_calls :: int
  bc_max_tool_calls :: int
  bc_max_token_cost :: "int option"
  bc_max_usd_cost :: "'f option"
  bc_max_sandbox_seconds :: "'f option"
  bc_max_sandbox_cpu_seconds :: "'f option"
  bc_max_sandbox_memory_mb_seconds :: "'f option"
  bc_max_sandbox_callback_calls :: "int option"

record 'f BudgetState =
  bs_llm_calls_reserved :: int
  bs_tool_calls_reserved :: int
  bs_elapsed_seconds :: 'f
  bs_token_cost_reserved :: int
  bs_usd_cost_reserved :: 'f
  bs_sandbox_seconds_reserved :: 'f
  bs_sandbox_cpu_seconds_reserved :: 'f
  bs_sandbox_memory_mb_seconds_reserved :: 'f
  bs_sandbox_callback_calls_reserved :: int

record 'f SandboxReserveSpec =
  sb_max_seconds :: 'f
  sb_max_cpu_seconds :: 'f
  sb_max_memory_mb_seconds :: 'f
  sb_max_callback_calls :: int

text \<open>\<open>SandboxBudgetAllocation\<close> has the fields of the spec.\<close>

type_synonym 'f SandboxBudgetAllocation = "'f SandboxReserveSpec"

record 'f BudgetReserveRequest =
  bq_kind :: BudgetReserveKind
  bq_estimated_tokens :: int
  bq_estimated_usd_cost :: 'f
  bq_estimated_duration_seconds :: 'f
  bq_sandbox_spec :: "'f SandboxReserveSpec option"

record 'f BudgetReservationDecision =
  bd_outcome :: PolicyOutcome
  bd_reason :: string
  bd_kind :: BudgetReserveKind
  bd_estimated_tokens :: int
  bd_estimated_usd_cost :: 'f
  bd_estimated_duration_seconds :: 'f
  bd_sandbox_allocation :: "'f SandboxReserveSpec option"
  bd_reservation_id :: string
  bd_remaining_llm_calls :: "int option"
  bd_remaining_tool_calls :: "int option"
  bd_remaining_token_cost :: "int option"
  bd_remaining_usd_cost :: "'f option"

text \<open>A decision with the dataclass defaults.\<close>

definition reservation_decision ::
  "PolicyOutcome \<Rightarrow> string \<Rightarrow> BudgetReserveKind \<Rightarrow> 'f::zero BudgetReservationDecision" where
  "reservation_decision oc reason kind =
     \<lparr>bd_outcome = oc, bd_reason = reason, bd_kind = kind, bd_estimated_tokens = 0,
      bd_estimated_usd_cost = 0, bd_estimated_duration_seconds = 0, bd_sandbox_allocation = None,
      bd_reservation_id = '''', bd_remaining_llm_calls = None, bd_remaining_tool_calls = None,
      bd_remaining_token_cost = None, bd_remaining_usd_cost = None\<rparr>"

record 'f BudgetActualUsage =
  bu_token_cost :: "int option"
  bu_usd_cost :: "'f option"
  bu_duration_seconds :: "'f option"
  bu_sandbox_callback_count :: "int option"

record 'f BudgetSettleDecision =
  st_settled :: bool
  st_reason :: string
  st_reservation_id :: string
  st_consumed_tokens :: int
  st_consumed_usd_cost :: 'f
  st_consumed_duration_seconds :: 'f
  st_consumed_sandbox_callbacks :: int

record BudgetReleaseDecision =
  rl_released :: bool
  rl_reason :: string
  rl_reservation_id :: string

section \<open>BudgetPolicy\<close>

text \<open>A nullable limit: \<open>None\<close> never denies.\<close>

definition exceeds :: "'a::ord \<Rightarrow> 'a option \<Rightarrow> bool" where
  "exceeds projected limit = (case limit of None \<Rightarrow> False | Some l \<Rightarrow> l < projected)"

definition evaluate_llm_call ::
  "'f::{linorder,plus,minus,zero} BudgetConfig \<Rightarrow> 'f BudgetState \<Rightarrow> 'f BudgetReserveRequest
     \<Rightarrow> 'f BudgetReservationDecision" where
  "evaluate_llm_call cfg st rq =
     (if bs_llm_calls_reserved st + 1 > bc_max_llm_calls cfg
      then (reservation_decision DENY ''llm_calls_exhausted'' LLM_CALL)\<lparr>bd_remaining_llm_calls := Some 0\<rparr>
      else
      (let remaining_calls = bc_max_llm_calls cfg - bs_llm_calls_reserved st - 1;
           projected = bs_token_cost_reserved st + bq_estimated_tokens rq;
           remaining_token = map_option (\<lambda>m. m - projected) (bc_max_token_cost cfg)
       in if exceeds projected (bc_max_token_cost cfg)
          then (reservation_decision DENY ''token_cost_exhausted'' LLM_CALL)
                 \<lparr>bd_remaining_llm_calls := Some remaining_calls,
                  bd_remaining_token_cost :=
                    map_option (\<lambda>m. max (m - bs_token_cost_reserved st) 0) (bc_max_token_cost cfg)\<rparr>
          else
          (let projected_usd = bs_usd_cost_reserved st + bq_estimated_usd_cost rq in
           if exceeds projected_usd (bc_max_usd_cost cfg)
           then (reservation_decision DENY ''usd_cost_exhausted'' LLM_CALL)
                  \<lparr>bd_remaining_llm_calls := Some remaining_calls,
                   bd_remaining_token_cost := remaining_token\<rparr>
           else (reservation_decision ALLOW ''llm_call_allowed'' LLM_CALL)
                  \<lparr>bd_estimated_tokens := bq_estimated_tokens rq,
                   bd_estimated_usd_cost := bq_estimated_usd_cost rq,
                   bd_remaining_llm_calls := Some remaining_calls,
                   bd_remaining_token_cost := remaining_token,
                   bd_remaining_usd_cost := map_option (\<lambda>m. m - projected_usd) (bc_max_usd_cost cfg)\<rparr>)))"

definition evaluate_tool_call ::
  "'f::{linorder,plus,minus,zero} BudgetConfig \<Rightarrow> 'f BudgetState \<Rightarrow> 'f BudgetReserveRequest
     \<Rightarrow> 'f BudgetReservationDecision" where
  "evaluate_tool_call cfg st rq =
     (if bs_tool_calls_reserved st + 1 > bc_max_tool_calls cfg
      then (reservation_decision DENY ''tool_calls_exhausted'' TOOL_CALL)\<lparr>bd_remaining_tool_calls := Some 0\<rparr>
      else (reservation_decision ALLOW ''tool_call_allowed'' TOOL_CALL)
             \<lparr>bd_remaining_tool_calls := Some (bc_max_tool_calls cfg - bs_tool_calls_reserved st - 1)\<rparr>)"

definition evaluate_wall_time ::
  "'f::{linorder,plus,minus,zero} BudgetConfig \<Rightarrow> 'f BudgetState \<Rightarrow> 'f BudgetReserveRequest
     \<Rightarrow> 'f BudgetReservationDecision" where
  "evaluate_wall_time cfg st rq =
     (if bs_elapsed_seconds st + bq_estimated_duration_seconds rq > bc_max_wall_seconds cfg
      then (reservation_decision DENY ''wall_time_exceeded'' WALL_TIME)
             \<lparr>bd_estimated_duration_seconds := bq_estimated_duration_seconds rq\<rparr>
      else (reservation_decision ALLOW ''wall_time_allowed'' WALL_TIME)
             \<lparr>bd_estimated_duration_seconds := bq_estimated_duration_seconds rq\<rparr>)"

definition evaluate_sandbox ::
  "'f::{linorder,plus,minus,zero} BudgetConfig \<Rightarrow> 'f BudgetState \<Rightarrow> 'f BudgetReserveRequest
     \<Rightarrow> 'f BudgetReservationDecision" where
  "evaluate_sandbox cfg st rq =
     (case bq_sandbox_spec rq of
        None \<Rightarrow> reservation_decision DENY ''sandbox_spec_missing'' SANDBOX_RESOURCE
      | Some spec \<Rightarrow>
          if exceeds (bs_sandbox_seconds_reserved st + sb_max_seconds spec) (bc_max_sandbox_seconds cfg)
          then reservation_decision DENY ''sandbox_seconds_exhausted'' SANDBOX_RESOURCE
          else if exceeds (bs_sandbox_cpu_seconds_reserved st + sb_max_cpu_seconds spec)
                    (bc_max_sandbox_cpu_seconds cfg)
          then reservation_decision DENY ''sandbox_cpu_seconds_exhausted'' SANDBOX_RESOURCE
          else if exceeds (bs_sandbox_memory_mb_seconds_reserved st + sb_max_memory_mb_seconds spec)
                    (bc_max_sandbox_memory_mb_seconds cfg)
          then reservation_decision DENY ''sandbox_memory_exhausted'' SANDBOX_RESOURCE
          else if exceeds (bs_sandbox_callback_calls_reserved st + sb_max_callback_calls spec)
                    (bc_max_sandbox_callback_calls cfg)
          then reservation_decision DENY ''sandbox_callbacks_exhausted'' SANDBOX_RESOURCE
          else (reservation_decision ALLOW ''sandbox_resource_allowed'' SANDBOX_RESOURCE)
                 \<lparr>bd_sandbox_allocation := Some spec\<rparr>)"

definition evaluate_reserve ::
  "'f::{linorder,plus,minus,zero} BudgetConfig \<Rightarrow> 'f BudgetState \<Rightarrow> 'f BudgetReserveRequest
     \<Rightarrow> 'f BudgetReservationDecision" where
  "evaluate_reserve cfg st rq =
     (case bq_kind rq of
        LLM_CALL \<Rightarrow> evaluate_llm_call cfg st rq
      | TOOL_CALL \<Rightarrow> evaluate_tool_call cfg st rq
      | WALL_TIME \<Rightarrow> evaluate_wall_time cfg st rq
      | SANDBOX_RESOURCE \<Rightarrow> evaluate_sandbox cfg st rq)"

definition opt_default :: "'a option \<Rightarrow> 'a \<Rightarrow> 'a" where
  "opt_default x d = (case x of None \<Rightarrow> d | Some v \<Rightarrow> v)"

definition evaluate_settle ::
  "'f::{linorder,plus,minus,zero} BudgetReservationDecision \<Rightarrow> 'f BudgetActualUsage
     \<Rightarrow> 'f BudgetSettleDecision" where
  "evaluate_settle r u =
     \<lparr>st_settled = True, st_reason = ''settled'', st_reservation_id = bd_reservation_id r,
      st_consumed_tokens = opt_default (bu_token_cost u) (bd_estimated_tokens r),
      st_consumed_usd_cost = opt_default (bu_usd_cost u) (bd_estimated_usd_cost r),
      st_consumed_duration_seconds =
        (case (bu_duration_seconds u, bd_sandbox_allocation r) of
           (None, Some alloc) \<Rightarrow>
             if bd_estimated_duration_seconds r = 0 then sb_max_seconds alloc
             else bd_estimated_duration_seconds r
         | (None, None) \<Rightarrow> bd_estimated_duration_seconds r
         | (Some d, _) \<Rightarrow> d),
      st_consumed_sandbox_callbacks =
        (case bd_sandbox_allocation r of
           None \<Rightarrow> 0
         | Some alloc \<Rightarrow> opt_default (bu_sandbox_callback_count u) (sb_max_callback_calls alloc))\<rparr>"

definition evaluate_release :: "'f BudgetReservationDecision \<Rightarrow> BudgetReleaseDecision" where
  "evaluate_release r =
     \<lparr>rl_released = True, rl_reason = ''released'', rl_reservation_id = bd_reservation_id r\<rparr>"

section \<open>RunBudgetAccount\<close>

text \<open>
  The counters are the fields of a \<open>BudgetState\<close>; \<open>ac_pending\<close> is the insertion-ordered dict
  of unsettled reservations.
\<close>

record 'f RunBudgetAccount =
  ac_config :: "'f BudgetConfig"
  ac_state :: "'f BudgetState"
  ac_pending :: "(string \<times> 'f BudgetReservationDecision) list"
  ac_next_id :: nat
  ac_start_time :: 'f

definition new_account :: "'f::zero BudgetConfig \<Rightarrow> 'f RunBudgetAccount" where
  "new_account cfg =
     \<lparr>ac_config = cfg,
      ac_state = \<lparr>bs_llm_calls_reserved = 0, bs_tool_calls_reserved = 0, bs_elapsed_seconds = 0,
        bs_token_cost_reserved = 0, bs_usd_cost_reserved = 0, bs_sandbox_seconds_reserved = 0,
        bs_sandbox_cpu_seconds_reserved = 0, bs_sandbox_memory_mb_seconds_reserved = 0,
        bs_sandbox_callback_calls_reserved = 0\<rparr>,
      ac_pending = [], ac_next_id = 0, ac_start_time = 0\<rparr>"

definition reservation_name :: "nat \<Rightarrow> string" where
  "reservation_name n = ''r-'' @ nat_digits n"

definition apply_reserve ::
  "'f::{linorder,plus,minus,zero} BudgetReservationDecision \<Rightarrow> 'f BudgetState \<Rightarrow> 'f BudgetState" where
  "apply_reserve d st =
     (case bd_kind d of
        LLM_CALL \<Rightarrow>
          st\<lparr>bs_llm_calls_reserved := bs_llm_calls_reserved st + 1,
             bs_token_cost_reserved := bs_token_cost_reserved st + bd_estimated_tokens d,
             bs_usd_cost_reserved := bs_usd_cost_reserved st + bd_estimated_usd_cost d\<rparr>
      | TOOL_CALL \<Rightarrow> st\<lparr>bs_tool_calls_reserved := bs_tool_calls_reserved st + 1\<rparr>
      | SANDBOX_RESOURCE \<Rightarrow>
          (case bd_sandbox_allocation d of
             None \<Rightarrow> st
           | Some al \<Rightarrow>
               st\<lparr>bs_sandbox_seconds_reserved := bs_sandbox_seconds_reserved st + sb_max_seconds al,
                  bs_sandbox_cpu_seconds_reserved :=
                    bs_sandbox_cpu_seconds_reserved st + sb_max_cpu_seconds al,
                  bs_sandbox_memory_mb_seconds_reserved :=
                    bs_sandbox_memory_mb_seconds_reserved st + sb_max_memory_mb_seconds al,
                  bs_sandbox_callback_calls_reserved :=
                    bs_sandbox_callback_calls_reserved st + sb_max_callback_calls al\<rparr>)
      | WALL_TIME \<Rightarrow> st)"

definition apply_settle ::
  "'f::{linorder,plus,minus,zero} BudgetReservationDecision \<Rightarrow> 'f BudgetActualUsage
     \<Rightarrow> 'f BudgetState \<Rightarrow> 'f BudgetState" where
  "apply_settle r u st =
     (let s = evaluate_settle r u in
      if \<not> st_settled s then st
      else case bd_kind r of
        LLM_CALL \<Rightarrow>
          st\<lparr>bs_token_cost_reserved :=
               bs_token_cost_reserved st + (st_consumed_tokens s - bd_estimated_tokens r),
             bs_usd_cost_reserved :=
               bs_usd_cost_reserved st + (st_consumed_usd_cost s - bd_estimated_usd_cost r)\<rparr>
      | SANDBOX_RESOURCE \<Rightarrow>
          (case bd_sandbox_allocation r of
             None \<Rightarrow> st
           | Some al \<Rightarrow>
               st\<lparr>bs_sandbox_seconds_reserved :=
                    bs_sandbox_seconds_reserved st + (st_consumed_duration_seconds s - sb_max_seconds al),
                  bs_sandbox_callback_calls_reserved :=
                    bs_sandbox_callback_calls_reserved st +
                      (st_consumed_sandbox_callbacks s - sb_max_callback_calls al)\<rparr>)
      | _ \<Rightarrow> st)"

definition apply_release ::
  "'f::{linorder,plus,minus,zero} BudgetReservationDecision \<Rightarrow> 'f BudgetState \<Rightarrow> 'f BudgetState" where
  "apply_release r st =
     (if \<not> rl_released (evaluate_release r) then st
      else case bd_kind r of
        LLM_CALL \<Rightarrow>
          st\<lparr>bs_llm_calls_reserved := bs_llm_calls_reserved st - 1,
             bs_token_cost_reserved := bs_token_cost_reserved st - bd_estimated_tokens r,
             bs_usd_cost_reserved := bs_usd_cost_reserved st - bd_estimated_usd_cost r\<rparr>
      | TOOL_CALL \<Rightarrow> st\<lparr>bs_tool_calls_reserved := bs_tool_calls_reserved st - 1\<rparr>
      | SANDBOX_RESOURCE \<Rightarrow>
          (case bd_sandbox_allocation r of
             None \<Rightarrow> st
           | Some al \<Rightarrow>
               st\<lparr>bs_sandbox_seconds_reserved := bs_sandbox_seconds_reserved st - sb_max_seconds al,
                  bs_sandbox_cpu_seconds_reserved :=
                    bs_sandbox_cpu_seconds_reserved st - sb_max_cpu_seconds al,
                  bs_sandbox_memory_mb_seconds_reserved :=
                    bs_sandbox_memory_mb_seconds_reserved st - sb_max_memory_mb_seconds al,
                  bs_sandbox_callback_calls_reserved :=
                    bs_sandbox_callback_calls_reserved st - sb_max_callback_calls al\<rparr>)
      | WALL_TIME \<Rightarrow> st)"

definition account_reserve ::
  "'f::{linorder,plus,minus,zero} \<Rightarrow> 'f BudgetReserveRequest \<Rightarrow> 'f RunBudgetAccount
     \<Rightarrow> 'f RunBudgetAccount \<times> 'f BudgetReservationDecision" where
  "account_reserve now rq a =
     (let start = (if ac_start_time a = 0 then now else ac_start_time a);
          st = (if start > 0 then (ac_state a)\<lparr>bs_elapsed_seconds := now - start\<rparr> else ac_state a);
          a1 = a\<lparr>ac_start_time := start, ac_state := st\<rparr>;
          d = evaluate_reserve (ac_config a) st rq
      in if bd_outcome d = ALLOW then
           (let n = ac_next_id a + 1;
                d1 = d\<lparr>bd_reservation_id := reservation_name n\<rparr>
            in (a1\<lparr>ac_next_id := n, ac_state := apply_reserve d1 st,
                   ac_pending := ac_pending a @ [(reservation_name n, d1)]\<rparr>, d1))
         else (a1, d))"

definition account_settle ::
  "'f::{linorder,plus,minus,zero} BudgetReservationDecision \<Rightarrow> 'f BudgetActualUsage
     \<Rightarrow> 'f RunBudgetAccount \<Rightarrow> 'f RunBudgetAccount" where
  "account_settle r u a =
     (let rid = bd_reservation_id r in
      if rid \<notin> fst ` set (ac_pending a) then a
      else a\<lparr>ac_state := apply_settle r u (ac_state a),
             ac_pending := filter (\<lambda>p. fst p \<noteq> rid) (ac_pending a)\<rparr>)"

definition account_release ::
  "'f::{linorder,plus,minus,zero} BudgetReservationDecision \<Rightarrow> 'f RunBudgetAccount \<Rightarrow> 'f RunBudgetAccount" where
  "account_release r a =
     (let rid = bd_reservation_id r in
      if rid \<notin> fst ` set (ac_pending a) then a
      else a\<lparr>ac_state := apply_release r (ac_state a),
             ac_pending := filter (\<lambda>p. fst p \<noteq> rid) (ac_pending a)\<rparr>)"

definition account_close :: "'f::{linorder,plus,minus,zero} RunBudgetAccount \<Rightarrow> 'f RunBudgetAccount" where
  "account_close a =
     a\<lparr>ac_state := fold (\<lambda>p st. apply_release (snd p) st) (ac_pending a) (ac_state a), ac_pending := []\<rparr>"

section \<open>BudgetService\<close>

text \<open>
  The audit events and the denial counter are the service's outputs; recording them is best
  effort and never changes the answer.
\<close>

record 'f BudgetService =
  sv_config :: "'f BudgetConfig"
  sv_accounts :: "string \<rightharpoonup> 'f RunBudgetAccount"
  sv_audit :: "(string \<times> string \<times> PolicyOutcome) list"
  sv_denied :: "string list"

definition BUDGET_DENIED_KIND_LABELS :: "BudgetReserveKind \<Rightarrow> string" where
  "BUDGET_DENIED_KIND_LABELS k =
     (case k of LLM_CALL \<Rightarrow> ''llm_denied'' | TOOL_CALL \<Rightarrow> ''budget_exhausted''
      | SANDBOX_RESOURCE \<Rightarrow> ''sandbox_denied'' | WALL_TIME \<Rightarrow> ''budget_exhausted'')"

definition get_or_create_account :: "string \<Rightarrow> 'f::zero BudgetService \<Rightarrow> 'f RunBudgetAccount" where
  "get_or_create_account run_id sv =
     (case sv_accounts sv run_id of None \<Rightarrow> new_account (sv_config sv) | Some a \<Rightarrow> a)"

definition budget_open :: "string \<Rightarrow> 'f::zero BudgetConfig option \<Rightarrow> 'f BudgetService \<Rightarrow> 'f BudgetService" where
  "budget_open run_id cfg sv =
     (case sv_accounts sv run_id of
        Some _ \<Rightarrow> sv
      | None \<Rightarrow> sv\<lparr>sv_accounts := (sv_accounts sv)(run_id \<mapsto> new_account (opt_default cfg (sv_config sv)))\<rparr>)"

definition budget_reserve ::
  "'f::{linorder,plus,minus,zero} \<Rightarrow> string \<Rightarrow> 'f BudgetReserveRequest \<Rightarrow> 'f BudgetService
     \<Rightarrow> 'f BudgetService \<times> 'f BudgetReservationDecision" where
  "budget_reserve now run_id rq sv =
     (let (a, d) = account_reserve now rq (get_or_create_account run_id sv);
          sv1 = sv\<lparr>sv_accounts := (sv_accounts sv)(run_id \<mapsto> a),
                   sv_audit := sv_audit sv @ [(run_id, bd_reason d, bd_outcome d)]\<rparr>
      in (if bd_outcome d = DENY
          then sv1\<lparr>sv_denied := sv_denied sv1 @ [BUDGET_DENIED_KIND_LABELS (bd_kind d)]\<rparr> else sv1, d))"

definition with_account ::
  "string \<Rightarrow> ('f RunBudgetAccount \<Rightarrow> 'f RunBudgetAccount) \<Rightarrow> 'f BudgetService \<Rightarrow> 'f BudgetService" where
  "with_account run_id f sv =
     (case sv_accounts sv run_id of
        None \<Rightarrow> sv
      | Some a \<Rightarrow> sv\<lparr>sv_accounts := (sv_accounts sv)(run_id \<mapsto> f a)\<rparr>)"

definition budget_settle ::
  "string \<Rightarrow> 'f::{linorder,plus,minus,zero} BudgetReservationDecision \<Rightarrow> 'f BudgetActualUsage
     \<Rightarrow> 'f BudgetService \<Rightarrow> 'f BudgetService" where
  "budget_settle run_id r u = with_account run_id (account_settle r u)"

definition budget_release ::
  "string \<Rightarrow> 'f::{linorder,plus,minus,zero} BudgetReservationDecision \<Rightarrow> 'f BudgetService \<Rightarrow> 'f BudgetService" where
  "budget_release run_id r = with_account run_id (account_release r)"

definition budget_close :: "string \<Rightarrow> 'f BudgetService \<Rightarrow> 'f BudgetService" where
  "budget_close run_id sv = sv\<lparr>sv_accounts := (sv_accounts sv)(run_id := None)\<rparr>"

definition budget_get_state :: "string \<Rightarrow> 'f BudgetService \<Rightarrow> 'f BudgetState option" where
  "budget_get_state run_id sv = map_option ac_state (sv_accounts sv run_id)"

end
