(* ===== verification/Redaction.thy ===== *)
theory Redaction
  imports Python_Text
begin

text \<open>
  Searching and replacing in texts, as Python's \<open>in\<close> and \<open>str.replace\<close> do, and the facts on which
  the redaction of secrets rests: replacing by a token that no secret overlaps removes every
  occurrence, creates none, and can be done piece by piece.
\<close>

section \<open>Searching and replacing\<close>

text \<open>\<open>s in t\<close>.\<close>

fun py_in :: "string \<Rightarrow> string \<Rightarrow> bool" where
  "py_in s [] = (s = [])"
| "py_in s (c # cs) = (prefix s (c # cs) \<or> py_in s cs)"

text \<open>\<open>t.replace(old, new)\<close> for a non-empty \<open>old\<close>: occurrences are taken from the left and do not
  overlap.\<close>

function py_replace :: "string \<Rightarrow> string \<Rightarrow> string \<Rightarrow> string" where
  "py_replace old new [] = []"
| "py_replace old new (c # cs) =
     (if old \<noteq> [] \<and> prefix old (c # cs) then new @ py_replace old new (drop (length old) (c # cs))
      else c # py_replace old new cs)"
  by pat_completeness auto
termination
  by (relation "measure (\<lambda>(old, new, t). length t)") auto

lemma py_in_sublist: "py_in s t \<longleftrightarrow> sublist s t"
  by (induction s t rule: py_in.induct) (simp_all add: sublist_Cons_right)

lemma py_in_append: "py_in s t \<Longrightarrow> py_in s (u @ t @ v)"
  unfolding py_in_sublist by (meson sublist_appendI sublist_order.order_trans)

section \<open>Replacing by a token\<close>

text \<open>
  \<open>token_safe tok s\<close>: no occurrence of \<open>s\<close> overlaps the token, in whatever text it stands: \<open>s\<close>
  has neither the first nor the last character of the token and does not occur in it.
\<close>

definition token_safe :: "string \<Rightarrow> string \<Rightarrow> bool" where
  "token_safe tok s \<longleftrightarrow> s \<noteq> [] \<and> tok \<noteq> [] \<and> hd tok \<notin> set s \<and> last tok \<notin> set s \<and> \<not> py_in s tok"

text \<open>A text split around the token: occurrences are on one side.\<close>

lemma occurrence_before:
  assumes "a \<notin> set s" and "py_in s (x @ a # y)"
  shows "py_in s x \<or> py_in s y"
proof -
  consider "py_in s x" | "py_in s (a # y)" | p q where "s = p @ q" "suffix p x" "prefix q (a # y)"
    using assms(2) by (auto simp: py_in_sublist sublist_append)
  then show ?thesis
  proof cases
    case 2
    with assms(1) show ?thesis by (cases s) (auto simp: py_in_sublist sublist_Cons_right)
  next
    case 3
    with assms(1) have "q = []" by (cases q) auto
    with 3 show ?thesis by (simp add: py_in_sublist suffix_imp_sublist)
  qed simp
qed

lemma occurrence_around_token:
  assumes "token_safe tok s" and "py_in s (x @ tok @ y)"
  shows "py_in s x \<or> py_in s y"
proof -
  obtain a w where tok: "tok = a # w" using assms(1) by (cases tok) (auto simp: token_safe_def)
  have "a \<notin> set s" using assms(1) by (simp add: token_safe_def tok)
  with assms(2) have "py_in s x \<or> py_in s (w @ y)"
    using occurrence_before [of a s x "w @ y"] by (simp add: tok)
  moreover have "py_in s y" if "py_in s (w @ y)"
  proof (cases w rule: rev_cases)
    case Nil
    with that show ?thesis by simp
  next
    case (snoc v b)
    then have "b \<notin> set s" "\<not> py_in s tok" using assms(1) by (auto simp: token_safe_def tok)
    moreover have "py_in s v \<or> py_in s y"
      using occurrence_before [of b s v y] that snoc \<open>b \<notin> set s\<close> by simp
    moreover have "py_in s v \<Longrightarrow> py_in s tok"
      using py_in_append [of s v "[a]" "[b]"] by (simp add: tok snoc)
    ultimately show ?thesis by blast
  qed
  ultimately show ?thesis by blast
qed

text \<open>Replacing removes the secret, and creates no other one.\<close>

lemma prefix_decomp: "old \<noteq> [] \<Longrightarrow> prefix old t \<Longrightarrow> t = old @ drop (length old) t"
  by (auto simp: prefix_def)

text \<open>
  The result of a replacement is the text up to the first occurrence, unchanged, and from there
  on a text that starts with the token.
\<close>

lemma replace_shape:
  "\<exists>u v. py_replace s tok t = u @ v \<and> prefix u t \<and> (v = [] \<and> u = t \<or> prefix tok v)"
proof (induction s tok t rule: py_replace.induct)
  case (2 s tok c cs)
  show ?case
  proof (cases "s \<noteq> [] \<and> prefix s (c # cs)")
    case True
    then have "py_replace s tok (c # cs) = [] @ (tok @ py_replace s tok (drop (length s) (c # cs)))" by simp
    then show ?thesis by (metis Nil_prefix prefixI)
  next
    case False
    with 2(2) obtain u v where uv: "py_replace s tok cs = u @ v" "prefix u cs" "v = [] \<and> u = cs \<or> prefix tok v"
      by blast
    with False have "py_replace s tok (c # cs) = (c # u) @ v" by auto
    with uv show ?thesis by (metis Cons_prefix_Cons)
  qed
qed simp

lemma replace_at_prefix:
  "s \<noteq> [] \<Longrightarrow> prefix s t \<Longrightarrow> py_replace s tok t = tok @ py_replace s tok (drop (length s) t)"
  by (cases t) auto

lemma no_prefix_into_token:
  assumes "token_safe tok s" and "prefix tok v" and "\<not> prefix s w"
  shows "\<not> prefix s (w @ v)"
proof
  assume "prefix s (w @ v)"
  with assms(3) obtain us where us: "s = w @ us" "prefix us v" by (auto simp: prefix_append)
  with assms(3) have "us \<noteq> []" by auto
  moreover have "v \<noteq> []" "hd v = hd tok" using assms(1,2) by (auto simp: prefix_def token_safe_def)
  ultimately have "hd tok \<in> set us" using us(2) by (cases us) (auto simp: prefix_def)
  with us(1) assms(1) show False by (simp add: token_safe_def)
qed

lemma replace_removes:
  assumes "token_safe tok s"
  shows "\<not> py_in s (py_replace s tok t)"
  using assms
proof (induction s tok t rule: py_replace.induct)
  case (2 s tok c cs)
  show ?case
  proof (cases "prefix s (c # cs)")
    case True
    have "s \<noteq> []" using 2(3) by (simp add: token_safe_def)
    with True have eq: "py_replace s tok (c # cs) = [] @ tok @ py_replace s tok (drop (length s) (c # cs))" by simp
    have "\<not> py_in s (py_replace s tok (drop (length s) (c # cs)))"
      using 2(1) True \<open>s \<noteq> []\<close> 2(3) by blast
    moreover have "\<not> py_in s []" using \<open>s \<noteq> []\<close> by simp
    ultimately show ?thesis unfolding eq using occurrence_around_token [OF 2(3)] by blast
  next
    case False
    then have rep: "py_replace s tok (c # cs) = c # py_replace s tok cs" by simp
    obtain u v where uv: "py_replace s tok cs = u @ v" "prefix u cs" "v = [] \<and> u = cs \<or> prefix tok v"
      using replace_shape by blast
    have "\<not> prefix s ((c # u) @ v)"
    proof (cases "v = [] \<and> u = cs")
      case False
      then have "prefix tok v" using uv(3) by blast
      moreover have "\<not> prefix s (c # u)"
        using \<open>\<not> prefix s (c # cs)\<close> uv(2) prefix_order.trans [of s "c # u" "c # cs"] by auto
      ultimately show ?thesis by (intro no_prefix_into_token [OF 2(3)])
    qed (use False in simp)
    moreover have "\<not> py_in s (py_replace s tok cs)"
      using 2(2) False 2(3) by blast
    ultimately show ?thesis unfolding rep uv(1) by simp
  qed
qed (simp add: token_safe_def)

lemma replace_creates_none:
  assumes "token_safe tok s'" and "\<not> py_in s' t"
  shows "\<not> py_in s' (py_replace s tok t)"
  using assms
proof (induction s tok t rule: py_replace.induct)
  case (2 s tok c cs)
  have s': "s' \<noteq> []" using 2(3) by (simp add: token_safe_def)
  show ?case
  proof (cases "s \<noteq> [] \<and> prefix s (c # cs)")
    case True
    then have eq: "py_replace s tok (c # cs) = [] @ tok @ py_replace s tok (drop (length s) (c # cs))" by simp
    have "\<not> py_in s' (drop (length s) (c # cs))"
      using 2(4) py_in_append [of s' "drop (length s) (c # cs)" "take (length s) (c # cs)" "[]"] by auto
    then have "\<not> py_in s' (py_replace s tok (drop (length s) (c # cs)))"
      using 2(1) True 2(3) by blast
    then show ?thesis unfolding eq using occurrence_around_token [OF 2(3)] s' by fastforce
  next
    case False
    then have rep: "py_replace s tok (c # cs) = c # py_replace s tok cs" by auto
    obtain u v where uv: "py_replace s tok cs = u @ v" "prefix u cs" "v = [] \<and> u = cs \<or> prefix tok v"
      using replace_shape by blast
    have "\<not> prefix s' ((c # u) @ v)"
    proof (cases "v = [] \<and> u = cs")
      case False
      then have "prefix tok v" using uv(3) by blast
      moreover have "\<not> prefix s' (c # u)"
        using 2(4) uv(2) prefix_order.trans [of s' "c # u" "c # cs"] by auto
      ultimately show ?thesis by (intro no_prefix_into_token [OF 2(3)])
    qed (use 2(4) in simp)
    moreover have "\<not> py_in s' (py_replace s tok cs)"
      using 2(2) False 2(3,4) by auto
    ultimately show ?thesis unfolding rep uv(1) by simp
  qed
qed simp

section \<open>Replacing piece by piece\<close>

lemma replace_append_no_start:
  assumes "\<And>i. i < length p \<Longrightarrow> \<not> prefix s (drop i (p @ w))"
  shows "py_replace s tok (p @ w) = p @ py_replace s tok w"
  using assms
proof (induction p)
  case (Cons c p)
  have "\<not> prefix s (drop i (p @ w))" if "i < length p" for i
    using Cons.prems [of "Suc i"] that by simp
  moreover have "\<not> prefix s (c # p @ w)" using Cons.prems [of 0] by simp
  ultimately show ?case using Cons.IH by simp
qed simp

lemma no_start_in_token:
  assumes "token_safe tok s" and "i < length tok"
  shows "\<not> prefix s (drop i (tok @ w))"
proof
  assume p: "prefix s (drop i (tok @ w))"
  then have p: "prefix s (drop i tok @ w)" using assms(2) by simp
  have "last tok \<in> set (drop i tok)"
    using assms(2) last_in_set [of "drop i tok"] by simp
  from p consider "prefix s (drop i tok)" | us where "s = drop i tok @ us"
    by (auto simp: prefix_append)
  then show False
  proof cases
    case 1
    then have "py_in s tok"
      using py_in_append [of s "drop i tok" "take i tok" "[]"] by (auto simp: py_in_sublist)
    with assms(1) show False by (simp add: token_safe_def)
  next
    case 2
    with \<open>last tok \<in> set (drop i tok)\<close> assms(1) show False by (simp add: token_safe_def)
  qed
qed

lemma replace_no_occurrence: "\<not> py_in s t \<Longrightarrow> py_replace s tok t = t"
  by (induction s tok t rule: py_replace.induct) auto

lemma replace_twice:
  assumes "token_safe tok s"
  shows "py_replace s tok (py_replace s tok x @ y) = py_replace s tok (x @ y)"
  using assms
proof (induction s tok x rule: py_replace.induct)
  case (2 s tok c cs)
  have s: "s \<noteq> []" using 2(3) by (simp add: token_safe_def)
  show ?case
  proof (cases "prefix s (c # cs)")
    case True
    let ?rest = "drop (length s) (c # cs)"
    have "py_replace s tok (py_replace s tok (c # cs) @ y) = py_replace s tok (tok @ py_replace s tok ?rest @ y)"
      using True s by simp
    also have "\<dots> = tok @ py_replace s tok (py_replace s tok ?rest @ y)"
      using no_start_in_token [OF 2(3)] by (intro replace_append_no_start)
    also have "\<dots> = tok @ py_replace s tok (?rest @ y)"
      using 2(1) True s 2(3) by simp
    also have "\<dots> = py_replace s tok ((c # cs) @ y)"
    proof -
      have "drop (length s) ((c # cs) @ y) = ?rest @ y"
        using prefix_length_le [OF True] by (simp only: drop_append) simp
      then show ?thesis using replace_at_prefix [OF s prefix_prefix [OF True], of tok y] by (simp only:)
    qed
    finally show ?thesis .
  next
    case False
    then have rep: "py_replace s tok (c # cs) = c # py_replace s tok cs" by simp
    show ?thesis
    proof (cases "py_in s (c # cs)")
      case False
      then show ?thesis using replace_no_occurrence by simp
    next
      case True
      obtain u v where uv: "py_replace s tok cs = u @ v" "prefix u cs" "v = [] \<and> u = cs \<or> prefix tok v"
        using replace_shape by blast
      have long: "length s \<le> length cs"
        using True False by (auto simp: py_in_sublist sublist_Cons_right dest: sublist_length_le)
      have "\<not> prefix s (c # cs @ y)"
      proof
        assume "prefix s (c # cs @ y)"
        then have "prefix s (c # cs)" using long by (metis append_Cons le_SucI length_Cons prefixI prefix_length_prefix)
        with False show False by simp
      qed
      moreover have "\<not> prefix s (c # py_replace s tok cs @ y)"
      proof
        assume p: "prefix s (c # py_replace s tok cs @ y)"
        have "\<not> py_in s (py_replace s tok (c # cs))" by (rule replace_removes [OF 2(3)])
        then have "\<not> prefix s (c # u @ v)" unfolding rep uv(1) by simp
        moreover have "v \<noteq> []"
        proof
          assume "v = []"
          with uv(3) True False 2(3) replace_removes [OF 2(3), of cs] uv(1) show False
            by (auto simp: token_safe_def)
        qed
        then have "hd tok \<in> set (u @ v)" using uv(3) 2(3) by (auto simp: token_safe_def prefix_def)
        ultimately have "hd tok \<in> set s"
          using p unfolding uv(1) by (auto simp: prefix_def append_eq_append_conv2 Cons_eq_append_conv)
        with 2(3) show False by (simp add: token_safe_def)
      qed
      ultimately show ?thesis using 2(2) False 2(3) by simp
    qed
  qed
qed simp

end
