(* ===== verification/Information_Flow.thy ===== *)
theory Information_Flow
  imports Redaction Policy_Kernel
begin

text \<open>
  Information flow: the domain types and redaction helpers (\<open>app/domain/information_flow.py\<close>), the
  release policy (\<open>app/domain/information_flow_policy.py\<close>) and the application service with its
  stream guard (\<open>app/application/information_flow_service.py\<close>). A frozen set of texts is a list,
  in the order in which iterating over the set yields its members. The application's configuration
  record has the fields of the domain's and is the same record here; the audit of a decision is
  fire-and-forget and changes nothing. Structured data are JSON values.
\<close>

section \<open>Domain types\<close>

datatype Classification = PUBLIC | INTERNAL | SENSITIVE | SECRET

datatype ReleaseTarget =
    LLM_PROVIDER | TOOL_MCP_PLUGIN | EXTERNAL_MEMORY | GATEWAY | OBSERVATION_LOG | USAGE_RETENTION
  | LLM_PAYLOAD_LOG | CLIENT_RESPONSE | PUBLIC_ARTIFACT | PARENT | AGGREGATOR_INPUT

fun Classification_value :: "Classification \<Rightarrow> string" where
  "Classification_value PUBLIC = ''public''"
| "Classification_value INTERNAL = ''internal''"
| "Classification_value SENSITIVE = ''sensitive''"
| "Classification_value SECRET = ''secret''"

fun ReleaseTarget_value :: "ReleaseTarget \<Rightarrow> string" where
  "ReleaseTarget_value LLM_PROVIDER = ''llm_provider''"
| "ReleaseTarget_value TOOL_MCP_PLUGIN = ''tool_mcp_plugin''"
| "ReleaseTarget_value EXTERNAL_MEMORY = ''external_memory''"
| "ReleaseTarget_value GATEWAY = ''gateway''"
| "ReleaseTarget_value OBSERVATION_LOG = ''observation_log''"
| "ReleaseTarget_value USAGE_RETENTION = ''usage_retention''"
| "ReleaseTarget_value LLM_PAYLOAD_LOG = ''llm_payload_log''"
| "ReleaseTarget_value CLIENT_RESPONSE = ''client_response''"
| "ReleaseTarget_value PUBLIC_ARTIFACT = ''public_artifact''"
| "ReleaseTarget_value PARENT = ''parent''"
| "ReleaseTarget_value AGGREGATOR_INPUT = ''aggregator_input''"

definition DEFAULT_CREDENTIAL_FIELD_NAMES :: "string list" where
  "DEFAULT_CREDENTIAL_FIELD_NAMES =
     [''api_key'', ''credential'', ''password'', ''secret'', ''token'', ''authorization'']"

record SecretCatalog =
  sc_secret_values :: "string list"
  sc_credential_field_names :: "string list"

definition max_secret_length :: "SecretCatalog \<Rightarrow> nat" where
  "max_secret_length c =
     (let lengths = map length (filter (\<lambda>s. s \<noteq> []) (sc_secret_values c))
      in if lengths = [] then 0 else Max (set lengths))"

definition has_secrets :: "SecretCatalog \<Rightarrow> bool" where
  "has_secrets c \<longleftrightarrow> list_ex (\<lambda>s. s \<noteq> []) (sc_secret_values c)"

record InformationFlowConfig =
  if_log_llm_payloads :: bool
  if_store_usage_payloads :: bool
  if_redact_secrets :: bool

record InformationAsset =
  ia_classification :: Classification
  ia_origin :: string
  ia_labels :: "string list"
  ia_content :: string

record InformationReleaseDecision =
  rd_verdict :: PolicyOutcome
  rd_transform :: "string option"
  rd_allowed_fields :: "string list"
  rd_retention :: string
  rd_audit_level :: string
  rd_reason :: string

text \<open>\<open>__post_init__\<close>.\<close>

definition InformationReleaseDecision_new ::
  "PolicyOutcome \<Rightarrow> string option \<Rightarrow> string \<Rightarrow> string \<Rightarrow> string \<Rightarrow> policy_error + InformationReleaseDecision" where
  "InformationReleaseDecision_new verdict transform retention audit reason =
     (if verdict \<notin> {ALLOW, DENY}
      then Inl (ValueError ''InformationReleaseDecision verdict must be ALLOW or DENY'')
      else if reason = [] then Inl (ValueError ''InformationReleaseDecision reason must not be empty'')
      else Inr \<lparr>rd_verdict = verdict, rd_transform = transform, rd_allowed_fields = [],
                rd_retention = retention, rd_audit_level = audit, rd_reason = reason\<rparr>)"

definition STABLE_CODE :: string where
  "STABLE_CODE = ''information_release_denied''"

section \<open>Redaction\<close>

definition REDACTED :: string where
  "REDACTED = ''[REDACTED]''"

definition redact_one :: "string \<Rightarrow> string \<Rightarrow> string" where
  "redact_one secret result =
     (if secret \<noteq> [] \<and> py_in secret result then py_replace secret REDACTED result else result)"

text \<open>\<open>sorted(..., key=len, reverse=True)\<close> keeps the order of secrets of the same length.\<close>

definition redact_secret_values :: "string \<Rightarrow> SecretCatalog \<Rightarrow> string" where
  "redact_secret_values text c =
     (if sc_secret_values c = [] then text
      else fold redact_one (sort_key (\<lambda>s. - int (length s)) (sc_secret_values c)) text)"

fun redact_structured :: "SecretCatalog \<Rightarrow> json \<Rightarrow> json" where
  "redact_structured c (JObj kvs) =
     JObj (map (\<lambda>(key, value).
       (key, if py_lower key \<in> set (map py_lower (sc_credential_field_names c)) then JStr REDACTED
             else case value of
               JObj _ \<Rightarrow> redact_structured c value
             | JList _ \<Rightarrow> redact_structured c value
             | JStr s \<Rightarrow> JStr (redact_secret_values s c)
             | _ \<Rightarrow> value)) kvs)"
| "redact_structured c (JList xs) = JList (map (redact_structured c) xs)"
| "redact_structured c (JStr s) = JStr (redact_secret_values s c)"
| "redact_structured c data = data"

section \<open>The policy\<close>

definition contains_secret_value :: "SecretCatalog \<Rightarrow> string \<Rightarrow> bool" where
  "contains_secret_value c content \<longleftrightarrow> list_ex (\<lambda>s. s \<noteq> [] \<and> py_in s content) (sc_secret_values c)"

text \<open>The decision of a literal, non-empty reason.\<close>

definition release_decision ::
  "PolicyOutcome \<Rightarrow> string option \<Rightarrow> string \<Rightarrow> string \<Rightarrow> string \<Rightarrow> InformationReleaseDecision" where
  "release_decision verdict transform retention audit reason =
     \<lparr>rd_verdict = verdict, rd_transform = transform, rd_allowed_fields = [], rd_retention = retention,
      rd_audit_level = audit, rd_reason = reason\<rparr>"

definition evaluate_release ::
  "InformationFlowConfig \<Rightarrow> SecretCatalog \<Rightarrow> InformationAsset \<Rightarrow> ReleaseTarget \<Rightarrow> InformationReleaseDecision" where
  "evaluate_release cfg c asset target =
     (let needs_redaction = contains_secret_value c (ia_content asset) \<or> ''secret'' \<in> set (ia_labels asset) in
      if target = LLM_PAYLOAD_LOG then
        (if \<not> if_log_llm_payloads cfg
         then release_decision DENY None ''none'' ''summary'' ''llm_payload_log_disabled_by_config''
         else if needs_redaction then
           (if if_redact_secrets cfg
            then release_decision ALLOW (Some ''redaction'') ''sanitized'' ''summary'' ''llm_payload_log_secret_redacted''
            else release_decision DENY None ''none'' ''summary'' ''secret_no_transform_available'')
         else release_decision ALLOW None ''raw'' ''full'' ''llm_payload_log_enabled_no_secrets'')
      else if target = USAGE_RETENTION then
        (if \<not> if_store_usage_payloads cfg
         then release_decision DENY None ''none'' ''summary'' ''usage_storage_disabled_by_config''
         else if needs_redaction then
           (if if_redact_secrets cfg
            then release_decision ALLOW (Some ''redaction'') ''sanitized'' ''summary'' ''usage_retention_secret_redacted''
            else release_decision DENY None ''none'' ''summary'' ''usage_retention_secret_denied'')
         else release_decision ALLOW None ''sanitized'' ''summary'' ''usage_retention_no_secrets'')
      else if target = PUBLIC_ARTIFACT then
        (if ia_classification asset \<in> {SECRET, SENSITIVE}
         then release_decision DENY None ''none'' ''summary''
                (''public_artifact_'' @ Classification_value (ia_classification asset) @ ''_classification_denied'')
         else if needs_redaction then
           (if if_redact_secrets cfg
            then release_decision ALLOW (Some ''redaction'') ''sanitized'' ''summary'' ''public_artifact_secret_redacted''
            else release_decision DENY None ''none'' ''summary'' ''public_artifact_secret_no_transform_available'')
         else release_decision ALLOW None ''raw'' ''summary''
                (''public_artifact_'' @ Classification_value (ia_classification asset) @ ''_no_secrets''))
      else if target \<in> {PARENT, AGGREGATOR_INPUT} then
        (if ia_classification asset = SECRET
         then release_decision DENY None ''none'' ''summary''
                (ReleaseTarget_value target @ ''_secret_classification_denied'')
         else if needs_redaction then
           (if if_redact_secrets cfg
            then release_decision ALLOW (Some ''redaction'') ''sanitized'' ''summary''
                   (ReleaseTarget_value target @ ''_secret_redacted'')
            else release_decision DENY None ''none'' ''summary''
                   (ReleaseTarget_value target @ ''_secret_no_transform_available''))
         else release_decision ALLOW None ''raw'' ''summary''
                (ReleaseTarget_value target @ ''_'' @ Classification_value (ia_classification asset) @ ''_no_secrets''))
      else if needs_redaction then
        (if if_redact_secrets cfg
         then release_decision ALLOW (Some ''redaction'') ''sanitized'' ''summary'' ''secret_detected_redaction_applied''
         else release_decision DENY None ''none'' ''summary'' ''secret_no_transform_available'')
      else if ia_classification asset = INTERNAL
      then release_decision ALLOW None ''raw'' ''summary'' ''internal_no_secrets''
      else release_decision ALLOW None ''raw'' ''summary'' ''default_allow_no_secrets'')"

section \<open>The service\<close>

record ReleaseResult =
  rl_allowed :: bool
  rl_content :: "string option"
  rl_error :: "string option"
  rl_decision :: InformationReleaseDecision

record InformationFlowService =
  ifs_config :: InformationFlowConfig
  ifs_secrets :: SecretCatalog

text \<open>The attributes of the settings that are read, with \<open>getattr\<close>'s defaults when absent.\<close>

definition from_settings :: "bool option \<Rightarrow> bool option \<Rightarrow> bool option \<Rightarrow> string \<Rightarrow> InformationFlowService" where
  "from_settings log_payloads store_payloads redact api_key =
     \<lparr>ifs_config = \<lparr>if_log_llm_payloads = (case log_payloads of None \<Rightarrow> False | Some b \<Rightarrow> b),
                   if_store_usage_payloads = (case store_payloads of None \<Rightarrow> True | Some b \<Rightarrow> b),
                   if_redact_secrets = (case redact of None \<Rightarrow> True | Some b \<Rightarrow> b)\<rparr>,
      ifs_secrets = \<lparr>sc_secret_values = (if api_key \<noteq> [] then [api_key] else []),
                    sc_credential_field_names = DEFAULT_CREDENTIAL_FIELD_NAMES\<rparr>\<rparr>"

definition if_release ::
  "InformationFlowService \<Rightarrow> string \<Rightarrow> ReleaseTarget \<Rightarrow> Classification \<Rightarrow> string \<Rightarrow> string list \<Rightarrow> ReleaseResult" where
  "if_release s content target cls origin labels =
     (let asset = \<lparr>ia_classification = cls, ia_origin = origin, ia_labels = labels, ia_content = content\<rparr>;
          d = evaluate_release (ifs_config s) (ifs_secrets s) asset target
      in if rd_verdict d = ALLOW then
           (if rd_transform d = Some ''redaction''
            then \<lparr>rl_allowed = True, rl_content = Some (redact_secret_values content (ifs_secrets s)),
                   rl_error = None, rl_decision = d\<rparr>
            else \<lparr>rl_allowed = True, rl_content = Some content, rl_error = None, rl_decision = d\<rparr>)
         else \<lparr>rl_allowed = False, rl_content = None, rl_error = Some STABLE_CODE, rl_decision = d\<rparr>)"

definition if_redact_structured :: "InformationFlowService \<Rightarrow> json \<Rightarrow> json" where
  "if_redact_structured s data =
     (if \<not> if_redact_secrets (ifs_config s) then data else redact_structured (ifs_secrets s) data)"

section \<open>The stream guard\<close>

record StreamGuard =
  sg_secrets :: SecretCatalog
  sg_config :: InformationFlowConfig
  sg_lookbehind_size :: nat
  sg_buffer :: string

definition create_stream_guard :: "InformationFlowService \<Rightarrow> StreamGuard" where
  "create_stream_guard s =
     \<lparr>sg_secrets = ifs_secrets s, sg_config = ifs_config s,
      sg_lookbehind_size = max_secret_length (ifs_secrets s) - 1, sg_buffer = []\<rparr>"

definition guard_feed :: "string \<Rightarrow> StreamGuard \<Rightarrow> StreamGuard \<times> string" where
  "guard_feed chunk g =
     (let b0 = sg_buffer g @ chunk;
          b = (if if_redact_secrets (sg_config g) then redact_secret_values b0 (sg_secrets g) else b0)
      in if length b > sg_lookbehind_size g then
           (let n = length b - sg_lookbehind_size g in (g\<lparr>sg_buffer := drop n b\<rparr>, take n b))
         else (g\<lparr>sg_buffer := b\<rparr>, []))"

definition guard_flush :: "StreamGuard \<Rightarrow> StreamGuard \<times> string" where
  "guard_flush g = (g\<lparr>sg_buffer := []\<rparr>, sg_buffer g)"

text \<open>The chunks that \<open>transform\<close> yields: only non-empty ones.\<close>

fun guard_transform :: "string list \<Rightarrow> StreamGuard \<Rightarrow> string list" where
  "guard_transform [] g = (let final = snd (guard_flush g) in if final \<noteq> [] then [final] else [])"
| "guard_transform (chunk # chunks) g =
     (let (g', emitted) = guard_feed chunk g
      in (if emitted \<noteq> [] then [emitted] else []) @ guard_transform chunks g')"

definition transform_structured :: "StreamGuard \<Rightarrow> json \<Rightarrow> json" where
  "transform_structured g data =
     (if \<not> if_redact_secrets (sg_config g) then data else redact_structured (sg_secrets g) data)"

end
