(* ===== verification/Tool_Service.thy ===== *)
theory Tool_Service
  imports Tool_Policy Budget Information_Flow
begin

text \<open>
  The tool service (\<open>app/application/tool_service.py\<close>) and the one exception to its redaction
  (\<open>app/application/host_terminal_capability.py\<close>). The service holds the static and the dynamic definitions, the
  evaluations that callers hold on to, and asks the tool policy, the budget and the information flow around every
  call of the executor. Dicts are association lists in insertion order. \<open>ts_calls\<close> is the history of the calls that
  reached the executor: the definition in force, the request as it was evaluated and as it was executed. The executor, its world, \<open>json.dumps\<close>, \<open>json.loads\<close> and \<open>urlsplit\<close> are parameters; the two
  ownership checks of a call are facts of the environment, since the registry of runs is another component.
\<close>

section \<open>The photo capability\<close>

text \<open>What the sources read of the result of \<open>urlsplit\<close>; reading the port raises \<open>ValueError\<close> when it is \<open>None\<close>.\<close>

record url_parts =
  url_scheme :: string
  url_hostname :: "string option"
  url_username :: "string option"
  url_password :: "string option"
  url_fragment :: string
  url_port :: "int option option"
  url_path :: string

fun is_photo_capability_request :: "json \<Rightarrow> bool" where
  "is_photo_capability_request (JObj args) \<longleftrightarrow>
     fst ` set args \<subseteq> {''target_type'', ''skill'', ''script'', ''args'', ''timeout''} \<and>
     {''target_type'', ''skill'', ''script'', ''args''} \<subseteq> fst ` set args \<and>
     map_of args ''target_type'' = Some (JStr ''skill_script'') \<and>
     map_of args ''skill'' = Some (JStr ''photo-and-upload'') \<and>
     map_of args ''script'' = Some (JStr ''scripts/photo-upload.py'') \<and>
     map_of args ''args'' = Some (JList []) \<and>
     (case map_of args ''timeout'' of None \<Rightarrow> True | Some (JInt n) \<Rightarrow> 1 \<le> n | _ \<Rightarrow> False)"
| "is_photo_capability_request j \<longleftrightarrow> False"

text \<open>\<open>None\<close>: \<open>urlsplit\<close> raises \<open>ValueError\<close>.\<close>

fun is_photo_capability_result :: "(string \<Rightarrow> url_parts option) \<Rightarrow> json \<Rightarrow> bool option" where
  "is_photo_capability_result urlsplit (JObj kvs) =
     (if fst ` set kvs \<noteq> {''capture_size'', ''upload_http'', ''signed_url''} then Some False
      else case (map_of kvs ''capture_size'', map_of kvs ''upload_http'', map_of kvs ''signed_url'') of
        (Some (JInt n), Some (JInt h), Some (JStr u)) \<Rightarrow>
          if n \<le> 0 \<or> \<not> (200 \<le> h \<and> h \<le> 299) then Some False
          else map_option (\<lambda>p. url_scheme p = ''https'' \<and> truthy (url_hostname p) \<and> url_username p = None \<and>
                 url_password p = None \<and> url_fragment p = []) (urlsplit u)
      | _ \<Rightarrow> Some False)"
| "is_photo_capability_result urlsplit j = Some False"

section \<open>The service\<close>

type_synonym definitions = "(string \<times> ToolDefinition) list"

record EvaluatedExecution =
  ee_definition :: ToolDefinition
  ee_request :: ToolCallRequest

record ToolApprovalSnapshot =
  tas_name :: string
  tas_description :: string
  tas_risk_level :: RiskLevel

record ToolExecutionEvaluation =
  tev_decision :: PolicyDecision
  tev_approval :: ToolApprovalSnapshot
  tev_token :: nat

record ('f, 'w) ToolService =
  ts_definitions :: definitions
  ts_dynamic_definitions :: "(string \<times> definitions) list"
  ts_suppressed_static_names :: "(string \<times> string list) list"
  ts_evaluated_executions :: "(nat \<times> EvaluatedExecution) list"
  ts_next_token :: nat
  ts_budget_service :: "'f BudgetService option"
  ts_information_flow_service :: "InformationFlowService option"
  ts_audit :: "(string \<times> string \<times> PolicyOutcome) list option"
  ts_world :: 'w
  ts_calls :: "(ToolDefinition \<times> ToolCallRequest \<times> ToolCallRequest) list"

fun validate_all :: "ToolDefinition list \<Rightarrow> tool_error + unit" where
  "validate_all [] = Inr ()"
| "validate_all (d # ds) = (case validate_definition d of Inl e \<Rightarrow> Inl e | Inr _ \<Rightarrow> validate_all ds)"

definition ToolService_init ::
  "ToolDefinition list \<Rightarrow> 'f BudgetService option \<Rightarrow> InformationFlowService option
     \<Rightarrow> (string \<times> string \<times> PolicyOutcome) list option \<Rightarrow> 'w \<Rightarrow> tool_error + ('f, 'w) ToolService" where
  "ToolService_init ds budget flow audit w =
     (case validate_all ds of
        Inl e \<Rightarrow> Inl e
      | Inr _ \<Rightarrow>
          Inr \<lparr>ts_definitions = fold (\<lambda>d. obj_set (td_name d) d) ds [], ts_dynamic_definitions = [],
               ts_suppressed_static_names = [], ts_evaluated_executions = [], ts_next_token = 0,
               ts_budget_service = budget, ts_information_flow_service = flow, ts_audit = audit, ts_world = w, ts_calls = []\<rparr>)"

definition object_schema :: "ToolDefinition \<Rightarrow> bool" where
  "object_schema d = (case td_input_schema d of JObj kvs \<Rightarrow> map_of kvs ''type'' = Some (JStr ''object'') | _ \<Rightarrow> False)"

definition keep_first :: "ToolDefinition list \<Rightarrow> definitions" where
  "keep_first ds = fold (\<lambda>d acc. if td_name d \<in> fst ` set acc then acc else acc @ [(td_name d, d)]) ds []"

definition replace_dynamic_definitions ::
  "string \<Rightarrow> ToolDefinition list \<Rightarrow> string list \<Rightarrow> ('f, 'w) ToolService \<Rightarrow> ('f, 'w) ToolService \<times> (tool_error + unit)" where
  "replace_dynamic_definitions source_key ds override s =
     (let deduplicated = keep_first (filter object_schema ds) in
      case validate_all (map snd deduplicated) of
        Inl e \<Rightarrow> (s, Inl e)
      | Inr _ \<Rightarrow>
          if \<not> set override \<subseteq> fst ` set deduplicated
          then (s, Inl (ToolValueError ''override_static_names missing candidate definitions''))
          else (let static = fst ` set (ts_definitions s);
                    kept = filter (\<lambda>p. fst p \<in> static \<longrightarrow> fst p \<in> set override) deduplicated;
                    suppressed = map fst (filter (\<lambda>p. fst p \<in> static \<and> fst p \<in> set override) deduplicated)
                in (s\<lparr>ts_dynamic_definitions := obj_set source_key kept (ts_dynamic_definitions s),
                      ts_suppressed_static_names := obj_set source_key suppressed (ts_suppressed_static_names s)\<rparr>, Inr ())))"

definition set_dynamic_definitions ::
  "string \<Rightarrow> ToolDefinition list \<Rightarrow> ('f, 'w) ToolService \<Rightarrow> ('f, 'w) ToolService \<times> (tool_error + unit)" where
  "set_dynamic_definitions source_key ds s = replace_dynamic_definitions source_key ds [] s"

definition is_suppressed_static :: "string \<Rightarrow> ('f, 'w) ToolService \<Rightarrow> bool" where
  "is_suppressed_static name s = list_ex (\<lambda>p. name \<in> set (snd p)) (ts_suppressed_static_names s)"

definition list_definitions :: "('f, 'w) ToolService \<Rightarrow> ToolDefinition list" where
  "list_definitions s =
     map snd (filter (\<lambda>p. \<not> is_suppressed_static (fst p) s) (ts_definitions s)) @
     concat (map (\<lambda>p. map snd (snd p)) (ts_dynamic_definitions s))"

definition build_filtered_definitions ::
  "string list option \<Rightarrow> string list option \<Rightarrow> ('f, 'w) ToolService \<Rightarrow> ToolDefinition list" where
  "build_filtered_definitions toolsets names s =
     filter (\<lambda>d. (case toolsets of None \<Rightarrow> True | Some ts \<Rightarrow> td_toolset d \<in> set ts) \<and>
                 (case names of None \<Rightarrow> True | Some ns \<Rightarrow> td_name d \<in> set ns)) (list_definitions s)"

fun first_dynamic :: "string \<Rightarrow> (string \<times> definitions) list \<Rightarrow> ToolDefinition option" where
  "first_dynamic name [] = None"
| "first_dynamic name ((source_key, dyn) # rest) =
     (case map_of dyn name of Some d \<Rightarrow> Some d | None \<Rightarrow> first_dynamic name rest)"

definition get_definition :: "string \<Rightarrow> ('f, 'w) ToolService \<Rightarrow> ToolDefinition option" where
  "get_definition name s =
     (case map_of (ts_definitions s) name of
        Some d \<Rightarrow> if \<not> is_suppressed_static name s then Some d else first_dynamic name (ts_dynamic_definitions s)
      | None \<Rightarrow> first_dynamic name (ts_dynamic_definitions s))"

datatype exposure = All_Tools | Of_Risk RiskLevel | Exposure ToolExposurePolicy

definition exposed :: "exposure \<Rightarrow> ToolExecutionContext option \<Rightarrow> ToolDefinition \<Rightarrow> bool" where
  "exposed e ctx d =
     (let granted = (case ctx of None \<Rightarrow> [] | Some c \<Rightarrow> tx_granted_tools c);
          permitted = (case ctx of None \<Rightarrow> [] | Some c \<Rightarrow> tx_permitted_managed_tools c)
      in case e of
           All_Tools \<Rightarrow> can_expose d DEFAULT granted permitted
         | Of_Risk SAFE \<Rightarrow> can_expose d SAFE_ONLY granted permitted
         | Exposure p \<Rightarrow> can_expose d p granted permitted
         | Of_Risk r \<Rightarrow> td_enabled d \<and> td_risk_level d = r)"

definition list_openai_tools :: "exposure \<Rightarrow> ToolExecutionContext option \<Rightarrow> ('f, 'w) ToolService \<Rightarrow> json list" where
  "list_openai_tools e ctx s =
     map (\<lambda>d. JObj [(''type'', JStr ''function''),
                    (''function'', JObj [(''name'', JStr (td_name d)), (''description'', JStr (td_description d)),
                                         (''parameters'', td_input_schema d)])])
       (filter (\<lambda>d. exposed e ctx d \<and> object_schema d) (list_definitions s))"

definition service_evaluate_execution ::
  "ToolCallRequest \<Rightarrow> ToolExecutionContext option \<Rightarrow> ('f, 'w) ToolService
     \<Rightarrow> ('f, 'w) ToolService \<times> (tool_error + ToolExecutionEvaluation)" where
  "service_evaluate_execution rq ctx s =
     (case get_definition (tq_name rq) s of
        None \<Rightarrow> (s, Inl ToolNotFoundError)
      | Some d \<Rightarrow>
          (let token = ts_next_token s in
           (s\<lparr>ts_evaluated_executions := (token, \<lparr>ee_definition = d, ee_request = rq\<rparr>) # ts_evaluated_executions s,
              ts_next_token := Suc token\<rparr>,
            Inr \<lparr>tev_decision = evaluate_execution d rq ctx,
                 tev_approval = \<lparr>tas_name = td_name d, tas_description = td_description d, tas_risk_level = td_risk_level d\<rparr>,
                 tev_token = token\<rparr>)))"

definition definition_for_evaluation ::
  "ToolCallRequest \<Rightarrow> ToolExecutionEvaluation \<Rightarrow> ('f, 'w) ToolService \<Rightarrow> tool_error + ToolDefinition" where
  "definition_for_evaluation rq ev s =
     (case map_of (ts_evaluated_executions s) (tev_token ev) of
        None \<Rightarrow> Inl ToolDefinitionChangedError
      | Some e \<Rightarrow>
          if tq_object (ee_request e) \<noteq> tq_object rq \<or> tas_name (tev_approval ev) \<noteq> tq_name rq \<or>
             map_option td_object (get_definition (tq_name rq) s) \<noteq> Some (td_object (ee_definition e))
          then Inl ToolDefinitionChangedError else Inr (ee_definition e))"

definition required_definition :: "string \<Rightarrow> ('f, 'w) ToolService \<Rightarrow> tool_error + ToolDefinition" where
  "required_definition name s = (case get_definition name s of None \<Rightarrow> Inl ToolNotFoundError | Some d \<Rightarrow> Inr d)"

definition service_authorize_once ::
  "ToolCallRequest \<Rightarrow> ToolExecutionContext option \<Rightarrow> ToolExecutionEvaluation option \<Rightarrow> ('f, 'w) ToolService
     \<Rightarrow> tool_error + ToolExecutionContext" where
  "service_authorize_once rq ctx ev s =
     (case (case ev of Some e \<Rightarrow> definition_for_evaluation rq e s | None \<Rightarrow> required_definition (tq_name rq) s) of
        Inl e \<Rightarrow> Inl e
      | Inr d \<Rightarrow> policy_authorize_once d rq ctx)"

section \<open>Executing a call\<close>

datatype exec_answer = Answered ToolResult | Raises_TypeError | Raises_Exception | Raises_Cancelled

datatype tool_raise = RunOwnershipLost | ExecutorTypeError | ExecutorException | CancelledError | UrlValueError

record ('f, 'w) tool_env =
  te_execute :: "ToolCallRequest \<Rightarrow> ToolExecutionContext option \<Rightarrow> 'w \<Rightarrow> 'w \<times> exec_answer"
  te_dumps :: "json \<Rightarrow> string"
  te_loads :: "string \<Rightarrow> json option"
  te_urlsplit :: "string \<Rightarrow> url_parts option"
  te_owned :: bool
  te_still_owned :: bool
  te_now :: 'f

definition denied_result :: "ToolCallRequest \<Rightarrow> string \<Rightarrow> ToolResult" where
  "denied_result rq reason =
     tool_result (tq_id rq) (tq_name rq) PERMISSION_DENIED (JObj [(''error'', JStr ''permission_denied''), (''reason'', JStr reason)])"

definition context_run_id :: "ToolExecutionContext option \<Rightarrow> string" where
  "context_run_id ctx =
     (case ctx of None \<Rightarrow> [] | Some c \<Rightarrow> (case py_or (tx_run_id c) (tx_session_id c) of None \<Rightarrow> [] | Some r \<Rightarrow> r))"

definition tool_call_request :: "'f::zero BudgetReserveRequest" where
  "tool_call_request =
     \<lparr>bq_kind = TOOL_CALL, bq_estimated_tokens = 0, bq_estimated_usd_cost = 0, bq_estimated_duration_seconds = 0,
      bq_sandbox_spec = None\<rparr>"

definition no_usage :: "'f BudgetActualUsage" where
  "no_usage = \<lparr>bu_token_cost = None, bu_usd_cost = None, bu_duration_seconds = None, bu_sandbox_callback_count = None\<rparr>"

text \<open>The reservation of a tool call, with its audit line.\<close>

definition reserve_tool_call ::
  "'f \<Rightarrow> string \<Rightarrow> ('f::{linorder,plus,minus,zero}, 'w) ToolService \<Rightarrow> ('f, 'w) ToolService \<times> 'f BudgetReservationDecision option" where
  "reserve_tool_call now run_id s =
     (case ts_budget_service s of
        None \<Rightarrow> (s, None)
      | Some b \<Rightarrow>
          if run_id = [] then (s, None)
          else (let (b1, d) = budget_reserve now run_id tool_call_request b in
                (s\<lparr>ts_budget_service := Some b1,
                   ts_audit := map_option (\<lambda>l. l @ [(run_id, bd_reason d, bd_outcome d)]) (ts_audit s)\<rparr>, Some d)))"

definition settle_tool_call ::
  "string \<Rightarrow> 'f BudgetReservationDecision option \<Rightarrow> ('f::{linorder,plus,minus,zero}, 'w) ToolService \<Rightarrow> ('f, 'w) ToolService" where
  "settle_tool_call run_id r s =
     (case r of None \<Rightarrow> s | Some d \<Rightarrow> s\<lparr>ts_budget_service := map_option (budget_settle run_id d no_usage) (ts_budget_service s)\<rparr>)"

definition release_tool_call ::
  "string \<Rightarrow> 'f BudgetReservationDecision option \<Rightarrow> ('f::{linorder,plus,minus,zero}, 'w) ToolService \<Rightarrow> ('f, 'w) ToolService" where
  "release_tool_call run_id r s =
     (case r of None \<Rightarrow> s | Some d \<Rightarrow> s\<lparr>ts_budget_service := map_option (budget_release run_id d) (ts_budget_service s)\<rparr>)"

definition input_payload :: "('f, 'w) tool_env \<Rightarrow> ToolCallRequest \<Rightarrow> string" where
  "input_payload env rq = te_dumps env (JObj [(''name'', JStr (tq_name rq)), (''arguments'', JObj (tq_arguments rq))])"

text \<open>The request that reaches the executor; \<open>None\<close> when the release is denied.\<close>

definition sanitized_request :: "('f, 'w) tool_env \<Rightarrow> InformationFlowService option \<Rightarrow> ToolCallRequest \<Rightarrow> ToolCallRequest option" where
  "sanitized_request env flow rq =
     (case flow of
        None \<Rightarrow> Some rq
      | Some f \<Rightarrow>
          (let payload = input_payload env rq;
               res = if_release f payload TOOL_MCP_PLUGIN INTERNAL ''tool_service'' []
           in if \<not> rl_allowed res then None
              else Some (case rl_content res of
                     Some content \<Rightarrow>
                       if content = payload then rq
                       else (case te_loads env content of
                               Some (JObj kvs) \<Rightarrow>
                                 (case map_of kvs ''arguments'' of
                                    Some (JObj a) \<Rightarrow> rq\<lparr>tq_arguments := a\<rparr>
                                  | _ \<Rightarrow> rq)
                             | _ \<Rightarrow> rq)
                   | None \<Rightarrow> rq)))"

text \<open>The executor is called again without the context when the first call raises \<open>TypeError\<close>.\<close>

definition call_executor ::
  "('f, 'w) tool_env \<Rightarrow> ToolDefinition \<Rightarrow> ToolCallRequest \<Rightarrow> ToolCallRequest \<Rightarrow> ToolExecutionContext option
     \<Rightarrow> ('f, 'w) ToolService \<Rightarrow> ('f, 'w) ToolService \<times> exec_answer" where
  "call_executor env d rq working ctx s =
     (let (w1, a1) = te_execute env working ctx (ts_world s);
          s1 = s\<lparr>ts_world := w1, ts_calls := ts_calls s @ [(d, rq, working)]\<rparr>
      in if a1 = Raises_TypeError then
           (let (w2, a2) = te_execute env working None w1
            in (s1\<lparr>ts_world := w2, ts_calls := ts_calls s1 @ [(d, rq, working)]\<rparr>, a2))
         else (s1, a1))"

text \<open>The one field that is kept as it is.\<close>

definition keep_signed_url :: "json \<Rightarrow> json \<Rightarrow> json" where
  "keep_signed_url raw content =
     (case raw of
        JObj r \<Rightarrow> (case content of JObj kvs \<Rightarrow> JObj (obj_set ''signed_url'' (the (map_of r ''signed_url'')) kvs) | _ \<Rightarrow> content)
      | _ \<Rightarrow> content)"

definition sanitized_result ::
  "('f, 'w) tool_env \<Rightarrow> InformationFlowService option \<Rightarrow> ToolCallRequest \<Rightarrow> ToolResult \<Rightarrow> tool_raise + ToolResult" where
  "sanitized_result env flow working res =
     (case flow of
        None \<Rightarrow> Inr res
      | Some f \<Rightarrow>
          if tr_content res = JNull then Inr res
          else
            (let content = if_redact_structured f (tr_content res) in
             if tr_tool_name res = ''host_terminal'' \<and> tr_status res = SUCCESS \<and> tq_name working = ''host_terminal'' \<and>
                is_photo_capability_request (JObj (tq_arguments working))
             then (case is_photo_capability_result (te_urlsplit env) (tr_content res) of
                     None \<Rightarrow> Inl UrlValueError
                   | Some photo \<Rightarrow>
                       Inr (res\<lparr>tr_content := if photo then keep_signed_url (tr_content res) content else content\<rparr>))
             else Inr (res\<lparr>tr_content := content\<rparr>)))"

definition run_reserved ::
  "('f::{linorder,plus,minus,zero}, 'w) tool_env \<Rightarrow> ToolDefinition \<Rightarrow> ToolCallRequest \<Rightarrow> ToolExecutionContext option
     \<Rightarrow> 'f BudgetReservationDecision option \<Rightarrow> ('f, 'w) ToolService \<Rightarrow> ('f, 'w) ToolService \<times> (tool_raise + ToolResult)" where
  "run_reserved env d rq ctx reservation s =
     (let run_id = context_run_id ctx; flow = ts_information_flow_service s in
      case sanitized_request env flow rq of
        None \<Rightarrow> (release_tool_call run_id reservation s, Inr (denied_result rq ''information_flow_denied''))
      | Some working \<Rightarrow>
          if \<not> te_still_owned env then (s, Inl RunOwnershipLost)
          else
            (let (s1, answer) = call_executor env d rq working ctx s in
             case answer of
               Answered res \<Rightarrow> (settle_tool_call run_id reservation s1, sanitized_result env flow working res)
             | Raises_Cancelled \<Rightarrow> (release_tool_call run_id reservation s1, Inl CancelledError)
             | Raises_Exception \<Rightarrow> (release_tool_call run_id reservation s1, Inl ExecutorException)
             | Raises_TypeError \<Rightarrow> (release_tool_call run_id reservation s1, Inl ExecutorTypeError)))"

definition run_allowed ::
  "('f::{linorder,plus,minus,zero}, 'w) tool_env \<Rightarrow> ToolCallRequest \<Rightarrow> ToolExecutionContext option \<Rightarrow> ToolDefinition
     \<Rightarrow> ('f, 'w) ToolService \<Rightarrow> ('f, 'w) ToolService \<times> (tool_raise + ToolResult)" where
  "run_allowed env rq ctx d s =
     (let decision = evaluate_execution d rq ctx in
      if pd_outcome decision \<noteq> ALLOW then (s, Inr (denied_result rq (pd_reason decision)))
      else (let (s1, reservation) = reserve_tool_call (te_now env) (context_run_id ctx) s in
            if (case reservation of None \<Rightarrow> False | Some r \<Rightarrow> bd_outcome r = DENY)
            then (s1, Inr (denied_result rq ''budget_exhausted''))
            else run_reserved env d rq ctx reservation s1))"

definition tool_execute ::
  "('f::{linorder,plus,minus,zero}, 'w) tool_env \<Rightarrow> ToolCallRequest \<Rightarrow> ToolExecutionContext option \<Rightarrow> ToolExecutionEvaluation option
     \<Rightarrow> ('f, 'w) ToolService \<Rightarrow> ('f, 'w) ToolService \<times> (tool_raise + ToolResult)" where
  "tool_execute env rq ctx ev s =
     (if \<not> te_owned env then (s, Inl RunOwnershipLost)
      else case ev of
        Some e \<Rightarrow>
          (case definition_for_evaluation rq e s of
             Inl _ \<Rightarrow> (s, Inr (denied_result rq ''tool_definition_changed''))
           | Inr d \<Rightarrow> run_allowed env rq ctx d s)
      | None \<Rightarrow>
          (case get_definition (tq_name rq) s of
             None \<Rightarrow> (s, Inr (tool_result (tq_id rq) (tq_name rq) ERROR (JObj [(''error'', JStr ''tool not found'')])))
           | Some d \<Rightarrow> run_allowed env rq ctx d s))"

end
