(* ===== verification/Browser_Audit.thy ===== *)
theory Browser_Audit
  imports Tool_Service
begin

text \<open>
  The projection of the arguments of browser tools (\<open>app/application/browser_tool_audit.py\<close>): what of them is stored,
  streamed and shown for approval. \<open>urlsplit\<close> and \<open>urlunsplit\<close> are parameters.
\<close>

type_synonym arguments = "(string \<times> json) list"

definition BROWSER_TOOL_NAMES :: "string list" where
  "BROWSER_TOOL_NAMES =
     [''browser_navigate'', ''browser_observe'', ''browser_click'', ''browser_type'', ''browser_scroll'',
      ''browser_screenshot'', ''browser_close'']"

definition is_browser_tool :: "string \<Rightarrow> bool" where
  "is_browser_tool name = (name \<in> set BROWSER_TOOL_NAMES)"

definition sanitize_url ::
  "(string \<Rightarrow> url_parts option) \<Rightarrow> (string \<Rightarrow> string \<Rightarrow> string \<Rightarrow> string) \<Rightarrow> string \<Rightarrow> string option" where
  "sanitize_url urlsplit urlunsplit url =
     (case urlsplit url of
        None \<Rightarrow> None
      | Some p \<Rightarrow>
          (case url_port p of
             None \<Rightarrow> None
           | Some port \<Rightarrow>
               (let host = (case url_hostname p of None \<Rightarrow> [] | Some h \<Rightarrow> h);
                    suffix = (case port of None \<Rightarrow> [] | Some n \<Rightarrow> '':'' @ int_text n);
                    netloc = (if CHR '':'' \<in> set host then ''['' @ host @ '']'' @ suffix
                              else if host \<noteq> [] then host @ suffix else host)
                in Some (urlunsplit (url_scheme p) netloc (url_path p)))))"

definition project_navigate ::
  "(string \<Rightarrow> url_parts option) \<Rightarrow> (string \<Rightarrow> string \<Rightarrow> string \<Rightarrow> string) \<Rightarrow> arguments \<Rightarrow> arguments" where
  "project_navigate urlsplit urlunsplit args =
     (case map_of args ''url'' of
        Some (JStr url) \<Rightarrow>
          if url = [] then []
          else (case sanitize_url urlsplit urlunsplit url of
                  Some s \<Rightarrow> if s = [] then [] else [(''url'', JStr s)]
                | None \<Rightarrow> [])
      | _ \<Rightarrow> [])"

text \<open>The fields that are copied: non-empty texts, numbers (a \<open>bool\<close> is an \<open>int\<close>) and truth values.\<close>

definition keep_text :: "string \<Rightarrow> arguments \<Rightarrow> arguments" where
  "keep_text k args = (case map_of args k of Some (JStr s) \<Rightarrow> if s = [] then [] else [(k, JStr s)] | _ \<Rightarrow> [])"

definition keep_int :: "string \<Rightarrow> arguments \<Rightarrow> arguments" where
  "keep_int k args = (case map_of args k of Some (JInt n) \<Rightarrow> [(k, JInt n)] | Some (JBool b) \<Rightarrow> [(k, JBool b)] | _ \<Rightarrow> [])"

definition keep_bool :: "string \<Rightarrow> arguments \<Rightarrow> arguments" where
  "keep_bool k args = (case map_of args k of Some (JBool b) \<Rightarrow> [(k, JBool b)] | _ \<Rightarrow> [])"

definition project_type :: "arguments \<Rightarrow> arguments" where
  "project_type args =
     (case map_of args ''text'' of
        Some (JStr t) \<Rightarrow>
          [(''text'', JObj [(''char_count'', JInt (int (length t))), (''redacted'', JBool True)])] @
          keep_text ''element_ref'' args @ keep_int ''document_revision'' args @ keep_bool ''clear_first'' args
      | _ \<Rightarrow> [])"

definition project_click :: "arguments \<Rightarrow> arguments" where
  "project_click args = keep_text ''element_ref'' args @ keep_int ''document_revision'' args"

definition project_scroll :: "arguments \<Rightarrow> arguments" where
  "project_scroll args =
     keep_text ''element_ref'' args @ keep_int ''document_revision'' args @ keep_int ''dx'' args @ keep_int ''dy'' args"

definition project_observe :: "arguments \<Rightarrow> arguments" where
  "project_observe args = keep_int ''max_text_chars'' args @ keep_int ''max_elements'' args"

definition project_screenshot :: "arguments \<Rightarrow> arguments" where
  "project_screenshot args = keep_bool ''full_page'' args"

definition browser_prefix :: "string \<Rightarrow> bool" where
  "browser_prefix name = (take 8 name = ''browser_'')"

definition project_browser_tool_arguments ::
  "(string \<Rightarrow> url_parts option) \<Rightarrow> (string \<Rightarrow> string \<Rightarrow> string \<Rightarrow> string) \<Rightarrow> string \<Rightarrow> arguments \<Rightarrow> arguments" where
  "project_browser_tool_arguments urlsplit urlunsplit name args =
     (if \<not> is_browser_tool name then (if browser_prefix name then [] else args)
      else if name = ''browser_navigate'' then project_navigate urlsplit urlunsplit args
      else if name = ''browser_type'' then project_type args
      else if name = ''browser_click'' then project_click args
      else if name = ''browser_scroll'' then project_scroll args
      else if name = ''browser_observe'' then project_observe args
      else if name = ''browser_screenshot'' then project_screenshot args
      else [])"

text \<open>
  What is shown of a browser tool's arguments depends on the typed text only through its length, and on the address
  only through its scheme, host, port and path.
\<close>

definition shown_alike :: "(string \<Rightarrow> url_parts option) \<Rightarrow> arguments \<Rightarrow> arguments \<Rightarrow> bool" where
  "shown_alike urlsplit args args' \<longleftrightarrow>
     (\<forall>k. k \<noteq> ''text'' \<and> k \<noteq> ''url'' \<longrightarrow> map_of args k = map_of args' k) \<and>
     (map_of args ''text'' = map_of args' ''text'' \<or>
      (\<exists>t t'. map_of args ''text'' = Some (JStr t) \<and> map_of args' ''text'' = Some (JStr t') \<and> length t = length t')) \<and>
     (map_of args ''url'' = map_of args' ''url'' \<or>
      (\<exists>u u' p p'. map_of args ''url'' = Some (JStr u) \<and> map_of args' ''url'' = Some (JStr u') \<and> u \<noteq> [] \<and> u' \<noteq> [] \<and>
         urlsplit u = Some p \<and> urlsplit u' = Some p' \<and> url_scheme p = url_scheme p' \<and> url_hostname p = url_hostname p' \<and>
         url_port p = url_port p' \<and> url_path p = url_path p'))"

lemma projection_alike:
  assumes "shown_alike urlsplit args args'" and "browser_prefix name"
  shows "project_browser_tool_arguments urlsplit urlunsplit name args = project_browser_tool_arguments urlsplit urlunsplit name args'"
proof -
  have other: "keep_text k args = keep_text k args'" "keep_int k args = keep_int k args'" "keep_bool k args = keep_bool k args'"
    if "k \<noteq> ''text''" "k \<noteq> ''url''" for k
  proof -
    have "map_of args k = map_of args' k" using assms(1) that unfolding shown_alike_def by blast
    then show "keep_text k args = keep_text k args'" "keep_int k args = keep_int k args'" "keep_bool k args = keep_bool k args'"
      by (simp_all add: keep_text_def keep_int_def keep_bool_def)
  qed
  have "project_navigate urlsplit urlunsplit args = project_navigate urlsplit urlunsplit args'"
  proof -
    note assms(1) [unfolded shown_alike_def, THEN conjunct2, THEN conjunct2]
    then show ?thesis by (elim disjE exE conjE) (simp_all add: project_navigate_def sanitize_url_def split: option.split)
  qed
  moreover have "project_type args = project_type args'"
  proof -
    have kept: "keep_text ''element_ref'' args = keep_text ''element_ref'' args'"
      "keep_int ''document_revision'' args = keep_int ''document_revision'' args'"
      "keep_bool ''clear_first'' args = keep_bool ''clear_first'' args'" by (simp_all add: other)
    note assms(1) [unfolded shown_alike_def, THEN conjunct2, THEN conjunct1]
    then show ?thesis by (elim disjE exE conjE) (simp_all add: project_type_def kept split: option.split json.split)
  qed
  ultimately show ?thesis
    using assms(2) other
    by (simp add: project_browser_tool_arguments_def project_click_def project_scroll_def project_observe_def project_screenshot_def)
qed

end
