(* ===== verification/Turn_Policy.thy ===== *)
theory Turn_Policy
  imports Prelude
begin

text \<open>
  The turn policy (\<open>app/domain/turn_policy.py\<close>) with the end reasons of \<open>app/domain/agent.py\<close>: one decision table for the
  loop of a turn. Seconds are a type with an order; a message is the list of its keys and values.
\<close>

datatype RunStatus = PENDING | RUNNING | COMPLETED | FAILED

datatype EndReason = STOP | TOOL_CALLS | LENGTH | ERROR_REASON | ITERATION_LIMIT | CANCELLED | DEADLINE | BUDGET_EXHAUSTED

datatype TurnNextStep = CALL_LLM | EXECUTE_TOOLS | FINALIZE | END_STEP

record TurnDecision =
  tn_next_step :: TurnNextStep
  tn_end_reason :: "EndReason option"
  tn_terminal :: bool
  tn_reason :: string

record 'f TurnEvaluationInput =
  ti_final_message :: "(string \<times> json) list option"
  ti_error :: "string option"
  ti_pending_tool_calls :: "json list"
  ti_iteration_count :: int
  ti_cancelled :: bool
  ti_elapsed_seconds :: 'f
  ti_turn_timeout_seconds :: "'f option"
  ti_iteration_limit :: int
  ti_budget_exhausted :: bool

definition turn_decision :: "TurnNextStep \<Rightarrow> EndReason option \<Rightarrow> bool \<Rightarrow> string \<Rightarrow> TurnDecision" where
  "turn_decision step er terminal reason = \<lparr>tn_next_step = step, tn_end_reason = er, tn_terminal = terminal, tn_reason = reason\<rparr>"

definition turn_evaluate :: "'f::linorder TurnEvaluationInput \<Rightarrow> TurnDecision" where
  "turn_evaluate i =
     (if ti_cancelled i then turn_decision END_STEP (Some CANCELLED) True ''cancelled''
      else if truthy (ti_error i) then turn_decision END_STEP (Some ERROR_REASON) True ''error''
      else if ti_final_message i \<noteq> None \<and> ti_pending_tool_calls i = []
      then turn_decision END_STEP (Some STOP) True ''final_message''
      else if ti_iteration_count i \<ge> ti_iteration_limit i
      then turn_decision FINALIZE (Some ITERATION_LIMIT) True ''iteration_limit''
      else if (case ti_turn_timeout_seconds i of None \<Rightarrow> False | Some t \<Rightarrow> t \<le> ti_elapsed_seconds i)
      then turn_decision END_STEP (Some DEADLINE) True ''deadline''
      else if ti_budget_exhausted i then turn_decision END_STEP (Some BUDGET_EXHAUSTED) True ''budget_exhausted''
      else if ti_pending_tool_calls i \<noteq> [] then turn_decision EXECUTE_TOOLS None False ''pending_tool_calls''
      else turn_decision CALL_LLM None False ''continue'')"

lemma turn_decision_simps [simp]:
  "tn_next_step (turn_decision step er terminal reason) = step"
  "tn_end_reason (turn_decision step er terminal reason) = er"
  "tn_terminal (turn_decision step er terminal reason) = terminal"
  by (simp_all add: turn_decision_def)

lemma turn_terminal_iff:
  "tn_terminal (turn_evaluate i) \<longleftrightarrow>
     ti_cancelled i \<or> truthy (ti_error i) \<or> (ti_final_message i \<noteq> None \<and> ti_pending_tool_calls i = []) \<or>
     ti_iteration_limit i \<le> ti_iteration_count i \<or>
     (\<exists>t. ti_turn_timeout_seconds i = Some t \<and> t \<le> ti_elapsed_seconds i) \<or> ti_budget_exhausted i"
  by (auto simp: turn_evaluate_def split: option.splits)

lemma turn_end_reason_iff: "tn_end_reason (turn_evaluate i) \<noteq> None \<longleftrightarrow> tn_terminal (turn_evaluate i)"
  by (simp add: turn_evaluate_def)

lemma turn_tools_iff:
  "tn_next_step (turn_evaluate i) = EXECUTE_TOOLS \<longleftrightarrow> \<not> tn_terminal (turn_evaluate i) \<and> ti_pending_tool_calls i \<noteq> []"
  by (simp add: turn_evaluate_def)

end
