(* ===== verification/LLM_Policy.thy ===== *)
theory LLM_Policy
  imports Policy_Kernel Python_Text
begin

text \<open>
  The choice of provider and model (\<open>app/domain/llm_policy.py\<close>, \<open>resolve_model\<close> of \<open>app/domain/provider.py\<close>). A set of
  capabilities is a list of names.
\<close>

record ModelRequirements =
  mr_capabilities :: "string list"
  mr_token_need :: int

record ProviderCapability =
  pc_provider_id :: string
  pc_model_id :: string
  pc_supports_tools :: bool
  pc_supports_vision :: bool
  pc_context_window :: int

record ModelSelection =
  ms_provider_id :: string
  ms_model_id :: string
  ms_capabilities :: "string list"
  ms_fallback_chain :: "string list"
  ms_verdict :: PolicyOutcome
  ms_reason :: string

definition PLACEHOLDER_MODEL_IDS :: "string list" where
  "PLACEHOLDER_MODEL_IDS = [''n-agent'', ''model'', []]"

definition resolve_model :: "string \<Rightarrow> string \<Rightarrow> string" where
  "resolve_model model default_model =
     (if model = [] \<or> py_lower model \<in> set PLACEHOLDER_MODEL_IDS then default_model else model)"

definition check_capabilities :: "ProviderCapability \<Rightarrow> ModelRequirements \<Rightarrow> string option" where
  "check_capabilities cap req =
     (if ''tools'' \<in> set (mr_capabilities req) \<and> \<not> pc_supports_tools cap then Some ''tool_capability_not_supported''
      else if ''vision'' \<in> set (mr_capabilities req) \<and> \<not> pc_supports_vision cap then Some ''vision_capability_not_supported''
      else if ''context_window'' \<in> set (mr_capabilities req) \<and> pc_context_window cap > 0 \<and> mr_token_need req > pc_context_window cap
      then Some (''context_window_exceeded:need='' @ int_text (mr_token_need req) @ '',window='' @ int_text (pc_context_window cap))
      else None)"

definition llm_evaluate ::
  "string \<Rightarrow> ProviderCapability list \<Rightarrow> ModelRequirements \<Rightarrow> string list \<Rightarrow> bool \<Rightarrow> ModelSelection" where
  "llm_evaluate requested caps req allowed_ids fallback_enabled =
     (case filter (\<lambda>c. pc_provider_id c \<in> set allowed_ids) caps of
        [] \<Rightarrow> \<lparr>ms_provider_id = [], ms_model_id = [], ms_capabilities = [], ms_fallback_chain = [], ms_verdict = DENY,
               ms_reason = ''no_provider_allowed_by_constraints''\<rparr>
      | cap # others \<Rightarrow>
          (let model = resolve_model requested (pc_model_id cap) in
           case check_capabilities cap req of
             Some reason \<Rightarrow>
               \<lparr>ms_provider_id = pc_provider_id cap, ms_model_id = model, ms_capabilities = mr_capabilities req,
                ms_fallback_chain = [], ms_verdict = DENY, ms_reason = reason\<rparr>
           | None \<Rightarrow>
               \<lparr>ms_provider_id = pc_provider_id cap, ms_model_id = model, ms_capabilities = mr_capabilities req,
                ms_fallback_chain = (if fallback_enabled then map pc_provider_id others else []), ms_verdict = ALLOW,
                ms_reason = ''model_selected''\<rparr>))"

end
