(* ===== verification/Agent_Graph.thy ===== *)
theory Agent_Graph
  imports Browser_Audit Turn_Policy LLM_Policy
begin

text \<open>
  The agent's turn (\<open>app/application/agent_graph.py\<close>): the nodes of the graph, the routing between them and the call of the
  graph. A node maps the system (the state of the turn, the tool service, and what the turn handed to other components) to
  a new system, and may raise. What the code awaits is a parameter: the context service, the provider, the hooks, the
  executor, the approval decider. \<open>sy_clock\<close> counts the moments at which the code looks at the clock, the cancellation flag
  and the ownership of the run; each of them is a function of that moment. \<open>sy_memory\<close>, \<open>sy_stream\<close>, \<open>sy_payload_log\<close> and
  \<open>sy_usage\<close> are the calls made on the memory service, the event sink, the log and the usage service; \<open>sy_chats\<close> is
  the history of the calls of the provider. While a decider is asked, other components may replace dynamic tools:
  \<open>ae_meanwhile\<close>. The runner and the tool service share one budget service, as in \<open>app/main.py\<close>. The texts for users, which the source has in Chinese,
  are constants here.
\<close>

section \<open>Messages\<close>

fun obj_get :: "json \<Rightarrow> string \<Rightarrow> json option" where
  "obj_get (JObj kvs) k = map_of kvs k"
| "obj_get j k = None"

fun json_text :: "json option \<Rightarrow> string" where
  "json_text (Some (JStr s)) = s"
| "json_text j = []"

fun json_items :: "json option \<Rightarrow> json list" where
  "json_items (Some (JList xs)) = xs"
| "json_items j = []"

definition text_part :: "json \<Rightarrow> string" where
  "text_part p = (if obj_get p ''type'' = Some (JStr ''text'') then json_text (obj_get p ''text'') else [])"

definition extract_text :: "json option \<Rightarrow> string" where
  "extract_text content =
     (case content of Some (JStr s) \<Rightarrow> s | Some (JList ps) \<Rightarrow> concat (map text_part ps) | _ \<Rightarrow> [])"

definition has_image_part :: "json option \<Rightarrow> bool" where
  "has_image_part content =
     (case content of
        Some (JList ps) \<Rightarrow> list_ex (\<lambda>p. obj_get p ''type'' \<in> {Some (JStr ''image_url''), Some (JStr ''input_image'')}) ps
      | _ \<Rightarrow> False)"

definition is_user :: "json \<Rightarrow> bool" where
  "is_user m = (obj_get m ''role'' = Some (JStr ''user''))"

section \<open>The state of a turn\<close>

record AgentState =
  as_session_id :: string
  as_run_id :: string
  as_input_messages :: "json list"
  as_working_messages :: "json list"
  as_pending_tool_calls :: "json list"
  as_assistant_tool_messages :: "(string \<times> json) list list"
  as_tool_results :: "json list"
  as_run_status :: RunStatus
  as_iteration_count :: int
  as_error :: "string option"
  as_final_message :: "(string \<times> json) list option"
  as_finish_reason :: "string option"
  as_stream_tool_events :: "(string \<times> json) list list"
  as_token_need :: "int option"
  as_budget_exhausted :: bool
  as_persist_messages :: bool
  as_message_source :: "string option"

datatype memory_op =
    Append_Assistant string json "string option"
  | Append_Tool string string json json
  | Save_Tool_Call string ToolResult "(string \<times> json) list" json
  | Append_Card string "(string \<times> json) list"
  | Save_Task_State string string int "string option"
  | Sync_External string string string

record usage_entry =
  ue_session_id :: string
  ue_model :: "string option"
  ue_provider :: "string option"
  ue_provider_kind :: string
  ue_requested_model :: "string option"
  ue_trigger_type :: string
  ue_request_messages :: "string option"
  ue_response_message :: "string option"
  ue_tools :: "string option"

record ('f, 'w) agent_sys =
  sy_state :: AgentState
  sy_tools :: "('f, 'w) ToolService"
  sy_clock :: nat
  sy_next_object :: nat
  sy_memory :: "memory_op list"
  sy_stream :: "(string \<times> json) list list"
  sy_payload_log :: "string list"
  sy_usage :: "usage_entry list"
  sy_chats :: "(json list \<times> json list \<times> string) list"
  sy_end_reason :: "EndReason option"

record LLMResult =
  lr_message :: "(string \<times> json) list"
  lr_finish_reason :: "string option"
  lr_has_usage :: bool
  lr_total_tokens :: "int option"

datatype chat_answer = Chat_Result LLMResult | Chat_Other | Chat_Raises string | Chat_Cancelled

record provider_config =
  cf_id :: string
  cf_provider_type :: string
  cf_model :: string
  cf_supports_vision :: bool

record 'f run_snapshot =
  rn_iteration_limit :: int
  rn_turn_timeout_seconds :: 'f
  rn_fallback_enabled :: bool
  rn_budget :: "'f BudgetConfig"

record ('f, 'w) agent_env =
  ae_tool :: "('f, 'w) tool_env"
  ae_flow :: InformationFlowService
  ae_owned :: "nat \<Rightarrow> bool"
  ae_cancelled :: "nat \<Rightarrow> bool"
  ae_elapsed :: "nat \<Rightarrow> 'f"
  ae_now :: "nat \<Rightarrow> 'f"
  ae_meanwhile :: "nat \<Rightarrow> (string \<times> ToolDefinition list \<times> string list) list"
  ae_model :: string
  ae_iteration_limit :: int
  ae_turn_timeout :: 'f
  ae_max_iterations :: "int option"
  ae_snapshot :: "'f run_snapshot option"
  ae_fallback_enabled :: bool
  ae_tool_context :: "ToolExecutionContext option"
  ae_prepare :: "AgentState \<Rightarrow> string + AgentState"
  ae_provider_context :: "AgentState \<Rightarrow> string + (json list \<times> json list)"
  ae_provider_config :: "provider_config option"
  ae_default_model :: string
  ae_vision_capability :: "bool option"
  ae_pre_llm_context :: "AgentState \<Rightarrow> json list \<Rightarrow> string option"
  ae_chat :: "json list \<Rightarrow> json list \<Rightarrow> string \<Rightarrow> 'w \<Rightarrow> 'w \<times> chat_answer"
  ae_external_memory :: bool
  ae_scrub :: "string \<Rightarrow> string"
  ae_usage_service :: bool
  ae_transform_result :: "ToolResult \<Rightarrow> json option"
  ae_transform_output :: "string \<Rightarrow> string option"
  ae_sink :: bool
  ae_urlunsplit :: "string \<Rightarrow> string \<Rightarrow> string \<Rightarrow> string"
  ae_browser_dashboard :: bool
  ae_grant_host :: "string \<Rightarrow> string \<Rightarrow> json option \<Rightarrow> 'w \<Rightarrow> 'w \<times> bool option"
  ae_limit_message :: "json list \<Rightarrow> string"

datatype agent_raise = Ownership_Lost | Cancelled_Error | Tool_Raised tool_raise | Prepare_Raised string

definition upd :: "(AgentState \<Rightarrow> AgentState) \<Rightarrow> ('f, 'w) agent_sys \<Rightarrow> ('f, 'w) agent_sys" where
  "upd f y = y\<lparr>sy_state := f (sy_state y)\<rparr>"

definition tick :: "('f, 'w) agent_sys \<Rightarrow> ('f, 'w) agent_sys" where
  "tick y = y\<lparr>sy_clock := Suc (sy_clock y)\<rparr>"

definition remember :: "memory_op \<Rightarrow> ('f, 'w) agent_sys \<Rightarrow> ('f, 'w) agent_sys" where
  "remember m y = y\<lparr>sy_memory := sy_memory y @ [m]\<rparr>"

text \<open>The environment of a call of the tool service at this moment.\<close>

definition tool_env_now :: "('f, 'w) agent_env \<Rightarrow> ('f, 'w) agent_sys \<Rightarrow> ('f, 'w) tool_env" where
  "tool_env_now env y =
     (ae_tool env)\<lparr>te_owned := ae_owned env (sy_clock y), te_still_owned := ae_owned env (Suc (sy_clock y)),
                   te_now := ae_now env (sy_clock y)\<rparr>"

definition with_budget :: "('f BudgetService \<Rightarrow> 'f BudgetService) \<Rightarrow> ('f, 'w) agent_sys \<Rightarrow> ('f, 'w) agent_sys" where
  "with_budget f y = y\<lparr>sy_tools := (sy_tools y)\<lparr>ts_budget_service := map_option f (ts_budget_service (sy_tools y))\<rparr>\<rparr>"

section \<open>The turn policy on the state\<close>

definition run_iteration_limit :: "('f, 'w) agent_env \<Rightarrow> int" where
  "run_iteration_limit env =
     (case ae_max_iterations env of Some n \<Rightarrow> if n \<noteq> 0 then n else ae_iteration_limit env | None \<Rightarrow> ae_iteration_limit env)"

definition build_turn_input :: "('f, 'w) agent_env \<Rightarrow> nat \<Rightarrow> AgentState \<Rightarrow> 'f TurnEvaluationInput" where
  "build_turn_input env n st =
     \<lparr>ti_final_message = as_final_message st, ti_error = as_error st, ti_pending_tool_calls = as_pending_tool_calls st,
      ti_iteration_count = as_iteration_count st, ti_cancelled = ae_cancelled env n, ti_elapsed_seconds = ae_elapsed env n,
      ti_turn_timeout_seconds =
        Some (case ae_snapshot env of Some p \<Rightarrow> rn_turn_timeout_seconds p | None \<Rightarrow> ae_turn_timeout env),
      ti_iteration_limit = (case ae_snapshot env of Some p \<Rightarrow> rn_iteration_limit p | None \<Rightarrow> run_iteration_limit env),
      ti_budget_exhausted = as_budget_exhausted st\<rparr>"

definition evaluate_turn :: "('f::linorder, 'w) agent_env \<Rightarrow> nat \<Rightarrow> AgentState \<Rightarrow> TurnDecision" where
  "evaluate_turn env n st = turn_evaluate (build_turn_input env n st)"

section \<open>Calling the model\<close>

definition provider_capability :: "('f, 'w) agent_env \<Rightarrow> ProviderCapability" where
  "provider_capability env =
     \<lparr>pc_provider_id = (case ae_provider_config env of Some c \<Rightarrow> cf_id c | None \<Rightarrow> ''default''),
      pc_model_id = (case ae_provider_config env of Some c \<Rightarrow> cf_model c | None \<Rightarrow> ae_default_model env),
      pc_supports_tools = True,
      pc_supports_vision =
        (case ae_vision_capability env of
           Some v \<Rightarrow> v
         | None \<Rightarrow> (case ae_provider_config env of Some c \<Rightarrow> cf_supports_vision c | None \<Rightarrow> False)),
      pc_context_window = 0\<rparr>"

definition build_model_requirements :: "json list \<Rightarrow> json list \<Rightarrow> AgentState \<Rightarrow> ModelRequirements" where
  "build_model_requirements msgs tools st =
     (let need = (case as_token_need st of Some n \<Rightarrow> n | None \<Rightarrow> 0) in
      \<lparr>mr_capabilities =
         (if tools \<noteq> [] then [''tools''] else []) @
         (if list_ex (\<lambda>m. is_user m \<and> has_image_part (obj_get m ''content'')) msgs then [''vision''] else []) @
         (if need > 0 then [''context_window''] else []),
       mr_token_need = need\<rparr>)"

text \<open>The context goes into the last user message whose content is a text or a list of parts.\<close>

definition inject_into :: "string \<Rightarrow> json \<Rightarrow> json option" where
  "inject_into ctx m =
     (case m of
        JObj kvs \<Rightarrow>
          if is_user m then
            (case map_of kvs ''content'' of
               Some (JStr s) \<Rightarrow> Some (JObj (obj_set ''content'' (JStr (s @ [CHR 0x0A, CHR 0x0A] @ ctx)) kvs))
             | Some (JList ps) \<Rightarrow>
                 Some (JObj (obj_set ''content'' (JList (ps @ [JObj [(''type'', JStr ''text''), (''text'', JStr ctx)]])) kvs))
             | _ \<Rightarrow> None)
          else None
      | _ \<Rightarrow> None)"

fun inject_first :: "string \<Rightarrow> json list \<Rightarrow> json list" where
  "inject_first ctx [] = []"
| "inject_first ctx (m # ms) = (case inject_into ctx m of Some m' \<Rightarrow> m' # ms | None \<Rightarrow> m # inject_first ctx ms)"

definition inject_context_into_last_user_message :: "json list \<Rightarrow> string \<Rightarrow> json list" where
  "inject_context_into_last_user_message msgs ctx = rev (inject_first ctx (rev msgs))"

definition redact_messages :: "InformationFlowService \<Rightarrow> json list \<Rightarrow> json list" where
  "redact_messages f msgs = json_items (Some (if_redact_structured f (JList msgs)))"

definition llm_call_request :: "int \<Rightarrow> 'f::zero BudgetReserveRequest" where
  "llm_call_request tokens =
     \<lparr>bq_kind = BudgetReserveKind.LLM_CALL, bq_estimated_tokens = tokens, bq_estimated_usd_cost = 0,
      bq_estimated_duration_seconds = 0, bq_sandbox_spec = None\<rparr>"

definition reserve_llm_call ::
  "'f::{linorder,plus,minus,zero} \<Rightarrow> int \<Rightarrow> ('f, 'w) agent_sys \<Rightarrow> ('f, 'w) agent_sys \<times> 'f BudgetReservationDecision option" where
  "reserve_llm_call now tokens y =
     (case ts_budget_service (sy_tools y) of
        None \<Rightarrow> (y, None)
      | Some b \<Rightarrow>
          (let (b1, d) = budget_reserve now (as_run_id (sy_state y)) (llm_call_request tokens) b
           in (with_budget (\<lambda>_. b1) y, Some d)))"

definition release_llm_call :: "'f::{linorder,plus,minus,zero} BudgetReservationDecision option \<Rightarrow> ('f, 'w) agent_sys \<Rightarrow> ('f, 'w) agent_sys" where
  "release_llm_call r y =
     (case r of None \<Rightarrow> y | Some d \<Rightarrow> with_budget (budget_release (as_run_id (sy_state y)) d) y)"

definition settle_llm_call ::
  "int option \<Rightarrow> 'f::{linorder,plus,minus,zero} BudgetReservationDecision option \<Rightarrow> ('f, 'w) agent_sys \<Rightarrow> ('f, 'w) agent_sys" where
  "settle_llm_call tokens r y =
     (case r of
        None \<Rightarrow> y
      | Some d \<Rightarrow> with_budget (budget_settle (as_run_id (sy_state y)) d (no_usage\<lparr>bu_token_cost := tokens\<rparr>)) y)"

definition fail_llm :: "string \<Rightarrow> ('f, 'w) agent_sys \<Rightarrow> ('f, 'w) agent_sys" where
  "fail_llm e = upd (\<lambda>st. st\<lparr>as_error := Some e, as_finish_reason := Some ''error''\<rparr>)"

definition VISION_NOTICE :: string where
  "VISION_NOTICE = ''the model does not take images''"

definition deny_selection :: "string \<Rightarrow> ('f, 'w) agent_sys \<Rightarrow> ('f, 'w) agent_sys" where
  "deny_selection reason y =
     (if reason = ''vision_capability_not_supported'' then
        upd (\<lambda>st. st\<lparr>as_iteration_count := as_iteration_count st + 1,
                     as_final_message := Some [(''role'', JStr ''assistant''), (''content'', JStr VISION_NOTICE)],
                     as_finish_reason := Some ''stop'', as_pending_tool_calls := []\<rparr>) y
      else fail_llm reason y)"

definition scrubbed_message :: "('f, 'w) agent_env \<Rightarrow> (string \<times> json) list \<Rightarrow> (string \<times> json) list" where
  "scrubbed_message env m =
     (if ae_external_memory env \<and> m \<noteq> [] then
        (case (case map_of m ''content'' of None \<Rightarrow> JStr [] | Some c \<Rightarrow> c) of
           JStr s \<Rightarrow> obj_set ''content'' (JStr (ae_scrub env s)) m
         | _ \<Rightarrow> m)
      else m)"

definition resolve_trigger_type :: "json list \<Rightarrow> string" where
  "resolve_trigger_type msgs =
     (case find (\<lambda>m. obj_get m ''role'' \<in> {Some (JStr ''tool''), Some (JStr ''user'')}) (rev msgs) of
        Some m \<Rightarrow> json_text (obj_get m ''role'')
      | None \<Rightarrow> ''user'')"

definition nonempty :: "string \<Rightarrow> string option" where
  "nonempty s = (if s = [] then None else Some s)"

definition resolve_usage_meta :: "('f, 'w) agent_env \<Rightarrow> string \<times> string option \<times> string option \<times> string option" where
  "resolve_usage_meta env =
     (case ae_provider_config env of
        Some c \<Rightarrow>
          (if cf_provider_type c = ''anthropic'' then ''anthropic'' else ''openai'', Some (cf_provider_type c),
           nonempty (resolve_model (ae_model env) (cf_model c)), nonempty (ae_model env))
      | None \<Rightarrow>
          (''openai'', None, nonempty (resolve_model (ae_model env) (ae_default_model env)), nonempty (ae_model env)))"

definition released :: "ReleaseResult \<Rightarrow> string option" where
  "released r = (if rl_allowed r then rl_content r else None)"

definition record_payloads :: "('f, 'w) agent_env \<Rightarrow> string \<Rightarrow> string \<Rightarrow> ('f, 'w) agent_sys \<Rightarrow> ('f, 'w) agent_sys" where
  "record_payloads env request response y =
     (if as_persist_messages (sy_state y) then
        y\<lparr>sy_payload_log := sy_payload_log y @
            (case released (if_release (ae_flow env) request LLM_PAYLOAD_LOG INTERNAL ''llm_request'' []) of
               None \<Rightarrow> [] | Some t \<Rightarrow> [t]) @
            (case released (if_release (ae_flow env) response LLM_PAYLOAD_LOG INTERNAL ''llm_response'' []) of
               None \<Rightarrow> [] | Some t \<Rightarrow> [t])\<rparr>
      else y)"

definition record_usage ::
  "('f, 'w) agent_env \<Rightarrow> string \<Rightarrow> string \<Rightarrow> string option \<Rightarrow> LLMResult \<Rightarrow> ('f, 'w) agent_sys \<Rightarrow> ('f, 'w) agent_sys" where
  "record_usage env request response tools r y =
     (if as_persist_messages (sy_state y) \<and> ae_usage_service env \<and> lr_has_usage r then
        (let (kind, name, real, requested) = resolve_usage_meta env in
         y\<lparr>sy_usage := sy_usage y @
             [\<lparr>ue_session_id = as_session_id (sy_state y), ue_model = real, ue_provider = name, ue_provider_kind = kind,
               ue_requested_model = requested, ue_trigger_type = resolve_trigger_type (as_working_messages (sy_state y)),
               ue_request_messages = released (if_release (ae_flow env) request USAGE_RETENTION INTERNAL ''llm_request'' []),
               ue_response_message = released (if_release (ae_flow env) response USAGE_RETENTION INTERNAL ''llm_response'' []),
               ue_tools = Option.bind tools (\<lambda>t. released (if_release (ae_flow env) t USAGE_RETENTION INTERNAL ''llm_tools'' []))\<rparr>]\<rparr>)
      else y)"

text \<open>
  Step 7: the message is one object, so that the scrubbed content is also what the list of working messages and the list of
  tool messages hold.
\<close>

definition accept_result ::
  "('f, 'w) agent_env \<Rightarrow> string \<Rightarrow> json list \<Rightarrow> LLMResult \<Rightarrow> ('f, 'w) agent_sys \<Rightarrow> ('f, 'w) agent_sys" where
  "accept_result env request tools r y =
     (let m = scrubbed_message env (lr_message r);
          calls = json_items (map_of m ''tool_calls'');
          y1 = upd (\<lambda>st. st\<lparr>as_iteration_count := as_iteration_count st + 1, as_final_message := Some m,
                 as_finish_reason := lr_finish_reason r, as_pending_tool_calls := calls,
                 as_assistant_tool_messages := as_assistant_tool_messages st @ (if calls \<noteq> [] then [m] else []),
                 as_working_messages := as_working_messages st @ [JObj m]\<rparr>) y;
          dumps = te_dumps (ae_tool env)
      in record_usage env request (dumps (JObj m)) (if tools = [] then None else Some (dumps (JList tools))) r
           (record_payloads env request (dumps (JObj m)) y1))"

definition chat_with_provider ::
  "('f::{linorder,plus,minus,zero}, 'w) agent_env \<Rightarrow> json list \<Rightarrow> string \<Rightarrow> json list \<Rightarrow> string
     \<Rightarrow> 'f BudgetReservationDecision option \<Rightarrow> ('f, 'w) agent_sys \<Rightarrow> ('f, 'w) agent_sys \<times> agent_raise option" where
  "chat_with_provider env msgs request tools model reservation y =
     (let sent = (case ae_pre_llm_context env (sy_state y) msgs of
                    Some ctx \<Rightarrow> if ctx = [] then msgs else inject_context_into_last_user_message msgs ctx
                  | None \<Rightarrow> msgs);
          (w1, answer) = ae_chat env sent tools model (ts_world (sy_tools y));
          y1 = y\<lparr>sy_tools := (sy_tools y)\<lparr>ts_world := w1\<rparr>, sy_chats := sy_chats y @ [(sent, tools, model)]\<rparr>
      in case answer of
           Chat_Cancelled \<Rightarrow> (y1, Some Cancelled_Error)
         | Chat_Raises e \<Rightarrow> (fail_llm e (release_llm_call reservation y1), None)
         | Chat_Other \<Rightarrow>
             (fail_llm ''streaming provider result is not supported inside graph'' (release_llm_call reservation y1), None)
         | Chat_Result r \<Rightarrow>
             (accept_result env request tools r
                (settle_llm_call (if lr_has_usage r then lr_total_tokens r else None) reservation y1), None))"

text \<open>The choice of the model, the reservation and the call.\<close>

definition select_model :: "('f, 'w) agent_env \<Rightarrow> json list \<Rightarrow> json list \<Rightarrow> AgentState \<Rightarrow> ModelSelection" where
  "select_model env msgs tools st =
     (let cap = provider_capability env in
      llm_evaluate (ae_model env) [cap] (build_model_requirements msgs tools st) [pc_provider_id cap]
        (case ae_snapshot env of Some p \<Rightarrow> rn_fallback_enabled p | None \<Rightarrow> ae_fallback_enabled env))"

definition select_and_chat ::
  "('f::{linorder,plus,minus,zero}, 'w) agent_env \<Rightarrow> nat \<Rightarrow> json list \<Rightarrow> string \<Rightarrow> json list
     \<Rightarrow> ('f, 'w) agent_sys \<Rightarrow> ('f, 'w) agent_sys \<times> agent_raise option" where
  "select_and_chat env n msgs request tools y =
     (let sel = select_model env msgs tools (sy_state y) in
      if ms_verdict sel = DENY then (deny_selection (ms_reason sel) y, None)
      else
        (let model = (if ms_model_id sel \<noteq> [] then ms_model_id sel else ae_model env);
             (y1, reservation) = reserve_llm_call (ae_now env n) (int (length request) div 4) y
         in if (case reservation of None \<Rightarrow> False | Some d \<Rightarrow> bd_outcome d = DENY)
            then (upd (\<lambda>st. st\<lparr>as_budget_exhausted := True, as_pending_tool_calls := []\<rparr>) y1, None)
            else chat_with_provider env msgs request tools model reservation y1))"

definition call_llm ::
  "('f::{linorder,plus,minus,zero}, 'w) agent_env \<Rightarrow> ('f, 'w) agent_sys \<Rightarrow> ('f, 'w) agent_sys \<times> agent_raise option" where
  "call_llm env y0 =
     (let n = sy_clock y0; y = tick y0; dumps = te_dumps (ae_tool env) in
      if \<not> ae_owned env n then (y, Some Ownership_Lost)
      else if ae_cancelled env n then (y, Some Cancelled_Error)
      else case ae_provider_context env (sy_state y) of
        Inl e \<Rightarrow> (fail_llm e y, None)
      | Inr (msgs, tools) \<Rightarrow>
          (let request = dumps (JList msgs);
               rel = if_release (ae_flow env) request LLM_PROVIDER INTERNAL ''llm_request'' []
           in if \<not> rl_allowed rel then (fail_llm ''information_release_denied'' y, None)
              else if rd_transform (rl_decision rel) = Some ''redaction'' then
                (let safe = redact_messages (ae_flow env) msgs in select_and_chat env n safe (dumps (JList safe)) tools y)
              else select_and_chat env n msgs request tools y))"

end
