(* ===== verification/Agent_Turn.thy ===== *)
theory Agent_Turn
  imports Agent_Graph
begin

text \<open>
  The other nodes of \<open>app/application/agent_graph.py\<close>: executing the tool calls of a message with their approvals, updating
  the memory, finalizing, and the graph that connects the nodes. A node runs in one step of the graph; the number of steps is
  limited by the \<open>recursion_limit\<close> that the graph is called with.
\<close>

section \<open>Displays\<close>

definition display_arguments :: "('f, 'w) agent_env \<Rightarrow> string \<Rightarrow> arguments \<Rightarrow> arguments" where
  "display_arguments env name args =
     (if browser_prefix name then project_browser_tool_arguments (te_urlsplit (ae_tool env)) (ae_urlunsplit env) name args else args)"

definition emit_stream_tool_event :: "('f, 'w) agent_env \<Rightarrow> (string \<times> json) list \<Rightarrow> ('f, 'w) agent_sys \<Rightarrow> ('f, 'w) agent_sys" where
  "emit_stream_tool_event env event y =
     (let y1 = upd (\<lambda>st. st\<lparr>as_stream_tool_events := as_stream_tool_events st @ [event]\<rparr>) y in
      if ae_sink env
      then y1\<lparr>sy_stream := sy_stream y1 @
              [map (\<lambda>p. if fst p = ''arguments'' then (fst p, if_redact_structured (ae_flow env) (snd p)) else p) event]\<rparr>
      else y1)"

text \<open>The arguments of browser tools in a stored assistant message.\<close>

definition project_tool_call :: "('f, 'w) agent_env \<Rightarrow> json \<Rightarrow> json" where
  "project_tool_call env tc =
     (case tc of
        JObj kvs \<Rightarrow>
          (let function = (case map_of kvs ''function'' of Some (JObj f) \<Rightarrow> f | _ \<Rightarrow> []);
               name = json_text (map_of function ''name'');
               raw = (case map_of function ''arguments'' of None \<Rightarrow> JObj [] | Some a \<Rightarrow> a);
               parsed = (case (case raw of JStr s \<Rightarrow> (case te_loads (ae_tool env) s of None \<Rightarrow> JObj [] | Some j \<Rightarrow> j) | _ \<Rightarrow> raw) of
                           JObj a \<Rightarrow> a | _ \<Rightarrow> []);
               arguments = (if browser_prefix name
                            then JStr (te_dumps (ae_tool env) (JObj (display_arguments env name parsed))) else raw)
           in JObj (obj_set ''function'' (JObj (obj_set ''arguments'' arguments function)) kvs))
      | _ \<Rightarrow> tc)"

section \<open>Approvals\<close>

definition permission_denied_result :: "ToolCallRequest \<Rightarrow> string \<Rightarrow> ToolResult" where
  "permission_denied_result rq reason = denied_result rq reason"

definition context_decider :: "ToolExecutionContext option \<Rightarrow> (ApprovalRequest \<Rightarrow> decider_answer) option" where
  "context_decider ctx = (case ctx of None \<Rightarrow> None | Some c \<Rightarrow> tx_approval_decider c)"

definition approval_session :: "ToolExecutionContext option \<Rightarrow> ('f, 'w) agent_sys \<Rightarrow> string" where
  "approval_session ctx y =
     (case ctx of
        Some c \<Rightarrow> if truthy (tx_session_id c) then the (tx_session_id c) else as_session_id (sy_state y)
      | None \<Rightarrow> as_session_id (sy_state y))"

text \<open>The decision of the decider: a refusal with its reason, or the scope.\<close>

definition decide :: "(ApprovalRequest \<Rightarrow> decider_answer) \<Rightarrow> ApprovalRequest \<Rightarrow> string + string" where
  "decide decider aq =
     (case decider aq of
        Decider_Raises \<Rightarrow> Inl ''approval_failed''
      | Not_A_Decision \<Rightarrow> Inl ''invalid_approval_decision''
      | Decided d \<Rightarrow>
          if \<not> ad_allowed d then Inl (if ad_reason d \<noteq> [] then ad_reason d else ''approval_denied'') else Inr (ad_scope d))"

definition replaced_meanwhile ::
  "(string \<times> ToolDefinition list \<times> string list) list \<Rightarrow> ('f, 'w) ToolService \<Rightarrow> ('f, 'w) ToolService" where
  "replaced_meanwhile changes = fold (\<lambda>(source_key, ds, override) s. fst (replace_dynamic_definitions source_key ds override s)) changes"

definition run_tool ::
  "('f::{linorder,plus,minus,zero}, 'w) agent_env \<Rightarrow> ToolCallRequest \<Rightarrow> ToolExecutionContext option \<Rightarrow> ToolExecutionEvaluation option
     \<Rightarrow> ('f, 'w) agent_sys \<Rightarrow> ('f, 'w) agent_sys \<times> (tool_raise + ToolResult)" where
  "run_tool env rq ctx ev y =
     (let (s1, r) = tool_execute (tool_env_now env y) rq ctx ev (sy_tools y) in (tick (tick (y\<lparr>sy_tools := s1\<rparr>)), r))"

definition request_tool_approval ::
  "('f::{linorder,plus,minus,zero}, 'w) agent_env \<Rightarrow> ToolCallRequest \<Rightarrow> ToolExecutionContext option \<Rightarrow> ToolExecutionEvaluation
     \<Rightarrow> ('f, 'w) agent_sys \<Rightarrow> ('f, 'w) agent_sys \<times> (tool_raise + ToolResult)" where
  "request_tool_approval env rq ctx ev y =
     (case context_decider ctx of
        None \<Rightarrow> (y, Inr (permission_denied_result rq ''approval_required''))
      | Some decider \<Rightarrow>
          (let ap = tev_approval ev;
               aq = \<lparr>aq_session_id = approval_session ctx y, aq_tool_call_id = tq_id rq, aq_tool_name = tas_name ap,
                     aq_arguments = display_arguments env (tas_name ap) (tq_arguments rq), aq_description = tas_description ap,
                     aq_risk_level = tas_risk_level ap, aq_metadata = None\<rparr>;
               y1 = tick (y\<lparr>sy_tools := replaced_meanwhile (ae_meanwhile env (sy_clock y)) (sy_tools y)\<rparr>)
           in case decide decider aq of
                Inl reason \<Rightarrow> (y1, Inr (permission_denied_result rq reason))
              | Inr scope \<Rightarrow>
                  if scope \<notin> {''once'', ''session''} then (y1, Inr (permission_denied_result rq ''invalid_approval_scope''))
                  else
                    (case service_authorize_once rq ctx (Some ev) (sy_tools y1) of
                       Inl _ \<Rightarrow> (y1, Inr (permission_denied_result rq ''authorization_failed''))
                     | Inr c \<Rightarrow> run_tool env rq (Some c) (Some ev) y1)))"

definition HOST_GRANT_NOTICE :: string where
  "HOST_GRANT_NOTICE = ''grant access to the browser of the host''"

definition request_browser_host_grant_approval ::
  "('f::{linorder,plus,minus,zero}, 'w) agent_env \<Rightarrow> ToolCallRequest \<Rightarrow> ToolExecutionContext option \<Rightarrow> json
     \<Rightarrow> ('f, 'w) agent_sys \<Rightarrow> ('f, 'w) agent_sys \<times> (tool_raise + ToolResult)" where
  "request_browser_host_grant_approval env rq ctx signal y =
     (if \<not> ae_browser_dashboard env then (y, Inr (permission_denied_result rq ''host_grant_required''))
      else case context_decider ctx of
        None \<Rightarrow> (y, Inr (permission_denied_result rq ''approval_required''))
      | Some decider \<Rightarrow>
          (let bsid = json_text (obj_get signal ''browser_session_id'') in
           if bsid = [] then (y, Inr (permission_denied_result rq ''host_grant_required''))
           else
             (let aq = \<lparr>aq_session_id = approval_session ctx y, aq_tool_call_id = tq_id rq, aq_tool_name = tq_name rq,
                        aq_arguments = display_arguments env (tq_name rq) (tq_arguments rq), aq_description = HOST_GRANT_NOTICE,
                        aq_risk_level = CONFIRM,
                        aq_metadata = Some [(''approval_kind'', JStr ''host_grant''), (''browser_session_id'', JStr bsid)]\<rparr>;
                  y1 = tick (y\<lparr>sy_tools := replaced_meanwhile (ae_meanwhile env (sy_clock y)) (sy_tools y)\<rparr>)
              in case decide decider aq of
                   Inl reason \<Rightarrow> (y1, Inr (permission_denied_result rq reason))
                 | Inr scope \<Rightarrow>
                     (let actor = (case ctx of Some c \<Rightarrow> map_of (tx_trusted_metadata c) ''actor_id'' | None \<Rightarrow> None);
                          (w1, ok) = ae_grant_host env bsid (approval_session ctx y) actor (ts_world (sy_tools y1));
                          y2 = y1\<lparr>sy_tools := (sy_tools y1)\<lparr>ts_world := w1\<rparr>\<rparr>
                      in if ok \<noteq> Some True then (y2, Inr (permission_denied_result rq ''host_grant_failed''))
                         else run_tool env rq
                                (case service_authorize_once rq ctx None (sy_tools y2) of Inl _ \<Rightarrow> ctx | Inr c \<Rightarrow> Some c) None y2))))"

section \<open>Executing the tool calls\<close>

definition is_host_grant_signal :: "ToolResult \<Rightarrow> bool" where
  "is_host_grant_signal r \<longleftrightarrow> tr_status r = PERMISSION_DENIED \<and> obj_get (tr_content r) ''approval_kind'' = Some (JStr ''host_grant'')"

definition dispatch_request ::
  "('f::{linorder,plus,minus,zero}, 'w) agent_env \<Rightarrow> ToolCallRequest \<Rightarrow> ('f, 'w) agent_sys \<Rightarrow> ('f, 'w) agent_sys \<times> (tool_raise + ToolResult)" where
  "dispatch_request env rq y =
     (let ctx = ae_tool_context env in
      case service_evaluate_execution rq ctx (sy_tools y) of
        (s1, Inl _) \<Rightarrow>
          (y\<lparr>sy_tools := s1\<rparr>, Inr (tool_result (tq_id rq) (tq_name rq) ToolResultStatus.ERROR (JObj [(''error'', JStr ''tool not found'')])))
      | (s1, Inr ev) \<Rightarrow>
          (let y1 = y\<lparr>sy_tools := s1\<rparr>; outcome = pd_outcome (tev_decision ev) in
           if outcome = ALLOW then
             (case run_tool env rq ctx (Some ev) y1 of
                (y2, Inl e) \<Rightarrow> (y2, Inl e)
              | (y2, Inr r) \<Rightarrow>
                  if is_host_grant_signal r then request_browser_host_grant_approval env rq ctx (tr_content r) y2 else (y2, Inr r))
           else if outcome = DENY then (y1, Inr (permission_denied_result rq (pd_reason (tev_decision ev))))
           else request_tool_approval env rq ctx ev y1))"

record parsed_call =
  pa_id :: string
  pa_name :: string
  pa_arguments :: "arguments option"

text \<open>\<open>None\<close>: the arguments are not JSON, or not an object.\<close>

definition parse_tool_call :: "('f, 'w) agent_env \<Rightarrow> json \<Rightarrow> parsed_call" where
  "parse_tool_call env tc =
     (let function = (case obj_get tc ''function'' of None \<Rightarrow> JObj [] | Some f \<Rightarrow> f);
          raw = (case obj_get function ''arguments'' of None \<Rightarrow> JObj [] | Some a \<Rightarrow> a);
          parsed = (case raw of JStr s \<Rightarrow> te_loads (ae_tool env) s | _ \<Rightarrow> Some raw)
      in \<lparr>pa_id = json_text (obj_get tc ''id''), pa_name = json_text (obj_get function ''name''),
          pa_arguments = (case parsed of Some (JObj a) \<Rightarrow> Some a | _ \<Rightarrow> None)\<rparr>)"

fun status_value :: "ToolResultStatus \<Rightarrow> string" where
  "status_value SUCCESS = ''success''"
| "status_value ToolResultStatus.ERROR = ''error''"
| "status_value PERMISSION_DENIED = ''permission_denied''"
| "status_value TIMEOUT = ''timeout''"
| "status_value SKIPPED = ''skipped''"

definition tool_call_event :: "string \<Rightarrow> string \<Rightarrow> arguments \<Rightarrow> string \<Rightarrow> (string \<times> json) list" where
  "tool_call_event cid name args status =
     [(''id'', JStr cid), (''name'', JStr name), (''arguments'', JObj args), (''status'', JStr status)]"

definition ARTIFACT_WRITE_TOOLS :: "string list" where
  "ARTIFACT_WRITE_TOOLS = [''artifact_create'', ''artifact_update'', ''artifact_rollback'', ''artifact_publish'']"

fun json_truthy :: "json option \<Rightarrow> bool" where
  "json_truthy None = False"
| "json_truthy (Some JNull) = False"
| "json_truthy (Some (JBool b)) = b"
| "json_truthy (Some (JInt i)) = (i \<noteq> 0)"
| "json_truthy (Some (JStr s)) = (s \<noteq> [])"
| "json_truthy (Some (JList xs)) = (xs \<noteq> [])"
| "json_truthy (Some (JObj kvs)) = (kvs \<noteq> [])"

definition or_null :: "json option \<Rightarrow> json" where
  "or_null j = (case j of None \<Rightarrow> JNull | Some v \<Rightarrow> v)"

definition persist_artifact_card :: "('f, 'w) agent_env \<Rightarrow> ToolResult \<Rightarrow> ('f, 'w) agent_sys \<Rightarrow> ('f, 'w) agent_sys" where
  "persist_artifact_card env r y =
     (case (case tr_content r of JStr s \<Rightarrow> te_loads (ae_tool env) s | c \<Rightarrow> Some c) of
        Some (JObj p) \<Rightarrow>
          if json_truthy (map_of p ''success'') \<and> json_truthy (map_of p ''artifact_id'') \<and> json_truthy (map_of p ''revision_id'')
          then remember (Append_Card (as_session_id (sy_state y))
                 (map (\<lambda>k. (k, or_null (map_of p k)))
                    [''artifact_id'', ''revision_id'', ''name'', ''kind'', ''revision_number'', ''publish_sync_state''])) y
          else y
      | _ \<Rightarrow> y)"

definition result_payload :: "('f, 'w) agent_env \<Rightarrow> ToolResult \<Rightarrow> json" where
  "result_payload env r =
     JObj [(''tool_call_id'', JStr (tr_tool_call_id r)), (''name'', JStr (tr_tool_name r)), (''status'', JStr (status_value (tr_status r))),
           (''content'', case ae_transform_result env r of Some j \<Rightarrow> j | None \<Rightarrow> tr_content r), (''duration_ms'', JInt (tr_duration_ms r))]"

definition tool_message :: "('f, 'w) agent_env \<Rightarrow> ToolResult \<Rightarrow> json" where
  "tool_message env r =
     JObj [(''role'', JStr ''tool''), (''tool_call_id'', JStr (tr_tool_call_id r)), (''name'', JStr (tr_tool_name r)),
           (''content'', JStr (te_dumps (ae_tool env) (result_payload env r)))]"

definition record_result :: "('f, 'w) agent_env \<Rightarrow> arguments \<Rightarrow> string \<Rightarrow> ToolResult \<Rightarrow> ('f, 'w) agent_sys \<Rightarrow> ('f, 'w) agent_sys" where
  "record_result env display cid r y =
     (let y1 = emit_stream_tool_event env
                 (tool_call_event cid (tr_tool_name r) display (if tr_status r = SUCCESS then ''success'' else ''error'') @
                  [(''duration_ms'', JInt (tr_duration_ms r))]) y;
          payload = result_payload env r;
          y2 = upd (\<lambda>st. st\<lparr>as_tool_results := as_tool_results st @ [payload],
                            as_working_messages := as_working_messages st @ [tool_message env r]\<rparr>) y1;
          y3 = (if as_persist_messages (sy_state y2)
                then remember (Save_Tool_Call (as_session_id (sy_state y2)) r display payload) y2 else y2)
      in if as_persist_messages (sy_state y3) \<and> tr_status r = SUCCESS \<and> tr_tool_name r \<in> set ARTIFACT_WRITE_TOOLS
         then persist_artifact_card env r y3 else y3)"

definition call_display :: "('f, 'w) agent_env \<Rightarrow> parsed_call \<Rightarrow> arguments" where
  "call_display env p = display_arguments env (pa_name p) (case pa_arguments p of None \<Rightarrow> [] | Some a \<Rightarrow> a)"

definition announce_call :: "('f, 'w) agent_env \<Rightarrow> parsed_call \<Rightarrow> ('f, 'w) agent_sys \<Rightarrow> ('f, 'w) agent_sys" where
  "announce_call env p = emit_stream_tool_event env (tool_call_event (pa_id p) (pa_name p) (call_display env p) ''pending'')"

definition answer_call ::
  "('f::{linorder,plus,minus,zero}, 'w) agent_env \<Rightarrow> parsed_call \<Rightarrow> ('f, 'w) agent_sys \<Rightarrow> ('f, 'w) agent_sys \<times> (tool_raise + ToolResult)" where
  "answer_call env p y =
     (case pa_arguments p of
        None \<Rightarrow> (y, Inr (tool_result (pa_id p) (pa_name p) ToolResultStatus.ERROR (JObj [(''error'', JStr ''invalid arguments'')])))
      | Some args \<Rightarrow>
          dispatch_request env \<lparr>tq_object = sy_next_object y, tq_id = pa_id p, tq_name = pa_name p, tq_arguments = args\<rparr>
            (y\<lparr>sy_next_object := Suc (sy_next_object y)\<rparr>))"

definition execute_call ::
  "('f::{linorder,plus,minus,zero}, 'w) agent_env \<Rightarrow> json \<Rightarrow> ('f, 'w) agent_sys \<Rightarrow> ('f, 'w) agent_sys \<times> (tool_raise + bool)" where
  "execute_call env tc y =
     (let p = parse_tool_call env tc in
      case answer_call env p (announce_call env p y) of
        (y1, Inl e) \<Rightarrow> (y1, Inl e)
      | (y1, Inr r) \<Rightarrow> (record_result env (call_display env p) (pa_id p) r y1, Inr (tr_terminal r)))"

text \<open>The loop ends at the first call that raises or whose result ends the turn.\<close>

fun execute_calls ::
  "('f::{linorder,plus,minus,zero}, 'w) agent_env \<Rightarrow> json list \<Rightarrow> ('f, 'w) agent_sys \<Rightarrow> ('f, 'w) agent_sys \<times> (tool_raise + bool)" where
  "execute_calls env [] y = (y, Inr False)"
| "execute_calls env (tc # tcs) y =
     (case execute_call env tc y of
        (y1, Inl e) \<Rightarrow> (y1, Inl e)
      | (y1, Inr True) \<Rightarrow> (y1, Inr True)
      | (y1, Inr False) \<Rightarrow> execute_calls env tcs y1)"

definition execute_tools ::
  "('f::{linorder,plus,minus,zero}, 'w) agent_env \<Rightarrow> ('f, 'w) agent_sys \<Rightarrow> ('f, 'w) agent_sys \<times> agent_raise option" where
  "execute_tools env y0 =
     (let n = sy_clock y0; y = tick y0 in
      if \<not> ae_owned env n then (y, Some Ownership_Lost)
      else if ae_cancelled env n then (y, Some Cancelled_Error)
      else case execute_calls env (as_pending_tool_calls (sy_state y)) (upd (\<lambda>st. st\<lparr>as_tool_results := []\<rparr>) y) of
        (y1, Inl e) \<Rightarrow> (y1, Some (Tool_Raised e))
      | (y1, Inr terminal) \<Rightarrow>
          (upd (\<lambda>st. if terminal
                     then st\<lparr>as_pending_tool_calls := [],
                             as_final_message := Some [(''role'', JStr ''assistant''), (''content'', JStr [])], as_finish_reason := Some ''stop''\<rparr>
                     else st\<lparr>as_pending_tool_calls := [], as_final_message := None\<rparr>) y1, None))"

section \<open>Memory\<close>

definition assistant_op :: "('f, 'w) agent_env \<Rightarrow> AgentState \<Rightarrow> (string \<times> json) list \<Rightarrow> memory_op" where
  "assistant_op env st m =
     (let content = (case map_of m ''content'' of None \<Rightarrow> JStr [] | Some c \<Rightarrow> c);
          calls = json_items (map_of m ''tool_calls'')
      in Append_Assistant (as_session_id st)
           (if calls \<noteq> [] then JObj [(''content'', content), (''tool_calls'', JList (map (project_tool_call env) calls))] else content)
           (as_message_source st))"

definition tool_op :: "('f, 'w) agent_env \<Rightarrow> AgentState \<Rightarrow> json \<Rightarrow> memory_op" where
  "tool_op env st r =
     Append_Tool (as_session_id st) (te_dumps (ae_tool env) r) (or_null (obj_get r ''tool_call_id'')) (or_null (obj_get r ''name''))"

definition update_memory :: "('f, 'w) agent_env \<Rightarrow> ('f, 'w) agent_sys \<Rightarrow> ('f, 'w) agent_sys \<times> agent_raise option" where
  "update_memory env y0 =
     (let n = sy_clock y0; y = tick y0; st = sy_state y in
      if \<not> ae_owned env n then (y, Some Ownership_Lost)
      else if ae_cancelled env n then (y, Some Cancelled_Error)
      else
        (let ops = (if as_persist_messages st
                    then map (assistant_op env st) (as_assistant_tool_messages st) @ map (tool_op env st) (as_tool_results st) @
                         [Save_Task_State (as_session_id st) (if truthy (as_error st) then ''failed'' else ''running'')
                            (as_iteration_count st) (as_error st)]
                    else [])
         in (upd (\<lambda>st. st\<lparr>as_assistant_tool_messages := [], as_tool_results := []\<rparr>) (y\<lparr>sy_memory := sy_memory y @ ops\<rparr>), None)))"

section \<open>Finalizing\<close>

fun finish_reason_of :: "EndReason \<Rightarrow> string" where
  "finish_reason_of STOP = ''stop''"
| "finish_reason_of ERROR_REASON = ''error''"
| "finish_reason_of CANCELLED = ''error''"
| "finish_reason_of TOOL_CALLS = ''tool_calls''"
| "finish_reason_of LENGTH = ''length''"
| "finish_reason_of ITERATION_LIMIT = ''length''"
| "finish_reason_of DEADLINE = ''length''"
| "finish_reason_of BUDGET_EXHAUSTED = ''length''"

definition BUDGET_NOTICE :: string where
  "BUDGET_NOTICE = ''the usage limit is reached''"

definition apply_end_reason :: "EndReason \<Rightarrow> AgentState \<Rightarrow> AgentState" where
  "apply_end_reason er st =
     (if er = ITERATION_LIMIT \<and> \<not> truthy (as_error st)
      then st\<lparr>as_error := Some ''iteration limit reached'', as_finish_reason := Some (finish_reason_of er), as_final_message := None\<rparr>
      else if er = BUDGET_EXHAUSTED \<and> \<not> truthy (as_error st)
      then st\<lparr>as_finish_reason := Some (finish_reason_of er),
              as_final_message := (if as_final_message st \<in> {None, Some []}
                then Some [(''role'', JStr ''assistant''), (''content'', JStr BUDGET_NOTICE)] else as_final_message st)\<rparr>
      else if er = DEADLINE \<and> \<not> truthy (as_error st)
      then st\<lparr>as_error := Some ''turn timeout exceeded'', as_finish_reason := Some (finish_reason_of er), as_final_message := None\<rparr>
      else if er = CANCELLED
      then st\<lparr>as_error := py_or (as_error st) (Some ''cancelled''), as_finish_reason := Some (finish_reason_of er)\<rparr>
      else if er = ERROR_REASON then st\<lparr>as_finish_reason := py_or (as_finish_reason st) (Some ''error'')\<rparr>
      else if er = STOP then st\<lparr>as_finish_reason := py_or (as_finish_reason st) (Some ''stop'')\<rparr>
      else st)"

definition error_message_for_user :: "('f, 'w) agent_env \<Rightarrow> AgentState \<Rightarrow> string" where
  "error_message_for_user env st =
     (if as_error st = Some ''iteration limit reached'' then ae_limit_message env (as_working_messages st)
      else if truthy (as_error st) then the (as_error st) else ''error'')"

definition settle_outcome :: "('f, 'w) agent_env \<Rightarrow> AgentState \<Rightarrow> AgentState" where
  "settle_outcome env st =
     (let st1 = st\<lparr>as_run_status := (if truthy (as_error st) then FAILED else COMPLETED)\<rparr> in
      if truthy (as_error st1) \<and> as_final_message st1 \<in> {None, Some []}
      then st1\<lparr>as_final_message :=
             Some [(''role'', JStr ''assistant''), (''content'', JStr (ae_scrub env (error_message_for_user env st1)))]\<rparr>
      else st1)"

definition transform_final :: "('f, 'w) agent_env \<Rightarrow> AgentState \<Rightarrow> AgentState" where
  "transform_final env st =
     (case as_final_message st of
        None \<Rightarrow> st
      | Some m \<Rightarrow>
          (case map_of m ''content'' of
             Some (JStr s) \<Rightarrow>
               (case (if s = [] then None else ae_transform_output env s) of
                  Some t \<Rightarrow> if t = [] then st else st\<lparr>as_final_message := Some (obj_set ''content'' (JStr t) m)\<rparr>
                | None \<Rightarrow> st)
           | _ \<Rightarrow> st))"

fun run_status_value :: "RunStatus \<Rightarrow> string" where
  "run_status_value PENDING = ''pending''"
| "run_status_value RUNNING = ''running''"
| "run_status_value COMPLETED = ''completed''"
| "run_status_value FAILED = ''failed''"

definition user_text :: "json \<Rightarrow> string list" where
  "user_text m =
     (if is_user m then
        (let t = extract_text (obj_get m ''content'') in
         if t \<noteq> [] then [t] else if has_image_part (obj_get m ''content'') then [''[an image]''] else [])
      else [])"

fun join_lines :: "string list \<Rightarrow> string" where
  "join_lines [] = []"
| "join_lines [x] = x"
| "join_lines (x # xs) = x @ [CHR 0x0A] @ join_lines xs"

definition final_ops :: "('f, 'w) agent_env \<Rightarrow> AgentState \<Rightarrow> memory_op list" where
  "final_ops env st =
     (if \<not> as_persist_messages st then []
      else
        (case as_final_message st of
           Some m \<Rightarrow>
             if m = [] then []
             else
               (let content = (case map_of m ''content'' of None \<Rightarrow> JStr [] | Some c \<Rightarrow> c);
                    calls = json_items (map_of m ''tool_calls'')
                in [Append_Assistant (as_session_id st)
                      (if calls \<noteq> [] then JObj [(''content'', content), (''tool_calls'', JList calls)] else content) (as_message_source st)] @
                   (if ae_external_memory env
                    then [Sync_External (as_session_id st) (join_lines (concat (map user_text (as_input_messages st))))
                            (extract_text (Some content))]
                    else []))
         | None \<Rightarrow> []) @
        [Save_Task_State (as_session_id st) (run_status_value (as_run_status st)) (as_iteration_count st) (as_error st)])"

definition finalize :: "('f::linorder, 'w) agent_env \<Rightarrow> ('f, 'w) agent_sys \<Rightarrow> ('f, 'w) agent_sys \<times> agent_raise option" where
  "finalize env y0 =
     (let n = sy_clock y0; y = tick y0 in
      if \<not> ae_owned env n then (y, Some Ownership_Lost)
      else
        (let d = evaluate_turn env n (sy_state y);
             st1 = (case tn_end_reason d of
                      Some er \<Rightarrow> apply_end_reason er (sy_state y)
                    | None \<Rightarrow> (sy_state y)\<lparr>as_finish_reason := py_or (as_finish_reason (sy_state y)) (Some ''stop'')\<rparr>);
             st2 = transform_final env (settle_outcome env st1)
         in (with_budget (budget_close (as_run_id st2))
               (y\<lparr>sy_state := st2, sy_end_reason := tn_end_reason d, sy_memory := sy_memory y @ final_ops env st2\<rparr>), None)))"

section \<open>The graph\<close>

datatype node = Prepare_Context | Call_Llm | Execute_Tools | Update_Memory | Finalize

datatype ('f, 'w) turn = At node "('f, 'w) agent_sys" | Ended "('f, 'w) agent_sys" | Raised agent_raise "('f, 'w) agent_sys"

definition after_llm :: "('f::linorder, 'w) agent_env \<Rightarrow> ('f, 'w) agent_sys \<Rightarrow> ('f, 'w) turn" where
  "after_llm env y =
     (let d = evaluate_turn env (sy_clock y) (sy_state y) in
      At (if tn_next_step d = EXECUTE_TOOLS then Execute_Tools
          else if tn_terminal d \<and> tn_end_reason d \<notin> {Some STOP, Some ITERATION_LIMIT} then Finalize
          else Update_Memory) (tick y))"

definition after_memory :: "('f::linorder, 'w) agent_env \<Rightarrow> ('f, 'w) agent_sys \<Rightarrow> ('f, 'w) turn" where
  "after_memory env y = At (if tn_terminal (evaluate_turn env (sy_clock y) (sy_state y)) then Finalize else Call_Llm) (tick y)"

definition routed :: "(('f, 'w) agent_sys \<Rightarrow> ('f, 'w) turn) \<Rightarrow> ('f, 'w) agent_sys \<times> agent_raise option \<Rightarrow> ('f, 'w) turn" where
  "routed route p = (case snd p of Some e \<Rightarrow> Raised e (fst p) | None \<Rightarrow> route (fst p))"

definition prepare_context :: "('f, 'w) agent_env \<Rightarrow> ('f, 'w) agent_sys \<Rightarrow> ('f, 'w) agent_sys \<times> agent_raise option" where
  "prepare_context env y =
     (case ae_prepare env (sy_state y) of Inl e \<Rightarrow> (y, Some (Prepare_Raised e)) | Inr st \<Rightarrow> (y\<lparr>sy_state := st\<rparr>, None))"

fun graph_step :: "('f::{linorder,plus,minus,zero}, 'w) agent_env \<Rightarrow> ('f, 'w) turn \<Rightarrow> ('f, 'w) turn" where
  "graph_step env (At Prepare_Context y) = routed (At Call_Llm) (prepare_context env y)"
| "graph_step env (At Call_Llm y) = routed (after_llm env) (call_llm env y)"
| "graph_step env (At Execute_Tools y) = routed (At Update_Memory) (execute_tools env y)"
| "graph_step env (At Update_Memory y) = routed (after_memory env) (update_memory env y)"
| "graph_step env (At Finalize y) = routed Ended (finalize env y)"
| "graph_step env (Ended y) = Ended y"
| "graph_step env (Raised e y) = Raised e y"

definition recursion_limit :: "('f, 'w) agent_env \<Rightarrow> nat" where
  "recursion_limit env = nat (max (run_iteration_limit env * 3) 25)"

datatype turn_error = Turn_Raised agent_raise | GraphRecursionError

text \<open>
  \<open>_run\<close>: the account of the run is opened; a cancellation closes it. LangGraph counts a step per node, raises what the
  node of the last step raises, and looks at its limit before it looks whether anything is left to do: a turn whose last node
  uses up the last step is over, but the call raises nevertheless.
\<close>

definition turn_start :: "('f::{linorder,plus,minus,zero}, 'w) agent_env \<Rightarrow> ('f, 'w) agent_sys \<Rightarrow> ('f, 'w) turn" where
  "turn_start env y = At Prepare_Context (with_budget (budget_open (as_run_id (sy_state y)) (map_option rn_budget (ae_snapshot env))) y)"

definition run_turn ::
  "('f::{linorder,plus,minus,zero}, 'w) agent_env \<Rightarrow> ('f, 'w) agent_sys \<Rightarrow> ('f, 'w) agent_sys \<times> (turn_error + AgentState)" where
  "run_turn env y =
     (let t = (graph_step env ^^ (recursion_limit env - 1)) (turn_start env y) in
      case t of
        Ended y1 \<Rightarrow> (y1, Inr (sy_state y1))
      | _ \<Rightarrow>
          (case graph_step env t of
             Raised e y1 \<Rightarrow>
               (if e = Cancelled_Error then with_budget (budget_close (as_run_id (sy_state y1))) y1 else y1, Inl (Turn_Raised e))
           | Ended y1 \<Rightarrow> (y1, Inl GraphRecursionError)
           | At node y1 \<Rightarrow> (y1, Inl GraphRecursionError)))"

end
