(* ===== verification/Information_Theorems.thy ===== *)
theory Information_Theorems
  imports Information_Flow
begin

text \<open>
  No configured secret passes a release boundary, whether a text is released as a whole, as
  structured data or chunk by chunk. The catalog is \<open>clean\<close> when its secrets cannot overlap the
  placeholder \<open>[REDACTED]\<close> (they have no bracket and are no part of the word): otherwise the placeholder
  itself could complete a secret.
\<close>

definition clean :: "SecretCatalog \<Rightarrow> bool" where
  "clean c \<longleftrightarrow> list_all (\<lambda>s. s = [] \<or> token_safe REDACTED s) (sc_secret_values c)"

definition secret_free :: "SecretCatalog \<Rightarrow> string \<Rightarrow> bool" where
  "secret_free c t \<longleftrightarrow> \<not> contains_secret_value c t"

lemma secret_free_iff: "secret_free c t \<longleftrightarrow> (\<forall>s\<in>set (sc_secret_values c). s \<noteq> [] \<longrightarrow> \<not> py_in s t)"
  by (auto simp: secret_free_def contains_secret_value_def list_ex_iff)

lemma clean_safe: "clean c \<Longrightarrow> s \<in> set (sc_secret_values c) \<Longrightarrow> s \<noteq> [] \<Longrightarrow> token_safe REDACTED s"
  by (auto simp: clean_def list_all_iff)

section \<open>Redacting a text\<close>

lemma redact_one_eq: "s \<noteq> [] \<Longrightarrow> redact_one s t = py_replace s REDACTED t"
  by (simp add: redact_one_def replace_no_occurrence)

lemma redact_one_Nil [simp]: "redact_one [] t = t"
  by (simp add: redact_one_def)

lemma fold_redact_keeps:
  assumes "token_safe REDACTED s" and "\<not> py_in s t"
  shows "\<not> py_in s (fold redact_one ss t)"
  using assms(2)
proof (induction ss arbitrary: t)
  case (Cons s' ss)
  have "\<not> py_in s (redact_one s' t)"
    using replace_creates_none [OF assms(1) Cons.prems] Cons.prems by (cases "s' = []") (simp_all add: redact_one_eq)
  with Cons.IH show ?case by simp
qed simp

lemma fold_redact_removes:
  assumes "token_safe REDACTED s" and "s \<in> set ss"
  shows "\<not> py_in s (fold redact_one ss t)"
  using assms(2)
proof (induction ss arbitrary: t)
  case (Cons s' ss)
  have s: "s \<noteq> []" using assms(1) by (simp add: token_safe_def)
  show ?case
  proof (cases "s' = s")
    case True
    then have "\<not> py_in s (redact_one s' t)" using replace_removes [OF assms(1)] s by (simp add: redact_one_eq)
    with fold_redact_keeps [OF assms(1)] show ?thesis by simp
  next
    case False
    with Cons show ?thesis by simp
  qed
qed simp

lemma redact_secret_free:
  assumes "clean c"
  shows "secret_free c (redact_secret_values t c)"
  unfolding secret_free_iff redact_secret_values_def
  using fold_redact_removes [OF clean_safe [OF assms]] by auto

lemma redacted_token_free: "clean c \<Longrightarrow> secret_free c REDACTED"
  using clean_safe by (fastforce simp: secret_free_iff token_safe_def)

text \<open>A redacted text is a piece of the original, and from the first change on starts with the bracket.\<close>

definition redacted_from :: "string \<Rightarrow> string \<Rightarrow> bool" where
  "redacted_from r t \<longleftrightarrow> r = t \<or> (\<exists>u w. prefix u t \<and> r = u @ ''['' @ w)"

lemma redacted_from_refl [simp]: "redacted_from t t"
  by (simp add: redacted_from_def)

lemma redacted_from_trans:
  assumes "redacted_from r1 t" and "redacted_from r2 r1"
  shows "redacted_from r2 t"
proof (cases "r2 = r1 \<or> r1 = t")
  case True
  with assms show ?thesis by auto
next
  case False
  with assms obtain u1 w1 u2 w2 where 1: "prefix u1 t" "r1 = u1 @ ''['' @ w1"
    and 2: "prefix u2 r1" "r2 = u2 @ ''['' @ w2"
    unfolding redacted_from_def by blast
  show ?thesis
  proof (cases "prefix u2 u1")
    case True
    with 1(1) have "prefix u2 t" by (rule prefix_order.trans [rotated])
    with 2(2) show ?thesis unfolding redacted_from_def by blast
  next
    case False
    moreover have "prefix u2 (u1 @ ''['' @ w1)" using 1(2) 2(1) by simp
    ultimately obtain us where us: "u2 = u1 @ us" "prefix us (''['' @ w1)"
      unfolding prefix_append [of u2 u1] by blast
    with False obtain w where "us = ''['' @ w" by (cases us) auto
    with us(1) 2(2) have "r2 = u1 @ ''['' @ (w @ ''['' @ w2)" by simp
    with 1(1) show ?thesis unfolding redacted_from_def by blast
  qed
qed

lemma redact_one_from: "redacted_from (redact_one s t) t"
proof (cases "s = []")
  case False
  from replace_shape [of s REDACTED t] obtain u v where uv: "py_replace s REDACTED t = u @ v" "prefix u t"
    "v = [] \<and> u = t \<or> prefix REDACTED v" by blast
  show ?thesis
  proof (cases "v = [] \<and> u = t")
    case True
    with uv(1) show ?thesis by (simp add: redact_one_eq \<open>s \<noteq> []\<close>)
  next
    case False
    with uv(3) obtain w where "v = ''['' @ w" by (auto simp: REDACTED_def prefix_def)
    with uv(1,2) show ?thesis
      unfolding redacted_from_def redact_one_eq [OF \<open>s \<noteq> []\<close>] by blast
  qed
qed simp

lemma redact_secret_values_from: "redacted_from (redact_secret_values t c) t"
proof -
  have "redacted_from (fold redact_one ss t) t" for ss
  proof (induction ss arbitrary: t)
    case (Cons s ss)
    from redacted_from_trans [OF redact_one_from [of s t] Cons.IH [of "redact_one s t"]] show ?case by simp
  qed simp
  then show ?thesis by (simp add: redact_secret_values_def)
qed

section \<open>Structured data\<close>

fun json_texts :: "json \<Rightarrow> string list" where
  "json_texts (JStr s) = [s]"
| "json_texts (JList xs) = concat (map json_texts xs)"
| "json_texts (JObj kvs) = concat (map (\<lambda>(k, v). json_texts v) kvs)"
| "json_texts _ = []"

text \<open>The fields of a JSON value at any depth.\<close>

fun json_fields :: "json \<Rightarrow> (string \<times> json) list" where
  "json_fields (JList xs) = concat (map json_fields xs)"
| "json_fields (JObj kvs) = kvs @ concat (map (\<lambda>(k, v). json_fields v) kvs)"
| "json_fields _ = []"

definition credential_field :: "SecretCatalog \<Rightarrow> string \<Rightarrow> bool" where
  "credential_field c key \<longleftrightarrow> py_lower key \<in> set (map py_lower (sc_credential_field_names c))"

lemma redact_structured_obj:
  "redact_structured c (JObj kvs) =
     JObj (map (\<lambda>(k, v). (k, if credential_field c k then JStr REDACTED else redact_structured c v)) kvs)"
proof -
  have "(case v of JObj _ \<Rightarrow> redact_structured c v | JList _ \<Rightarrow> redact_structured c v
      | JStr s \<Rightarrow> JStr (redact_secret_values s c) | _ \<Rightarrow> v) = redact_structured c v" for v
    by (cases v) auto
  then show ?thesis by (simp add: credential_field_def split_beta)
qed

lemma redact_structured_texts:
  assumes "clean c"
  shows "t \<in> set (json_texts (redact_structured c j)) \<Longrightarrow> secret_free c t"
proof (induction j arbitrary: t)
  case (JStr s)
  with redact_secret_free [OF assms] show ?case by simp
next
  case (JObj kvs)
  then obtain k v where kv: "(k, v) \<in> set kvs"
    "t \<in> set (json_texts (if credential_field c k then JStr REDACTED else redact_structured c v))"
    by (auto simp del: redact_structured.simps simp add: redact_structured_obj)
  show ?case
  proof (cases "credential_field c k")
    case True
    with kv(2) redacted_token_free [OF assms] show ?thesis by simp
  next
    case False
    with kv JObj.IH [of "(k, v)" v] show ?thesis by auto
  qed
qed auto

lemma redact_structured_fields:
  "(k, v) \<in> set (json_fields (redact_structured c j)) \<Longrightarrow> credential_field c k \<Longrightarrow> v = JStr REDACTED"
proof (induction j arbitrary: k v)
  case (JObj kvs)
  then consider w where "(k, w) \<in> set kvs" "v = (if credential_field c k then JStr REDACTED else redact_structured c w)"
    | k' w where "(k', w) \<in> set kvs"
      "(k, v) \<in> set (json_fields (if credential_field c k' then JStr REDACTED else redact_structured c w))"
    by (auto simp del: redact_structured.simps simp add: redact_structured_obj)
  then show ?case
  proof cases
    case 1
    with JObj.prems(2) show ?thesis by simp
  next
    case 2
    with JObj.IH [of "(k', w)" w] JObj.prems(2) show ?thesis by (auto split: if_splits)
  qed
qed auto

section \<open>The stream guard\<close>

lemma guard_feed_parts:
  assumes "guard_feed chunk g = (g', em)"
  shows "em @ sg_buffer g' = (if if_redact_secrets (sg_config g)
      then redact_secret_values (sg_buffer g @ chunk) (sg_secrets g) else sg_buffer g @ chunk)"
    and "sg_secrets g' = sg_secrets g" "sg_config g' = sg_config g" "sg_lookbehind_size g' = sg_lookbehind_size g"
proof -
  define b where "b = (if if_redact_secrets (sg_config g)
      then redact_secret_values (sg_buffer g @ chunk) (sg_secrets g) else sg_buffer g @ chunk)"
  have "guard_feed chunk g = (if length b > sg_lookbehind_size g
      then (g\<lparr>sg_buffer := drop (length b - sg_lookbehind_size g) b\<rparr>, take (length b - sg_lookbehind_size g) b)
      else (g\<lparr>sg_buffer := b\<rparr>, []))"
    unfolding guard_feed_def Let_def b_def ..
  with assms have "em @ sg_buffer g' = b \<and> sg_secrets g' = sg_secrets g \<and> sg_config g' = sg_config g \<and>
      sg_lookbehind_size g' = sg_lookbehind_size g"
    by (auto split: if_splits)
  then show "em @ sg_buffer g' = (if if_redact_secrets (sg_config g)
      then redact_secret_values (sg_buffer g @ chunk) (sg_secrets g) else sg_buffer g @ chunk)"
    and "sg_secrets g' = sg_secrets g" "sg_config g' = sg_config g" "sg_lookbehind_size g' = sg_lookbehind_size g"
    unfolding b_def by blast+
qed

lemma guard_transform_plain:
  assumes "\<not> if_redact_secrets (sg_config g) \<or> sc_secret_values (sg_secrets g) = []"
  shows "concat (guard_transform chunks g) = sg_buffer g @ concat chunks"
  using assms
proof (induction chunks arbitrary: g)
  case Nil
  then show ?case by (simp add: guard_flush_def Let_def)
next
  case (Cons chunk chunks)
  obtain g' em where feed: "guard_feed chunk g = (g', em)" by fastforce
  note parts = guard_feed_parts [OF feed]
  have "concat (guard_transform chunks g') = sg_buffer g' @ concat chunks"
    by (rule Cons.IH) (use Cons.prems parts in simp)
  moreover have "em @ sg_buffer g' = sg_buffer g @ chunk"
    using parts(1) Cons.prems by (auto simp: redact_secret_values_def split: if_splits)
  ultimately have "em @ concat (guard_transform chunks g') = (sg_buffer g @ chunk) @ concat chunks"
    by (metis append.assoc)
  with feed show ?case by auto
qed

text \<open>
  What was emitted and what is held back together hold no secret; and unless nothing was
  emitted, the held-back part is long enough, or has a placeholder in it, so that no secret can
  reach across it into the next chunk.
\<close>

definition held_back :: "SecretCatalog \<Rightarrow> nat \<Rightarrow> string \<Rightarrow> string \<Rightarrow> bool" where
  "held_back c n out buf \<longleftrightarrow> secret_free c (out @ buf) \<and> (out = [] \<or> n \<le> length buf \<or> CHR ''['' \<in> set buf)"

lemma secret_length_le:
  assumes "s \<in> set (sc_secret_values c)" and "s \<noteq> []"
  shows "length s \<le> max_secret_length c"
proof -
  let ?ls = "map length (filter (\<lambda>s. s \<noteq> []) (sc_secret_values c))"
  have "length s \<in> set ?ls" using assms by simp
  then have "length s \<le> Max (set ?ls)" by (intro Max_ge finite_set)
  moreover from \<open>length s \<in> set ?ls\<close> have "?ls \<noteq> []" by fastforce
  ultimately show ?thesis unfolding max_secret_length_def Let_def by (simp only: if_False)
qed

lemma bracket_notin: "clean c \<Longrightarrow> s \<in> set (sc_secret_values c) \<Longrightarrow> s \<noteq> [] \<Longrightarrow> CHR ''['' \<notin> set s"
  using clean_safe [of c s] by (auto simp: token_safe_def REDACTED_def)

text \<open>An occurrence that starts in what was emitted ends in what is held back.\<close>

lemma no_crossing:
  assumes c: "clean c" and h: "held_back c (max_secret_length c - 1) out buf"
    and s: "s \<in> set (sc_secret_values c)" "s = p @ q" "p \<noteq> []" "suffix p out" "prefix q (buf @ y)"
  shows False
proof (cases "length q \<le> length buf")
  case True
  with s(5) have "prefix q buf" by (metis prefix_length_prefix prefixI)
  with s(4) have "sublist s (out @ buf)" unfolding sublist_append s(2) by blast
  with h s(1,3) s(2) show False by (auto simp: held_back_def secret_free_iff py_in_sublist)
next
  case False
  with s(5) have "prefix buf q" by (metis nat_le_linear prefixI prefix_length_prefix)
  then have "set buf \<subseteq> set s" using set_mono_prefix [of buf q] s(2) by auto
  moreover have "s \<noteq> []" "out \<noteq> []" using s(2-4) by auto
  ultimately have "max_secret_length c - 1 \<le> length buf"
    using h bracket_notin [OF c s(1)] by (auto simp: held_back_def)
  moreover have "length q < max_secret_length c"
    using secret_length_le [OF s(1) \<open>s \<noteq> []\<close>] s(2,3) by (cases p) auto
  ultimately show False using False by simp
qed

lemma redacted_prefix:
  assumes "redacted_from r t" and "prefix q r" and "CHR ''['' \<notin> set q"
  shows "prefix q t"
proof (cases "r = t")
  case False
  with assms(1) obtain u w where u: "prefix u t" "r = u @ ''['' @ w" by (auto simp: redacted_from_def)
  have "prefix q u"
  proof (rule ccontr)
    assume n: "\<not> prefix q u"
    have "prefix q (u @ ''['' @ w)" using assms(2) u(2) by simp
    with n obtain us where "q = u @ us" "prefix us (''['' @ w)"
      unfolding prefix_append [of q u] by blast
    with n assms(3) show False by (cases us) auto
  qed
  with u(1) show ?thesis by (rule prefix_order.trans [rotated])
qed (use assms in simp)

lemma held_back_redact:
  assumes c: "clean c" and h: "held_back c (max_secret_length c - 1) out buf"
  shows "secret_free c (out @ redact_secret_values (buf @ chunk) c)"
  unfolding secret_free_iff
proof (intro ballI impI notI)
  let ?R = "redact_secret_values (buf @ chunk) c"
  fix s assume s: "s \<in> set (sc_secret_values c)" "s \<noteq> []" and "py_in s (out @ ?R)"
  then consider "sublist s out" | "sublist s ?R" | p q where "s = p @ q" "suffix p out" "prefix q ?R"
    by (auto simp: py_in_sublist sublist_append)
  then show False
  proof cases
    case 1
    with h s show False by (auto simp: held_back_def secret_free_iff py_in_sublist sublist_append)
  next
    case 2
    with redact_secret_free [OF c, of "buf @ chunk"] s show False by (auto simp: secret_free_iff py_in_sublist)
  next
    case 3
    show False
    proof (cases "p = []")
      case True
      with 3 redact_secret_free [OF c, of "buf @ chunk"] s show False
        by (auto simp: secret_free_iff py_in_sublist dest: prefix_imp_sublist)
    next
      case False
      have "CHR ''['' \<notin> set q" using bracket_notin [OF c s] 3(1) by simp
      then have "prefix q (buf @ chunk)"
        by (rule redacted_prefix [OF redact_secret_values_from 3(3)])
      then show False using no_crossing [OF c h s(1) 3(1) False 3(2)] by blast
    qed
  qed
qed

lemma held_back_feed:
  assumes "clean (sg_secrets g)" and "if_redact_secrets (sg_config g)"
    and "sg_lookbehind_size g = max_secret_length (sg_secrets g) - 1"
    and h: "held_back (sg_secrets g) (sg_lookbehind_size g) out (sg_buffer g)"
    and feed: "guard_feed chunk g = (g', em)"
  shows "held_back (sg_secrets g) (sg_lookbehind_size g) (out @ em) (sg_buffer g')"
    and "em @ sg_buffer g' = redact_secret_values (sg_buffer g @ chunk) (sg_secrets g)"
    and "sg_secrets g' = sg_secrets g" "sg_config g' = sg_config g" "sg_lookbehind_size g' = sg_lookbehind_size g"
proof -
  let ?R = "redact_secret_values (sg_buffer g @ chunk) (sg_secrets g)"
  show cat: "em @ sg_buffer g' = ?R" and "sg_secrets g' = sg_secrets g" "sg_config g' = sg_config g"
    "sg_lookbehind_size g' = sg_lookbehind_size g"
    using guard_feed_parts [OF feed] assms(2) by simp_all
  have "secret_free (sg_secrets g) ((out @ em) @ sg_buffer g')"
    using held_back_redact [OF assms(1), of out "sg_buffer g" chunk] h assms(3) by (simp flip: cat)
  moreover have "out @ em = [] \<or> sg_lookbehind_size g \<le> length (sg_buffer g') \<or> CHR ''['' \<in> set (sg_buffer g')"
  proof (cases "length ?R > sg_lookbehind_size g")
    case True
    with feed assms(2) have "sg_buffer g' = drop (length ?R - sg_lookbehind_size g) ?R"
      by (auto simp: guard_feed_def Let_def)
    with True show ?thesis by simp
  next
    case False
    with feed assms(2) have em: "em = []" "sg_buffer g' = ?R" by (auto simp: guard_feed_def Let_def)
    from redact_secret_values_from [of "sg_buffer g @ chunk" "sg_secrets g"] h em show ?thesis
      by (auto simp: redacted_from_def held_back_def)
  qed
  ultimately show "held_back (sg_secrets g) (sg_lookbehind_size g) (out @ em) (sg_buffer g')"
    by (simp add: held_back_def)
qed


text \<open>With a single secret the guard computes exactly the redaction of the whole text.\<close>

lemma redact_single:
  assumes "sc_secret_values c = [s]" and "s \<noteq> []"
  shows "redact_secret_values t c = py_replace s REDACTED t"
  using assms by (simp add: redact_secret_values_def redact_one_eq)

lemma guard_transform_single:
  assumes "clean (sg_secrets g)" and "if_redact_secrets (sg_config g)"
    and "sg_lookbehind_size g = max_secret_length (sg_secrets g) - 1"
    and "held_back (sg_secrets g) (sg_lookbehind_size g) out (sg_buffer g)"
    and s: "sc_secret_values (sg_secrets g) = [s]" "s \<noteq> []"
    and "out @ sg_buffer g = py_replace s REDACTED inp"
  shows "out @ concat (guard_transform chunks g) = py_replace s REDACTED (inp @ concat chunks)"
  using assms
proof (induction chunks arbitrary: g out inp)
  case Nil
  then show ?case by (auto simp: guard_flush_def Let_def)
next
  case (Cons chunk chunks)
  obtain g' em where feed: "guard_feed chunk g = (g', em)" by fastforce
  note step = held_back_feed [OF Cons.prems(1-4) feed]
  have safe: "token_safe REDACTED s" using clean_safe [OF Cons.prems(1)] Cons.prems(5,6) by simp
  have "\<not> prefix s (drop i (out @ sg_buffer g @ chunk))" if i: "i < length out" for i
  proof
    assume "prefix s (drop i (out @ sg_buffer g @ chunk))"
    then have p: "prefix s (drop i out @ sg_buffer g @ chunk)" using i by simp
    show False
    proof (cases "prefix s (drop i out)")
      case True
      then have "sublist s out" by (meson prefix_imp_sublist sublist_drop sublist_order.order_trans)
      with Cons.prems(4,5,6) show False
        by (auto simp: held_back_def secret_free_iff py_in_sublist sublist_append)
    next
      case False
      with p obtain q where "s = drop i out @ q" "prefix q (sg_buffer g @ chunk)"
        by (auto simp: prefix_append)
      with no_crossing [OF Cons.prems(1), of out "sg_buffer g" s "drop i out" q chunk] Cons.prems(3,4,5) i show False
        by (auto simp: suffix_drop)
    qed
  qed
  then have "out @ py_replace s REDACTED (sg_buffer g @ chunk) = py_replace s REDACTED (out @ sg_buffer g @ chunk)"
    by (rule replace_append_no_start [symmetric])
  also have "\<dots> = py_replace s REDACTED (py_replace s REDACTED inp @ chunk)"
    using Cons.prems(7) by (metis append.assoc)
  also have "\<dots> = py_replace s REDACTED (inp @ chunk)" by (rule replace_twice [OF safe])
  finally have "(out @ em) @ sg_buffer g' = py_replace s REDACTED (inp @ chunk)"
    using step(2) redact_single [OF Cons.prems(5,6)] by simp
  then have "(out @ em) @ concat (guard_transform chunks g') = py_replace s REDACTED ((inp @ chunk) @ concat chunks)"
    by (intro Cons.IH) (use Cons.prems step in simp_all)
  with feed show ?case by auto
qed

lemma fresh_guard_held_back: "clean c \<Longrightarrow> held_back c n [] []"
  by (auto simp: held_back_def secret_free_iff)

section \<open>Decisions\<close>

definition well_formed_decision :: "InformationReleaseDecision \<Rightarrow> bool" where
  "well_formed_decision d \<longleftrightarrow> rd_verdict d \<in> {ALLOW, DENY} \<and> rd_reason d \<noteq> [] \<and> rd_allowed_fields d = []"

lemma well_formed_release_decision:
  "v \<in> {ALLOW, DENY} \<Longrightarrow> reason \<noteq> [] \<Longrightarrow> well_formed_decision (release_decision v t r a reason)"
  by (simp add: well_formed_decision_def release_decision_def)

lemma evaluate_release_well_formed: "well_formed_decision (evaluate_release cfg c asset target)"
  unfolding evaluate_release_def Let_def
  by (simp add: if_distrib [of well_formed_decision] well_formed_release_decision)

text \<open>What a release lets through.\<close>

lemma if_release_safe:
  assumes "clean (ifs_secrets s)"
  shows "case rl_content (if_release s content target cls origin labels) of
      None \<Rightarrow> \<not> rl_allowed (if_release s content target cls origin labels)
    | Some t \<Rightarrow> secret_free (ifs_secrets s) t \<and>
        (target \<in> {PARENT, AGGREGATOR_INPUT, PUBLIC_ARTIFACT} \<longrightarrow> cls \<noteq> SECRET) \<and>
        (target = PUBLIC_ARTIFACT \<longrightarrow> cls \<noteq> SENSITIVE)"
  using redact_secret_free [OF assms]
  by (auto simp: if_release_def Let_def evaluate_release_def release_decision_def secret_free_def)

section \<open>Properties\<close>

definition demo_flow :: InformationFlowService where
  "demo_flow = from_settings None None None ''sk-live-0123''"

definition demo_catalog :: SecretCatalog where
  "demo_catalog = \<lparr>sc_secret_values = [''sk-live'', ''sk-live-0123''], sc_credential_field_names = DEFAULT_CREDENTIAL_FIELD_NAMES\<rparr>"

text \<open>
  Whatever the configuration, the target, the classification and the labels, a text that the service
  releases holds no configured secret; and secret content never reaches the parent, an aggregator or a
  public artifact, nor sensitive content a public artifact.
\<close>

theorem released_text_secret_free:
  assumes "clean (ifs_secrets s)"
  shows "case rl_content (if_release s content target cls origin labels) of
      None \<Rightarrow> \<not> rl_allowed (if_release s content target cls origin labels)
    | Some t \<Rightarrow> secret_free (ifs_secrets s) t \<and>
        (target \<in> {PARENT, AGGREGATOR_INPUT, PUBLIC_ARTIFACT} \<longrightarrow> cls \<noteq> SECRET) \<and>
        (target = PUBLIC_ARTIFACT \<longrightarrow> cls \<noteq> SENSITIVE)"
  by (rule if_release_safe [OF assms])

theorem released_text_secret_free_witness:
  "clean (ifs_secrets demo_flow) \<and>
   rl_content (if_release demo_flow ''key sk-live-0123!'' PARENT INTERNAL ''delegation_result'' []) = Some ''key [REDACTED]!'' \<and>
   secret_free (ifs_secrets demo_flow) ''key [REDACTED]!''"
proof -
  have c: "clean (ifs_secrets demo_flow)" by code_simp
  have r: "rl_content (if_release demo_flow ''key sk-live-0123!'' PARENT INTERNAL ''delegation_result'' []) =
      Some ''key [REDACTED]!''" by code_simp
  from released_text_secret_free [OF c, of "''key sk-live-0123!''" PARENT INTERNAL "''delegation_result''" "[]"] c r
  show ?thesis by simp
qed



text \<open>
  C35: With the catalog that the settings give, the one provider key, the guard is exact: the concatenation of
  what it emits is the redaction of the whole text, whatever the chunks.
\<close>

theorem stream_equals_whole:
  assumes "api_key = [] \<or> token_safe REDACTED api_key"
    and s_def: "s = from_settings log_payloads store_payloads redact api_key"
  shows "concat (guard_transform chunks (create_stream_guard s)) =
    (if if_redact_secrets (ifs_config s) then redact_secret_values (concat chunks) (ifs_secrets s) else concat chunks)"
proof -
  show ?thesis
  proof (cases "if_redact_secrets (ifs_config s) \<and> api_key \<noteq> []")
    case True
    then have one: "sc_secret_values (ifs_secrets s) = [api_key]" "clean (ifs_secrets s)"
      using assms by (simp_all add: s_def from_settings_def clean_def)
    have "[] @ concat (guard_transform chunks (create_stream_guard s)) = py_replace api_key REDACTED ([] @ concat chunks)"
      by (rule guard_transform_single)
        (use True one fresh_guard_held_back in \<open>auto simp: create_stream_guard_def\<close>)
    with True redact_single [OF one(1)] show ?thesis by simp
  next
    case False
    with guard_transform_plain [of "create_stream_guard s"] show ?thesis
      by (auto simp: create_stream_guard_def s_def from_settings_def redact_secret_values_def)
  qed
qed

theorem stream_equals_whole_witness:
  "concat (guard_transform [''a sk-l'', ''ive-01'', ''23 b''] (create_stream_guard (from_settings None None None ''sk-live-0123'')))
    = redact_secret_values ''a sk-live-0123 b'' (ifs_secrets (from_settings None None None ''sk-live-0123''))"
proof -
  have "token_safe REDACTED ''sk-live-0123''" "if_redact_secrets (ifs_config (from_settings None None None ''sk-live-0123''))"
    by code_simp+
  with stream_equals_whole [of "''sk-live-0123''" _ None None None "[''a sk-l'', ''ive-01'', ''23 b'']", OF _ refl]
  show ?thesis by (simp del: guard_transform.simps)
qed

text \<open>
  Redacting structured data leaves no configured secret in any text value at any depth, and replaces
  the value of every credential field, at any depth and in any letter case, by the placeholder.
\<close>

theorem structured_secret_free:
  assumes "clean (ifs_secrets s)" and "if_redact_secrets (ifs_config s)"
  shows "list_all (secret_free (ifs_secrets s)) (json_texts (if_redact_structured s data)) \<and>
    list_all (\<lambda>(k, v). credential_field (ifs_secrets s) k \<longrightarrow> v = JStr REDACTED) (json_fields (if_redact_structured s data))"
  using assms redact_structured_texts [OF assms(1), of _ data] redact_structured_fields [of _ _ "ifs_secrets s" data]
  by (auto simp: list_all_iff if_redact_structured_def)

theorem structured_secret_free_witness:
  "list_all (secret_free (ifs_secrets demo_flow))
     (json_texts (if_redact_structured demo_flow (JObj [(''Token'', JInt 5), (''x'', JList [JStr ''sk-live-0123''])])))"
proof -
  have "clean (ifs_secrets demo_flow)" "if_redact_secrets (ifs_config demo_flow)" by code_simp+
  from structured_secret_free [OF this] show ?thesis by blast
qed

text \<open>
  Every decision of the release policy passes the checks of its constructor: the verdict is to allow
  or to deny and the reason is not empty.
\<close>

theorem release_decision_constructed:
  "InformationReleaseDecision_new (rd_verdict (evaluate_release cfg c asset target))
     (rd_transform (evaluate_release cfg c asset target)) (rd_retention (evaluate_release cfg c asset target))
     (rd_audit_level (evaluate_release cfg c asset target)) (rd_reason (evaluate_release cfg c asset target))
   = Inr (evaluate_release cfg c asset target)"
  using evaluate_release_well_formed [of cfg c asset target]
  by (simp add: InformationReleaseDecision_new_def well_formed_decision_def)

text \<open>
  The label \<open>secret\<close> asks for redaction, but redaction only removes catalogued values: a text with
  the label and no catalogued value is released as it is.
\<close>

theorem secret_label_released_unchanged:
  "rl_content (if_release demo_flow ''launch code 0000'' CLIENT_RESPONSE SECRET ''user'' [''secret'']) = Some ''launch code 0000''"
  by code_simp

text \<open>
  With two secrets of which one begins with the other, a chunk border after the shorter one makes the
  guard redact that one alone, and the rest of the longer one is emitted.
\<close>

theorem nested_secret_rest_emitted:
  "concat (guard_transform [''sk-live'', ''-0123''] (create_stream_guard
     \<lparr>ifs_config = ifs_config demo_flow, ifs_secrets = demo_catalog\<rparr>)) = ''[REDACTED]-0123'' \<and>
   redact_secret_values ''sk-live-0123'' demo_catalog = ''[REDACTED]''"
  by code_simp

end
