(* ===== verification/Tool_Theorems.thy ===== *)
theory Tool_Theorems
  imports Tool_Service Information_Theorems
begin

text \<open>
  The tool service: which definition a name stands for, which calls reach the executor, what of a result is let out, and
  how many calls a run's budget lets through.
\<close>

section \<open>Names\<close>

text \<open>Every table files a definition under its name.\<close>

definition named_table :: "definitions \<Rightarrow> bool" where
  "named_table t \<longleftrightarrow> list_all (\<lambda>p. fst p = td_name (snd p)) t"

definition named :: "('f, 'w) ToolService \<Rightarrow> bool" where
  "named s \<longleftrightarrow> named_table (ts_definitions s) \<and> list_all (\<lambda>p. named_table (snd p)) (ts_dynamic_definitions s)"

lemma set_obj_set: "x \<in> set (obj_set k v kvs) \<Longrightarrow> x = (k, v) \<or> x \<in> set kvs"
  by (auto simp: obj_set_def split: if_splits)

lemma list_all_obj_set: "P (k, v) \<Longrightarrow> list_all P kvs \<Longrightarrow> list_all P (obj_set k v kvs)"
  by (auto simp: list_all_iff dest!: set_obj_set)

lemma named_filter: "named_table t \<Longrightarrow> named_table (filter P t)"
  by (auto simp: named_table_def list_all_iff)

lemma named_keep_first: "named_table acc \<Longrightarrow>
  named_table (fold (\<lambda>d acc. if td_name d \<in> fst ` set acc then acc else acc @ [(td_name d, d)]) ds acc)"
  by (induction ds arbitrary: acc) (simp_all add: named_table_def)

lemma named_replace:
  assumes "named s"
  shows "named (fst (replace_dynamic_definitions source_key ds override s))"
proof -
  have "named_table (keep_first xs)" for xs unfolding keep_first_def by (rule named_keep_first) (simp add: named_table_def)
  then have kept: "named_table (filter P (keep_first xs))" for P xs by (rule named_filter)
  show ?thesis
    using assms kept by (simp add: replace_dynamic_definitions_def Let_def named_def list_all_obj_set split: sum.splits)
qed

lemma named_init: "ToolService_init ds budget flow audit w = Inr s \<Longrightarrow> named s"
proof -
  have fold: "named_table acc \<Longrightarrow> named_table (fold (\<lambda>d. obj_set (td_name d) d) ds acc)" for acc
  proof (induction ds arbitrary: acc)
    case (Cons d ds)
    from Cons.prems have "named_table (obj_set (td_name d) d acc)"
      unfolding named_table_def by (intro list_all_obj_set) simp_all
    with Cons.IH show ?case by simp
  qed simp
  assume "ToolService_init ds budget flow audit w = Inr s"
  then show "named s" using fold [of "[]"] by (auto simp: ToolService_init_def named_def named_table_def split: sum.splits)
qed

lemma find_append: "find P (xs @ ys) = (case find P xs of None \<Rightarrow> find P ys | Some x \<Rightarrow> Some x)"
  by (induction xs) auto

lemma find_named: "named_table t \<Longrightarrow> find (\<lambda>d. td_name d = n) (map snd t) = map_of t n"
  by (induction t) (auto simp: named_table_def)

lemma find_unsuppressed:
  "named_table t \<Longrightarrow>
   find (\<lambda>d. td_name d = n) (map snd (filter (\<lambda>p. \<not> Q (fst p)) t)) = (if Q n then None else map_of t n)"
  by (induction t) (auto simp: named_table_def)

lemma find_dynamic:
  "list_all (\<lambda>p. named_table (snd p)) dyn \<Longrightarrow>
   find (\<lambda>d. td_name d = n) (concat (map (\<lambda>p. map snd (snd p)) dyn)) = first_dynamic n dyn"
  by (induction dyn) (auto simp: find_append find_named split: option.splits)

text \<open>A name stands for the first definition of that name in the list that is shown.\<close>

lemma get_definition_first: "named s \<Longrightarrow> get_definition n s = find (\<lambda>d. td_name d = n) (list_definitions s)"
  using find_unsuppressed [of "ts_definitions s" n "\<lambda>n. is_suppressed_static n s"]
  by (auto simp: named_def list_definitions_def get_definition_def find_append find_dynamic split: option.splits)

text \<open>A source overrides a static tool only when it says so.\<close>

lemma replace_static: "ts_definitions (fst (replace_dynamic_definitions source_key ds override s)) = ts_definitions s"
  by (simp add: replace_dynamic_definitions_def Let_def split: sum.splits)

lemma replace_suppresses:
  assumes "n \<notin> set override" and "\<not> is_suppressed_static n s"
  shows "\<not> is_suppressed_static n (fst (replace_dynamic_definitions source_key ds override s))"
  using assms by (auto simp: replace_dynamic_definitions_def Let_def is_suppressed_static_def list_ex_iff dest!: set_obj_set split: sum.splits)

section \<open>Which calls reach the executor\<close>

lemma sanitized_request_same:
  "sanitized_request env flow rq = Some w \<Longrightarrow> w = rq\<lparr>tq_arguments := tq_arguments w\<rparr>"
  by (auto simp: sanitized_request_def Let_def split: option.splits if_splits json.splits)

lemma budget_calls_kept [simp]:
  "ts_calls (release_tool_call run_id r s) = ts_calls s" "ts_calls (settle_tool_call run_id r s) = ts_calls s"
  "ts_calls (fst (reserve_tool_call now run_id s)) = ts_calls s"
  by (auto simp: release_tool_call_def settle_tool_call_def reserve_tool_call_def split: option.splits prod.splits)

definition reached :: "ToolDefinition \<Rightarrow> ToolCallRequest \<Rightarrow> ('f, 'w) ToolService \<Rightarrow> ('f, 'w) ToolService \<Rightarrow> bool" where
  "reached d rq s s' \<longleftrightarrow>
     (\<exists>w k. (k = 1 \<or> k = 2) \<and> ts_calls s' = ts_calls s @ replicate k (d, rq, w) \<and> w = rq\<lparr>tq_arguments := tq_arguments w\<rparr>)"

lemma call_executor_calls:
  "ts_calls (fst (call_executor env d rq w ctx s)) = ts_calls s @ [(d, rq, w)] \<or>
   ts_calls (fst (call_executor env d rq w ctx s)) = ts_calls s @ [(d, rq, w), (d, rq, w)]"
  by (auto simp: call_executor_def Let_def split: prod.splits)

lemma run_reserved_calls:
  assumes "run_reserved env d rq ctx reservation s = (s', r)"
  shows "ts_calls s' = ts_calls s \<or> te_still_owned env \<and> reached d rq s s'"
proof (cases "sanitized_request env (ts_information_flow_service s) rq")
  case None
  with assms show ?thesis by (auto simp: run_reserved_def Let_def)
next
  case (Some w)
  show ?thesis
  proof (cases "te_still_owned env")
    case True
    obtain s1 answer where call: "call_executor env d rq w ctx s = (s1, answer)" by fastforce
    with assms True Some have "ts_calls s' = ts_calls s1"
      by (auto simp: run_reserved_def Let_def split: exec_answer.splits)
    then have "ts_calls s' = ts_calls s @ replicate 1 (d, rq, w) \<or> ts_calls s' = ts_calls s @ replicate 2 (d, rq, w)"
      using call_executor_calls [of env d rq w ctx s] call by (simp add: numeral_2_eq_2)
    with True sanitized_request_same [OF Some] show ?thesis unfolding reached_def by blast
  qed (use assms Some in \<open>auto simp: run_reserved_def Let_def\<close>)
qed

lemma run_allowed_calls:
  assumes "run_allowed env rq ctx d s = (s', r)"
  shows "ts_calls s' = ts_calls s \<or> te_still_owned env \<and> authorized d rq ctx \<and> reached d rq s s'"
proof -
  obtain s1 res where reserve: "reserve_tool_call (te_now env) (context_run_id ctx) s = (s1, res)" by fastforce
  then have "ts_calls s1 = ts_calls s" using budget_calls_kept(3) [of "te_now env" "context_run_id ctx" s] by simp
  with assms reserve run_reserved_calls [of env d rq ctx res s1 s' r] show ?thesis
    by (auto simp: run_allowed_def Let_def evaluate_allow_iff [symmetric] reached_def split: if_splits)
qed

text \<open>The definition that a call is checked against: the one of its evaluation, if that is still in force.\<close>

definition in_force :: "ToolCallRequest \<Rightarrow> ToolExecutionEvaluation option \<Rightarrow> ('f, 'w) ToolService \<Rightarrow> ToolDefinition \<Rightarrow> bool" where
  "in_force rq ev s d \<longleftrightarrow>
     (case ev of None \<Rightarrow> get_definition (tq_name rq) s = Some d | Some e \<Rightarrow> definition_for_evaluation rq e s = Inr d)"

lemma tool_execute_calls:
  assumes "tool_execute env rq ctx ev s = (s', r)"
  shows "ts_calls s' = ts_calls s \<or>
    (\<exists>d. te_owned env \<and> te_still_owned env \<and> in_force rq ev s d \<and> authorized d rq ctx \<and> reached d rq s s')"
proof -
  have "\<exists>d. te_owned env \<and> in_force rq ev s d \<and> run_allowed env rq ctx d s = (s', r)" if "ts_calls s' \<noteq> ts_calls s"
    using assms that by (auto simp: tool_execute_def in_force_def split: if_splits option.splits sum.splits)
  then show ?thesis using run_allowed_calls [of env rq ctx _ s s' r] by blast
qed

section \<open>Evaluations\<close>

text \<open>The bookkeeping of evaluations: tokens are not used twice.\<close>

definition fresh_tokens :: "('f, 'w) ToolService \<Rightarrow> bool" where
  "fresh_tokens s \<longleftrightarrow> (\<forall>p\<in>set (ts_evaluated_executions s). fst p < ts_next_token s)"

lemma replace_evaluated [simp]:
  "ts_evaluated_executions (fst (replace_dynamic_definitions source_key ds override s)) = ts_evaluated_executions s"
  "ts_calls (fst (replace_dynamic_definitions source_key ds override s)) = ts_calls s"
  by (simp_all add: replace_dynamic_definitions_def Let_def split: sum.splits)

lemma evaluated_definition:
  assumes "service_evaluate_execution rq ctx s0 = (s1, Inr ev)" and "ts_evaluated_executions s2 = ts_evaluated_executions s1"
    and "definition_for_evaluation rq ev s2 = Inr d"
  shows "get_definition (tq_name rq) s0 = Some d \<and> tev_decision ev = evaluate_execution d rq ctx \<and>
    (\<exists>d'. get_definition (tq_name rq) s2 = Some d' \<and> td_object d' = td_object d)"
  using assms by (auto simp: service_evaluate_execution_def definition_for_evaluation_def Let_def split: option.splits if_splits)

section \<open>Results\<close>

lemma sanitized_result_texts:
  assumes "sanitized_result env (Some f) working res = Inr r" and "clean (ifs_secrets f)" and "if_redact_secrets (ifs_config f)"
    and "tr_tool_name res \<noteq> ''host_terminal''"
  shows "list_all (secret_free (ifs_secrets f)) (json_texts (tr_content r))"
proof -
  from assms(1,4) have "tr_content r = redact_structured (ifs_secrets f) (tr_content res)"
    using assms(3) by (auto simp: sanitized_result_def Let_def if_redact_structured_def split: if_splits)
  then show ?thesis using redact_structured_texts [OF assms(2)] by (simp add: list_all_iff)
qed

section \<open>The budget of a run\<close>

definition tool_account :: "string \<Rightarrow> ('f::zero, 'w) ToolService \<Rightarrow> 'f RunBudgetAccount" where
  "tool_account r s = get_or_create_account r (the (ts_budget_service s))"

abbreviation tool_limit :: "string \<Rightarrow> ('f::zero, 'w) ToolService \<Rightarrow> int" where
  "tool_limit r s \<equiv> bc_max_tool_calls (ac_config (tool_account r s))"

abbreviation tools_reserved :: "string \<Rightarrow> ('f::zero, 'w) ToolService \<Rightarrow> int" where
  "tools_reserved r s \<equiv> bs_tool_calls_reserved (ac_state (tool_account r s))"

lemma reserve_tool_account:
  assumes "reserve_tool_call now r s = (s1, res)" and "ts_budget_service s = Some b" and "r \<noteq> []"
  shows "\<exists>d. res = Some d \<and> bd_kind d = BudgetReserveKind.TOOL_CALL \<and> ts_budget_service s1 \<noteq> None \<and> ts_calls s1 = ts_calls s \<and>
    tool_limit r s1 = tool_limit r s \<and>
    (bd_outcome d = DENY \<and> tools_reserved r s1 = tools_reserved r s \<or>
     bd_outcome d = ALLOW \<and> tools_reserved r s1 = tools_reserved r s + 1 \<and> tools_reserved r s < tool_limit r s)"
  using assms
  by (auto simp: reserve_tool_call_def budget_reserve_def account_reserve_def tool_call_request_def evaluate_reserve_def
      evaluate_tool_call_def reservation_decision_def apply_reserve_def tool_account_def get_or_create_account_def Let_def
      split: prod.splits if_splits)

lemma account_kept:
  "bc_max_tool_calls (ac_config (account_settle d u a)) = bc_max_tool_calls (ac_config a)"
  "bc_max_tool_calls (ac_config (account_release d a)) = bc_max_tool_calls (ac_config a)"
  "bd_kind d = BudgetReserveKind.TOOL_CALL \<Longrightarrow> bs_tool_calls_reserved (ac_state (account_settle d u a)) = bs_tool_calls_reserved (ac_state a)"
  "bd_kind d = BudgetReserveKind.TOOL_CALL \<Longrightarrow> bs_tool_calls_reserved (ac_state (account_release d a)) =
     bs_tool_calls_reserved (ac_state a) - (if bd_reservation_id d \<in> fst ` set (ac_pending a) then 1 else 0)"
  by (auto simp: account_settle_def account_release_def apply_settle_def apply_release_def Budget.evaluate_release_def Let_def)

lemma settle_tool_account:
  assumes "ts_budget_service s \<noteq> None" and "bd_kind d = BudgetReserveKind.TOOL_CALL"
  shows "ts_budget_service (settle_tool_call r (Some d) s) \<noteq> None \<and> tool_limit r (settle_tool_call r (Some d) s) = tool_limit r s \<and>
    tools_reserved r (settle_tool_call r (Some d) s) = tools_reserved r s"
  using assms by (auto simp: settle_tool_call_def tool_account_def get_or_create_account_def budget_settle_def with_account_def account_kept
      split: option.splits)

lemma release_tool_account:
  assumes "ts_budget_service s \<noteq> None" and "bd_kind d = BudgetReserveKind.TOOL_CALL"
  shows "ts_budget_service (release_tool_call r (Some d) s) \<noteq> None \<and> tool_limit r (release_tool_call r (Some d) s) = tool_limit r s \<and>
    tools_reserved r (release_tool_call r (Some d) s) \<in> {tools_reserved r s - 1, tools_reserved r s}"
  using assms
  by (auto simp: release_tool_call_def tool_account_def get_or_create_account_def budget_release_def with_account_def account_kept(2,4)
      split: option.splits if_splits)

text \<open>An executor that always answers.\<close>

definition answering :: "('f, 'w) tool_env \<Rightarrow> bool" where
  "answering env \<longleftrightarrow> (\<forall>rq ctx w. \<exists>r. snd (te_execute env rq ctx w) = Answered r)"

lemma answering_call:
  assumes "answering env"
  obtains r where "call_executor env d rq w ctx s =
    (s\<lparr>ts_world := fst (te_execute env w ctx (ts_world s)), ts_calls := ts_calls s @ [(d, rq, w)]\<rparr>, Answered r)"
proof -
  from assms obtain r where "snd (te_execute env w ctx (ts_world s)) = Answered r" unfolding answering_def by blast
  then show ?thesis using that by (simp add: call_executor_def split_beta Let_def)
qed

text \<open>What one execution does to the account: the calls that were let through never exceed what is reserved.\<close>

definition within :: "string \<Rightarrow> int \<Rightarrow> int \<Rightarrow> ('f::zero, 'w) ToolService \<Rightarrow> bool" where
  "within r m c s \<longleftrightarrow> ts_budget_service s \<noteq> None \<and> tool_limit r s = m \<and> int (length (ts_calls s)) + c \<le> tools_reserved r s \<and>
     int (length (ts_calls s)) + c \<le> m"

lemma within_same: "within r m c s \<Longrightarrow> ts_budget_service s' = ts_budget_service s \<Longrightarrow> ts_calls s' = ts_calls s \<Longrightarrow> within r m c s'"
  by (simp add: within_def tool_account_def)

lemma tool_execute_within:
  assumes "within r m c s" and "answering env" and "context_run_id ctx = r" and "r \<noteq> []"
  shows "within r m c (fst (tool_execute env rq ctx ev s))"
proof -
  have run: "within r m c (fst (run_allowed env rq ctx d s))" for d
  proof (cases "pd_outcome (evaluate_execution d rq ctx) = ALLOW")
    case True
    obtain s1 res where reserve: "reserve_tool_call (te_now env) r s = (s1, res)" by fastforce
    from assms(1) obtain b where b: "ts_budget_service s = Some b" unfolding within_def by blast
    from reserve_tool_account [OF reserve b assms(4)] obtain rd where rd: "res = Some rd" "bd_kind rd = BudgetReserveKind.TOOL_CALL"
      "ts_budget_service s1 \<noteq> None" "ts_calls s1 = ts_calls s" "tool_limit r s1 = tool_limit r s"
      "bd_outcome rd = DENY \<and> tools_reserved r s1 = tools_reserved r s \<or>
       bd_outcome rd = ALLOW \<and> tools_reserved r s1 = tools_reserved r s + 1 \<and> tools_reserved r s < tool_limit r s" by blast
    show ?thesis
    proof (cases "bd_outcome rd = DENY")
      case True
      with rd reserve assms(1,3) \<open>pd_outcome (evaluate_execution d rq ctx) = ALLOW\<close> show ?thesis
        by (simp add: run_allowed_def within_def)
    next
      case False
      with rd have room: "tools_reserved r s1 = tools_reserved r s + 1" "tools_reserved r s < tool_limit r s" by auto
      have step: "fst (run_allowed env rq ctx d s) = fst (run_reserved env d rq ctx (Some rd) s1)"
        using True False reserve rd(1) assms(3) by (simp add: run_allowed_def)
      have "within r m c (fst (run_reserved env d rq ctx (Some rd) s1))"
      proof (cases "sanitized_request env (ts_information_flow_service s1) rq")
        case None
        then show ?thesis
          using release_tool_account [OF rd(3,2), of r] room assms(1,3) rd(4,5) by (auto simp: run_reserved_def Let_def within_def)
      next
        case (Some w)
        obtain a where call: "call_executor env d rq w ctx s1 =
          (s1\<lparr>ts_world := fst (te_execute env w ctx (ts_world s1)), ts_calls := ts_calls s1 @ [(d, rq, w)]\<rparr>, Answered a)"
          by (rule answering_call [OF assms(2)])
        let ?s2 = "s1\<lparr>ts_world := fst (te_execute env w ctx (ts_world s1)), ts_calls := ts_calls s1 @ [(d, rq, w)]\<rparr>"
        have same: "tool_account r ?s2 = tool_account r s1" by (simp add: tool_account_def)
        show ?thesis
        proof (cases "te_still_owned env")
          case True
          then have "fst (run_reserved env d rq ctx (Some rd) s1) = settle_tool_call r (Some rd) ?s2"
            using Some call assms(3) by (simp add: run_reserved_def Let_def)
          with settle_tool_account [of ?s2 rd r] rd room assms(1) same show ?thesis by (simp add: within_def)
        next
          case False
          with Some room assms(1) rd show ?thesis by (simp add: run_reserved_def Let_def within_def)
        qed
      qed
      with step show ?thesis by simp
    qed
  qed (use assms(1) in \<open>simp add: run_allowed_def Let_def\<close>)
  with assms(1) show ?thesis by (auto simp: tool_execute_def split: option.splits sum.splits)
qed

end
