(* ===== verification/Agent_Theorems.thy ===== *)
theory Agent_Theorems
  imports Agent_Turn Tool_Theorems
begin

text \<open>
  The turn of the agent: what the nodes leave alone, how many steps a turn takes, how it ends, which tool calls it makes
  and what it sends to the model.
\<close>

section \<open>Frames\<close>

lemma upd_simps [simp]:
  "sy_state (upd f y) = f (sy_state y)" "sy_tools (upd f y) = sy_tools y" "sy_clock (upd f y) = sy_clock y"
  "sy_chats (upd f y) = sy_chats y" "sy_memory (upd f y) = sy_memory y" "sy_stream (upd f y) = sy_stream y"
  by (simp_all add: upd_def)

lemma tick_simps [simp]:
  "sy_state (tick y) = sy_state y" "sy_tools (tick y) = sy_tools y" "sy_clock (tick y) = Suc (sy_clock y)"
  "sy_chats (tick y) = sy_chats y" "sy_memory (tick y) = sy_memory y" "sy_stream (tick y) = sy_stream y"
  by (simp_all add: tick_def)

lemma remember_simps [simp]:
  "sy_state (remember m y) = sy_state y" "sy_tools (remember m y) = sy_tools y" "sy_clock (remember m y) = sy_clock y"
  "sy_chats (remember m y) = sy_chats y"
  by (simp_all add: remember_def)

lemma with_budget_simps [simp]:
  "sy_state (with_budget f y) = sy_state y" "sy_clock (with_budget f y) = sy_clock y" "sy_chats (with_budget f y) = sy_chats y"
  "ts_calls (sy_tools (with_budget f y)) = ts_calls (sy_tools y)" "sy_memory (with_budget f y) = sy_memory y"
  by (simp_all add: with_budget_def)

lemma run_tool_frame [simp]:
  "sy_state (fst (run_tool env rq ctx ev y)) = sy_state y" "sy_chats (fst (run_tool env rq ctx ev y)) = sy_chats y"
  "sy_memory (fst (run_tool env rq ctx ev y)) = sy_memory y"
  by (simp_all add: run_tool_def split_beta)

lemma request_tool_approval_frame [simp]:
  "sy_state (fst (request_tool_approval env rq ctx ev y)) = sy_state y"
  "sy_chats (fst (request_tool_approval env rq ctx ev y)) = sy_chats y"
  "sy_memory (fst (request_tool_approval env rq ctx ev y)) = sy_memory y"
  by (simp_all add: request_tool_approval_def Let_def split: option.split sum.split)

lemma host_grant_frame [simp]:
  "sy_state (fst (request_browser_host_grant_approval env rq ctx signal y)) = sy_state y"
  "sy_chats (fst (request_browser_host_grant_approval env rq ctx signal y)) = sy_chats y"
  "sy_memory (fst (request_browser_host_grant_approval env rq ctx signal y)) = sy_memory y"
  by (simp_all add: request_browser_host_grant_approval_def Let_def split_beta split: option.split sum.split)

lemma dispatch_frame [simp]:
  "sy_state (fst (dispatch_request env rq y)) = sy_state y" "sy_chats (fst (dispatch_request env rq y)) = sy_chats y"
  "sy_memory (fst (dispatch_request env rq y)) = sy_memory y"
proof -
  have frame: "sy_state y2 = sy_state y1 \<and> sy_chats y2 = sy_chats y1 \<and> sy_memory y2 = sy_memory y1"
    if "run_tool env rq ctx ev y1 = (y2, r)" for y1 y2 ctx ev r
    using run_tool_frame [of env rq ctx ev y1] that by simp
  show "sy_state (fst (dispatch_request env rq y)) = sy_state y" "sy_chats (fst (dispatch_request env rq y)) = sy_chats y"
    "sy_memory (fst (dispatch_request env rq y)) = sy_memory y"
    by (auto simp: dispatch_request_def Let_def dest: frame split: prod.split sum.split)
qed

lemma emit_frame [simp]:
  "sy_state (emit_stream_tool_event env ev y) = (sy_state y)\<lparr>as_stream_tool_events := as_stream_tool_events (sy_state y) @ [ev]\<rparr>"
  "sy_chats (emit_stream_tool_event env ev y) = sy_chats y" "sy_tools (emit_stream_tool_event env ev y) = sy_tools y"
  "sy_memory (emit_stream_tool_event env ev y) = sy_memory y" "sy_clock (emit_stream_tool_event env ev y) = sy_clock y"
  "sy_next_object (emit_stream_tool_event env ev y) = sy_next_object y"
  by (simp_all add: emit_stream_tool_event_def Let_def upd_def)

lemma card_frame [simp]:
  "sy_state (persist_artifact_card env r y) = sy_state y" "sy_chats (persist_artifact_card env r y) = sy_chats y"
  "sy_tools (persist_artifact_card env r y) = sy_tools y" "sy_clock (persist_artifact_card env r y) = sy_clock y"
  by (simp_all add: persist_artifact_card_def split: option.split json.split)

text \<open>What the tool node keeps of the state.\<close>

definition same_progress :: "('f, 'w) agent_sys \<Rightarrow> ('f, 'w) agent_sys \<Rightarrow> bool" where
  "same_progress y y' \<longleftrightarrow>
     as_iteration_count (sy_state y') = as_iteration_count (sy_state y) \<and> as_error (sy_state y') = as_error (sy_state y) \<and>
     as_budget_exhausted (sy_state y') = as_budget_exhausted (sy_state y) \<and> as_run_id (sy_state y') = as_run_id (sy_state y) \<and>
     sy_chats y' = sy_chats y"

lemma same_progress_refl: "same_progress y y"
  by (simp add: same_progress_def)

lemma same_progress_trans: "same_progress y y' \<Longrightarrow> same_progress y' y'' \<Longrightarrow> same_progress y y''"
  by (simp add: same_progress_def)

lemma record_result_frame:
  "same_progress y (record_result env display cid r y)" "sy_tools (record_result env display cid r y) = sy_tools y"
  by (simp_all add: record_result_def Let_def same_progress_def)

lemma announce_frame [simp]:
  "same_progress y (announce_call env p y)" "sy_tools (announce_call env p y) = sy_tools y"
  "sy_next_object (announce_call env p y) = sy_next_object y"
  by (simp_all add: announce_call_def same_progress_def)

lemma answer_call_progress: "same_progress y (fst (answer_call env p y))"
  by (simp add: answer_call_def same_progress_def split: option.split)

lemma execute_call_cases:
  assumes "execute_call env tc y = (y', r)"
  obtains y1 e where "answer_call env (parse_tool_call env tc) (announce_call env (parse_tool_call env tc) y) = (y1, Inl e)" "y' = y1" "r = Inl e"
  | y1 res where "answer_call env (parse_tool_call env tc) (announce_call env (parse_tool_call env tc) y) = (y1, Inr res)"
      "y' = record_result env (call_display env (parse_tool_call env tc)) (pa_id (parse_tool_call env tc)) res y1"
      "r = Inr (tr_terminal res)"
  using assms by (auto simp: execute_call_def Let_def split: prod.splits sum.splits)

lemma execute_call_progress:
  assumes "execute_call env tc y = (y', r)"
  shows "same_progress y y'"
proof -
  let ?p = "parse_tool_call env tc"
  have answered: "same_progress y (fst (answer_call env ?p (announce_call env ?p y)))"
    using same_progress_trans [OF announce_frame(1) answer_call_progress] .
  from assms show ?thesis
  proof (cases rule: execute_call_cases)
    case 1
    with answered show ?thesis by simp
  next
    case 2
    with answered same_progress_trans [OF _ record_result_frame(1)] show ?thesis by fastforce
  qed
qed

lemma execute_calls_progress: "execute_calls env tcs y = (y', r) \<Longrightarrow> same_progress y y'"
proof (induction tcs arbitrary: y)
  case (Cons tc tcs)
  obtain y1 a where a: "execute_call env tc y = (y1, a)" by fastforce
  note first = execute_call_progress [OF a]
  from Cons.prems a consider "y' = y1" | "execute_calls env tcs y1 = (y', r)" by (auto split: sum.splits bool.splits)
  then show ?case
  proof cases
    case 2
    with Cons.IH first same_progress_trans show ?thesis by blast
  qed (use first in simp)
qed (simp add: same_progress_refl)

lemma execute_tools_progress:
  assumes "execute_tools env y = (y', None)"
  shows "same_progress y y' \<and> as_pending_tool_calls (sy_state y') = []"
proof -
  let ?y = "upd (\<lambda>st. st\<lparr>as_tool_results := []\<rparr>) (tick y)"
  obtain y1 r where r: "execute_calls env (as_pending_tool_calls (sy_state (tick y))) ?y = (y1, r)" by fastforce
  have "same_progress y ?y" by (simp add: same_progress_def)
  from same_progress_trans [OF this execute_calls_progress [OF r]] assms r show ?thesis
    by (auto simp: execute_tools_def Let_def same_progress_def split: if_splits sum.splits)
qed

lemma update_memory_frame:
  assumes "update_memory env y = (y', None)"
  shows "same_progress y y' \<and> as_pending_tool_calls (sy_state y') = as_pending_tool_calls (sy_state y) \<and>
    as_final_message (sy_state y') = as_final_message (sy_state y) \<and> sy_tools y' = sy_tools y"
  using assms by (auto simp: update_memory_def Let_def same_progress_def split: if_splits)

section \<open>The number of steps\<close>

definition turn_limit :: "('f, 'w) agent_env \<Rightarrow> int" where
  "turn_limit env = (case ae_snapshot env of Some p \<Rightarrow> rn_iteration_limit p | None \<Rightarrow> run_iteration_limit env)"

text \<open>An exception of the context service or of the provider has a text.\<close>

definition loud :: "('f, 'w) agent_env \<Rightarrow> bool" where
  "loud env \<longleftrightarrow> (\<forall>st e. ae_provider_context env st = Inl e \<longrightarrow> e \<noteq> []) \<and>
     (\<forall>msgs tools model w e. snd (ae_chat env msgs tools model w) = Chat_Raises e \<longrightarrow> e \<noteq> [])"

text \<open>The reasons to end that are in the state, and not in the clock or the cancellation flag.\<close>

definition state_done :: "('f, 'w) agent_env \<Rightarrow> AgentState \<Rightarrow> bool" where
  "state_done env st \<longleftrightarrow> truthy (as_error st) \<or> (as_final_message st \<noteq> None \<and> as_pending_tool_calls st = []) \<or>
     turn_limit env \<le> as_iteration_count st \<or> as_budget_exhausted st"

definition out_of_time :: "('f::linorder, 'w) agent_env \<Rightarrow> nat \<Rightarrow> bool" where
  "out_of_time env n \<longleftrightarrow> ae_cancelled env n \<or>
     (case ae_snapshot env of Some p \<Rightarrow> rn_turn_timeout_seconds p | None \<Rightarrow> ae_turn_timeout env) \<le> ae_elapsed env n"

lemma turn_terminal: "tn_terminal (evaluate_turn env n st) \<longleftrightarrow> out_of_time env n \<or> state_done env st"
  by (auto simp: evaluate_turn_def turn_terminal_iff build_turn_input_def out_of_time_def state_done_def turn_limit_def)

lemma turn_tools: "tn_next_step (evaluate_turn env n st) = EXECUTE_TOOLS \<longleftrightarrow>
    \<not> tn_terminal (evaluate_turn env n st) \<and> as_pending_tool_calls st \<noteq> []"
  unfolding evaluate_turn_def turn_tools_iff by (simp add: build_turn_input_def)

lemma deny_reason_nonempty:
  "ms_verdict (llm_evaluate requested caps req allowed fallback) = DENY \<Longrightarrow> ms_reason (llm_evaluate requested caps req allowed fallback) \<noteq> []"
  by (auto simp: llm_evaluate_def check_capabilities_def Let_def split: list.splits option.splits if_splits)

lemma record_frame [simp]:
  "sy_state (record_payloads env request response y) = sy_state y" "sy_chats (record_payloads env request response y) = sy_chats y"
  "sy_state (record_usage env request response tools r y) = sy_state y" "sy_chats (record_usage env request response tools r y) = sy_chats y"
  "sy_tools (record_payloads env request response y) = sy_tools y" "sy_tools (record_usage env request response tools r y) = sy_tools y"
  "sy_clock (record_payloads env request response y) = sy_clock y" "sy_clock (record_usage env request response tools r y) = sy_clock y"
  by (simp_all add: record_payloads_def record_usage_def split_beta Let_def)

lemma llm_budget_frame [simp]:
  "sy_state (release_llm_call r y) = sy_state y" "sy_chats (release_llm_call r y) = sy_chats y"
  "sy_state (settle_llm_call u r y) = sy_state y" "sy_chats (settle_llm_call u r y) = sy_chats y"
  "sy_state (fst (reserve_llm_call now tokens y)) = sy_state y" "sy_chats (fst (reserve_llm_call now tokens y)) = sy_chats y"
  "ts_calls (sy_tools (release_llm_call r y)) = ts_calls (sy_tools y)" "ts_calls (sy_tools (settle_llm_call u r y)) = ts_calls (sy_tools y)"
  "ts_calls (sy_tools (fst (reserve_llm_call now tokens y))) = ts_calls (sy_tools y)"
  by (simp_all add: release_llm_call_def settle_llm_call_def reserve_llm_call_def split_beta Let_def split: option.split)

text \<open>A call of the model that returns has an error, is out of budget, or has a message and counts.\<close>

definition answered :: "('f, 'w) agent_sys \<Rightarrow> ('f, 'w) agent_sys \<Rightarrow> bool" where
  "answered y y' \<longleftrightarrow> truthy (as_error (sy_state y')) \<or> as_budget_exhausted (sy_state y') \<or>
     (as_final_message (sy_state y') \<noteq> None \<and> as_iteration_count (sy_state y') = as_iteration_count (sy_state y) + 1)"

lemma chat_answered:
  assumes "chat_with_provider env msgs request tools model reservation y = (y', r)" and "loud env"
  shows "length (sy_chats y') = Suc (length (sy_chats y)) \<and> (r = None \<longrightarrow> answered y y')"
proof -
  obtain sent where sent: "sent = (case ae_pre_llm_context env (sy_state y) msgs of
      Some ctx \<Rightarrow> if ctx = [] then msgs else inject_context_into_last_user_message msgs ctx | None \<Rightarrow> msgs)" by blast
  obtain w1 a where a: "ae_chat env sent tools model (ts_world (sy_tools y)) = (w1, a)" by fastforce
  have "e \<noteq> []" if "a = Chat_Raises e" for e using assms(2) a that unfolding loud_def by (metis snd_conv)
  with assms(1) a show ?thesis
    unfolding chat_with_provider_def sent [symmetric] Let_def
    by (auto simp: answered_def fail_llm_def accept_result_def Let_def split: chat_answer.splits)
qed

lemma answered_start: "answered (tick y) y' = answered y y'"
  by (simp add: answered_def)

lemma select_and_chat_answered:
  assumes "select_and_chat env n msgs request tools y = (y', r)" and "loud env"
  shows "length (sy_chats y') \<le> Suc (length (sy_chats y)) \<and> (r = None \<longrightarrow> answered y y')"
proof -
  let ?sel = "select_model env msgs tools (sy_state y)"
  obtain y1 res where res: "reserve_llm_call (ae_now env n) (int (length request) div 4) y = (y1, res)" by fastforce
  then have y1: "sy_state y1 = sy_state y" "sy_chats y1 = sy_chats y"
    using llm_budget_frame(5,6) [of "ae_now env n" "int (length request) div 4" y] by simp_all
  consider (deny) "ms_verdict ?sel = DENY" "y' = deny_selection (ms_reason ?sel) y"
    | (budget) "y' = upd (\<lambda>st. st\<lparr>as_budget_exhausted := True, as_pending_tool_calls := []\<rparr>) y1"
    | (chat) model where "chat_with_provider env msgs request tools model res y1 = (y', r)"
    using assms(1) res by (auto simp: select_and_chat_def Let_def split: if_splits)
  then show ?thesis
  proof cases
    case deny
    have "ms_reason ?sel \<noteq> []" using deny(1) deny_reason_nonempty by (simp add: select_model_def Let_def)
    with deny(2) show ?thesis by (simp add: deny_selection_def fail_llm_def answered_def)
  next
    case budget
    with y1 show ?thesis by (simp add: answered_def)
  next
    case chat
    from chat_answered [OF this assms(2)] y1 show ?thesis by (simp add: answered_def)
  qed
qed

text \<open>The ways of a call of the model.\<close>

lemma call_llm_cases:
  assumes "call_llm env y = (y', r)"
  obtains (raised) e where "y' = tick y" "r = Some e"
  | (no_context) e where "ae_provider_context env (sy_state y) = Inl e" "y' = fail_llm e (tick y)" "r = None"
  | (denied) "y' = fail_llm ''information_release_denied'' (tick y)" "r = None"
  | (redacted) msgs tools where "ae_provider_context env (sy_state y) = Inr (msgs, tools)"
      "select_and_chat env (sy_clock y) (redact_messages (ae_flow env) msgs)
         (te_dumps (ae_tool env) (JList (redact_messages (ae_flow env) msgs))) tools (tick y) = (y', r)"
      "rd_transform (rl_decision (if_release (ae_flow env) (te_dumps (ae_tool env) (JList msgs)) LLM_PROVIDER INTERNAL ''llm_request'' [])) =
         Some ''redaction''"
  | (plain) msgs tools where "ae_provider_context env (sy_state y) = Inr (msgs, tools)"
      "select_and_chat env (sy_clock y) msgs (te_dumps (ae_tool env) (JList msgs)) tools (tick y) = (y', r)"
      "rl_allowed (if_release (ae_flow env) (te_dumps (ae_tool env) (JList msgs)) LLM_PROVIDER INTERNAL ''llm_request'' [])"
      "rd_transform (rl_decision (if_release (ae_flow env) (te_dumps (ae_tool env) (JList msgs)) LLM_PROVIDER INTERNAL ''llm_request'' [])) \<noteq>
         Some ''redaction''"
proof (cases "ae_owned env (sy_clock y) \<and> \<not> ae_cancelled env (sy_clock y)")
  case False
  then show ?thesis
    using assms raised [of Ownership_Lost] raised [of Cancelled_Error] by (cases "ae_owned env (sy_clock y)") (simp_all add: call_llm_def)
next
  case True
  note go = this assms
  show ?thesis
  proof (cases "ae_provider_context env (sy_state y)")
    case (Inl e)
    with go show ?thesis by (intro no_context [of e]) (simp_all add: call_llm_def)
  next
    case (Inr p)
    obtain msgs tools where "p = (msgs, tools)" by fastforce
    with Inr have ctx: "ae_provider_context env (sy_state y) = Inr (msgs, tools)" by simp
    let ?rel = "if_release (ae_flow env) (te_dumps (ae_tool env) (JList msgs)) LLM_PROVIDER INTERNAL ''llm_request'' []"
    show ?thesis
    proof (cases "rl_allowed ?rel")
      case False
      with go ctx show ?thesis by (intro denied) (simp_all add: call_llm_def Let_def)
    next
      case True
      with go ctx show ?thesis
        by (cases "rd_transform (rl_decision ?rel) = Some ''redaction''")
          (rule redacted [of msgs tools], simp_all add: call_llm_def Let_def, rule plain [of msgs tools], simp_all add: call_llm_def Let_def)
    qed
  qed
qed

lemma call_llm_answered:
  assumes "call_llm env y = (y', r)" and "loud env"
  shows "length (sy_chats y') \<le> Suc (length (sy_chats y)) \<and> (r = None \<longrightarrow> answered y y')"
  using assms(1)
proof (cases rule: call_llm_cases)
  case (no_context e)
  with assms(2) show ?thesis by (auto simp: loud_def fail_llm_def answered_def)
next
  case denied
  then show ?thesis by (simp add: fail_llm_def answered_def)
next
  case redacted
  from select_and_chat_answered [OF redacted(2) assms(2)] show ?thesis by (simp add: answered_start)
next
  case plain
  from select_and_chat_answered [OF plain(2) assms(2)] show ?thesis by (simp add: answered_start)
qed simp

section \<open>A turn ends\<close>

fun over :: "('f, 'w) turn \<Rightarrow> bool" where
  "over (At node y) = False"
| "over (Ended y) = True"
| "over (Raised e y) = True"

fun turn_sys :: "('f, 'w) turn \<Rightarrow> ('f, 'w) agent_sys" where
  "turn_sys (At node y) = y"
| "turn_sys (Ended y) = y"
| "turn_sys (Raised e y) = y"

text \<open>The turn is over after \<open>k\<close> steps, with at most \<open>c\<close> calls of the provider in its history.\<close>

definition ends_within :: "('f::{linorder,plus,minus,zero}, 'w) agent_env \<Rightarrow> nat \<Rightarrow> nat \<Rightarrow> ('f, 'w) turn \<Rightarrow> bool" where
  "ends_within env k c t \<longleftrightarrow> over ((graph_step env ^^ k) t) \<and> length (sy_chats (turn_sys ((graph_step env ^^ k) t))) \<le> c"

lemma over_stays: "over t \<Longrightarrow> (graph_step env ^^ k) t = t"
proof (induction k)
  case (Suc k)
  then show ?case by (cases t) simp_all
qed simp

lemma ends_within_over: "over t \<Longrightarrow> length (sy_chats (turn_sys t)) \<le> c \<Longrightarrow> ends_within env k c t"
  by (simp add: ends_within_def over_stays)

lemma ends_within_mono:
  assumes "ends_within env k c t" and "k \<le> k'" and "c \<le> c'"
  shows "ends_within env k' c' t"
proof -
  from assms(2) obtain j where j: "k' = j + k" by (metis add.commute le_Suc_ex)
  from assms(1) have "over ((graph_step env ^^ k) t)" by (simp add: ends_within_def)
  from over_stays [OF this, of j env] assms(1,3) show ?thesis by (simp add: ends_within_def j funpow_add)
qed

lemma ends_within_step: "ends_within env k c (graph_step env t) \<Longrightarrow> ends_within env (Suc k) c t"
  by (simp add: ends_within_def funpow_Suc_right del: funpow.simps)

lemma ends_Finalize: "ends_within env 1 (length (sy_chats y)) (At Finalize y)"
  by (simp add: ends_within_def routed_def finalize_def Let_def)

lemma ends_Update_Memory:
  assumes "state_done env (sy_state y)"
  shows "ends_within env 2 (length (sy_chats y)) (At Update_Memory y)"
proof -
  obtain y1 r where r: "update_memory env y = (y1, r)" by fastforce
  have "ends_within env 1 (length (sy_chats y)) (graph_step env (At Update_Memory y))"
  proof (cases r)
    case None
    from update_memory_frame [OF r [unfolded None]] have finished: "state_done env (sy_state y1)" "sy_chats y1 = sy_chats y"
      using assms by (simp_all add: same_progress_def state_done_def)
    then have "graph_step env (At Update_Memory y) = At Finalize (tick y1)"
      using None r by (simp add: routed_def after_memory_def turn_terminal)
    with ends_Finalize [of env "tick y1"] finished show ?thesis by simp
  next
    case (Some e)
    with r have "sy_chats y1 = sy_chats y" by (auto simp: update_memory_def Let_def split: if_splits)
    with Some r show ?thesis by (intro ends_within_over) (simp_all add: routed_def)
  qed
  then show ?thesis using ends_within_step by (metis Suc_1)
qed

lemma end_reason_done:
  "tn_end_reason (evaluate_turn env n st) \<in> {Some STOP, Some ITERATION_LIMIT} \<Longrightarrow> state_done env st"
  by (auto simp: evaluate_turn_def turn_evaluate_def build_turn_input_def state_done_def turn_limit_def split: if_splits)

lemma after_llm_node:
  assumes "answered y0 y"
  obtains (tools) "after_llm env y = At Execute_Tools (tick y)" "\<not> state_done env (sy_state y)"
      "as_iteration_count (sy_state y) = as_iteration_count (sy_state y0) + 1"
  | (memory) "after_llm env y = At Update_Memory (tick y)" "state_done env (sy_state y)"
  | (final) "after_llm env y = At Finalize (tick y)"
proof -
  let ?d = "evaluate_turn env (sy_clock y) (sy_state y)"
  show ?thesis
  proof (cases "tn_terminal ?d")
    case True
    then have "tn_next_step ?d \<noteq> EXECUTE_TOOLS" by (simp add: turn_tools)
    with True show ?thesis
      using final memory end_reason_done [of env "sy_clock y" "sy_state y"]
      by (cases "tn_end_reason ?d \<in> {Some STOP, Some ITERATION_LIMIT}") (simp_all add: after_llm_def Let_def)
  next
    case False
    then have open_state: "\<not> state_done env (sy_state y)" by (simp add: turn_terminal)
    with assms have "as_final_message (sy_state y) \<noteq> None" "as_iteration_count (sy_state y) = as_iteration_count (sy_state y0) + 1"
      by (auto simp: answered_def state_done_def)
    moreover from open_state this(1) have "as_pending_tool_calls (sy_state y) \<noteq> []" by (auto simp: state_done_def)
    ultimately show ?thesis using tools open_state False by (simp add: after_llm_def Let_def turn_tools)
  qed
qed

lemma ends_Update_then:
  assumes "\<And>y'. as_iteration_count (sy_state y') = as_iteration_count (sy_state y) \<Longrightarrow> sy_chats y' = sy_chats y \<Longrightarrow>
      ends_within env k c (At Call_Llm y')" and "length (sy_chats y) \<le> c" and "1 \<le> k"
  shows "ends_within env (Suc k) c (At Update_Memory y)"
proof -
  obtain y1 r where r: "update_memory env y = (y1, r)" by fastforce
  have "ends_within env k c (graph_step env (At Update_Memory y))"
  proof (cases r)
    case None
    from update_memory_frame [OF r [unfolded None]] have same: "as_iteration_count (sy_state y1) = as_iteration_count (sy_state y)" "sy_chats y1 = sy_chats y"
      by (simp_all add: same_progress_def)
    have "ends_within env k c (At Finalize (tick y1))"
      using ends_within_mono [OF ends_Finalize [of env "tick y1"] assms(3), of c] assms(2) same by simp
    moreover have "ends_within env k c (At Call_Llm (tick y1))" using assms(1) same by simp
    ultimately show ?thesis using None r by (simp add: routed_def after_memory_def)
  next
    case (Some e)
    with r have "sy_chats y1 = sy_chats y" by (auto simp: update_memory_def Let_def split: if_splits)
    with Some r assms(2) show ?thesis by (intro ends_within_over) (simp_all add: routed_def)
  qed
  then show ?thesis by (rule ends_within_step)
qed

lemma execute_tools_chats: "sy_chats (fst (execute_tools env y)) = sy_chats y"
proof -
  let ?y = "upd (\<lambda>st. st\<lparr>as_tool_results := []\<rparr>) (tick y)"
  obtain y1 r where r: "execute_calls env (as_pending_tool_calls (sy_state (tick y))) ?y = (y1, r)" by fastforce
  from execute_calls_progress [OF r] have "sy_chats y1 = sy_chats y" by (simp add: same_progress_def)
  with r show ?thesis by (simp add: execute_tools_def Let_def split: sum.split)
qed

lemma ends_tools_memory:
  assumes "\<And>y'. as_iteration_count (sy_state y') = as_iteration_count (sy_state y) \<Longrightarrow> sy_chats y' = sy_chats y \<Longrightarrow>
      ends_within env k c (At Call_Llm y')" and "length (sy_chats y) \<le> c" and "1 \<le> k"
  shows "ends_within env (Suc (Suc k)) c (At Execute_Tools y)"
proof -
  obtain y1 r where r: "execute_tools env y = (y1, r)" by fastforce
  then have chats: "sy_chats y1 = sy_chats y" using execute_tools_chats [of env y] by simp
  have "ends_within env (Suc k) c (graph_step env (At Execute_Tools y))"
  proof (cases r)
    case None
    from execute_tools_progress [OF r [unfolded None]] have "as_iteration_count (sy_state y1) = as_iteration_count (sy_state y)"
      by (simp add: same_progress_def)
    with chats assms have "ends_within env (Suc k) c (At Update_Memory y1)" by (intro ends_Update_then) simp_all
    with None r show ?thesis by (simp add: routed_def)
  next
    case (Some e)
    with r chats assms(2) show ?thesis by (intro ends_within_over) (simp_all add: routed_def)
  qed
  then show ?thesis by (rule ends_within_step)
qed

text \<open>From a call of the model with \<open>r\<close> iterations left.\<close>

lemma ends_Call_Llm:
  assumes "loud env" and "1 \<le> r" and "turn_limit env - as_iteration_count (sy_state y) \<le> int r"
  shows "ends_within env (3 * r) (length (sy_chats y) + r) (At Call_Llm y)"
  using assms(2,3)
proof (induction r arbitrary: y)
  case (Suc r)
  obtain y1 x where x: "call_llm env y = (y1, x)" by fastforce
  note call = call_llm_answered [OF x assms(1)]
  have "ends_within env (3 * r + 2) (length (sy_chats y) + Suc r) (graph_step env (At Call_Llm y))"
  proof (cases x)
    case (Some e)
    with x call show ?thesis by (intro ends_within_over) (simp_all add: routed_def)
  next
    case None
    with x have step: "graph_step env (At Call_Llm y) = after_llm env y1" by (simp add: routed_def)
    from None call have "answered y y1" by simp
    then show ?thesis
    proof (cases rule: after_llm_node [where env = env])
      case tools
      then have open_state: "as_iteration_count (sy_state y1) < turn_limit env" by (simp add: state_done_def)
      with tools(3) Suc.prems have left: "1 \<le> r" "turn_limit env - as_iteration_count (sy_state y1) \<le> int r" by linarith+
      have "ends_within env (Suc (Suc (3 * r))) (length (sy_chats y1) + r) (At Execute_Tools (tick y1))"
      proof (rule ends_tools_memory)
        fix y' :: "('a, 'b) agent_sys"
        assume "as_iteration_count (sy_state y') = as_iteration_count (sy_state (tick y1))" and "sy_chats y' = sy_chats (tick y1)"
        with Suc.IH [of y'] left show "ends_within env (3 * r) (length (sy_chats y1) + r) (At Call_Llm y')" by simp
      qed (use left in simp_all)
      then have "ends_within env (3 * r + 2) (length (sy_chats y) + Suc r) (At Execute_Tools (tick y1))"
        by (rule ends_within_mono) (use call in linarith)+
      then show ?thesis unfolding step tools(1) .
    next
      case memory
      from ends_Update_Memory [of env "tick y1"] memory(2)
      have "ends_within env 2 (length (sy_chats y1)) (At Update_Memory (tick y1))" by simp
      then have "ends_within env (3 * r + 2) (length (sy_chats y) + Suc r) (At Update_Memory (tick y1))"
        by (rule ends_within_mono) (use call in linarith)+
      then show ?thesis unfolding step memory(1) .
    next
      case final
      from ends_Finalize [of env "tick y1"] have "ends_within env 1 (length (sy_chats y1)) (At Finalize (tick y1))" by simp
      then have "ends_within env (3 * r + 2) (length (sy_chats y) + Suc r) (At Finalize (tick y1))"
        by (rule ends_within_mono) (use call in linarith)+
      then show ?thesis unfolding step final .
    qed
  qed
  then have "ends_within env (Suc (3 * r + 2)) (length (sy_chats y) + Suc r) (At Call_Llm y)" by (rule ends_within_step)
  then show ?case by (rule ends_within_mono) simp_all
qed simp

section \<open>The call of the graph\<close>

lemma recursion_limit_Suc: "Suc (recursion_limit env - 1) = recursion_limit env"
  by (simp add: recursion_limit_def)

lemma recursion_limit_ge: "25 \<le> recursion_limit env"
  by (simp add: recursion_limit_def)

lemma last_step: "(graph_step env ^^ recursion_limit env) t = graph_step env ((graph_step env ^^ (recursion_limit env - 1)) t)"
  by (metis recursion_limit_Suc comp_apply funpow.simps(2))

lemma run_turn_sys:
  obtains f where "fst (run_turn env y) = with_budget f (turn_sys ((graph_step env ^^ recursion_limit env) (turn_start env y)))"
proof -
  have same: "with_budget id z = z" for z :: "('a, 'b) agent_sys" by (simp add: with_budget_def option.map_id)
  let ?t = "(graph_step env ^^ (recursion_limit env - 1)) (turn_start env y)"
  have "\<exists>f. fst (run_turn env y) = with_budget f (turn_sys (graph_step env ?t))"
    by (cases ?t; cases "graph_step env ?t") (auto simp: run_turn_def same intro: exI [of _ id])
  with that show ?thesis by (auto simp: last_step)
qed

lemma run_turn_ended:
  "run_turn env y = (y', Inr st) \<Longrightarrow> (graph_step env ^^ (recursion_limit env - 1)) (turn_start env y) = Ended y' \<and> st = sy_state y'"
  by (auto simp: run_turn_def Let_def split: turn.splits)

lemma run_turn_in_time:
  "over ((graph_step env ^^ (recursion_limit env - 1)) (turn_start env y)) \<Longrightarrow> snd (run_turn env y) \<noteq> Inl GraphRecursionError"
  by (cases "(graph_step env ^^ (recursion_limit env - 1)) (turn_start env y)") (auto simp: run_turn_def)

lemma run_turn_cut:
  assumes "\<not> over ((graph_step env ^^ (recursion_limit env - 1)) (turn_start env y))"
    and "\<And>e y1. (graph_step env ^^ recursion_limit env) (turn_start env y) \<noteq> Raised e y1"
  shows "run_turn env y = (turn_sys ((graph_step env ^^ recursion_limit env) (turn_start env y)), Inl GraphRecursionError)"
  using assms by (fastforce simp: run_turn_def last_step Let_def split: turn.split)

end
