(* ===== verification/Agent_Outcome.thy ===== *)
theory Agent_Outcome
  imports Agent_Theorems
begin

text \<open>
  How a turn ends: every turn that ends has an answer and a status, and its budget account is closed; the limit of graph
  steps is too small for a turn that uses up its iterations; an error without a text does not end the turn.
\<close>

section \<open>The end of a turn\<close>

text \<open>Time does not run backwards and a cancellation is not taken back.\<close>

definition steady :: "('f::linorder, 'w) agent_env \<Rightarrow> bool" where
  "steady env \<longleftrightarrow> (\<forall>n. ae_cancelled env n \<longrightarrow> ae_cancelled env (Suc n)) \<and> (\<forall>n. ae_elapsed env n \<le> ae_elapsed env (Suc n))"

lemma steady_terminal:
  assumes "steady env" and "tn_terminal (evaluate_turn env n st)"
  shows "tn_terminal (evaluate_turn env (Suc n) st)"
proof -
  from assms(1) have "out_of_time env n \<Longrightarrow> out_of_time env (Suc n)" unfolding steady_def out_of_time_def by (meson order_trans)
  with assms(2) show ?thesis by (auto simp: turn_terminal)
qed

definition concluded :: "('f, 'w) agent_sys \<Rightarrow> bool" where
  "concluded y \<longleftrightarrow> as_final_message (sy_state y) \<noteq> None \<and>
     as_run_status (sy_state y) = (if truthy (as_error (sy_state y)) then FAILED else COMPLETED) \<and>
     (\<forall>b. ts_budget_service (sy_tools y) = Some b \<longrightarrow> sv_accounts b (as_run_id (sy_state y)) = None) \<and>
     (as_persist_messages (sy_state y) \<longrightarrow> sy_memory y \<noteq> [] \<and> last (sy_memory y) =
        Save_Task_State (as_session_id (sy_state y)) (run_status_value (as_run_status (sy_state y)))
          (as_iteration_count (sy_state y)) (as_error (sy_state y)))"

lemma transform_final_frame:
  "as_error (transform_final env st) = as_error st" "as_run_status (transform_final env st) = as_run_status st"
  "as_final_message (transform_final env st) = None \<longleftrightarrow> as_final_message st = None"
  by (simp_all add: transform_final_def split: option.split json.split)

lemma settle_outcome_answers:
  assumes "truthy (as_error st) \<or> as_final_message st \<noteq> None"
  shows "as_final_message (settle_outcome env st) \<noteq> None"
    "as_run_status (settle_outcome env st) = (if truthy (as_error (settle_outcome env st)) then FAILED else COMPLETED)"
  using assms by (auto simp: settle_outcome_def Let_def)

lemma end_reason_answers:
  assumes "tn_end_reason (evaluate_turn env n st) = Some er"
  shows "truthy (as_error (apply_end_reason er st)) \<or> as_final_message (apply_end_reason er st) \<noteq> None"
  using assms
  by (auto simp: evaluate_turn_def turn_evaluate_def build_turn_input_def apply_end_reason_def py_or_def split: if_splits)

lemma last_final_ops: "as_persist_messages st \<Longrightarrow> final_ops env st \<noteq> [] \<and>
    last (final_ops env st) = Save_Task_State (as_session_id st) (run_status_value (as_run_status st)) (as_iteration_count st) (as_error st)"
  by (simp add: final_ops_def)

lemma finalize_concludes:
  assumes "finalize env y = (y', None)" and "tn_terminal (evaluate_turn env (sy_clock y) (sy_state y))"
  shows "concluded y'"
proof -
  let ?d = "evaluate_turn env (sy_clock y) (sy_state y)"
  from assms(2) obtain er where er: "tn_end_reason ?d = Some er"
    using turn_end_reason_iff [of "build_turn_input env (sy_clock y) (sy_state y)"] by (auto simp: evaluate_turn_def)
  let ?st = "settle_outcome env (apply_end_reason er (sy_state y))"
  let ?st2 = "transform_final env ?st"
  note answers = settle_outcome_answers [OF end_reason_answers [OF er], of env]
  from assms(1) er have y': "y' = with_budget (budget_close (as_run_id ?st2))
      ((tick y)\<lparr>sy_state := ?st2, sy_end_reason := Some er, sy_memory := sy_memory (tick y) @ final_ops env ?st2\<rparr>)"
    by (simp add: finalize_def Let_def split: if_splits)
  show ?thesis
    unfolding concluded_def using answers last_final_ops [of ?st2 env]
    by (auto simp: y' transform_final_frame with_budget_def budget_close_def)
qed

fun orderly :: "('f::linorder, 'w) agent_env \<Rightarrow> ('f, 'w) turn \<Rightarrow> bool" where
  "orderly env (At node y) \<longleftrightarrow> node = Finalize \<longrightarrow> tn_terminal (evaluate_turn env (sy_clock y) (sy_state y))"
| "orderly env (Ended y) \<longleftrightarrow> concluded y"
| "orderly env (Raised e y) \<longleftrightarrow> True"

lemma routed_orderly:
  assumes "\<And>y. orderly env (route y)"
  shows "orderly env (routed route p)"
  using assms by (simp add: routed_def split: option.split)

lemma graph_step_orderly:
  assumes "steady env" and "orderly env t"
  shows "orderly env (graph_step env t)"
proof (cases t)
  case (At node y)
  have llm: "orderly env (after_llm env y)" for y
    using steady_terminal [OF assms(1)] by (simp add: after_llm_def Let_def)
  have memory: "orderly env (after_memory env y)" for y
    using steady_terminal [OF assms(1)] by (simp add: after_memory_def)
  show ?thesis
  proof (cases node)
    case Finalize
    with At assms(2) finalize_concludes [of env y "fst (finalize env y)"] show ?thesis
      by (cases "finalize env y") (simp add: routed_def split: option.split)
  qed (simp_all add: At routed_orderly llm memory)
qed (use assms(2) in simp_all)

lemma turn_orderly: "steady env \<Longrightarrow> orderly env t \<Longrightarrow> orderly env ((graph_step env ^^ k) t)"
  by (induction k) (simp_all add: graph_step_orderly)

section \<open>A turn that uses up its iterations\<close>

text \<open>Nothing outside ends the turn.\<close>

definition untroubled :: "('f::linorder, 'w) agent_env \<Rightarrow> bool" where
  "untroubled env \<longleftrightarrow> (\<forall>n. ae_owned env n \<and> \<not> out_of_time env n)"

definition running :: "('f, 'w) agent_sys \<Rightarrow> bool" where
  "running y \<longleftrightarrow> \<not> truthy (as_error (sy_state y)) \<and> \<not> as_budget_exhausted (sy_state y)"

text \<open>
  The next step is not one at which the turn ends on its own: if the model is called, it asks for tools; if tools are
  executed, they answer and none of them ends the turn.
\<close>

fun goes_on :: "('f::{linorder,plus,minus,zero}, 'w) agent_env \<Rightarrow> ('f, 'w) turn \<Rightarrow> bool" where
  "goes_on env (At Call_Llm y) \<longleftrightarrow>
     (case call_llm env y of
        (y', None) \<Rightarrow> running y' \<and> as_pending_tool_calls (sy_state y') \<noteq> [] \<and>
          as_iteration_count (sy_state y') = as_iteration_count (sy_state y) + 1
      | _ \<Rightarrow> False)"
| "goes_on env (At Execute_Tools y) \<longleftrightarrow>
     (case execute_tools env y of (y', None) \<Rightarrow> as_final_message (sy_state y') = None | _ \<Rightarrow> False)"
| "goes_on env t \<longleftrightarrow> True"

text \<open>A condition on each of the next steps.\<close>

fun along ::
  "(('f, 'w) turn \<Rightarrow> bool) \<Rightarrow> ('f::{linorder,plus,minus,zero}, 'w) agent_env \<Rightarrow> nat \<Rightarrow> ('f, 'w) turn \<Rightarrow> bool" where
  "along P env 0 t \<longleftrightarrow> True"
| "along P env (Suc k) t \<longleftrightarrow> P t \<and> along P env k (graph_step env t)"

lemma along_mono: "along P env k t \<Longrightarrow> j \<le> k \<Longrightarrow> along P env j t"
proof (induction k arbitrary: j t)
  case (Suc k)
  then show ?case by (cases j) simp_all
qed simp

abbreviation busy :: "('f::{linorder,plus,minus,zero}, 'w) agent_env \<Rightarrow> nat \<Rightarrow> ('f, 'w) turn \<Rightarrow> bool" where
  "busy env \<equiv> along (goes_on env) env"

lemma untroubled_memory:
  assumes "untroubled env"
  obtains y' where "update_memory env y = (y', None)"
  using assms by (auto simp: untroubled_def out_of_time_def update_memory_def Let_def)

lemma model_asks:
  assumes "goes_on env (At Call_Llm y)"
  obtains y1 where "call_llm env y = (y1, None)" "running y1" "as_pending_tool_calls (sy_state y1) \<noteq> []"
    "as_iteration_count (sy_state y1) = as_iteration_count (sy_state y) + 1"
  using assms by (cases "call_llm env y") (auto split: option.splits)

lemma tools_answer:
  assumes "goes_on env (At Execute_Tools y)"
  obtains y1 where "execute_tools env y = (y1, None)" "as_final_message (sy_state y1) = None"
  using assms by (cases "execute_tools env y") (auto split: option.splits)

lemma round_trip:
  assumes "untroubled env" and "busy env (Suc (Suc (Suc k))) (At Call_Llm y)"
    and "as_iteration_count (sy_state y) + 1 < turn_limit env"
  obtains y' where "(graph_step env ^^ 3) (At Call_Llm y) = At Call_Llm y'" "busy env k (At Call_Llm y')"
    "as_iteration_count (sy_state y') = as_iteration_count (sy_state y) + 1"
proof -
  from assms(2) have b1: "goes_on env (At Call_Llm y)" "busy env (Suc (Suc k)) (graph_step env (At Call_Llm y))" by simp_all
  from model_asks [OF b1(1)] obtain y1 where y1: "call_llm env y = (y1, None)" "running y1" "as_pending_tool_calls (sy_state y1) \<noteq> []"
    "as_iteration_count (sy_state y1) = as_iteration_count (sy_state y) + 1" by blast
  have "\<not> state_done env (sy_state y1)" using y1 assms(3) by (simp add: state_done_def running_def)
  then have step1: "graph_step env (At Call_Llm y) = At Execute_Tools (tick y1)"
    using y1 assms(1) by (simp add: routed_def after_llm_def Let_def turn_tools turn_terminal untroubled_def)
  with b1(2) have b2: "goes_on env (At Execute_Tools (tick y1))" "busy env (Suc k) (graph_step env (At Execute_Tools (tick y1)))" by simp_all
  from tools_answer [OF b2(1)] obtain y2 where y2: "execute_tools env (tick y1) = (y2, None)" "as_final_message (sy_state y2) = None" by blast
  note tools = execute_tools_progress [OF y2(1)]
  have step2: "graph_step env (At Execute_Tools (tick y1)) = At Update_Memory y2" using y2(1) by (simp add: routed_def)
  from untroubled_memory [OF assms(1)] obtain y3 where y3: "update_memory env y2 = (y3, None)" by blast
  note memory = update_memory_frame [OF y3]
  have same: "as_iteration_count (sy_state y3) = as_iteration_count (sy_state y) + 1" "running y3" "as_final_message (sy_state y3) = None"
    using tools memory y1 y2(2) by (simp_all add: same_progress_def running_def)
  then have "\<not> state_done env (sy_state y3)" using assms(3) by (simp add: state_done_def running_def)
  then have step3: "graph_step env (At Update_Memory y2) = At Call_Llm (tick y3)"
    using y3 assms(1) by (simp add: routed_def after_memory_def turn_terminal untroubled_def)
  have "(graph_step env ^^ 3) (At Call_Llm y) = At Call_Llm (tick y3)"
    unfolding numeral_3_eq_3 funpow.simps comp_apply id_apply step1 step2 step3 ..
  moreover from b2(2) step2 step3 have "busy env k (At Call_Llm (tick y3))" by simp
  ultimately show ?thesis using that [of "tick y3"] same by simp
qed

lemma round_trips:
  assumes "untroubled env"
  shows "busy env (3 * k + m) (At Call_Llm y) \<Longrightarrow> as_iteration_count (sy_state y) + int k < turn_limit env \<Longrightarrow>
    \<exists>y'. (graph_step env ^^ (3 * k)) (At Call_Llm y) = At Call_Llm y' \<and> busy env m (At Call_Llm y') \<and>
      as_iteration_count (sy_state y') = as_iteration_count (sy_state y) + int k"
proof (induction k arbitrary: y)
  case (Suc k)
  from Suc.prems have "busy env (Suc (Suc (Suc (3 * k + m)))) (At Call_Llm y)" "as_iteration_count (sy_state y) + 1 < turn_limit env"
    by (simp_all add: numeral_3_eq_3 del: along.simps)
  from round_trip [OF assms this] obtain y1 where y1: "(graph_step env ^^ 3) (At Call_Llm y) = At Call_Llm y1"
    "busy env (3 * k + m) (At Call_Llm y1)" "as_iteration_count (sy_state y1) = as_iteration_count (sy_state y) + 1" by blast
  from Suc.IH [OF y1(2)] y1(3) Suc.prems(2) obtain y2 where
    "(graph_step env ^^ (3 * k)) (At Call_Llm y1) = At Call_Llm y2" "busy env m (At Call_Llm y2)"
    "as_iteration_count (sy_state y2) = as_iteration_count (sy_state y1) + int k" by auto
  moreover have "(graph_step env ^^ (3 * Suc k)) (At Call_Llm y) = (graph_step env ^^ (3 * k)) ((graph_step env ^^ 3) (At Call_Llm y))"
    by (metis add.commute comp_apply funpow_add mult_Suc_right)
  ultimately show ?case using y1 by auto
qed simp

text \<open>The last iteration goes through the memory to the end: three steps more.\<close>

lemma last_round:
  assumes "untroubled env" and "goes_on env (At Call_Llm y)" and "as_iteration_count (sy_state y) + 1 = turn_limit env"
  shows "\<exists>y'. (graph_step env ^^ 2) (At Call_Llm y) = At Finalize y'"
proof -
  from model_asks [OF assms(2)] obtain y1 where y1: "call_llm env y = (y1, None)" "running y1" "as_pending_tool_calls (sy_state y1) \<noteq> []"
    "as_iteration_count (sy_state y1) = as_iteration_count (sy_state y) + 1" by blast
  have "state_done env (sy_state y1)" using y1(4) assms(3) by (simp add: state_done_def)
  moreover have "tn_end_reason (evaluate_turn env (sy_clock y1) (sy_state y1)) = Some ITERATION_LIMIT"
    using assms(1,3) y1 by (simp add: evaluate_turn_def turn_evaluate_def build_turn_input_def untroubled_def out_of_time_def running_def
      turn_limit_def)
  ultimately have step1: "graph_step env (At Call_Llm y) = At Update_Memory (tick y1)"
    using y1 by (simp add: routed_def after_llm_def Let_def turn_tools turn_terminal)
  from untroubled_memory [OF assms(1)] obtain y2 where y2: "update_memory env (tick y1) = (y2, None)" by blast
  from update_memory_frame [OF y2] y1(4) assms(3) have "state_done env (sy_state y2)" by (simp add: state_done_def same_progress_def)
  then have "graph_step env (At Update_Memory (tick y1)) = At Finalize (tick y2)"
    using y2 by (simp add: routed_def after_memory_def turn_terminal)
  with step1 show ?thesis by (simp add: numeral_2_eq_2)
qed

lemma busy_turn_steps:
  assumes "untroubled env" and "busy env (3 * n) (At Prepare_Context y)"
    and "ae_prepare env (sy_state y) = Inr st" and "as_iteration_count st = 0" and "turn_limit env = int n" and "1 \<le> n"
  shows "\<exists>y'. (graph_step env ^^ (3 * n)) (At Prepare_Context y) = At Finalize y'"
proof -
  let ?y = "y\<lparr>sy_state := st\<rparr>"
  have start: "graph_step env (At Prepare_Context y) = At Call_Llm ?y" using assms(3) by (simp add: routed_def prepare_context_def)
  have n: "3 * n = Suc (3 * (n - 1) + 2)" using assms(6) by simp
  with assms(2) start have "busy env (3 * (n - 1) + 2) (At Call_Llm ?y)" by simp
  from round_trips [OF assms(1) this] assms(4-6) obtain y1 where
    y1: "(graph_step env ^^ (3 * (n - 1))) (At Call_Llm ?y) = At Call_Llm y1" "busy env 2 (At Call_Llm y1)"
      "as_iteration_count (sy_state y1) = int (n - 1)" by auto
  from y1(2) have go: "goes_on env (At Call_Llm y1)" by (simp add: numeral_2_eq_2)
  from y1(3) assms(5,6) have "as_iteration_count (sy_state y1) + 1 = turn_limit env" by simp
  from last_round [OF assms(1) go this] obtain y2 where y2: "(graph_step env ^^ 2) (At Call_Llm y1) = At Finalize y2" by blast
  have "3 * n = 2 + (3 * (n - 1) + 1)" using assms(6) by simp
  then have "(graph_step env ^^ (3 * n)) (At Prepare_Context y) =
      (graph_step env ^^ 2) ((graph_step env ^^ (3 * (n - 1))) ((graph_step env ^^ 1) (At Prepare_Context y)))"
    by (simp only: funpow_add comp_apply)
  with start y1(1) y2 show ?thesis by simp
qed

lemma busy_turn_cut:
  assumes "untroubled env" and "busy env (3 * n) (At Prepare_Context y)"
    and "ae_prepare env (sy_state y) = Inr st" and "as_iteration_count st = 0" and "turn_limit env = int n" and "1 \<le> n"
    and "k \<le> 3 * n + 1"
  shows "\<not> over ((graph_step env ^^ (k - 1)) (At Prepare_Context y)) \<and> (\<forall>e y1. (graph_step env ^^ k) (At Prepare_Context y) \<noteq> Raised e y1)"
proof -
  from busy_turn_steps [OF assms(1-6)] obtain y' where y': "(graph_step env ^^ (3 * n)) (At Prepare_Context y) = At Finalize y'" by blast
  have going: "\<not> over ((graph_step env ^^ j) (At Prepare_Context y))" if "j \<le> 3 * n" for j
  proof
    assume "over ((graph_step env ^^ j) (At Prepare_Context y))"
    from over_stays [OF this, of "3 * n - j" env] that have "(graph_step env ^^ (3 * n)) (At Prepare_Context y) = (graph_step env ^^ j) (At Prepare_Context y)"
      by (metis comp_apply funpow_add le_add_diff_inverse2)
    with y' \<open>over _\<close> show False by simp
  qed
  have "(graph_step env ^^ (3 * n + 1)) (At Prepare_Context y) \<noteq> Raised e y1" for e y1
    using y' assms(1) by (simp add: routed_def finalize_def Let_def untroubled_def)
  moreover have "(graph_step env ^^ k) (At Prepare_Context y) \<noteq> Raised e y1" if "k \<le> 3 * n" for e y1
    using going [OF that] by auto
  ultimately have "(graph_step env ^^ k) (At Prepare_Context y) \<noteq> Raised e y1" for e y1
    using assms(7) by (cases "k \<le> 3 * n") (auto simp: le_Suc_eq)
  with going [of "k - 1"] assms(7) show ?thesis by simp
qed

lemma same_limits_cut: "run_iteration_limit env = int n \<Longrightarrow> 8 \<le> n \<Longrightarrow> recursion_limit env \<le> 3 * n + 1"
  by (auto simp: recursion_limit_def)

section \<open>An error without a text\<close>

text \<open>Every exception of the provider is without a text, as \<open>str(TimeoutError())\<close> is.\<close>

definition mute_provider :: "('f, 'w) agent_env \<Rightarrow> bool" where
  "mute_provider env \<longleftrightarrow> (\<forall>msgs tools model w. snd (ae_chat env msgs tools model w) = Chat_Raises [])"

text \<open>When the next step is the node of the model, it gets as far as the provider.\<close>

fun calls_provider :: "('f::{linorder,plus,minus,zero}, 'w) agent_env \<Rightarrow> ('f, 'w) turn \<Rightarrow> bool" where
  "calls_provider env (At Call_Llm y) \<longleftrightarrow> length (sy_chats (fst (call_llm env y))) = Suc (length (sy_chats y))"
| "calls_provider env t \<longleftrightarrow> True"

text \<open>The turn has neither an error with a text, nor an answer, nor anything to do but to call the model.\<close>

definition undecided :: "('f, 'w) agent_env \<Rightarrow> AgentState \<Rightarrow> bool" where
  "undecided env st \<longleftrightarrow> \<not> truthy (as_error st) \<and> as_final_message st = None \<and> as_pending_tool_calls st = [] \<and>
     \<not> as_budget_exhausted st \<and> as_iteration_count st < turn_limit env"

lemma undecided_goes_on: "undecided env st \<Longrightarrow> \<not> state_done env st \<and> as_pending_tool_calls st = []"
  by (simp add: undecided_def state_done_def)

lemma llm_budget_state [simp]:
  "sy_state (fst (reserve_llm_call now tokens y)) = sy_state y" "sy_state (release_llm_call d y) = sy_state y"
  "sy_chats (fst (reserve_llm_call now tokens y)) = sy_chats y" "sy_chats (release_llm_call d y) = sy_chats y"
  by (simp_all add: reserve_llm_call_def release_llm_call_def with_budget_def split_beta split: option.split)

lemma mute_chat:
  assumes "chat_with_provider env msgs request tools model reservation y = (y', r)" and "mute_provider env"
  shows "r = None \<and> sy_state y' = (sy_state y)\<lparr>as_error := Some [], as_finish_reason := Some ''error''\<rparr> \<and>
    length (sy_chats y') = Suc (length (sy_chats y))"
proof -
  let ?sent = "case ae_pre_llm_context env (sy_state y) msgs of
    Some ctx \<Rightarrow> if ctx = [] then msgs else inject_context_into_last_user_message msgs ctx | None \<Rightarrow> msgs"
  obtain w1 where "ae_chat env ?sent tools model (ts_world (sy_tools y)) = (w1, Chat_Raises [])"
    using assms(2) unfolding mute_provider_def by (metis prod.collapse)
  with assms(1) show ?thesis by (auto simp: chat_with_provider_def Let_def fail_llm_def)
qed

lemma mute_select:
  assumes "select_and_chat env n msgs request tools y = (y', r)" and "mute_provider env"
    and "length (sy_chats y') = Suc (length (sy_chats y))"
  shows "r = None \<and> sy_state y' = (sy_state y)\<lparr>as_error := Some [], as_finish_reason := Some ''error''\<rparr>"
proof -
  obtain y1 res where res: "reserve_llm_call (ae_now env n) (int (length request) div 4) y = (y1, res)" by fastforce
  then have same: "sy_state y1 = sy_state y" "sy_chats y1 = sy_chats y"
    using llm_budget_state(1,3) [of "ae_now env n" "int (length request) div 4" y] by simp_all
  have "sy_chats (deny_selection e y) = sy_chats y" for e by (simp add: deny_selection_def fail_llm_def)
  with assms(1,3) res same obtain model where "chat_with_provider env msgs request tools model res y1 = (y', r)"
    by (auto simp: select_and_chat_def Let_def split: if_splits)
  from mute_chat [OF this assms(2)] same show ?thesis by simp
qed

lemma mute_call:
  assumes "mute_provider env" and "calls_provider env (At Call_Llm y)" and "undecided env (sy_state y)"
  obtains y' where "call_llm env y = (y', None)" "undecided env (sy_state y')"
    "as_iteration_count (sy_state y') = as_iteration_count (sy_state y)" "length (sy_chats y') = Suc (length (sy_chats y))"
proof -
  obtain y' r where call: "call_llm env y = (y', r)" by fastforce
  with assms(2) have grown: "length (sy_chats y') = Suc (length (sy_chats (tick y)))" by simp
  have "sy_chats (fail_llm e (tick y)) = sy_chats (tick y)" for e by (simp add: fail_llm_def)
  with call grown obtain msgs request tools where "select_and_chat env (sy_clock y) msgs request tools (tick y) = (y', r)"
    by (auto simp: call_llm_def Let_def split: if_splits sum.splits)
  from mute_select [OF this assms(1) grown] have "r = None \<and> sy_state y' = (sy_state y)\<lparr>as_error := Some [], as_finish_reason := Some ''error''\<rparr>" by simp
  with that [of y'] call grown assms(3) show ?thesis by (simp add: undecided_def truthy_def)
qed

lemma mute_round:
  assumes "untroubled env" and "mute_provider env" and "calls_provider env (At Call_Llm y)" and "undecided env (sy_state y)"
  obtains y1 y2 where "graph_step env (At Call_Llm y) = At Update_Memory y1" "graph_step env (At Update_Memory y1) = At Call_Llm y2"
    "undecided env (sy_state y2)" "as_iteration_count (sy_state y1) = as_iteration_count (sy_state y)"
    "as_iteration_count (sy_state y2) = as_iteration_count (sy_state y)"
    "length (sy_chats y1) = Suc (length (sy_chats y))" "length (sy_chats y2) = Suc (length (sy_chats y))"
proof -
  from mute_call [OF assms(2-4)] obtain y1 where y1: "call_llm env y = (y1, None)" "undecided env (sy_state y1)"
    "as_iteration_count (sy_state y1) = as_iteration_count (sy_state y)" "length (sy_chats y1) = Suc (length (sy_chats y))" by blast
  have step1: "graph_step env (At Call_Llm y) = At Update_Memory (tick y1)"
    using y1(1) undecided_goes_on [OF y1(2)] assms(1) by (simp add: routed_def after_llm_def Let_def turn_tools turn_terminal untroubled_def)
  from untroubled_memory [OF assms(1)] obtain y2 where y2: "update_memory env (tick y1) = (y2, None)" by blast
  note memory = update_memory_frame [OF y2]
  with y1(2) have on: "undecided env (sy_state y2)" by (simp add: undecided_def same_progress_def)
  then have step2: "graph_step env (At Update_Memory (tick y1)) = At Call_Llm (tick y2)"
    using y2 undecided_goes_on [OF on] assms(1) by (simp add: routed_def after_memory_def turn_terminal untroubled_def)
  show ?thesis by (rule that [OF step1 step2]) (use on y1 memory in \<open>simp_all add: same_progress_def\<close>)
qed

lemma mute_rounds:
  assumes "untroubled env" and "mute_provider env"
  shows "along (calls_provider env) env k (At Call_Llm y) \<Longrightarrow> undecided env (sy_state y) \<Longrightarrow>
    \<exists>node y'. (graph_step env ^^ k) (At Call_Llm y) = At node y' \<and> as_iteration_count (sy_state y') = as_iteration_count (sy_state y) \<and>
      length (sy_chats y') = length (sy_chats y) + (k + 1) div 2"
proof (induction k arbitrary: y rule: less_induct)
  case (less k)
  consider "k = 0" | "k = 1" | j where "k = Suc (Suc j)" by (metis One_nat_def not0_implies_Suc)
  then show ?case
  proof cases
    case 2
    with less.prems have "calls_provider env (At Call_Llm y)" by simp
    from mute_round [OF assms this less.prems(2)] obtain y1 where "graph_step env (At Call_Llm y) = At Update_Memory y1"
      "as_iteration_count (sy_state y1) = as_iteration_count (sy_state y)" "length (sy_chats y1) = Suc (length (sy_chats y))" by blast
    with 2 show ?thesis by simp
  next
    case 3
    with less.prems have "calls_provider env (At Call_Llm y)" by simp
    from mute_round [OF assms this less.prems(2)] obtain y1 y2 where
      steps: "graph_step env (At Call_Llm y) = At Update_Memory y1" "graph_step env (At Update_Memory y1) = At Call_Llm y2"
      and y2: "undecided env (sy_state y2)" "as_iteration_count (sy_state y2) = as_iteration_count (sy_state y)"
        "length (sy_chats y2) = Suc (length (sy_chats y))" by blast
    with less.prems 3 have "along (calls_provider env) env j (At Call_Llm y2)" by simp
    from less.IH [OF _ this y2(1)] 3 steps y2(2,3) show ?thesis by (simp add: funpow_Suc_right del: funpow.simps)
  qed simp
qed

end
