(* ===== verification/Agent_Authority.thy ===== *)
theory Agent_Authority
  imports Agent_Theorems
begin

text \<open>
  Which tools a turn executes: every call that reaches the executor is of an enabled tool, and either the context of the run
  authorizes it or the decider of that context approved this very call.
\<close>

definition approved :: "('f, 'w) agent_env \<Rightarrow> ToolCallRequest \<Rightarrow> bool" where
  "approved env rq \<longleftrightarrow> (\<exists>c decider aq d. ae_tool_context env = Some c \<and> tx_approval_decider c = Some decider \<and>
     aq_tool_call_id aq = tq_id rq \<and> aq_tool_name aq = tq_name rq \<and>
     aq_arguments aq = display_arguments env (tq_name rq) (tq_arguments rq) \<and>
     decider aq = Decided d \<and> ad_allowed d)"

definition sanctioned :: "('f, 'w) agent_env \<Rightarrow> ToolDefinition \<times> ToolCallRequest \<times> ToolCallRequest \<Rightarrow> bool" where
  "sanctioned env = (\<lambda>(d, rq, w). td_enabled d \<and> (authorized d rq (ae_tool_context env) \<or> approved env rq) \<and>
     w = rq\<lparr>tq_arguments := tq_arguments w\<rparr>)"

definition calls_ok :: "('f, 'w) agent_env \<Rightarrow> ('f, 'w) ToolService \<Rightarrow> ('f, 'w) ToolService \<Rightarrow> bool" where
  "calls_ok env s s' \<longleftrightarrow> (\<exists>new. ts_calls s' = ts_calls s @ new \<and> list_all (sanctioned env) new)"

lemma calls_ok_same: "ts_calls s' = ts_calls s \<Longrightarrow> calls_ok env s s'"
  by (simp add: calls_ok_def)

lemma calls_ok_trans: "calls_ok env s s' \<Longrightarrow> calls_ok env s' s'' \<Longrightarrow> calls_ok env s s''"
  unfolding calls_ok_def by (metis append_assoc list_all_append)

lemma calls_ok_cong: "calls_ok env s s' \<Longrightarrow> ts_calls s0 = ts_calls s \<Longrightarrow> calls_ok env s0 s'"
  by (simp add: calls_ok_def)

lemma meanwhile_calls: "ts_calls (replaced_meanwhile changes s) = ts_calls s"
  unfolding replaced_meanwhile_def by (induction changes arbitrary: s) (auto simp: split_beta)

lemma authorized_enabled: "authorized d rq ctx \<Longrightarrow> td_enabled d"
  by (simp add: authorized_def)

lemma run_tool_ok:
  assumes "\<And>d. authorized d rq ctx \<Longrightarrow> authorized d rq (ae_tool_context env) \<or> approved env rq"
  shows "calls_ok env (sy_tools y) (sy_tools (fst (run_tool env rq ctx ev y)))"
proof -
  obtain s1 r where r: "tool_execute (tool_env_now env y) rq ctx ev (sy_tools y) = (s1, r)" by fastforce
  then have eq: "sy_tools (fst (run_tool env rq ctx ev y)) = s1" by (simp add: run_tool_def)
  from tool_execute_calls [OF r] show ?thesis
  proof
    assume "ts_calls s1 = ts_calls (sy_tools y)"
    then show ?thesis unfolding eq by (rule calls_ok_same)
  next
    assume "\<exists>d. te_owned (tool_env_now env y) \<and> te_still_owned (tool_env_now env y) \<and> in_force rq ev (sy_tools y) d \<and>
      authorized d rq ctx \<and> reached d rq (sy_tools y) s1"
    then obtain d w k where d: "authorized d rq ctx" "ts_calls s1 = ts_calls (sy_tools y) @ replicate k (d, rq, w)"
      "w = rq\<lparr>tq_arguments := tq_arguments w\<rparr>" unfolding reached_def by blast
    have "sanctioned env (d, rq, w)"
      unfolding sanctioned_def using assms [OF d(1)] authorized_enabled [OF d(1)] d(3) by simp
    then show ?thesis unfolding eq calls_ok_def using d(2) by (metis list_all_length length_replicate nth_replicate)
  qed
qed

lemma decide_allowed:
  assumes "decide decider aq = Inr scope"
  shows "\<exists>d. decider aq = Decided d \<and> ad_allowed d"
  using assms by (auto simp: decide_def split: decider_answer.splits if_splits)

lemma approvedI:
  assumes "context_decider (ae_tool_context env) = Some decider" and "decide decider aq = Inr scope"
    and "aq_tool_call_id aq = tq_id rq" and "aq_tool_name aq = tq_name rq"
    and "aq_arguments aq = display_arguments env (tq_name rq) (tq_arguments rq)"
  shows "approved env rq"
  using assms decide_allowed [OF assms(2)] unfolding approved_def context_decider_def by (auto split: option.splits)

lemma request_tool_approval_ok:
  "calls_ok env (sy_tools y) (sy_tools (fst (request_tool_approval env rq (ae_tool_context env) ev y)))"
proof (cases "context_decider (ae_tool_context env)")
  case None
  then show ?thesis by (simp add: request_tool_approval_def calls_ok_same)
next
  case (Some decider)
  let ?ctx = "ae_tool_context env"
  let ?ap = "tev_approval ev"
  let ?aq = "\<lparr>aq_session_id = approval_session ?ctx y, aq_tool_call_id = tq_id rq, aq_tool_name = tas_name ?ap,
     aq_arguments = display_arguments env (tas_name ?ap) (tq_arguments rq), aq_description = tas_description ?ap,
     aq_risk_level = tas_risk_level ?ap, aq_metadata = None\<rparr>"
  let ?y1 = "tick (y\<lparr>sy_tools := replaced_meanwhile (ae_meanwhile env (sy_clock y)) (sy_tools y)\<rparr>)"
  have same: "ts_calls (sy_tools ?y1) = ts_calls (sy_tools y)" by (simp add: meanwhile_calls)
  show ?thesis
  proof (cases "decide decider ?aq")
    case (Inl reason)
    with Some same show ?thesis by (simp add: request_tool_approval_def Let_def calls_ok_same)
  next
    case (Inr scope)
    show ?thesis
    proof (cases "tas_name ?ap = tq_name rq")
      case True
      have "approved env rq" by (rule approvedI [OF Some Inr]) (simp_all add: True)
      then have "calls_ok env (sy_tools y) (sy_tools (fst (run_tool env rq ctx (Some ev) ?y1)))" for ctx
        using calls_ok_cong [OF run_tool_ok same [symmetric]] by blast
      with Some Inr same show ?thesis by (simp add: request_tool_approval_def Let_def calls_ok_same split: sum.split)
    next
      case False
      then have "service_authorize_once rq ?ctx (Some ev) s = Inl ToolDefinitionChangedError" for s :: "('a, 'b) ToolService"
        by (simp add: service_authorize_once_def definition_for_evaluation_def split: option.split)
      with Some Inr same show ?thesis by (simp add: request_tool_approval_def Let_def calls_ok_same)
    qed
  qed
qed

lemma host_grant_ok:
  "calls_ok env (sy_tools y) (sy_tools (fst (request_browser_host_grant_approval env rq (ae_tool_context env) signal y)))"
proof (cases "context_decider (ae_tool_context env)")
  case None
  then show ?thesis by (simp add: request_browser_host_grant_approval_def calls_ok_same)
next
  case (Some decider)
  let ?ctx = "ae_tool_context env"
  let ?bsid = "json_text (obj_get signal ''browser_session_id'')"
  let ?aq = "\<lparr>aq_session_id = approval_session ?ctx y, aq_tool_call_id = tq_id rq, aq_tool_name = tq_name rq,
     aq_arguments = display_arguments env (tq_name rq) (tq_arguments rq), aq_description = HOST_GRANT_NOTICE,
     aq_risk_level = CONFIRM, aq_metadata = Some [(''approval_kind'', JStr ''host_grant''), (''browser_session_id'', JStr ?bsid)]\<rparr>"
  let ?y1 = "tick (y\<lparr>sy_tools := replaced_meanwhile (ae_meanwhile env (sy_clock y)) (sy_tools y)\<rparr>)"
  have same: "ts_calls (sy_tools ?y1) = ts_calls (sy_tools y)" by (simp add: meanwhile_calls)
  show ?thesis
  proof (cases "decide decider ?aq")
    case (Inl reason)
    with Some same show ?thesis by (simp add: request_browser_host_grant_approval_def Let_def calls_ok_same)
  next
    case (Inr scope)
    have ok: "approved env rq" by (rule approvedI [OF Some Inr]) simp_all
    have "calls_ok env (sy_tools y) (sy_tools (fst (run_tool env rq ctx None (?y1\<lparr>sy_tools := (sy_tools ?y1)\<lparr>ts_world := w\<rparr>\<rparr>))))" for ctx w
      by (rule calls_ok_cong [OF run_tool_ok]) (simp_all add: ok meanwhile_calls)
    with Some Inr same show ?thesis
      by (simp add: request_browser_host_grant_approval_def Let_def calls_ok_same meanwhile_calls split_beta)
  qed
qed

lemma dispatch_ok: "calls_ok env (sy_tools y) (sy_tools (fst (dispatch_request env rq y)))"
proof -
  let ?ctx = "ae_tool_context env"
  obtain s1 e where e: "service_evaluate_execution rq ?ctx (sy_tools y) = (s1, e)" by fastforce
  then have same: "ts_calls s1 = ts_calls (sy_tools y)" by (auto simp: service_evaluate_execution_def Let_def split: option.splits)
  let ?y1 = "y\<lparr>sy_tools := s1\<rparr>"
  have approval: "calls_ok env (sy_tools y) (sy_tools (fst (request_tool_approval env rq ?ctx ev ?y1)))" for ev
    using calls_ok_cong [OF request_tool_approval_ok [of env ?y1 rq ev]] same by simp
  have run: "calls_ok env (sy_tools y) (sy_tools (fst (run_tool env rq ?ctx ev ?y1)))" for ev
    using calls_ok_cong [OF run_tool_ok [of rq ?ctx env ?y1 ev]] same by simp
  have grant: "calls_ok env (sy_tools y) (sy_tools (fst (request_browser_host_grant_approval env rq ?ctx signal y2)))"
    if "run_tool env rq ?ctx ev ?y1 = (y2, a)" for signal ev y2 a
    using calls_ok_trans [OF run [of ev]] host_grant_ok [of env y2 rq signal] that by simp
  show ?thesis
  proof (cases e)
    case (Inr ev)
    obtain y2 a where a: "run_tool env rq ?ctx (Some ev) ?y1 = (y2, a)" by fastforce
    with run [of "Some ev"] have "calls_ok env (sy_tools y) (sy_tools y2)" by simp
    with e Inr a same approval grant [OF a] show ?thesis
      by (simp add: dispatch_request_def Let_def calls_ok_same split: sum.split)
  qed (use e same in \<open>simp add: dispatch_request_def Let_def calls_ok_same\<close>)
qed

lemma execute_call_ok:
  assumes "execute_call env tc y = (y', r)"
  shows "calls_ok env (sy_tools y) (sy_tools y')"
proof -
  have "calls_ok env (sy_tools y) (sy_tools (fst (answer_call env p (announce_call env p y))))" for p
    using dispatch_ok [of env "announce_call env p y\<lparr>sy_next_object := k\<rparr>" rq for k rq]
    by (simp add: answer_call_def calls_ok_same split: option.split)
  then have answer: "calls_ok env (sy_tools y) (sy_tools y1)" if "answer_call env p (announce_call env p y) = (y1, a)" for p y1 a
    using that by (metis fst_conv)
  from assms show ?thesis
    by (cases rule: execute_call_cases) (auto simp: record_result_frame dest: answer)
qed

lemma execute_calls_ok: "execute_calls env tcs y = (y', r) \<Longrightarrow> calls_ok env (sy_tools y) (sy_tools y')"
proof (induction tcs arbitrary: y)
  case (Cons tc tcs)
  obtain y1 a where a: "execute_call env tc y = (y1, a)" by fastforce
  note first = execute_call_ok [OF a]
  from Cons.prems a consider "y' = y1" | "execute_calls env tcs y1 = (y', r)" by (auto split: sum.splits bool.splits)
  then show ?case
  proof cases
    case 2
    with Cons.IH first calls_ok_trans show ?thesis by blast
  qed (use first in simp)
qed (simp add: calls_ok_same)

lemma execute_tools_ok: "calls_ok env (sy_tools y) (sy_tools (fst (execute_tools env y)))"
proof -
  let ?y = "upd (\<lambda>st. st\<lparr>as_tool_results := []\<rparr>) (tick y)"
  obtain y1 r where r: "execute_calls env (as_pending_tool_calls (sy_state (tick y))) ?y = (y1, r)" by fastforce
  from execute_calls_ok [OF r] have "calls_ok env (sy_tools y) (sy_tools y1)" by simp
  with r show ?thesis by (simp add: execute_tools_def Let_def calls_ok_same split: sum.split)
qed

lemma chat_calls: "ts_calls (sy_tools (fst (chat_with_provider env msgs request tools model reservation y))) = ts_calls (sy_tools y)"
  by (simp add: chat_with_provider_def Let_def split_beta fail_llm_def accept_result_def split: chat_answer.split)

lemma select_and_chat_calls: "ts_calls (sy_tools (fst (select_and_chat env n msgs request tools y))) = ts_calls (sy_tools y)"
  by (simp add: select_and_chat_def Let_def split_beta deny_selection_def fail_llm_def chat_calls)

lemma call_llm_calls: "ts_calls (sy_tools (fst (call_llm env y))) = ts_calls (sy_tools y)"
proof -
  obtain y' r where "call_llm env y = (y', r)" by fastforce
  then show ?thesis
  proof (cases rule: call_llm_cases)
    case redacted
    with \<open>call_llm env y = (y', r)\<close> select_and_chat_calls show ?thesis by (metis fst_conv tick_simps(2))
  next
    case plain
    with \<open>call_llm env y = (y', r)\<close> select_and_chat_calls show ?thesis by (metis fst_conv tick_simps(2))
  qed (simp_all add: \<open>call_llm env y = (y', r)\<close> fail_llm_def)
qed

lemma routed_sys: "(\<And>y. turn_sys (route y) = y \<or> turn_sys (route y) = tick y) \<Longrightarrow> sy_tools (turn_sys (routed route p)) = sy_tools (fst p)"
  by (auto simp: routed_def split: option.split) (metis tick_simps(2))+

lemma graph_step_ok: "calls_ok env (sy_tools (turn_sys t)) (sy_tools (turn_sys (graph_step env t)))"
proof (cases t)
  case (At node y)
  have llm: "turn_sys (after_llm env y) = tick y" "turn_sys (after_memory env y) = tick y" for y
    by (simp_all add: after_llm_def after_memory_def Let_def)
  show ?thesis
  proof (cases node)
    case Prepare_Context
    with At show ?thesis by (simp add: routed_def prepare_context_def calls_ok_same split: sum.split)
  next
    case Call_Llm
    with At show ?thesis by (simp add: routed_sys llm call_llm_calls calls_ok_same)
  next
    case Execute_Tools
    with At execute_tools_ok show ?thesis by (simp add: routed_sys)
  next
    case Update_Memory
    with At show ?thesis by (simp add: routed_sys llm update_memory_def Let_def calls_ok_same)
  next
    case Finalize
    with At show ?thesis by (simp add: routed_sys finalize_def Let_def calls_ok_same)
  qed
qed (simp_all add: calls_ok_same)

lemma turn_calls_ok: "calls_ok env (sy_tools (turn_sys t)) (sy_tools (turn_sys ((graph_step env ^^ k) t)))"
proof (induction k)
  case (Suc k)
  then show ?case using calls_ok_trans graph_step_ok by fastforce
qed (simp add: calls_ok_same)

end
