(* ===== verification/Python_Json.thy ===== *)
theory Python_Json
  imports Redaction Python_Text
begin

text \<open>
  \<open>json.dumps(..., ensure_ascii=False)\<close> on the JSON values of the development, with the default separators.
\<close>

definition hex_digit :: "nat \<Rightarrow> char" where
  "hex_digit n = (if n < 10 then char_of (48 + n) else char_of (87 + n))"

definition escape_char :: "char \<Rightarrow> string" where
  "escape_char c =
     (let n = of_char c :: nat in
      if n = 34 then [CHR 0x5C, c]
      else if n = 92 then [c, c]
      else if n = 10 then [CHR 0x5C, CHR ''n'']
      else if n = 13 then [CHR 0x5C, CHR ''r'']
      else if n = 9 then [CHR 0x5C, CHR ''t'']
      else if n = 12 then [CHR 0x5C, CHR ''f'']
      else if n = 8 then [CHR 0x5C, CHR ''b'']
      else if n < 32 then [CHR 0x5C] @ ''u00'' @ [hex_digit (n div 16), hex_digit (n mod 16)]
      else [c])"

definition json_quote :: "string \<Rightarrow> string" where
  "json_quote s = [CHR 0x22] @ concat (map escape_char s) @ [CHR 0x22]"

fun join_comma :: "string list \<Rightarrow> string" where
  "join_comma [] = []"
| "join_comma [x] = x"
| "join_comma (x # xs) = x @ '', '' @ join_comma xs"

fun json_dumps :: "json \<Rightarrow> string" where
  "json_dumps JNull = ''null''"
| "json_dumps (JBool b) = (if b then ''true'' else ''false'')"
| "json_dumps (JInt i) = int_text i"
| "json_dumps (JStr s) = json_quote s"
| "json_dumps (JList xs) = ''['' @ join_comma (map json_dumps xs) @ '']''"
| "json_dumps (JObj kvs) = ''{'' @ join_comma (map (\<lambda>p. json_quote (fst p) @ '': '' @ json_dumps (snd p)) kvs) @ ''}''"

text \<open>A text without characters that are escaped.\<close>

definition json_plain :: "string \<Rightarrow> bool" where
  "json_plain s \<longleftrightarrow> list_all (\<lambda>c. escape_char c = [c]) s"

lemma escape_plain: "json_plain s \<Longrightarrow> concat (map escape_char s) = s"
  by (induction s) (auto simp: json_plain_def)

lemma plain_in_quote:
  assumes "json_plain s" and "py_in s t"
  shows "py_in s (json_quote t)"
proof -
  from assms(2) obtain a b where "t = a @ s @ b" by (auto simp: py_in_sublist sublist_def)
  then have "json_quote t = ([CHR 0x22] @ concat (map escape_char a)) @ s @ (concat (map escape_char b) @ [CHR 0x22])"
    using escape_plain [OF assms(1)] by (simp add: json_quote_def)
  then show ?thesis unfolding py_in_sublist sublist_def by blast
qed

lemma in_join: "x \<in> set xs \<Longrightarrow> py_in s x \<Longrightarrow> py_in s (join_comma xs)"
proof (induction xs rule: join_comma.induct)
  case (3 x' y ys)
  show ?case
  proof (cases "x = x'")
    case True
    with 3 py_in_append [of s x' "[]" "'', '' @ join_comma (y # ys)"] show ?thesis by simp
  next
    case False
    with 3 have "py_in s (join_comma (y # ys))" by simp
    from py_in_append [OF this, of "x' @ '', ''" "[]"] show ?thesis by simp
  qed
qed simp_all

lemma in_json_list: "x \<in> set xs \<Longrightarrow> py_in s (json_dumps x) \<Longrightarrow> py_in s (json_dumps (JList xs))"
  using py_in_append [OF in_join [of "json_dumps x" "map json_dumps xs" s], of "''[''" "'']''"] by simp

lemma in_json_obj:
  assumes "(k, x) \<in> set kvs" and "py_in s (json_dumps x)"
  shows "py_in s (json_dumps (JObj kvs))"
proof -
  have "py_in s (json_quote k @ '': '' @ json_dumps x)"
    using py_in_append [OF assms(2), of "json_quote k @ '': ''" "[]"] by simp
  moreover have "json_quote k @ '': '' @ json_dumps x \<in> set (map (\<lambda>p. json_quote (fst p) @ '': '' @ json_dumps (snd p)) kvs)"
    using assms(1) by force
  ultimately show ?thesis using py_in_append [OF in_join, of _ _ s "''{''" "''}''"] by simp
qed

end
