(* ===== verification/Agent_Secrets.thy ===== *)
theory Agent_Secrets
  imports Agent_Theorems Python_Json
begin

text \<open>
  What a turn lets out: the text values of the messages for the model, the logged and retained payloads and the text values in
  the arguments of the events of the stream hold no catalogued secret. The keys of JSON objects are not redacted, and the
  identifier and the name of a tool call, which the model chooses, go into the stream as they are
  (\<open>announced_name_unredacted\<close>). The requests are serialized by \<open>json.dumps\<close>, where a secret shows only if none of its
  characters is escaped.
\<close>

lemma dumps_shows:
  assumes "json_plain s" and "t \<in> set (json_texts j)" and "py_in s t"
  shows "py_in s (json_dumps j)"
  using assms(2)
proof (induction j)
  case (JStr u)
  with assms plain_in_quote show ?case by simp
next
  case (JList xs)
  then show ?case using in_json_list by fastforce
next
  case (JObj kvs)
  then obtain k x where x: "(k, x) \<in> set kvs" "t \<in> set (json_texts x)" by auto
  with JObj.IH [of "(k, x)" x] have "py_in s (json_dumps x)" by simp
  from in_json_obj [OF x(1) this] show ?case .
qed simp_all

definition texts_free :: "SecretCatalog \<Rightarrow> json \<Rightarrow> bool" where
  "texts_free c j \<longleftrightarrow> list_all (secret_free c) (json_texts j)"

definition option_free :: "SecretCatalog \<Rightarrow> string option \<Rightarrow> bool" where
  "option_free c t \<longleftrightarrow> (case t of None \<Rightarrow> True | Some s \<Rightarrow> secret_free c s)"

definition usage_free :: "SecretCatalog \<Rightarrow> usage_entry \<Rightarrow> bool" where
  "usage_free c u \<longleftrightarrow> option_free c (ue_request_messages u) \<and> option_free c (ue_response_message u) \<and> option_free c (ue_tools u)"

definition arguments_free :: "SecretCatalog \<Rightarrow> (string \<times> json) list \<Rightarrow> bool" where
  "arguments_free c ev \<longleftrightarrow> (case map_of ev ''arguments'' of None \<Rightarrow> True | Some a \<Rightarrow> texts_free c a)"

definition outputs_safe :: "SecretCatalog \<Rightarrow> ('f, 'w) agent_sys \<Rightarrow> bool" where
  "outputs_safe c y \<longleftrightarrow> list_all (\<lambda>p. list_all (texts_free c) (fst p)) (sy_chats y) \<and> list_all (secret_free c) (sy_payload_log y) \<and>
     list_all (usage_free c) (sy_usage y) \<and> list_all (arguments_free c) (sy_stream y)"

text \<open>The redaction is on, no secret can hide in the placeholder or in an escape, and no plugin adds context of its own.\<close>

definition guarded_env :: "('f, 'w) agent_env \<Rightarrow> bool" where
  "guarded_env env \<longleftrightarrow> clean (ifs_secrets (ae_flow env)) \<and> if_redact_secrets (ifs_config (ae_flow env)) \<and>
     list_all json_plain (sc_secret_values (ifs_secrets (ae_flow env))) \<and> te_dumps (ae_tool env) = json_dumps \<and>
     (\<forall>st msgs. ae_pre_llm_context env st msgs = None)"

lemma redact_texts_free:
  assumes "clean (ifs_secrets f)" and "if_redact_secrets (ifs_config f)"
  shows "texts_free (ifs_secrets f) (if_redact_structured f j)"
  using redact_structured_texts [OF assms(1)] assms(2) by (simp add: texts_free_def if_redact_structured_def list_all_iff)

lemma redact_messages_free:
  assumes "clean (ifs_secrets f)" and "if_redact_secrets (ifs_config f)"
  shows "list_all (texts_free (ifs_secrets f)) (redact_messages f msgs)"
  using redact_structured_texts [OF assms(1)] assms(2)
  by (auto simp: redact_messages_def if_redact_structured_def list_all_iff texts_free_def)

lemma unredacted_messages_free:
  assumes "guarded_env env"
    and "rl_allowed (if_release (ae_flow env) (json_dumps (JList msgs)) LLM_PROVIDER INTERNAL ''llm_request'' [])"
    and "rd_transform (rl_decision (if_release (ae_flow env) (json_dumps (JList msgs)) LLM_PROVIDER INTERNAL ''llm_request'' [])) \<noteq> Some ''redaction''"
  shows "list_all (texts_free (ifs_secrets (ae_flow env))) msgs"
proof -
  let ?c = "ifs_secrets (ae_flow env)"
  have free: "secret_free ?c (json_dumps (JList msgs))"
    using assms by (auto simp: if_release_def Let_def evaluate_release_def release_decision_def secret_free_def guarded_env_def split: if_splits)
  have "secret_free ?c t" if "m \<in> set msgs" "t \<in> set (json_texts m)" for m t
    unfolding secret_free_iff
  proof (intro ballI impI notI)
    fix s
    assume s: "s \<in> set (sc_secret_values ?c)" "s \<noteq> []" "py_in s t"
    from s(1) assms(1) have "json_plain s" by (simp add: guarded_env_def list_all_iff)
    from dumps_shows [OF this _ s(3), of "JList msgs"] that have "py_in s (json_dumps (JList msgs))" by auto
    with free s show False unfolding secret_free_iff by blast
  qed
  then show ?thesis by (simp add: list_all_iff texts_free_def)
qed

lemma released_free: "clean (ifs_secrets f) \<Longrightarrow> option_free (ifs_secrets f) (released (if_release f content target cls origin labels))"
  using if_release_safe [of f content target cls origin labels] by (auto simp: option_free_def released_def split: option.splits)

lemma released_SomeD: "clean (ifs_secrets f) \<Longrightarrow> released (if_release f content target cls origin labels) = Some t \<Longrightarrow> secret_free (ifs_secrets f) t"
  using released_free [of f content target cls origin labels] by (simp add: option_free_def)

section \<open>The nodes\<close>

definition outputs :: "('f, 'w) agent_sys \<Rightarrow> _" where
  "outputs y = (sy_chats y, sy_payload_log y, sy_usage y, sy_stream y)"

lemma outputs_safe_cong: "outputs y' = outputs y \<Longrightarrow> outputs_safe c y' = outputs_safe c y"
  by (simp add: outputs_def outputs_safe_def)

lemma outputs_frame [simp]:
  "outputs (tick y) = outputs y" "outputs (upd f y) = outputs y" "outputs (remember m y) = outputs y" "outputs (with_budget g y) = outputs y"
  "outputs (y\<lparr>sy_tools := s\<rparr>) = outputs y" "outputs (y\<lparr>sy_next_object := k\<rparr>) = outputs y" "outputs (y\<lparr>sy_state := st\<rparr>) = outputs y"
  "outputs (persist_artifact_card env r y) = outputs y" "outputs (release_llm_call d y) = outputs y" "outputs (settle_llm_call u d y) = outputs y"
  "outputs (fst (reserve_llm_call now tokens y)) = outputs y" "outputs (fail_llm e y) = outputs y" "outputs (deny_selection e y) = outputs y"
  by (simp_all add: outputs_def tick_def upd_def remember_def with_budget_def persist_artifact_card_def release_llm_call_def settle_llm_call_def
      reserve_llm_call_def fail_llm_def deny_selection_def split_beta Let_def split: option.split json.split)

lemma safe_frame [simp]:
  "outputs_safe c (tick y) = outputs_safe c y" "outputs_safe c (upd f y) = outputs_safe c y" "outputs_safe c (remember m y) = outputs_safe c y"
  "outputs_safe c (persist_artifact_card env r y) = outputs_safe c y"
  by (simp_all add: outputs_safe_def tick_def upd_def remember_def persist_artifact_card_def split: option.split json.split)

lemma run_tool_outputs [simp]: "outputs (fst (run_tool env rq ctx ev y)) = outputs y"
  by (simp add: run_tool_def split_beta)

lemma approval_outputs [simp]:
  "outputs (fst (request_tool_approval env rq ctx ev y)) = outputs y"
  "outputs (fst (request_browser_host_grant_approval env rq ctx signal y)) = outputs y"
  by (simp_all add: request_tool_approval_def request_browser_host_grant_approval_def Let_def split_beta split: option.split sum.split)

lemma dispatch_outputs [simp]: "outputs (fst (dispatch_request env rq y)) = outputs y"
proof -
  have frame: "outputs y2 = outputs y1" if "run_tool env rq ctx ev y1 = (y2, r)" for y1 y2 ctx ev r
    using run_tool_outputs [of env rq ctx ev y1] that by simp
  show ?thesis by (auto simp: dispatch_request_def Let_def dest: frame split: prod.split sum.split)
qed

lemma answer_outputs: "answer_call env p y = (y1, a) \<Longrightarrow> outputs y1 = outputs y"
  by (cases "pa_arguments p") (auto simp: answer_call_def dest: arg_cong [where f = "\<lambda>p. outputs (fst p)"])

lemma emit_safe:
  assumes "guarded_env env" and "outputs_safe (ifs_secrets (ae_flow env)) y"
  shows "outputs_safe (ifs_secrets (ae_flow env)) (emit_stream_tool_event env ev y)"
proof -
  let ?f = "\<lambda>p. if fst p = ''arguments'' then (fst p, if_redact_structured (ae_flow env) (snd p)) else p"
  have "map_of (map ?f ev) ''arguments'' = map_option (if_redact_structured (ae_flow env)) (map_of ev ''arguments'')"
    by (induction ev) auto
  then have "arguments_free (ifs_secrets (ae_flow env)) (map ?f ev)"
    using redact_texts_free [of "ae_flow env"] assms(1) by (auto simp: arguments_free_def guarded_env_def split: option.split)
  with assms(2) show ?thesis by (simp add: emit_stream_tool_event_def Let_def outputs_safe_def upd_def)
qed

text \<open>The identifier and the name of a call reach the stream unredacted, whatever the redaction does.\<close>

lemma announced_name_unredacted:
  assumes "ae_sink env"
  shows "map_of (last (sy_stream (announce_call env p y))) ''name'' = Some (JStr (pa_name p)) \<and>
    map_of (last (sy_stream (announce_call env p y))) ''id'' = Some (JStr (pa_id p))"
  using assms by (simp add: announce_call_def emit_stream_tool_event_def tool_call_event_def Let_def)

lemma record_result_safe:
  assumes "guarded_env env" and "outputs_safe (ifs_secrets (ae_flow env)) y"
  shows "outputs_safe (ifs_secrets (ae_flow env)) (record_result env display cid r y)"
  using emit_safe [OF assms] by (simp add: record_result_def Let_def)

lemma execute_call_safe:
  assumes "execute_call env tc y = (y', r)" and "guarded_env env" and "outputs_safe (ifs_secrets (ae_flow env)) y"
  shows "outputs_safe (ifs_secrets (ae_flow env)) y'"
proof -
  have announced: "outputs_safe (ifs_secrets (ae_flow env)) (announce_call env p y)" for p
    unfolding announce_call_def by (rule emit_safe [OF assms(2,3)])
  from assms(1) show ?thesis
  proof (cases rule: execute_call_cases)
    case (1 y1 e)
    with outputs_safe_cong [OF answer_outputs [OF 1(1)]] announced show ?thesis by blast
  next
    case (2 y1 res)
    from outputs_safe_cong [OF answer_outputs [OF 2(1)]] announced have "outputs_safe (ifs_secrets (ae_flow env)) y1" by blast
    from record_result_safe [OF assms(2) this] 2(2) show ?thesis by simp
  qed
qed

lemma execute_calls_safe:
  "execute_calls env tcs y = (y', r) \<Longrightarrow> guarded_env env \<Longrightarrow> outputs_safe (ifs_secrets (ae_flow env)) y \<Longrightarrow>
   outputs_safe (ifs_secrets (ae_flow env)) y'"
proof (induction tcs arbitrary: y)
  case (Cons tc tcs)
  obtain y1 a where a: "execute_call env tc y = (y1, a)" by fastforce
  note first = execute_call_safe [OF a Cons.prems(2,3)]
  from Cons.prems(1) a consider "y' = y1" | "execute_calls env tcs y1 = (y', r)" by (auto split: sum.splits bool.splits)
  then show ?case by cases (use first Cons in auto)
qed simp

lemma execute_tools_safe:
  assumes "guarded_env env" and "outputs_safe (ifs_secrets (ae_flow env)) y"
  shows "outputs_safe (ifs_secrets (ae_flow env)) (fst (execute_tools env y))"
proof -
  let ?y = "upd (\<lambda>st. st\<lparr>as_tool_results := []\<rparr>) (tick y)"
  obtain y1 r where r: "execute_calls env (as_pending_tool_calls (sy_state (tick y))) ?y = (y1, r)" by fastforce
  have "outputs_safe (ifs_secrets (ae_flow env)) ?y" using assms(2) by simp
  from execute_calls_safe [OF r assms(1) this] assms(2) r show ?thesis by (simp add: execute_tools_def Let_def split: sum.split)
qed

section \<open>The model\<close>

lemma accept_result_safe:
  assumes "guarded_env env" and "outputs_safe (ifs_secrets (ae_flow env)) y"
  shows "outputs_safe (ifs_secrets (ae_flow env)) (accept_result env request tools r y)"
proof -
  have clean: "clean (ifs_secrets (ae_flow env))" using assms(1) by (simp add: guarded_env_def)
  have payload: "outputs_safe (ifs_secrets (ae_flow env)) (record_payloads env request response z)"
    if "outputs_safe (ifs_secrets (ae_flow env)) z" for response and z :: "('a, 'b) agent_sys"
    using that by (auto simp: record_payloads_def outputs_safe_def dest: released_SomeD [OF clean] split: option.split)
  have usage: "outputs_safe (ifs_secrets (ae_flow env)) (record_usage env request response ts r z)"
    if "outputs_safe (ifs_secrets (ae_flow env)) z" for response ts and z :: "('a, 'b) agent_sys"
    using that released_free [OF clean]
    by (cases ts) (simp_all add: record_usage_def outputs_safe_def usage_free_def split_beta Let_def option_free_def [of _ None])
  have start: "outputs_safe (ifs_secrets (ae_flow env)) (upd f y)" for f using assms(2) by simp
  show ?thesis unfolding accept_result_def Let_def by (intro usage payload start)
qed

lemma chat_safe:
  assumes "chat_with_provider env msgs request tools model reservation y = (y', r)" and "guarded_env env"
    and "outputs_safe (ifs_secrets (ae_flow env)) y" and "list_all (texts_free (ifs_secrets (ae_flow env))) msgs"
  shows "outputs_safe (ifs_secrets (ae_flow env)) y'"
proof -
  let ?c = "ifs_secrets (ae_flow env)"
  have unhooked: "ae_pre_llm_context env st ms = None" for st ms using assms(2) by (simp add: guarded_env_def)
  obtain w1 a where a: "ae_chat env msgs tools model (ts_world (sy_tools y)) = (w1, a)" by fastforce
  let ?y1 = "y\<lparr>sy_tools := (sy_tools y)\<lparr>ts_world := w1\<rparr>, sy_chats := sy_chats y @ [(msgs, tools, model)]\<rparr>"
  have safe: "outputs_safe ?c ?y1" using assms(3,4) by (simp add: outputs_safe_def)
  have keep: "outputs_safe ?c z" if "outputs z = outputs ?y1" for z :: "('a, 'b) agent_sys" using outputs_safe_cong [OF that] safe by blast
  have accept: "outputs_safe ?c (accept_result env request tools r' z)" if "outputs z = outputs ?y1" for r' and z :: "('a, 'b) agent_sys"
    using accept_result_safe [OF assms(2) keep [OF that]] .
  show ?thesis
    using assms(1) a keep accept unhooked by (auto simp: chat_with_provider_def Let_def split: chat_answer.splits)
qed

lemma select_and_chat_safe:
  assumes "select_and_chat env n msgs request tools y = (y', r)" and "guarded_env env"
    and "outputs_safe (ifs_secrets (ae_flow env)) y" and "list_all (texts_free (ifs_secrets (ae_flow env))) msgs"
  shows "outputs_safe (ifs_secrets (ae_flow env)) y'"
proof -
  obtain y1 res where res: "reserve_llm_call (ae_now env n) (int (length request) div 4) y = (y1, res)" by fastforce
  then have "outputs y1 = outputs y" using outputs_frame(11) [of "ae_now env n" "int (length request) div 4" y] by simp
  then have same: "outputs_safe (ifs_secrets (ae_flow env)) z" if "outputs z = outputs y1 \<or> outputs z = outputs y" for z :: "('a, 'b) agent_sys"
    using that assms(3) outputs_safe_cong by metis
  from assms(1) res consider "outputs y' = outputs y" | "outputs y' = outputs y1"
    | model where "chat_with_provider env msgs request tools model res y1 = (y', r)"
    by (auto simp: select_and_chat_def Let_def split: if_splits)
  then show ?thesis
  proof cases
    case 3
    from chat_safe [OF this assms(2) same assms(4)] show ?thesis by simp
  qed (use same in auto)
qed

lemma call_llm_safe:
  assumes "guarded_env env" and "outputs_safe (ifs_secrets (ae_flow env)) y"
  shows "outputs_safe (ifs_secrets (ae_flow env)) (fst (call_llm env y))"
proof -
  let ?c = "ifs_secrets (ae_flow env)"
  obtain y' r where call: "call_llm env y = (y', r)" by fastforce
  have start: "outputs_safe ?c (tick y)" using assms(2) by simp
  have dumps: "te_dumps (ae_tool env) = json_dumps" using assms(1) by (simp add: guarded_env_def)
  from call have "outputs_safe ?c y'"
  proof (cases rule: call_llm_cases)
    case (redacted msgs tools)
    have "list_all (texts_free ?c) (redact_messages (ae_flow env) msgs)"
      using assms(1) by (intro redact_messages_free) (simp_all add: guarded_env_def)
    from select_and_chat_safe [OF redacted(2) assms(1) start this] show ?thesis .
  next
    case (plain msgs tools)
    from unredacted_messages_free [OF assms(1) plain(3,4) [unfolded dumps]] have "list_all (texts_free ?c) msgs" .
    from select_and_chat_safe [OF plain(2) assms(1) start this] show ?thesis .
  qed (use start in \<open>simp_all add: fail_llm_def\<close>)
  with call show ?thesis by simp
qed

lemma graph_step_safe:
  assumes "guarded_env env" and "outputs_safe (ifs_secrets (ae_flow env)) (turn_sys t)"
  shows "outputs_safe (ifs_secrets (ae_flow env)) (turn_sys (graph_step env t))"
proof (cases t)
  case (At node y)
  let ?c = "ifs_secrets (ae_flow env)"
  have llm: "turn_sys (after_llm env z) = tick z" "turn_sys (after_memory env z) = tick z" for z
    by (simp_all add: after_llm_def after_memory_def Let_def)
  have route: "outputs_safe ?c (turn_sys (routed f p)) = outputs_safe ?c (fst p)"
    if "\<And>z. turn_sys (f z) = z \<or> turn_sys (f z) = tick z" for f and p :: "('a, 'b) agent_sys \<times> agent_raise option"
    using that [of "fst p"] by (auto simp: routed_def split: option.split)
  from At assms(2) have y: "outputs_safe ?c y" by simp
  have same: "outputs_safe ?c z" if "outputs z = outputs y" for z :: "('a, 'b) agent_sys" using outputs_safe_cong [OF that] y by blast
  show ?thesis
  proof (cases node)
    case Prepare_Context
    have "outputs (fst (prepare_context env y)) = outputs y" by (simp add: prepare_context_def split: sum.split)
    with At Prepare_Context same show ?thesis by (simp add: route)
  next
    case Call_Llm
    with At call_llm_safe [OF assms(1) y] show ?thesis by (simp add: route llm)
  next
    case Execute_Tools
    with At execute_tools_safe [OF assms(1) y] show ?thesis by (simp add: route)
  next
    case Update_Memory
    have "outputs (fst (update_memory env y)) = outputs y" by (simp add: update_memory_def Let_def outputs_def tick_def upd_def)
    with At Update_Memory same show ?thesis by (simp add: route llm)
  next
    case Finalize
    have "outputs (fst (finalize env y)) = outputs y" by (simp add: finalize_def Let_def outputs_def with_budget_def tick_def)
    with At Finalize same show ?thesis by (simp add: route)
  qed
qed (use assms in simp_all)

lemma turn_outputs_safe:
  "guarded_env env \<Longrightarrow> outputs_safe (ifs_secrets (ae_flow env)) (turn_sys t) \<Longrightarrow>
   outputs_safe (ifs_secrets (ae_flow env)) (turn_sys ((graph_step env ^^ k) t))"
  by (induction k) (simp_all add: graph_step_safe)

end
