(* ===== verification/Agent_Answers.thy ===== *)
theory Agent_Answers
  imports Agent_Theorems
begin

text \<open>
  The tool node answers the tool calls of a message one by one and in order: each gets one result, with the identifier of
  the call, until a result ends the turn.
\<close>

text \<open>An executor answers the call that it is given.\<close>

definition answers_own_call :: "('f, 'w) tool_env \<Rightarrow> bool" where
  "answers_own_call env \<longleftrightarrow> (\<forall>rq ctx w r. snd (te_execute env rq ctx w) = Answered r \<longrightarrow> tr_tool_call_id r = tq_id rq)"

lemma sanitized_result_id: "sanitized_result env flow w res = Inr r \<Longrightarrow> tr_tool_call_id r = tr_tool_call_id res"
  by (auto simp: sanitized_result_def Let_def split: option.splits if_splits)

lemma call_executor_id:
  assumes "call_executor env d rq w ctx s = (s', Answered r)" and "answers_own_call env"
  shows "tr_tool_call_id r = tq_id w"
  using assms unfolding answers_own_call_def call_executor_def by (auto simp: Let_def split: prod.splits if_splits) (metis snd_conv)+

lemma denied_result_id [simp]: "tr_tool_call_id (denied_result rq reason) = tq_id rq"
  by (simp add: denied_result_def tool_result_def)

lemma run_allowed_id:
  assumes "run_allowed env rq ctx d s = (s', Inr r)" and "answers_own_call env"
  shows "tr_tool_call_id r = tq_id rq"
proof -
  have reserved: "tr_tool_call_id r = tq_id rq" if "run_reserved env d rq ctx res s1 = (s', Inr r)" for res s1
  proof (cases "sanitized_request env (ts_information_flow_service s1) rq")
    case (Some w)
    then have "tq_id w = tq_id rq" using sanitized_request_same by (metis ToolCallRequest.select_convs(2) ToolCallRequest.surjective ToolCallRequest.update_convs(4))
    with that Some show ?thesis
      by (auto simp: run_reserved_def Let_def split: if_splits prod.splits exec_answer.splits
          dest!: sanitized_result_id call_executor_id [OF _ assms(2)])
  qed (use that in \<open>auto simp: run_reserved_def Let_def\<close>)
  show ?thesis using assms(1) reserved by (auto simp: run_allowed_def Let_def split: if_splits prod.splits)
qed

lemma tool_execute_id:
  assumes "tool_execute env rq ctx ev s = (s', Inr r)" and "answers_own_call env"
  shows "tr_tool_call_id r = tq_id rq"
  using assms(1) run_allowed_id [OF _ assms(2)]
  by (auto simp: tool_execute_def tool_result_def split: if_splits option.splits sum.splits)

lemma run_tool_id:
  assumes "run_tool env rq ctx ev y = (y', Inr r)" and "answers_own_call (ae_tool env)"
  shows "tr_tool_call_id r = tq_id rq"
proof -
  have "answers_own_call (tool_env_now env y)" using assms(2) by (simp add: answers_own_call_def tool_env_now_def)
  with assms(1) tool_execute_id show ?thesis by (auto simp: run_tool_def split: prod.splits)
qed

lemma approval_id:
  assumes "request_tool_approval env rq ctx ev y = (y', Inr r)" and "answers_own_call (ae_tool env)"
  shows "tr_tool_call_id r = tq_id rq"
  using assms(1) run_tool_id [OF _ assms(2)]
  by (auto simp: request_tool_approval_def Let_def permission_denied_result_def split: option.splits sum.splits if_splits)

lemma host_grant_id:
  assumes "request_browser_host_grant_approval env rq ctx signal y = (y', Inr r)" and "answers_own_call (ae_tool env)"
  shows "tr_tool_call_id r = tq_id rq"
  using assms(1) run_tool_id [OF _ assms(2)]
  by (auto simp: request_browser_host_grant_approval_def Let_def permission_denied_result_def split: option.splits sum.splits if_splits prod.splits)

lemma dispatch_id:
  assumes "dispatch_request env rq y = (y', Inr r)" and "answers_own_call (ae_tool env)"
  shows "tr_tool_call_id r = tq_id rq"
proof -
  obtain s1 e where e: "service_evaluate_execution rq (ae_tool_context env) (sy_tools y) = (s1, e)" by fastforce
  show ?thesis
  proof (cases e)
    case (Inl a)
    with assms(1) e show ?thesis by (auto simp: dispatch_request_def Let_def tool_result_def)
  next
    case (Inr ev)
    obtain y2 a where a: "run_tool env rq (ae_tool_context env) (Some ev) (y\<lparr>sy_tools := s1\<rparr>) = (y2, a)" by fastforce
    from assms(1) e Inr a show ?thesis
      using run_tool_id [OF _ assms(2)] approval_id [OF _ assms(2)] host_grant_id [OF _ assms(2)]
      by (auto simp: dispatch_request_def Let_def permission_denied_result_def split: if_splits sum.splits)
  qed
qed

lemma answer_call_id:
  assumes "answer_call env p y = (y', Inr r)" and "answers_own_call (ae_tool env)"
  shows "tr_tool_call_id r = pa_id p"
  using assms(1) dispatch_id [OF _ assms(2)] by (auto simp: answer_call_def tool_result_def split: option.splits)

text \<open>
  The results that a list of calls has led to, up to a result that ends the turn, to an exception (\<open>Inl\<close>), or to the end of
  the list. The call that raises has no result.
\<close>

definition answers ::
  "('f, 'w) agent_env \<Rightarrow> json list \<Rightarrow> ToolResult list \<Rightarrow> tool_raise + bool \<Rightarrow> AgentState \<Rightarrow> AgentState \<Rightarrow> bool" where
  "answers env tcs rs ended st st' \<longleftrightarrow>
     as_tool_results st' = as_tool_results st @ map (result_payload env) rs \<and>
     as_working_messages st' = as_working_messages st @ map (tool_message env) rs \<and>
     map tr_tool_call_id rs = map (\<lambda>tc. pa_id (parse_tool_call env tc)) (take (length rs) tcs) \<and> length rs \<le> length tcs \<and>
     (case ended of
        Inl e \<Rightarrow> length rs < length tcs \<and> list_all (\<lambda>r. \<not> tr_terminal r) rs
      | Inr True \<Rightarrow> rs \<noteq> [] \<and> tr_terminal (last rs) \<and> list_all (\<lambda>r. \<not> tr_terminal r) (butlast rs)
      | Inr False \<Rightarrow> length rs = length tcs \<and> list_all (\<lambda>r. \<not> tr_terminal r) rs)"

definition messages_of :: "('f, 'w) agent_sys \<Rightarrow> json list \<times> json list" where
  "messages_of y = (as_tool_results (sy_state y), as_working_messages (sy_state y))"

lemma answer_call_messages: "answer_call env p y = (y1, a) \<Longrightarrow> messages_of y1 = messages_of y"
  by (cases "pa_arguments p") (auto simp: answer_call_def messages_of_def dest: arg_cong [where f = "\<lambda>p. sy_state (fst p)"])

lemma record_result_messages:
  "messages_of (record_result env display cid r y) =
     (as_tool_results (sy_state y) @ [result_payload env r], as_working_messages (sy_state y) @ [tool_message env r])"
  by (simp add: record_result_def Let_def messages_of_def)

lemma execute_call_answers:
  assumes "execute_call env tc y = (y', Inr t)" and "answers_own_call (ae_tool env)"
  obtains r where "messages_of y' = (as_tool_results (sy_state y) @ [result_payload env r], as_working_messages (sy_state y) @ [tool_message env r])"
    "tr_tool_call_id r = pa_id (parse_tool_call env tc)" "t = tr_terminal r"
  using assms(1)
proof (cases rule: execute_call_cases)
  case (2 y1 res)
  from answer_call_messages [OF 2(1)] have "messages_of y1 = messages_of y" by (simp add: messages_of_def announce_call_def)
  with that [of res] 2 answer_call_id [OF 2(1) assms(2)] show ?thesis by (simp add: record_result_messages) (simp add: messages_of_def)
qed simp

lemma answer_call_state: "answer_call env p y = (y1, a) \<Longrightarrow> sy_state y1 = sy_state y"
  by (cases "pa_arguments p") (auto simp: answer_call_def dest: arg_cong [where f = "\<lambda>p. sy_state (fst p)"])

lemma execute_call_pending:
  assumes "execute_call env tc y = (y', r)"
  shows "as_pending_tool_calls (sy_state y') = as_pending_tool_calls (sy_state y)"
  using assms by (cases rule: execute_call_cases) (auto simp: record_result_def announce_call_def Let_def dest!: answer_call_state)

lemma execute_calls_pending:
  "execute_calls env tcs y = (y', r) \<Longrightarrow> as_pending_tool_calls (sy_state y') = as_pending_tool_calls (sy_state y)"
proof (induction tcs arbitrary: y)
  case (Cons tc tcs)
  obtain y1 a where a: "execute_call env tc y = (y1, a)" by fastforce
  from Cons.prems a consider "y' = y1" | "execute_calls env tcs y1 = (y', r)" by (auto split: sum.splits bool.splits)
  then show ?case by cases (use Cons.IH execute_call_pending [OF a] in auto)
qed simp

lemma execute_call_raises: "execute_call env tc y = (y', Inl e) \<Longrightarrow> messages_of y' = messages_of y"
  using answer_call_messages by (fastforce simp: execute_call_def Let_def announce_call_def messages_of_def split: prod.splits sum.splits)

lemma execute_calls_answers:
  assumes "answers_own_call (ae_tool env)"
  shows "execute_calls env tcs y = (y', t) \<Longrightarrow> \<exists>rs. answers env tcs rs t (sy_state y) (sy_state y')"
proof (induction tcs arbitrary: y)
  case Nil
  then show ?case by (intro exI [of _ "[]"]) (auto simp: answers_def)
next
  case (Cons tc tcs)
  obtain y1 b where b: "execute_call env tc y = (y1, b)" by fastforce
  show ?case
  proof (cases b)
    case (Inl e)
    with Cons.prems b have "y' = y1" "t = Inl e" by auto
    with execute_call_raises [OF b [unfolded Inl]] show ?thesis by (intro exI [of _ "[]"]) (simp add: answers_def messages_of_def)
  next
    case (Inr u)
    from execute_call_answers [OF b [unfolded Inr] assms] obtain r where r:
      "messages_of y1 = (as_tool_results (sy_state y) @ [result_payload env r], as_working_messages (sy_state y) @ [tool_message env r])"
      "tr_tool_call_id r = pa_id (parse_tool_call env tc)" "u = tr_terminal r" by blast
    show ?thesis
    proof (cases u)
      case True
      with Cons.prems b Inr have "y' = y1" "t = Inr True" by auto
      with r True show ?thesis by (intro exI [of _ "[r]"]) (simp add: answers_def messages_of_def)
    next
      case False
      with Cons.prems b Inr have "execute_calls env tcs y1 = (y', t)" by simp
      from Cons.IH [OF this] obtain rs where "answers env tcs rs t (sy_state y1) (sy_state y')" by blast
      with r False show ?thesis
        by (intro exI [of _ "r # rs"]) (auto simp: answers_def messages_of_def split: sum.splits bool.splits)
    qed
  qed
qed

end
