(* ===== verification/Agent_Properties.thy ===== *)
theory Agent_Properties
  imports Agent_Outcome Agent_Authority Agent_Secrets Agent_Answers
begin

text \<open>
  The properties of the tools and of the agent's turn, with a small agent on which they are witnessed.
\<close>

section \<open>A small agent\<close>

definition sample_clock :: ToolDefinition where
  "sample_clock =
     \<lparr>td_object = 1, td_name = ''clock'', td_description = ''the time'', td_input_schema = JObj [(''type'', JStr ''object'')],
      td_risk_level = SAFE, td_permissions = [], td_timeout_seconds = 5, td_enabled = True, td_source_type = BUILTIN,
      td_toolset = ''core'', td_managed = False, td_realtime_only = False\<rparr>"

definition sample_limits :: "int BudgetConfig" where
  "sample_limits =
     \<lparr>bc_max_wall_seconds = 100, bc_max_llm_calls = 5, bc_max_tool_calls = 1, bc_max_token_cost = None, bc_max_usd_cost = None,
      bc_max_sandbox_seconds = None, bc_max_sandbox_cpu_seconds = None, bc_max_sandbox_memory_mb_seconds = None,
      bc_max_sandbox_callback_calls = None\<rparr>"

definition sample_tools :: "(int, nat) ToolService" where
  "sample_tools =
     \<lparr>ts_definitions = [(''clock'', sample_clock)], ts_dynamic_definitions = [], ts_suppressed_static_names = [],
      ts_evaluated_executions = [], ts_next_token = 0, ts_budget_service = None, ts_information_flow_service = None,
      ts_audit = None, ts_world = 0, ts_calls = []\<rparr>"

definition sample_tool_env :: "(int, nat) tool_env" where
  "sample_tool_env =
     \<lparr>te_execute = (\<lambda>rq ctx w. (Suc w, Answered (tool_result (tq_id rq) (tq_name rq) SUCCESS (JStr ''noon'')))),
      te_dumps = json_dumps, te_loads = (\<lambda>s. if s = ''{}'' then Some (JObj []) else None), te_urlsplit = (\<lambda>_. None),
      te_owned = True, te_still_owned = True, te_now = 0\<rparr>"


definition sample_reply :: "(string \<times> json) list \<Rightarrow> chat_answer" where
  "sample_reply m = Chat_Result \<lparr>lr_message = m, lr_finish_reason = Some ''stop'', lr_has_usage = False, lr_total_tokens = None\<rparr>"


definition sample_agent :: "int \<Rightarrow> (nat \<Rightarrow> chat_answer) \<Rightarrow> (int, nat) agent_env" where
  "sample_agent limit model =
     \<lparr>ae_tool = sample_tool_env, ae_flow = demo_flow, ae_owned = (\<lambda>_. True), ae_cancelled = (\<lambda>_. False), ae_elapsed = (\<lambda>_. 0),
      ae_now = (\<lambda>_. 0), ae_meanwhile = (\<lambda>_. []), ae_model = ''m'', ae_iteration_limit = limit, ae_turn_timeout = 100,
      ae_max_iterations = None, ae_snapshot = None, ae_fallback_enabled = False, ae_tool_context = None,
      ae_prepare = (\<lambda>st. Inr (st\<lparr>as_working_messages := as_input_messages st\<rparr>)),
      ae_provider_context = (\<lambda>st. Inr (as_input_messages st, [])), ae_provider_config = None, ae_default_model = ''m'',
      ae_vision_capability = None, ae_pre_llm_context = (\<lambda>_ _. None), ae_chat = (\<lambda>_ _ _ w. (w, model w)),
      ae_external_memory = False, ae_scrub = (\<lambda>s. s), ae_usage_service = False, ae_transform_result = (\<lambda>_. None),
      ae_transform_output = (\<lambda>_. None), ae_sink = True, ae_urlunsplit = (\<lambda>_ _ _. []), ae_browser_dashboard = False,
      ae_grant_host = (\<lambda>_ _ _ w. (w, None)), ae_limit_message = (\<lambda>_. ''too many steps'')\<rparr>"

definition sample_state :: AgentState where
  "sample_state =
     \<lparr>as_session_id = ''s1'', as_run_id = ''r1'',
      as_input_messages = [JObj [(''role'', JStr ''user''), (''content'', JStr ''time? key sk-live-0123'')]], as_working_messages = [],
      as_pending_tool_calls = [], as_assistant_tool_messages = [], as_tool_results = [], as_run_status = RUNNING,
      as_iteration_count = 0, as_error = None, as_final_message = None, as_finish_reason = None, as_stream_tool_events = [],
      as_token_need = None, as_budget_exhausted = False, as_persist_messages = True, as_message_source = None\<rparr>"

definition sample_sys :: "(int, nat) agent_sys" where
  "sample_sys =
     \<lparr>sy_state = sample_state, sy_tools = sample_tools, sy_clock = 0, sy_next_object = 0, sy_memory = [], sy_stream = [],
      sy_payload_log = [], sy_usage = [], sy_chats = [], sy_end_reason = None\<rparr>"


lemma sample_simps [simp]:
  "ae_owned (sample_agent limit model) n" "\<not> ae_cancelled (sample_agent limit model) n" "ae_elapsed (sample_agent limit model) n = 0"
  "ae_turn_timeout (sample_agent limit model) = 100" "ae_snapshot (sample_agent limit model) = None"
  "run_iteration_limit (sample_agent limit model) = limit" "turn_limit (sample_agent limit model) = limit"
  "ae_tool (sample_agent limit model) = sample_tool_env"
  by (simp_all add: sample_agent_def run_iteration_limit_def turn_limit_def)

lemma sample_untroubled [simp]: "untroubled (sample_agent limit model)" "steady (sample_agent limit model)"
  by (simp_all add: untroubled_def out_of_time_def steady_def)

text \<open>A model that asks for a tool with arguments that are no JSON, again and again.\<close>

definition sample_garbled :: json where
  "sample_garbled = JObj [(''function'', JObj [(''arguments'', JStr ''?'')])]"


definition asking :: "(int, nat) agent_sys \<Rightarrow> bool" where
  "asking y \<longleftrightarrow> running y \<and> ts_budget_service (sy_tools y) = None \<and> set (as_pending_tool_calls (sy_state y)) \<subseteq> {sample_garbled}"








lemma asking_tick [simp]: "asking (tick y) = asking y"
  by (simp add: asking_def running_def)



section \<open>Authority\<close>

text \<open>
  C1: Whatever the model asks for, and whatever plugins and servers do to the tools while a decider is being asked: every call that
  reaches the executor in a turn is of an enabled tool, and it is authorized by the context of the run, or the decider of that
  context was shown this very call (its identifier, its tool and the displayed form of its arguments) and allowed it; the executor
  gets the request that was checked, but for its redacted arguments.
\<close>

theorem tool_calls_sanctioned:
  "\<exists>new. ts_calls (sy_tools (fst (run_turn env y))) = ts_calls (sy_tools y) @ new \<and> list_all (sanctioned env) new"
proof -
  let ?t = "(graph_step env ^^ recursion_limit env) (turn_start env y)"
  obtain f where "fst (run_turn env y) = with_budget f (turn_sys ?t)" by (rule run_turn_sys)
  then have "ts_calls (sy_tools (fst (run_turn env y))) = ts_calls (sy_tools (turn_sys ?t))" by simp
  with turn_calls_ok [of env "turn_start env y" "recursion_limit env"] show ?thesis by (simp add: calls_ok_def turn_start_def)
qed

text \<open>
  C5: An evaluation binds the definition that was evaluated. Between the evaluation, the approval and the execution the dynamic tools
  may be replaced any number of times: a call that still reaches the executor does so under the definition object that was
  evaluated, which is also the one that is in force, and with the rights of the context of the execution; when the name stands
  for another object by then, nothing is executed and the result says so.
\<close>

theorem approval_binds_definition:
  assumes "service_evaluate_execution rq ctx s0 = (s1, Inr ev)" and "s2 = replaced_meanwhile changes s1"
    and "tool_execute env rq ctx' (Some ev) s2 = (s3, r)"
  shows "\<exists>d. get_definition (tq_name rq) s0 = Some d \<and> tev_decision ev = evaluate_execution d rq ctx \<and>
    (ts_calls s3 = ts_calls s2 \<or>
     (\<exists>w k. ts_calls s3 = ts_calls s2 @ replicate k (d, rq, w)) \<and> authorized d rq ctx' \<and>
       map_option td_object (get_definition (tq_name rq) s2) = Some (td_object d)) \<and>
    (map_option td_object (get_definition (tq_name rq) s2) \<noteq> Some (td_object d) \<longrightarrow> te_owned env \<longrightarrow>
       s3 = s2 \<and> r = Inr (denied_result rq ''tool_definition_changed''))"
proof -
  have kept: "ts_evaluated_executions s2 = ts_evaluated_executions s1"
    unfolding assms(2) replaced_meanwhile_def by (induction changes arbitrary: s1) auto
  from assms(1) obtain d where d: "get_definition (tq_name rq) s0 = Some d" "tev_decision ev = evaluate_execution d rq ctx"
      "map_of (ts_evaluated_executions s1) (tev_token ev) = Some \<lparr>ee_definition = d, ee_request = rq\<rparr>"
    by (auto simp: service_evaluate_execution_def Let_def split: option.splits)
  have bound: "map_option td_object (get_definition (tq_name rq) s2) = Some (td_object d) \<and> e = d"
    if "definition_for_evaluation rq ev s2 = Inr e" for e
    using that d(3) kept by (simp add: definition_for_evaluation_def split: if_splits)
  have changed: "definition_for_evaluation rq ev s2 = Inl ToolDefinitionChangedError"
    if "map_option td_object (get_definition (tq_name rq) s2) \<noteq> Some (td_object d)"
    using that d(3) kept by (simp add: definition_for_evaluation_def)
  from tool_execute_calls [OF assms(3)] have "ts_calls s3 = ts_calls s2 \<or>
     (\<exists>w k. ts_calls s3 = ts_calls s2 @ replicate k (d, rq, w)) \<and> authorized d rq ctx' \<and>
       map_option td_object (get_definition (tq_name rq) s2) = Some (td_object d)"
    by (auto simp: in_force_def reached_def dest!: bound)
  moreover have "map_option td_object (get_definition (tq_name rq) s2) \<noteq> Some (td_object d) \<Longrightarrow> te_owned env \<Longrightarrow>
       s3 = s2 \<and> r = Inr (denied_result rq ''tool_definition_changed'')"
    using assms(3) changed by (simp add: tool_execute_def)
  ultimately show ?thesis using d(1,2) by blast
qed

definition sample_call :: ToolCallRequest where
  "sample_call = \<lparr>tq_object = 7, tq_id = ''c1'', tq_name = ''clock'', tq_arguments = []\<rparr>"

definition sample_evaluated :: "(int, nat) ToolService \<times> (tool_error + ToolExecutionEvaluation)" where
  "sample_evaluated = service_evaluate_execution sample_call None sample_tools"

definition sample_swap :: "(string \<times> ToolDefinition list \<times> string list) list" where
  "sample_swap = [(''plugin'', [sample_clock\<lparr>td_object := 9\<rparr>], [''clock''])]"

theorem approval_binds_definition_witness:
  "\<exists>ev. sample_evaluated = (fst sample_evaluated, Inr ev) \<and>
     snd (tool_execute sample_tool_env sample_call None (Some ev) (replaced_meanwhile sample_swap (fst sample_evaluated))) =
       Inr (denied_result sample_call ''tool_definition_changed'')"
proof -
  obtain ev where ev: "sample_evaluated = (fst sample_evaluated, Inr ev)"
    by (auto simp: sample_evaluated_def service_evaluate_execution_def sample_tools_def get_definition_def is_suppressed_static_def sample_call_def Let_def)
  have swapped: "map_option td_object (get_definition ''clock'' (replaced_meanwhile sample_swap (fst sample_evaluated))) = Some 9"
    "map_option td_object (get_definition ''clock'' sample_tools) = Some 1" by code_simp+
  let ?e = "tool_execute sample_tool_env sample_call None (Some ev) (replaced_meanwhile sample_swap (fst sample_evaluated))"
  from approval_binds_definition [OF ev [unfolded sample_evaluated_def] refl, of sample_tool_env None sample_swap "fst ?e" "snd ?e"]
  have "snd ?e = Inr (denied_result sample_call ''tool_definition_changed'')"
    using swapped by (auto simp: sample_evaluated_def sample_call_def sample_tool_env_def)
  with ev show ?thesis by blast
qed

section \<open>Names and budgets\<close>

lemma named_meanwhile: "named s \<Longrightarrow> named (replaced_meanwhile changes s)"
  unfolding replaced_meanwhile_def by (induction changes arbitrary: s) (auto simp: named_replace)

lemma meanwhile_unsuppressed:
  "list_all (\<lambda>(k, ds, override). n \<notin> set override) changes \<Longrightarrow> \<not> is_suppressed_static n s \<Longrightarrow>
   \<not> is_suppressed_static n (replaced_meanwhile changes s)"
proof (induction changes arbitrary: s)
  case (Cons c changes)
  obtain k ds override where c: "c = (k, ds, override)" by (cases c)
  with Cons.prems have "\<not> is_suppressed_static n (fst (replace_dynamic_definitions k ds override s))" by (intro replace_suppresses) simp_all
  with Cons c show ?case by (simp add: replaced_meanwhile_def)
qed (simp add: replaced_meanwhile_def)

lemma meanwhile_static: "ts_definitions (replaced_meanwhile changes s) = ts_definitions s"
  unfolding replaced_meanwhile_def by (induction changes arbitrary: s) (auto simp: replace_static)

text \<open>
  C38: What the model is shown is what is executed: in every service that is built from static definitions and any sequence of
  replacements by dynamic sources, a name stands for the first definition of that name in the list of all definitions; and a
  static tool that no source names as an override keeps its name, whatever the sources define.
\<close>

theorem tool_names_resolve:
  assumes "ToolService_init ds budget flow audit w = Inr s0" and "s = replaced_meanwhile changes s0"
  shows "get_definition n s = find (\<lambda>d. td_name d = n) (list_definitions s) \<and>
    (\<forall>d. map_of (ts_definitions s0) n = Some d \<and> list_all (\<lambda>(k, ds, override). n \<notin> set override) changes \<longrightarrow> get_definition n s = Some d)"
proof -
  have "named s" unfolding assms(2) by (intro named_meanwhile named_init [OF assms(1)])
  from get_definition_first [OF this] have "get_definition n s = find (\<lambda>d. td_name d = n) (list_definitions s)" .
  moreover have "get_definition n s = Some d"
    if "map_of (ts_definitions s0) n = Some d" "list_all (\<lambda>(k, ds, override). n \<notin> set override) changes" for d
  proof -
    have "\<not> is_suppressed_static n s0"
      using assms(1) by (auto simp: ToolService_init_def is_suppressed_static_def split: sum.splits)
    from meanwhile_unsuppressed [OF that(2) this] that(1) show ?thesis by (simp add: get_definition_def assms(2) meanwhile_static)
  qed
  ultimately show ?thesis by blast
qed

definition sample_init :: "(int, nat) ToolService" where
  "sample_init = (case ToolService_init [sample_clock] None None None 0 of Inr s \<Rightarrow> s | Inl _ \<Rightarrow> sample_tools)"

definition sample_intruder :: "(string \<times> ToolDefinition list \<times> string list) list" where
  "sample_intruder = [(''plugin'', [sample_clock\<lparr>td_object := 9\<rparr>], [])]"

theorem tool_names_resolve_witness:
  "ToolService_init [sample_clock] None None None 0 = Inr sample_init \<and>
   get_definition ''clock'' (replaced_meanwhile sample_intruder sample_init) = Some sample_clock"
proof -
  have init: "ToolService_init [sample_clock] None None None 0 = Inr sample_init"
    by (simp add: sample_init_def ToolService_init_def validate_definition_def sample_clock_def)
  have "map_of (ts_definitions sample_init) ''clock'' = Some sample_clock"
    by (simp add: sample_init_def ToolService_init_def validate_definition_def sample_clock_def obj_set_def)
  moreover have "list_all (\<lambda>(k, ds, override). ''clock'' \<notin> set override) sample_intruder" by (simp add: sample_intruder_def)
  ultimately show ?thesis using tool_names_resolve [OF init refl, of "''clock''" sample_intruder] init by blast
qed

fun execute_all ::
  "ToolExecutionContext option \<Rightarrow> (('f::{linorder,plus,minus,zero}, 'w) tool_env \<times> ToolCallRequest \<times> ToolExecutionEvaluation option) list
     \<Rightarrow> ('f, 'w) ToolService \<Rightarrow> ('f, 'w) ToolService" where
  "execute_all ctx [] s = s"
| "execute_all ctx ((env, rq, ev) # steps) s = execute_all ctx steps (fst (tool_execute env rq ctx ev s))"

lemma execute_all_within:
  "list_all (\<lambda>p. answering (fst p)) steps \<Longrightarrow> within r m c s \<Longrightarrow> context_run_id ctx = r \<Longrightarrow> r \<noteq> [] \<Longrightarrow>
   within r m c (execute_all ctx steps s)"
  by (induction steps arbitrary: s) (auto simp: tool_execute_within)

text \<open>
  C37: The budget of a run bounds its tool calls: however many calls a run asks for, with an executor that answers, the number of
  calls that reach the executor is at most what the limit leaves beyond the calls that are reserved already.
\<close>

theorem tool_budget_respected:
  assumes "list_all (\<lambda>p. answering (fst p)) steps" and "context_run_id ctx = r" and "r \<noteq> []" and "ts_budget_service s \<noteq> None"
    and "tools_reserved r s \<le> tool_limit r s"
  shows "int (length (ts_calls (execute_all ctx steps s))) \<le> int (length (ts_calls s)) + (tool_limit r s - tools_reserved r s)"
proof -
  have "within r (tool_limit r s) (tools_reserved r s - int (length (ts_calls s))) s" using assms(4,5) by (simp add: within_def)
  from execute_all_within [OF assms(1) this assms(2,3)] show ?thesis by (simp add: within_def)
qed

definition sample_account :: "(int, nat) ToolService" where
  "sample_account =
     sample_tools\<lparr>ts_budget_service := Some \<lparr>sv_config = sample_limits, sv_accounts = (\<lambda>_. None), sv_audit = [], sv_denied = []\<rparr>\<rparr>"

definition sample_context :: ToolExecutionContext where
  "sample_context = ToolExecutionContext_default\<lparr>tx_run_id := Some ''r1''\<rparr>"

lemma sample_answering: "answering sample_tool_env"
  by (simp add: answering_def sample_tool_env_def)

theorem tool_budget_respected_witness:
  "int (length (ts_calls (execute_all (Some sample_context) (replicate 3 (sample_tool_env, sample_call, None)) sample_account))) \<le> 1 \<and>
   ts_calls (execute_all (Some sample_context) (replicate 3 (sample_tool_env, sample_call, None)) sample_account) \<noteq> []"
proof -
  have "context_run_id (Some sample_context) = ''r1''" "ts_budget_service sample_account \<noteq> None"
    "tools_reserved ''r1'' sample_account = 0" "tool_limit ''r1'' sample_account = 1" "ts_calls sample_account = []"
    by (simp_all add: context_run_id_def sample_context_def ToolExecutionContext_default_def py_or_def truthy_def sample_account_def
        tool_account_def get_or_create_account_def sample_limits_def sample_tools_def new_account_def)
  with tool_budget_respected [of "replicate 3 (sample_tool_env, sample_call, None)" "Some sample_context" "''r1''" sample_account]
  have "int (length (ts_calls (execute_all (Some sample_context) (replicate 3 (sample_tool_env, sample_call, None)) sample_account))) \<le> 1"
    using sample_answering by (simp add: list_all_iff)
  moreover have "ts_calls (execute_all (Some sample_context) (replicate 3 (sample_tool_env, sample_call, None)) sample_account) \<noteq> []"
    by code_simp
  ultimately show ?thesis by blast
qed

section \<open>The tool node\<close>




section \<open>The end of a turn\<close>




text \<open>
  C3: A turn that ends has an outcome: a final message, the status that its error calls for, a closed budget account, and, when the
  conversation is kept, this status as the last thing that was stored. The clock must not run backwards and a cancellation
  must not be withdrawn.
\<close>

theorem turn_concludes:
  assumes "steady env" and "run_turn env y = (y', Inr st)"
  shows "st = sy_state y' \<and> as_final_message st \<noteq> None \<and> as_run_status st = (if truthy (as_error st) then FAILED else COMPLETED) \<and>
    Option.bind (ts_budget_service (sy_tools y')) (\<lambda>b. sv_accounts b (as_run_id st)) = None \<and>
    (as_persist_messages st \<longrightarrow> sy_memory y' \<noteq> [] \<and> last (sy_memory y') =
       Save_Task_State (as_session_id st) (run_status_value (as_run_status st)) (as_iteration_count st) (as_error st))"
proof -
  from run_turn_ended [OF assms(2)] have ended: "(graph_step env ^^ (recursion_limit env - 1)) (turn_start env y) = Ended y'" "st = sy_state y'"
    by simp_all
  have "orderly env ((graph_step env ^^ (recursion_limit env - 1)) (turn_start env y))"
    using turn_orderly [OF assms(1)] by (simp add: turn_start_def)
  then have "concluded y'" unfolding ended(1) by simp
  then show ?thesis using ended(2) by (cases "ts_budget_service (sy_tools y')") (simp_all add: concluded_def)
qed

definition sample_direct :: "nat \<Rightarrow> chat_answer" where
  "sample_direct w = sample_reply [(''role'', JStr ''assistant''), (''content'', JStr ''noon'')]"

lemma sample_ends: "(case snd (run_turn (sample_agent 3 sample_direct) sample_sys) of Inr st \<Rightarrow> as_error st = None | Inl _ \<Rightarrow> False)"
  by code_simp

theorem turn_concludes_witness:
  "\<exists>y' st. run_turn (sample_agent 3 sample_direct) sample_sys = (y', Inr st) \<and> as_run_status st = COMPLETED"
proof -
  obtain st where st: "snd (run_turn (sample_agent 3 sample_direct) sample_sys) = Inr st" "as_error st = None"
    using sample_ends by (auto split: sum.splits)
  then have "run_turn (sample_agent 3 sample_direct) sample_sys = (fst (run_turn (sample_agent 3 sample_direct) sample_sys), Inr st)"
    by (metis prod.collapse)
  with turn_concludes [OF _ this] st(2) show ?thesis by (auto simp: truthy_def)
qed



text \<open>
  C40: An error without a text is no error: when every exception of the provider has an empty text, a turn that gets through to the
  provider whenever it calls the model (the context, the release, the choice of the model and the budget do not stop it) and
  that nothing outside ends does not end on its own, whatever its iteration limit. It calls the provider in every second step
  until the graph is cut off, and no iteration is counted.
\<close>

theorem silent_error_repeats:
  assumes "untroubled env" and "mute_provider env" and "ae_prepare env (sy_state y) = Inr st" and "undecided env st"
    and "along (calls_provider env) env (recursion_limit env) (turn_start env y)"
  shows "snd (run_turn env y) = Inl GraphRecursionError \<and>
    length (sy_chats (fst (run_turn env y))) = length (sy_chats y) + recursion_limit env div 2 \<and>
    as_iteration_count (sy_state (fst (run_turn env y))) = as_iteration_count st"
proof -
  let ?y = "with_budget (budget_open (as_run_id (sy_state y)) (map_option rn_budget (ae_snapshot env))) y"
  obtain k where k: "recursion_limit env = Suc (Suc k)"
    using recursion_limit_ge [of env] by (intro that [of "recursion_limit env - 2"]) simp
  have start: "graph_step env (turn_start env y) = At Call_Llm (?y\<lparr>sy_state := st\<rparr>)"
    using assms(3) by (simp add: turn_start_def routed_def prepare_context_def)
  have begun: "(graph_step env ^^ Suc j) (turn_start env y) = (graph_step env ^^ j) (At Call_Llm (?y\<lparr>sy_state := st\<rparr>))" for j
    by (simp add: funpow_Suc_right start del: funpow.simps)
  have path: "along (calls_provider env) env (Suc k) (At Call_Llm (?y\<lparr>sy_state := st\<rparr>))" using assms(5) k start by simp
  have rounds: "\<exists>node y'. (graph_step env ^^ Suc j) (turn_start env y) = At node y' \<and> as_iteration_count (sy_state y') = as_iteration_count st \<and>
      length (sy_chats y') = length (sy_chats y) + (j + 1) div 2" if "j \<le> Suc k" for j
    using mute_rounds [OF assms(1,2) along_mono [OF path that]] assms(4) unfolding begun by simp
  obtain node y' where stop: "(graph_step env ^^ recursion_limit env) (turn_start env y) = At node y'"
    "as_iteration_count (sy_state y') = as_iteration_count st" "length (sy_chats y') = length (sy_chats y) + recursion_limit env div 2"
    using rounds [of "Suc k"] k by auto
  have "\<not> over ((graph_step env ^^ (recursion_limit env - 1)) (turn_start env y))" using rounds [of k] k by auto
  then have "run_turn env y = (y', Inl GraphRecursionError)" using run_turn_cut [of env y] stop(1) by simp
  with stop show ?thesis by simp
qed

definition sample_mute :: "(int, nat) agent_env" where
  "sample_mute = (sample_agent 1 (\<lambda>_. Chat_Raises []))\<lparr>ae_provider_context := (\<lambda>_. Inr ([], []))\<rparr>"

theorem silent_error_repeats_witness:
  "run_iteration_limit sample_mute = 1 \<and> snd (run_turn sample_mute sample_sys) = Inl GraphRecursionError \<and>
   length (sy_chats (fst (run_turn sample_mute sample_sys))) = 12"
proof -
  have env: "untroubled sample_mute" "run_iteration_limit sample_mute = 1" "mute_provider sample_mute" "recursion_limit sample_mute = 25"
    by (simp_all add: sample_mute_def sample_agent_def untroubled_def out_of_time_def run_iteration_limit_def mute_provider_def recursion_limit_def)
  have prepared: "ae_prepare sample_mute (sy_state sample_sys) = Inr (sample_state\<lparr>as_working_messages := as_input_messages sample_state\<rparr>)"
    by (simp add: sample_mute_def sample_agent_def sample_sys_def)
  have fresh: "undecided sample_mute (sample_state\<lparr>as_working_messages := as_input_messages sample_state\<rparr>)"
    by (simp add: undecided_def sample_state_def truthy_def turn_limit_def run_iteration_limit_def sample_mute_def sample_agent_def)
  have "along (calls_provider sample_mute) sample_mute (recursion_limit sample_mute) (turn_start sample_mute sample_sys)"
    by code_simp
  from silent_error_repeats [OF env(1,3) prepared fresh this] env show ?thesis by (simp add: sample_sys_def)
qed

section \<open>What leaves a turn\<close>



end
