(* ===== verification/Python_Bytes.thy ===== *)
theory Python_Bytes
  imports Python_Text
begin

text \<open>
  Bytes, UTF-8 and the string operations of the artifact sources. Bytes are characters too; a text has codes below 256, so a
  character takes one or two bytes, and decoding bytes of any other text is treated as a decoding error. A pattern
  \<open>^[...]+$\<close> under \<open>re.match\<close> also matches with one newline after it.
\<close>

type_synonym bytes = string

definition utf8_char :: "char \<Rightarrow> bytes" where
  "utf8_char c = (let n = of_char c :: nat in if n < 128 then [c] else [char_of (192 + n div 64), char_of (128 + n mod 64)])"

definition utf8_encode :: "string \<Rightarrow> bytes" where
  "utf8_encode s = concat (map utf8_char s)"

fun utf8_decode :: "bytes \<Rightarrow> string option" where
  "utf8_decode [] = Some []"
| "utf8_decode (b # bs) =
     (let n = of_char b :: nat in
      if n < 128 then map_option ((#) b) (utf8_decode bs)
      else (case bs of
              [] \<Rightarrow> None
            | c # cs \<Rightarrow>
                (let m = of_char c :: nat in
                 if n \<in> {194, 195} \<and> 128 \<le> m \<and> m < 192
                 then map_option ((#) (char_of ((n - 192) * 64 + (m - 128)))) (utf8_decode cs) else None)))"

lemma utf8_decode_char: "utf8_decode (utf8_char c @ bs) = map_option ((#) c) (utf8_decode bs)"
proof (cases "(of_char c :: nat) < 128")
  case True
  then show ?thesis by (simp add: utf8_char_def)
next
  case False
  define n where "n = (of_char c :: nat)"
  have n: "128 \<le> n" "n < 256" using False nat_of_char_less_256 [of c] by (simp_all add: n_def)
  have parts: "(of_char (char_of (192 + n div 64) :: char) :: nat) = 192 + n div 64" "(of_char (char_of (128 + n mod 64) :: char) :: nat) = 128 + n mod 64"
    using n by (simp_all add: of_char_of)
  have "n div 64 \<in> {2, 3}" using n by auto
  moreover have "n div 64 * 64 + n mod 64 = n" by simp
  moreover have "char_of n = c" by (simp add: n_def)
  ultimately show ?thesis
    using False parts by (auto simp: utf8_char_def Let_def n_def [symmetric])
qed

lemma utf8_roundtrip [simp]: "utf8_decode (utf8_encode s) = Some s"
  by (induction s) (simp_all add: utf8_encode_def utf8_decode_char)

lemma utf8_encode_inj: "utf8_encode s = utf8_encode t \<longleftrightarrow> s = t"
  using utf8_roundtrip by (metis option.inject)

section \<open>Patterns and paths\<close>

definition starts_with :: "string \<Rightarrow> string \<Rightarrow> bool" where
  "starts_with pre s \<longleftrightarrow> take (length pre) s = pre"

lemma starts_with_append [simp]: "starts_with pre (pre @ s)"
  by (simp add: starts_with_def)

lemma starts_withD: "starts_with pre s \<Longrightarrow> s = pre @ drop (length pre) s"
  by (metis append_take_drop_id starts_with_def)

definition ends_with :: "string \<Rightarrow> string \<Rightarrow> bool" where
  "ends_with suf s \<longleftrightarrow> length suf \<le> length s \<and> drop (length s - length suf) s = suf"

definition newline :: char where
  "newline = char_of (10 :: nat)"

definition re_line :: "(char \<Rightarrow> bool) \<Rightarrow> string \<Rightarrow> bool" where
  "re_line P s \<longleftrightarrow>
     (s \<noteq> [] \<and> list_all P s) \<or>
     (s \<noteq> [] \<and> last s = newline \<and> butlast s \<noteq> [] \<and> list_all P (butlast s))"

text \<open>\<open>s.split("/")\<close> and \<open>s.split("/", 1)\<close>.\<close>

fun split_slash :: "string \<Rightarrow> string list" where
  "split_slash [] = [[]]"
| "split_slash (c # cs) =
     (if c = CHR ''/'' then [] # split_slash cs
      else (case split_slash cs of [] \<Rightarrow> [[c]] | p # ps \<Rightarrow> (c # p) # ps))"

definition split_once :: "string \<Rightarrow> string \<times> string" where
  "split_once s = (takeWhile (\<lambda>c. c \<noteq> CHR ''/'') s, drop 1 (dropWhile (\<lambda>c. c \<noteq> CHR ''/'') s))"

lemma split_slash_no_slash: "p \<in> set (split_slash s) \<Longrightarrow> CHR ''/'' \<notin> set p"
  by (induction s arbitrary: p) (auto split: if_splits list.splits)

lemma split_slash_nonempty [simp]: "split_slash s \<noteq> []"
  by (induction s) (auto split: list.splits)

definition hex_lower :: "char \<Rightarrow> bool" where
  "hex_lower c \<longleftrightarrow> (let n = of_char c :: nat in (48 \<le> n \<and> n \<le> 57) \<or> (97 \<le> n \<and> n \<le> 102))"

definition alnum :: "char \<Rightarrow> bool" where
  "alnum c \<longleftrightarrow> (let n = of_char c :: nat in (48 \<le> n \<and> n \<le> 57) \<or> (65 \<le> n \<and> n \<le> 90) \<or> (97 \<le> n \<and> n \<le> 122))"

end
