(* ===== verification/Artifact_Domain.thy ===== *)
theory Artifact_Domain
  imports Python_Bytes Policy_Kernel
begin

text \<open>
  Artifacts, their revisions and their publications: \<open>app/domain/artifact.py\<close> and the policy of
  \<open>app/domain/artifact_policy.py\<close>. The checks of a constructor (\<open>__post_init__\<close>) are a predicate, since all of them
  raise the same error; error values leave out the messages. Times are aware of their zone.
\<close>

section \<open>Enumerations and errors\<close>

datatype ArtifactKind = DOCUMENT | MARKDOWN | CODE | HTML | DATA | CSV | JSON | IMAGE | PDF | TEXT | OTHER

datatype ArtifactSource = TASK_ATTACHMENT | TASK_ARTIFACT | SESSION | MANUAL

datatype ArtifactStatus = DRAFT | PUBLISHED | ARCHIVED

datatype PublishedArtifactStatus = ACTIVE | REVOKED

definition is_text_kind :: "ArtifactKind \<Rightarrow> bool" where
  "is_text_kind k \<longleftrightarrow> k \<in> {DOCUMENT, MARKDOWN, CODE, HTML, DATA, CSV, JSON, TEXT}"

datatype artifact_error =
    ArtifactNotFoundError
  | ArtifactValidationError
  | ArtifactContentUnavailableError
  | PublishedArtifactNotFoundError
  | ArtifactConflictError
  | ArtifactRevisionNotFoundError
  | ArtifactRevisionConflictError
  | ArtifactRevisionValidationError
  | ArtifactMigrationIncompleteError
  | ArtifactTooLargeError
  | PublishBlockedError
  | CallbackError
  | StoreOSError
  | IntegrityError

definition validate_checksum :: "string \<Rightarrow> bool" where
  "validate_checksum c \<longleftrightarrow>
     (let body = (if length c = 72 \<and> last c = newline then butlast c else c)
      in length body = 71 \<and> starts_with ''sha256:'' body \<and> list_all hex_lower (drop 7 body))"

section \<open>Artifacts\<close>

record Artifact =
  af_id :: string
  af_name :: string
  af_kind :: ArtifactKind
  af_mime :: string
  af_content_ref :: "string option"
  af_inline_content :: "string option"
  af_size :: int
  af_checksum :: string
  af_source_kind :: ArtifactSource
  af_source_ref :: string
  af_source_context_ref :: "string option"
  af_source_session_id :: "string option"
  af_summary :: string
  af_classification :: "string option"
  af_labels :: "string list option"
  af_status :: ArtifactStatus
  af_created_at :: "datetime option"
  af_updated_at :: "datetime option"
  af_created_by :: string
  af_current_revision_id :: "string option"

definition valid_artifact :: "Artifact \<Rightarrow> bool" where
  "valid_artifact a \<longleftrightarrow>
     validate_checksum (af_checksum a) \<and> 0 \<le> af_size a \<and>
     (if is_text_kind (af_kind a) then
        (af_inline_content a \<noteq> None) \<noteq> truthy (af_content_ref a) \<and>
        (case af_inline_content a of None \<Rightarrow> True | Some t \<Rightarrow> af_size a = int (length (utf8_encode t)))
      else af_inline_content a = None \<and> truthy (af_content_ref a)) \<and>
     (af_source_kind a = MANUAL \<longrightarrow> af_source_ref a = af_id a)"

definition task_artifact_source_ref :: "string \<Rightarrow> int \<Rightarrow> int \<Rightarrow> string" where
  "task_artifact_source_ref task_id run_id ordinal =
     ''task:'' @ task_id @ '':run:'' @ int_text run_id @ '':artifact:'' @ int_text ordinal"

record public_view =
  pv_id :: string
  pv_name :: string
  pv_kind :: ArtifactKind
  pv_mime :: string
  pv_size :: int
  pv_checksum :: string
  pv_source_kind :: ArtifactSource
  pv_source_context_ref :: "string option"
  pv_source_session_id :: "string option"
  pv_summary :: string
  pv_classification :: "string option"
  pv_labels :: "string list option"
  pv_status :: ArtifactStatus
  pv_created_at :: "datetime option"
  pv_updated_at :: "datetime option"
  pv_created_by :: string

definition to_public_view :: "Artifact \<Rightarrow> public_view" where
  "to_public_view a =
     \<lparr>pv_id = af_id a, pv_name = af_name a, pv_kind = af_kind a, pv_mime = af_mime a, pv_size = af_size a,
      pv_checksum = af_checksum a, pv_source_kind = af_source_kind a, pv_source_context_ref = af_source_context_ref a,
      pv_source_session_id = af_source_session_id a, pv_summary = af_summary a, pv_classification = af_classification a,
      pv_labels = af_labels a, pv_status = af_status a, pv_created_at = af_created_at a, pv_updated_at = af_updated_at a,
      pv_created_by = af_created_by a\<rparr>"

section \<open>Publications\<close>

record PublishedArtifact =
  pa_publish_id :: string
  pa_artifact_id :: "string option"
  pa_snapshot_name :: string
  pa_snapshot_kind :: ArtifactKind
  pa_snapshot_mime :: string
  pa_snapshot_content_ref :: "string option"
  pa_snapshot_inline_content :: "string option"
  pa_snapshot_size :: int
  pa_snapshot_checksum :: string
  pa_snapshot_summary :: string
  pa_published_at :: "datetime option"
  pa_published_by :: string
  pa_status :: PublishedArtifactStatus
  pa_revoked_at :: "datetime option"
  pa_published_revision_id :: "string option"

definition valid_published :: "PublishedArtifact \<Rightarrow> bool" where
  "valid_published p \<longleftrightarrow> validate_checksum (pa_snapshot_checksum p) \<and> 0 \<le> pa_snapshot_size p"

definition is_active :: "PublishedArtifact \<Rightarrow> bool" where
  "is_active p \<longleftrightarrow> pa_status p = ACTIVE"

section \<open>Revisions\<close>

record ArtifactRevision =
  rv_id :: string
  rv_artifact_id :: string
  rv_revision_number :: int
  rv_parent_revision_id :: "string option"
  rv_rollback_from_revision_id :: "string option"
  rv_content_ref :: "string option"
  rv_inline_content :: "string option"
  rv_size :: int
  rv_checksum :: string
  rv_mime :: string
  rv_kind :: ArtifactKind
  rv_created_at :: datetime
  rv_change_summary :: string
  rv_created_by :: string
  rv_source_session_id :: "string option"
  rv_source_run_id :: "string option"

definition item_ref :: "string \<Rightarrow> bool" where
  "item_ref r \<longleftrightarrow> starts_with ''item:'' r \<and> length r > 5"

definition valid_revision :: "ArtifactRevision \<Rightarrow> bool" where
  "valid_revision r \<longleftrightarrow>
     (rv_content_ref r \<noteq> None) \<noteq> (rv_inline_content r \<noteq> None) \<and> rv_content_ref r \<noteq> Some [] \<and>
     \<not> (\<not> is_text_kind (rv_kind r) \<and> rv_inline_content r \<noteq> None) \<and>
     rv_revision_number r \<ge> 1 \<and> validate_checksum (rv_checksum r) \<and> 0 \<le> rv_size r \<and> rv_mime r \<noteq> [] \<and>
     (case rv_content_ref r of None \<Rightarrow> True | Some c \<Rightarrow> item_ref c) \<and>
     (case rv_inline_content r of
        None \<Rightarrow> True
      | Some t \<Rightarrow> is_text_kind (rv_kind r) \<longrightarrow> rv_size r = int (length (utf8_encode t))) \<and>
     \<not> (rv_rollback_from_revision_id r \<noteq> None \<and> rv_parent_revision_id r = None)"

definition is_initial :: "ArtifactRevision \<Rightarrow> bool" where
  "is_initial r \<longleftrightarrow> rv_parent_revision_id r = None \<and> rv_rollback_from_revision_id r = None"

record ArtifactListCursor =
  al_updated_at :: "datetime option"
  al_artifact_id :: string

record ArtifactListPage =
  ag_items :: "Artifact list"
  ag_next_cursor :: "ArtifactListCursor option"

record RevisionListCursor =
  rc_artifact_id :: string
  rc_revision_number :: int
  rc_id :: string

record RevisionListPage =
  rg_items :: "ArtifactRevision list"
  rg_next_cursor :: "RevisionListCursor option"

record ArtifactAttachmentSource =
  as_attachment_id :: string
  as_task_id :: string
  as_stored_name :: string
  as_filename :: string
  as_content_type :: string
  as_uploaded_by :: string

record ArtifactDeleteGraph =
  dg_revision_content_refs :: "string list"
  dg_legacy_content_ref :: "string option"
  dg_publish_snapshot_ids :: "string list"

section \<open>The policy\<close>

datatype ArtifactPolicyAction = EDIT | PUBLISH | DELETE

record ArtifactPolicyRequest =
  aq_artifact :: Artifact
  aq_action :: ArtifactPolicyAction
  aq_content_available :: bool
  aq_active_publish_checksum :: "string option"
  aq_publish_max_bytes :: int

record ArtifactPolicyOutcome =
  ao_decision :: PolicyOutcome
  ao_reason :: string
  ao_reuse :: bool

definition publish_whitelist :: "ArtifactKind \<Rightarrow> bool" where
  "publish_whitelist k \<longleftrightarrow> k \<in> {DOCUMENT, MARKDOWN, CODE, HTML, DATA, CSV, JSON, IMAGE, PDF, TEXT}"

definition outcome :: "PolicyOutcome \<Rightarrow> string \<Rightarrow> bool \<Rightarrow> ArtifactPolicyOutcome" where
  "outcome d reason reuse = \<lparr>ao_decision = d, ao_reason = reason, ao_reuse = reuse\<rparr>"

definition evaluate_publish :: "ArtifactPolicyRequest \<Rightarrow> Artifact \<Rightarrow> ArtifactPolicyOutcome" where
  "evaluate_publish r art =
     (if af_status art = ARCHIVED then outcome DENY ''archived'' False
      else if \<not> aq_content_available r then outcome DENY ''content_unavailable'' False
      else if af_size art > aq_publish_max_bytes r then outcome DENY ''size_over_limit'' False
      else if \<not> publish_whitelist (af_kind art) then outcome DENY ''kind_not_publishable'' False
      else if af_kind art \<in> {IMAGE, PDF, OTHER} \<and>
              (af_classification art \<noteq> Some ''public'' \<or>
               (\<exists>l\<in>{''sensitive'', ''secret''}. l \<in> set (case af_labels art of None \<Rightarrow> [] | Some ls \<Rightarrow> ls)))
      then outcome DENY ''binary_classification_denied'' False
      else (case aq_active_publish_checksum r of
              None \<Rightarrow> outcome ALLOW ''publish_new'' False
            | Some c \<Rightarrow> if c = af_checksum art then outcome ALLOW ''publish_reuse'' True
                        else outcome ALLOW ''publish_replace'' False))"

definition ArtifactPolicy_evaluate :: "ArtifactPolicyRequest \<Rightarrow> ArtifactPolicyOutcome" where
  "ArtifactPolicy_evaluate r =
     (case aq_action r of
        EDIT \<Rightarrow> if af_status (aq_artifact r) = ARCHIVED then outcome DENY ''archived'' False
                else outcome ALLOW ''edit_allowed'' False
      | DELETE \<Rightarrow> outcome ALLOW ''delete_allowed'' False
      | PUBLISH \<Rightarrow> evaluate_publish r (aq_artifact r))"

end
