(* ===== verification/Artifact_Registry.thy ===== *)
theory Artifact_Registry
  imports Artifact_Domain "HOL-Library.Option_ord" "HOL-Library.Product_Lexorder"
begin

text \<open>
  The SQLite registry of artifacts (\<open>app/infrastructure/registry/sqlite_artifact_registry.py\<close>), one definition per
  \<open>_..._sync\<close> method: a transaction from a database to a database and a result. The constraints of the schema (keys, unique
  indexes, checks, foreign keys with their \<open>ON DELETE\<close> actions) are part of the inserts and deletes. The clock is an
  argument. Rows are written from checked values, so that reading one back passes its checks.
\<close>

section \<open>Tables\<close>

record artifact_db =
  adb_artifacts :: "Artifact list"
  adb_revisions :: "ArtifactRevision list"
  adb_published :: "PublishedArtifact list"

definition empty_artifact_db :: artifact_db where
  "empty_artifact_db = \<lparr>adb_artifacts = [], adb_revisions = [], adb_published = []\<rparr>"

type_synonym 'a art_result = "artifact_db \<times> (artifact_error + 'a)"

definition artifact_params :: "datetime \<Rightarrow> Artifact \<Rightarrow> Artifact" where
  "artifact_params now a =
     a\<lparr>af_created_at := Some (case af_created_at a of None \<Rightarrow> now | Some t \<Rightarrow> t),
       af_updated_at := Some (case af_updated_at a of None \<Rightarrow> now | Some t \<Rightarrow> t)\<rparr>"

definition published_params :: "datetime \<Rightarrow> PublishedArtifact \<Rightarrow> PublishedArtifact" where
  "published_params now p = p\<lparr>pa_published_at := Some (case pa_published_at p of None \<Rightarrow> now | Some t \<Rightarrow> t)\<rparr>"

text \<open>The three inserts; \<open>None\<close> is \<open>IntegrityError\<close>.\<close>

definition insert_artifact :: "datetime \<Rightarrow> Artifact \<Rightarrow> artifact_db \<Rightarrow> artifact_db option" where
  "insert_artifact now a db =
     (if af_id a \<in> af_id ` set (adb_artifacts db) \<or>
         (af_source_kind a, af_source_ref a) \<in> (\<lambda>r. (af_source_kind r, af_source_ref r)) ` set (adb_artifacts db)
      then None else Some (db\<lparr>adb_artifacts := adb_artifacts db @ [artifact_params now a]\<rparr>))"

definition known_revision :: "artifact_db \<Rightarrow> string option \<Rightarrow> bool" where
  "known_revision db r = (case r of None \<Rightarrow> True | Some i \<Rightarrow> i \<in> rv_id ` set (adb_revisions db))"

definition insert_revision :: "ArtifactRevision \<Rightarrow> artifact_db \<Rightarrow> artifact_db option" where
  "insert_revision r db =
     (if rv_id r \<in> rv_id ` set (adb_revisions db) \<or>
         (rv_artifact_id r, rv_revision_number r) \<in> (\<lambda>x. (rv_artifact_id x, rv_revision_number x)) ` set (adb_revisions db) \<or>
         rv_revision_number r < 1 \<or> rv_size r < 0 \<or>
         (rv_content_ref r \<noteq> None) = (rv_inline_content r \<noteq> None) \<or> rv_content_ref r = Some [] \<or>
         rv_artifact_id r \<notin> af_id ` set (adb_artifacts db) \<or>
         \<not> (rv_parent_revision_id r = Some (rv_id r) \<or> known_revision db (rv_parent_revision_id r)) \<or>
         \<not> (rv_rollback_from_revision_id r = Some (rv_id r) \<or> known_revision db (rv_rollback_from_revision_id r))
      then None else Some (db\<lparr>adb_revisions := adb_revisions db @ [r]\<rparr>))"

definition active_of :: "string \<Rightarrow> PublishedArtifact \<Rightarrow> bool" where
  "active_of aid p \<longleftrightarrow> pa_artifact_id p = Some aid \<and> pa_status p = ACTIVE"

definition insert_published :: "datetime \<Rightarrow> PublishedArtifact \<Rightarrow> artifact_db \<Rightarrow> artifact_db option" where
  "insert_published now p db =
     (if pa_publish_id p \<in> pa_publish_id ` set (adb_published db) \<or>
         (case pa_artifact_id p of
            None \<Rightarrow> False
          | Some aid \<Rightarrow> aid \<notin> af_id ` set (adb_artifacts db) \<or>
              (pa_status p = ACTIVE \<and> list_ex (active_of aid) (adb_published db))) \<or>
         \<not> known_revision db (pa_published_revision_id p)
      then None else Some (db\<lparr>adb_published := adb_published db @ [published_params now p]\<rparr>))"

text \<open>\<open>DELETE FROM artifacts\<close> with its cascade.\<close>

definition cut :: "string list \<Rightarrow> string option \<Rightarrow> string option" where
  "cut gone r = (case r of None \<Rightarrow> None | Some i \<Rightarrow> if i \<in> set gone then None else Some i)"

definition delete_artifact_rows :: "string \<Rightarrow> artifact_db \<Rightarrow> artifact_db" where
  "delete_artifact_rows aid db =
     (let known = aid \<in> af_id ` set (adb_artifacts db);
          gone = (if known then map rv_id (filter (\<lambda>r. rv_artifact_id r = aid) (adb_revisions db)) else [])
      in db\<lparr>adb_artifacts := sql_delete (\<lambda>a. af_id a = aid) (adb_artifacts db),
            adb_revisions := map (\<lambda>r. r\<lparr>rv_parent_revision_id := cut gone (rv_parent_revision_id r),
                                          rv_rollback_from_revision_id := cut gone (rv_rollback_from_revision_id r)\<rparr>)
                               (sql_delete (\<lambda>r. known \<and> rv_artifact_id r = aid) (adb_revisions db)),
            adb_published := map (\<lambda>p. p\<lparr>pa_artifact_id := (if known \<and> pa_artifact_id p = Some aid then None else pa_artifact_id p),
                                          pa_published_revision_id := cut gone (pa_published_revision_id p)\<rparr>) (adb_published db)\<rparr>)"

section \<open>Artifacts\<close>

definition create_artifact_sync :: "datetime \<Rightarrow> Artifact \<Rightarrow> artifact_db \<Rightarrow> Artifact art_result" where
  "create_artifact_sync now a db =
     (case insert_artifact now a db of
        None \<Rightarrow> (db, Inl ArtifactConflictError)
      | Some db1 \<Rightarrow> (db1, Inr (artifact_params now a)))"

definition get_artifact_sync :: "string \<Rightarrow> artifact_db \<Rightarrow> Artifact option" where
  "get_artifact_sync aid db = fetchone (\<lambda>a. af_id a = aid) (adb_artifacts db)"

text \<open>\<open>LIKE\<close> without regard to the case of ASCII letters.\<close>

definition ascii_lower :: "char \<Rightarrow> char" where
  "ascii_lower c = (let n = of_char c :: nat in if 65 \<le> n \<and> n \<le> 90 then char_of (n + 32) else c)"

fun sql_like :: "string \<Rightarrow> string \<Rightarrow> bool" where
  "sql_like [] s = (s = [])"
| "sql_like (p # ps) [] = (p = CHR ''%'' \<and> sql_like ps [])"
| "sql_like (p # ps) (c # cs) =
     (if p = CHR ''%'' then sql_like ps (c # cs) \<or> sql_like (p # ps) cs
      else (p = CHR ''_'' \<or> ascii_lower p = ascii_lower c) \<and> sql_like ps cs)"

record artifact_filter =
  fl_source_kind :: "ArtifactSource option"
  fl_source_context_ref :: "string option"
  fl_source_session_id :: "string option"
  fl_kind :: "ArtifactKind option"
  fl_status :: "ArtifactStatus option"
  fl_q :: "string option"

definition no_filter :: artifact_filter where
  "no_filter = \<lparr>fl_source_kind = None, fl_source_context_ref = None, fl_source_session_id = None, fl_kind = None,
     fl_status = None, fl_q = None\<rparr>"

definition matches :: "artifact_filter \<Rightarrow> Artifact \<Rightarrow> bool" where
  "matches f a \<longleftrightarrow>
     fl_source_kind f \<in> {None, Some (af_source_kind a)} \<and>
     (fl_source_context_ref f = None \<or> fl_source_context_ref f = af_source_context_ref a) \<and>
     (fl_source_session_id f = None \<or> fl_source_session_id f = af_source_session_id a) \<and>
     fl_kind f \<in> {None, Some (af_kind a)} \<and> fl_status f \<in> {None, Some (af_status a)} \<and>
     (case fl_q f of None \<Rightarrow> True
      | Some q \<Rightarrow> sql_like (''%'' @ q @ ''%'') (af_name a) \<or> sql_like (''%'' @ q @ ''%'') (af_summary a))"

definition page_key :: "Artifact \<Rightarrow> datetime option \<times> string" where
  "page_key a = (af_updated_at a, af_id a)"

text \<open>A page: newest first, strictly after the cursor; a cursor without a time matches nothing.\<close>

definition before_cursor :: "ArtifactListCursor option \<Rightarrow> Artifact \<Rightarrow> bool" where
  "before_cursor cursor a =
     (case cursor of None \<Rightarrow> True
      | Some c \<Rightarrow> (case (af_updated_at a, al_updated_at c) of
                     (Some u, Some v) \<Rightarrow> u < v \<or> (u = v \<and> af_id a < al_artifact_id c)
                   | _ \<Rightarrow> False))"

definition artifact_page :: "(Artifact \<Rightarrow> bool) \<Rightarrow> ArtifactListCursor option \<Rightarrow> int \<Rightarrow> artifact_db \<Rightarrow> ArtifactListPage" where
  "artifact_page P cursor limit db =
     (let lim = nat (max 1 (min limit 500));
          rows = take (lim + 1) (rev (sort_key page_key (filter (\<lambda>a. P a \<and> before_cursor cursor a) (adb_artifacts db))));
          items = take lim rows
      in \<lparr>ag_items = items,
          ag_next_cursor = (if length rows > lim
                            then Some \<lparr>al_updated_at = af_updated_at (last items), al_artifact_id = af_id (last items)\<rparr> else None)\<rparr>)"

definition list_artifacts_sync :: "artifact_filter \<Rightarrow> ArtifactListCursor option \<Rightarrow> int \<Rightarrow> artifact_db \<Rightarrow> ArtifactListPage" where
  "list_artifacts_sync f = artifact_page (matches f)"

definition updated_artifact :: "datetime \<Rightarrow> Artifact \<Rightarrow> Artifact \<Rightarrow> Artifact" where
  "updated_artifact now a r =
     a\<lparr>af_created_at := af_created_at r, af_current_revision_id := af_current_revision_id r, af_updated_at := Some now\<rparr>"

definition update_artifact_sync :: "datetime \<Rightarrow> Artifact \<Rightarrow> artifact_db \<Rightarrow> Artifact art_result" where
  "update_artifact_sync now a db =
     (case get_artifact_sync (af_id a) db of
        None \<Rightarrow> (db, Inl ArtifactNotFoundError)
      | Some r \<Rightarrow>
          if list_ex (\<lambda>x. af_id x \<noteq> af_id a \<and> af_source_kind x = af_source_kind a \<and> af_source_ref x = af_source_ref a) (adb_artifacts db)
          then (db, Inl IntegrityError)
          else (db\<lparr>adb_artifacts := sql_update (\<lambda>x. af_id x = af_id a) (updated_artifact now a) (adb_artifacts db)\<rparr>,
                Inr (updated_artifact now a r)))"

definition delete_artifact_sync :: "string \<Rightarrow> artifact_db \<Rightarrow> artifact_db \<times> bool" where
  "delete_artifact_sync aid db = (delete_artifact_rows aid db, rowcount (\<lambda>a. af_id a = aid) (adb_artifacts db) > 0)"

definition get_by_source_sync :: "ArtifactSource \<Rightarrow> string \<Rightarrow> artifact_db \<Rightarrow> Artifact option" where
  "get_by_source_sync kind ref db = fetchone (\<lambda>a. af_source_kind a = kind \<and> af_source_ref a = ref) (adb_artifacts db)"

definition count_artifacts_sync :: "artifact_db \<Rightarrow> nat" where
  "count_artifacts_sync db = length (adb_artifacts db)"

definition batch :: "(Artifact \<Rightarrow> bool) \<Rightarrow> int \<Rightarrow> artifact_db \<Rightarrow> Artifact list" where
  "batch P limit db = take (nat (max 1 (min limit 500))) (sort_key af_id (filter P (adb_artifacts db)))"

definition missing_session :: "Artifact \<Rightarrow> bool" where
  "missing_session a \<longleftrightarrow> af_source_kind a \<in> {TASK_ARTIFACT, TASK_ATTACHMENT} \<and> af_source_session_id a = None"

definition list_task_artifacts_missing_session_sync :: "int \<Rightarrow> artifact_db \<Rightarrow> Artifact list" where
  "list_task_artifacts_missing_session_sync = batch missing_session"

definition list_artifacts_with_empty_mime_sync :: "int \<Rightarrow> artifact_db \<Rightarrow> Artifact list" where
  "list_artifacts_with_empty_mime_sync = batch (\<lambda>a. af_mime a = [])"

section \<open>Publications\<close>

definition revoke_active :: "datetime \<Rightarrow> string \<Rightarrow> artifact_db \<Rightarrow> artifact_db" where
  "revoke_active now aid db =
     db\<lparr>adb_published := sql_update (active_of aid) (\<lambda>p. p\<lparr>pa_status := REVOKED, pa_revoked_at := Some now\<rparr>) (adb_published db)\<rparr>"

definition mark_published :: "datetime \<Rightarrow> string \<Rightarrow> artifact_db \<Rightarrow> artifact_db" where
  "mark_published now aid db =
     db\<lparr>adb_artifacts := sql_update (\<lambda>a. af_id a = aid) (\<lambda>a. a\<lparr>af_status := PUBLISHED, af_updated_at := Some now\<rparr>) (adb_artifacts db)\<rparr>"

definition get_active_publish_sync :: "string \<Rightarrow> artifact_db \<Rightarrow> PublishedArtifact option" where
  "get_active_publish_sync aid db = fetchone (active_of aid) (adb_published db)"

definition register_published_sync :: "datetime \<Rightarrow> PublishedArtifact \<Rightarrow> string option \<Rightarrow> artifact_db \<Rightarrow> PublishedArtifact art_result" where
  "register_published_sync now p revoke db =
     (let db1 = (case revoke of None \<Rightarrow> db | Some aid \<Rightarrow> revoke_active now aid db) in
      case insert_published now p db1 of
        Some db2 \<Rightarrow>
          ((case pa_artifact_id p of None \<Rightarrow> db2 | Some aid \<Rightarrow> mark_published now aid db2), Inr (published_params now p))
      | None \<Rightarrow>
          (db, case pa_artifact_id p of
                 None \<Rightarrow> Inl ArtifactConflictError
               | Some aid \<Rightarrow> (case get_active_publish_sync aid db of
                                None \<Rightarrow> Inl ArtifactConflictError | Some existing \<Rightarrow> Inr existing)))"

definition get_published_sync :: "string \<Rightarrow> artifact_db \<Rightarrow> PublishedArtifact option" where
  "get_published_sync pid db = fetchone (\<lambda>p. pa_publish_id p = pid) (adb_published db)"

definition list_published_sync :: "string option \<Rightarrow> artifact_db \<Rightarrow> PublishedArtifact list" where
  "list_published_sync aid db =
     rev (sort_key (\<lambda>p. (pa_published_at p, pa_publish_id p))
       (filter (\<lambda>p. aid = None \<or> pa_artifact_id p = aid) (adb_published db)))"

definition revoke_published_sync :: "datetime \<Rightarrow> string \<Rightarrow> artifact_db \<Rightarrow> artifact_db \<times> PublishedArtifact option" where
  "revoke_published_sync now aid db =
     (case get_active_publish_sync aid db of
        Some p \<Rightarrow>
          (let revoked = (\<lambda>p. p\<lparr>pa_status := REVOKED, pa_revoked_at := Some now\<rparr>) in
           (db\<lparr>adb_published := sql_update (\<lambda>x. pa_publish_id x = pa_publish_id p) revoked (adb_published db)\<rparr>, Some (revoked p)))
      | None \<Rightarrow>
          (db, case rev (sort_key (\<lambda>p. (pa_revoked_at p, pa_publish_id p))
                           (filter (\<lambda>p. pa_artifact_id p = Some aid \<and> pa_status p = REVOKED) (adb_published db))) of
                 [] \<Rightarrow> None | p # ps \<Rightarrow> Some p))"

definition delete_published_by_artifact_sync :: "string \<Rightarrow> artifact_db \<Rightarrow> artifact_db \<times> nat" where
  "delete_published_by_artifact_sync aid db =
     (db\<lparr>adb_published := sql_delete (\<lambda>p. pa_artifact_id p = Some aid) (adb_published db)\<rparr>,
      rowcount (\<lambda>p. pa_artifact_id p = Some aid) (adb_published db))"

section \<open>Revisions\<close>

definition set_current_revision :: "datetime \<Rightarrow> string \<Rightarrow> string \<Rightarrow> artifact_db \<Rightarrow> artifact_db" where
  "set_current_revision now aid rid db =
     db\<lparr>adb_artifacts := sql_update (\<lambda>a. af_id a = aid)
          (\<lambda>a. a\<lparr>af_current_revision_id := Some rid, af_updated_at := Some now\<rparr>) (adb_artifacts db)\<rparr>"

definition get_revision_sync :: "string \<Rightarrow> string \<Rightarrow> artifact_db \<Rightarrow> ArtifactRevision option" where
  "get_revision_sync aid rid db = fetchone (\<lambda>r. rv_id r = rid \<and> rv_artifact_id r = aid) (adb_revisions db)"

definition create_with_initial_revision_sync ::
  "datetime \<Rightarrow> Artifact \<Rightarrow> ArtifactRevision \<Rightarrow> artifact_db \<Rightarrow> (Artifact \<times> ArtifactRevision) art_result" where
  "create_with_initial_revision_sync now a r db =
     (if rv_artifact_id r \<noteq> af_id a then (db, Inl ArtifactRevisionValidationError)
      else if rv_revision_number r \<noteq> 1 \<or> \<not> is_initial r then (db, Inl ArtifactRevisionValidationError)
      else (let a1 = a\<lparr>af_current_revision_id := Some (rv_id r)\<rparr> in
            case insert_artifact now a1 db of
              None \<Rightarrow> (db, Inl ArtifactConflictError)
            | Some db1 \<Rightarrow>
                (case insert_revision r db1 of
                   None \<Rightarrow> (db, Inl ArtifactConflictError)
                 | Some db2 \<Rightarrow> (db2, Inr (artifact_params now a1, r)))))"

definition max_number :: "string \<Rightarrow> artifact_db \<Rightarrow> int" where
  "max_number aid db = fold max (map rv_revision_number (filter (\<lambda>r. rv_artifact_id r = aid) (adb_revisions db))) 0"

definition belongs :: "string \<Rightarrow> string option \<Rightarrow> artifact_db \<Rightarrow> bool" where
  "belongs aid rid db =
     (case rid of
        None \<Rightarrow> True
      | Some i \<Rightarrow> (case fetchone (\<lambda>r. rv_id r = i) (adb_revisions db) of None \<Rightarrow> False | Some r \<Rightarrow> rv_artifact_id r = aid))"

definition append_revision_sync :: "datetime \<Rightarrow> string \<Rightarrow> ArtifactRevision \<Rightarrow> string \<Rightarrow> artifact_db \<Rightarrow> ArtifactRevision art_result" where
  "append_revision_sync now aid r expected db =
     (if rv_artifact_id r \<noteq> aid then (db, Inl ArtifactRevisionValidationError)
      else case get_artifact_sync aid db of
        None \<Rightarrow> (db, Inl ArtifactNotFoundError)
      | Some a \<Rightarrow>
          if af_current_revision_id a \<noteq> Some expected then (db, Inl ArtifactRevisionConflictError)
          else if rv_parent_revision_id r \<noteq> af_current_revision_id a then (db, Inl ArtifactRevisionValidationError)
          else if rv_revision_number r \<noteq> max_number aid db + 1 then (db, Inl ArtifactRevisionValidationError)
          else if \<not> belongs aid (rv_parent_revision_id r) db then (db, Inl ArtifactRevisionValidationError)
          else if \<not> belongs aid (rv_rollback_from_revision_id r) db then (db, Inl ArtifactRevisionValidationError)
          else (case insert_revision r db of
                  None \<Rightarrow> (db, Inl ArtifactRevisionConflictError)
                | Some db1 \<Rightarrow> (set_current_revision now aid (rv_id r) db1, Inr r)))"

definition list_revisions_sync ::
  "string \<Rightarrow> RevisionListCursor option \<Rightarrow> int \<Rightarrow> artifact_db \<Rightarrow> artifact_error + RevisionListPage" where
  "list_revisions_sync aid cursor limit db =
     (let lim = nat (max 1 (min limit 100));
          before = (\<lambda>r. case cursor of None \<Rightarrow> True
                     | Some c \<Rightarrow> rv_revision_number r < rc_revision_number c \<or>
                         (rv_revision_number r = rc_revision_number c \<and> rv_id r < rc_id c));
          rows = take (lim + 1) (rev (sort_key (\<lambda>r. (rv_revision_number r, rv_id r))
                   (filter (\<lambda>r. rv_artifact_id r = aid \<and> before r) (adb_revisions db))));
          items = take lim rows
      in if (case cursor of None \<Rightarrow> False | Some c \<Rightarrow> rc_artifact_id c \<noteq> aid) then Inl ArtifactRevisionValidationError
         else Inr \<lparr>rg_items = items,
                   rg_next_cursor = (if length rows > lim
                      then Some \<lparr>rc_artifact_id = aid, rc_revision_number = rv_revision_number (last items), rc_id = rv_id (last items)\<rparr>
                      else None)\<rparr>)"

definition delete_artifact_graph_sync :: "string \<Rightarrow> artifact_db \<Rightarrow> artifact_db \<times> ArtifactDeleteGraph" where
  "delete_artifact_graph_sync aid db =
     (let refs = remdups (rev (List.map_filter (\<lambda>r. if truthy (rv_content_ref r) then rv_content_ref r else None)
                    (filter (\<lambda>r. rv_artifact_id r = aid) (adb_revisions db))));
          legacy = (case get_artifact_sync aid db of None \<Rightarrow> None | Some a \<Rightarrow> af_content_ref a);
          pubs = map pa_publish_id (filter (\<lambda>p. pa_artifact_id p = Some aid) (adb_published db))
      in (delete_artifact_rows aid (fst (delete_published_by_artifact_sync aid db)),
          \<lparr>dg_revision_content_refs = rev refs, dg_legacy_content_ref = legacy, dg_publish_snapshot_ids = pubs\<rparr>))"

section \<open>Migration\<close>

definition list_revision_migration_candidates_sync :: "ArtifactListCursor option \<Rightarrow> int \<Rightarrow> artifact_db \<Rightarrow> ArtifactListPage" where
  "list_revision_migration_candidates_sync = artifact_page (\<lambda>a. af_current_revision_id a = None)"

definition commit_initial_revision_backfill_sync ::
  "datetime \<Rightarrow> string \<Rightarrow> ArtifactRevision \<Rightarrow> artifact_db \<Rightarrow> ArtifactRevision art_result" where
  "commit_initial_revision_backfill_sync now aid r db =
     (case get_artifact_sync aid db of
        None \<Rightarrow> (db, Inl ArtifactNotFoundError)
      | Some a \<Rightarrow>
          (case af_current_revision_id a of
             Some rid \<Rightarrow> (case get_revision_sync aid rid db of
                            Some x \<Rightarrow> (db, Inr x) | None \<Rightarrow> (db, Inl ArtifactRevisionValidationError))
           | None \<Rightarrow>
               (case fetchone (\<lambda>x. rv_artifact_id x = aid \<and> rv_revision_number x = 1) (adb_revisions db) of
                  Some x \<Rightarrow> (set_current_revision now aid (rv_id x) db, Inr x)
                | None \<Rightarrow>
                    if rv_artifact_id r \<noteq> aid then (db, Inl ArtifactRevisionValidationError)
                    else if rv_revision_number r \<noteq> 1 \<or> \<not> is_initial r then (db, Inl ArtifactRevisionValidationError)
                    else (case insert_revision r db of
                            None \<Rightarrow> (db, Inl ArtifactConflictError)
                          | Some db1 \<Rightarrow> (set_current_revision now aid (rv_id r) db1, Inr r)))))"

definition register_revision_publish_sync ::
  "datetime \<Rightarrow> PublishedArtifact \<Rightarrow> string \<Rightarrow> string \<Rightarrow> string \<Rightarrow> artifact_db \<Rightarrow> PublishedArtifact art_result" where
  "register_revision_publish_sync now p aid rid expected db =
     (let resolved = p\<lparr>pa_published_revision_id := Some rid\<rparr>;
          same = (\<lambda>x. active_of aid x \<and> pa_snapshot_checksum x = pa_snapshot_checksum resolved)
      in case get_artifact_sync aid db of
           None \<Rightarrow> (db, Inl ArtifactNotFoundError)
         | Some a \<Rightarrow>
             if af_current_revision_id a \<noteq> Some expected then (db, Inl ArtifactRevisionConflictError)
             else (case fetchone same (adb_published db) of
                     Some x \<Rightarrow> (db, Inr x)
                   | None \<Rightarrow>
                       (case insert_published now resolved (revoke_active now aid db) of
                          Some db1 \<Rightarrow> (mark_published now aid db1, Inr (published_params now resolved))
                        | None \<Rightarrow> (db, case fetchone same (adb_published db) of
                                         Some x \<Rightarrow> Inr x | None \<Rightarrow> Inl ArtifactConflictError))))"

definition count_artifacts_without_revision_sync :: "artifact_db \<Rightarrow> nat" where
  "count_artifacts_without_revision_sync db = rowcount (\<lambda>a. af_current_revision_id a = None) (adb_artifacts db)"

end
