(* ===== verification/Artifact_History.thy ===== *)
theory Artifact_History
  imports Artifact_Registry
begin

text \<open>
  The histories of the artifact registry. A database is seen as a log of revisions for every artifact: a transaction leaves a
  log alone, extends it by one revision at its end, starts it or removes it with its artifact. The numbers of a log are
  \<open>1, 2, ...\<close>, every revision has its predecessor as parent, and the artifact points at the last one.
\<close>

section \<open>Logs\<close>

definition revisions_of :: "string \<Rightarrow> artifact_db \<Rightarrow> ArtifactRevision list" where
  "revisions_of aid db = filter (\<lambda>r. rv_artifact_id r = aid) (adb_revisions db)"

definition known_artifact :: "artifact_db \<Rightarrow> string \<Rightarrow> bool" where
  "known_artifact db aid \<longleftrightarrow> aid \<in> af_id ` set (adb_artifacts db)"

text \<open>Number, parent and rollback source of a revision, after the revisions that precede it.\<close>

definition follows :: "ArtifactRevision list \<Rightarrow> ArtifactRevision \<Rightarrow> bool" where
  "follows before r \<longleftrightarrow>
     rv_revision_number r = int (length before) + 1 \<and>
     rv_parent_revision_id r = (if before = [] then None else Some (rv_id (last before))) \<and>
     (case rv_rollback_from_revision_id r of None \<Rightarrow> True | Some i \<Rightarrow> i \<in> rv_id ` set before)"

fun linear_log :: "ArtifactRevision list \<Rightarrow> ArtifactRevision list \<Rightarrow> bool" where
  "linear_log before [] = True"
| "linear_log before (r # rs) \<longleftrightarrow> follows before r \<and> linear_log (before @ [r]) rs"

definition log_head :: "ArtifactRevision list \<Rightarrow> string option" where
  "log_head rs = (if rs = [] then None else Some (rv_id (last rs)))"

definition linear_history :: "artifact_db \<Rightarrow> bool" where
  "linear_history db \<longleftrightarrow>
     keyed af_id (adb_artifacts db) \<and> keyed rv_id (adb_revisions db) \<and>
     list_all (\<lambda>r. known_artifact db (rv_artifact_id r)) (adb_revisions db) \<and>
     list_all (\<lambda>a. linear_log [] (revisions_of (af_id a) db) \<and> af_current_revision_id a = log_head (revisions_of (af_id a) db))
       (adb_artifacts db)"

definition one_active :: "artifact_db \<Rightarrow> bool" where
  "one_active db \<longleftrightarrow>
     keyed pa_publish_id (adb_published db) \<and>
     keyed (\<lambda>p. pa_artifact_id p) (filter (\<lambda>p. pa_status p = ACTIVE \<and> pa_artifact_id p \<noteq> None) (adb_published db))"

lemma linear_log_append:
  "linear_log before (rs @ [r]) \<longleftrightarrow> linear_log before rs \<and> follows (before @ rs) r"
  by (induction rs arbitrary: before) simp_all

lemma linear_log_number: "linear_log before rs \<Longrightarrow> x \<in> set rs \<Longrightarrow>
    int (length before) < rv_revision_number x \<and> rv_revision_number x \<le> int (length before + length rs)"
  by (induction rs arbitrary: before) (force simp: follows_def)+

lemma linear_log_last: "linear_log before rs \<Longrightarrow> rs \<noteq> [] \<Longrightarrow> rv_revision_number (last rs) = int (length before + length rs)"
  by (induction rs arbitrary: before rule: rev_induct) (auto simp: linear_log_append follows_def)

lemma linear_log_refs:
  assumes "linear_log before rs" and "r \<in> set rs"
  shows "rv_parent_revision_id r \<in> insert None (Some ` rv_id ` (set before \<union> set rs))"
    and "rv_rollback_from_revision_id r \<in> insert None (Some ` rv_id ` (set before \<union> set rs))"
  using assms by (induction rs arbitrary: before) (fastforce simp: follows_def split: option.splits if_splits)+

lemma max_number_linear:
  assumes "linear_log [] (revisions_of aid db)"
  shows "max_number aid db = int (length (revisions_of aid db))"
proof (cases "revisions_of aid db = []")
  case True
  then show ?thesis by (simp add: max_number_def revisions_of_def)
next
  case False
  let ?rs = "revisions_of aid db"
  have "int (length ?rs) \<in> rv_revision_number ` set ?rs"
    using linear_log_last [OF assms False] last_in_set [OF False] by (metis add_0 image_eqI list.size(3))
  moreover have "\<And>x. x \<in> rv_revision_number ` set ?rs \<Longrightarrow> x \<le> int (length ?rs)"
    using linear_log_number [OF assms] by fastforce
  ultimately have "Max (insert 0 (rv_revision_number ` set ?rs)) = int (length ?rs)"
    by (intro Max_eqI) auto
  moreover have "max_number aid db = Max (insert 0 (rv_revision_number ` set ?rs))"
    using Max.set_eq_fold [of 0 "map rv_revision_number ?rs"] by (simp add: max_number_def revisions_of_def)
  ultimately show ?thesis by simp
qed

section \<open>The transactions on logs\<close>

text \<open>How a transaction changed the database: which artifacts it added, and which revisions.\<close>

definition same_heads :: "Artifact list \<Rightarrow> Artifact list \<Rightarrow> bool" where
  "same_heads xs ys \<longleftrightarrow> map (\<lambda>a. (af_id a, af_current_revision_id a)) xs = map (\<lambda>a. (af_id a, af_current_revision_id a)) ys"

lemma same_heads_update:
  assumes "\<And>a. P a \<Longrightarrow> af_id (f a) = af_id a" and "\<And>a. P a \<Longrightarrow> af_current_revision_id (f a) = af_current_revision_id a"
  shows "same_heads (sql_update P f rows) rows"
  using assms by (simp add: same_heads_def sql_update_def)

lemma same_heads_all:
  assumes "same_heads xs ys"
  shows "list_all (\<lambda>a. Q (af_id a) (af_current_revision_id a)) xs = list_all (\<lambda>a. Q (af_id a) (af_current_revision_id a)) ys"
proof -
  have all: "(list_all (\<lambda>a. Q (af_id a) (af_current_revision_id a)) zs) =
      (\<forall>(i, c)\<in>set (map (\<lambda>a. (af_id a, af_current_revision_id a)) zs). Q i c)" for zs
    by (auto simp: list_all_iff)
  show ?thesis using all [of xs] all [of ys] assms by (simp only: same_heads_def)
qed

lemma same_heads_ids: "same_heads xs ys \<Longrightarrow> map af_id xs = map af_id ys"
  unfolding same_heads_def by (drule arg_cong [where f = "map fst"]) (simp add: o_def)

lemma linear_history_cong:
  assumes "same_heads (adb_artifacts db') (adb_artifacts db)" and "adb_revisions db' = adb_revisions db"
  shows "linear_history db' = linear_history db"
proof -
  have ids: "af_id ` set (adb_artifacts db') = af_id ` set (adb_artifacts db)"
    using same_heads_ids [OF assms(1)] by (metis set_map)
  have "revisions_of aid db' = revisions_of aid db" for aid
    by (simp add: revisions_of_def assms(2))
  with same_heads_all [OF assms(1), of "\<lambda>i c. linear_log [] (revisions_of i db) \<and> c = log_head (revisions_of i db)"]
  show ?thesis
    using same_heads_ids [OF assms(1)] by (simp add: linear_history_def keyed_def known_artifact_def ids assms(2))
qed

lemma linear_history_published [simp]: "linear_history (db\<lparr>adb_published := ps\<rparr>) = linear_history db"
  by (simp add: linear_history_def known_artifact_def revisions_of_def)

lemma linear_historyD:
  assumes "linear_history db" and "a \<in> set (adb_artifacts db)"
  shows "linear_log [] (revisions_of (af_id a) db)" and "af_current_revision_id a = log_head (revisions_of (af_id a) db)"
  using assms by (auto simp: linear_history_def list_all_iff)

lemma get_artifact_linear:
  assumes "linear_history db" and "get_artifact_sync aid db = Some a"
  shows "af_id a = aid" and "linear_log [] (revisions_of aid db)" and "af_current_revision_id a = log_head (revisions_of aid db)"
    and "a \<in> set (adb_artifacts db)" and "known_artifact db aid"
  using assms linear_historyD [OF assms(1)] by (auto simp: get_artifact_sync_def known_artifact_def dest!: fetchone_SomeD)

lemma unknown_no_revisions: "linear_history db \<Longrightarrow> \<not> known_artifact db aid \<Longrightarrow> revisions_of aid db = []"
  by (auto simp: linear_history_def list_all_iff revisions_of_def filter_empty_conv)

text \<open>A new artifact, with its log.\<close>

lemma linear_history_extend:
  assumes db: "linear_history db" and new: "\<not> known_artifact db (af_id b)"
    and arts: "adb_artifacts db' = adb_artifacts db @ [b]" and revs: "adb_revisions db' = adb_revisions db @ rs"
    and rs: "\<forall>r\<in>set rs. rv_artifact_id r = af_id b" "linear_log [] rs" "af_current_revision_id b = log_head rs"
    and ids: "keyed rv_id (adb_revisions db @ rs)"
  shows "linear_history db'"
proof -
  have new_rows: "filter (\<lambda>r. rv_artifact_id r = af_id b) rs = rs" and old_rows: "af_id a \<noteq> af_id b \<Longrightarrow> filter (\<lambda>r. rv_artifact_id r = af_id a) rs = []" for a
    using rs(1) by (auto simp: filter_id_conv filter_empty_conv)
  have rows: "revisions_of (af_id b) db' = rs" "a \<in> set (adb_artifacts db) \<Longrightarrow> revisions_of (af_id a) db' = revisions_of (af_id a) db" for a
    using unknown_no_revisions [OF db new] new new_rows old_rows [of a]
    by (auto simp: revisions_of_def revs known_artifact_def image_iff)
  have known: "known_artifact db' x \<longleftrightarrow> known_artifact db x \<or> x = af_id b" for x by (auto simp: known_artifact_def arts)
  show ?thesis
    unfolding linear_history_def known
    using db new rs ids rows by (simp add: linear_history_def arts revs keyed_append1 known_artifact_def list_all_iff ball_Un)
qed

lemma insert_artifactD:
  assumes "insert_artifact now a db = Some db'"
  shows "db' = db\<lparr>adb_artifacts := adb_artifacts db @ [artifact_params now a]\<rparr>" and "\<not> known_artifact db (af_id a)"
  using assms by (auto simp: insert_artifact_def known_artifact_def split: if_splits)

lemma insert_revisionD:
  assumes "insert_revision r db = Some db'"
  shows "db' = db\<lparr>adb_revisions := adb_revisions db @ [r]\<rparr>" and "rv_id r \<notin> rv_id ` set (adb_revisions db)"
  using assms by (auto simp: insert_revision_def split: if_splits)

lemma artifact_params_simps [simp]:
  "af_id (artifact_params now a) = af_id a" "af_current_revision_id (artifact_params now a) = af_current_revision_id a"
  by (simp_all add: artifact_params_def)

lemma insert_artifact_linear:
  assumes "linear_history db" and "insert_artifact now a db = Some db'" and "af_current_revision_id a = None"
  shows "linear_history db'"
  by (rule linear_history_extend [OF assms(1), where rs = "[]" and b = "artifact_params now a"])
    (use assms insert_artifactD [OF assms(2)] in \<open>simp_all add: log_head_def linear_history_def\<close>)

lemma set_current_ids [simp]: "map af_id (adb_artifacts (set_current_revision now aid rid db)) = map af_id (adb_artifacts db)"
  unfolding set_current_revision_def by (simp add: map_key_sql_update)

lemma known_set_current [simp]: "known_artifact (set_current_revision now aid rid db) x = known_artifact db x"
  by (simp only: known_artifact_def set_map [symmetric] set_current_ids)

text \<open>One more revision at the end of a log, with the artifact pointing at it.\<close>

lemma insert_revision_linear:
  assumes "linear_history db" and "get_artifact_sync aid db = Some a" and "insert_revision r db = Some db1"
    and "rv_artifact_id r = aid" and "follows (revisions_of aid db) r"
  shows "linear_history (set_current_revision now aid (rv_id r) db1)"
proof -
  note db1 = insert_revisionD(1) [OF assms(3)] and new = insert_revisionD(2) [OF assms(3)]
  define db2 where "db2 = set_current_revision now aid (rv_id r) db1"
  have revs: "revisions_of x db2 = revisions_of x db @ (if x = aid then [r] else [])" for x
    using assms(4) by (simp add: db2_def db1 set_current_revision_def revisions_of_def)
  have ids: "map af_id (adb_artifacts db2) = map af_id (adb_artifacts db)"
    by (simp add: db2_def db1)
  have known: "known_artifact db2 x = known_artifact db x" for x
    by (simp add: db2_def db1) (simp add: known_artifact_def)
  have heads: "linear_log [] (revisions_of (af_id b) db2) \<and> af_current_revision_id b = log_head (revisions_of (af_id b) db2)"
    if "b \<in> set (adb_artifacts db2)" for b
  proof -
    from that obtain c where c: "c \<in> set (adb_artifacts db)" "af_id b = af_id c"
        "af_current_revision_id b = (if af_id c = aid then Some (rv_id r) else af_current_revision_id c)"
      by (auto simp: db2_def db1 set_current_revision_def set_sql_update split: if_splits)
    with linear_historyD [OF assms(1) c(1)] assms(5) show ?thesis by (auto simp: revs linear_log_append log_head_def)
  qed
  have "adb_revisions db2 = adb_revisions db @ [r]" by (simp add: db2_def db1 set_current_revision_def)
  with assms(1,4) ids known new heads get_artifact_linear(5) [OF assms(1,2)]
  show ?thesis by (auto simp: linear_history_def keyed_def list_all_iff simp flip: db2_def)
qed

lemma create_with_initial_cases:
  obtains "fst (create_with_initial_revision_sync now a r db) = db"
  | b where "\<not> known_artifact db (af_id b)" "adb_artifacts (fst (create_with_initial_revision_sync now a r db)) = adb_artifacts db @ [b]"
    "adb_revisions (fst (create_with_initial_revision_sync now a r db)) = adb_revisions db @ [r]"
    "rv_artifact_id r = af_id b" "rv_revision_number r = 1" "is_initial r" "rv_id r \<notin> rv_id ` set (adb_revisions db)"
    "af_current_revision_id b = Some (rv_id r)"
proof (cases "\<exists>x. snd (create_with_initial_revision_sync now a r db) = Inr x")
  case False
  then show ?thesis using that(1) by (auto simp: create_with_initial_revision_sync_def Let_def split: option.splits if_splits)
next
  case True
  let ?a = "a\<lparr>af_current_revision_id := Some (rv_id r)\<rparr>"
  from True obtain db1 db2 where ins: "rv_artifact_id r = af_id a" "rv_revision_number r = 1" "is_initial r"
      "insert_artifact now ?a db = Some db1" "insert_revision r db1 = Some db2"
      "fst (create_with_initial_revision_sync now a r db) = db2"
    by (auto simp: create_with_initial_revision_sync_def Let_def split: option.splits if_splits)
  show ?thesis
    by (rule that(2) [of "artifact_params now ?a"])
      (use insert_artifactD [OF ins(4)] insert_revisionD [OF ins(5)] ins in simp_all)
qed

lemma create_with_initial_linear:
  assumes "linear_history db"
  shows "linear_history (fst (create_with_initial_revision_sync now a r db))"
proof (rule create_with_initial_cases [of now a r db])
  fix b
  assume b: "\<not> known_artifact db (af_id b)" "adb_artifacts (fst (create_with_initial_revision_sync now a r db)) = adb_artifacts db @ [b]"
    "adb_revisions (fst (create_with_initial_revision_sync now a r db)) = adb_revisions db @ [r]"
    "rv_artifact_id r = af_id b" "rv_revision_number r = 1" "is_initial r" "rv_id r \<notin> rv_id ` set (adb_revisions db)"
    "af_current_revision_id b = Some (rv_id r)"
  show ?thesis
    by (rule linear_history_extend [OF assms b(1-3)])
      (use assms b in \<open>simp_all add: log_head_def linear_history_def keyed_append1 follows_def is_initial_def\<close>)
qed (simp add: assms)

lemma belongs_linear:
  assumes "linear_history db" and "belongs aid (Some i) db"
  shows "i \<in> rv_id ` set (revisions_of aid db)"
  using assms by (auto simp: belongs_def revisions_of_def split: option.splits dest!: fetchone_SomeD)

lemma append_revisionD:
  assumes "append_revision_sync now aid r expected db = (db', Inr x)"
  obtains a db1 where "x = r" "rv_artifact_id r = aid" "get_artifact_sync aid db = Some a" "af_current_revision_id a = Some expected"
    "rv_parent_revision_id r = Some expected" "rv_revision_number r = max_number aid db + 1"
    "belongs aid (rv_rollback_from_revision_id r) db" "insert_revision r db = Some db1" "db' = set_current_revision now aid (rv_id r) db1"
  using assms by (auto simp: append_revision_sync_def split: option.splits if_splits)

lemma append_revision_follows:
  assumes "linear_history db" and "append_revision_sync now aid r expected db = (db', Inr x)"
  shows "follows (revisions_of aid db) r"
proof -
  from assms(2) obtain a where a: "get_artifact_sync aid db = Some a" "af_current_revision_id a = Some expected"
      "rv_parent_revision_id r = Some expected" "rv_revision_number r = max_number aid db + 1"
      "belongs aid (rv_rollback_from_revision_id r) db"
    by (rule append_revisionD)
  have "log_head (revisions_of aid db) = Some expected"
    using get_artifact_linear(3) [OF assms(1) a(1)] a(2) by simp
  moreover have "case rv_rollback_from_revision_id r of None \<Rightarrow> True | Some i \<Rightarrow> i \<in> rv_id ` set (revisions_of aid db)"
    using belongs_linear [OF assms(1)] a(5) by (auto split: option.split)
  ultimately show ?thesis
    using a(3,4) max_number_linear [OF get_artifact_linear(2) [OF assms(1) a(1)]]
    by (auto simp: follows_def log_head_def split: if_splits)
qed

lemma append_revision_refused: "append_revision_sync now aid r expected db = (db', Inl e) \<Longrightarrow> db' = db"
  by (auto simp: append_revision_sync_def split: option.splits if_splits)

lemma append_revision_linear:
  assumes "linear_history db"
  shows "linear_history (fst (append_revision_sync now aid r expected db))"
proof (cases "append_revision_sync now aid r expected db")
  case (Pair db' x)
  show ?thesis
  proof (cases x)
    case (Inl e)
    with Pair assms append_revision_refused show ?thesis by fastforce
  next
    case (Inr y)
    with Pair have ok: "append_revision_sync now aid r expected db = (db', Inr y)" by simp
    from ok obtain a db1 where "rv_artifact_id r = aid" "get_artifact_sync aid db = Some a"
        "insert_revision r db = Some db1" "db' = set_current_revision now aid (rv_id r) db1" by (rule append_revisionD)
    with append_revision_follows [OF assms ok] show ?thesis
      by (simp add: ok insert_revision_linear [OF assms])
  qed
qed

text \<open>Of an artifact without a revision the log is empty, so the backfill inserts its first revision.\<close>

lemma backfill_cases:
  assumes "linear_history db"
  obtains "fst (commit_initial_revision_backfill_sync now aid r db) = db"
  | a db1 where "get_artifact_sync aid db = Some a" "insert_revision r db = Some db1" "rv_artifact_id r = aid"
    "follows (revisions_of aid db) r" "af_current_revision_id a = None"
    "commit_initial_revision_backfill_sync now aid r db = (set_current_revision now aid (rv_id r) db1, Inr r)"
proof (cases "get_artifact_sync aid db")
  case None
  with that(1) show ?thesis by (simp add: commit_initial_revision_backfill_sync_def)
next
  case (Some a)
  note lin = get_artifact_linear [OF assms Some]
  show ?thesis
  proof (cases "af_current_revision_id a")
    case None
    then have rows: "revisions_of aid db = []" using lin(3) by (simp add: log_head_def split: if_splits)
    then have none: "fetchone (\<lambda>x. rv_artifact_id x = aid \<and> rv_revision_number x = 1) (adb_revisions db) = None"
      by (auto simp: fetchone_None_iff revisions_of_def filter_empty_conv)
    show ?thesis
    proof (cases "rv_artifact_id r = aid \<and> rv_revision_number r = 1 \<and> is_initial r \<and> insert_revision r db \<noteq> None")
      case True
      then obtain db1 where "insert_revision r db = Some db1" by blast
      with True Some None none rows show ?thesis
        by (intro that(2)) (simp_all add: commit_initial_revision_backfill_sync_def follows_def is_initial_def)
    next
      case False
      with Some None none show ?thesis
        by (intro that(1)) (auto simp: commit_initial_revision_backfill_sync_def)
    qed
  next
    case cur: (Some rid)
    with that(1) Some show ?thesis by (simp add: commit_initial_revision_backfill_sync_def split: option.splits)
  qed
qed

lemma backfill_linear:
  assumes "linear_history db"
  shows "linear_history (fst (commit_initial_revision_backfill_sync now aid r db))"
  by (rule backfill_cases [OF assms, of now aid r]) (simp_all add: assms insert_revision_linear [OF assms])

text \<open>Deletion: no other log refers into the one that goes.\<close>

lemma linear_history_refs:
  assumes "linear_history db" and "r \<in> set (adb_revisions db)"
    and "rv_parent_revision_id r = Some i \<or> rv_rollback_from_revision_id r = Some i"
  shows "i \<in> rv_id ` set (revisions_of (rv_artifact_id r) db)"
proof -
  from assms(1,2) obtain a where a: "a \<in> set (adb_artifacts db)" "af_id a = rv_artifact_id r"
    by (fastforce simp: linear_history_def list_all_iff known_artifact_def)
  have "r \<in> set (revisions_of (af_id a) db)" using assms(2) a(2) by (simp add: revisions_of_def)
  with linear_log_refs [OF linear_historyD(1) [OF assms(1) a(1)]] assms(3) a(2) show ?thesis by fastforce
qed

lemma cut_foreign:
  assumes "linear_history db" and "r \<in> set (adb_revisions db)" and "rv_artifact_id r \<noteq> aid"
    and "x = rv_parent_revision_id r \<or> x = rv_rollback_from_revision_id r"
  shows "cut (map rv_id (revisions_of aid db)) x = x"
proof (cases x)
  case (Some i)
  with assms linear_history_refs have i: "i \<in> rv_id ` set (revisions_of (rv_artifact_id r) db)" by metis
  have "i \<notin> rv_id ` set (revisions_of aid db)"
  proof
    assume "i \<in> rv_id ` set (revisions_of aid db)"
    with i obtain s t where "s \<in> set (revisions_of (rv_artifact_id r) db)" "t \<in> set (revisions_of aid db)" "rv_id s = rv_id t"
      by (metis imageE)
    with assms(1,3) keyed_eqD [of rv_id "adb_revisions db" s t] show False by (auto simp: linear_history_def revisions_of_def)
  qed
  with Some show ?thesis by (simp add: cut_def)
qed (simp add: cut_def)

lemmas cut_foreign_refs = cut_foreign [OF _ _ _ disjI1 [OF refl]] cut_foreign [OF _ _ _ disjI2 [OF refl]]

lemma delete_rows_revisions:
  assumes "linear_history db"
  shows "adb_revisions (delete_artifact_rows aid db) = filter (\<lambda>r. rv_artifact_id r \<noteq> aid) (adb_revisions db)"
proof (cases "known_artifact db aid")
  case True
  have "map (\<lambda>r. r\<lparr>rv_parent_revision_id := cut (map rv_id (revisions_of aid db)) (rv_parent_revision_id r),
       rv_rollback_from_revision_id := cut (map rv_id (revisions_of aid db)) (rv_rollback_from_revision_id r)\<rparr>)
       (filter (\<lambda>r. rv_artifact_id r \<noteq> aid) (adb_revisions db)) = filter (\<lambda>r. rv_artifact_id r \<noteq> aid) (adb_revisions db)"
    by (rule map_idI) (simp add: cut_foreign_refs [OF assms])
  with True show ?thesis
    by (simp add: delete_artifact_rows_def Let_def known_artifact_def revisions_of_def sql_delete_def)
next
  case False
  then have "filter (\<lambda>r. rv_artifact_id r \<noteq> aid) (adb_revisions db) = adb_revisions db"
    using unknown_no_revisions [OF assms False] by (auto simp: revisions_of_def filter_empty_conv filter_id_conv)
  with False show ?thesis
    by (auto simp: delete_artifact_rows_def Let_def known_artifact_def sql_delete_def cut_def map_idI split: option.split)
qed

lemma delete_rows_artifacts: "adb_artifacts (delete_artifact_rows aid db) = filter (\<lambda>a. af_id a \<noteq> aid) (adb_artifacts db)"
  by (simp add: delete_artifact_rows_def Let_def sql_delete_def)

lemma delete_rows_linear:
  assumes "linear_history db"
  shows "linear_history (delete_artifact_rows aid db)"
proof -
  have rows: "revisions_of x (delete_artifact_rows aid db) = revisions_of x db" if "x \<noteq> aid" for x
    using that by (auto simp: revisions_of_def delete_rows_revisions [OF assms] intro: filter_cong)
  have known: "known_artifact (delete_artifact_rows aid db) x \<longleftrightarrow> known_artifact db x \<and> x \<noteq> aid" for x
    by (auto simp: known_artifact_def delete_rows_artifacts)
  show ?thesis
    unfolding linear_history_def known
    using assms rows by (auto simp: linear_history_def delete_rows_revisions [OF assms] delete_rows_artifacts keyed_filter list_all_iff)
qed

section \<open>The active publication\<close>

lemma one_active_cong: "adb_published db' = adb_published db \<Longrightarrow> one_active db' = one_active db"
  by (simp add: one_active_def)

text \<open>Updates that keep identifiers and can only revoke or detach.\<close>

definition only_revokes :: "PublishedArtifact \<Rightarrow> PublishedArtifact \<Rightarrow> bool" where
  "only_revokes p q \<longleftrightarrow> pa_publish_id q = pa_publish_id p \<and>
     (pa_status q = ACTIVE \<and> pa_artifact_id q \<noteq> None \<longrightarrow> pa_status p = ACTIVE \<and> pa_artifact_id q = pa_artifact_id p)"

lemma only_revokes_refl [simp]: "only_revokes p p"
  by (simp add: only_revokes_def)

lemma active_rows_map:
  assumes "\<And>p. only_revokes p (f p)" and "keyed pa_artifact_id (filter (\<lambda>p. pa_status p = ACTIVE \<and> pa_artifact_id p \<noteq> None) ps)"
  shows "keyed pa_artifact_id (filter (\<lambda>p. pa_status p = ACTIVE \<and> pa_artifact_id p \<noteq> None) (map f ps))"
  using assms(2)
proof (induction ps)
  case (Cons p ps)
  let ?live = "\<lambda>p. pa_status p = ACTIVE \<and> pa_artifact_id p \<noteq> None"
  have step: "?live (f q) \<Longrightarrow> ?live q \<and> pa_artifact_id (f q) = pa_artifact_id q" for q
    using assms(1) [of q] by (auto simp: only_revokes_def)
  have sub: "pa_artifact_id ` set (filter ?live (map f ps)) \<subseteq> pa_artifact_id ` set (filter ?live ps)"
  proof
    fix x assume "x \<in> pa_artifact_id ` set (filter ?live (map f ps))"
    then obtain q where "q \<in> set ps" "?live (f q)" "x = pa_artifact_id (f q)" by auto
    with step [of q] show "x \<in> pa_artifact_id ` set (filter ?live ps)" by auto
  qed
  have IH: "keyed pa_artifact_id (filter ?live (map f ps))"
    using Cons by (auto simp: keyed_def split: if_splits)
  show ?case
  proof (cases "?live (f p)")
    case True
    then have "pa_artifact_id (f p) \<notin> pa_artifact_id ` set (filter ?live ps)"
      using step [of p] Cons.prems by (auto simp: keyed_def)
    with sub IH True show ?thesis by (auto simp: keyed_def)
  next
    case False
    then have "filter ?live (map f (p # ps)) = filter ?live (map f ps)" by auto
    with IH show ?thesis by (simp only:)
  qed
qed (simp add: keyed_def)

lemma one_active_map:
  assumes "one_active db" and "\<And>p. only_revokes p (f p)" and "adb_published db' = map f (adb_published db)"
  shows "one_active db'"
proof -
  have "map pa_publish_id (adb_published db') = map pa_publish_id (adb_published db)"
    using assms(2) by (simp add: assms(3) only_revokes_def)
  with active_rows_map [OF assms(2)] assms(1,3) show ?thesis by (auto simp only: one_active_def keyed_def)
qed

lemma one_active_filter:
  assumes "one_active db" and "adb_published db' = filter P (adb_published db)"
  shows "one_active db'"
proof -
  have swap: "filter (\<lambda>p. pa_status p = ACTIVE \<and> pa_artifact_id p \<noteq> None) (filter P ps) =
      filter P (filter (\<lambda>p. pa_status p = ACTIVE \<and> pa_artifact_id p \<noteq> None) ps)" for ps
    unfolding filter_filter by (rule filter_cong) auto
  show ?thesis using assms by (simp only: one_active_def swap keyed_filter simp_thms)
qed

lemma insert_published_one_active:
  assumes "one_active db" and "insert_published now p db = Some db'"
  shows "one_active db'"
  using assms
  by (auto simp: one_active_def insert_published_def keyed_append1 published_params_def active_of_def list_ex_iff
      split: if_splits option.splits)

lemma revoke_active_one_active: "one_active db \<Longrightarrow> one_active (revoke_active now aid db)"
  by (erule one_active_map [where f = "\<lambda>p. if active_of aid p then p\<lparr>pa_status := REVOKED, pa_revoked_at := Some now\<rparr> else p"])
    (auto simp: only_revokes_def revoke_active_def sql_update_def)

lemma delete_rows_one_active:
  assumes "one_active db"
  shows "one_active (delete_artifact_rows aid db)"
proof -
  let ?gone = "if aid \<in> af_id ` set (adb_artifacts db) then map rv_id (filter (\<lambda>r. rv_artifact_id r = aid) (adb_revisions db)) else []"
  have "only_revokes p (p\<lparr>pa_artifact_id := (if aid \<in> af_id ` set (adb_artifacts db) \<and> pa_artifact_id p = Some aid then None else pa_artifact_id p),
      pa_published_revision_id := cut ?gone (pa_published_revision_id p)\<rparr>)" for p
    by (simp add: only_revokes_def)
  then show ?thesis
    by (rule one_active_map [OF assms]) (simp add: delete_artifact_rows_def Let_def)
qed

end
