(* ===== verification/Artifact_Log.thy ===== *)
theory Artifact_Log
  imports Artifact_History
begin

text \<open>
  The abstract specification of the registry: a table of logs. Every transaction is a step on this table, and the invariants of
  \<open>Artifact_History\<close> hold in every database that transactions reach. The locale \<open>revision_log\<close> is what the
  service relies on when it appends under optimistic locking.
\<close>

section \<open>Transactions\<close>

text \<open>
  The transactions that write, with any arguments. \<open>create_artifact_sync\<close> is called for artifacts without a revision.
\<close>

inductive artifact_tx :: "artifact_db \<Rightarrow> artifact_db \<Rightarrow> bool" where
  tx_create: "af_current_revision_id a = None \<Longrightarrow> artifact_tx db (fst (create_artifact_sync now a db))"
| tx_create_initial: "artifact_tx db (fst (create_with_initial_revision_sync now a r db))"
| tx_update: "artifact_tx db (fst (update_artifact_sync now a db))"
| tx_delete: "artifact_tx db (fst (delete_artifact_sync aid db))"
| tx_delete_graph: "artifact_tx db (fst (delete_artifact_graph_sync aid db))"
| tx_append: "artifact_tx db (fst (append_revision_sync now aid r expected db))"
| tx_backfill: "artifact_tx db (fst (commit_initial_revision_backfill_sync now aid r db))"
| tx_publish: "artifact_tx db (fst (register_revision_publish_sync now p aid rid expected db))"
| tx_register: "artifact_tx db (fst (register_published_sync now p revoke db))"
| tx_revoke: "artifact_tx db (fst (revoke_published_sync now aid db))"
| tx_unpublish: "artifact_tx db (fst (delete_published_by_artifact_sync aid db))"

section \<open>The table of logs\<close>

definition logs :: "artifact_db \<Rightarrow> string \<rightharpoonup> ArtifactRevision list" where
  "logs db aid = (if known_artifact db aid then Some (revisions_of aid db) else None)"

inductive log_step :: "(string \<rightharpoonup> ArtifactRevision list) \<Rightarrow> (string \<rightharpoonup> ArtifactRevision list) \<Rightarrow> bool" where
  log_idle: "log_step t t"
| log_open: "t aid = None \<Longrightarrow> length rs \<le> 1 \<Longrightarrow> linear_log [] rs \<Longrightarrow> log_step t (t(aid \<mapsto> rs))"
| log_extend: "t aid = Some rs \<Longrightarrow> rv_artifact_id r = aid \<Longrightarrow> follows rs r \<Longrightarrow> rv_id r \<notin> rv_id ` set rs \<Longrightarrow>
     log_step t (t(aid \<mapsto> rs @ [r]))"
| log_close: "log_step t (t(aid := None))"

lemma same_heads_refl [simp]: "same_heads xs xs"
  by (simp add: same_heads_def)

lemma same_logs:
  assumes "same_heads (adb_artifacts db') (adb_artifacts db)" and "adb_revisions db' = adb_revisions db"
  shows "logs db' = logs db"
  using same_heads_ids [OF assms(1)] assms(2)
  by (auto simp: logs_def known_artifact_def revisions_of_def fun_eq_iff simp flip: set_map)

text \<open>Transactions that change neither logs nor heads.\<close>

definition heads_kept :: "artifact_db \<Rightarrow> artifact_db \<Rightarrow> bool" where
  "heads_kept db db' \<longleftrightarrow> same_heads (adb_artifacts db') (adb_artifacts db) \<and> adb_revisions db' = adb_revisions db"

lemma heads_kept_refl [simp]: "heads_kept db db"
  by (simp add: heads_kept_def)

lemma heads_kept_update: "heads_kept db (fst (update_artifact_sync now a db))"
  by (auto simp: heads_kept_def update_artifact_sync_def updated_artifact_def intro!: same_heads_update split: option.split)

lemma heads_kept_mark: "heads_kept db (mark_published now aid db')" if "heads_kept db db'"
proof -
  have "same_heads (adb_artifacts (mark_published now aid db')) (adb_artifacts db')"
    unfolding mark_published_def by (auto intro: same_heads_update)
  with that show ?thesis by (simp add: heads_kept_def same_heads_def mark_published_def)
qed

lemma heads_kept_insert_published: "insert_published now p db' = Some db2 \<Longrightarrow> heads_kept db db' \<Longrightarrow> heads_kept db db2"
  by (auto simp: insert_published_def heads_kept_def split: if_splits)

lemma heads_kept_revoke: "heads_kept db (revoke_active now aid db)"
  by (simp add: heads_kept_def revoke_active_def)

lemmas heads_kept_intros = heads_kept_mark heads_kept_insert_published heads_kept_revoke

lemma heads_kept_publish: "heads_kept db (fst (register_revision_publish_sync now p aid rid expected db))"
  by (auto simp: register_revision_publish_sync_def Let_def intro: heads_kept_intros split: option.split)

lemma heads_kept_register: "heads_kept db (fst (register_published_sync now p revoke db))"
  by (auto simp: register_published_sync_def Let_def intro: heads_kept_intros heads_kept_insert_published [OF _ heads_kept_refl]
      split: option.splits)

lemma heads_kept_revoked: "heads_kept db (fst (revoke_published_sync now aid db))"
  by (auto simp: revoke_published_sync_def Let_def heads_kept_def split: option.split)

lemma heads_kept_unpublish: "heads_kept db (fst (delete_published_by_artifact_sync aid db))"
  by (simp add: delete_published_by_artifact_sync_def heads_kept_def)

lemma heads_kept_step: "heads_kept db db' \<Longrightarrow> log_step (logs db) (logs db')"
  using same_logs by (metis heads_kept_def log_idle)

lemma heads_kept_linear: "heads_kept db db' \<Longrightarrow> linear_history db \<Longrightarrow> linear_history db'"
  using linear_history_cong [of db' db] by (simp add: heads_kept_def)

section \<open>Each transaction is a step\<close>

lemma open_log:
  assumes "linear_history db" and "\<not> known_artifact db (af_id b)" and "adb_artifacts db' = adb_artifacts db @ [b]"
    and "adb_revisions db' = adb_revisions db @ rs" and "\<forall>r\<in>set rs. rv_artifact_id r = af_id b" "linear_log [] rs" "length rs \<le> 1"
  shows "log_step (logs db) (logs db')"
proof -
  have rs: "filter (\<lambda>r. rv_artifact_id r = x) rs = (if x = af_id b then rs else [])" for x
    using assms(5) by (auto simp: filter_id_conv filter_empty_conv)
  have "logs db' = (logs db)(af_id b \<mapsto> rs)"
    using unknown_no_revisions [OF assms(1,2)] rs
    by (auto simp: logs_def known_artifact_def revisions_of_def assms(3,4) fun_eq_iff)
  moreover have "logs db (af_id b) = None" using assms(2) by (simp add: logs_def)
  ultimately show ?thesis using assms(6,7) by (simp add: log_open)
qed

lemma create_artifact_step:
  assumes "linear_history db"
  shows "log_step (logs db) (logs (fst (create_artifact_sync now a db)))"
proof (cases "insert_artifact now a db")
  case (Some db')
  then show ?thesis
    using insert_artifactD [OF Some] open_log [OF assms, of "artifact_params now a" db' "[]"] by (simp add: create_artifact_sync_def)
qed (simp add: create_artifact_sync_def log_idle)

lemma create_with_initial_step:
  assumes "linear_history db"
  shows "log_step (logs db) (logs (fst (create_with_initial_revision_sync now a r db)))"
proof (rule create_with_initial_cases [of now a r db])
  fix b
  assume b: "\<not> known_artifact db (af_id b)" "adb_artifacts (fst (create_with_initial_revision_sync now a r db)) = adb_artifacts db @ [b]"
    "adb_revisions (fst (create_with_initial_revision_sync now a r db)) = adb_revisions db @ [r]"
    "rv_artifact_id r = af_id b" "rv_revision_number r = 1" "is_initial r"
  show ?thesis
    using b(4-6) by (intro open_log [OF assms b(1-3)]) (simp_all add: follows_def is_initial_def)
qed (simp add: log_idle)

lemma extend_log:
  assumes "linear_history db" and "get_artifact_sync aid db = Some a" and "insert_revision r db = Some db1"
    and "rv_artifact_id r = aid" and "follows (revisions_of aid db) r"
  shows "log_step (logs db) (logs (set_current_revision now aid (rv_id r) db1))"
proof -
  note ins = insert_revisionD [OF assms(3)]
  have known: "known_artifact db aid" by (rule get_artifact_linear(5) [OF assms(1,2)])
  have "known_artifact (set_current_revision now aid (rv_id r) db1) x = known_artifact db x" for x
    by (simp add: ins(1)) (simp add: known_artifact_def)
  then have "logs (set_current_revision now aid (rv_id r) db1) = (logs db)(aid \<mapsto> revisions_of aid db @ [r])"
    using known assms(4) by (auto simp: logs_def revisions_of_def set_current_revision_def ins(1) fun_eq_iff)
  moreover have "rv_id r \<notin> rv_id ` set (revisions_of aid db)" using ins(2) by (auto simp: revisions_of_def)
  ultimately show ?thesis
    using known assms(4,5) by (simp add: log_extend logs_def)
qed

lemma append_step:
  assumes "linear_history db"
  shows "log_step (logs db) (logs (fst (append_revision_sync now aid r expected db)))"
proof (cases "append_revision_sync now aid r expected db" rule: prod.exhaust)
  case (Pair db' x)
  show ?thesis
  proof (cases x)
    case (Inl e)
    with Pair append_revision_refused have "db' = db" by blast
    with Pair show ?thesis by (simp add: log_idle)
  next
    case (Inr y)
    with Pair have ok: "append_revision_sync now aid r expected db = (db', Inr y)" by simp
    from ok obtain a db1 where "rv_artifact_id r = aid" "get_artifact_sync aid db = Some a"
        "insert_revision r db = Some db1" "db' = set_current_revision now aid (rv_id r) db1" by (rule append_revisionD)
    with append_revision_follows [OF assms ok] show ?thesis
      by (simp add: ok extend_log [OF assms])
  qed
qed

lemma backfill_step:
  assumes "linear_history db"
  shows "log_step (logs db) (logs (fst (commit_initial_revision_backfill_sync now aid r db)))"
  by (rule backfill_cases [OF assms, of now aid r]) (simp_all add: log_idle extend_log [OF assms])

lemma delete_rows_step:
  assumes "linear_history db"
  shows "log_step (logs db) (logs (delete_artifact_rows aid db))"
proof -
  have "logs (delete_artifact_rows aid db) = (logs db)(aid := None)"
    by (auto simp: logs_def known_artifact_def revisions_of_def delete_rows_artifacts delete_rows_revisions [OF assms] fun_eq_iff
        intro: filter_cong)
  then show ?thesis by (simp add: log_close)
qed

section \<open>Invariants\<close>

lemmas kept_transactions = heads_kept_update heads_kept_publish heads_kept_register heads_kept_revoked heads_kept_unpublish

lemmas kept_linear = kept_transactions [THEN heads_kept_linear]

lemmas kept_log_step = kept_transactions [THEN heads_kept_step]

lemma tx_linear_step:
  assumes "artifact_tx db db'" and "linear_history db"
  shows "linear_history db' \<and> log_step (logs db) (logs db')"
  using assms
proof (induction rule: artifact_tx.induct)
  case (tx_create a db now)
  have "linear_history (fst (create_artifact_sync now a db))"
    using insert_artifact_linear [OF tx_create(2)] tx_create by (auto simp: create_artifact_sync_def split: option.split)
  with tx_create create_artifact_step show ?case by blast
next
  case (tx_delete_graph db aid)
  let ?u = "fst (delete_published_by_artifact_sync aid db)"
  have "linear_history ?u" by (rule heads_kept_linear [OF heads_kept_unpublish tx_delete_graph])
  moreover have "logs ?u = logs db" using same_logs [of ?u db] heads_kept_unpublish [of db aid] by (simp add: heads_kept_def)
  ultimately have "linear_history (delete_artifact_rows aid ?u)" "log_step (logs db) (logs (delete_artifact_rows aid ?u))"
    using delete_rows_linear delete_rows_step by metis+
  then show ?case by (simp add: delete_artifact_graph_sync_def Let_def)
qed (simp_all add: create_with_initial_linear create_with_initial_step append_revision_linear append_step backfill_linear backfill_step
    delete_artifact_sync_def delete_rows_linear delete_rows_step kept_linear kept_log_step)

lemma mark_published_one_active: "one_active db \<Longrightarrow> one_active (mark_published now aid db)"
  by (simp add: one_active_def mark_published_def)

lemma unpublish_one_active: "one_active db \<Longrightarrow> one_active (fst (delete_published_by_artifact_sync aid db))"
  by (erule one_active_filter) (simp add: delete_published_by_artifact_sync_def sql_delete_def)

lemma revoke_published_one_active:
  assumes "one_active db"
  shows "one_active (fst (revoke_published_sync now aid db))"
proof (cases "get_active_publish_sync aid db")
  case (Some p)
  have "only_revokes x (if pa_publish_id x = pa_publish_id p then x\<lparr>pa_status := REVOKED, pa_revoked_at := Some now\<rparr> else x)" for x
    by (simp add: only_revokes_def)
  then show ?thesis
    by (rule one_active_map [OF assms]) (simp add: revoke_published_sync_def Some Let_def sql_update_def)
qed (simp add: revoke_published_sync_def assms)

lemmas one_active_intros = mark_published_one_active insert_published_one_active revoke_active_one_active

lemma publish_one_active: "one_active db \<Longrightarrow> one_active (fst (register_revision_publish_sync now p aid rid expected db))"
  by (auto simp: register_revision_publish_sync_def Let_def intro: one_active_intros split: option.split)

lemma register_one_active: "one_active db \<Longrightarrow> one_active (fst (register_published_sync now p revoke db))"
  by (auto simp: register_published_sync_def Let_def intro: one_active_intros split: option.splits)

lemma published_kept:
  "adb_published (fst (create_artifact_sync now a db)) = adb_published db"
  "adb_published (fst (create_with_initial_revision_sync now a r db)) = adb_published db"
  "adb_published (fst (update_artifact_sync now a db)) = adb_published db"
  "adb_published (fst (append_revision_sync now aid r expected db)) = adb_published db"
  "adb_published (fst (commit_initial_revision_backfill_sync now aid r db)) = adb_published db"
  by (auto simp: create_artifact_sync_def create_with_initial_revision_sync_def update_artifact_sync_def append_revision_sync_def
      commit_initial_revision_backfill_sync_def insert_artifact_def insert_revision_def set_current_revision_def Let_def
      split: option.splits if_splits)

lemma tx_one_active:
  assumes "artifact_tx db db'" and "one_active db"
  shows "one_active db'"
  using assms
  by (induction rule: artifact_tx.induct)
    (simp_all add: one_active_cong [OF published_kept(1)] one_active_cong [OF published_kept(2)] one_active_cong [OF published_kept(3)]
      one_active_cong [OF published_kept(4)] one_active_cong [OF published_kept(5)] delete_artifact_sync_def delete_artifact_graph_sync_def
      Let_def delete_rows_one_active unpublish_one_active revoke_published_one_active publish_one_active register_one_active)

lemma reachable_invariants:
  assumes "artifact_tx\<^sup>*\<^sup>* db db'"
  shows "linear_history db \<Longrightarrow> linear_history db'" and "one_active db \<Longrightarrow> one_active db'"
  using assms by (induction rule: rtranclp_induct) (auto simp: tx_linear_step intro: tx_one_active)

lemma empty_invariants: "linear_history empty_artifact_db" "one_active empty_artifact_db"
  by (simp_all add: linear_history_def one_active_def empty_artifact_db_def keyed_def)

section \<open>Appending under optimistic locking\<close>

text \<open>
  What a writer may rely on: logs only grow until they are removed, no revision occurs twice, and an append is committed at the end
  of the log that it expects, or leaves everything as it was.
\<close>

locale revision_log =
  fixes ok :: "'db \<Rightarrow> bool"
    and step :: "'db \<Rightarrow> 'db \<Rightarrow> bool"
    and log :: "'db \<Rightarrow> string \<Rightarrow> string list option"
    and append :: "datetime \<Rightarrow> string \<Rightarrow> 'r \<Rightarrow> string \<Rightarrow> 'db \<Rightarrow> 'db \<times> ('e + 'r)"
    and key :: "'r \<Rightarrow> string"
  assumes step_ok: "step db db' \<Longrightarrow> ok db \<Longrightarrow> ok db'"
    and step_grows: "step db db' \<Longrightarrow> ok db \<Longrightarrow> log db aid = Some xs \<Longrightarrow> log db' aid = None \<or> (\<exists>ys. log db' aid = Some (xs @ ys))"
    and log_distinct: "ok db \<Longrightarrow> log db aid = Some xs \<Longrightarrow> distinct xs"
    and append_step: "step db (fst (append now aid r e db))"
    and append_committed: "ok db \<Longrightarrow> append now aid r e db = (db', Inr x) \<Longrightarrow>
          x = r \<and> (\<exists>xs. log db aid = Some (xs @ [e]) \<and> log db' aid = Some (xs @ [e, key r]))"
    and append_refused: "append now aid r e db = (db', Inl err) \<Longrightarrow> db' = db"
begin

lemma kept_grows:
  assumes "(\<lambda>d d'. step d d' \<and> log d' aid \<noteq> None)\<^sup>*\<^sup>* db db'" and "ok db" and "log db aid = Some xs"
  shows "ok db' \<and> (\<exists>ys. log db' aid = Some (xs @ ys))"
  using assms
proof (induction rule: rtranclp_induct)
  case (step y z)
  then obtain ys where "ok y" "log y aid = Some (xs @ ys)" by blast
  with step.hyps(2) step_grows [of y z aid "xs @ ys"] step_ok [of y z] show ?case
    by auto
qed simp

lemma superseded_refused:
  assumes "ok db" and "log db aid = Some (xs @ e # y # ys)"
  shows "\<exists>err. append now aid r e db = (db, Inl err)"
proof (cases "append now aid r e db")
  case (Pair db' res)
  show ?thesis
  proof (cases res)
    case (Inl err)
    with Pair append_refused show ?thesis by blast
  next
    case (Inr x)
    with Pair append_committed [OF assms(1)] obtain zs where "log db aid = Some (zs @ [e])" by blast
    with assms(2) have same: "zs @ [e] = xs @ e # y # ys" by simp
    have "e = last (xs @ e # y # ys)" by (metis last_snoc same)
    with log_distinct [OF assms] show ?thesis by auto
  qed
qed

theorem no_lost_append:
  assumes "ok db" and "append now aid r e db = (db1, Inr x)" and "(\<lambda>d d'. step d d' \<and> log d' aid \<noteq> None)\<^sup>*\<^sup>* db1 db2"
  shows "(\<exists>xs ys. log db1 aid = Some (xs @ [e, key r]) \<and> log db2 aid = Some (xs @ [e, key r] @ ys)) \<and>
    (\<exists>err. append now' aid r' e db2 = (db2, Inl err))"
proof -
  obtain xs where xs: "log db1 aid = Some (xs @ [e, key r])" using append_committed [OF assms(1,2)] by blast
  have "ok db1" using append_step [of db now aid r e] step_ok assms(1,2) by (metis fst_conv)
  from kept_grows [OF assms(3) this xs] obtain ys where ys: "ok db2" "log db2 aid = Some (xs @ [e, key r] @ ys)" by auto
  with superseded_refused [of db2 aid xs e "key r" ys now' r'] xs show ?thesis by auto
qed

end

text \<open>The registry keeps this contract.\<close>

definition revision_ids :: "artifact_db \<Rightarrow> string \<Rightarrow> string list option" where
  "revision_ids db aid = map_option (map rv_id) (logs db aid)"

lemma log_step_grows:
  assumes "log_step t t'" and "t aid = Some rs"
  shows "t' aid = None \<or> (\<exists>ys. t' aid = Some (rs @ ys))"
  using assms by (cases rule: log_step.cases) auto

lemma append_revision_ids:
  assumes "linear_history db" and "append_revision_sync now aid r e db = (db', Inr x)"
  shows "x = r \<and> (\<exists>xs. revision_ids db aid = Some (xs @ [e]) \<and> revision_ids db' aid = Some (xs @ [e, rv_id r]))"
proof -
  from assms(2) obtain a db1 where a: "x = r" "rv_artifact_id r = aid" "get_artifact_sync aid db = Some a" "af_current_revision_id a = Some e"
      "insert_revision r db = Some db1" "db' = set_current_revision now aid (rv_id r) db1" by (rule append_revisionD)
  note lin = get_artifact_linear [OF assms(1) a(3)]
  from lin(3) a(4) have ne: "revisions_of aid db \<noteq> []" and e: "rv_id (last (revisions_of aid db)) = e" by (auto simp: log_head_def split: if_splits)
  have "known_artifact db' aid"
    using lin(5) by (simp add: a(6) insert_revisionD(1) [OF a(5)]) (simp add: known_artifact_def)
  moreover have "revisions_of aid db' = revisions_of aid db @ [r]"
    using a(2) by (simp add: a(6) insert_revisionD(1) [OF a(5)] revisions_of_def set_current_revision_def)
  moreover have "map rv_id (revisions_of aid db) = map rv_id (butlast (revisions_of aid db)) @ [e]"
    by (metis append_butlast_last_id e list.simps(8) list.simps(9) map_append ne)
  ultimately show ?thesis using a(1) lin(5) by (simp add: revision_ids_def logs_def)
qed

interpretation registry_log: revision_log linear_history artifact_tx revision_ids append_revision_sync rv_id
proof
  show "artifact_tx db db' \<Longrightarrow> linear_history db \<Longrightarrow> linear_history db'" for db db'
    by (simp add: tx_linear_step)
  show "revision_ids db' aid = None \<or> (\<exists>ys. revision_ids db' aid = Some (xs @ ys))"
    if "artifact_tx db db'" "linear_history db" "revision_ids db aid = Some xs" for db db' aid xs
    using that tx_linear_step [OF that(1,2)] log_step_grows [of "logs db" "logs db'" aid] by (auto simp: revision_ids_def)
  show "distinct xs" if "linear_history db" "revision_ids db aid = Some xs" for db aid xs
    using that keyed_filter [of rv_id "adb_revisions db"] by (auto simp: revision_ids_def logs_def revisions_of_def linear_history_def keyed_def split: if_splits)
  show "artifact_tx db (fst (append_revision_sync now aid r e db))" for db now aid r e by (rule tx_append)
qed (use append_revision_ids append_revision_refused in blast)+

end
