(* ===== verification/Artifact_Store.thy ===== *)
theory Artifact_Store
  imports Artifact_Domain
begin

text \<open>
  The content store (\<open>app/infrastructure/artifact/content_store.py\<close>) over a file system: a table from absolute paths, as
  lists of components, to what \<open>lstat\<close> finds there. A method runs as one step, so that what was checked still holds when it is
  used. Temporary files are gone when a method ends. The \<open>uuid4\<close> names are arguments.
\<close>

section \<open>Files\<close>

datatype entry = EFile bytes | EDir | ELink

type_synonym path = "string list"

type_synonym files = "(path \<times> entry) list"

definition lstat :: "files \<Rightarrow> path \<Rightarrow> entry option" where
  "lstat fs p = map_of fs p"

definition fs_put :: "path \<Rightarrow> entry \<Rightarrow> files \<Rightarrow> files" where
  "fs_put p e fs = filter (\<lambda>x. fst x \<noteq> p) fs @ [(p, e)]"

definition fs_remove :: "path \<Rightarrow> files \<Rightarrow> files" where
  "fs_remove p fs = filter (\<lambda>x. fst x \<noteq> p) fs"

record content_store =
  cs_root :: path
  cs_attachments_root :: path
  cs_workspace_root :: path
  cs_max_bytes :: int
  cs_publish_max_bytes :: int
  cs_inline_max_bytes :: int

section \<open>References\<close>

datatype ref_scheme = SItem | SPublished | SAttachment | SWorkspace

definition id_char :: "char \<Rightarrow> bool" where
  "id_char c \<longleftrightarrow> alnum c \<or> c = CHR ''_'' \<or> c = CHR ''-''"

definition filename_char :: "char \<Rightarrow> bool" where
  "filename_char c \<longleftrightarrow> (of_char c :: nat) > 31 \<and> (of_char c :: nat) \<noteq> 127 \<and>
     c \<notin> {CHR ''/'', char_of (92 :: nat), CHR ''<'', CHR ''>'', CHR '':'', char_of (34 :: nat), CHR ''|'', CHR ''?'', CHR ''*''}"

definition validate_id :: "string \<Rightarrow> bool" where
  "validate_id s \<longleftrightarrow> s \<noteq> [] \<and> re_line id_char s"

definition validate_filename :: "string \<Rightarrow> bool" where
  "validate_filename s \<longleftrightarrow> s \<noteq> [] \<and> s \<notin> {''.'', ''..''} \<and> re_line filename_char s"

definition validate_workspace_path :: "string \<Rightarrow> artifact_error + path" where
  "validate_workspace_path rel =
     (if rel = [] then Inl ArtifactValidationError
      else if hd rel = CHR ''/'' then Inl ArtifactValidationError
      else if char_of (92 :: nat) \<in> set rel then Inl ArtifactValidationError
      else if list_ex (\<lambda>p. p \<in> {'''', ''.'', ''..''}) (split_slash rel) then Inl ArtifactValidationError
      else Inr (split_slash rel))"

definition parse_scheme_parts :: "ref_scheme \<Rightarrow> string \<Rightarrow> artifact_error + path" where
  "parse_scheme_parts scheme rest =
     (if scheme = SWorkspace then validate_workspace_path rest
      else if CHR ''/'' \<notin> set rest then Inl ArtifactValidationError
      else (let (id_part, file_part) = split_once rest in
            if \<not> validate_id id_part \<or> \<not> validate_filename file_part \<or> CHR ''/'' \<in> set file_part
            then Inl ArtifactValidationError else Inr [id_part, file_part]))"

definition parse_ref :: "string \<Rightarrow> artifact_error + (ref_scheme \<times> path)" where
  "parse_ref ref =
     (let parts = (\<lambda>scheme n. case parse_scheme_parts scheme (drop n ref) of Inl e \<Rightarrow> Inl e | Inr ps \<Rightarrow> Inr (scheme, ps)) in
      if starts_with ''item:'' ref then parts SItem 5
      else if starts_with ''published:'' ref then parts SPublished 10
      else if starts_with ''attachment:'' ref then parts SAttachment 11
      else if starts_with ''workspace:'' ref then parts SWorkspace 10
      else Inl ArtifactValidationError)"

definition root_for_scheme :: "content_store \<Rightarrow> ref_scheme \<Rightarrow> path" where
  "root_for_scheme cs scheme =
     (case scheme of
        SItem \<Rightarrow> cs_root cs @ [''items'']
      | SPublished \<Rightarrow> cs_root cs @ [''published'']
      | SAttachment \<Rightarrow> cs_attachments_root cs
      | SWorkspace \<Rightarrow> cs_workspace_root cs)"

text \<open>The extension of the server's file name: from the last dot, if it is not the first character.\<close>

definition safe_ext :: "string \<Rightarrow> string" where
  "safe_ext filename =
     (let after = length (takeWhile (\<lambda>c. c \<noteq> CHR ''.'') (rev filename)); idx = length filename - after - 1 in
      if CHR ''.'' \<notin> set filename \<or> idx = 0 then []
      else (let ext = py_lower (drop idx filename);
                body = (if drop 1 ext \<noteq> [] \<and> last ext = newline then butlast (drop 1 ext) else drop 1 ext)
            in if 1 \<le> length body \<and> length body \<le> 8 \<and> list_all alnum body then ext else []))"

definition server_filename :: "string \<Rightarrow> string \<Rightarrow> string" where
  "server_filename hex filename = hex @ safe_ext filename"

section \<open>Resolution\<close>

definition check_root :: "files \<Rightarrow> path \<Rightarrow> artifact_error option" where
  "check_root fs root =
     (case lstat fs root of
        None \<Rightarrow> Some ArtifactContentUnavailableError
      | Some ELink \<Rightarrow> Some ArtifactValidationError
      | Some (EFile _) \<Rightarrow> Some ArtifactValidationError
      | Some EDir \<Rightarrow> None)"

fun walk_existing :: "files \<Rightarrow> path \<Rightarrow> path \<Rightarrow> artifact_error + path" where
  "walk_existing fs cur [] = Inr cur"
| "walk_existing fs cur (p # ps) =
     (case lstat fs (cur @ [p]) of
        None \<Rightarrow> Inl ArtifactContentUnavailableError
      | Some ELink \<Rightarrow> Inl ArtifactValidationError
      | Some (EFile _) \<Rightarrow> if ps = [] then Inr (cur @ [p]) else Inl ArtifactValidationError
      | Some EDir \<Rightarrow> if ps = [] then Inl ArtifactValidationError else walk_existing fs (cur @ [p]) ps)"

definition resolve_existing :: "files \<Rightarrow> path \<Rightarrow> path \<Rightarrow> artifact_error + path" where
  "resolve_existing fs root parts = (case check_root fs root of Some e \<Rightarrow> Inl e | None \<Rightarrow> walk_existing fs root parts)"

fun walk_dirs :: "files \<Rightarrow> path \<Rightarrow> path \<Rightarrow> artifact_error + path" where
  "walk_dirs fs cur [] = Inr cur"
| "walk_dirs fs cur (p # ps) =
     (case lstat fs (cur @ [p]) of
        None \<Rightarrow> Inl ArtifactContentUnavailableError
      | Some EDir \<Rightarrow> walk_dirs fs (cur @ [p]) ps
      | Some _ \<Rightarrow> Inl ArtifactValidationError)"

definition resolve_parent :: "files \<Rightarrow> path \<Rightarrow> path \<Rightarrow> artifact_error + path" where
  "resolve_parent fs root parts = (case check_root fs root of Some e \<Rightarrow> Inl e | None \<Rightarrow> walk_dirs fs root (butlast parts))"

text \<open>\<open>mkdir\<close> without parents raises when the parent is not a directory.\<close>

definition ensure_safe_dir :: "path \<Rightarrow> files \<Rightarrow> artifact_error + files" where
  "ensure_safe_dir p fs =
     (case lstat fs p of
        None \<Rightarrow> if lstat fs (butlast p) = Some EDir then Inr (fs_put p EDir fs) else Inl StoreOSError
      | Some EDir \<Rightarrow> Inr fs
      | Some _ \<Rightarrow> Inl ArtifactValidationError)"

section \<open>Reading and writing\<close>

definition file_bytes :: "files \<Rightarrow> path \<Rightarrow> bytes option" where
  "file_bytes fs p = (case lstat fs p of Some (EFile d) \<Rightarrow> Some d | _ \<Rightarrow> None)"

definition read_sync :: "files \<Rightarrow> path \<Rightarrow> path \<Rightarrow> int \<Rightarrow> artifact_error + bytes" where
  "read_sync fs root parts max_bytes =
     (if max_bytes < 0 then Inl ArtifactValidationError
      else (case resolve_existing fs root parts of
              Inl e \<Rightarrow> Inl e
            | Inr p \<Rightarrow> (case file_bytes fs p of
                          None \<Rightarrow> Inl ArtifactContentUnavailableError
                        | Some d \<Rightarrow> if int (length d) > max_bytes then Inl ArtifactValidationError else Inr d)))"

definition store_read :: "content_store \<Rightarrow> files \<Rightarrow> string \<Rightarrow> int \<Rightarrow> artifact_error + bytes" where
  "store_read cs fs ref max_bytes =
     (case parse_ref ref of
        Inl e \<Rightarrow> Inl e
      | Inr (scheme, parts) \<Rightarrow> read_sync fs (root_for_scheme cs scheme) parts max_bytes)"

definition probe :: "content_store \<Rightarrow> files \<Rightarrow> string \<Rightarrow> artifact_error option" where
  "probe cs fs ref =
     (case parse_ref ref of
        Inl e \<Rightarrow> Some e
      | Inr (scheme, parts) \<Rightarrow>
          (case resolve_existing fs (root_for_scheme cs scheme) parts of Inl e \<Rightarrow> Some e | Inr _ \<Rightarrow> None))"

definition write_file_bounded :: "path \<Rightarrow> string \<Rightarrow> bytes \<Rightarrow> int \<Rightarrow> files \<Rightarrow> artifact_error + files" where
  "write_file_bounded dir name data max_bytes fs =
     (case lstat fs (dir @ [name]) of
        Some ELink \<Rightarrow> Inl ArtifactValidationError
      | Some EDir \<Rightarrow> if data \<noteq> [] \<and> int (length data) > max_bytes then Inl ArtifactValidationError else Inl StoreOSError
      | _ \<Rightarrow> if data \<noteq> [] \<and> int (length data) > max_bytes then Inl ArtifactValidationError
             else Inr (fs_put (dir @ [name]) (EFile data) fs))"

text \<open>The two directories are made one after the other; what was made stays when a later step fails.\<close>

definition in_safe_dir :: "path \<Rightarrow> string \<Rightarrow> (files \<Rightarrow> artifact_error + files) \<Rightarrow> files \<Rightarrow> files \<times> (artifact_error + unit)" where
  "in_safe_dir base sub f fs =
     (case ensure_safe_dir base fs of
        Inl e \<Rightarrow> (fs, Inl e)
      | Inr fs1 \<Rightarrow>
          (case ensure_safe_dir (base @ [sub]) fs1 of
             Inl e \<Rightarrow> (fs1, Inl e)
           | Inr fs2 \<Rightarrow> (case f fs2 of Inl e \<Rightarrow> (fs2, Inl e) | Inr fs3 \<Rightarrow> (fs3, Inr ()))))"

definition write_atomic ::
  "content_store \<Rightarrow> string \<Rightarrow> string \<Rightarrow> string \<Rightarrow> bytes \<Rightarrow> files \<Rightarrow> files \<times> (artifact_error + string)" where
  "write_atomic cs hex artifact_id filename data fs =
     (if \<not> validate_id artifact_id then (fs, Inl ArtifactValidationError)
      else (let name = server_filename hex filename; base = cs_root cs @ [''items''] in
            case in_safe_dir base artifact_id (write_file_bounded (base @ [artifact_id]) name data (cs_max_bytes cs)) fs of
              (fs', Inl e) \<Rightarrow> (fs', Inl e)
            | (fs', Inr _) \<Rightarrow> (fs', Inr (''item:'' @ artifact_id @ ''/'' @ name))))"

definition delete_owned :: "content_store \<Rightarrow> string \<Rightarrow> files \<Rightarrow> files \<times> (artifact_error + bool)" where
  "delete_owned cs ref fs =
     (case parse_ref ref of
        Inl e \<Rightarrow> (fs, Inl e)
      | Inr (scheme, parts) \<Rightarrow>
          if scheme \<notin> {SItem, SPublished} then (fs, Inl ArtifactValidationError)
          else (case resolve_parent fs (root_for_scheme cs scheme) parts of
                  Inl ArtifactContentUnavailableError \<Rightarrow> (fs, Inr False)
                | Inl e \<Rightarrow> (fs, Inl e)
                | Inr parent \<Rightarrow>
                    (case lstat fs (parent @ [last parts]) of
                       None \<Rightarrow> (fs, Inr False)
                     | Some (EFile _) \<Rightarrow> (fs_remove (parent @ [last parts]) fs, Inr True)
                     | Some _ \<Rightarrow> (fs, Inl ArtifactValidationError))))"

definition stream_copy :: "path \<Rightarrow> path \<Rightarrow> string \<Rightarrow> int \<Rightarrow> files \<Rightarrow> artifact_error + files" where
  "stream_copy src dir name max_bytes fs =
     (case file_bytes fs src of
        None \<Rightarrow> Inl ArtifactContentUnavailableError
      | Some d \<Rightarrow> write_file_bounded dir name d max_bytes fs)"

definition parse_typed_ref :: "content_store \<Rightarrow> string \<Rightarrow> ref_scheme \<Rightarrow> artifact_error + (path \<times> path)" where
  "parse_typed_ref cs ref expected =
     (case parse_ref ref of
        Inl e \<Rightarrow> Inl e
      | Inr (scheme, parts) \<Rightarrow> if scheme \<noteq> expected then Inl ArtifactValidationError else Inr (root_for_scheme cs scheme, parts))"

definition materialize_source ::
  "content_store \<Rightarrow> string \<Rightarrow> ArtifactSource \<Rightarrow> string \<Rightarrow> string \<Rightarrow> files \<Rightarrow> files \<times> (artifact_error + string)" where
  "materialize_source cs hex kind source_ref artifact_id fs =
     (if \<not> validate_id artifact_id then (fs, Inl ArtifactValidationError)
      else (case (case kind of
                    TASK_ATTACHMENT \<Rightarrow> parse_typed_ref cs source_ref SAttachment
                  | TASK_ARTIFACT \<Rightarrow> parse_typed_ref cs source_ref SWorkspace
                  | _ \<Rightarrow> Inl ArtifactValidationError) of
              Inl e \<Rightarrow> (fs, Inl e)
            | Inr (root, parts) \<Rightarrow>
                (case resolve_existing fs root parts of
                   Inl e \<Rightarrow> (fs, Inl e)
                 | Inr src \<Rightarrow>
                     (let name = server_filename hex (last parts); base = cs_root cs @ [''items''] in
                      case in_safe_dir base artifact_id (stream_copy src (base @ [artifact_id]) name (cs_max_bytes cs)) fs of
                        (fs', Inl e) \<Rightarrow> (fs', Inl e)
                      | (fs', Inr _) \<Rightarrow> (fs', Inr (''item:'' @ artifact_id @ ''/'' @ name))))))"

definition copy_to_publish_snapshot ::
  "content_store \<Rightarrow> string \<Rightarrow> string \<Rightarrow> string \<Rightarrow> string option \<Rightarrow> files \<Rightarrow> files \<times> (artifact_error + string)" where
  "copy_to_publish_snapshot cs hex src_ref publish_id inline fs =
     (let base = cs_root cs @ [''published'']; dir = base @ [publish_id];
          finish = (\<lambda>f name. case in_safe_dir base publish_id f fs of
                      (fs', Inl e) \<Rightarrow> (fs', Inl e)
                    | (fs', Inr _) \<Rightarrow> (fs', Inr (''published:'' @ publish_id @ ''/'' @ name))) in
      if \<not> validate_id publish_id then (fs, Inl ArtifactValidationError)
      else case inline of
        Some t \<Rightarrow>
          (let data = utf8_encode t; name = server_filename hex ''snapshot.txt'' in
           finish (\<lambda>fs'. if int (length data) > cs_inline_max_bytes cs then Inl ArtifactValidationError
                         else write_file_bounded dir name data (cs_inline_max_bytes cs) fs') name)
      | None \<Rightarrow>
          (case parse_ref src_ref of
             Inl e \<Rightarrow> finish (\<lambda>fs'. Inl e) []
           | Inr (scheme, parts) \<Rightarrow>
               finish (\<lambda>fs'. if scheme \<noteq> SItem then Inl ArtifactValidationError
                             else (case resolve_existing fs' (root_for_scheme cs scheme) parts of
                                     Inl e \<Rightarrow> Inl e
                                   | Inr src \<Rightarrow> stream_copy src dir (server_filename hex (last parts)) (cs_publish_max_bytes cs) fs'))
                 (server_filename hex (last parts))))"

text \<open>The files of a snapshot directory are removed one by one; anything else in it stops the removal.\<close>

fun unlink_all :: "(path \<times> entry) list \<Rightarrow> files \<Rightarrow> files \<times> artifact_error option" where
  "unlink_all [] fs = (fs, None)"
| "unlink_all ((p, e) # es) fs = (case e of EFile _ \<Rightarrow> unlink_all es (fs_remove p fs) | _ \<Rightarrow> (fs, Some ArtifactValidationError))"

definition dir_entries :: "path \<Rightarrow> files \<Rightarrow> (path \<times> entry) list" where
  "dir_entries dir fs = filter (\<lambda>x. fst x \<noteq> [] \<and> butlast (fst x) = dir) fs"

definition delete_publish_snapshot :: "content_store \<Rightarrow> string \<Rightarrow> files \<Rightarrow> files \<times> artifact_error option" where
  "delete_publish_snapshot cs publish_id fs =
     (let dir = cs_root cs @ [''published'', publish_id] in
      if \<not> validate_id publish_id then (fs, Some ArtifactValidationError)
      else case lstat fs dir of
        None \<Rightarrow> (fs, None)
      | Some EDir \<Rightarrow>
          (case unlink_all (dir_entries dir fs) fs of
             (fs', Some e) \<Rightarrow> (fs', Some e)
           | (fs', None) \<Rightarrow> (fs_remove dir fs', None))
      | Some _ \<Rightarrow> (fs, Some ArtifactValidationError))"

end
