(* ===== verification/Artifact_Service.thy ===== *)
theory Artifact_Service
  imports Artifact_Store Artifact_Registry Information_Flow
begin

text \<open>
  The artifact service (\<open>app/application/artifact_service.py\<close>) over the registry and the content store. The clock, the
  identifiers and file names that are drawn, the hash and the callbacks come from the environment; what other requests do between
  the reads of an operation and its registry transaction is \<open>en_meanwhile\<close>. Audit records and log lines are left
  out.
\<close>

section \<open>Environment\<close>

record ArtifactServiceConfig =
  acf_max_bytes :: int
  acf_publish_max_bytes :: int
  acf_inline_max_bytes :: int
  acf_published_base_url :: string
  acf_diff_max_bytes :: int

record art_state =
  ast_db :: artifact_db
  ast_files :: files

record art_env =
  en_config :: ArtifactServiceConfig
  en_store :: content_store
  en_flow :: InformationFlowService
  en_hash :: "bytes \<Rightarrow> string"
  en_now :: datetime
  en_artifact_id :: string
  en_revision_id :: string
  en_publish_id :: string
  en_hex :: string
  en_hex2 :: string
  en_meanwhile :: "art_state \<Rightarrow> art_state"
  en_delete_attachment :: "(string \<Rightarrow> bool) option"
  en_task_session :: "(string \<Rightarrow> string option) option"
  en_task_exists :: "(string \<Rightarrow> bool option) option"

type_synonym 'a asv_result = "art_state \<times> (artifact_error + 'a)"

definition read_ref :: "art_env \<Rightarrow> art_state \<Rightarrow> string \<Rightarrow> int \<Rightarrow> artifact_error + bytes" where
  "read_ref env st ref n = store_read (en_store env) (ast_files st) ref n"

definition write_ref :: "art_env \<Rightarrow> string \<Rightarrow> string \<Rightarrow> string \<Rightarrow> bytes \<Rightarrow> art_state \<Rightarrow> string asv_result" where
  "write_ref env hex aid name data st =
     (let (fs, r) = write_atomic (en_store env) hex aid name data (ast_files st) in (st\<lparr>ast_files := fs\<rparr>, r))"

definition best_effort_delete :: "art_env \<Rightarrow> string option \<Rightarrow> art_state \<Rightarrow> art_state" where
  "best_effort_delete env ref st =
     (case ref of None \<Rightarrow> st | Some r \<Rightarrow> st\<lparr>ast_files := fst (delete_owned (en_store env) r (ast_files st))\<rparr>)"

definition sha256_checksum :: "art_env \<Rightarrow> bytes \<Rightarrow> string" where
  "sha256_checksum env data = ''sha256:'' @ en_hash env data"

section \<open>Kinds\<close>

definition before_semicolon :: "string \<Rightarrow> string" where
  "before_semicolon s = takeWhile (\<lambda>c. c \<noteq> CHR '';'') s"

definition mime_to_kind :: "(string \<times> ArtifactKind) list" where
  "mime_to_kind =
     [(''text/markdown'', MARKDOWN), (''text/x-markdown'', MARKDOWN), (''text/html'', HTML), (''text/csv'', CSV),
      (''application/json'', JSON), (''application/pdf'', PDF)]"

definition kind_from_mime :: "string \<Rightarrow> ArtifactKind" where
  "kind_from_mime mime =
     (let n = py_strip (before_semicolon (py_lower mime)) in
      case map_of mime_to_kind n of
        Some k \<Rightarrow> k
      | None \<Rightarrow> if starts_with ''image/'' n then IMAGE else if starts_with ''text/'' n then TEXT else OTHER)"

text \<open>The extensions, longest first.\<close>

definition ext_to_mime :: "(string \<times> string) list" where
  "ext_to_mime =
     [(''.markdown'', ''text/markdown''), (''.html'', ''text/html''), (''.json'', ''application/json''),
      (''.htm'', ''text/html''), (''.csv'', ''text/csv''), (''.pdf'', ''application/pdf''), (''.txt'', ''text/plain''),
      (''.md'', ''text/markdown'')]"

definition resolve_mime :: "string \<Rightarrow> string \<Rightarrow> string" where
  "resolve_mime name mime =
     (if mime \<noteq> [] then mime
      else (case find (\<lambda>(ext, m). ends_with ext (py_lower name)) ext_to_mime of None \<Rightarrow> [] | Some (_, m) \<Rightarrow> m))"

definition ensure_nonempty_mime :: "string \<Rightarrow> ArtifactKind \<Rightarrow> string" where
  "ensure_nonempty_mime mime kind =
     (if mime \<noteq> [] then mime else if is_text_kind kind then ''text/plain'' else ''application/octet-stream'')"

definition is_owned_ref :: "string option \<Rightarrow> bool" where
  "is_owned_ref r = (case r of None \<Rightarrow> False | Some s \<Rightarrow> starts_with ''item:'' s)"

definition is_source_ref :: "string option \<Rightarrow> bool" where
  "is_source_ref r = (case r of None \<Rightarrow> False | Some s \<Rightarrow> starts_with ''attachment:'' s \<or> starts_with ''workspace:'' s)"

section \<open>Patches\<close>

record text_patch_item =
  tp_search :: string
  tp_replace :: string
  tp_mode :: string

definition validate_text_patch :: "text_patch_item list \<Rightarrow> bool" where
  "validate_text_patch patch \<longleftrightarrow>
     1 \<le> length patch \<and> length patch \<le> 100 \<and>
     list_all (\<lambda>i. tp_search i \<noteq> [] \<and> tp_mode i \<in> {''first'', ''all''}) patch"

fun replace_first :: "string \<Rightarrow> string \<Rightarrow> string \<Rightarrow> string option" where
  "replace_first search repl [] = (if search = [] then Some repl else None)"
| "replace_first search repl (c # cs) =
     (if starts_with search (c # cs) then Some (repl @ drop (length search) (c # cs))
      else map_option ((#) c) (replace_first search repl cs))"

fun apply_text_patch :: "string \<Rightarrow> text_patch_item list \<Rightarrow> string option" where
  "apply_text_patch text [] = Some text"
| "apply_text_patch text (i # is) =
     (if tp_mode i = ''first''
      then (case replace_first (tp_search i) (tp_replace i) text of None \<Rightarrow> None | Some t \<Rightarrow> apply_text_patch t is)
      else if \<not> py_in (tp_search i) text then None
      else apply_text_patch (py_replace (tp_search i) (tp_replace i) text) is)"

section \<open>Reading\<close>

definition svc_get_artifact :: "string \<Rightarrow> art_state \<Rightarrow> artifact_error + Artifact" where
  "svc_get_artifact aid st = (case get_artifact_sync aid (ast_db st) of None \<Rightarrow> Inl ArtifactNotFoundError | Some a \<Rightarrow> Inr a)"

definition stored_bytes :: "art_env \<Rightarrow> art_state \<Rightarrow> string option \<Rightarrow> string option \<Rightarrow> int \<Rightarrow> artifact_error + bytes" where
  "stored_bytes env st inline ref n =
     (case inline of
        Some t \<Rightarrow> Inr (utf8_encode t)
      | None \<Rightarrow> (case ref of None \<Rightarrow> Inl ArtifactContentUnavailableError | Some r \<Rightarrow> read_ref env st r n))"

definition revision_bytes :: "art_env \<Rightarrow> art_state \<Rightarrow> ArtifactRevision \<Rightarrow> int \<Rightarrow> artifact_error + bytes" where
  "revision_bytes env st r n = stored_bytes env st (rv_inline_content r) (rv_content_ref r) n"

definition get_content :: "art_env \<Rightarrow> string \<Rightarrow> art_state \<Rightarrow> artifact_error + (bytes \<times> Artifact)" where
  "get_content env aid st =
     (case get_artifact_sync aid (ast_db st) of
        None \<Rightarrow> Inl ArtifactNotFoundError
      | Some a \<Rightarrow>
          map_sum id (\<lambda>d. (d, a))
            (case af_current_revision_id a of
               Some rid \<Rightarrow> (case get_revision_sync aid rid (ast_db st) of
                              None \<Rightarrow> Inl ArtifactContentUnavailableError
                            | Some r \<Rightarrow> revision_bytes env st r (acf_max_bytes (en_config env)))
             | None \<Rightarrow> stored_bytes env st (af_inline_content a) (af_content_ref a) (acf_max_bytes (en_config env))))"

definition get_current_revision :: "string \<Rightarrow> art_state \<Rightarrow> artifact_error + ArtifactRevision" where
  "get_current_revision aid st =
     (case get_artifact_sync aid (ast_db st) of
        None \<Rightarrow> Inl ArtifactNotFoundError
      | Some a \<Rightarrow> (case af_current_revision_id a of
                     None \<Rightarrow> Inl ArtifactMigrationIncompleteError
                   | Some rid \<Rightarrow> (case get_revision_sync aid rid (ast_db st) of
                                    None \<Rightarrow> Inl ArtifactRevisionNotFoundError | Some r \<Rightarrow> Inr r)))"

definition svc_get_revision :: "string \<Rightarrow> string \<Rightarrow> art_state \<Rightarrow> artifact_error + ArtifactRevision" where
  "svc_get_revision aid rid st =
     (if (case get_artifact_sync aid (ast_db st) of None \<Rightarrow> False | Some a \<Rightarrow> af_current_revision_id a = None)
      then Inl ArtifactMigrationIncompleteError
      else (case get_revision_sync aid rid (ast_db st) of None \<Rightarrow> Inl ArtifactRevisionNotFoundError | Some r \<Rightarrow> Inr r))"

definition verified_bytes :: "art_env \<Rightarrow> art_state \<Rightarrow> ArtifactRevision \<Rightarrow> artifact_error + (bytes \<times> ArtifactRevision)" where
  "verified_bytes env st r =
     (case revision_bytes env st r (acf_max_bytes (en_config env)) of
        Inl e \<Rightarrow> Inl e
      | Inr d \<Rightarrow> if sha256_checksum env d \<noteq> rv_checksum r then Inl ArtifactContentUnavailableError else Inr (d, r))"

definition legacy_revision :: "art_env \<Rightarrow> Artifact \<Rightarrow> ArtifactRevision" where
  "legacy_revision env a =
     \<lparr>rv_id = ''legacy'', rv_artifact_id = af_id a, rv_revision_number = 1, rv_parent_revision_id = None,
      rv_rollback_from_revision_id = None, rv_content_ref = af_content_ref a, rv_inline_content = af_inline_content a,
      rv_size = af_size a, rv_checksum = af_checksum a, rv_mime = af_mime a, rv_kind = af_kind a,
      rv_created_at = (case af_created_at a of None \<Rightarrow> en_now env | Some t \<Rightarrow> t), rv_change_summary = [],
      rv_created_by = af_created_by a, rv_source_session_id = af_source_session_id a, rv_source_run_id = None\<rparr>"

definition get_revision_content ::
  "art_env \<Rightarrow> string \<Rightarrow> string option \<Rightarrow> art_state \<Rightarrow> artifact_error + (bytes \<times> ArtifactRevision)" where
  "get_revision_content env aid rid st =
     (case get_artifact_sync aid (ast_db st) of
        None \<Rightarrow> Inl ArtifactNotFoundError
      | Some a \<Rightarrow>
          (case (rid, af_current_revision_id a) of
             (None, None) \<Rightarrow>
               (case stored_bytes env st (af_inline_content a) (af_content_ref a) (acf_max_bytes (en_config env)) of
                  Inl e \<Rightarrow> Inl e
                | Inr d \<Rightarrow> if valid_revision (legacy_revision env a) then Inr (d, legacy_revision env a) else Inl ArtifactValidationError)
           | (Some _, None) \<Rightarrow> Inl ArtifactMigrationIncompleteError
           | (_, Some cur) \<Rightarrow>
               (case get_revision_sync aid (case rid of None \<Rightarrow> cur | Some i \<Rightarrow> i) (ast_db st) of
                  None \<Rightarrow> Inl ArtifactRevisionNotFoundError
                | Some r \<Rightarrow> verified_bytes env st r)))"

definition read_revision_text :: "art_env \<Rightarrow> art_state \<Rightarrow> ArtifactRevision \<Rightarrow> int \<Rightarrow> artifact_error + string" where
  "read_revision_text env st r n =
     (case rv_inline_content r of
        Some t \<Rightarrow> Inr t
      | None \<Rightarrow> (case rv_content_ref r of
                   None \<Rightarrow> Inl ArtifactContentUnavailableError
                 | Some ref \<Rightarrow> (case read_ref env st ref n of
                                  Inl e \<Rightarrow> Inl e
                                | Inr d \<Rightarrow> (case utf8_decode d of
                                             None \<Rightarrow> Inl ArtifactRevisionValidationError | Some t \<Rightarrow> Inr t))))"

definition derive_publish_sync_state :: "string \<Rightarrow> string \<Rightarrow> art_state \<Rightarrow> string" where
  "derive_publish_sync_state aid rid st =
     (case get_active_publish_sync aid (ast_db st) of
        None \<Rightarrow> ''unpublished''
      | Some p \<Rightarrow> if pa_published_revision_id p = Some rid then ''current'' else ''outdated'')"

definition get_publish_sync_state :: "string \<Rightarrow> art_state \<Rightarrow> artifact_error + string" where
  "get_publish_sync_state aid st =
     (case get_artifact_sync aid (ast_db st) of
        None \<Rightarrow> Inl ArtifactNotFoundError
      | Some a \<Rightarrow> (case af_current_revision_id a of
                     None \<Rightarrow> Inl ArtifactMigrationIncompleteError
                   | Some rid \<Rightarrow> Inr (derive_publish_sync_state aid rid st)))"

definition evaluate_policy :: "art_env \<Rightarrow> Artifact \<Rightarrow> ArtifactPolicyAction \<Rightarrow> bool \<Rightarrow> string option \<Rightarrow> artifact_error option" where
  "evaluate_policy env a action available active =
     (if ao_decision (ArtifactPolicy_evaluate \<lparr>aq_artifact = a, aq_action = action, aq_content_available = available,
           aq_active_publish_checksum = active, aq_publish_max_bytes = acf_publish_max_bytes (en_config env)\<rparr>) = DENY
      then Some (if action = PUBLISH then PublishBlockedError else ArtifactValidationError) else None)"

section \<open>Creation\<close>

record artifact_input =
  ain_name :: string
  ain_kind :: ArtifactKind
  ain_mime :: string
  ain_inline_content :: "string option"
  ain_file_data :: "bytes option"
  ain_filename :: "string option"
  ain_workspace_ref :: "string option"
  ain_source_kind :: ArtifactSource
  ain_source_ref :: "string option"
  ain_source_context_ref :: "string option"
  ain_source_session_id :: "string option"
  ain_source_run_id :: "string option"
  ain_summary :: string
  ain_classification :: "string option"
  ain_labels :: "string list option"
  ain_created_by :: string

definition given :: "'a option \<Rightarrow> nat" where
  "given x = (if x = None then 0 else 1)"

definition name_of_file :: "string option \<Rightarrow> string \<Rightarrow> string" where
  "name_of_file filename name = (if truthy filename then the filename else name)"

text \<open>The content of a new artifact or revision: reference, inline text and bytes, after the file was written.\<close>

type_synonym content = "string option \<times> string option \<times> bytes"

definition workspace_bytes :: "art_env \<Rightarrow> artifact_error \<Rightarrow> string \<Rightarrow> art_state \<Rightarrow> artifact_error + bytes" where
  "workspace_bytes env wrong_scheme ref st =
     (if \<not> starts_with ''workspace:'' ref then Inl wrong_scheme
      else (case read_ref env st ref (acf_max_bytes (en_config env)) of
              Inl e \<Rightarrow> Inl e
            | Inr d \<Rightarrow> if int (length d) > acf_max_bytes (en_config env) then Inl ArtifactTooLargeError else Inr d))"

definition file_content :: "art_env \<Rightarrow> string \<Rightarrow> string \<Rightarrow> bytes \<Rightarrow> art_state \<Rightarrow> content asv_result" where
  "file_content env aid name data st =
     (case write_ref env (en_hex env) aid name data st of
        (st1, Inl e) \<Rightarrow> (st1, Inl e)
      | (st1, Inr ref) \<Rightarrow> (st1, Inr (Some ref, None, data)))"

definition input_content :: "art_env \<Rightarrow> artifact_input \<Rightarrow> art_state \<Rightarrow> content asv_result" where
  "input_content env i st =
     (let aid = en_artifact_id env; name = name_of_file (ain_filename i) (ain_name i) in
      if given (ain_inline_content i) + given (ain_file_data i) + given (ain_workspace_ref i) \<noteq> 1
      then (st, Inl ArtifactValidationError)
      else case ain_inline_content i of
        Some t \<Rightarrow>
          if int (length (utf8_encode t)) > acf_inline_max_bytes (en_config env) then (st, Inl ArtifactTooLargeError)
          else (st, Inr (None, Some t, utf8_encode t))
      | None \<Rightarrow>
          (case ain_file_data i of
             Some d \<Rightarrow>
               if int (length d) > acf_max_bytes (en_config env) then (st, Inl ArtifactTooLargeError)
               else file_content env aid name d st
           | None \<Rightarrow>
               (case workspace_bytes env ArtifactValidationError (the (ain_workspace_ref i)) st of
                  Inl e \<Rightarrow> (st, Inl e)
                | Inr d \<Rightarrow> file_content env aid name d st)))"

definition initial_revision ::
  "art_env \<Rightarrow> string \<Rightarrow> content \<Rightarrow> string \<Rightarrow> ArtifactKind \<Rightarrow> string \<Rightarrow> string \<Rightarrow> string option \<Rightarrow> string option \<Rightarrow> ArtifactRevision" where
  "initial_revision env aid c mime kind summary created_by session run_id =
     (case c of (ref, inline, data) \<Rightarrow>
       \<lparr>rv_id = en_revision_id env, rv_artifact_id = aid, rv_revision_number = 1, rv_parent_revision_id = None,
        rv_rollback_from_revision_id = None, rv_content_ref = ref, rv_inline_content = inline, rv_size = int (length data),
        rv_checksum = sha256_checksum env data, rv_mime = mime, rv_kind = kind, rv_created_at = en_now env,
        rv_change_summary = summary, rv_created_by = created_by, rv_source_session_id = session, rv_source_run_id = run_id\<rparr>)"

text \<open>The registry transaction of a creation, with its compensation.\<close>

definition commit_creation :: "art_env \<Rightarrow> string option \<Rightarrow> Artifact \<Rightarrow> ArtifactRevision \<Rightarrow> art_state \<Rightarrow> Artifact asv_result" where
  "commit_creation env ref a r st =
     (case create_with_initial_revision_sync (en_now env) a r (ast_db st) of
        (db1, Inl e) \<Rightarrow> (best_effort_delete env ref (st\<lparr>ast_db := db1\<rparr>), Inl e)
      | (db1, Inr (a1, _)) \<Rightarrow> (st\<lparr>ast_db := db1\<rparr>, Inr a1))"

definition svc_create_artifact :: "art_env \<Rightarrow> artifact_input \<Rightarrow> art_state \<Rightarrow> Artifact asv_result" where
  "svc_create_artifact env i st =
     (case input_content env i st of
        (st1, Inl e) \<Rightarrow> (st1, Inl e)
      | (st1, Inr (ref, inline, data)) \<Rightarrow>
          (let aid = en_artifact_id env;
               source_ref = (if ain_source_ref i = None \<and> ain_source_kind i \<in> {MANUAL, SESSION} then Some aid else ain_source_ref i);
               a = \<lparr>af_id = aid, af_name = ain_name i, af_kind = ain_kind i, af_mime = ain_mime i, af_content_ref = ref,
                    af_inline_content = inline, af_size = int (length data), af_checksum = sha256_checksum env data,
                    af_source_kind = ain_source_kind i, af_source_ref = (case source_ref of None \<Rightarrow> [] | Some s \<Rightarrow> s),
                    af_source_context_ref = ain_source_context_ref i, af_source_session_id = ain_source_session_id i,
                    af_summary = ain_summary i, af_classification = ain_classification i, af_labels = ain_labels i,
                    af_status = DRAFT, af_created_at = None, af_updated_at = None, af_created_by = ain_created_by i,
                    af_current_revision_id = None\<rparr>;
               r = initial_revision env aid (ref, inline, data) (ain_mime i) (ain_kind i) [] (ain_created_by i)
                     (ain_source_session_id i) (ain_source_run_id i)
           in if \<not> valid_artifact a \<or> \<not> valid_revision r then (st1, Inl ArtifactValidationError)
              else if source_ref = None then (best_effort_delete env ref st1, Inl ArtifactConflictError)
              else commit_creation env ref a r st1))"

section \<open>Edits in place\<close>

record artifact_update =
  aup_name :: "string option"
  aup_summary :: "string option"
  aup_classification :: "string option"
  aup_labels :: "string list option"
  aup_inline_content :: "string option"
  aup_file_data :: "bytes option"
  aup_filename :: "string option"

definition or_old :: "'a option \<Rightarrow> 'a \<Rightarrow> 'a" where
  "or_old new old = (case new of None \<Rightarrow> old | Some x \<Rightarrow> x)"

definition with_metadata :: "art_env \<Rightarrow> artifact_update \<Rightarrow> Artifact \<Rightarrow> Artifact" where
  "with_metadata env u a =
     a\<lparr>af_name := or_old (aup_name u) (af_name a), af_summary := or_old (aup_summary u) (af_summary a),
       af_classification := (if aup_classification u = None then af_classification a else aup_classification u),
       af_labels := (if aup_labels u = None then af_labels a else aup_labels u), af_updated_at := Some (en_now env)\<rparr>"

definition store_update :: "art_env \<Rightarrow> Artifact \<Rightarrow> art_state \<Rightarrow> Artifact asv_result" where
  "store_update env a st = (let (db1, r) = update_artifact_sync (en_now env) a (ast_db st) in (st\<lparr>ast_db := db1\<rparr>, r))"

text \<open>The part inside \<open>try\<close>: the new file, if one was written, and the result.\<close>

definition try_content_update ::
  "art_env \<Rightarrow> artifact_update \<Rightarrow> Artifact \<Rightarrow> art_state \<Rightarrow> art_state \<times> string option \<times> (artifact_error + Artifact)" where
  "try_content_update env u a st =
     (let m = with_metadata env u a;
          store = (\<lambda>temp ref inline data st1.
             let b = m\<lparr>af_content_ref := ref, af_inline_content := inline, af_size := int (length data),
                       af_checksum := sha256_checksum env data\<rparr>
             in if \<not> valid_artifact b then (st1, temp, Inl ArtifactValidationError)
                else (let (st2, r) = store_update env b st1 in (st2, temp, r)))
      in case aup_inline_content u of
           Some t \<Rightarrow>
             if int (length (utf8_encode t)) > acf_inline_max_bytes (en_config env) then (st, None, Inl ArtifactTooLargeError)
             else store None None (Some t) (utf8_encode t) st
         | None \<Rightarrow>
             (let d = the (aup_file_data u) in
              if int (length d) > acf_max_bytes (en_config env) then (st, None, Inl ArtifactTooLargeError)
              else (case write_ref env (en_hex env) (af_id a) (name_of_file (aup_filename u) (af_name m)) d st of
                      (st1, Inl e) \<Rightarrow> (st1, None, Inl e)
                    | (st1, Inr ref) \<Rightarrow> store (Some ref) (Some ref) None d st1)))"

definition finish_content_update ::
  "art_env \<Rightarrow> artifact_update \<Rightarrow> Artifact \<Rightarrow> string option \<Rightarrow> art_state \<Rightarrow> Artifact asv_result" where
  "finish_content_update env u a materialized st =
     (case try_content_update env u a st of
        (st1, temp, Inl e) \<Rightarrow> (best_effort_delete env materialized (best_effort_delete env temp st1), Inl e)
      | (st1, temp, Inr b) \<Rightarrow>
          (let st2 = best_effort_delete env materialized st1;
               old = (if is_owned_ref (af_content_ref a) \<and> af_content_ref a \<noteq> materialized then af_content_ref a else None);
               st3 = best_effort_delete env old st2
           in (if get_active_publish_sync (af_id a) (ast_db st3) = None then st3
               else st3\<lparr>ast_db := fst (revoke_published_sync (en_now env) (af_id a) (ast_db st3))\<rparr>, Inr b)))"

definition svc_update_artifact :: "art_env \<Rightarrow> string \<Rightarrow> artifact_update \<Rightarrow> art_state \<Rightarrow> Artifact asv_result" where
  "svc_update_artifact env aid u st =
     (case get_artifact_sync aid (ast_db st) of
        None \<Rightarrow> (st, Inl ArtifactNotFoundError)
      | Some a \<Rightarrow>
          (case evaluate_policy env a EDIT True None of
             Some e \<Rightarrow> (st, Inl e)
           | None \<Rightarrow>
               if aup_inline_content u = None \<and> aup_file_data u = None then store_update env (with_metadata env u a) st
               else if is_source_ref (af_content_ref a) \<and> aup_file_data u \<noteq> None then
                 (case materialize_source (en_store env) (en_hex2 env) (af_source_kind a) (the (af_content_ref a)) (af_id a) (ast_files st) of
                    (fs, Inl e) \<Rightarrow> (st\<lparr>ast_files := fs\<rparr>, Inl e)
                  | (fs, Inr ref) \<Rightarrow> finish_content_update env u a (Some ref) (st\<lparr>ast_files := fs\<rparr>))
               else finish_content_update env u a None st))"

section \<open>Revisions\<close>

record revision_update =
  rup_inline_content :: "string option"
  rup_file_data :: "bytes option"
  rup_workspace_ref :: "string option"
  rup_text_patch :: "text_patch_item list option"
  rup_change_summary :: string
  rup_kind :: "ArtifactKind option"
  rup_mime :: "string option"

record UpdateRevisionResult =
  ures_content_unchanged :: bool
  ures_publish_sync_state :: string

text \<open>Artifact and current revision, as an edit under optimistic locking reads them.\<close>

definition edit_base :: "art_env \<Rightarrow> string \<Rightarrow> string \<Rightarrow> art_state \<Rightarrow> artifact_error + (Artifact \<times> ArtifactRevision)" where
  "edit_base env aid expected st =
     (case get_artifact_sync aid (ast_db st) of
        None \<Rightarrow> Inl ArtifactNotFoundError
      | Some a \<Rightarrow>
          (case af_current_revision_id a of
             None \<Rightarrow> Inl ArtifactMigrationIncompleteError
           | Some rid \<Rightarrow>
               (case get_revision_sync aid rid (ast_db st) of
                  None \<Rightarrow> Inl ArtifactRevisionNotFoundError
                | Some cur \<Rightarrow>
                    if expected \<noteq> rv_id cur then Inl ArtifactRevisionConflictError
                    else (case evaluate_policy env a EDIT True None of Some e \<Rightarrow> Inl e | None \<Rightarrow> Inr (a, cur)))))"

definition patched_content :: "art_env \<Rightarrow> ArtifactRevision \<Rightarrow> text_patch_item list \<Rightarrow> art_state \<Rightarrow> artifact_error + content" where
  "patched_content env cur patch st =
     (if \<not> is_text_kind (rv_kind cur) \<or> \<not> validate_text_patch patch then Inl ArtifactRevisionValidationError
      else (case read_revision_text env st cur (acf_diff_max_bytes (en_config env)) of
              Inl e \<Rightarrow> Inl e
            | Inr t \<Rightarrow>
                (case apply_text_patch t patch of
                   None \<Rightarrow> Inl ArtifactRevisionValidationError
                 | Some t' \<Rightarrow>
                     if int (length (utf8_encode t')) > acf_inline_max_bytes (en_config env) \<or>
                        int (length (utf8_encode t')) > acf_max_bytes (en_config env)
                     then Inl ArtifactRevisionValidationError
                     else Inr (None, Some t', utf8_encode t'))))"

definition update_content ::
  "art_env \<Rightarrow> string \<Rightarrow> ArtifactRevision \<Rightarrow> revision_update \<Rightarrow> ArtifactKind \<Rightarrow> art_state \<Rightarrow> content asv_result" where
  "update_content env aid cur u kind st =
     (case rup_text_patch u of
        Some patch \<Rightarrow> (st, patched_content env cur patch st)
      | None \<Rightarrow>
          (case rup_inline_content u of
             Some t \<Rightarrow>
               if is_text_kind kind \<and> int (length (utf8_encode t)) > acf_inline_max_bytes (en_config env)
               then (st, Inl ArtifactTooLargeError)
               else (st, Inr (None, Some t, utf8_encode t))
           | None \<Rightarrow>
               (case (case rup_file_data u of
                        Some d \<Rightarrow> if int (length d) > acf_max_bytes (en_config env) then Inl ArtifactTooLargeError else Inr d
                      | None \<Rightarrow> workspace_bytes env ArtifactRevisionValidationError (the (rup_workspace_ref u)) st) of
                  Inl e \<Rightarrow> (st, Inl e)
                | Inr d \<Rightarrow> file_content env aid (''rev-'' @ en_revision_id env) d st)))"

text \<open>The revision is committed after whatever happened meanwhile, or its file is removed again.\<close>

definition commit_revision :: "art_env \<Rightarrow> string \<Rightarrow> string \<Rightarrow> ArtifactRevision \<Rightarrow> ArtifactRevision \<Rightarrow> art_state
     \<Rightarrow> (ArtifactRevision \<times> UpdateRevisionResult) asv_result" where
  "commit_revision env aid expected cur r st =
     (let st1 = en_meanwhile env st in
      case append_revision_sync (en_now env) aid r expected (ast_db st1) of
        (db1, Inl e) \<Rightarrow> (best_effort_delete env (rv_content_ref r) (st1\<lparr>ast_db := db1\<rparr>), Inl e)
      | (db1, Inr c) \<Rightarrow>
          (let st2 = st1\<lparr>ast_db := db1\<rparr> in
           (st2, Inr (c, \<lparr>ures_content_unchanged = (rv_checksum c = rv_checksum cur),
                          ures_publish_sync_state = derive_publish_sync_state aid (rv_id c) st2\<rparr>))))"

definition next_revision :: "art_env \<Rightarrow> ArtifactRevision \<Rightarrow> string option \<Rightarrow> content \<Rightarrow> int \<Rightarrow> string \<Rightarrow> string \<Rightarrow> ArtifactKind \<Rightarrow> string
     \<Rightarrow> ArtifactRevision" where
  "next_revision env cur rollback_from c sz checksum mime kind summary =
     (case c of (ref, inline, data) \<Rightarrow>
       \<lparr>rv_id = en_revision_id env, rv_artifact_id = rv_artifact_id cur, rv_revision_number = rv_revision_number cur + 1,
        rv_parent_revision_id = Some (rv_id cur), rv_rollback_from_revision_id = rollback_from, rv_content_ref = ref,
        rv_inline_content = inline, rv_size = sz, rv_checksum = checksum, rv_mime = mime, rv_kind = kind,
        rv_created_at = en_now env, rv_change_summary = summary, rv_created_by = ''dashboard'',
        rv_source_session_id = rv_source_session_id cur, rv_source_run_id = rv_source_run_id cur\<rparr>)"

definition update_revision :: "art_env \<Rightarrow> string \<Rightarrow> string \<Rightarrow> revision_update \<Rightarrow> art_state
     \<Rightarrow> (ArtifactRevision \<times> UpdateRevisionResult) asv_result" where
  "update_revision env aid expected u st =
     (case edit_base env aid expected st of
        Inl e \<Rightarrow> (st, Inl e)
      | Inr (a, cur) \<Rightarrow>
          if given (rup_inline_content u) + given (rup_file_data u) + given (rup_workspace_ref u) + given (rup_text_patch u) \<noteq> 1
          then (st, Inl ArtifactRevisionValidationError)
          else
            (let kind = (if rup_text_patch u = None then or_old (rup_kind u) (rv_kind cur) else rv_kind cur);
                 mime = (if rup_text_patch u = None then or_old (rup_mime u) (rv_mime cur) else rv_mime cur)
             in case update_content env aid cur u kind st of
                  (st1, Inl e) \<Rightarrow> (st1, Inl e)
                | (st1, Inr (ref, inline, data)) \<Rightarrow>
                    (let r = next_revision env cur None (ref, inline, data) (int (length data)) (sha256_checksum env data) mime kind
                               (rup_change_summary u)
                     in if \<not> is_text_kind kind \<and> inline \<noteq> None then (st1, Inl ArtifactRevisionValidationError)
                        else if \<not> valid_revision r then (st1, Inl ArtifactValidationError)
                        else commit_revision env aid expected cur r st1)))"

definition rollback :: "art_env \<Rightarrow> string \<Rightarrow> string \<Rightarrow> string \<Rightarrow> string \<Rightarrow> art_state
     \<Rightarrow> (ArtifactRevision \<times> UpdateRevisionResult) asv_result" where
  "rollback env aid target_id expected summary st =
     (case edit_base env aid expected st of
        Inl e \<Rightarrow> (st, Inl e)
      | Inr (a, cur) \<Rightarrow>
          (case get_revision_sync aid target_id (ast_db st) of
             None \<Rightarrow> (st, Inl ArtifactRevisionNotFoundError)
           | Some t \<Rightarrow>
               (case (case rv_inline_content t of
                        Some x \<Rightarrow> (st, Inr (None, Some x, utf8_encode x))
                      | None \<Rightarrow>
                          (case read_ref env st (the (rv_content_ref t)) (acf_max_bytes (en_config env)) of
                             Inl e \<Rightarrow> (st, Inl e)
                           | Inr d \<Rightarrow> file_content env aid (''rb-'' @ en_revision_id env) d st)) of
                  (st1, Inl e) \<Rightarrow> (st1, Inl e)
                | (st1, Inr c) \<Rightarrow>
                    (let r = next_revision env cur (Some (rv_id t)) c (rv_size t) (rv_checksum t) (rv_mime t) (rv_kind t) summary
                     in if \<not> valid_revision r then (st1, Inl ArtifactValidationError)
                        else commit_revision env aid expected cur r st1))))"

definition svc_list_revisions :: "string \<Rightarrow> RevisionListCursor option \<Rightarrow> int \<Rightarrow> art_state \<Rightarrow> artifact_error + RevisionListPage" where
  "svc_list_revisions aid cursor limit st =
     (case get_artifact_sync aid (ast_db st) of
        None \<Rightarrow> Inl ArtifactNotFoundError
      | Some a \<Rightarrow> if af_current_revision_id a = None then Inr \<lparr>rg_items = [], rg_next_cursor = None\<rparr>
                  else list_revisions_sync aid cursor (max 1 (min 100 limit)) (ast_db st))"

section \<open>Publication\<close>

definition compute_share_url :: "art_env \<Rightarrow> string \<Rightarrow> string" where
  "compute_share_url env pid =
     (if acf_published_base_url (en_config env) \<noteq> [] then acf_published_base_url (en_config env) @ ''/p/'' @ pid else ''/p/'' @ pid)"

record PublishResult =
  pres_published :: PublishedArtifact
  pres_share_url :: string
  pres_reused :: bool

definition publish_result :: "art_env \<Rightarrow> PublishedArtifact \<Rightarrow> bool \<Rightarrow> PublishResult" where
  "publish_result env p reused =
     \<lparr>pres_published = p, pres_share_url = compute_share_url env (pa_publish_id p), pres_reused = reused\<rparr>"

definition resolve_classification :: "Artifact \<Rightarrow> Classification" where
  "resolve_classification a =
     (case af_classification a of
        None \<Rightarrow> PUBLIC
      | Some c \<Rightarrow> if c = ''public'' then PUBLIC else if c = ''internal'' then INTERNAL
                  else if c = ''sensitive'' then SENSITIVE else if c = ''secret'' then SECRET else INTERNAL)"

text \<open>The bytes to publish, and the text if the revision is one: a text passes the information flow service, bytes do not.\<close>

definition public_content :: "art_env \<Rightarrow> Artifact \<Rightarrow> ArtifactRevision \<Rightarrow> art_state \<Rightarrow> artifact_error + (string option \<times> bytes)" where
  "public_content env a rvn st =
     (if is_text_kind (rv_kind rvn) then
        (case read_revision_text env st rvn (acf_max_bytes (en_config env)) of
           Inl e \<Rightarrow> Inl e
         | Inr t \<Rightarrow>
             (let res = if_release (en_flow env) t PUBLIC_ARTIFACT (resolve_classification a) ''artifact''
                          (case af_labels a of None \<Rightarrow> [] | Some ls \<Rightarrow> ls)
              in case (rl_allowed res, rl_content res) of
                   (True, Some safe) \<Rightarrow> Inr (Some safe, utf8_encode safe)
                 | _ \<Rightarrow> Inl PublishBlockedError))
      else (case rv_content_ref rvn of
              None \<Rightarrow> Inl ArtifactContentUnavailableError
            | Some ref \<Rightarrow> map_sum id (\<lambda>d. (None, d)) (read_ref env st ref (acf_max_bytes (en_config env)))))"

text \<open>The snapshot: its reference and inline text.\<close>

definition write_snapshot :: "art_env \<Rightarrow> ArtifactRevision \<Rightarrow> string option \<Rightarrow> bytes \<Rightarrow> art_state \<Rightarrow> (string option \<times> string option) asv_result" where
  "write_snapshot env rvn text data st =
     (if text \<noteq> None \<and> int (length data) \<le> acf_inline_max_bytes (en_config env) then (st, Inr (None, text))
      else (let (fs, r) = copy_to_publish_snapshot (en_store env) (en_hex env)
                            (if text = None then the (rv_content_ref rvn) else []) (en_publish_id env) text (ast_files st)
            in (st\<lparr>ast_files := fs\<rparr>, map_sum id (\<lambda>ref. (Some ref, None)) r)))"

definition new_publication ::
  "art_env \<Rightarrow> Artifact \<Rightarrow> ArtifactRevision \<Rightarrow> string option \<Rightarrow> string option \<Rightarrow> bytes \<Rightarrow> PublishedArtifact" where
  "new_publication env a rvn ref inline data =
     \<lparr>pa_publish_id = en_publish_id env, pa_artifact_id = Some (af_id a), pa_snapshot_name = af_name a,
      pa_snapshot_kind = rv_kind rvn, pa_snapshot_mime = rv_mime rvn, pa_snapshot_content_ref = ref,
      pa_snapshot_inline_content = inline, pa_snapshot_size = int (length data),
      pa_snapshot_checksum = sha256_checksum env data, pa_snapshot_summary = af_summary a,
      pa_published_at = Some (en_now env), pa_published_by = ''dashboard'', pa_status = ACTIVE, pa_revoked_at = None,
      pa_published_revision_id = None\<rparr>"

definition commit_publication ::
  "art_env \<Rightarrow> string \<Rightarrow> string \<Rightarrow> string \<Rightarrow> PublishedArtifact \<Rightarrow> art_state \<Rightarrow> PublishResult asv_result" where
  "commit_publication env aid rid expected p st =
     (let st1 = en_meanwhile env st in
      case register_revision_publish_sync (en_now env) p aid rid expected (ast_db st1) of
        (db1, Inl e) \<Rightarrow> (best_effort_delete env (pa_snapshot_content_ref p) (st1\<lparr>ast_db := db1\<rparr>), Inl e)
      | (db1, Inr q) \<Rightarrow>
          (let reused = (pa_publish_id q \<noteq> en_publish_id env);
               st2 = (if reused then best_effort_delete env (pa_snapshot_content_ref p) (st1\<lparr>ast_db := db1\<rparr>) else st1\<lparr>ast_db := db1\<rparr>)
           in (st2, Inr (publish_result env q reused))))"

definition publish_revision :: "art_env \<Rightarrow> string \<Rightarrow> string \<Rightarrow> string \<Rightarrow> art_state \<Rightarrow> PublishResult asv_result" where
  "publish_revision env aid rid expected st =
     (case get_artifact_sync aid (ast_db st) of
        None \<Rightarrow> (st, Inl ArtifactNotFoundError)
      | Some a \<Rightarrow>
          (case af_current_revision_id a of
             None \<Rightarrow> (st, Inl ArtifactMigrationIncompleteError)
           | Some cur \<Rightarrow>
               if rid \<noteq> cur \<or> expected \<noteq> cur then (st, Inl ArtifactRevisionConflictError)
               else (case get_revision_sync aid rid (ast_db st) of
                  None \<Rightarrow> (st, Inl ArtifactRevisionNotFoundError)
                | Some rvn \<Rightarrow>
                    (let active = get_active_publish_sync aid (ast_db st) in
                     case evaluate_policy env a PUBLISH (rv_inline_content rvn \<noteq> None \<or> truthy (rv_content_ref rvn))
                            (map_option pa_snapshot_checksum active) of
                       Some e \<Rightarrow> (st, Inl e)
                     | None \<Rightarrow>
                         (case public_content env a rvn st of
                            Inl e \<Rightarrow> (st, Inl e)
                          | Inr (text, data) \<Rightarrow>
                              if map_option pa_snapshot_checksum active = Some (sha256_checksum env data)
                              then (st, Inr (publish_result env (the active) True))
                              else (case write_snapshot env rvn text data st of
                                      (st1, Inl e) \<Rightarrow> (st1, Inl e)
                                    | (st1, Inr (ref, inline)) \<Rightarrow>
                                        (let p = new_publication env a rvn ref inline data in
                                         if \<not> valid_published p then (st1, Inl ArtifactValidationError)
                                         else commit_publication env aid rid expected p st1)))))))"

definition publish :: "art_env \<Rightarrow> string \<Rightarrow> art_state \<Rightarrow> PublishResult asv_result" where
  "publish env aid st =
     (case get_artifact_sync aid (ast_db st) of
        None \<Rightarrow> (st, Inl ArtifactNotFoundError)
      | Some a \<Rightarrow> (case af_current_revision_id a of
                     None \<Rightarrow> (st, Inl ArtifactMigrationIncompleteError)
                   | Some cur \<Rightarrow> publish_revision env aid cur cur st))"

definition revoke_publish :: "art_env \<Rightarrow> string \<Rightarrow> art_state \<Rightarrow> PublishedArtifact asv_result" where
  "revoke_publish env aid st =
     (let (db1, r) = revoke_published_sync (en_now env) aid (ast_db st)
      in (st\<lparr>ast_db := db1\<rparr>, case r of None \<Rightarrow> Inl PublishedArtifactNotFoundError | Some p \<Rightarrow> Inr p))"

definition svc_get_published :: "string \<Rightarrow> art_state \<Rightarrow> artifact_error + PublishedArtifact" where
  "svc_get_published pid st = (case get_published_sync pid (ast_db st) of None \<Rightarrow> Inl PublishedArtifactNotFoundError | Some p \<Rightarrow> Inr p)"

definition get_published_content :: "art_env \<Rightarrow> string \<Rightarrow> art_state \<Rightarrow> artifact_error + (bytes \<times> PublishedArtifact)" where
  "get_published_content env pid st =
     (case svc_get_published pid st of
        Inl e \<Rightarrow> Inl e
      | Inr p \<Rightarrow> map_sum id (\<lambda>d. (d, p))
          (stored_bytes env st (pa_snapshot_inline_content p) (pa_snapshot_content_ref p) (acf_publish_max_bytes (en_config env))))"

definition svc_get_active_publish :: "string \<Rightarrow> art_state \<Rightarrow> artifact_error + PublishedArtifact option" where
  "svc_get_active_publish aid st =
     (case get_artifact_sync aid (ast_db st) of None \<Rightarrow> Inl ArtifactNotFoundError | Some _ \<Rightarrow> Inr (get_active_publish_sync aid (ast_db st)))"

section \<open>Deletion\<close>

text \<open>The callback that deletes the source attachment; it may raise.\<close>

definition cascade_delete_task_attachment :: "art_env \<Rightarrow> Artifact \<Rightarrow> artifact_error option" where
  "cascade_delete_task_attachment env a =
     (case en_delete_attachment env of
        None \<Rightarrow> None
      | Some del \<Rightarrow> if af_source_kind a \<noteq> TASK_ATTACHMENT \<or> af_source_ref a = [] then None
                    else if del (af_source_ref a) then None else Some CallbackError)"

definition delete_snapshots :: "art_env \<Rightarrow> string list \<Rightarrow> art_state \<Rightarrow> art_state" where
  "delete_snapshots env pids st =
     fold (\<lambda>pid s. s\<lparr>ast_files := fst (delete_publish_snapshot (en_store env) pid (ast_files s))\<rparr>) pids st"

definition svc_delete_artifact :: "art_env \<Rightarrow> string \<Rightarrow> art_state \<Rightarrow> unit asv_result" where
  "svc_delete_artifact env aid st =
     (case get_artifact_sync aid (ast_db st) of
        None \<Rightarrow> (st, Inl ArtifactNotFoundError)
      | Some a \<Rightarrow>
          (case evaluate_policy env a DELETE True None of
             Some e \<Rightarrow> (st, Inl e)
           | None \<Rightarrow>
          (case cascade_delete_task_attachment env a of
             Some e \<Rightarrow> (st, Inl e)
           | None \<Rightarrow>
               (let pubs = map pa_publish_id (list_published_sync (Some aid) (ast_db st));
                    st1 = (if pubs = [] then st
                           else delete_snapshots env pubs (st\<lparr>ast_db := fst (delete_published_by_artifact_sync aid (ast_db st))\<rparr>));
                    st2 = st1\<lparr>ast_db := fst (delete_artifact_sync aid (ast_db st1))\<rparr>
                in (if is_owned_ref (af_content_ref a) then best_effort_delete env (af_content_ref a) st2 else st2, Inr ())))))"

end
