(* ===== verification/Artifact_Sources.thy ===== *)
theory Artifact_Sources
  imports Artifact_Service
begin

text \<open>
  Artifacts that come from tasks, and the passes that run at startup (\<open>app/application/artifact_service.py\<close>, from
  \<open>delete_artifacts_by_source_task\<close> on). A loop that draws identifiers takes an environment for every step. Loops whose end
  depends on the data are partial: \<open>None\<close> is a loop that does not end.
\<close>

section \<open>Deletion with the task\<close>

partial_function (option) collect_pages :: "(Artifact \<Rightarrow> bool) \<Rightarrow> int \<Rightarrow> artifact_db \<Rightarrow> ArtifactListCursor option \<Rightarrow> Artifact list option" where
  "collect_pages P limit db cursor =
     (let page = artifact_page P cursor limit db in
      case ag_next_cursor page of
        None \<Rightarrow> Some (ag_items page)
      | Some c \<Rightarrow> Option.bind (collect_pages P limit db (Some c)) (\<lambda>rest. Some (ag_items page @ rest)))"

declare collect_pages.simps [code]

definition from_task :: "string \<Rightarrow> artifact_filter" where
  "from_task tid = no_filter\<lparr>fl_source_context_ref := Some tid\<rparr>"

definition delete_each :: "art_env \<Rightarrow> string list \<Rightarrow> art_state \<Rightarrow> art_state \<times> nat" where
  "delete_each env ids st =
     fold (\<lambda>aid (s, n). case svc_delete_artifact env aid s of (s', Inr _) \<Rightarrow> (s', Suc n) | (s', Inl _) \<Rightarrow> (s', n)) ids (st, 0)"

definition delete_artifacts_by_source_task :: "art_env \<Rightarrow> string \<Rightarrow> art_state \<Rightarrow> (art_state \<times> nat) option" where
  "delete_artifacts_by_source_task env tid st =
     map_option (\<lambda>arts. delete_each env (map af_id arts) st) (collect_pages (matches (from_task tid)) 100 (ast_db st) None)"

text \<open>Processed, done, skipped and failed.\<close>

record tally =
  ty_processed :: nat
  ty_done :: nat
  ty_skipped :: nat
  ty_failed :: nat

definition no_tally :: tally where
  "no_tally = \<lparr>ty_processed = 0, ty_done = 0, ty_skipped = 0, ty_failed = 0\<rparr>"

definition tally_done :: "tally \<Rightarrow> tally" where
  "tally_done y = y\<lparr>ty_processed := Suc (ty_processed y), ty_done := Suc (ty_done y)\<rparr>"

definition tally_skipped :: "tally \<Rightarrow> tally" where
  "tally_skipped y = y\<lparr>ty_processed := Suc (ty_processed y), ty_skipped := Suc (ty_skipped y)\<rparr>"

definition tally_failed :: "tally \<Rightarrow> tally" where
  "tally_failed y = y\<lparr>ty_processed := Suc (ty_processed y), ty_failed := Suc (ty_failed y)\<rparr>"

definition orphan_step :: "art_env \<Rightarrow> (string \<Rightarrow> bool option) \<Rightarrow> Artifact \<Rightarrow> art_state \<times> tally \<Rightarrow> art_state \<times> tally" where
  "orphan_step env task_exists a sy =
     (case sy of (st, y) \<Rightarrow>
        if \<not> truthy (af_source_context_ref a) then (st, tally_skipped y)
        else (case task_exists (the (af_source_context_ref a)) of
                None \<Rightarrow> (st, tally_failed y)
              | Some True \<Rightarrow> (st, tally_skipped y)
              | Some False \<Rightarrow> (case svc_delete_artifact env (af_id a) st of
                                 (st1, Inr _) \<Rightarrow> (st1, tally_done y) | (st1, Inl _) \<Rightarrow> (st1, tally_failed y))))"

partial_function (option) orphan_loop ::
  "art_env \<Rightarrow> (string \<Rightarrow> bool option) \<Rightarrow> ArtifactSource \<Rightarrow> int \<Rightarrow> ArtifactListCursor option \<Rightarrow> art_state \<times> tally
     \<Rightarrow> (art_state \<times> tally) option" where
  "orphan_loop env task_exists kind bsize cursor sy =
     (let page = list_artifacts_sync (no_filter\<lparr>fl_source_kind := Some kind\<rparr>) cursor bsize (ast_db (fst sy));
          sy1 = fold (orphan_step env task_exists) (ag_items page) sy
      in case ag_next_cursor page of
           None \<Rightarrow> Some sy1
         | Some c \<Rightarrow> orphan_loop env task_exists kind bsize (Some c) sy1)"

declare orphan_loop.simps [code]

definition backfill_orphaned_task_artifacts :: "art_env \<Rightarrow> int \<Rightarrow> art_state \<Rightarrow> (art_state \<times> tally) option" where
  "backfill_orphaned_task_artifacts env bsize st =
     (case en_task_exists env of
        None \<Rightarrow> Some (st, no_tally)
      | Some f \<Rightarrow> Option.bind (orphan_loop env f TASK_ATTACHMENT bsize None (st, no_tally))
                    (orphan_loop env f TASK_ARTIFACT bsize None))"

section \<open>Registration\<close>

definition resolve_task_session :: "art_env \<Rightarrow> string \<Rightarrow> string option" where
  "resolve_task_session env tid = (case en_task_session env of None \<Rightarrow> None | Some f \<Rightarrow> f tid)"

definition source_artifact ::
  "art_env \<Rightarrow> string \<Rightarrow> ArtifactKind \<Rightarrow> string \<Rightarrow> content \<Rightarrow> ArtifactSource \<Rightarrow> string \<Rightarrow> string \<Rightarrow> string \<Rightarrow> string \<Rightarrow> Artifact" where
  "source_artifact env name kind mime c source ref tid summary created_by =
     (case c of (cref, inline, data) \<Rightarrow>
       \<lparr>af_id = en_artifact_id env, af_name = name, af_kind = kind, af_mime = mime, af_content_ref = cref,
        af_inline_content = inline, af_size = int (length data), af_checksum = sha256_checksum env data,
        af_source_kind = source, af_source_ref = ref, af_source_context_ref = Some tid,
        af_source_session_id = resolve_task_session env tid, af_summary = summary, af_classification = None, af_labels = None,
        af_status = DRAFT, af_created_at = None, af_updated_at = None, af_created_by = created_by, af_current_revision_id = None\<rparr>)"

text \<open>Construction and registration; an invalid value raises before anything is compensated.\<close>

definition register_source :: "art_env \<Rightarrow> Artifact \<Rightarrow> content \<Rightarrow> art_state \<Rightarrow> Artifact option asv_result" where
  "register_source env a c st =
     (let r = initial_revision env (af_id a) c (af_mime a) (af_kind a) [] (af_created_by a) (af_source_session_id a) None in
      if \<not> valid_artifact a \<or> \<not> valid_revision r then (st, Inl ArtifactValidationError)
      else (case commit_creation env (fst c) a r st of
              (st1, Inl e) \<Rightarrow> (st1, Inr None) | (st1, Inr b) \<Rightarrow> (st1, Inr (Some b))))"

definition register_from_attachment :: "art_env \<Rightarrow> ArtifactAttachmentSource \<Rightarrow> art_state \<Rightarrow> Artifact option asv_result" where
  "register_from_attachment env src st =
     (case get_by_source_sync TASK_ATTACHMENT (as_attachment_id src) (ast_db st) of
        Some a \<Rightarrow> (st, Inr (Some a))
      | None \<Rightarrow>
          (case read_ref env st (''attachment:'' @ as_task_id src @ ''/'' @ as_stored_name src) (acf_max_bytes (en_config env)) of
             Inl e \<Rightarrow> (st, Inr None)
           | Inr d \<Rightarrow>
               (let m = resolve_mime (as_filename src) (as_content_type src); kind = kind_from_mime m; mime = ensure_nonempty_mime m kind in
                case file_content env (en_artifact_id env) (as_filename src) d st of
                  (st1, Inl e) \<Rightarrow> (st1, Inr None)
                | (st1, Inr c) \<Rightarrow>
                    register_source env
                      (source_artifact env (as_filename src) kind mime c TASK_ATTACHMENT (as_attachment_id src) (as_task_id src) []
                         (if as_uploaded_by src \<noteq> [] then as_uploaded_by src else ''dashboard'')) c st1)))"

record TaskArtifact =
  ta_name :: string
  ta_mime :: string
  ta_storage_ref :: "string option"
  ta_content :: "string option"
  ta_summary :: string

definition register_from_task_artifact ::
  "art_env \<Rightarrow> TaskArtifact \<Rightarrow> string \<Rightarrow> int \<Rightarrow> int \<Rightarrow> art_state \<Rightarrow> Artifact option asv_result" where
  "register_from_task_artifact env ta tid run_id ordinal st =
     (let source_ref = task_artifact_source_ref tid run_id ordinal in
      case get_by_source_sync TASK_ARTIFACT source_ref (ast_db st) of
        Some a \<Rightarrow> (st, Inr (Some a))
      | None \<Rightarrow>
          (let m = resolve_mime (ta_name ta) (ta_mime ta); kind = kind_from_mime m; mime = ensure_nonempty_mime m kind;
               register = (\<lambda>c st1. register_source env (source_artifact env (ta_name ta) kind mime c TASK_ARTIFACT source_ref tid
                             (ta_summary ta) ''dashboard'') c st1)
           in if (case ta_storage_ref ta of None \<Rightarrow> False | Some s \<Rightarrow> starts_with ''workspace:'' s) then
                (case read_ref env st (the (ta_storage_ref ta)) (acf_max_bytes (en_config env)) of
                   Inl e \<Rightarrow> (st, Inr None)
                 | Inr d \<Rightarrow> (case file_content env (en_artifact_id env) (ta_name ta) d st of
                               (st1, Inl e) \<Rightarrow> (st1, Inr None) | (st1, Inr c) \<Rightarrow> register c st1))
              else
                (let text = (if truthy (ta_content ta) then the (ta_content ta) else ta_summary ta) in
                 if text = [] \<or> \<not> is_text_kind kind then (st, Inr None)
                 else if int (length (utf8_encode text)) > acf_inline_max_bytes (en_config env) then (st, Inr None)
                 else register (None, Some text, utf8_encode text) st)))"

definition list_attachment_sources_sync ::
  "string option \<Rightarrow> int \<Rightarrow> ArtifactAttachmentSource list \<Rightarrow> ArtifactAttachmentSource list" where
  "list_attachment_sources_sync after_id limit atts =
     take (nat (max 1 (min limit 500)))
       (sort_key as_attachment_id (filter (\<lambda>s. case after_id of None \<Rightarrow> True | Some i \<Rightarrow> as_attachment_id s > i) atts))"

fun attachment_batch :: "(nat \<Rightarrow> art_env) \<Rightarrow> nat \<Rightarrow> ArtifactAttachmentSource list \<Rightarrow> art_state \<Rightarrow> tally \<Rightarrow> art_state \<times> tally" where
  "attachment_batch envs i [] st y = (st, y)"
| "attachment_batch envs i (s # ss) st y =
     (if get_by_source_sync TASK_ATTACHMENT (as_attachment_id s) (ast_db st) \<noteq> None
      then attachment_batch envs (Suc i) ss st (tally_skipped y)
      else (case register_from_attachment (envs i) s st of
              (st1, Inr (Some _)) \<Rightarrow> attachment_batch envs (Suc i) ss st1 (tally_done y)
            | (st1, _) \<Rightarrow> attachment_batch envs (Suc i) ss st1 (tally_failed y)))"

partial_function (option) attachments_loop ::
  "(nat \<Rightarrow> art_env) \<Rightarrow> int \<Rightarrow> ArtifactAttachmentSource list \<Rightarrow> string option \<Rightarrow> nat \<Rightarrow> art_state \<Rightarrow> tally \<Rightarrow> (art_state \<times> tally) option" where
  "attachments_loop envs bsize atts after_id i st y =
     (let b = list_attachment_sources_sync after_id bsize atts in
      if b = [] then Some (st, y)
      else (let (st1, y1) = attachment_batch envs i b st y in
            if int (length b) < bsize then Some (st1, y1)
            else attachments_loop envs bsize atts (Some (as_attachment_id (last b))) (i + length b) st1 y1))"

declare attachments_loop.simps [code]

definition backfill_attachments ::
  "(nat \<Rightarrow> art_env) \<Rightarrow> int \<Rightarrow> ArtifactAttachmentSource list \<Rightarrow> art_state \<Rightarrow> (art_state \<times> tally) option" where
  "backfill_attachments envs bsize atts st = attachments_loop envs bsize atts None 0 st no_tally"

section \<open>Session identifiers and kinds\<close>

definition session_step :: "art_env \<Rightarrow> Artifact \<Rightarrow> art_state \<times> tally \<Rightarrow> art_state \<times> tally" where
  "session_step env a sy =
     (case sy of (st, y) \<Rightarrow>
        if \<not> truthy (af_source_context_ref a) then (st, tally_skipped y)
        else (let session = resolve_task_session env (the (af_source_context_ref a)) in
              if \<not> truthy session then (st, tally_skipped y)
              else (case store_update env (a\<lparr>af_source_session_id := session\<rparr>) st of
                      (st1, Inr _) \<Rightarrow> (st1, tally_done y) | (st1, Inl _) \<Rightarrow> (st1, tally_failed y))))"

definition kind_step :: "art_env \<Rightarrow> Artifact \<Rightarrow> art_state \<times> tally \<Rightarrow> art_state \<times> tally" where
  "kind_step env a sy =
     (case sy of (st, y) \<Rightarrow>
        let m = resolve_mime (af_name a) (af_mime a); b = a\<lparr>af_mime := m, af_kind := kind_from_mime m\<rparr> in
        if m = [] then (st, tally_skipped y)
        else if \<not> valid_artifact b then (st, tally_failed y)
        else (case store_update env b st of (st1, Inr _) \<Rightarrow> (st1, tally_done y) | (st1, Inl _) \<Rightarrow> (st1, tally_failed y)))"

text \<open>The common loop: batches from the start of the table until one is short.\<close>

partial_function (option) batch_loop ::
  "(artifact_db \<Rightarrow> Artifact list) \<Rightarrow> (Artifact \<Rightarrow> art_state \<times> tally \<Rightarrow> art_state \<times> tally) \<Rightarrow> int \<Rightarrow> art_state \<times> tally
     \<Rightarrow> (art_state \<times> tally) option" where
  "batch_loop next_batch step bsize sy =
     (let b = next_batch (ast_db (fst sy)) in
      if b = [] then Some sy
      else (let sy1 = fold step b sy in
            if int (length b) < bsize then Some sy1 else batch_loop next_batch step bsize sy1))"

declare batch_loop.simps [code]

definition backfill_session_ids :: "art_env \<Rightarrow> int \<Rightarrow> art_state \<Rightarrow> (art_state \<times> tally) option" where
  "backfill_session_ids env bsize st =
     (if en_task_session env = None then Some (st, no_tally)
      else batch_loop (list_task_artifacts_missing_session_sync bsize) (session_step env) bsize (st, no_tally))"

definition backfill_kinds :: "art_env \<Rightarrow> int \<Rightarrow> art_state \<Rightarrow> (art_state \<times> tally) option" where
  "backfill_kinds env bsize st = batch_loop (list_artifacts_with_empty_mime_sync bsize) (kind_step env) bsize (st, no_tally)"

section \<open>Migration to revisions\<close>

definition migrate_one_artifact :: "art_env \<Rightarrow> Artifact \<Rightarrow> art_state \<Rightarrow> art_state \<times> string" where
  "migrate_one_artifact env a st =
     (case stored_bytes env st (af_inline_content a) (af_content_ref a) (acf_max_bytes (en_config env)) of
        Inl e \<Rightarrow> (st, ''source_unreadable'')
      | Inr d \<Rightarrow>
          if int (length d) > acf_max_bytes (en_config env) then (st, ''size_exceeds_limit'')
          else if sha256_checksum env d \<noteq> af_checksum a then (st, ''checksum_mismatch'')
          else
            (case (case af_inline_content a of
                     Some t \<Rightarrow> (st, Inr (None, Some t, d))
                   | None \<Rightarrow> file_content env (af_id a) (''rev-'' @ en_revision_id env) d st) of
               (st1, Inl e) \<Rightarrow> (st1, ''unknown'')
             | (st1, Inr c) \<Rightarrow>
                 (let r = initial_revision env (af_id a) c (ensure_nonempty_mime (af_mime a) (af_kind a)) (af_kind a) ''migration backfill''
                            ''system'' (af_source_session_id a) None
                  in if \<not> valid_revision r then (best_effort_delete env (fst c) st1, ''unknown'')
                     else (case commit_initial_revision_backfill_sync (en_now env) (af_id a) r (ast_db st1) of
                             (db1, Inl e) \<Rightarrow> (best_effort_delete env (fst c) (st1\<lparr>ast_db := db1\<rparr>), ''commit_failed'')
                           | (db1, Inr x) \<Rightarrow>
                               if rv_id x \<noteq> rv_id r then (best_effort_delete env (fst c) (st1\<lparr>ast_db := db1\<rparr>), ''skipped'')
                               else (st1\<lparr>ast_db := db1\<rparr>, ''migrated'')))))"

fun migrate_batch :: "(nat \<Rightarrow> art_env) \<Rightarrow> nat \<Rightarrow> Artifact list \<Rightarrow> art_state \<Rightarrow> tally \<Rightarrow> art_state \<times> tally" where
  "migrate_batch envs i [] st y = (st, y)"
| "migrate_batch envs i (a # as) st y =
     (let (st1, r) = migrate_one_artifact (envs i) a st in
      migrate_batch envs (Suc i) as st1
        (if r = ''migrated'' then tally_done y else if r = ''skipped'' then tally_skipped y else tally_failed y))"

partial_function (option) migrate_loop ::
  "(nat \<Rightarrow> art_env) \<Rightarrow> int \<Rightarrow> ArtifactListCursor option \<Rightarrow> nat \<Rightarrow> art_state \<Rightarrow> tally \<Rightarrow> (art_state \<times> tally) option" where
  "migrate_loop envs bsize cursor i st y =
     (let page = list_revision_migration_candidates_sync cursor bsize (ast_db st);
          (st1, y1) = migrate_batch envs i (ag_items page) st y
      in case ag_next_cursor page of
           None \<Rightarrow> Some (st1, y1)
         | Some c \<Rightarrow> migrate_loop envs bsize (Some c) (i + length (ag_items page)) st1 y1)"

declare migrate_loop.simps [code]

definition migrate_revisions :: "(nat \<Rightarrow> art_env) \<Rightarrow> int \<Rightarrow> art_state \<Rightarrow> (art_state \<times> tally) option" where
  "migrate_revisions envs bsize st = migrate_loop envs bsize None 0 st no_tally"

definition migration_state :: "tally \<Rightarrow> string" where
  "migration_state y = (if ty_failed y > 0 then ''degraded'' else ''ok'')"

end
