(* ===== verification/Artifact_Refinement.thy ===== *)
theory Artifact_Refinement
  imports Artifact_Log Artifact_Sources
begin

text \<open>
  The operations of the artifact service change the registry only through its transactions, so that its states have the
  invariants of the registry, whatever runs between the reads of an operation and its commit.
\<close>

section \<open>Operations that touch only files\<close>

lemma write_ref_db: "write_ref env hex aid name d st = (st', res) \<Longrightarrow> ast_db st' = ast_db st"
  by (auto simp: write_ref_def split: prod.splits)

lemma best_effort_delete_db [simp]: "ast_db (best_effort_delete env ref st) = ast_db st"
  by (simp add: best_effort_delete_def split: option.split)

lemma file_content_db: "file_content env aid name d st = (st', res) \<Longrightarrow> ast_db st' = ast_db st"
  by (auto simp: file_content_def split: prod.splits sum.splits dest: write_ref_db)

lemma input_content_db: "input_content env i st = (st', res) \<Longrightarrow> ast_db st' = ast_db st"
  by (auto simp: input_content_def Let_def split: if_splits option.splits sum.splits dest: file_content_db)

lemma update_content_db: "update_content env aid cur u kind st = (st', res) \<Longrightarrow> ast_db st' = ast_db st"
  by (auto simp: update_content_def split: if_splits option.splits sum.splits dest: file_content_db)

lemma write_snapshot_db: "write_snapshot env rvn text data st = (st', res) \<Longrightarrow> ast_db st' = ast_db st"
  by (auto simp: write_snapshot_def Let_def split: if_splits prod.splits)

lemma delete_snapshots_db [simp]: "ast_db (delete_snapshots env pids st) = ast_db st"
  unfolding delete_snapshots_def by (induction pids arbitrary: st) simp_all

section \<open>Operations\<close>

text \<open>What runs meanwhile goes through the registry too.\<close>

definition quiet :: "art_env \<Rightarrow> bool" where
  "quiet env \<longleftrightarrow> (\<forall>st. artifact_tx\<^sup>*\<^sup>* (ast_db st) (ast_db (en_meanwhile env st)))"

inductive artifact_op :: "art_state \<Rightarrow> art_state \<Rightarrow> bool" where
  op_create: "quiet env \<Longrightarrow> artifact_op st (fst (svc_create_artifact env i st))"
| op_update: "quiet env \<Longrightarrow> artifact_op st (fst (svc_update_artifact env aid u st))"
| op_revise: "quiet env \<Longrightarrow> artifact_op st (fst (update_revision env aid expected v st))"
| op_rollback: "quiet env \<Longrightarrow> artifact_op st (fst (rollback env aid target expected summary st))"
| op_publish: "quiet env \<Longrightarrow> artifact_op st (fst (publish_revision env aid rid expected st))"
| op_revoke: "quiet env \<Longrightarrow> artifact_op st (fst (revoke_publish env aid st))"
| op_delete: "quiet env \<Longrightarrow> artifact_op st (fst (svc_delete_artifact env aid st))"
| op_attachment: "quiet env \<Longrightarrow> artifact_op st (fst (register_from_attachment env src st))"
| op_task_artifact: "quiet env \<Longrightarrow> artifact_op st (fst (register_from_task_artifact env ta tid run_id ordinal st))"
| op_session: "quiet env \<Longrightarrow> artifact_op st (fst (session_step env a (st, y)))"
| op_kind: "quiet env \<Longrightarrow> artifact_op st (fst (kind_step env a (st, y)))"
| op_migrate: "quiet env \<Longrightarrow> artifact_op st (fst (migrate_one_artifact env a st))"

abbreviation txs :: "art_state \<Rightarrow> art_state \<Rightarrow> bool" where
  "txs st st' \<equiv> artifact_tx\<^sup>*\<^sup>* (ast_db st) (ast_db st')"

lemma tx1: "artifact_tx (ast_db st) db' \<Longrightarrow> ast_db st' = db' \<Longrightarrow> txs st st'"
  by blast

lemma txs_same: "ast_db st' = ast_db st \<Longrightarrow> txs st st'"
  by simp

lemma commit_creation_txs: "txs st (fst (commit_creation env ref a r st))"
  by (rule tx1 [OF tx_create_initial [of _ "en_now env" a r]]) (auto simp: commit_creation_def split: prod.splits sum.splits)

lemma create_txs: "txs st (fst (svc_create_artifact env i st))"
proof (cases "input_content env i st")
  case (Pair st1 res)
  note db = input_content_db [OF Pair]
  show ?thesis
  proof (cases res)
    case (Inr c)
    obtain ref inline data where c: "c = (ref, inline, data)" by (cases c)
    have "txs st1 (fst (svc_create_artifact env i st))"
      by (auto simp: svc_create_artifact_def Pair Inr c Let_def intro: commit_creation_txs)
    with db show ?thesis by simp
  qed (simp add: svc_create_artifact_def Pair db)
qed

lemma store_update_txs: "txs st (fst (store_update env a st))"
  by (rule tx1 [OF tx_update [of _ "en_now env" a]]) (simp add: store_update_def split: prod.split)

lemma try_content_update_txs:
  assumes "try_content_update env u a st = (st', temp, res)"
  shows "txs st st'"
proof -
  have "txs s (fst (store_update env b s))" for b s by (rule store_update_txs)
  then have st: "store_update env b s = (s', r) \<Longrightarrow> txs s s'" for b s s' r by (metis fst_conv)
  show ?thesis
    using assms
    by (auto simp: try_content_update_def Let_def split: option.splits if_splits prod.splits sum.splits dest!: st write_ref_db)
qed

lemma revoke_txs: "txs st (fst (revoke_publish env aid st))"
  by (rule tx1 [OF tx_revoke [of _ "en_now env" aid]]) (simp add: revoke_publish_def split: prod.split)

lemma finish_content_update_txs: "txs st (fst (finish_content_update env u a m st))"
proof (cases "try_content_update env u a st")
  case (fields st1 temp res)
  note t = try_content_update_txs [OF fields]
  have "artifact_tx\<^sup>*\<^sup>* (ast_db st) (fst (revoke_published_sync now aid (ast_db st1)))" for now aid
    using t tx_revoke by (meson rtranclp.rtrancl_into_rtrancl)
  with t fields show ?thesis by (cases res) (simp_all add: finish_content_update_def Let_def)
qed

lemma update_txs: "txs st (fst (svc_update_artifact env aid u st))"
proof (cases "get_artifact_sync aid (ast_db st)")
  case (Some a)
  have fin: "txs st (fst (finish_content_update env u a m (st\<lparr>ast_files := fs\<rparr>)))" for m fs
    using finish_content_update_txs [of "st\<lparr>ast_files := fs\<rparr>" env u a m] by simp
  with Some finish_content_update_txs store_update_txs show ?thesis
    by (auto simp: svc_update_artifact_def split: option.split prod.split sum.split)
qed (simp add: svc_update_artifact_def)

lemma commit_revision_txs:
  assumes "quiet env"
  shows "txs st (fst (commit_revision env aid expected cur r st))"
proof -
  let ?db = "ast_db (en_meanwhile env st)"
  have "artifact_tx\<^sup>*\<^sup>* (ast_db st) (fst (append_revision_sync (en_now env) aid r expected ?db))"
    using assms tx_append unfolding quiet_def by (meson rtranclp.rtrancl_into_rtrancl)
  then show ?thesis by (auto simp: commit_revision_def Let_def split: prod.splits sum.splits)
qed

lemma commit_revision_after:
  assumes "quiet env" and "ast_db st1 = ast_db st"
  shows "txs st (fst (commit_revision env aid expected cur r st1))"
  using commit_revision_txs [OF assms(1), of st1] assms(2) by simp

lemma revise_txs:
  assumes "quiet env"
  shows "txs st (fst (update_revision env aid expected v st))"
proof (cases "edit_base env aid expected st")
  case (Inr b)
  obtain a cur where b: "b = (a, cur)" by (cases b)
  let ?kind = "if rup_text_patch v = None then or_old (rup_kind v) (rv_kind cur) else rv_kind cur"
  obtain st1 res where c: "update_content env aid cur v ?kind st = (st1, res)" by (cases "update_content env aid cur v ?kind st")
  show ?thesis
  proof (cases res)
    case Left: (Inl e)
    with update_content_db [OF c] c show ?thesis by (simp add: update_revision_def Inr b Let_def del: if_split)
  next
    case content: (Inr d)
    obtain ref inline data where d: "d = (ref, inline, data)" by (cases d)
    show ?thesis
      using c content d update_content_db [OF c] commit_revision_after [OF assms update_content_db [OF c]]
      by (simp add: update_revision_def Inr b Let_def)
  qed
qed (simp add: update_revision_def)

lemma rollback_txs:
  assumes "quiet env"
  shows "txs st (fst (rollback env aid target expected summary st))"
  using commit_revision_after [OF assms file_content_db] commit_revision_after [OF assms refl]
  by (auto simp: rollback_def Let_def split: sum.split prod.split option.split dest: file_content_db)

lemma commit_publication_txs:
  assumes "quiet env" and "ast_db st1 = ast_db st"
  shows "txs st (fst (commit_publication env aid rid expected p st1))"
proof -
  let ?db = "ast_db (en_meanwhile env st1)"
  have "artifact_tx\<^sup>*\<^sup>* (ast_db st) (fst (register_revision_publish_sync (en_now env) p aid rid expected ?db))"
    using assms tx_publish unfolding quiet_def by (metis rtranclp.rtrancl_into_rtrancl)
  then show ?thesis by (auto simp: commit_publication_def Let_def split: prod.splits sum.splits)
qed

lemma publish_txs:
  assumes "quiet env"
  shows "txs st (fst (publish_revision env aid rid expected st))"
  using commit_publication_txs [OF assms write_snapshot_db]
  by (auto simp: publish_revision_def Let_def split: sum.split prod.split option.split dest: write_snapshot_db)

lemma delete_txs: "txs st (fst (svc_delete_artifact env aid st))"
proof (cases "get_artifact_sync aid (ast_db st)")
  case (Some a)
  have "artifact_tx (ast_db st) (fst (delete_artifact_sync aid (ast_db st)))" by (rule tx_delete)
  moreover have "artifact_tx\<^sup>*\<^sup>* (ast_db st) (fst (delete_artifact_sync aid (fst (delete_published_by_artifact_sync aid (ast_db st)))))"
    by (rule rtranclp.rtrancl_into_rtrancl [OF r_into_rtranclp [of artifact_tx, OF tx_unpublish] tx_delete])
  ultimately show ?thesis
    using Some by (auto simp: svc_delete_artifact_def Let_def split: option.split)
qed (simp add: svc_delete_artifact_def)

lemma register_source_txs: "ast_db st1 = ast_db st \<Longrightarrow> txs st (fst (register_source env a c st1))"
  using commit_creation_txs [of st1 env "fst c" a] by (auto simp: register_source_def Let_def split: prod.split sum.split) (metis fst_conv)+

lemma attachment_txs: "txs st (fst (register_from_attachment env src st))"
  using register_source_txs [OF file_content_db]
  by (auto simp: register_from_attachment_def Let_def split: option.split sum.split prod.split dest: file_content_db)

lemma task_artifact_txs: "txs st (fst (register_from_task_artifact env ta tid run_id ordinal st))"
  using register_source_txs [OF file_content_db] register_source_txs [OF refl]
  by (auto simp: register_from_task_artifact_def Let_def split: option.split sum.split prod.split dest: file_content_db)

lemma session_txs: "txs st (fst (session_step env a (st, y)))"
  using store_update_txs [of st env]
  by (auto simp: session_step_def Let_def split: sum.split prod.split) (metis fst_conv)+

lemma kind_txs: "txs st (fst (kind_step env a (st, y)))"
  using store_update_txs [of st env]
  by (auto simp: kind_step_def Let_def split: sum.split prod.split) (metis fst_conv)+

lemma backfill_txs:
  "ast_db st1 = ast_db st \<Longrightarrow> commit_initial_revision_backfill_sync now aid r (ast_db st1) = (db1, res) \<Longrightarrow> artifact_tx\<^sup>*\<^sup>* (ast_db st) db1"
  using tx_backfill [of "ast_db st" now aid r] by auto

lemma migrate_txs: "txs st (fst (migrate_one_artifact env a st))"
  using backfill_txs [OF file_content_db] backfill_txs [OF refl]
  by (auto simp: migrate_one_artifact_def Let_def split: option.split sum.split prod.split dest: file_content_db)

lemmas operation_txs = create_txs update_txs revise_txs rollback_txs publish_txs revoke_txs delete_txs attachment_txs task_artifact_txs
  session_txs kind_txs migrate_txs

lemma artifact_op_txs: "artifact_op st st' \<Longrightarrow> txs st st'"
  by (induction rule: artifact_op.induct) (simp_all add: operation_txs)

lemma artifact_ops_txs: "artifact_op\<^sup>*\<^sup>* st st' \<Longrightarrow> txs st st'"
  by (induction rule: rtranclp_induct) (auto dest: artifact_op_txs)

end
