(* ===== verification/Artifact_Files.thy ===== *)
theory Artifact_Files
  imports Artifact_Store
begin

text \<open>
  The content store keeps to its directories: a reference resolves to components that are no path of their own, a read returns
  a regular file below the root of its scheme that no link leads to, a write or deletion changes only files and directories of the
  store, what was written is read back, and what was deleted is gone.
\<close>

section \<open>The file table\<close>

lemma lstat_put [simp]: "lstat (fs_put p e fs) q = (if q = p then Some e else lstat fs q)"
proof -
  have "map_of (filter (\<lambda>x. fst x \<noteq> p) fs) q = (if q = p then None else map_of fs q)"
    by (induction fs) auto
  then show ?thesis by (auto simp: lstat_def fs_put_def map_add_def split: option.split)
qed

lemma lstat_remove [simp]: "lstat (fs_remove p fs) q = (if q = p then None else lstat fs q)"
  unfolding lstat_def fs_remove_def by (induction fs) auto

section \<open>Names\<close>

definition component :: "string \<Rightarrow> bool" where
  "component s \<longleftrightarrow> s \<noteq> [] \<and> s \<noteq> ''.'' \<and> s \<noteq> ''..'' \<and> CHR ''/'' \<notin> set s"

lemma newline_chars: "newline \<noteq> CHR ''/''" "newline \<noteq> CHR ''.''"
  by code_simp+

lemma alnum_chars: "\<not> alnum (CHR ''/'')" "\<not> alnum (CHR ''.'')" "\<not> hex_lower (CHR ''/'')" "\<not> hex_lower (CHR ''.'')"
  by (simp_all add: alnum_def hex_lower_def Let_def)

lemma re_lineD: "re_line P s \<Longrightarrow> list_all P s \<or> (\<exists>t. s = t @ [newline] \<and> list_all P t)"
  by (metis append_butlast_last_id re_line_def)

lemma re_line_chars: "re_line P s \<Longrightarrow> \<not> P c \<Longrightarrow> c \<noteq> newline \<Longrightarrow> c \<notin> set s"
  by (drule re_lineD) (auto simp: list_all_iff)

lemma validate_id_component: "validate_id s \<Longrightarrow> component s"
  using re_line_chars [of id_char s "CHR ''/''"] re_line_chars [of id_char s "CHR ''.''"] newline_chars alnum_chars
  by (auto simp: validate_id_def component_def id_char_def)

lemma validate_filename_component: "validate_filename s \<Longrightarrow> component s"
  using re_line_chars [of filename_char s "CHR ''/''"] newline_chars
  by (auto simp: validate_filename_def component_def filename_char_def)

lemma workspace_components: "validate_workspace_path rest = Inr parts \<Longrightarrow> list_all component parts \<and> parts \<noteq> []"
  using split_slash_no_slash [of _ rest]
  by (auto simp: validate_workspace_path_def list_all_iff list_ex_iff component_def split: if_splits)

lemma parse_scheme_parts_components:
  assumes "parse_scheme_parts scheme rest = Inr parts"
  shows "list_all component parts" and "parts \<noteq> []" and "scheme \<noteq> SWorkspace \<Longrightarrow> length parts = 2"
  using assms workspace_components [of rest parts] validate_id_component validate_filename_component
  by (auto simp: parse_scheme_parts_def split: if_splits prod.splits)

lemma parse_ref_components:
  assumes "parse_ref ref = Inr (scheme, parts)"
  shows "list_all component parts" and "parts \<noteq> []" and "scheme \<noteq> SWorkspace \<Longrightarrow> length parts = 2"
  using assms parse_scheme_parts_components
  by (auto simp: parse_ref_def Let_def split: if_splits sum.splits)

text \<open>The name the server gives a file: its hexadecimal digits and an extension of letters and digits.\<close>

definition plain_ext :: "string \<Rightarrow> bool" where
  "plain_ext e \<longleftrightarrow> e = [] \<or> (hd e = CHR ''.'' \<and> (list_all alnum (tl e) \<or> (last e = newline \<and> list_all alnum (butlast (tl e)) \<and> tl e \<noteq> [])))"

lemma last_dot:
  assumes "CHR ''.'' \<in> set f"
  shows "\<exists>xs. drop (length f - length (takeWhile (\<lambda>c. c \<noteq> CHR ''.'') (rev f)) - 1) f = CHR ''.'' # xs"
proof -
  from split_list_last [OF assms] obtain ys zs where f: "f = ys @ CHR ''.'' # zs" "CHR ''.'' \<notin> set zs" by blast
  then have "takeWhile (\<lambda>c. c \<noteq> CHR ''.'') (rev f) = rev zs"
    by (auto simp: takeWhile_append)
  with f(1) show ?thesis by simp
qed

lemma plain_safe_ext: "plain_ext (safe_ext f)"
proof (cases "CHR ''.'' \<in> set f")
  case True
  from last_dot [OF True] obtain xs where
    xs: "drop (length f - length (takeWhile (\<lambda>c. c \<noteq> CHR ''.'') (rev f)) - 1) f = CHR ''.'' # xs" by blast
  have "lower_char (CHR ''.'') = CHR ''.''" by code_simp
  then have "py_lower (CHR ''.'' # xs) = CHR ''.'' # py_lower xs" by (simp add: py_lower_def)
  with True show ?thesis
    unfolding safe_ext_def Let_def xs by (auto simp: plain_ext_def split: if_splits)
next
  case False
  then show ?thesis by (simp add: safe_ext_def plain_ext_def)
qed

definition drawn_name :: "string \<Rightarrow> bool" where
  "drawn_name hex \<longleftrightarrow> hex \<noteq> [] \<and> list_all hex_lower hex"

lemma hex_filename_char: "hex_lower c \<Longrightarrow> filename_char c" "alnum c \<Longrightarrow> filename_char c"
  by (auto simp: hex_lower_def alnum_def filename_char_def Let_def)

lemma server_filename_valid:
  assumes "drawn_name hex"
  shows "validate_filename (server_filename hex f)"
proof -
  let ?e = "safe_ext f"
  have hex: "list_all filename_char hex" using assms hex_filename_char by (auto simp: drawn_name_def list_all_iff)
  have dot: "filename_char (CHR ''.'')" by code_simp
  have e: "?e = [] \<or> (\<exists>b. ?e = CHR ''.'' # b \<and> list_all filename_char b) \<or> (\<exists>b. ?e = CHR ''.'' # b @ [newline] \<and> list_all filename_char b)"
  proof (cases ?e)
    case (Cons d b)
    have alnums: "list_all alnum b \<Longrightarrow> list_all filename_char b" for b using hex_filename_char by (auto simp: list_all_iff)
    have nl: "b \<noteq> [] \<Longrightarrow> last b = newline \<Longrightarrow> b = butlast b @ [newline]" by (metis append_butlast_last_id)
    from plain_safe_ext [of f] show ?thesis unfolding plain_ext_def Cons
      using alnums nl by (auto split: if_splits)
  qed simp
  have first: "server_filename hex f \<noteq> ''.''" "server_filename hex f \<noteq> ''..''"
    using assms alnum_chars by (auto simp: server_filename_def drawn_name_def neq_Nil_conv)
  from e have "re_line filename_char (server_filename hex f)"
    using hex dot assms by (auto simp: re_line_def server_filename_def drawn_name_def butlast_append)
  with first assms show ?thesis by (auto simp: validate_filename_def server_filename_def drawn_name_def)
qed

section \<open>Reading\<close>

lemma walk_existing_file:
  assumes "walk_existing fs cur parts = Inr p" and "parts \<noteq> []"
  shows "p = cur @ parts \<and> (\<exists>d. lstat fs (cur @ parts) = Some (EFile d)) \<and>
    (\<forall>k. 0 < k \<and> k < length parts \<longrightarrow> lstat fs (cur @ take k parts) = Some EDir)"
  using assms
proof (induction parts arbitrary: cur)
  case (Cons x xs)
  show ?case
  proof (cases "xs = []")
    case True
    with Cons.prems show ?thesis by (auto split: option.splits entry.splits)
  next
    case False
    with Cons.prems have dir: "lstat fs (cur @ [x]) = Some EDir" "walk_existing fs (cur @ [x]) xs = Inr p"
      by (auto split: option.splits entry.splits)
    note IH = Cons.IH [OF dir(2) False]
    have "lstat fs (cur @ take k (x # xs)) = Some EDir" if "0 < k" "k < length (x # xs)" for k
      using IH that dir(1) by (cases k; cases "k = 1") auto
    with IH show ?thesis by auto
  qed
qed simp

lemma check_root_None [simp]: "check_root fs root = None \<longleftrightarrow> lstat fs root = Some EDir"
  by (auto simp: check_root_def split: option.splits entry.splits)

lemma resolve_existing_file:
  assumes "resolve_existing fs root parts = Inr p" and "parts \<noteq> []"
  shows "p = root @ parts" and "\<exists>d. lstat fs (root @ parts) = Some (EFile d)"
    and "k < length parts \<Longrightarrow> lstat fs (root @ take k parts) = Some EDir"
proof -
  have dir: "lstat fs root = Some EDir" and walk: "walk_existing fs root parts = Inr p"
    using assms(1) check_root_None [of fs root] by (auto simp: resolve_existing_def split: option.splits)
  note found = walk_existing_file [OF walk assms(2)]
  show "p = root @ parts" "\<exists>d. lstat fs (root @ parts) = Some (EFile d)" using found by blast+
  show "k < length parts \<Longrightarrow> lstat fs (root @ take k parts) = Some EDir" using found dir by (cases "k = 0") simp_all
qed

lemma store_read_file:
  assumes "store_read cs fs ref n = Inr d"
  obtains scheme parts where "parse_ref ref = Inr (scheme, parts)" "list_all component parts" "parts \<noteq> []"
    "lstat fs (root_for_scheme cs scheme @ parts) = Some (EFile d)" "int (length d) \<le> n"
    "\<forall>k<length parts. lstat fs (root_for_scheme cs scheme @ take k parts) = Some EDir"
proof -
  from assms obtain scheme parts p where r: "parse_ref ref = Inr (scheme, parts)"
      "resolve_existing fs (root_for_scheme cs scheme) parts = Inr p" "file_bytes fs p = Some d" "int (length d) \<le> n"
    by (auto simp: store_read_def read_sync_def split: sum.splits prod.splits if_splits option.splits)
  note found = resolve_existing_file [OF r(2) parse_ref_components(2) [OF r(1)]]
  have "lstat fs (root_for_scheme cs scheme @ parts) = Some (EFile d)"
    using r(3) found(1) by (auto simp: file_bytes_def split: option.splits entry.splits)
  with r(1,4) found(3) parse_ref_components [OF r(1)] show thesis by (intro that) auto
qed

section \<open>Writing\<close>

text \<open>The paths of the store: its two directories, theirs, and the files in those.\<close>

definition owned_path :: "content_store \<Rightarrow> path \<Rightarrow> bool" where
  "owned_path cs p \<longleftrightarrow>
     (\<exists>d\<in>{''items'', ''published''}. \<exists>rest. p = cs_root cs @ d # rest \<and> length rest \<le> 2 \<and> list_all component rest)"

definition confined :: "content_store \<Rightarrow> files \<Rightarrow> files \<Rightarrow> bool" where
  "confined cs fs fs' \<longleftrightarrow> (\<forall>p. lstat fs' p \<noteq> lstat fs p \<longrightarrow> owned_path cs p)"

lemma confined_refl [simp]: "confined cs fs fs"
  by (simp add: confined_def)

lemma confined_trans: "confined cs fs1 fs2 \<Longrightarrow> confined cs fs2 fs3 \<Longrightarrow> confined cs fs1 fs3"
  unfolding confined_def by metis

lemma confined_put: "owned_path cs p \<Longrightarrow> confined cs fs (fs_put p e fs)"
  by (simp add: confined_def)

lemma confined_remove: "owned_path cs p \<Longrightarrow> confined cs fs (fs_remove p fs)"
  by (simp add: confined_def)

lemma owned_pathI:
  "d \<in> {''items'', ''published''} \<Longrightarrow> owned_path cs (cs_root cs @ [d])"
  "d \<in> {''items'', ''published''} \<Longrightarrow> component x \<Longrightarrow> owned_path cs (cs_root cs @ [d, x])"
  "d \<in> {''items'', ''published''} \<Longrightarrow> component x \<Longrightarrow> component y \<Longrightarrow> owned_path cs (cs_root cs @ [d, x, y])"
  by (auto simp: owned_path_def)

lemma ensure_safe_dirD:
  assumes "ensure_safe_dir p fs = Inr fs'"
  shows "lstat fs' q = (if q = p then Some EDir else lstat fs q)" and "lstat fs p \<in> {None, Some EDir}"
  using assms by (auto simp: ensure_safe_dir_def split: option.splits entry.splits if_splits)

lemma ensure_safe_dir_confined: "ensure_safe_dir p fs = Inr fs' \<Longrightarrow> owned_path cs p \<Longrightarrow> confined cs fs fs'"
  by (auto simp: confined_def ensure_safe_dirD(1) split: if_splits)

lemma write_file_boundedD:
  assumes "write_file_bounded dir name data n fs = Inr fs'"
  shows "fs' = fs_put (dir @ [name]) (EFile data) fs" and "data = [] \<or> int (length data) \<le> n"
  using assms by (auto simp: write_file_bounded_def split: option.splits entry.splits if_splits)

lemma in_safe_dir_confined:
  assumes "in_safe_dir base sub f fs = (fs', res)" and "owned_path cs base" "owned_path cs (base @ [sub])"
    and f: "\<And>fs1 fs2. f fs1 = Inr fs2 \<Longrightarrow> confined cs fs1 fs2"
  shows "confined cs fs fs'"
proof (cases "ensure_safe_dir base fs")
  case (Inr fs1)
  note c1 = ensure_safe_dir_confined [OF Inr assms(2)]
  show ?thesis
  proof (cases "ensure_safe_dir (base @ [sub]) fs1")
    case sub: (Inr fs2)
    note c2 = confined_trans [OF c1 ensure_safe_dir_confined [OF sub assms(3)]]
    show ?thesis using assms(1) Inr sub c2 confined_trans [OF c2 f] by (auto simp: in_safe_dir_def split: sum.splits)
  qed (use assms(1) Inr c1 in \<open>simp add: in_safe_dir_def\<close>)
qed (use assms(1) in \<open>simp add: in_safe_dir_def\<close>)

text \<open>After a success both directories are there and the rest is what the last step left.\<close>

lemma in_safe_dir_done:
  assumes "in_safe_dir base sub f fs = (fs', Inr u)"
  obtains fs2 where "f fs2 = Inr fs'" "\<And>q. lstat fs2 q = (if q \<in> {base, base @ [sub]} then Some EDir else lstat fs q)"
    "lstat fs base \<in> {None, Some EDir}" "lstat fs (base @ [sub]) \<in> {None, Some EDir}"
proof -
  from assms obtain fs1 fs2 where d: "ensure_safe_dir base fs = Inr fs1" "ensure_safe_dir (base @ [sub]) fs1 = Inr fs2" "f fs2 = Inr fs'"
    by (auto simp: in_safe_dir_def split: sum.splits)
  show thesis
    using that [OF d(3)] ensure_safe_dirD [OF d(1)] ensure_safe_dirD [OF d(2)] by simp
qed

lemma write_atomic_cases:
  assumes "write_atomic cs hex aid f data fs = (fs', res)"
  obtains "\<not> validate_id aid" "fs' = fs" "\<exists>e. res = Inl e"
  | r where "validate_id aid" "res = map_sum id (\<lambda>_. ''item:'' @ aid @ ''/'' @ server_filename hex f) r"
    "in_safe_dir (cs_root cs @ [''items'']) aid
       (write_file_bounded (cs_root cs @ [''items'', aid]) (server_filename hex f) data (cs_max_bytes cs)) fs = (fs', r)"
  using assms by (cases "validate_id aid") (auto simp: write_atomic_def Let_def split: prod.splits sum.splits)

lemma server_component: "drawn_name hex \<Longrightarrow> component (server_filename hex f)"
  by (simp add: validate_filename_component server_filename_valid)

lemma write_bounded_confined:
  assumes "d \<in> {''items'', ''published''}" "component x" "component name"
    and "write_file_bounded (cs_root cs @ [d, x]) name data n fs = Inr fs'"
  shows "confined cs fs fs'"
  using write_file_boundedD(1) [OF assms(4)] confined_put [OF owned_pathI(3) [OF assms(1-3)]] by simp

lemma stream_copy_confined:
  assumes "d \<in> {''items'', ''published''}" "component x" "component name"
    and "stream_copy src (cs_root cs @ [d, x]) name n fs = Inr fs'"
  shows "confined cs fs fs'"
  using assms(4) write_bounded_confined [OF assms(1-3)] by (auto simp: stream_copy_def split: option.splits)

lemma in_store_dir_confined:
  assumes "in_safe_dir (cs_root cs @ [d]) x f fs = (fs', res)" and "d \<in> {''items'', ''published''}" "component x"
    and "\<And>fs1 fs2. f fs1 = Inr fs2 \<Longrightarrow> confined cs fs1 fs2"
  shows "confined cs fs fs'"
  using in_safe_dir_confined [OF assms(1) _ _ assms(4)] owned_pathI(1,2) assms(2,3) by simp

lemma write_atomic_confined:
  assumes "write_atomic cs hex aid f data fs = (fs', res)" and "drawn_name hex"
  shows "confined cs fs fs'"
  using assms(1)
proof (cases rule: write_atomic_cases)
  case (2 r)
  note id = validate_id_component [OF 2(1)]
  show ?thesis
    by (rule in_store_dir_confined [OF 2(3) _ id write_bounded_confined [OF _ id server_component [OF assms(2)]]]) simp_all
qed simp

lemma resolve_parent_two:
  assumes "resolve_parent fs root [x, y] = Inr parent"
  shows "parent = root @ [x]"
  using assms by (auto simp: resolve_parent_def split: option.splits entry.splits)

lemma parse_ref_two:
  assumes "parse_ref ref = Inr (scheme, parts)" and "scheme \<in> {SItem, SPublished}"
  obtains x y where "parts = [x, y]" "component x" "component y"
proof -
  from parse_ref_components(3) [OF assms(1)] assms(2) have "length parts = 2" by auto
  then obtain x y where "parts = [x, y]" by (auto simp: length_Suc_conv numeral_2_eq_2)
  with that parse_ref_components(1) [OF assms(1)] show thesis by simp
qed

lemma delete_owned_cases:
  obtains "fst (delete_owned cs ref fs) = fs" "snd (delete_owned cs ref fs) \<noteq> Inr True"
  | scheme x y where "parse_ref ref = Inr (scheme, [x, y])" "scheme \<in> {SItem, SPublished}" "component x" "component y"
    "delete_owned cs ref fs = (fs_remove (root_for_scheme cs scheme @ [x, y]) fs, Inr True)"
proof (cases "parse_ref ref")
  case (Inl e)
  with that(1) show thesis by (simp add: delete_owned_def)
next
  case (Inr sp)
  obtain scheme parts where sp: "sp = (scheme, parts)" by (cases sp)
  show thesis
  proof (cases "scheme \<in> {SItem, SPublished}")
    case True
    from Inr sp have p: "parse_ref ref = Inr (scheme, parts)" by simp
    from p True obtain x y where xy: "parts = [x, y]" "component x" "component y" by (rule parse_ref_two)
    show thesis
    proof (cases "resolve_parent fs (root_for_scheme cs scheme) parts")
      case Left: (Inl e)
      with that(1) p True show thesis by (cases e) (auto simp: delete_owned_def)
    next
      case parent: (Inr d)
      with resolve_parent_two xy(1) have d: "d = root_for_scheme cs scheme @ [x]" by simp
      show thesis
      proof (cases "lstat fs (d @ [y])")
        case None
        with that(1) p True parent xy(1) show thesis by (simp add: delete_owned_def)
      next
        case (Some e)
        with that p True parent xy d show thesis by (cases e) (auto simp: delete_owned_def)
      qed
    qed
  next
    case False
    with that(1) Inr sp show thesis by (simp add: delete_owned_def)
  qed
qed

lemma owned_root: "scheme \<in> {SItem, SPublished} \<Longrightarrow> component x \<Longrightarrow> component y \<Longrightarrow> owned_path cs (root_for_scheme cs scheme @ [x, y])"
  using owned_pathI(3) [of "''items''" x y cs] owned_pathI(3) [of "''published''" x y cs] by (cases scheme) (simp_all add: root_for_scheme_def)

lemma delete_owned_confined: "confined cs fs (fst (delete_owned cs ref fs))"
  by (rule delete_owned_cases [of cs ref fs]) (simp_all add: confined_remove owned_root)

lemma unlink_all_confined:
  assumes "\<forall>x\<in>set es. owned_path cs (fst x)"
  shows "confined cs fs (fst (unlink_all es fs))"
  using assms
proof (induction es fs rule: unlink_all.induct)
  case (2 p e es fs)
  then have "confined cs fs (fs_remove p fs)" by (simp add: confined_remove)
  with 2 confined_trans show ?case by (cases e) fastforce+
qed simp

lemma dir_entries_path: "x \<in> set (dir_entries dir fs) \<Longrightarrow> \<exists>y. fst x = dir @ [y]"
  by (auto simp: dir_entries_def intro: append_butlast_last_id [symmetric])

text \<open>The names that a directory lists are components.\<close>

definition listed_names :: "files \<Rightarrow> bool" where
  "listed_names fs \<longleftrightarrow> list_all (\<lambda>x. list_all component (fst x)) fs"

lemma delete_publish_snapshot_confined:
  assumes "delete_publish_snapshot cs pid fs = (fs', res)" and "listed_names fs"
  shows "confined cs fs fs'"
proof (cases "fs' = fs")
  case False
  let ?dir = "cs_root cs @ [''published'', pid]"
  from False assms(1) obtain fs1 e where u: "validate_id pid" "unlink_all (dir_entries ?dir fs) fs = (fs1, e)"
      "fs' = fs1 \<or> fs' = fs_remove ?dir fs1"
    by (auto simp: delete_publish_snapshot_def Let_def split: if_splits option.splits entry.splits prod.splits)
  note id = validate_id_component [OF u(1)]
  have "owned_path cs (fst x)" if x: "x \<in> set (dir_entries ?dir fs)" for x
  proof -
    obtain y where y: "fst x = ?dir @ [y]" using dir_entries_path [OF x] by blast
    have "x \<in> set fs" using x by (simp add: dir_entries_def)
    with y assms(2) have "component y" by (auto simp: listed_names_def list_all_iff)
    with id y owned_pathI(3) [of "''published''" pid y cs] show ?thesis by simp
  qed
  then have "confined cs fs fs1" using unlink_all_confined [of "dir_entries ?dir fs" cs fs] u(2) by simp
  with u(3) id owned_pathI(2) [of "''published''" pid cs] confined_trans confined_remove show ?thesis by blast
qed simp

lemma materialize_source_confined:
  assumes "materialize_source cs hex kind ref aid fs = (fs', res)" and "drawn_name hex"
  shows "confined cs fs fs'"
proof (cases "fs' = fs")
  case False
  with assms(1) obtain src name r where m: "validate_id aid"
      "in_safe_dir (cs_root cs @ [''items'']) aid (stream_copy src (cs_root cs @ [''items'', aid]) (server_filename hex name) (cs_max_bytes cs)) fs = (fs', r)"
    by (auto simp: materialize_source_def Let_def split: if_splits sum.splits prod.splits)
  note id = validate_id_component [OF m(1)]
  show ?thesis
    by (rule in_store_dir_confined [OF m(2) _ id stream_copy_confined [OF _ id server_component [OF assms(2)]]]) simp_all
qed simp

lemma copy_to_publish_snapshot_confined:
  assumes "copy_to_publish_snapshot cs hex ref pid inline fs = (fs', res)" and "drawn_name hex"
  shows "confined cs fs fs'"
proof (cases "fs' = fs")
  case False
  let ?ok = "\<lambda>f. \<forall>fs1 fs2. f fs1 = Inr fs2 \<longrightarrow> confined cs fs1 fs2"
  from False assms(1) have id: "component pid"
    by (auto simp: copy_to_publish_snapshot_def Let_def validate_id_component split: if_splits)
  note written = write_bounded_confined [OF _ id server_component [OF assms(2)], of "''published''", simplified]
  note copied = stream_copy_confined [OF _ id server_component [OF assms(2)], of "''published''", simplified]
  have "\<exists>f r. in_safe_dir (cs_root cs @ [''published'']) pid f fs = (fs', r) \<and> ?ok f"
  proof (cases inline)
    case None
    show ?thesis
    proof (cases "parse_ref ref")
      case (Inl e)
      with None False assms(1) show ?thesis
        by (intro exI [of _ "\<lambda>fs'. Inl e"]) (auto simp: copy_to_publish_snapshot_def Let_def split: if_splits prod.splits sum.splits)
    next
      case (Inr sp)
      obtain scheme parts where sp: "sp = (scheme, parts)" by (cases sp)
      let ?f = "\<lambda>fs'. if scheme \<noteq> SItem then Inl ArtifactValidationError
           else (case resolve_existing fs' (root_for_scheme cs scheme) parts of Inl e \<Rightarrow> Inl e
             | Inr src \<Rightarrow> stream_copy src ((cs_root cs @ [''published'']) @ [pid]) (server_filename hex (last parts)) (cs_publish_max_bytes cs) fs')"
      have "?ok ?f" using copied by (auto split: sum.splits)
      moreover have "\<exists>r. in_safe_dir (cs_root cs @ [''published'']) pid ?f fs = (fs', r)"
        using None Inr sp False assms(1) by (auto simp: copy_to_publish_snapshot_def Let_def split: if_splits prod.splits sum.splits)
      ultimately show ?thesis by blast
    qed
  next
    case (Some t)
    let ?f = "\<lambda>fs'. if int (length (utf8_encode t)) > cs_inline_max_bytes cs then Inl ArtifactValidationError
        else write_file_bounded ((cs_root cs @ [''published'']) @ [pid]) (server_filename hex ''snapshot.txt'') (utf8_encode t) (cs_inline_max_bytes cs) fs'"
    have "?ok ?f" using written by auto
    moreover have "\<exists>r. in_safe_dir (cs_root cs @ [''published'']) pid ?f fs = (fs', r)"
      using Some False assms(1) by (auto simp: copy_to_publish_snapshot_def Let_def split: if_splits prod.splits sum.splits)
    ultimately show ?thesis by blast
  qed
  with in_store_dir_confined [OF _ _ id] show ?thesis by blast
qed simp

section \<open>Reading back\<close>

lemma split_once_append: "CHR ''/'' \<notin> set a \<Longrightarrow> split_once (a @ CHR ''/'' # b) = (a, b)"
  by (induction a) (auto simp: split_once_def)

lemma parse_item_ref:
  assumes "validate_id a" and "validate_filename n"
  shows "parse_ref (''item:'' @ a @ ''/'' @ n) = Inr (SItem, [a, n])"
  using assms validate_id_component [OF assms(1)] validate_filename_component [OF assms(2)]
  by (simp add: parse_ref_def Let_def starts_with_def parse_scheme_parts_def split_once_append component_def)

lemma read_found:
  assumes "parse_ref ref = Inr (scheme, [x, y])" and "lstat fs (root_for_scheme cs scheme) = Some EDir"
    and "lstat fs (root_for_scheme cs scheme @ [x]) = Some EDir" and "lstat fs (root_for_scheme cs scheme @ [x, y]) = Some (EFile d)"
    and "int (length d) \<le> n"
  shows "store_read cs fs ref n = Inr d"
  using assms by (simp add: store_read_def read_sync_def resolve_existing_def file_bytes_def check_root_def)

text \<open>What a successful write leaves: the file under the returned reference, and everything else but the directories as before.\<close>

lemma write_atomic_done:
  assumes "write_atomic cs hex aid f data fs = (fs', Inr ref)" and "drawn_name hex"
  shows "parse_ref ref = Inr (SItem, [aid, server_filename hex f])"
    and "lstat fs' p = (if p = cs_root cs @ [''items'', aid, server_filename hex f] then Some (EFile data)
           else if p \<in> {cs_root cs @ [''items''], cs_root cs @ [''items'', aid]} then Some EDir else lstat fs p)"
    and "data = [] \<or> int (length data) \<le> cs_max_bytes cs"
    and "ref = ''item:'' @ aid @ ''/'' @ server_filename hex f"
    and "p \<in> {cs_root cs @ [''items''], cs_root cs @ [''items'', aid]} \<Longrightarrow> lstat fs p \<in> {None, Some EDir}"
proof -
  from assms(1) obtain u where w: "validate_id aid" "ref = ''item:'' @ aid @ ''/'' @ server_filename hex f"
    "in_safe_dir (cs_root cs @ [''items'']) aid
       (write_file_bounded (cs_root cs @ [''items'', aid]) (server_filename hex f) data (cs_max_bytes cs)) fs = (fs', Inr u)"
    by (cases rule: write_atomic_cases) (auto simp: map_sum_def split: sum.splits)
  show "parse_ref ref = Inr (SItem, [aid, server_filename hex f])"
    using parse_item_ref [OF w(1) server_filename_valid [OF assms(2)]] w(2) by simp
  from w(3) obtain fs2 where fs2:
      "write_file_bounded (cs_root cs @ [''items'', aid]) (server_filename hex f) data (cs_max_bytes cs) fs2 = Inr fs'"
      "\<And>q. lstat fs2 q = (if q \<in> {cs_root cs @ [''items''], (cs_root cs @ [''items'']) @ [aid]} then Some EDir else lstat fs q)"
      "lstat fs (cs_root cs @ [''items'']) \<in> {None, Some EDir}" "lstat fs ((cs_root cs @ [''items'']) @ [aid]) \<in> {None, Some EDir}"
    by (rule in_safe_dir_done) blast
  from write_file_boundedD [OF fs2(1)] fs2(2)
  show "lstat fs' p = (if p = cs_root cs @ [''items'', aid, server_filename hex f] then Some (EFile data)
           else if p \<in> {cs_root cs @ [''items''], cs_root cs @ [''items'', aid]} then Some EDir else lstat fs p)"
    and "data = [] \<or> int (length data) \<le> cs_max_bytes cs" by auto
  show "ref = ''item:'' @ aid @ ''/'' @ server_filename hex f" by (rule w(2))
  show "p \<in> {cs_root cs @ [''items''], cs_root cs @ [''items'', aid]} \<Longrightarrow> lstat fs p \<in> {None, Some EDir}"
    using fs2(3,4) by auto
qed

lemma write_then_read:
  assumes "write_atomic cs hex aid f data fs = (fs', Inr ref)" and "drawn_name hex" and "int (length data) \<le> n"
  shows "store_read cs fs' ref n = Inr data"
  by (rule read_found [OF write_atomic_done(1) [OF assms(1,2)]])
    (simp_all add: root_for_scheme_def write_atomic_done(2) [OF assms(1,2)] assms(3))

text \<open>Deleting what was just written restores every file.\<close>

lemma write_then_delete:
  assumes "write_atomic cs hex aid f data fs = (fs', Inr ref)" and "drawn_name hex"
    and "lstat fs (cs_root cs @ [''items'', aid, server_filename hex f]) = None"
  shows "snd (delete_owned cs ref fs') = Inr True"
    and "lstat (fst (delete_owned cs ref fs')) p = (if p \<in> {cs_root cs @ [''items''], cs_root cs @ [''items'', aid]} then Some EDir else lstat fs p)"
  using assms(3) write_atomic_done [OF assms(1,2)]
  by (auto simp: delete_owned_def root_for_scheme_def resolve_parent_def check_root_def)

end
