(* ===== verification/Artifact_Content.thy ===== *)
theory Artifact_Content
  imports Artifact_Refinement Artifact_Files Information_Theorems
begin

text \<open>
  The content of revisions: a committed revision is read back with its checksum, the earlier ones stay as they are, a
  refused one leaves no file behind; and what is published.
\<close>

section \<open>Files that stay\<close>

definition files_grow :: "files \<Rightarrow> files \<Rightarrow> bool" where
  "files_grow fs fs' \<longleftrightarrow> (\<forall>p e. lstat fs p = Some e \<longrightarrow> lstat fs' p = Some e)"

lemma files_grow_refl [simp]: "files_grow fs fs"
  by (simp add: files_grow_def)

lemma files_grow_trans: "files_grow f g \<Longrightarrow> files_grow g h \<Longrightarrow> files_grow f h"
  by (simp add: files_grow_def)

lemma walk_existing_grow: "files_grow fs fs' \<Longrightarrow> walk_existing fs cur ps = Inr p \<Longrightarrow> walk_existing fs' cur ps = Inr p"
  by (induction ps arbitrary: cur) (auto simp: files_grow_def split: option.splits entry.splits if_splits)

lemma resolve_existing_grow:
  assumes "files_grow fs fs'" and "resolve_existing fs root ps = Inr p"
  shows "resolve_existing fs' root ps = Inr p"
proof -
  from assms(2) have "check_root fs root = None" "walk_existing fs root ps = Inr p"
    by (auto simp: resolve_existing_def split: option.splits)
  moreover from this(1) assms(1) have "check_root fs' root = None" unfolding check_root_None by (simp add: files_grow_def)
  ultimately show ?thesis using walk_existing_grow [OF assms(1)] by (simp add: resolve_existing_def check_root_def)
qed

lemma store_read_grow:
  assumes "files_grow fs fs'" and "store_read cs fs ref n = Inr d"
  shows "store_read cs fs' ref n = Inr d"
proof -
  have bytes: "file_bytes fs p = Some x \<Longrightarrow> file_bytes fs' p = Some x" for p x
    using assms(1) by (auto simp: files_grow_def file_bytes_def split: option.splits entry.splits)
  from assms(2) show ?thesis
    by (auto simp: store_read_def read_sync_def split: sum.splits prod.splits if_splits option.splits
        dest!: bytes resolve_existing_grow [OF assms(1)])
qed

definition keeps_files :: "art_env \<Rightarrow> bool" where
  "keeps_files env \<longleftrightarrow> (\<forall>st. files_grow (ast_files st) (ast_files (en_meanwhile env st)))"

lemma revision_bytes_grow:
  assumes "files_grow (ast_files st) (ast_files st')" and "revision_bytes env st r n = Inr d"
  shows "revision_bytes env st' r n = Inr d"
  using assms(2) store_read_grow [OF assms(1)]
  by (auto simp: revision_bytes_def stored_bytes_def read_ref_def split: option.splits)

lemma verified_bytes_grow:
  assumes "files_grow (ast_files st) (ast_files st')" and "verified_bytes env st r = Inr x"
  shows "verified_bytes env st' r = Inr x"
  using assms(2) revision_bytes_grow [OF assms(1)]
  by (auto simp: verified_bytes_def split: sum.splits if_splits)

section \<open>Written content\<close>

definition item_path :: "art_env \<Rightarrow> string \<Rightarrow> string \<Rightarrow> path" where
  "item_path env aid name = cs_root (en_store env) @ [''items'', aid, server_filename (en_hex env) name]"

lemma file_content_done:
  assumes "file_content env aid name d st = (st', Inr c)" and "drawn_name (en_hex env)"
  obtains ref where "c = (Some ref, None, d)" "parse_ref ref = Inr (SItem, [aid, server_filename (en_hex env) name])"
    "\<And>n. int (length d) \<le> n \<Longrightarrow> read_ref env st' ref n = Inr d"
    "lstat (ast_files st) (item_path env aid name) = None \<Longrightarrow> files_grow (ast_files st) (ast_files st')"
    "starts_with ''item:'' ref" "length ref > 5"
proof -
  from assms(1) obtain ref fs where w: "write_atomic (en_store env) (en_hex env) aid name d (ast_files st) = (fs, Inr ref)"
      "c = (Some ref, None, d)" "st' = st\<lparr>ast_files := fs\<rparr>"
    by (auto simp: file_content_def write_ref_def Let_def split: prod.splits sum.splits)
  note wr = write_atomic_done [OF w(1) assms(2)]
  have "files_grow (ast_files st) fs" if "lstat (ast_files st) (item_path env aid name) = None"
    unfolding files_grow_def wr(2) using that wr(5) [of "cs_root (en_store env) @ [''items'']"] wr(5) [of "cs_root (en_store env) @ [''items'', aid]"]
    by (auto simp: item_path_def)
  moreover have "starts_with ''item:'' ref" "length ref > 5" unfolding wr(4) by (simp_all add: starts_with_def)
  ultimately show thesis
    using w wr(1) write_then_read [OF w(1) assms(2)] by (intro that) (auto simp: read_ref_def)
qed

section \<open>Committing a revision\<close>

lemma append_revision_reads:
  assumes "append_revision_sync now aid r e db = (db', Inr x)"
  obtains a where "get_artifact_sync aid db' = Some a" "af_current_revision_id a = Some (rv_id r)" "get_revision_sync aid (rv_id r) db' = Some r"
proof -
  from assms obtain a db1 where a: "rv_artifact_id r = aid" "get_artifact_sync aid db = Some a" "insert_revision r db = Some db1"
      "db' = set_current_revision now aid (rv_id r) db1" by (rule append_revisionD)
  note ins = insert_revisionD [OF a(3)]
  have "get_artifact_sync aid db' = Some (a\<lparr>af_current_revision_id := Some (rv_id r), af_updated_at := Some now\<rparr>)"
    using a(2) fetchone_SomeD [of "\<lambda>x. af_id x = aid"]
    by (auto simp: a(4) get_artifact_sync_def set_current_revision_def ins(1) sql_simps dest: fetchone_SomeD)
  moreover have "get_revision_sync aid (rv_id r) db' = Some r"
  proof -
    have "fetchone (\<lambda>x. rv_id x = rv_id r \<and> rv_artifact_id x = aid) (adb_revisions db) = None"
      unfolding fetchone_None_iff using key_notin [OF ins(2)] by auto
    with a(1) show ?thesis by (simp add: a(4) get_revision_sync_def set_current_revision_def ins(1) fetchone_append fetchone_Cons)
  qed
  ultimately show thesis using that by simp
qed

lemma commit_revision_reads:
  assumes "commit_revision env aid expected cur r st = (st', Inr (c, res))"
    and "revision_bytes env st r (acf_max_bytes (en_config env)) = Inr d" and "sha256_checksum env d = rv_checksum r" and "keeps_files env"
  shows "c = r" and "get_revision_content env aid None st' = Inr (d, r)" and "files_grow (ast_files st) (ast_files st')"
proof -
  let ?m = "en_meanwhile env st"
  from assms(1) obtain db1 where ap: "append_revision_sync (en_now env) aid r expected (ast_db ?m) = (db1, Inr c)" "st' = ?m\<lparr>ast_db := db1\<rparr>"
    by (auto simp: commit_revision_def Let_def split: prod.splits sum.splits)
  from ap(1) show c: "c = r" by (rule append_revisionD)
  show grow: "files_grow (ast_files st) (ast_files st')" using assms(4) ap(2) by (simp add: keeps_files_def)
  from ap(1) obtain a where a: "get_artifact_sync aid db1 = Some a" "af_current_revision_id a = Some (rv_id r)" "get_revision_sync aid (rv_id r) db1 = Some r"
    by (rule append_revision_reads)
  have "revision_bytes env st' r (acf_max_bytes (en_config env)) = Inr d" by (rule revision_bytes_grow [OF grow assms(2)])
  with a assms(3) show "get_revision_content env aid None st' = Inr (d, r)"
    by (simp add: get_revision_content_def ap(2) verified_bytes_def)
qed

lemma commit_revision_refused:
  assumes "commit_revision env aid expected cur r st = (st', Inl e)"
  shows "ast_db st' = ast_db (en_meanwhile env st)"
    and "ast_files st' = ast_files (best_effort_delete env (rv_content_ref r) (en_meanwhile env st))"
  using assms append_revision_refused
  by (auto simp: commit_revision_def Let_def best_effort_delete_def split: prod.splits sum.splits option.splits)

section \<open>Edits\<close>

text \<open>The bytes that an edit is to store.\<close>

definition edit_bytes :: "art_env \<Rightarrow> ArtifactRevision \<Rightarrow> revision_update \<Rightarrow> art_state \<Rightarrow> bytes \<Rightarrow> bool" where
  "edit_bytes env cur u st d \<longleftrightarrow>
     (case rup_text_patch u of
        Some patch \<Rightarrow> (case read_revision_text env st cur (acf_diff_max_bytes (en_config env)) of
                        Inl e \<Rightarrow> False | Inr t \<Rightarrow> map_option utf8_encode (apply_text_patch t patch) = Some d)
      | None \<Rightarrow> (case rup_inline_content u of
                   Some t \<Rightarrow> d = utf8_encode t
                 | None \<Rightarrow> (case rup_file_data u of
                              Some x \<Rightarrow> d = x
                            | None \<Rightarrow> read_ref env st (the (rup_workspace_ref u)) (acf_max_bytes (en_config env)) = Inr d)))"

lemma file_content_result: "file_content env aid name x st = (st1, Inr (ref, inline, d)) \<Longrightarrow> inline = None \<and> d = x"
  by (auto simp: file_content_def split: prod.splits sum.splits)

lemma update_content_cases:
  assumes "update_content env aid cur u kind st = (st1, Inr (ref, inline, d))"
  obtains t where "inline = Some t" "ref = None" "d = utf8_encode t" "st1 = st"
  | "inline = None" "int (length d) \<le> acf_max_bytes (en_config env)" "file_content env aid (''rev-'' @ en_revision_id env) d st = (st1, Inr (ref, inline, d))"
proof (cases "rup_text_patch u")
  case (Some patch)
  with assms have "\<exists>t. inline = Some t \<and> ref = None \<and> d = utf8_encode t \<and> st1 = st"
    by (auto simp: update_content_def patched_content_def split: sum.splits option.splits if_splits) metis
  with that(1) show thesis by blast
next
  case None
  show thesis
  proof (cases "rup_inline_content u")
    case inline: (Some t)
    with None assms have "inline = Some t \<and> ref = None \<and> d = utf8_encode t \<and> st1 = st"
      by (simp add: update_content_def split: if_splits)
    with that(1) show thesis by blast
  next
    case noinline: None
    with None assms have "\<exists>x. int (length x) \<le> acf_max_bytes (en_config env) \<and>
        file_content env aid (''rev-'' @ en_revision_id env) x st = (st1, Inr (ref, inline, d))"
      by (auto simp: update_content_def workspace_bytes_def not_less split: sum.splits option.splits if_splits)
    with file_content_result that(2) show thesis by blast
  qed
qed

lemma update_content_done:
  assumes "update_content env aid cur u kind st = (st1, Inr (ref, inline, d))" and "drawn_name (en_hex env)"
  shows "edit_bytes env cur u st d"
    and "stored_bytes env st1 inline ref (acf_max_bytes (en_config env)) = Inr d"
    and "lstat (ast_files st) (item_path env aid (''rev-'' @ en_revision_id env)) = None \<Longrightarrow> files_grow (ast_files st) (ast_files st1)"
    and "(ref \<noteq> None) \<noteq> (inline \<noteq> None)" and "case ref of None \<Rightarrow> st1 = st | Some x \<Rightarrow> item_ref x"
    and "case inline of None \<Rightarrow> True | Some t \<Rightarrow> d = utf8_encode t"
proof -
  show "edit_bytes env cur u st d"
    using assms(1)
    by (auto simp: update_content_def edit_bytes_def patched_content_def workspace_bytes_def file_content_def
        split: option.splits sum.splits if_splits prod.splits)
  have all: "stored_bytes env st1 inline ref (acf_max_bytes (en_config env)) = Inr d \<and>
      (lstat (ast_files st) (item_path env aid (''rev-'' @ en_revision_id env)) = None \<longrightarrow> files_grow (ast_files st) (ast_files st1)) \<and>
      ((ref \<noteq> None) \<noteq> (inline \<noteq> None)) \<and> (case ref of None \<Rightarrow> st1 = st | Some x \<Rightarrow> item_ref x) \<and>
      (case inline of None \<Rightarrow> True | Some t \<Rightarrow> d = utf8_encode t)"
    using assms(1)
  proof (cases rule: update_content_cases)
    case (1 t)
    then show ?thesis by (simp add: stored_bytes_def)
  next
    case 2
    show ?thesis
      by (rule file_content_done [OF 2(3) assms(2)]) (use 2(2) in \<open>simp add: stored_bytes_def item_ref_def\<close>)
  qed
  show "stored_bytes env st1 inline ref (acf_max_bytes (en_config env)) = Inr d"
    and "lstat (ast_files st) (item_path env aid (''rev-'' @ en_revision_id env)) = None \<Longrightarrow> files_grow (ast_files st) (ast_files st1)"
    and "(ref \<noteq> None) \<noteq> (inline \<noteq> None)" and "case ref of None \<Rightarrow> st1 = st | Some x \<Rightarrow> item_ref x"
    and "case inline of None \<Rightarrow> True | Some t \<Rightarrow> d = utf8_encode t" using all by blast+
qed

text \<open>A successful edit: its content, its commit.\<close>

lemma update_revision_done:
  assumes "update_revision env aid expected u st = (st', Inr (c, res))"
  obtains a cur st1 ref inline d r kind where "edit_base env aid expected st = Inr (a, cur)"
    "update_content env aid cur u kind st = (st1, Inr (ref, inline, d))" "valid_revision r"
    "rv_content_ref r = ref" "rv_inline_content r = inline" "rv_checksum r = sha256_checksum env d" "rv_size r = int (length d)"
    "commit_revision env aid expected cur r st1 = (st', Inr (c, res))"
proof -
  from assms obtain a cur where b: "edit_base env aid expected st = Inr (a, cur)"
    by (auto simp: update_revision_def split: sum.splits)
  let ?kind = "if rup_text_patch u = None then or_old (rup_kind u) (rv_kind cur) else rv_kind cur"
  let ?mime = "if rup_text_patch u = None then or_old (rup_mime u) (rv_mime cur) else rv_mime cur"
  obtain st1 cres where uc: "update_content env aid cur u ?kind st = (st1, cres)" by (cases "update_content env aid cur u ?kind st")
  with assms b obtain ref inline d where c: "cres = Inr (ref, inline, d)"
    by (cases cres) (auto simp: update_revision_def Let_def split: if_splits)
  let ?r = "next_revision env cur None (ref, inline, d) (int (length d)) (sha256_checksum env d) ?mime ?kind (rup_change_summary u)"
  have "valid_revision ?r \<and> commit_revision env aid expected cur ?r st1 = (st', Inr (c, res))"
    using assms b uc c by (simp add: update_revision_def Let_def split: if_splits)
  with b uc c show thesis by (intro that [of a cur ?kind st1 ref inline d ?r]) (simp_all add: next_revision_def)
qed

lemma update_revision_reads:
  assumes "update_revision env aid expected u st = (st', Inr (c, res))" and "drawn_name (en_hex env)" and "keeps_files env"
    and "lstat (ast_files st) (item_path env aid (''rev-'' @ en_revision_id env)) = None"
  obtains a cur d where "edit_base env aid expected st = Inr (a, cur)" "edit_bytes env cur u st d"
    "get_revision_content env aid None st' = Inr (d, c)" "files_grow (ast_files st) (ast_files st')"
proof -
  from assms(1) obtain a cur kind st1 ref inline d r where u: "edit_base env aid expected st = Inr (a, cur)"
      "update_content env aid cur u kind st = (st1, Inr (ref, inline, d))"
      "rv_content_ref r = ref" "rv_inline_content r = inline" "rv_checksum r = sha256_checksum env d"
      "commit_revision env aid expected cur r st1 = (st', Inr (c, res))"
    by (rule update_revision_done)
  note content = update_content_done [OF u(2) assms(2)]
  have "revision_bytes env st1 r (acf_max_bytes (en_config env)) = Inr d"
    using content(2) by (simp add: revision_bytes_def u(3,4))
  note read = commit_revision_reads [OF u(6) this u(5) [symmetric] assms(3)]
  from files_grow_trans [OF content(3) [OF assms(4)] read(3)] read(1,2) content(1) u(1) that show thesis by blast
qed

text \<open>A rollback: a new revision with the content of the target.\<close>

definition rolled_back :: "art_env \<Rightarrow> ArtifactRevision \<Rightarrow> ArtifactRevision \<Rightarrow> content \<Rightarrow> string \<Rightarrow> ArtifactRevision" where
  "rolled_back env cur t k summary = next_revision env cur (Some (rv_id t)) k (rv_size t) (rv_checksum t) (rv_mime t) (rv_kind t) summary"

lemma rolled_back_simps [simp]:
  "rv_content_ref (rolled_back env cur t (ref, inline, d) summary) = ref" "rv_inline_content (rolled_back env cur t (ref, inline, d) summary) = inline"
  "rv_rollback_from_revision_id (rolled_back env cur t k summary) = Some (rv_id t)" "rv_mime (rolled_back env cur t k summary) = rv_mime t"
  "rv_kind (rolled_back env cur t k summary) = rv_kind t" "rv_checksum (rolled_back env cur t k summary) = rv_checksum t"
  by (cases k, simp_all add: rolled_back_def next_revision_def)+

lemma rollback_done:
  assumes "rollback env aid target expected summary st = (st', Inr (c, res))" and "drawn_name (en_hex env)"
    and new: "lstat (ast_files st) (item_path env aid (''rb-'' @ en_revision_id env)) = None"
    and t: "get_revision_sync aid target (ast_db st) = Some t" and d: "revision_bytes env st t (acf_max_bytes (en_config env)) = Inr d"
  obtains cur st1 ref inline where "commit_revision env aid expected cur (rolled_back env cur t (ref, inline, d) summary) st1 = (st', Inr (c, res))"
    "stored_bytes env st1 inline ref (acf_max_bytes (en_config env)) = Inr d" "files_grow (ast_files st) (ast_files st1)"
proof (cases "rv_inline_content t")
  case (Some x)
  with d have "d = utf8_encode x" by (simp add: revision_bytes_def stored_bytes_def)
  moreover from Some t assms(1) obtain cur where
      "commit_revision env aid expected cur (rolled_back env cur t (None, Some x, utf8_encode x) summary) st = (st', Inr (c, res))"
    by (auto simp: rollback_def rolled_back_def Let_def split: sum.splits if_splits)
  ultimately show thesis using that [of cur None "Some x" st] by (simp add: stored_bytes_def)
next
  case None
  with d obtain ref where ref: "rv_content_ref t = Some ref" "read_ref env st ref (acf_max_bytes (en_config env)) = Inr d"
    by (auto simp: revision_bytes_def stored_bytes_def split: option.splits)
  then have len: "int (length d) \<le> acf_max_bytes (en_config env)"
    by (auto simp: read_ref_def elim: store_read_file)
  obtain st1 fres where fc: "file_content env aid (''rb-'' @ en_revision_id env) d st = (st1, fres)"
    by (cases "file_content env aid (''rb-'' @ en_revision_id env) d st")
  with None ref t assms(1) obtain cur k where k: "fres = Inr k"
      "commit_revision env aid expected cur (rolled_back env cur t k summary) st1 = (st', Inr (c, res))"
    by (auto simp: rollback_def rolled_back_def Let_def split: sum.splits if_splits)
  show thesis
    by (rule file_content_done [OF fc [unfolded k(1)] assms(2)])
      (use k len new in \<open>auto simp: stored_bytes_def intro: that\<close>)
qed

lemma rollback_reads:
  assumes "rollback env aid target expected summary st = (st', Inr (c, res))" and "drawn_name (en_hex env)" and "keeps_files env"
    and "lstat (ast_files st) (item_path env aid (''rb-'' @ en_revision_id env)) = None"
    and "get_revision_sync aid target (ast_db st) = Some t" and "verified_bytes env st t = Inr (d, t)"
  shows "get_revision_content env aid None st' = Inr (d, c)" and "rv_rollback_from_revision_id c = Some target"
    and "rv_mime c = rv_mime t" "rv_kind c = rv_kind t" "rv_checksum c = rv_checksum t" "files_grow (ast_files st) (ast_files st')"
proof -
  from assms(6) have bytes: "revision_bytes env st t (acf_max_bytes (en_config env)) = Inr d" and sum: "sha256_checksum env d = rv_checksum t"
    by (auto simp: verified_bytes_def split: sum.splits if_splits)
  have tid: "rv_id t = target" using assms(5) fetchone_SomeD by (fastforce simp: get_revision_sync_def)
  from assms(1,2,4,5) bytes obtain cur st1 ref inline where
      r: "commit_revision env aid expected cur (rolled_back env cur t (ref, inline, d) summary) st1 = (st', Inr (c, res))"
      "stored_bytes env st1 inline ref (acf_max_bytes (en_config env)) = Inr d" "files_grow (ast_files st) (ast_files st1)"
    by (rule rollback_done)
  have b: "revision_bytes env st1 (rolled_back env cur t (ref, inline, d) summary) (acf_max_bytes (en_config env)) = Inr d"
    using r(2) by (simp add: revision_bytes_def)
  note read = commit_revision_reads [OF r(1) b _ assms(3), simplified, OF sum]
  show "get_revision_content env aid None st' = Inr (d, c)" "files_grow (ast_files st) (ast_files st')"
    using read(1,2) files_grow_trans [OF r(3) read(3)] by simp_all
  show "rv_rollback_from_revision_id c = Some target" "rv_mime c = rv_mime t" "rv_kind c = rv_kind t" "rv_checksum c = rv_checksum t"
    using read(1) tid by simp_all
qed

section \<open>Refused edits\<close>

definition hex_digest :: "(bytes \<Rightarrow> string) \<Rightarrow> bool" where
  "hex_digest h \<longleftrightarrow> (\<forall>x. length (h x) = 64 \<and> list_all hex_lower (h x))"

lemma sha256_checksum_valid: "hex_digest (en_hash env) \<Longrightarrow> validate_checksum (sha256_checksum env d)"
  by (simp add: hex_digest_def validate_checksum_def sha256_checksum_def starts_with_def)

lemma in_safe_dir_refused:
  assumes "in_safe_dir base sub f fs = (fs', Inl e)" and "p \<notin> {base, base @ [sub]}"
  shows "lstat fs' p = lstat fs p"
  using assms by (auto simp: in_safe_dir_def ensure_safe_dirD(1) split: sum.splits)

lemma write_atomic_refused:
  assumes "write_atomic cs hex aid f data fs = (fs', Inl e)"
  shows "lstat fs' (cs_root cs @ [''items'', aid, x]) = lstat fs (cs_root cs @ [''items'', aid, x])"
  using assms
proof (cases rule: write_atomic_cases)
  case (2 r)
  then obtain e' where "r = Inl e'" by (auto simp: map_sum_def split: sum.splits)
  with 2(3) in_safe_dir_refused show ?thesis by fastforce
qed simp

lemma file_content_refused:
  assumes "file_content env aid name d st = (st1, Inl e)"
  shows "lstat (ast_files st1) (item_path env aid name) = lstat (ast_files st) (item_path env aid name)"
  using assms write_atomic_refused
  by (fastforce simp: file_content_def write_ref_def item_path_def split: prod.splits sum.splits)

lemma update_content_refused:
  assumes "update_content env aid cur u kind st = (st1, Inl e)"
    and "lstat (ast_files st) (item_path env aid (''rev-'' @ en_revision_id env)) = None"
  shows "lstat (ast_files st1) (item_path env aid (''rev-'' @ en_revision_id env)) = None"
  using assms file_content_refused [of env aid "''rev-'' @ en_revision_id env"]
  by (auto simp: update_content_def split: option.splits sum.splits if_splits)

text \<open>The file of a revision that is not committed is removed.\<close>

lemma delete_written:
  assumes "write_atomic cs hex aid f data fs = (fs', Inr ref)" and "drawn_name hex" and "files_grow fs' fs2"
  shows "lstat (fst (delete_owned cs ref fs2)) (cs_root cs @ [''items'', aid, server_filename hex f]) = None"
proof -
  note wr = write_atomic_done [OF assms(1,2)]
  have "lstat fs2 (cs_root cs @ [''items'']) = Some EDir" "lstat fs2 (cs_root cs @ [''items'', aid]) = Some EDir"
    "lstat fs2 (cs_root cs @ [''items'', aid, server_filename hex f]) = Some (EFile data)"
    using assms(3) wr(2) unfolding files_grow_def by simp_all
  then show ?thesis
    using wr(1) by (simp add: delete_owned_def root_for_scheme_def resolve_parent_def check_root_def)
qed

lemma commit_refused_file:
  assumes "commit_revision env aid expected cur r st1 = (st', Inl e)" and "keeps_files env" and "drawn_name (en_hex env)"
    and "file_content env aid name d st = (st1, Inr (rv_content_ref r, None, d))"
  shows "lstat (ast_files st') (item_path env aid name) = None"
proof -
  from assms(4) obtain ref fs where w: "write_atomic (en_store env) (en_hex env) aid name d (ast_files st) = (fs, Inr ref)"
      "rv_content_ref r = Some ref" "ast_files st1 = fs"
    by (auto simp: file_content_def write_ref_def Let_def split: prod.splits sum.splits)
  have "files_grow fs (ast_files (en_meanwhile env st1))" using assms(2) w(3) by (auto simp: keeps_files_def)
  from delete_written [OF w(1) assms(3) this] show ?thesis
    using commit_revision_refused(2) [OF assms(1)] w(2) by (simp add: best_effort_delete_def item_path_def)
qed

lemma edited_revision_valid:
  assumes "update_content env aid cur u kind st = (st1, Inr (ref, inline, d))" and "drawn_name (en_hex env)" and "hex_digest (en_hash env)"
    and "valid_revision cur" and "mime \<noteq> []" and "is_text_kind kind \<or> inline = None"
  shows "valid_revision (next_revision env cur None (ref, inline, d) (int (length d)) (sha256_checksum env d) mime kind summary)"
  using update_content_done(4-6) [OF assms(1,2)] sha256_checksum_valid [OF assms(3)] assms(4-6)
  by (auto simp: valid_revision_def next_revision_def item_ref_def split: option.splits)

lemma edit_base_current:
  assumes "edit_base env aid expected st = Inr (a, cur)"
  shows "cur \<in> set (adb_revisions (ast_db st))" and "get_artifact_sync aid (ast_db st) = Some a" and "rv_id cur = expected"
    and "af_current_revision_id a = Some expected" and "rv_artifact_id cur = aid"
  using assms
  by (auto simp: edit_base_def get_revision_sync_def split: option.splits if_splits dest!: fetchone_SomeD)

lemma update_revision_refused_cases:
  assumes "update_revision env aid expected u st = (st', Inl e)" and "drawn_name (en_hex env)"
    and "hex_digest (en_hash env)" and "rup_mime u \<noteq> Some []" and "list_all valid_revision (adb_revisions (ast_db st))"
  obtains "st' = st"
  | cur kind e' where "update_content env aid cur u kind st = (st', Inl e')"
  | cur kind st1 ref inline d r where "update_content env aid cur u kind st = (st1, Inr (ref, inline, d))" "rv_content_ref r = ref"
    "commit_revision env aid expected cur r st1 = (st', Inl e)"
proof (cases "\<exists>a cur. edit_base env aid expected st = Inr (a, cur) \<and>
    given (rup_inline_content u) + given (rup_file_data u) + given (rup_workspace_ref u) + given (rup_text_patch u) = 1")
  case False
  with assms(1) that(1) show thesis by (cases "edit_base env aid expected st") (auto simp: update_revision_def split: if_splits)
next
  case True
  then obtain a cur where b: "edit_base env aid expected st = Inr (a, cur)"
    and one: "given (rup_inline_content u) + given (rup_file_data u) + given (rup_workspace_ref u) + given (rup_text_patch u) = 1" by blast
  let ?kind = "if rup_text_patch u = None then or_old (rup_kind u) (rv_kind cur) else rv_kind cur"
  let ?mime = "if rup_text_patch u = None then or_old (rup_mime u) (rv_mime cur) else rv_mime cur"
  have cur: "valid_revision cur" using edit_base_current(1) [OF b] assms(5) by (simp add: list_all_iff)
  then have mime: "?mime \<noteq> []" using assms(4) by (auto simp: valid_revision_def or_old_def split: option.splits)
  obtain st1 res where uc: "update_content env aid cur u ?kind st = (st1, res)" by (cases "update_content env aid cur u ?kind st")
  show thesis
  proof (cases res)
    case (Inl e')
    with assms(1) b one uc that(2) [of cur ?kind e'] show thesis by (simp add: update_revision_def Let_def split: if_splits)
  next
    case (Inr x)
    obtain ref inline d where x: "res = Inr (ref, inline, d)" using Inr by (cases x) simp
    let ?r = "next_revision env cur None (ref, inline, d) (int (length d)) (sha256_checksum env d) ?mime ?kind (rup_change_summary u)"
    show thesis
    proof (cases "is_text_kind ?kind \<or> inline = None")
      case True
      have "valid_revision ?r" by (rule edited_revision_valid [OF uc [unfolded x] assms(2,3) cur mime True])
      with assms(1) b one uc x True have "commit_revision env aid expected cur ?r st1 = (st', Inl e)"
        by (auto simp: update_revision_def Let_def split: if_splits)
      with uc x that(3) [of cur ?kind st1 ref inline d ?r] show thesis by (simp add: next_revision_def)
    next
      case False
      then have "st1 = st" by (cases rule: update_content_cases [OF uc [unfolded x]]) simp_all
      with assms(1) b one uc x False that(1) show thesis by (simp add: update_revision_def Let_def split: if_splits)
    qed
  qed
qed

lemma update_revision_refused:
  assumes "update_revision env aid expected u st = (st', Inl e)" and "drawn_name (en_hex env)"
    and "hex_digest (en_hash env)" and "rup_mime u \<noteq> Some []" and "list_all valid_revision (adb_revisions (ast_db st))"
    and "keeps_files env" and new: "lstat (ast_files st) (item_path env aid (''rev-'' @ en_revision_id env)) = None"
    and own: "\<And>s. lstat (ast_files (en_meanwhile env s)) (item_path env aid (''rev-'' @ en_revision_id env)) =
      lstat (ast_files s) (item_path env aid (''rev-'' @ en_revision_id env))"
  shows "lstat (ast_files st') (item_path env aid (''rev-'' @ en_revision_id env)) = None"
    and "ast_db st' = ast_db st \<or> (\<exists>s. ast_db s = ast_db st \<and> ast_db st' = ast_db (en_meanwhile env s))"
proof -
  have "lstat (ast_files st') (item_path env aid (''rev-'' @ en_revision_id env)) = None \<and>
      (ast_db st' = ast_db st \<or> (\<exists>s. ast_db s = ast_db st \<and> ast_db st' = ast_db (en_meanwhile env s)))"
    using assms(1-5)
  proof (cases rule: update_revision_refused_cases)
    case 1
    with new show ?thesis by simp
  next
    case (2 cur kind e')
    with update_content_refused [OF 2 new] update_content_db [OF 2] show ?thesis by simp
  next
    case (3 cur kind st1 ref inline d r)
    have "lstat (ast_files st') (item_path env aid (''rev-'' @ en_revision_id env)) = None"
      using 3(1)
    proof (cases rule: update_content_cases)
      case (1 t)
      with 3(2) commit_revision_refused(2) [OF 3(3)] own [of st] new show ?thesis by (simp add: best_effort_delete_def)
    next
      case 2
      with commit_refused_file [OF 3(3) assms(6,2)] 3(2) show ?thesis by blast
    qed
    with commit_revision_refused(1) [OF 3(3)] update_content_db [OF 3(1)] show ?thesis by blast
  qed
  then show "lstat (ast_files st') (item_path env aid (''rev-'' @ en_revision_id env)) = None"
    and "ast_db st' = ast_db st \<or> (\<exists>s. ast_db s = ast_db st \<and> ast_db st' = ast_db (en_meanwhile env s))" by blast+
qed

section \<open>Publication\<close>

text \<open>Store and service are given the same limit for inline content.\<close>

definition wired :: "art_env \<Rightarrow> bool" where
  "wired env \<longleftrightarrow> cs_inline_max_bytes (en_store env) = acf_inline_max_bytes (en_config env)"

definition withheld :: "Artifact \<Rightarrow> bool" where
  "withheld a \<longleftrightarrow> af_classification a = Some ''sensitive'' \<or> af_classification a = Some ''secret''"

lemma public_content_text:
  assumes "public_content env a rvn st = Inr (text, d)" and "is_text_kind (rv_kind rvn)" and "clean (ifs_secrets (en_flow env))"
  obtains t where "text = Some t" "d = utf8_encode t" "secret_free (ifs_secrets (en_flow env)) t" "\<not> withheld a"
proof -
  define ls where "ls = (case af_labels a of None \<Rightarrow> [] | Some ls \<Rightarrow> ls)"
  obtain v where v: "read_revision_text env st rvn (acf_max_bytes (en_config env)) = Inr v"
    using assms(1,2) by (cases "read_revision_text env st rvn (acf_max_bytes (en_config env))") (auto simp: public_content_def)
  let ?res = "if_release (en_flow env) v PUBLIC_ARTIFACT (resolve_classification a) ''artifact'' ls"
  obtain t where u: "rl_content ?res = Some t" "text = Some t" "d = utf8_encode t"
    using assms(1,2) v by (cases "rl_content ?res") (auto simp: public_content_def Let_def simp flip: ls_def split: bool.splits)
  have "secret_free (ifs_secrets (en_flow env)) t" "resolve_classification a \<noteq> SECRET" "resolve_classification a \<noteq> SENSITIVE"
    using if_release_safe [OF assms(3), of v PUBLIC_ARTIFACT "resolve_classification a" "''artifact''" ls] u(1) by auto
  moreover from this have "\<not> withheld a" by (auto simp: withheld_def resolve_classification_def)
  ultimately show thesis using u that by blast
qed

lemma write_snapshot_text:
  assumes "write_snapshot env rvn (Some t) (utf8_encode t) st = (st1, Inr (ref, inline))" and "wired env"
  shows "ref = None" "inline = Some t" "st1 = st"
  using assms
  by (auto simp: write_snapshot_def wired_def copy_to_publish_snapshot_def Let_def in_safe_dir_def split: if_splits prod.splits sum.splits)

lemma insert_publishedD:
  assumes "insert_published now p db = Some db'"
  shows "adb_published db' = adb_published db @ [published_params now p]" and "adb_artifacts db' = adb_artifacts db"
  using assms by (auto simp: insert_published_def split: if_splits)

text \<open>A registered publication is either the active one with the same checksum or the new one, of the revision that is current.\<close>

lemma register_revision_publish_done:
  assumes "register_revision_publish_sync now p aid rid expected db = (db', Inr q)"
  obtains "db' = db" "q \<in> set (adb_published db)" "active_of aid q" "pa_snapshot_checksum q = pa_snapshot_checksum p"
  | a where "q = published_params now (p\<lparr>pa_published_revision_id := Some rid\<rparr>)" "q \<in> set (adb_published db')"
    "get_artifact_sync aid db' = Some a" "af_current_revision_id a = Some expected" "af_status a = PUBLISHED"
proof -
  let ?same = "\<lambda>x. active_of aid x \<and> pa_snapshot_checksum x = pa_snapshot_checksum p" and ?p = "p\<lparr>pa_published_revision_id := Some rid\<rparr>"
  from assms obtain a where a: "get_artifact_sync aid db = Some a" "af_current_revision_id a = Some expected"
    by (auto simp: register_revision_publish_sync_def Let_def split: option.splits if_splits)
  show thesis
  proof (cases "fetchone ?same (adb_published db)")
    case (Some x)
    with assms a have "db' = db" "q = x" by (auto simp: register_revision_publish_sync_def Let_def)
    with that(1) fetchone_SomeD [OF Some] show thesis by blast
  next
    case None
    with assms a obtain db1 where ins: "insert_published now ?p (revoke_active now aid db) = Some db1" "db' = mark_published now aid db1"
        "q = published_params now ?p"
      by (auto simp: register_revision_publish_sync_def Let_def split: option.splits)
    have "get_artifact_sync aid db' = Some (a\<lparr>af_status := PUBLISHED, af_updated_at := Some now\<rparr>)"
      using a(1) by (auto simp: ins(2) mark_published_def get_artifact_sync_def insert_publishedD [OF ins(1)] revoke_active_def sql_simps
          dest: fetchone_SomeD)
    moreover have "q \<in> set (adb_published db')" by (simp add: ins(2,3) mark_published_def insert_publishedD [OF ins(1)])
    ultimately show thesis using that(2) ins(3) a(2) by simp
  qed
qed

lemma publish_revision_done:
  assumes "publish_revision env aid rid expected st = (st', Inr res)" and "\<not> pres_reused res"
  obtains a rvn body d st1 ref inline where "get_artifact_sync aid (ast_db st) = Some a" "af_current_revision_id a = Some rid" "expected = rid"
    "get_revision_sync aid rid (ast_db st) = Some rvn"
    "public_content env a rvn st = Inr (body, d)" "write_snapshot env rvn body d st = (st1, Inr (ref, inline))"
    "commit_publication env aid rid rid (new_publication env a rvn ref inline d) st1 = (st', Inr res)"
proof -
  from assms(1) obtain a rvn where a: "get_artifact_sync aid (ast_db st) = Some a" "af_current_revision_id a = Some rid" "expected = rid"
      "get_revision_sync aid rid (ast_db st) = Some rvn"
    by (auto simp: publish_revision_def split: option.splits if_splits)
  from a assms(1) obtain body d where p: "public_content env a rvn st = Inr (body, d)"
    by (auto simp: publish_revision_def Let_def split: option.splits sum.splits)
  obtain st1 w where w: "write_snapshot env rvn body d st = (st1, w)" by (cases "write_snapshot env rvn body d st")
  have "\<exists>ref inline. w = Inr (ref, inline) \<and> commit_publication env aid rid rid (new_publication env a rvn ref inline d) st1 = (st', Inr res)"
    using assms a p w
    by (auto simp: publish_revision_def Let_def publish_result_def split: option.splits sum.splits if_splits)
  with a p w that show thesis by blast
qed

lemma commit_publication_new:
  assumes "commit_publication env aid rid expected p st = (st', Inr res)" and "\<not> pres_reused res"
    and "en_publish_id env \<notin> pa_publish_id ` set (adb_published (ast_db (en_meanwhile env st)))"
  obtains a where "pres_published res = published_params (en_now env) (p\<lparr>pa_published_revision_id := Some rid\<rparr>)"
    "pres_published res \<in> set (adb_published (ast_db st'))"
    "get_artifact_sync aid (ast_db st') = Some a" "af_current_revision_id a = Some expected"
proof -
  let ?m = "en_meanwhile env st"
  from assms(1,2) obtain db1 q where q: "register_revision_publish_sync (en_now env) p aid rid expected (ast_db ?m) = (db1, Inr q)"
      "pres_published res = q" "pa_publish_id q = en_publish_id env" "ast_db st' = db1"
    by (auto simp: commit_publication_def Let_def publish_result_def split: prod.splits sum.splits)
  from q(1) show thesis
  proof (cases rule: register_revision_publish_done)
    case 1
    with key_notin [OF assms(3)] q(3) show thesis by blast
  next
    case (2 a)
    with that q(2,4) show thesis by blast
  qed
qed

text \<open>The publication of a text.\<close>

lemma published_text:
  assumes "publish_revision env aid rid expected st = (st', Inr res)" and "\<not> pres_reused res"
    and "clean (ifs_secrets (en_flow env))" and "wired env" and "get_revision_sync aid rid (ast_db st) = Some rvn" and "is_text_kind (rv_kind rvn)"
    and "en_publish_id env \<notin> pa_publish_id ` set (adb_published (ast_db (en_meanwhile env st)))"
  obtains a t where "pres_published res \<in> set (adb_published (ast_db st'))" "pa_snapshot_inline_content (pres_published res) = Some t"
    "secret_free (ifs_secrets (en_flow env)) t" "pa_snapshot_checksum (pres_published res) = sha256_checksum env (utf8_encode t)"
    "pa_published_revision_id (pres_published res) = Some rid"
    "get_artifact_sync aid (ast_db st') = Some a" "af_current_revision_id a = Some rid"
    "\<exists>b. get_artifact_sync aid (ast_db st) = Some b \<and> \<not> withheld b"
proof -
  from assms(1,2) obtain b rvn' body d st1 ref inline where p: "get_artifact_sync aid (ast_db st) = Some b" "expected = rid"
      "get_revision_sync aid rid (ast_db st) = Some rvn'"
      "public_content env b rvn' st = Inr (body, d)" "write_snapshot env rvn' body d st = (st1, Inr (ref, inline))"
      "commit_publication env aid rid rid (new_publication env b rvn' ref inline d) st1 = (st', Inr res)"
    by (rule publish_revision_done)
  from p(3) assms(5) have r: "rvn' = rvn" by simp
  from p(4) assms(6) r assms(3) obtain t where t: "body = Some t" "d = utf8_encode t" "secret_free (ifs_secrets (en_flow env)) t" "\<not> withheld b"
    by (auto elim: public_content_text)
  note snap = write_snapshot_text [OF p(5) [unfolded t(1,2)] assms(4)]
  from p(6) assms(2) assms(7) [folded snap(3)] obtain a where "pres_published res = published_params (en_now env) ((new_publication env b rvn' ref inline d)\<lparr>pa_published_revision_id := Some rid\<rparr>)"
      "pres_published res \<in> set (adb_published (ast_db st'))" "get_artifact_sync aid (ast_db st') = Some a" "af_current_revision_id a = Some rid"
    by (rule commit_publication_new)
  with that [of t a] t snap p(1) show thesis by (simp add: new_publication_def published_params_def)
qed

end
