(* ===== verification/Artifact_Migration.thy ===== *)
theory Artifact_Migration
  imports Artifact_Refinement
begin

text \<open>
  The migration to revisions ends, for every database and every batch size, and an artifact that it leaves without a revision is
  counted as failed. The pass over the kinds shares its loop with the one over the sessions and need not end.
\<close>

section \<open>One artifact\<close>

text \<open>A change of the rows of one artifact that can only give it a revision.\<close>

definition revises :: "string \<Rightarrow> Artifact list \<Rightarrow> Artifact list \<Rightarrow> bool" where
  "revises aid xs ys \<longleftrightarrow>
     list_all2 (\<lambda>x y. y = x \<or> (af_id x = aid \<and> af_id y = aid \<and> af_current_revision_id y \<noteq> None)) xs ys"

lemma revises_refl [simp]: "revises aid xs xs"
  by (simp add: revises_def list_all2_refl)

lemma revises_set_current: "revises aid (adb_artifacts db) (adb_artifacts (set_current_revision now aid rid db))"
  unfolding revises_def set_current_revision_def sql_update_def
  by (simp add: list_all2_map2 list_all2_same)

definition has_revision :: "string \<Rightarrow> Artifact list \<Rightarrow> bool" where
  "has_revision aid xs \<longleftrightarrow> (\<forall>x\<in>set xs. af_id x = aid \<longrightarrow> af_current_revision_id x \<noteq> None)"

lemma has_revision_set_current: "has_revision aid (adb_artifacts (set_current_revision now aid rid db))"
proof -
  have "af_current_revision_id x \<noteq> None"
    if "x \<in> set (sql_update (\<lambda>a. af_id a = aid) (\<lambda>a. a\<lparr>af_current_revision_id := Some rid, af_updated_at := Some now\<rparr>) rows)" "af_id x = aid"
    for x rows using that(1) by (rule sql_update_cases) (use that(2) in simp_all)
  then have "\<forall>x\<in>set (adb_artifacts (set_current_revision now aid rid db)). af_id x = aid \<longrightarrow> af_current_revision_id x \<noteq> None"
    unfolding set_current_revision_def by fastforce
  then show ?thesis unfolding has_revision_def .
qed

lemma backfill_revises:
  assumes "commit_initial_revision_backfill_sync now aid r db = (db', res)" and "keyed af_id (adb_artifacts db)"
  shows "revises aid (adb_artifacts db) (adb_artifacts db')" and "\<exists>x. res = Inr x \<Longrightarrow> has_revision aid (adb_artifacts db')"
proof -
  have set1: "revises i (adb_artifacts db) (adb_artifacts (set_current_revision now i rid db1))" if "insert_revision r db = Some db1" for db1 rid i
    using revises_set_current [of i db1 now rid] insert_revisionD(1) [OF that] by simp
  show "revises aid (adb_artifacts db) (adb_artifacts db')"
    using assms(1) by (auto simp: commit_initial_revision_backfill_sync_def intro: revises_set_current set1 split: option.splits if_splits)
  show "has_revision aid (adb_artifacts db')" if "\<exists>x. res = Inr x"
  proof (cases "db' = db")
    case False
    with that assms(1) show ?thesis
      by (auto simp: commit_initial_revision_backfill_sync_def has_revision_set_current split: option.splits if_splits)
  next
    case True
    show ?thesis
    proof (cases "\<exists>a. get_artifact_sync aid db = Some a \<and> af_current_revision_id a \<noteq> None")
      case current: True
      then obtain a where a: "get_artifact_sync aid db = Some a" "af_current_revision_id a \<noteq> None" by blast
      have "x = a" if "x \<in> set (adb_artifacts db)" "af_id x = aid" for x
        using a(1) that by (intro keyed_fetchone_unique [OF assms(2)]) (auto simp: get_artifact_sync_def)
      with a(2) True show ?thesis by (auto simp: has_revision_def)
    next
      case nocurrent: False
      with that assms(1) show ?thesis
        by (auto simp: commit_initial_revision_backfill_sync_def has_revision_set_current split: option.splits if_splits)
    qed
  qed
qed

lemma migrate_one_revises:
  assumes "migrate_one_artifact env a st = (st', res)" and "keyed af_id (adb_artifacts (ast_db st))"
  shows "revises (af_id a) (adb_artifacts (ast_db st)) (adb_artifacts (ast_db st'))"
    and "res \<in> {''migrated'', ''skipped''} \<Longrightarrow> has_revision (af_id a) (adb_artifacts (ast_db st'))"
proof -
  have "ast_db st' = ast_db st \<and> res \<notin> {''migrated'', ''skipped''} \<or>
      (\<exists>r db1 c. commit_initial_revision_backfill_sync (en_now env) (af_id a) r (ast_db st) = (db1, c) \<and> ast_db st' = db1 \<and>
        (res \<in> {''migrated'', ''skipped''} \<longrightarrow> (\<exists>x. c = Inr x)))"
    using assms(1)
    by (auto simp: migrate_one_artifact_def Let_def split: sum.splits option.splits prod.splits if_splits dest!: file_content_db) blast+
  then show "revises (af_id a) (adb_artifacts (ast_db st)) (adb_artifacts (ast_db st'))"
    "res \<in> {''migrated'', ''skipped''} \<Longrightarrow> has_revision (af_id a) (adb_artifacts (ast_db st'))"
    using backfill_revises [OF _ assms(2)] by auto
qed

section \<open>A batch\<close>

definition unrevised :: "Artifact list \<Rightarrow> Artifact list" where
  "unrevised xs = filter (\<lambda>a. af_current_revision_id a = None) xs"

lemma revises_ids: "revises aid xs ys \<Longrightarrow> map af_id ys = map af_id xs"
  unfolding revises_def by (induction rule: list_all2_induct) auto

lemma revises_others:
  assumes "revises aid xs ys" and "\<And>a. a \<in> set xs \<Longrightarrow> af_id a = aid \<Longrightarrow> \<not> P a" and "\<And>a. P a \<Longrightarrow> af_current_revision_id a = None"
  shows "filter P ys = filter P xs"
  using assms unfolding revises_def by (induction rule: list_all2_induct) auto

lemma revises_unrevised_subset: "revises aid xs ys \<Longrightarrow> set (unrevised ys) \<subseteq> set (unrevised xs)"
  unfolding revises_def unrevised_def by (induction rule: list_all2_induct) auto

lemma revises_unrevised:
  assumes "revises aid xs ys"
  shows "length (unrevised ys) \<le> length (unrevised xs)"
    and "has_revision aid ys \<Longrightarrow> a \<in> set (unrevised xs) \<Longrightarrow> af_id a = aid \<Longrightarrow> length (unrevised ys) < length (unrevised xs)"
  using assms unfolding revises_def
proof (induction rule: list_all2_induct)
  case (Cons x xs y ys)
  {
    case 1
    with Cons show ?case by (auto simp: unrevised_def)
  next
    case 2
    then have "has_revision aid ys" by (simp add: has_revision_def)
    with 2 Cons show ?case by (auto simp: unrevised_def has_revision_def le_imp_less_Suc)
  }
qed (simp_all add: unrevised_def)

lemma mem_filter_eq: "b \<in> set xs \<longleftrightarrow> filter (\<lambda>x. x = b) xs \<noteq> []"
  by (auto simp: filter_empty_conv)

text \<open>After a batch: every artifact of it has a revision or was counted as failed; the others are as before.\<close>

definition batch_done :: "Artifact list \<Rightarrow> Artifact list \<Rightarrow> nat \<Rightarrow> Artifact list \<Rightarrow> nat \<Rightarrow> bool" where
  "batch_done as xs n ys m \<longleftrightarrow>
     keyed af_id ys \<and> set (unrevised ys) \<subseteq> set (unrevised xs) \<and> length (unrevised ys) + length as + n \<le> length (unrevised xs) + m \<and>
     (\<forall>P. (\<forall>a\<in>set as. \<not> P a) \<longrightarrow> (\<forall>a. P a \<longrightarrow> af_current_revision_id a = None) \<longrightarrow> filter P ys = filter P xs)"

lemma migrate_one_done:
  assumes "migrate_one_artifact env a st = (st', r)" and "keyed af_id (adb_artifacts (ast_db st))" and "a \<in> set (unrevised (adb_artifacts (ast_db st)))"
  shows "batch_done [a] (adb_artifacts (ast_db st)) n (adb_artifacts (ast_db st'))
    (if r \<in> {''migrated'', ''skipped''} then n else Suc n)"
proof -
  note rv = migrate_one_revises [OF assms(1,2)]
  have same: "x = a" if "x \<in> set (adb_artifacts (ast_db st))" "af_id x = af_id a" for x
    using keyed_eqD [OF assms(2) that(1) _ that(2)] assms(3) by (simp add: unrevised_def)
  have "length (unrevised (adb_artifacts (ast_db st'))) < length (unrevised (adb_artifacts (ast_db st)))" if "r \<in> {''migrated'', ''skipped''}"
    by (rule revises_unrevised(2) [OF rv(1) rv(2) [OF that] assms(3) refl])
  moreover have "filter P (adb_artifacts (ast_db st')) = filter P (adb_artifacts (ast_db st))"
    if "\<not> P a" "\<forall>a. P a \<longrightarrow> af_current_revision_id a = None" for P
    using that same by (intro revises_others [OF rv(1)]) auto
  ultimately show ?thesis
    using revises_ids [OF rv(1)] assms(2) revises_unrevised_subset [OF rv(1)] revises_unrevised(1) [OF rv(1)]
    by (auto simp: batch_done_def keyed_def)
qed

lemma batch_done_Cons: "batch_done [a] xs n ys k \<Longrightarrow> batch_done as ys k zs m \<Longrightarrow> batch_done (a # as) xs n zs m"
  by (auto simp: batch_done_def)

lemma batch_done_filter:
  "batch_done as xs n ys m \<Longrightarrow> (\<forall>a\<in>set as. \<not> P a) \<Longrightarrow> (\<forall>a. P a \<longrightarrow> af_current_revision_id a = None) \<Longrightarrow> filter P ys = filter P xs"
  by (simp add: batch_done_def)

lemma migrate_batch_done:
  assumes "migrate_batch envs i as st y = (st', y')" and "keyed af_id (adb_artifacts (ast_db st))"
    and "distinct (map af_id as)" and "set as \<subseteq> set (unrevised (adb_artifacts (ast_db st)))"
  shows "batch_done as (adb_artifacts (ast_db st)) (ty_failed y) (adb_artifacts (ast_db st')) (ty_failed y')"
  using assms
proof (induction as arbitrary: i st y)
  case (Cons a as)
  obtain st1 r where m: "migrate_one_artifact (envs i) a st = (st1, r)" by (cases "migrate_one_artifact (envs i) a st")
  let ?y = "if r = ''migrated'' then tally_done y else if r = ''skipped'' then tally_skipped y else tally_failed y"
  let ?n = "if r \<in> {''migrated'', ''skipped''} then ty_failed y else Suc (ty_failed y)"
  have one: "batch_done [a] (adb_artifacts (ast_db st)) (ty_failed y) (adb_artifacts (ast_db st1)) ?n"
    using migrate_one_done [OF m Cons.prems(2)] Cons.prems(4) by simp
  have "set as \<subseteq> set (unrevised (adb_artifacts (ast_db st1)))"
  proof
    fix b assume b: "b \<in> set as"
    have "af_id b \<noteq> af_id a" using Cons.prems(3) b by (intro key_notin [OF _ b]) simp
    moreover have "af_current_revision_id b = None" using Cons.prems(4) b by (auto simp: unrevised_def)
    ultimately have "filter (\<lambda>x. x = b) (adb_artifacts (ast_db st1)) = filter (\<lambda>x. x = b) (adb_artifacts (ast_db st))"
      by (intro batch_done_filter [OF one]) auto
    then have "b \<in> set (adb_artifacts (ast_db st1)) \<longleftrightarrow> b \<in> set (adb_artifacts (ast_db st))" by (simp only: mem_filter_eq)
    with b Cons.prems(4) show "b \<in> set (unrevised (adb_artifacts (ast_db st1)))" by (auto simp: unrevised_def)
  qed
  with Cons.IH [of "Suc i" st1 ?y] Cons.prems(1,3) m one
  have "batch_done as (adb_artifacts (ast_db st1)) (ty_failed ?y) (adb_artifacts (ast_db st')) (ty_failed y')"
    by (simp add: batch_done_def)
  moreover have "ty_failed ?y = ?n" by (simp add: tally_done_def tally_skipped_def tally_failed_def)
  ultimately show ?case using batch_done_Cons [OF one] by simp
qed (simp add: batch_done_def)

section \<open>Pages\<close>

lemma before_cursor_trans:
  assumes "before_cursor cursor x" and "before_cursor (Some \<lparr>al_updated_at = af_updated_at x, al_artifact_id = af_id x\<rparr>) a"
  shows "before_cursor cursor a"
  using assms by (auto simp: before_cursor_def split: option.splits)

lemma before_cursor_key:
  assumes "af_updated_at x \<noteq> None" and "af_updated_at a \<noteq> None"
  shows "before_cursor (Some \<lparr>al_updated_at = af_updated_at x, al_artifact_id = af_id x\<rparr>) a \<longleftrightarrow> page_key a < page_key x"
  using assms by (auto simp: before_cursor_def page_key_def less_prod_def)

text \<open>The rows still to come: those of the pages after the cursor.\<close>

definition to_come :: "ArtifactListCursor option \<Rightarrow> Artifact list \<Rightarrow> Artifact list" where
  "to_come cursor xs = filter (\<lambda>a. af_current_revision_id a = None \<and> before_cursor cursor a) xs"

definition page_rows :: "ArtifactListCursor option \<Rightarrow> Artifact list \<Rightarrow> Artifact list" where
  "page_rows cursor xs = rev (sort_key page_key (to_come cursor xs))"

lemma migration_page:
  "ag_items (list_revision_migration_candidates_sync cursor limit db) = take (nat (max 1 (min limit 500))) (page_rows cursor (adb_artifacts db))"
  "ag_next_cursor (list_revision_migration_candidates_sync cursor limit db) =
     (let items = take (nat (max 1 (min limit 500))) (page_rows cursor (adb_artifacts db)) in
      if length (page_rows cursor (adb_artifacts db)) > nat (max 1 (min limit 500))
      then Some \<lparr>al_updated_at = af_updated_at (last items), al_artifact_id = af_id (last items)\<rparr> else None)"
  by (simp_all add: list_revision_migration_candidates_sync_def artifact_page_def page_rows_def to_come_def Let_def)

lemma page_rows_set: "set (page_rows cursor xs) = set (to_come cursor xs)"
  by (simp add: page_rows_def)

lemma to_come_shrinks:
  assumes "x \<in> set (to_come cursor xs)"
  shows "length (to_come (Some \<lparr>al_updated_at = af_updated_at x, al_artifact_id = af_id x\<rparr>) xs) < length (to_come cursor xs)"
proof -
  let ?c = "Some \<lparr>al_updated_at = af_updated_at x, al_artifact_id = af_id x\<rparr>"
  have x: "before_cursor cursor x" using assms by (simp add: to_come_def)
  have "to_come ?c xs = filter (before_cursor ?c) (to_come cursor xs)"
    using before_cursor_trans [OF x] unfolding to_come_def filter_filter by (intro filter_cong) auto
  moreover have "\<not> before_cursor ?c x" by (auto simp: before_cursor_def split: option.splits)
  ultimately show ?thesis using length_filter_less [OF assms] by metis
qed

text \<open>The rows of a page, distinct and in order of their keys; those after it come with the next cursor.\<close>

lemma page_rows_props:
  assumes "keyed af_id xs"
  shows "distinct (map af_id (page_rows cursor xs))" and "sorted (rev (map page_key (page_rows cursor xs)))"
    and "length (page_rows cursor xs) = length (to_come cursor xs)"
proof -
  have d: "distinct (map af_id (to_come cursor xs))"
    using keyed_filter [OF assms] by (simp add: keyed_def to_come_def)
  then show "distinct (map af_id (page_rows cursor xs))" by (simp add: page_rows_def distinct_map)
  show "sorted (rev (map page_key (page_rows cursor xs)))" by (simp add: page_rows_def rev_map)
  show "length (page_rows cursor xs) = length (to_come cursor xs)" by (simp add: page_rows_def)
qed

lemma page_split:
  assumes "keyed af_id xs" and "\<forall>a\<in>set (unrevised xs). af_updated_at a \<noteq> None"
    and "k < length (page_rows cursor xs)" and "x = page_rows cursor xs ! k"
    and c: "c = Some \<lparr>al_updated_at = af_updated_at x, al_artifact_id = af_id x\<rparr>"
  shows "\<forall>a\<in>set (take (Suc k) (page_rows cursor xs)). \<not> before_cursor c a"
    and "length (to_come cursor xs) \<le> Suc k + length (to_come c xs)"
proof -
  let ?S = "page_rows cursor xs"
  note S = page_rows_props [OF assms(1), of cursor]
  have x: "x \<in> set (to_come cursor xs)" using assms(3,4) nth_mem [of k ?S] by (simp add: page_rows_set)
  have upd: "af_updated_at a \<noteq> None" if "a \<in> set ?S" for a
    using assms(2) that by (auto simp: page_rows_set to_come_def unrevised_def)
  have desc: "page_key (?S ! j) \<le> page_key (?S ! i)" if "i \<le> j" "j < length ?S" for i j
    using that sorted_rev_nth_mono [OF S(2), of i j] by simp
  have key: "before_cursor c a \<longleftrightarrow> page_key a < page_key x" if "a \<in> set ?S" for a
    unfolding c using that x upd by (intro before_cursor_key) (simp_all add: page_rows_set)
  show "\<forall>a\<in>set (take (Suc k) ?S). \<not> before_cursor c a"
  proof
    fix a assume "a \<in> set (take (Suc k) ?S)"
    then obtain i where "i < Suc k" "i < length ?S" "a = ?S ! i" by (auto simp: in_set_conv_nth)
    with desc [of i k] assms(3,4) key [of a] show "\<not> before_cursor c a" by (simp add: not_less)
  qed
  have "set (drop (Suc k) ?S) \<subseteq> set (to_come c xs)"
  proof
    fix a assume a: "a \<in> set (drop (Suc k) ?S)"
    then have "\<exists>i. Suc k + i < length ?S \<and> a = ?S ! (Suc k + i)" by (auto simp: in_set_conv_nth less_diff_conv add.commute)
    then obtain i where i: "Suc k + i < length ?S" "a = ?S ! (Suc k + i)" by blast
    have "af_id a \<noteq> af_id x" using S(1) i assms(3,4) by (simp add: distinct_conv_nth)
    then have "page_key a \<noteq> page_key x" by (simp add: page_key_def)
    with desc [of k "Suc k + i"] i assms(4) key [of a] have "before_cursor c a" by (simp add: order_less_le)
    moreover have "a \<in> set (to_come cursor xs)" using a by (metis in_set_dropD page_rows_set)
    ultimately show "a \<in> set (to_come c xs)" by (simp add: to_come_def)
  qed
  moreover have "distinct (drop (Suc k) ?S)" using S(1) by (simp add: distinct_map distinct_drop)
  ultimately have "length (drop (Suc k) ?S) \<le> length (to_come c xs)"
    by (metis card_length card_mono distinct_card le_trans List.finite_set)
  with S(3) assms(3) show "length (to_come cursor xs) \<le> Suc k + length (to_come c xs)" by simp
qed

section \<open>The loop\<close>

definition migrating :: "ArtifactListCursor option \<Rightarrow> art_state \<Rightarrow> tally \<Rightarrow> bool" where
  "migrating cursor st y \<longleftrightarrow>
     keyed af_id (adb_artifacts (ast_db st)) \<and> (\<forall>a\<in>set (unrevised (adb_artifacts (ast_db st))). af_updated_at a \<noteq> None) \<and>
     length (unrevised (adb_artifacts (ast_db st))) \<le> length (to_come cursor (adb_artifacts (ast_db st))) + ty_failed y"

text \<open>A page: with the last one every row was seen; otherwise fewer rows are to come.\<close>

lemma migrate_page:
  assumes "migrating cursor st y" and "page = list_revision_migration_candidates_sync cursor bsize (ast_db st)"
    and "migrate_batch envs i (ag_items page) st y = (st', y')"
  shows "ag_next_cursor page = None \<Longrightarrow> length (unrevised (adb_artifacts (ast_db st'))) \<le> ty_failed y'"
    and "ag_next_cursor page = Some c \<Longrightarrow> migrating (Some c) st' y' \<and>
      length (to_come (Some c) (adb_artifacts (ast_db st'))) < length (to_come cursor (adb_artifacts (ast_db st)))"
proof -
  let ?xs = "adb_artifacts (ast_db st)" and ?ys = "adb_artifacts (ast_db st')" and ?lim = "nat (max 1 (min bsize 500))"
  let ?S = "page_rows cursor ?xs"
  from assms(1) have keys: "keyed af_id ?xs" and upd: "\<forall>a\<in>set (unrevised ?xs). af_updated_at a \<noteq> None"
    and count: "length (unrevised ?xs) \<le> length (to_come cursor ?xs) + ty_failed y" by (simp_all add: migrating_def)
  have items: "ag_items page = take ?lim ?S" by (simp add: assms(2) migration_page)
  note S = page_rows_props [OF keys, of cursor]
  have bd: "batch_done (take ?lim ?S) ?xs (ty_failed y) ?ys (ty_failed y')"
  proof (rule migrate_batch_done [OF assms(3) [unfolded items] keys])
    show "distinct (map af_id (take ?lim ?S))" using S(1) by (simp add: take_map [symmetric] distinct_take)
    show "set (take ?lim ?S) \<subseteq> set (unrevised ?xs)"
      using set_take_subset [of ?lim ?S] by (auto simp: page_rows_set to_come_def unrevised_def)
  qed
  show "length (unrevised ?ys) \<le> ty_failed y'" if "ag_next_cursor page = None"
    using that bd count S(3) by (auto simp: assms(2) migration_page Let_def batch_done_def split: if_splits)
  assume next_page: "ag_next_cursor page = Some c"
  define k where "k = ?lim - 1"
  have lim: "?lim = Suc k" by (simp add: k_def)
  have more: "k < length ?S" "c = \<lparr>al_updated_at = af_updated_at (?S ! k), al_artifact_id = af_id (?S ! k)\<rparr>"
    using next_page unfolding assms(2) migration_page lim Let_def by (auto simp: take_Suc_conv_app_nth split: if_splits)
  note split = page_split [OF keys upd more(1) refl refl, folded more(2)]
  have kept: "to_come (Some c) ?ys = to_come (Some c) ?xs"
    using batch_done_filter [OF bd, of "\<lambda>a. af_current_revision_id a = None \<and> before_cursor (Some c) a"] split(1) by (simp add: to_come_def lim)
  have "length (to_come (Some c) ?xs) < length (to_come cursor ?xs)"
    unfolding more(2) using nth_mem [OF more(1)] by (intro to_come_shrinks) (simp add: page_rows_set)
  moreover have "length (unrevised ?ys) \<le> length (to_come (Some c) ?ys) + ty_failed y'"
    using bd count split(2) S(3) more(1) unfolding kept lim batch_done_def by simp
  ultimately show "migrating (Some c) st' y' \<and> length (to_come (Some c) ?ys) < length (to_come cursor ?xs)"
    using bd upd kept by (auto simp: migrating_def batch_done_def)
qed

lemma migrate_loop_returns:
  assumes "migrating cursor st y"
  shows "\<exists>st' y'. migrate_loop envs bsize cursor i st y = Some (st', y') \<and> length (unrevised (adb_artifacts (ast_db st'))) \<le> ty_failed y'"
  using assms
proof (induction "length (to_come cursor (adb_artifacts (ast_db st)))" arbitrary: cursor i st y rule: less_induct)
  case less
  define page where "page = list_revision_migration_candidates_sync cursor bsize (ast_db st)"
  obtain st1 y1 where b: "migrate_batch envs i (ag_items page) st y = (st1, y1)" by (cases "migrate_batch envs i (ag_items page) st y")
  note pg = migrate_page [OF less.prems page_def b]
  show ?case
  proof (cases "ag_next_cursor page")
    case None
    with pg(1) b show ?thesis by (subst migrate_loop.simps) (simp add: Let_def page_def [symmetric])
  next
    case (Some c)
    from less.hyps [OF conjunct2 [OF pg(2) [OF Some]] conjunct1 [OF pg(2) [OF Some]]] b Some show ?thesis
      by (subst migrate_loop.simps) (simp add: Let_def page_def [symmetric])
  qed
qed

lemma migrate_revisions_returns:
  assumes "keyed af_id (adb_artifacts (ast_db st))" and "\<forall>a\<in>set (unrevised (adb_artifacts (ast_db st))). af_updated_at a \<noteq> None"
  shows "\<exists>st' y. migrate_revisions envs bsize st = Some (st', y) \<and> length (unrevised (adb_artifacts (ast_db st'))) \<le> ty_failed y"
proof -
  have "before_cursor None a" for a by (simp add: before_cursor_def)
  then have "migrating None st no_tally" using assms by (simp add: migrating_def to_come_def unrevised_def)
  from migrate_loop_returns [OF this] show ?thesis by (simp add: migrate_revisions_def)
qed

section \<open>Passes that do not end\<close>

text \<open>A full batch that a pass leaves in place is read again.\<close>

definition stuck_batch :: "(artifact_db \<Rightarrow> Artifact list) \<Rightarrow> (Artifact \<Rightarrow> art_state \<times> tally \<Rightarrow> art_state \<times> tally) \<Rightarrow> int \<Rightarrow> art_state \<Rightarrow> bool" where
  "stuck_batch next_batch step bsize st \<longleftrightarrow>
     next_batch (ast_db st) \<noteq> [] \<and> bsize \<le> int (length (next_batch (ast_db st))) \<and>
     (\<forall>a\<in>set (next_batch (ast_db st)). \<forall>y. fst (step a (st, y)) = st)"

lemma stuck_fold: "(\<forall>a\<in>set as. \<forall>y. fst (step a (st, y)) = st) \<Longrightarrow> fst sy = st \<Longrightarrow> fst (fold step as sy) = st"
proof (induction as arbitrary: sy)
  case (Cons a as)
  have "fst (step a sy) = st" using Cons.prems by (cases sy) auto
  with Cons show ?case by simp
qed simp

lemma stuck_loop:
  assumes "batch_loop next_batch step bsize sy = Some r"
  shows "\<not> stuck_batch next_batch step bsize (fst sy)"
proof (rule batch_loop.raw_induct [where P = "\<lambda>next_batch step bsize sy r. \<not> stuck_batch next_batch step bsize (fst sy)", OF _ assms])
  fix loop next_batch step bsize sy r
  assume IH: "\<And>next_batch step bsize sy r. loop next_batch step bsize sy = Some r \<Longrightarrow> \<not> stuck_batch next_batch step bsize (fst sy)"
    and run: "(let b = next_batch (ast_db (fst sy)) in
       if b = [] then Some sy
       else (let sy1 = fold step b sy in if int (length b) < bsize then Some sy1 else loop next_batch step bsize sy1)) = Some r"
  show "\<not> stuck_batch next_batch step bsize (fst sy)"
  proof
    assume s: "stuck_batch next_batch step bsize (fst sy)"
    then have "fst (fold step (next_batch (ast_db (fst sy))) sy) = fst sy" by (intro stuck_fold) (simp_all add: stuck_batch_def)
    with s run IH [of next_batch step bsize "fold step (next_batch (ast_db (fst sy))) sy" r] show False
      by (simp add: stuck_batch_def Let_def split: if_splits)
  qed
qed

lemma kinds_pass_stuck:
  assumes "1 \<le> bsize" and "bsize \<le> int (length (list_artifacts_with_empty_mime_sync bsize (ast_db st)))"
    and "\<forall>a\<in>set (list_artifacts_with_empty_mime_sync bsize (ast_db st)). resolve_mime (af_name a) (af_mime a) = []"
  shows "backfill_kinds env bsize st = None"
proof -
  have "stuck_batch (list_artifacts_with_empty_mime_sync bsize) (kind_step env) bsize st"
    using assms by (auto simp: stuck_batch_def kind_step_def Let_def)
  then show ?thesis
    unfolding backfill_kinds_def using stuck_loop [of "list_artifacts_with_empty_mime_sync bsize" "kind_step env" bsize "(st, no_tally)"]
    by (cases "batch_loop (list_artifacts_with_empty_mime_sync bsize) (kind_step env) bsize (st, no_tally)") auto
qed

end
