(* ===== verification/Artifact_Properties.thy ===== *)
theory Artifact_Properties
  imports Artifact_Content Artifact_Migration
begin

text \<open>
  The properties of the artifact component, each over the service or over any interleaving of registry transactions, with a
  small store on which they are witnessed.
\<close>

section \<open>A small store\<close>

definition demo_env :: "string \<Rightarrow> string \<Rightarrow> art_env" where
  "demo_env rid hex =
     \<lparr>en_config = \<lparr>acf_max_bytes = 1000, acf_publish_max_bytes = 1000, acf_inline_max_bytes = 100, acf_published_base_url = [],
        acf_diff_max_bytes = 1000\<rparr>,
      en_store = \<lparr>cs_root = [''data''], cs_attachments_root = [''att''], cs_workspace_root = [''ws''], cs_max_bytes = 1000,
        cs_publish_max_bytes = 1000, cs_inline_max_bytes = 100\<rparr>,
      en_flow = demo_flow, en_hash = (\<lambda>d. replicate 64 (CHR ''0'')), en_now = 5, en_artifact_id = ''art1'', en_revision_id = rid,
      en_publish_id = ''pub1'', en_hex = hex, en_hex2 = ''b2'', en_meanwhile = (\<lambda>st. st), en_delete_attachment = None,
      en_task_session = None, en_task_exists = None\<rparr>"

definition demo_input :: artifact_input where
  "demo_input =
     \<lparr>ain_name = ''notes.txt'', ain_kind = TEXT, ain_mime = ''text/plain'', ain_inline_content = None,
      ain_file_data = Some ''key sk-live-0123!'', ain_filename = None, ain_workspace_ref = None, ain_source_kind = MANUAL,
      ain_source_ref = None, ain_source_context_ref = None, ain_source_session_id = None, ain_source_run_id = None,
      ain_summary = [], ain_classification = None, ain_labels = None, ain_created_by = ''dashboard''\<rparr>"

definition demo_start :: art_state where
  "demo_start = \<lparr>ast_db = empty_artifact_db, ast_files = [([''data''], EDir)]\<rparr>"

definition demo_created :: art_state where
  "demo_created = fst (svc_create_artifact (demo_env ''rev1'' ''a1'') demo_input demo_start)"

definition demo_edit :: "bytes \<Rightarrow> revision_update" where
  "demo_edit d =
     \<lparr>rup_inline_content = None, rup_file_data = Some d, rup_workspace_ref = None, rup_text_patch = None, rup_change_summary = [],
      rup_kind = None, rup_mime = None\<rparr>"

definition demo_edited :: "art_state \<times> (artifact_error + (ArtifactRevision \<times> UpdateRevisionResult))" where
  "demo_edited = update_revision (demo_env ''rev2'' ''a2'') ''art1'' ''rev1'' (demo_edit ''new'') demo_created"

lemma demo_keeps [simp]: "keeps_files (demo_env rid hex)" "quiet (demo_env rid hex)" "wired (demo_env rid hex)" "hex_digest (en_hash (demo_env rid hex))"
  by (simp_all add: keeps_files_def quiet_def wired_def demo_env_def hex_digest_def list_all_iff hex_lower_def)

lemma demo_op: "artifact_op demo_start demo_created"
  unfolding demo_created_def by (rule op_create) simp

lemma demo_meanwhile [simp]: "en_meanwhile (demo_env rid hex) st = st"
  by (simp add: demo_env_def)

section \<open>Histories\<close>

text \<open>
  C17: In every state that operations of the service reach from an empty registry, whatever other requests do between the reads of
  an operation and its commit, the revisions of an artifact are numbered \<open>1, 2, ...\<close> without a gap, each has its predecessor
  as parent and is rolled back only from an earlier one, the artifact points at the last one, and at most one publication of an
  artifact is active.
\<close>

theorem artifact_history_linear:
  assumes "artifact_op\<^sup>*\<^sup>* st st'" and "ast_db st = empty_artifact_db"
  shows "linear_history (ast_db st') \<and> one_active (ast_db st')"
  using reachable_invariants [OF artifact_ops_txs [OF assms(1)]] empty_invariants by (simp add: assms(2))

theorem artifact_history_linear_witness:
  "artifact_op\<^sup>*\<^sup>* demo_start demo_created \<and> linear_history (ast_db demo_created) \<and> one_active (ast_db demo_created)"
proof -
  have op: "artifact_op\<^sup>*\<^sup>* demo_start demo_created" using demo_op by (rule r_into_rtranclp)
  have "ast_db demo_start = empty_artifact_db" by (simp add: demo_start_def)
  from artifact_history_linear [OF op this] op show ?thesis by blast
qed




text \<open>
  C18: No edit is lost: once a revision was committed on top of a revision, no later edit that expects the older one is committed,
  whatever transactions run in between while the artifact exists; it is refused and changes nothing, and the committed
  revision stays in the history right after the one it was made from.
\<close>

theorem no_lost_edit:
  assumes "artifact_tx\<^sup>*\<^sup>* empty_artifact_db db" and "append_revision_sync now aid r e db = (db1, Inr x)"
    and "(\<lambda>d d'. artifact_tx d d' \<and> revision_ids d' aid \<noteq> None)\<^sup>*\<^sup>* db1 db2"
  shows "(\<exists>xs ys. revision_ids db1 aid = Some (xs @ [e, rv_id r]) \<and> revision_ids db2 aid = Some (xs @ [e, rv_id r] @ ys)) \<and>
    (\<exists>err. append_revision_sync now' aid r' e db2 = (db2, Inl err))"
  by (rule registry_log.no_lost_append [OF reachable_invariants(1) [OF assms(1) empty_invariants(1)] assms(2,3)])

definition demo_db :: artifact_db where
  "demo_db = ast_db demo_created"

definition demo_second :: ArtifactRevision where
  "demo_second = next_revision (demo_env ''rev2'' ''a2'') (hd (adb_revisions demo_db)) None (None, Some ''x'', ''x'') 1
     (''sha256:'' @ replicate 64 (CHR ''0'')) ''text/plain'' TEXT []"

theorem no_lost_edit_witness:
  "snd (append_revision_sync 6 ''art1'' demo_second ''rev1'' demo_db) = Inr demo_second \<and>
   (\<exists>err. append_revision_sync 7 ''art1'' (demo_second\<lparr>rv_id := ''rev3''\<rparr>) ''rev1''
      (fst (append_revision_sync 6 ''art1'' demo_second ''rev1'' demo_db)) =
      (fst (append_revision_sync 6 ''art1'' demo_second ''rev1'' demo_db), Inl err))"
proof -
  have db: "artifact_tx\<^sup>*\<^sup>* empty_artifact_db demo_db" using artifact_op_txs [OF demo_op] by (simp add: demo_db_def demo_start_def)
  have ok: "snd (append_revision_sync 6 ''art1'' demo_second ''rev1'' demo_db) = Inr demo_second" by code_simp
  then have "append_revision_sync 6 ''art1'' demo_second ''rev1'' demo_db =
      (fst (append_revision_sync 6 ''art1'' demo_second ''rev1'' demo_db), Inr demo_second)" by (metis prod.collapse)
  from no_lost_edit [OF db this rtranclp.rtrancl_refl, of 7 "demo_second\<lparr>rv_id := ''rev3''\<rparr>"] ok show ?thesis by blast
qed

section \<open>Contents\<close>

text \<open>
  C20: An edit that succeeds stores what it was given: the content of the new current revision is, with a matching checksum, the text,
  the file, the workspace file or the patched text of the request, and every revision that could be read before reads the same
  as before.
\<close>

theorem edit_reads_back:
  assumes "update_revision env aid expected u st = (st', Inr (c, res))" and "drawn_name (en_hex env)" and "keeps_files env"
    and "lstat (ast_files st) (item_path env aid (''rev-'' @ en_revision_id env)) = None"
  shows "(\<exists>a cur d. edit_base env aid expected st = Inr (a, cur) \<and> edit_bytes env cur u st d \<and>
      get_revision_content env aid None st' = Inr (d, c)) \<and>
    (\<forall>r x. verified_bytes env st r = Inr x \<longrightarrow> verified_bytes env st' r = Inr x)"
  by (rule update_revision_reads [OF assms]) (blast intro: verified_bytes_grow)

theorem edit_reads_back_witness:
  "isl (snd demo_edited) = False \<and>
   (\<exists>a cur d. edit_base (demo_env ''rev2'' ''a2'') ''art1'' ''rev1'' demo_created = Inr (a, cur) \<and>
      edit_bytes (demo_env ''rev2'' ''a2'') cur (demo_edit ''new'') demo_created d \<and>
      get_revision_content (demo_env ''rev2'' ''a2'') ''art1'' None (fst demo_edited) = Inr (d, fst (projr (snd demo_edited))))"
proof -
  have ok: "isl (snd demo_edited) = False" by code_simp
  then have run: "update_revision (demo_env ''rev2'' ''a2'') ''art1'' ''rev1'' (demo_edit ''new'') demo_created =
      (fst demo_edited, Inr (fst (projr (snd demo_edited)), snd (projr (snd demo_edited))))"
    by (cases "snd demo_edited") (simp_all add: demo_edited_def prod_eq_iff)
  have "drawn_name (en_hex (demo_env ''rev2'' ''a2''))" by code_simp
  moreover have "lstat (ast_files demo_created) (item_path (demo_env ''rev2'' ''a2'') ''art1'' (''rev-'' @ en_revision_id (demo_env ''rev2'' ''a2''))) = None"
    by code_simp
  ultimately show ?thesis using edit_reads_back [OF run] ok by simp
qed

text \<open>
  A rollback makes a new revision with the content, kind, media type and checksum of the target; it says where it came from,
  and nothing that could be read before is lost.
\<close>

theorem rollback_restores:
  assumes "rollback env aid target expected summary st = (st', Inr (c, res))" and "drawn_name (en_hex env)" and "keeps_files env"
    and "lstat (ast_files st) (item_path env aid (''rb-'' @ en_revision_id env)) = None"
    and "get_revision_sync aid target (ast_db st) = Some t" and "verified_bytes env st t = Inr (d, t)"
  shows "get_revision_content env aid None st' = Inr (d, c) \<and> rv_rollback_from_revision_id c = Some target \<and>
    rv_mime c = rv_mime t \<and> rv_kind c = rv_kind t \<and> rv_checksum c = rv_checksum t \<and>
    (\<forall>r x. verified_bytes env st r = Inr x \<longrightarrow> verified_bytes env st' r = Inr x)"
  using rollback_reads [OF assms] by (blast intro: verified_bytes_grow)

definition demo_rolled :: "art_state \<times> (artifact_error + (ArtifactRevision \<times> UpdateRevisionResult))" where
  "demo_rolled = rollback (demo_env ''rev3'' ''a3'') ''art1'' ''rev1'' ''rev2'' [] (fst demo_edited)"

definition demo_target :: ArtifactRevision where
  "demo_target = the (get_revision_sync ''art1'' ''rev1'' (ast_db (fst demo_edited)))"

theorem rollback_restores_witness:
  "get_revision_content (demo_env ''rev2'' ''a2'') ''art1'' None (fst demo_edited) = Inr (''new'', fst (projr (snd demo_edited))) \<and>
   get_revision_content (demo_env ''rev3'' ''a3'') ''art1'' None (fst demo_rolled) = Inr (''key sk-live-0123!'', fst (projr (snd demo_rolled)))"
proof -
  let ?e = "demo_env ''rev3'' ''a3''"
  have ok: "isl (snd demo_rolled) = False" by code_simp
  then have run: "rollback ?e ''art1'' ''rev1'' ''rev2'' [] (fst demo_edited) =
      (fst demo_rolled, Inr (fst (projr (snd demo_rolled)), snd (projr (snd demo_rolled))))"
    by (cases "snd demo_rolled") (simp_all add: demo_rolled_def prod_eq_iff)
  have name: "drawn_name (en_hex ?e)" by code_simp
  have new: "lstat (ast_files (fst demo_edited)) (item_path ?e ''art1'' (''rb-'' @ en_revision_id ?e)) = None" by code_simp
  have target: "get_revision_sync ''art1'' ''rev1'' (ast_db (fst demo_edited)) = Some demo_target" by code_simp
  have bytes: "verified_bytes ?e (fst demo_edited) demo_target = Inr (''key sk-live-0123!'', demo_target)" by code_simp
  have "get_revision_content (demo_env ''rev2'' ''a2'') ''art1'' None (fst demo_edited) = Inr (''new'', fst (projr (snd demo_edited)))" by code_simp
  with rollback_restores [OF run name _ new target bytes] show ?thesis by simp
qed





section \<open>Publication\<close>

text \<open>
  C19: A text that is published anew has no configured secret in it and comes from an artifact that is not classified sensitive or secret;
  the publication holds the released text with its checksum and names the revision that is the current one when it is
  committed, however the artifact was edited meanwhile.
\<close>

theorem published_text_safe:
  assumes "publish_revision env aid rid expected st = (st', Inr res)" and "\<not> pres_reused res"
    and "clean (ifs_secrets (en_flow env))" and "wired env" and "get_revision_sync aid rid (ast_db st) = Some rvn" and "is_text_kind (rv_kind rvn)"
    and "en_publish_id env \<notin> pa_publish_id ` set (adb_published (ast_db (en_meanwhile env st)))"
  shows "\<exists>a b t. pres_published res \<in> set (adb_published (ast_db st')) \<and> pa_snapshot_inline_content (pres_published res) = Some t \<and>
    secret_free (ifs_secrets (en_flow env)) t \<and> pa_snapshot_checksum (pres_published res) = sha256_checksum env (utf8_encode t) \<and>
    pa_published_revision_id (pres_published res) = Some rid \<and>
    get_artifact_sync aid (ast_db st') = Some a \<and> af_current_revision_id a = Some rid \<and>
    get_artifact_sync aid (ast_db st) = Some b \<and> \<not> withheld b"
  by (rule published_text [OF assms]) blast

definition demo_published :: "art_state \<times> (artifact_error + PublishResult)" where
  "demo_published = publish_revision (demo_env ''rev2'' ''a2'') ''art1'' ''rev1'' ''rev1'' demo_created"

theorem published_text_safe_witness:
  "pa_snapshot_inline_content (pres_published (projr (snd demo_published))) = Some ''key [REDACTED]!'' \<and>
   pres_published (projr (snd demo_published)) \<in> set (adb_published (ast_db (fst demo_published)))"
proof -
  let ?e = "demo_env ''rev2'' ''a2''"
  have ok: "isl (snd demo_published) = False" by code_simp
  then have run: "publish_revision ?e ''art1'' ''rev1'' ''rev1'' demo_created = (fst demo_published, Inr (projr (snd demo_published)))"
    by (cases "snd demo_published") (simp_all add: demo_published_def prod_eq_iff)
  have new: "\<not> pres_reused (projr (snd demo_published))" by code_simp
  have clean: "clean (ifs_secrets (en_flow ?e))" by code_simp
  have wired: "wired ?e" by code_simp
  have rvn: "get_revision_sync ''art1'' ''rev1'' (ast_db demo_created) = Some (hd (adb_revisions demo_db))" by code_simp
  have kind: "is_text_kind (rv_kind (hd (adb_revisions demo_db)))" by code_simp
  have fresh: "en_publish_id ?e \<notin> pa_publish_id ` set (adb_published (ast_db (en_meanwhile ?e demo_created)))" by code_simp
  have "pa_snapshot_inline_content (pres_published (projr (snd demo_published))) = Some ''key [REDACTED]!''" by code_simp
  with published_text_safe [OF run new clean wired rvn kind fresh] show ?thesis by blast
qed

section \<open>The store\<close>



section \<open>Startup passes\<close>

text \<open>
  C27: The migration to revisions returns for every table, batch size and content, and every artifact that it leaves without a
  revision was counted as failed, so that a migration reported as complete left none.
\<close>

theorem migration_complete:
  assumes "keyed af_id (adb_artifacts (ast_db st))"
    and "\<forall>a\<in>set (adb_artifacts (ast_db st)). af_current_revision_id a = None \<longrightarrow> af_updated_at a \<noteq> None"
  shows "\<exists>st' y. migrate_revisions envs bsize st = Some (st', y) \<and> count_artifacts_without_revision_sync (ast_db st') \<le> ty_failed y \<and>
    (migration_state y = ''ok'' \<longrightarrow> count_artifacts_without_revision_sync (ast_db st') = 0)"
proof -
  have "\<forall>a\<in>set (unrevised (adb_artifacts (ast_db st))). af_updated_at a \<noteq> None" using assms(2) by (simp add: unrevised_def)
  from migrate_revisions_returns [OF assms(1) this] show ?thesis
    by (fastforce simp: count_artifacts_without_revision_sync_def rowcount_def unrevised_def migration_state_def split: if_splits)
qed

definition demo_legacy :: art_state where
  "demo_legacy = demo_created\<lparr>ast_db := (ast_db demo_created)\<lparr>adb_revisions := [],
     adb_artifacts := map (\<lambda>a. a\<lparr>af_current_revision_id := None\<rparr>) (adb_artifacts (ast_db demo_created))\<rparr>\<rparr>"

theorem migration_complete_witness:
  "count_artifacts_without_revision_sync (ast_db demo_legacy) = 1 \<and>
   (\<exists>st' y. migrate_revisions (\<lambda>i. demo_env ''rev1'' ''a9'') 10 demo_legacy = Some (st', y) \<and> ty_done y = 1 \<and>
      count_artifacts_without_revision_sync (ast_db st') = 0)"
proof -
  have keys: "keyed af_id (adb_artifacts (ast_db demo_legacy))" by code_simp
  have "\<forall>a\<in>set (adb_artifacts (ast_db demo_legacy)). af_updated_at a \<noteq> None" by code_simp
  then have upd: "\<forall>a\<in>set (adb_artifacts (ast_db demo_legacy)). af_current_revision_id a = None \<longrightarrow> af_updated_at a \<noteq> None" by blast
  have run: "map_option (\<lambda>(s, y). (ty_done y, migration_state y)) (migrate_revisions (\<lambda>i. demo_env ''rev1'' ''a9'') 10 demo_legacy) = Some (1, ''ok'')"
    by code_simp
  have "count_artifacts_without_revision_sync (ast_db demo_legacy) = 1" by code_simp
  with migration_complete [OF keys upd, of "\<lambda>i. demo_env ''rev1'' ''a9''" 10] run show ?thesis by auto
qed

text \<open>
  C28: The pass over the kinds does not return when a full batch of artifacts has neither a media type nor a known extension: it skips
  them, reads the same batch again, and so on.
\<close>

theorem kinds_pass_diverges:
  assumes "1 \<le> bsize" and "bsize \<le> int (length (list_artifacts_with_empty_mime_sync bsize (ast_db st)))"
    and "\<forall>a\<in>set (list_artifacts_with_empty_mime_sync bsize (ast_db st)). resolve_mime (af_name a) (af_mime a) = []"
  shows "backfill_kinds env bsize st = None"
  by (rule kinds_pass_stuck [OF assms])

definition demo_unknown :: art_state where
  "demo_unknown = demo_created\<lparr>ast_db := (ast_db demo_created)\<lparr>
     adb_artifacts := map (\<lambda>a. a\<lparr>af_name := ''notes.bin'', af_mime := []\<rparr>) (adb_artifacts (ast_db demo_created))\<rparr>\<rparr>"

theorem kinds_pass_diverges_witness:
  "length (adb_artifacts (ast_db demo_unknown)) = 1 \<and> backfill_kinds (demo_env [] []) 1 demo_unknown = None"
proof -
  have "1 \<le> int (length (list_artifacts_with_empty_mime_sync 1 (ast_db demo_unknown)))" by code_simp
  moreover have "\<forall>a\<in>set (list_artifacts_with_empty_mime_sync 1 (ast_db demo_unknown)). resolve_mime (af_name a) (af_mime a) = []" by code_simp
  moreover have "length (adb_artifacts (ast_db demo_unknown)) = 1" by code_simp
  ultimately show ?thesis using kinds_pass_diverges [of 1 demo_unknown] by simp
qed

end
