(* ===== verification/Lifecycle.thy ===== *)
theory Lifecycle
  imports Prelude
begin

text \<open>
  The contract the aggregates of the domain share: a table of legal transitions, and
  operations that either raise or return an aggregate whose status moved along the table.
  \<open>lifecycle\<close> is the table alone; \<open>state_machine\<close> adds the operations. The consequences
  (a run of operations only follows the table, terminal statuses are never left) are proved
  once here and interpreted on the task aggregate.
\<close>

text \<open>
  Applying a list of operations to an aggregate: an operation that raises leaves the
  aggregate as it was, since the aggregates are replaced and never changed half-way.
\<close>

fun run_ops :: "('op \<Rightarrow> 'a \<Rightarrow> 'e + 'a) \<Rightarrow> 'op list \<Rightarrow> 'a \<Rightarrow> 'a" where
  "run_ops step [] x = x"
| "run_ops step (p # ps) x =
     (case step p x of Inl _ \<Rightarrow> run_ops step ps x | Inr y \<Rightarrow> run_ops step ps y)"

lemma run_ops_invariant:
  assumes "\<And>p x y. P x \<Longrightarrow> step p x = Inr y \<Longrightarrow> P y" and "P x"
  shows "P (run_ops step ps x)"
  using assms(2) by (induction ps arbitrary: x) (auto split: sum.splits intro: assms(1))

locale lifecycle =
  fixes table :: "'s \<Rightarrow> 's set"
    and terminal :: "'s \<Rightarrow> bool"
  assumes terminal_iff: "terminal s \<longleftrightarrow> table s = {}"
begin

definition reaches :: "'s \<Rightarrow> 's \<Rightarrow> bool" where
  "reaches = (\<lambda>a b. b \<in> table a)\<^sup>*\<^sup>*"

lemma reaches_refl [simp]: "reaches s s"
  by (simp add: reaches_def)

lemma reaches_step: "reaches s t \<Longrightarrow> u \<in> table t \<Longrightarrow> reaches s u"
  by (simp add: reaches_def rtranclp.rtrancl_into_rtrancl)

lemma reaches_trans: "reaches s t \<Longrightarrow> reaches t u \<Longrightarrow> reaches s u"
  by (simp add: reaches_def)

lemma terminal_stuck:
  assumes "terminal s" and "reaches s t"
  shows "t = s"
  using assms(2) unfolding reaches_def
proof (cases rule: converse_rtranclpE)
  case base
  then show ?thesis by simp
next
  case (step u)
  with assms(1) show ?thesis by (simp add: terminal_iff)
qed

end

locale state_machine = lifecycle table terminal
  for table :: "'s \<Rightarrow> 's set" and terminal :: "'s \<Rightarrow> bool" +
  fixes status :: "'a \<Rightarrow> 's"
    and step :: "'op \<Rightarrow> 'a \<Rightarrow> 'e + 'a"
  assumes step_legal: "step p x = Inr y \<Longrightarrow> status y = status x \<or> status y \<in> table (status x)"
begin

lemma step_reaches: "step p x = Inr y \<Longrightarrow> reaches (status x) (status y)"
  using step_legal [of p x y] reaches_step [OF reaches_refl] by auto

lemma run_reaches: "reaches (status x) (status (run_ops step ps x))"
proof (induction ps arbitrary: x)
  case Nil
  then show ?case by simp
next
  case (Cons p ps)
  show ?case
  proof (cases "step p x")
    case (Inl e)
    with Cons.IH show ?thesis by simp
  next
    case (Inr y)
    with Cons.IH [of y] show ?thesis
      by (auto intro: reaches_trans step_reaches)
  qed
qed

lemma run_terminal: "terminal (status x) \<Longrightarrow> status (run_ops step ps x) = status x"
  using terminal_stuck run_reaches by blast

end

end
