(* ===== verification/Task_Domain.thy ===== *)
theory Task_Domain
  imports Prelude Policy_Kernel Lifecycle
begin

text \<open>
  The Task aggregate (\<open>app/domain/task.py\<close>) and its policy (\<open>app/domain/task_policy.py\<close>):
  the seven-state lifecycle, the value objects and commands the registry exchanges, the
  domain operations (each returns a new Task or raises), and the transition policy with its
  circuit breaker. A method that reads the clock takes the time as its argument \<open>now\<close>.
  Field \<open>f\<close> of the Python class \<open>Task\<close> is the record field \<open>t_f\<close>; \<open>TaskRun\<close>,
  \<open>TaskEvent\<close>, \<open>TaskComment\<close> and \<open>TaskAttachment\<close> use \<open>r_\<close>, \<open>e_\<close>, \<open>c_\<close>
  and \<open>a_\<close>.
\<close>

section \<open>Enumerations\<close>

datatype TaskStatus =
  QUEUED | RUNNING | WAITING_APPROVAL | SUCCEEDED | FAILED | CANCELLED | EXPIRED

datatype TaskWorkspaceKind = SCRATCH | DIR

datatype TaskRunStatus =
  RUNNING | COMPLETED | BLOCKED | FAILED | CRASHED | TIMED_OUT | TERMINATED | RECLAIMED

datatype TaskRunOutcome =
  COMPLETED | WAITING_APPROVAL | FAILED | CRASHED | TIMED_OUT | SPAWN_FAILED | EXPIRED
| TERMINATED | ABORTED

text \<open>The \<open>.value\<close> of an outcome, stored in event payloads and failure texts.\<close>

fun TaskRunOutcome_value :: "TaskRunOutcome \<Rightarrow> string" where
  "TaskRunOutcome_value TaskRunOutcome.COMPLETED = ''completed''"
| "TaskRunOutcome_value TaskRunOutcome.WAITING_APPROVAL = ''waiting_approval''"
| "TaskRunOutcome_value TaskRunOutcome.FAILED = ''failed''"
| "TaskRunOutcome_value TaskRunOutcome.CRASHED = ''crashed''"
| "TaskRunOutcome_value TaskRunOutcome.TIMED_OUT = ''timed_out''"
| "TaskRunOutcome_value TaskRunOutcome.SPAWN_FAILED = ''spawn_failed''"
| "TaskRunOutcome_value TaskRunOutcome.EXPIRED = ''expired''"
| "TaskRunOutcome_value TaskRunOutcome.TERMINATED = ''terminated''"
| "TaskRunOutcome_value TaskRunOutcome.ABORTED = ''aborted''"

text \<open>The exceptions of the subdomain, without their message texts.\<close>

datatype task_error =
    TaskNotFoundError
  | TaskValidationError
  | TaskClaimError
  | TaskStateError
  | TaskConflictError
  | TaskAttachmentError
  | OperationalError  \<comment> \<open>\<open>sqlite3.OperationalError\<close>, for an unknown column\<close>
  | IntegrityError  \<comment> \<open>\<open>sqlite3.IntegrityError\<close>, where the registry does not translate it\<close>
  | PyTypeError  \<comment> \<open>subscripting a missing row, \<open>int()\<close> of a list or an object\<close>
  | PyValueError  \<comment> \<open>\<open>int()\<close> of a string that is no number\<close>

section \<open>Transition table\<close>

fun TASK_TRANSITION_TABLE :: "TaskStatus \<Rightarrow> TaskStatus set" where
  "TASK_TRANSITION_TABLE TaskStatus.QUEUED = {TaskStatus.RUNNING, TaskStatus.CANCELLED}"
| "TASK_TRANSITION_TABLE TaskStatus.RUNNING =
     {TaskStatus.SUCCEEDED, TaskStatus.FAILED, TaskStatus.WAITING_APPROVAL,
      TaskStatus.CANCELLED, TaskStatus.EXPIRED, TaskStatus.QUEUED}"
| "TASK_TRANSITION_TABLE TaskStatus.WAITING_APPROVAL = {TaskStatus.QUEUED, TaskStatus.CANCELLED}"
| "TASK_TRANSITION_TABLE TaskStatus.FAILED = {TaskStatus.QUEUED, TaskStatus.CANCELLED}"
| "TASK_TRANSITION_TABLE TaskStatus.EXPIRED = {TaskStatus.QUEUED}"
| "TASK_TRANSITION_TABLE TaskStatus.SUCCEEDED = {}"
| "TASK_TRANSITION_TABLE TaskStatus.CANCELLED = {}"

definition available_lifecycle_actions :: "TaskStatus \<Rightarrow> string option \<Rightarrow> string list" where
  "available_lifecycle_actions status interaction_type =
     (if status = TaskStatus.WAITING_APPROVAL then
        (if interaction_type = Some ''intent_request'' then [''revise'', ''cancel'']
         else [''approve'', ''reject''])
      else if status = TaskStatus.FAILED then [''retry'', ''cancel'']
      else if status = TaskStatus.EXPIRED then [''retry'']
      else [])"

section \<open>The aggregate and its value objects\<close>

record TaskExecutionPolicy =
  tep_allowed_tools :: "string list"

record Task =
  t_id :: string
  t_title :: string
  t_body :: string
  t_priority :: int
  t_created_by :: string
  t_created_at :: "datetime option"
  t_updated_at :: "datetime option"
  t_version :: int
  t_status :: TaskStatus
  t_started_at :: "datetime option"
  t_completed_at :: "datetime option"
  t_scheduled_at :: "datetime option"
  t_claim_lock :: "string option"
  t_claim_expires :: "datetime option"
  t_current_run_id :: "int option"
  t_workspace_kind :: TaskWorkspaceKind
  t_workspace_path :: "string option"
  t_skills :: "string list"
  t_execution_policy :: TaskExecutionPolicy
  t_model_override :: "string option"
  t_max_runtime_seconds :: "int option"
  t_max_retries :: int
  t_goal_mode :: bool
  t_goal_max_turns :: "int option"
  t_workflow_template_id :: "string option"
  t_current_step_key :: "string option"
  t_project_id :: "string option"
  t_tenant :: "string option"
  t_board :: string
  t_origin_session_id :: "string option"
  t_execution_session_id :: "string option"
  t_consecutive_failures :: int
  t_worker_token :: "string option"
  t_last_failure_error :: "string option"
  t_last_heartbeat_at :: "datetime option"
  t_result :: "string option"
  t_idempotency_key :: "string option"
  t_is_archived :: bool
  t_trace_context :: json
  t_created_by_run_id :: "string option"
  t_pending_trigger_run_id :: "string option"

text \<open>The dataclass defaults: a Task built from an id and a title only.\<close>

definition Task_new :: "string \<Rightarrow> string \<Rightarrow> Task" where
  "Task_new tid title =
     \<lparr>t_id = tid, t_title = title, t_body = '''', t_priority = 0, t_created_by = '''',
      t_created_at = None, t_updated_at = None, t_version = 1, t_status = TaskStatus.QUEUED,
      t_started_at = None, t_completed_at = None, t_scheduled_at = None, t_claim_lock = None,
      t_claim_expires = None, t_current_run_id = None, t_workspace_kind = SCRATCH,
      t_workspace_path = None, t_skills = [], t_execution_policy = \<lparr>tep_allowed_tools = []\<rparr>,
      t_model_override = None, t_max_runtime_seconds = None, t_max_retries = 0,
      t_goal_mode = False, t_goal_max_turns = None, t_workflow_template_id = None,
      t_current_step_key = None, t_project_id = None, t_tenant = None, t_board = ''default'',
      t_origin_session_id = None, t_execution_session_id = None, t_consecutive_failures = 0,
      t_worker_token = None, t_last_failure_error = None, t_last_heartbeat_at = None,
      t_result = None, t_idempotency_key = None, t_is_archived = False,
      t_trace_context = JObj [], t_created_by_run_id = None, t_pending_trigger_run_id = None\<rparr>"

record TaskRun =
  r_id :: int
  r_task_id :: string
  r_profile :: string
  r_status :: TaskRunStatus
  r_claim_lock :: "string option"
  r_claim_expires :: "datetime option"
  r_worker_token :: "string option"
  r_max_runtime_seconds :: "int option"
  r_lease_seconds :: "int option"
  r_last_heartbeat_at :: "datetime option"
  r_started_at :: "datetime option"
  r_ended_at :: "datetime option"
  r_outcome :: "TaskRunOutcome option"
  r_summary :: "string option"
  r_metadata :: json
  r_error :: "string option"
  r_trigger_run_id :: "string option"

record TaskEvent =
  e_id :: int
  e_task_id :: string
  e_kind :: string
  e_payload :: "(string \<times> json) list"
  e_run_id :: "int option"
  e_created_at :: "datetime option"

record TaskComment =
  c_id :: string
  c_task_id :: string
  c_author :: string
  c_body :: string
  c_created_at :: "datetime option"

record TaskAttachment =
  a_id :: string
  a_task_id :: string
  a_filename :: string
  a_stored_name :: string
  a_content_type :: string
  a_size :: int
  a_checksum :: string
  a_uploaded_by :: string
  a_created_at :: "datetime option"

record TaskListCursor =
  cur_created_at :: "datetime option"
  cur_task_id :: string

record TaskListPage =
  page_items :: "Task list"
  page_next_cursor :: "TaskListCursor option"

record ClaimResult =
  cr_task :: Task
  cr_run :: TaskRun

record FinishRunCommand =
  fc_task_id :: string
  fc_run_id :: int
  fc_claim_lock :: string
  fc_outcome :: TaskRunOutcome
  fc_summary :: "string option"
  fc_metadata :: json
  fc_target_task_status :: "TaskStatus option"
  fc_error :: "string option"

record FinishRunResult =
  fr_task :: Task
  fr_run :: TaskRun
  fr_terminal_event :: TaskEvent

record RecoverRunCommand =
  rc_task_id :: string
  rc_run_id :: int
  rc_claim_lock :: string
  rc_outcome :: TaskRunOutcome
  rc_error :: "string option"

record ProposalResolutionCommand =
  pc_task_id :: string
  pc_expected_version :: int
  pc_decision :: string
  pc_event_kind :: string
  pc_note :: "string option"

record ProposalResolutionResult =
  pr_proposal_event_id :: int
  pr_task :: Task
  pr_decision_event :: TaskEvent

section \<open>Domain operations\<close>

definition can_transition_to :: "Task \<Rightarrow> TaskStatus \<Rightarrow> bool" where
  "can_transition_to t target \<longleftrightarrow> target \<in> TASK_TRANSITION_TABLE (t_status t)"

definition can_claim :: "Task \<Rightarrow> datetime \<Rightarrow> bool" where
  "can_claim t now \<longleftrightarrow>
     (if t_status t \<noteq> TaskStatus.QUEUED then False
      else case t_scheduled_at t of None \<Rightarrow> True | Some s \<Rightarrow> \<not> s > now)"

definition Task_claim :: "int \<Rightarrow> string \<Rightarrow> datetime \<Rightarrow> datetime \<Rightarrow> Task \<Rightarrow> task_error + Task" where
  "Task_claim run_id claim_lock expires_at now t =
     (if t_status t \<noteq> TaskStatus.QUEUED then Inl TaskStateError
      else Inr (t\<lparr>t_status := TaskStatus.RUNNING, t_current_run_id := Some run_id,
                  t_claim_lock := Some claim_lock, t_claim_expires := Some expires_at,
                  t_started_at := Some now\<rparr>))"

definition release_claim :: "string \<Rightarrow> Task \<Rightarrow> task_error + Task" where
  "release_claim claim_lock t =
     (if \<not> truthy (t_claim_lock t) \<or> t_claim_lock t \<noteq> Some claim_lock then Inl TaskClaimError
      else Inr (t\<lparr>t_claim_lock := None, t_claim_expires := None, t_current_run_id := None\<rparr>))"

definition record_heartbeat :: "datetime \<Rightarrow> string \<Rightarrow> Task \<Rightarrow> task_error + Task" where
  "record_heartbeat now claim_lock t =
     (if \<not> truthy (t_claim_lock t) \<or> t_claim_lock t \<noteq> Some claim_lock then Inl TaskClaimError
      else Inr (t\<lparr>t_last_heartbeat_at := Some now\<rparr>))"

definition is_stale :: "Task \<Rightarrow> datetime \<Rightarrow> int \<Rightarrow> bool" where
  "is_stale t now heartbeat_timeout \<longleftrightarrow>
     (if t_status t \<noteq> TaskStatus.RUNNING then False
      else if \<not> truthy (t_claim_lock t) then False
      else case t_last_heartbeat_at t of
             None \<Rightarrow> False
           | Some hb \<Rightarrow> now - hb > timedelta_seconds heartbeat_timeout)"

definition record_failure :: "string \<Rightarrow> Task \<Rightarrow> Task" where
  "record_failure err t =
     t\<lparr>t_consecutive_failures := t_consecutive_failures t + 1, t_last_failure_error := Some err\<rparr>"

definition should_give_up :: "Task \<Rightarrow> bool" where
  "should_give_up t \<longleftrightarrow> t_consecutive_failures t > t_max_retries t"

definition Task_complete :: "string \<Rightarrow> datetime \<Rightarrow> Task \<Rightarrow> Task" where
  "Task_complete summary now t =
     t\<lparr>t_status := TaskStatus.SUCCEEDED, t_result := Some summary, t_consecutive_failures := 0,
       t_completed_at := Some now\<rparr>"

definition propose_change :: "Task \<Rightarrow> task_error + Task" where
  "propose_change t =
     (if t_status t \<noteq> TaskStatus.RUNNING then Inl TaskStateError
      else Inr (t\<lparr>t_status := TaskStatus.WAITING_APPROVAL\<rparr>))"

definition resolve_approval :: "bool \<Rightarrow> Task \<Rightarrow> task_error + Task" where
  "resolve_approval approved t =
     (if t_status t \<noteq> TaskStatus.WAITING_APPROVAL then Inl TaskStateError
      else Inr (t\<lparr>t_status := TaskStatus.QUEUED\<rparr>))"

definition Task_revise :: "Task \<Rightarrow> task_error + Task" where
  "Task_revise t =
     (if t_status t \<noteq> TaskStatus.WAITING_APPROVAL then Inl TaskStateError
      else Inr (t\<lparr>t_status := TaskStatus.QUEUED\<rparr>))"

definition Task_cancel :: "datetime \<Rightarrow> Task \<Rightarrow> task_error + Task" where
  "Task_cancel now t =
     (if t_status t \<in> {TaskStatus.SUCCEEDED, TaskStatus.CANCELLED, TaskStatus.EXPIRED}
      then Inl TaskStateError
      else Inr (t\<lparr>t_status := TaskStatus.CANCELLED, t_completed_at := Some now\<rparr>))"

definition Task_retry :: "Task \<Rightarrow> task_error + Task" where
  "Task_retry t =
     (if t_status t \<notin> {TaskStatus.FAILED, TaskStatus.EXPIRED} then Inl TaskStateError
      else Inr (t\<lparr>t_status := TaskStatus.QUEUED, t_claim_lock := None, t_claim_expires := None,
                  t_current_run_id := None\<rparr>))"

definition set_archived :: "bool \<Rightarrow> Task \<Rightarrow> Task" where
  "set_archived value t = t\<lparr>t_is_archived := value\<rparr>"

section \<open>TaskPolicy\<close>

record TaskPolicyRequest =
  tp_current :: TaskStatus
  tp_target :: TaskStatus
  tp_consecutive_failures :: int
  tp_max_retries :: int

definition TaskPolicy_evaluate :: "TaskPolicyRequest \<Rightarrow> PolicyOutcome" where
  "TaskPolicy_evaluate r =
     (if tp_target r \<notin> TASK_TRANSITION_TABLE (tp_current r) then DENY
      else if tp_current r = TaskStatus.RUNNING \<and> tp_target r = TaskStatus.QUEUED
              \<and> tp_consecutive_failures r > tp_max_retries r then DENY
      else ALLOW)"

definition evaluate_transition :: "TaskPolicyRequest \<Rightarrow> PolicyOutcome" where
  "evaluate_transition r = TaskPolicy_evaluate r"

definition evaluate_claim :: "TaskPolicyRequest \<Rightarrow> PolicyOutcome" where
  "evaluate_claim r =
     (if tp_current r \<noteq> TaskStatus.QUEUED \<or> tp_target r \<noteq> TaskStatus.RUNNING then DENY
      else TaskPolicy_evaluate r)"

lemmas task_op_defs [lifecycle_simps] =
  Task_claim_def release_claim_def record_heartbeat_def record_failure_def
  propose_change_def resolve_approval_def Task_revise_def Task_cancel_def Task_retry_def
  set_archived_def

section \<open>The guarded operations as one machine\<close>

text \<open>
  Every operation of the aggregate but \<open>complete\<close>, which sets \<open>SUCCEEDED\<close> from any
  status without looking at the table.
\<close>

datatype task_op =
    OpClaim int string datetime datetime
  | OpRelease string
  | OpHeartbeat datetime string
  | OpRecordFailure string
  | OpPropose
  | OpResolve bool
  | OpRevise
  | OpCancel datetime
  | OpRetry
  | OpArchive bool

fun apply_task_op :: "task_op \<Rightarrow> Task \<Rightarrow> task_error + Task" where
  "apply_task_op (OpClaim rid lock expires now) t = Task_claim rid lock expires now t"
| "apply_task_op (OpRelease lock) t = release_claim lock t"
| "apply_task_op (OpHeartbeat now lock) t = record_heartbeat now lock t"
| "apply_task_op (OpRecordFailure err) t = Inr (record_failure err t)"
| "apply_task_op OpPropose t = propose_change t"
| "apply_task_op (OpResolve b) t = resolve_approval b t"
| "apply_task_op OpRevise t = Task_revise t"
| "apply_task_op (OpCancel now) t = Task_cancel now t"
| "apply_task_op OpRetry t = Task_retry t"
| "apply_task_op (OpArchive b) t = Inr (set_archived b t)"

definition task_terminal :: "TaskStatus \<Rightarrow> bool" where
  "task_terminal s \<longleftrightarrow> s = TaskStatus.SUCCEEDED \<or> s = TaskStatus.CANCELLED"

lemma cancel_guard: "s \<notin> {TaskStatus.SUCCEEDED, TaskStatus.CANCELLED, TaskStatus.EXPIRED} \<longleftrightarrow>
    TaskStatus.CANCELLED \<in> TASK_TRANSITION_TABLE s"
  by (cases s) auto

lemma apply_task_op_legal:
  "apply_task_op p t = Inr u \<Longrightarrow>
     t_status u = t_status t \<or> t_status u \<in> TASK_TRANSITION_TABLE (t_status t)"
  by (cases p; cases "t_status t")
     (auto simp: lifecycle_simps split: if_splits)

interpretation tm: state_machine TASK_TRANSITION_TABLE task_terminal t_status apply_task_op
proof unfold_locales
  show "task_terminal s = (TASK_TRANSITION_TABLE s = {})" for s
    by (cases s) (simp_all add: task_terminal_def)
  show "apply_task_op p x = Inr y \<Longrightarrow>
      t_status y = t_status x \<or> t_status y \<in> TASK_TRANSITION_TABLE (t_status x)" for p x y
    by (rule apply_task_op_legal)
qed

end
