(* ===== verification/Task_Registry.thy ===== *)
theory Task_Registry
  imports Task_Domain Python_Text "HOL-Library.Option_ord" "HOL-Library.Product_Lexorder"
begin

text \<open>
  The SQLite task registry (\<open>app/infrastructure/registry/sqlite_task_registry.py\<close>) as state
  passing over \<open>task_db\<close>, one list of rows per table. Each \<open>_..._sync\<close> method is one
  function; what it reads from outside (the clock, \<open>uuid4\<close>) is an argument. An operation
  returns the database after the transaction and either the exception it raised or its
  result, so that an exception after a commit (the late-finish audit) keeps its effect.
  \<open>INTEGER PRIMARY KEY AUTOINCREMENT\<close> is a high-water mark per table; \<open>ON DELETE CASCADE\<close>
  is written out. Timestamps are stored as UTC ISO strings in the code and compared as
  strings; for UTC strings of one format this is the order of the instants, which the model
  uses directly. Rows are kept as domain objects: the conversions \<open>_row_to_task\<close> and
  \<open>_task_params\<close> are inverse on the values the registry writes.
\<close>

section \<open>Tables\<close>

record NotifySub =
  n_task_id :: string
  n_platform :: string
  n_chat_id :: string
  n_thread_id :: string
  n_last_terminal_event_id :: int
  n_created_at :: datetime
  n_updated_at :: datetime

record AgentRunRow =
  ar_task_run_id :: "int option"
  ar_business_owner_deleted_at :: "datetime option"

record TraceLinkRow =
  tl_biz_type :: string
  tl_biz_id :: string

record task_db =
  db_tasks :: "Task list"
  db_task_runs :: "TaskRun list"
  db_task_events :: "TaskEvent list"
  db_task_comments :: "TaskComment list"
  db_task_attachments :: "TaskAttachment list"
  db_task_notify_subs :: "NotifySub list"
  db_run_seq :: int
  db_event_seq :: int
  db_agent_runs :: "AgentRunRow list option"
  db_trace_links :: "TraceLinkRow list option"

definition empty_task_db :: task_db where
  "empty_task_db = \<lparr>db_tasks = [], db_task_runs = [], db_task_events = [],
     db_task_comments = [], db_task_attachments = [], db_task_notify_subs = [],
     db_run_seq = 0, db_event_seq = 0, db_agent_runs = None, db_trace_links = None\<rparr>"

type_synonym 'a task_result = "task_db \<times> (task_error + 'a)"

text \<open>Reading a row back before the commit: a missing row would be subscripted.\<close>

definition reread :: "('r \<Rightarrow> bool) \<Rightarrow> 'r list \<Rightarrow> task_error + 'r" where
  "reread P rows = (case fetchone P rows of None \<Rightarrow> Inl PyTypeError | Some r \<Rightarrow> Inr r)"

text \<open>SQL comparison of nullable columns: a comparison with \<open>NULL\<close> is not true.\<close>

fun sql_lt :: "'a::ord option \<Rightarrow> 'a option \<Rightarrow> bool" where
  "sql_lt (Some a) (Some b) = (a < b)"
| "sql_lt _ _ = False"

fun sql_eq :: "'a option \<Rightarrow> 'a option \<Rightarrow> bool" where
  "sql_eq (Some a) (Some b) = (a = b)"
| "sql_eq _ _ = False"

definition clamp_limit :: "int \<Rightarrow> nat" where
  "clamp_limit limit = nat (max 1 (min limit 500))"

definition insert_event ::
  "string \<Rightarrow> int option \<Rightarrow> string \<Rightarrow> (string \<times> json) list \<Rightarrow> datetime \<Rightarrow> task_db \<Rightarrow> task_db" where
  "insert_event tid rid kind payload now db =
     db\<lparr>db_event_seq := db_event_seq db + 1,
        db_task_events := db_task_events db @
          [\<lparr>e_id = db_event_seq db + 1, e_task_id = tid, e_kind = kind, e_payload = payload,
            e_run_id = rid, e_created_at = Some now\<rparr>]\<rparr>"

definition task_exists :: "string \<Rightarrow> task_db \<Rightarrow> bool" where
  "task_exists tid db \<longleftrightarrow> fetchone (\<lambda>t. t_id t = tid) (db_tasks db) \<noteq> None"

section \<open>Create, read, list\<close>

definition idempotency_clash :: "Task \<Rightarrow> Task \<Rightarrow> bool" where
  "idempotency_clash t u \<longleftrightarrow> t_idempotency_key t \<noteq> None \<and> t_board t = t_board u \<and>
     t_created_by t = t_created_by u \<and> t_idempotency_key t = t_idempotency_key u"

definition create_task_sync :: "datetime \<Rightarrow> Task \<Rightarrow> task_db \<Rightarrow> Task task_result" where
  "create_task_sync now task db =
     (let resolved = task\<lparr>t_created_at := (case t_created_at task of None \<Rightarrow> Some now | c \<Rightarrow> c),
                          t_updated_at := (case t_updated_at task of None \<Rightarrow> Some now | c \<Rightarrow> c)\<rparr>
      in if (\<exists>u\<in>set (db_tasks db). t_id u = t_id task \<or> idempotency_clash resolved u)
         then (db, Inl TaskConflictError)
         else (db\<lparr>db_tasks := db_tasks db @ [resolved]\<rparr>, Inr resolved))"

definition get_task_sync :: "string \<Rightarrow> task_db \<Rightarrow> Task option" where
  "get_task_sync tid db = fetchone (\<lambda>t. t_id t = tid) (db_tasks db)"

definition list_key :: "Task \<Rightarrow> datetime option \<times> string" where
  "list_key t = (t_created_at t, t_id t)"

definition list_tasks_sync ::
  "string \<Rightarrow> TaskListCursor option \<Rightarrow> int \<Rightarrow> bool \<Rightarrow> task_db \<Rightarrow> TaskListPage" where
  "list_tasks_sync board cursor limit include_archived db =
     (let lim = clamp_limit limit;
          visible = (\<lambda>t. t_board t = board \<and> (include_archived \<or> \<not> t_is_archived t));
          after = (\<lambda>t. case cursor of None \<Rightarrow> True
                     | Some c \<Rightarrow> sql_lt (cur_created_at c) (t_created_at t) \<or>
                         (sql_eq (t_created_at t) (cur_created_at c) \<and> t_id t > cur_task_id c));
          rows = take (lim + 1)
                   (sort_key list_key (filter (\<lambda>t. visible t \<and> after t) (db_tasks db)));
          items = take lim rows;
          next_cursor = (if length rows > lim
                         then Some \<lparr>cur_created_at = t_created_at (last items),
                                    cur_task_id = t_id (last items)\<rparr>
                         else None)
      in \<lparr>page_items = items, page_next_cursor = next_cursor\<rparr>)"

section \<open>Update with optimistic locking\<close>

text \<open>
  One constructor per key of the \<open>fields\<close> mapping (the mapping is an ordered list of
  assignments); \<open>F_other\<close> is a key that is no column.
\<close>

datatype task_field =
    F_id string | F_title string | F_body string | F_priority int | F_created_by string
  | F_created_at datetime | F_updated_at datetime | F_version int | F_status TaskStatus
  | F_started_at "datetime option" | F_completed_at "datetime option"
  | F_scheduled_at "datetime option" | F_claim_lock "string option"
  | F_claim_expires "datetime option" | F_current_run_id "int option"
  | F_workspace_kind TaskWorkspaceKind | F_workspace_path "string option"
  | F_skills "string list" | F_execution_policy TaskExecutionPolicy
  | F_model_override "string option" | F_max_runtime_seconds "int option" | F_max_retries int
  | F_goal_mode bool | F_goal_max_turns "int option" | F_workflow_template_id "string option"
  | F_current_step_key "string option" | F_project_id "string option" | F_tenant "string option"
  | F_board string | F_origin_session_id "string option" | F_execution_session_id "string option"
  | F_consecutive_failures int | F_worker_token "string option"
  | F_last_failure_error "string option" | F_last_heartbeat_at "datetime option"
  | F_result "string option" | F_idempotency_key "string option" | F_is_archived bool
  | F_trace_context json | F_created_by_run_id "string option"
  | F_pending_trigger_run_id "string option" | F_other string

fun immutable_field :: "task_field \<Rightarrow> bool" where
  "immutable_field (F_id _) = True"
| "immutable_field (F_created_at _) = True"
| "immutable_field (F_created_by_run_id _) = True"
| "immutable_field _ = False"

fun apply_field :: "task_field \<Rightarrow> Task \<Rightarrow> Task" where
  "apply_field (F_title v) t = t\<lparr>t_title := v\<rparr>"
| "apply_field (F_body v) t = t\<lparr>t_body := v\<rparr>"
| "apply_field (F_priority v) t = t\<lparr>t_priority := v\<rparr>"
| "apply_field (F_created_by v) t = t\<lparr>t_created_by := v\<rparr>"
| "apply_field (F_updated_at v) t = t\<lparr>t_updated_at := Some v\<rparr>"
| "apply_field (F_version v) t = t\<lparr>t_version := v\<rparr>"
| "apply_field (F_status v) t = t\<lparr>t_status := v\<rparr>"
| "apply_field (F_started_at v) t = t\<lparr>t_started_at := v\<rparr>"
| "apply_field (F_completed_at v) t = t\<lparr>t_completed_at := v\<rparr>"
| "apply_field (F_scheduled_at v) t = t\<lparr>t_scheduled_at := v\<rparr>"
| "apply_field (F_claim_lock v) t = t\<lparr>t_claim_lock := v\<rparr>"
| "apply_field (F_claim_expires v) t = t\<lparr>t_claim_expires := v\<rparr>"
| "apply_field (F_current_run_id v) t = t\<lparr>t_current_run_id := v\<rparr>"
| "apply_field (F_workspace_kind v) t = t\<lparr>t_workspace_kind := v\<rparr>"
| "apply_field (F_workspace_path v) t = t\<lparr>t_workspace_path := v\<rparr>"
| "apply_field (F_skills v) t = t\<lparr>t_skills := v\<rparr>"
| "apply_field (F_execution_policy v) t = t\<lparr>t_execution_policy := v\<rparr>"
| "apply_field (F_model_override v) t = t\<lparr>t_model_override := v\<rparr>"
| "apply_field (F_max_runtime_seconds v) t = t\<lparr>t_max_runtime_seconds := v\<rparr>"
| "apply_field (F_max_retries v) t = t\<lparr>t_max_retries := v\<rparr>"
| "apply_field (F_goal_mode v) t = t\<lparr>t_goal_mode := v\<rparr>"
| "apply_field (F_goal_max_turns v) t = t\<lparr>t_goal_max_turns := v\<rparr>"
| "apply_field (F_workflow_template_id v) t = t\<lparr>t_workflow_template_id := v\<rparr>"
| "apply_field (F_current_step_key v) t = t\<lparr>t_current_step_key := v\<rparr>"
| "apply_field (F_project_id v) t = t\<lparr>t_project_id := v\<rparr>"
| "apply_field (F_tenant v) t = t\<lparr>t_tenant := v\<rparr>"
| "apply_field (F_board v) t = t\<lparr>t_board := v\<rparr>"
| "apply_field (F_origin_session_id v) t = t\<lparr>t_origin_session_id := v\<rparr>"
| "apply_field (F_execution_session_id v) t = t\<lparr>t_execution_session_id := v\<rparr>"
| "apply_field (F_consecutive_failures v) t = t\<lparr>t_consecutive_failures := v\<rparr>"
| "apply_field (F_worker_token v) t = t\<lparr>t_worker_token := v\<rparr>"
| "apply_field (F_last_failure_error v) t = t\<lparr>t_last_failure_error := v\<rparr>"
| "apply_field (F_last_heartbeat_at v) t = t\<lparr>t_last_heartbeat_at := v\<rparr>"
| "apply_field (F_result v) t = t\<lparr>t_result := v\<rparr>"
| "apply_field (F_idempotency_key v) t = t\<lparr>t_idempotency_key := v\<rparr>"
| "apply_field (F_is_archived v) t = t\<lparr>t_is_archived := v\<rparr>"
| "apply_field (F_trace_context v) t = t\<lparr>t_trace_context := v\<rparr>"
| "apply_field (F_pending_trigger_run_id v) t = t\<lparr>t_pending_trigger_run_id := v\<rparr>"
| "apply_field _ t = t"

text \<open>
  The \<open>SET\<close> clause: the mutable fields in order, then \<open>version = version + 1\<close> (of the
  row before the statement) and \<open>updated_at\<close>. SQLite keeps the rightmost assignment of a
  column, so a caller's \<open>version\<close> or \<open>updated_at\<close> is overridden.
\<close>

definition build_update_clause :: "datetime \<Rightarrow> task_field list \<Rightarrow> Task \<Rightarrow> Task" where
  "build_update_clause now flds t =
     (fold apply_field (filter (\<lambda>f. \<not> immutable_field f) flds) t)
       \<lparr>t_version := t_version t + 1, t_updated_at := Some now\<rparr>"

fun unknown_column :: "task_field \<Rightarrow> bool" where
  "unknown_column (F_other _) = True"
| "unknown_column _ = False"

text \<open>
  \<open>update_row\<close> is the guarded \<open>UPDATE\<close> of both entry points. A new row that collides on the partial unique index (board, created\_by,
  idempotency\_key) with another row is a \<open>sqlite3.IntegrityError\<close>, which neither
  translates.
\<close>

definition update_row ::
  "datetime \<Rightarrow> string \<Rightarrow> task_field list \<Rightarrow> int \<Rightarrow> task_db \<Rightarrow> task_error + task_db" where
  "update_row now tid flds expected_version db =
     (case fetchone (\<lambda>t. t_id t = tid) (db_tasks db) of
        None \<Rightarrow> Inl TaskNotFoundError
      | Some row \<Rightarrow>
          if t_version row \<noteq> expected_version then Inl TaskConflictError
          else if list_ex unknown_column flds then Inl OperationalError
          else if (\<exists>u\<in>set (db_tasks db). t_id u \<noteq> tid \<and>
                     idempotency_clash (build_update_clause now flds row) u)
          then Inl IntegrityError
          else Inr (db\<lparr>db_tasks :=
                 sql_update (\<lambda>t. t_id t = tid \<and> t_version t = expected_version)
                   (build_update_clause now flds) (db_tasks db)\<rparr>))"

definition update_task_sync ::
  "datetime \<Rightarrow> string \<Rightarrow> task_field list \<Rightarrow> int \<Rightarrow> task_db \<Rightarrow> Task task_result" where
  "update_task_sync now tid flds expected_version db =
     (case update_row now tid flds expected_version db of
        Inl e \<Rightarrow> (db, Inl e)
      | Inr db' \<Rightarrow>
          (case reread (\<lambda>t. t_id t = tid) (db_tasks db') of
             Inl e \<Rightarrow> (db', Inl e)
           | Inr t \<Rightarrow> (db', Inr t)))"

record BulkUpdateItem =
  bu_task_id :: string
  bu_fields :: "task_field list"
  bu_expected_version :: int

fun bulk_rows :: "datetime \<Rightarrow> BulkUpdateItem list \<Rightarrow> task_db \<Rightarrow> task_error + task_db" where
  "bulk_rows now [] db = Inr db"
| "bulk_rows now (i # is) db =
     (case update_row now (bu_task_id i) (bu_fields i) (bu_expected_version i) db of
        Inl e \<Rightarrow> Inl e
      | Inr db' \<Rightarrow> bulk_rows now is db')"

fun reread_all :: "string list \<Rightarrow> Task list \<Rightarrow> task_error + Task list" where
  "reread_all [] rows = Inr []"
| "reread_all (tid # tids) rows =
     (case reread (\<lambda>t. t_id t = tid) rows of
        Inl e \<Rightarrow> Inl e
      | Inr t \<Rightarrow> (case reread_all tids rows of Inl e \<Rightarrow> Inl e | Inr ts \<Rightarrow> Inr (t # ts)))"

definition bulk_update_sync ::
  "datetime \<Rightarrow> BulkUpdateItem list \<Rightarrow> task_db \<Rightarrow> Task list task_result" where
  "bulk_update_sync now items db =
     (case bulk_rows now items db of
        Inl e \<Rightarrow> (db, Inl e)
      | Inr db' \<Rightarrow>
          (case reread_all (map bu_task_id items) (db_tasks db') of
             Inl e \<Rightarrow> (db, Inl e)
           | Inr ts \<Rightarrow> (db', Inr ts)))"

end
