(* ===== verification/Task_Leases.thy ===== *)
theory Task_Leases
  imports Task_Registry
begin

text \<open>
  The leased execution of tasks in the SQLite registry: the atomic claim, the heartbeat, the
  unified run finalization, proposal resolution, the dispatch queries, and the remaining
  tables (comments, events, runs, attachments, notification subscriptions, deletion).
\<close>

section \<open>Claim\<close>

definition claimable :: "datetime \<Rightarrow> Task \<Rightarrow> bool" where
  "claimable now t \<longleftrightarrow> t_status t = TaskStatus.QUEUED \<and> \<not> t_is_archived t \<and>
     (case t_scheduled_at t of None \<Rightarrow> True | Some s \<Rightarrow> s \<le> now) \<and>
     (case t_claim_expires t of None \<Rightarrow> True | Some e \<Rightarrow> e < now)"

definition new_run :: "datetime \<Rightarrow> string \<Rightarrow> string \<Rightarrow> int \<Rightarrow> int \<Rightarrow> Task \<Rightarrow> TaskRun" where
  "new_run now worker_token claim_lock lease_seconds run_id task =
     \<lparr>r_id = run_id, r_task_id = t_id task, r_profile = ''default'',
      r_status = TaskRunStatus.RUNNING, r_claim_lock = Some claim_lock,
      r_claim_expires = Some (now + timedelta_seconds lease_seconds),
      r_worker_token = Some worker_token, r_max_runtime_seconds = t_max_runtime_seconds task,
      r_lease_seconds = Some lease_seconds, r_last_heartbeat_at = None,
      r_started_at = Some now, r_ended_at = None, r_outcome = None, r_summary = None,
      r_metadata = JObj [], r_error = None, r_trigger_run_id = t_pending_trigger_run_id task\<rparr>"

definition claimed_row :: "datetime \<Rightarrow> string \<Rightarrow> string \<Rightarrow> int \<Rightarrow> int \<Rightarrow> Task \<Rightarrow> Task" where
  "claimed_row now worker_token claim_lock lease_seconds run_id t =
     t\<lparr>t_status := TaskStatus.RUNNING, t_claim_lock := Some claim_lock,
       t_claim_expires := Some (now + timedelta_seconds lease_seconds),
       t_current_run_id := Some run_id, t_worker_token := Some worker_token,
       t_pending_trigger_run_id := None,
       t_started_at := (case t_started_at t of None \<Rightarrow> Some now | Some s \<Rightarrow> Some s),
       t_last_heartbeat_at := Some now,
       t_version := t_version t + 1, t_updated_at := Some now\<rparr>"

definition claim_task_sync ::
  "datetime \<Rightarrow> string \<Rightarrow> string \<Rightarrow> string \<Rightarrow> int \<Rightarrow> task_db \<Rightarrow> ClaimResult option task_result" where
  "claim_task_sync now worker_token tid claim_lock lease_seconds db =
     (case fetchone (\<lambda>t. t_id t = tid \<and> claimable now t) (db_tasks db) of
        None \<Rightarrow> (db, Inr None)
      | Some task \<Rightarrow>
          (let run_id = db_run_seq db + 1;
               db1 = db\<lparr>db_run_seq := run_id,
                 db_task_runs := db_task_runs db @
                   [new_run now worker_token claim_lock lease_seconds run_id task]\<rparr>;
               db2 = db1\<lparr>db_tasks :=
                 sql_update (\<lambda>t. t_id t = tid \<and> t_version t = t_version task)
                   (claimed_row now worker_token claim_lock lease_seconds run_id)
                   (db_tasks db1)\<rparr>;
               db3 = insert_event tid (Some run_id) ''claimed''
                       [(''claim_lock'', JStr claim_lock)] now db2
           in case (reread (\<lambda>t. t_id t = tid) (db_tasks db3),
                    reread (\<lambda>r. r_id r = run_id) (db_task_runs db3)) of
                (Inr t, Inr r) \<Rightarrow> (db3, Inr (Some \<lparr>cr_task = t, cr_run = r\<rparr>))
              | _ \<Rightarrow> (db3, Inl PyTypeError)))"

section \<open>Heartbeat\<close>

definition holds_claim :: "string \<Rightarrow> string \<Rightarrow> int \<Rightarrow> Task \<Rightarrow> bool" where
  "holds_claim tid claim_lock run_id t \<longleftrightarrow> t_id t = tid \<and> t_claim_lock t = Some claim_lock \<and>
     t_current_run_id t = Some run_id"

definition record_heartbeat_sync ::
  "string \<Rightarrow> int \<Rightarrow> string \<Rightarrow> datetime \<Rightarrow> task_db \<Rightarrow> Task task_result" where
  "record_heartbeat_sync tid run_id claim_lock now db =
     (case fetchone (holds_claim tid claim_lock run_id) (db_tasks db) of
        None \<Rightarrow> (db, Inl TaskClaimError)
      | Some _ \<Rightarrow>
          (let stored_lease =
                 (case fetchone (\<lambda>r. r_id r = run_id \<and> r_task_id r = tid) (db_task_runs db) of
                    None \<Rightarrow> None | Some r \<Rightarrow> r_lease_seconds r);
               lease = (case stored_lease of None \<Rightarrow> 900 | Some l \<Rightarrow> l);
               new_expires = now + timedelta_seconds lease;
               db1 = db\<lparr>db_tasks := sql_update (\<lambda>t. t_id t = tid)
                 (\<lambda>t. t\<lparr>t_last_heartbeat_at := Some now, t_claim_expires := Some new_expires,
                         t_version := t_version t + 1, t_updated_at := Some now\<rparr>) (db_tasks db)\<rparr>;
               db2 = db1\<lparr>db_task_runs := sql_update (\<lambda>r. r_id r = run_id \<and> r_task_id r = tid)
                 (\<lambda>r. r\<lparr>r_last_heartbeat_at := Some now, r_claim_expires := Some new_expires\<rparr>)
                 (db_task_runs db1)\<rparr>
           in case reread (\<lambda>t. t_id t = tid) (db_tasks db2) of
                Inl e \<Rightarrow> (db2, Inl e)
              | Inr t \<Rightarrow> (db2, Inr t)))"

section \<open>Run finalization\<close>

definition outcome_to_task_status :: "TaskRunOutcome \<Rightarrow> int \<Rightarrow> int \<Rightarrow> TaskStatus" where
  "outcome_to_task_status oc new_consecutive_failures max_retries =
     (if oc = TaskRunOutcome.COMPLETED then TaskStatus.SUCCEEDED
      else if oc = TaskRunOutcome.WAITING_APPROVAL then TaskStatus.WAITING_APPROVAL
      else if oc = TaskRunOutcome.EXPIRED then TaskStatus.EXPIRED
      else if oc \<in> {TaskRunOutcome.CRASHED, TaskRunOutcome.TIMED_OUT} then TaskStatus.EXPIRED
      else if oc = TaskRunOutcome.TERMINATED then TaskStatus.CANCELLED
      else if new_consecutive_failures > max_retries then TaskStatus.FAILED
      else TaskStatus.QUEUED)"

fun outcome_to_run_status :: "TaskRunOutcome \<Rightarrow> TaskRunStatus" where
  "outcome_to_run_status TaskRunOutcome.COMPLETED = TaskRunStatus.COMPLETED"
| "outcome_to_run_status TaskRunOutcome.WAITING_APPROVAL = TaskRunStatus.COMPLETED"
| "outcome_to_run_status TaskRunOutcome.FAILED = TaskRunStatus.FAILED"
| "outcome_to_run_status TaskRunOutcome.CRASHED = TaskRunStatus.CRASHED"
| "outcome_to_run_status TaskRunOutcome.TIMED_OUT = TaskRunStatus.TIMED_OUT"
| "outcome_to_run_status TaskRunOutcome.TERMINATED = TaskRunStatus.TERMINATED"
| "outcome_to_run_status TaskRunOutcome.SPAWN_FAILED = TaskRunStatus.FAILED"
| "outcome_to_run_status TaskRunOutcome.EXPIRED = TaskRunStatus.TIMED_OUT"
| "outcome_to_run_status TaskRunOutcome.ABORTED = TaskRunStatus.FAILED"

definition increment_failures :: "TaskRunOutcome \<Rightarrow> bool" where
  "increment_failures oc \<longleftrightarrow> oc \<in> {TaskRunOutcome.FAILED, TaskRunOutcome.SPAWN_FAILED}"

definition jopt :: "string option \<Rightarrow> json" where
  "jopt s = (case s of None \<Rightarrow> JNull | Some cs \<Rightarrow> JStr cs)"

definition finished_run ::
  "datetime \<Rightarrow> TaskRunOutcome \<Rightarrow> string option \<Rightarrow> json \<Rightarrow> string option \<Rightarrow> TaskRun \<Rightarrow> TaskRun" where
  "finished_run now oc summary metadata err r =
     r\<lparr>r_status := outcome_to_run_status oc, r_ended_at := Some now, r_outcome := Some oc,
       r_summary := summary, r_metadata := metadata, r_error := err\<rparr>"

definition finished_row ::
  "datetime \<Rightarrow> TaskRunOutcome \<Rightarrow> string option \<Rightarrow> string option \<Rightarrow> TaskStatus \<Rightarrow> int \<Rightarrow> Task \<Rightarrow> Task" where
  "finished_row now oc summary err new_status new_consecutive t =
     (let t1 = t\<lparr>t_status := new_status, t_claim_lock := None, t_claim_expires := None,
                 t_current_run_id := None, t_worker_token := None,
                 t_version := t_version t + 1, t_updated_at := Some now\<rparr>
      in if oc = TaskRunOutcome.COMPLETED
         then t1\<lparr>t_completed_at := Some now, t_result := py_or summary (Some ''''),
                 t_consecutive_failures := 0\<rparr>
         else if increment_failures oc
         then t1\<lparr>t_consecutive_failures := new_consecutive,
                 t_last_failure_error :=
                   py_or err (py_or summary (Some (TaskRunOutcome_value oc)))\<rparr>
         else t1)"

definition finalize_run ::
  "datetime \<Rightarrow> string \<Rightarrow> int \<Rightarrow> string \<Rightarrow> TaskRunOutcome \<Rightarrow> string option \<Rightarrow> json \<Rightarrow> string option
     \<Rightarrow> bool \<Rightarrow> TaskStatus option \<Rightarrow> task_db \<Rightarrow> FinishRunResult task_result" where
  "finalize_run now tid run_id claim_lock oc summary metadata err is_recover target db =
     (case fetchone (\<lambda>r. r_id r = run_id \<and> r_task_id r = tid) (db_task_runs db) of
        None \<Rightarrow> (db, Inl TaskNotFoundError)
      | Some existing_run \<Rightarrow>
        if r_status existing_run \<noteq> TaskRunStatus.RUNNING then
          (if r_claim_lock existing_run = Some claim_lock
           then (insert_event tid (Some run_id) ''late_finish_attempt''
                   [(''outcome'', JStr (TaskRunOutcome_value oc)), (''summary'', jopt summary),
                    (''is_recover'', JBool is_recover)] now db,
                 Inl TaskConflictError)
           else (db, Inl TaskConflictError))
        else
        (case fetchone (holds_claim tid claim_lock run_id) (db_tasks db) of
           None \<Rightarrow> (db, Inl TaskConflictError)
         | Some task \<Rightarrow>
           (let new_consecutive =
                  (if increment_failures oc then t_consecutive_failures task + 1
                   else t_consecutive_failures task);
                new_status =
                  (case target of
                     Some s \<Rightarrow> s
                   | None \<Rightarrow> outcome_to_task_status oc new_consecutive (t_max_retries task));
                db1 = db\<lparr>db_task_runs := sql_update (\<lambda>r. r_id r = run_id)
                        (finished_run now oc summary metadata err) (db_task_runs db)\<rparr>;
                db2 = db1\<lparr>db_tasks := sql_update (\<lambda>t. t_id t = tid \<and> t_version t = t_version task)
                        (finished_row now oc summary err new_status new_consecutive)
                        (db_tasks db1)\<rparr>;
                db3 = insert_event tid (Some run_id) (if is_recover then ''recovered'' else ''finished'')
                        [(''outcome'', JStr (TaskRunOutcome_value oc)), (''summary'', jopt summary),
                         (''is_recover'', JBool is_recover), (''error'', jopt err)] now db2
            in case (reread (\<lambda>t. t_id t = tid) (db_tasks db3),
                     reread (\<lambda>r. r_id r = run_id) (db_task_runs db3),
                     reread (\<lambda>e. e_id e = db_event_seq db3) (db_task_events db3)) of
                 (Inr t, Inr r, Inr e) \<Rightarrow>
                   (db3, Inr \<lparr>fr_task = t, fr_run = r, fr_terminal_event = e\<rparr>)
               | _ \<Rightarrow> (db3, Inl PyTypeError))))"

definition finish_run_sync ::
  "datetime \<Rightarrow> FinishRunCommand \<Rightarrow> task_db \<Rightarrow> FinishRunResult task_result" where
  "finish_run_sync now cmd db =
     finalize_run now (fc_task_id cmd) (fc_run_id cmd) (fc_claim_lock cmd) (fc_outcome cmd)
       (fc_summary cmd) (fc_metadata cmd) (fc_error cmd) False (fc_target_task_status cmd) db"

definition recover_run_sync ::
  "datetime \<Rightarrow> RecoverRunCommand \<Rightarrow> task_db \<Rightarrow> FinishRunResult task_result" where
  "recover_run_sync now cmd db =
     finalize_run now (rc_task_id cmd) (rc_run_id cmd) (rc_claim_lock cmd) (rc_outcome cmd)
       None (JObj []) (rc_error cmd) True None db"

section \<open>Dispatch queries\<close>

definition list_queued_due_sync :: "datetime \<Rightarrow> int \<Rightarrow> string \<Rightarrow> task_db \<Rightarrow> Task list" where
  "list_queued_due_sync now limit board db =
     take (clamp_limit limit)
       (sort_key (\<lambda>t. (- t_priority t, t_created_at t, t_id t))
         (filter (\<lambda>t. t_board t = board \<and> t_status t = TaskStatus.QUEUED \<and> \<not> t_is_archived t \<and>
                      (case t_scheduled_at t of None \<Rightarrow> True | Some s \<Rightarrow> s \<le> now))
           (db_tasks db)))"

definition list_running_sync :: "string \<Rightarrow> task_db \<Rightarrow> Task list" where
  "list_running_sync board db =
     sort_key (\<lambda>t. (t_started_at t, t_id t))
       (filter (\<lambda>t. t_board t = board \<and> t_status t = TaskStatus.RUNNING) (db_tasks db))"

section \<open>Comments, events, runs\<close>

definition add_comment_sync ::
  "datetime \<Rightarrow> string \<Rightarrow> string \<Rightarrow> string \<Rightarrow> string \<Rightarrow> task_db \<Rightarrow> TaskComment task_result" where
  "add_comment_sync now comment_id tid author body db =
     (if \<not> task_exists tid db then (db, Inl TaskNotFoundError)
      else if (\<exists>c\<in>set (db_task_comments db). c_id c = comment_id) then (db, Inl IntegrityError)
      else (let c = \<lparr>c_id = comment_id, c_task_id = tid, c_author = author, c_body = body,
                     c_created_at = Some now\<rparr>
            in (db\<lparr>db_task_comments := db_task_comments db @ [c]\<rparr>, Inr c)))"

definition list_comments_sync :: "string \<Rightarrow> task_db \<Rightarrow> TaskComment list" where
  "list_comments_sync tid db =
     sort_key (\<lambda>c. (c_created_at c, c_id c))
       (filter (\<lambda>c. c_task_id c = tid) (db_task_comments db))"

definition append_event_sync ::
  "datetime \<Rightarrow> string \<Rightarrow> string \<Rightarrow> (string \<times> json) list \<Rightarrow> int option \<Rightarrow> task_db
     \<Rightarrow> TaskEvent task_result" where
  "append_event_sync now tid kind payload run_id db =
     (if \<not> task_exists tid db then (db, Inl TaskNotFoundError)
      else (let db1 = insert_event tid run_id kind payload now db
            in case reread (\<lambda>e. e_id e = db_event_seq db1) (db_task_events db1) of
                 Inl e \<Rightarrow> (db1, Inl e)
               | Inr e \<Rightarrow> (db1, Inr e)))"

definition list_events_sync :: "string \<Rightarrow> int \<Rightarrow> int \<Rightarrow> task_db \<Rightarrow> TaskEvent list" where
  "list_events_sync tid since limit db =
     take (clamp_limit limit)
       (sort_key e_id (filter (\<lambda>e. e_task_id e = tid \<and> e_id e > since) (db_task_events db)))"

definition list_runs_sync :: "string \<Rightarrow> int \<Rightarrow> task_db \<Rightarrow> TaskRun list" where
  "list_runs_sync tid limit db =
     take (clamp_limit limit)
       (rev (sort_key r_id (filter (\<lambda>r. r_task_id r = tid) (db_task_runs db))))"

end
