(* ===== verification/Task_Proposals.thy ===== *)
theory Task_Proposals
  imports Task_Leases
begin

text \<open>
  Proposal resolution (the user's decision on a worker's \<open>change_proposed\<close> event) and the
  rest of the registry's tables: attachments, notification subscriptions, task deletion with
  its cascades.
\<close>

section \<open>Proposal resolution\<close>

definition DECISION_TO_EVENT_KIND :: "string \<rightharpoonup> string" where
  "DECISION_TO_EVENT_KIND = [''approved'' \<mapsto> ''change_approved'',
     ''rejected'' \<mapsto> ''change_rejected'', ''revised'' \<mapsto> ''change_revised'']"

definition RESOLUTION_MARKER_KINDS :: "string list" where
  "RESOLUTION_MARKER_KINDS = [''change_approved'', ''change_rejected'', ''change_revised'']"

definition PROPOSAL_KIND :: string where
  "PROPOSAL_KIND = ''change_proposed''"

definition validate_resolution_command :: "ProposalResolutionCommand \<Rightarrow> task_error option" where
  "validate_resolution_command cmd =
     (if pc_task_id cmd = [] then Some TaskValidationError
      else case DECISION_TO_EVENT_KIND (pc_decision cmd) of
             None \<Rightarrow> Some TaskValidationError
           | Some expected_kind \<Rightarrow>
               if pc_event_kind cmd \<noteq> expected_kind then Some TaskValidationError
               else if pc_decision cmd = ''revised'' \<and>
                       (\<not> truthy (pc_note cmd) \<or>
                        (case pc_note cmd of None \<Rightarrow> True | Some n \<Rightarrow> py_strip n = []))
               then Some TaskValidationError
               else None)"

text \<open>\<open>int(...)\<close> of a decoded payload value; a string is read as a decimal numeral.\<close>

fun py_int :: "json \<Rightarrow> task_error + int" where
  "py_int (JInt n) = Inr n"
| "py_int (JBool b) = Inr (if b then 1 else 0)"
| "py_int (JStr s) = (case py_int_str s of None \<Rightarrow> Inl PyValueError | Some n \<Rightarrow> Inr n)"
| "py_int _ = Inl PyTypeError"

text \<open>The proposals closed by a marker: the \<open>proposal_event_id\<close> payloads of the markers.\<close>

fun resolved_ids :: "TaskEvent list \<Rightarrow> task_error + int list" where
  "resolved_ids [] = Inr []"
| "resolved_ids (ev # evs) =
     (if e_kind ev \<in> set RESOLUTION_MARKER_KINDS then
        (case map_of (e_payload ev) ''proposal_event_id'' of
           None \<Rightarrow> resolved_ids evs
         | Some JNull \<Rightarrow> resolved_ids evs
         | Some pid \<Rightarrow>
             (case py_int pid of
                Inl e \<Rightarrow> Inl e
              | Inr n \<Rightarrow> (case resolved_ids evs of Inl e \<Rightarrow> Inl e | Inr ns \<Rightarrow> Inr (n # ns))))
      else resolved_ids evs)"

definition latest_pending :: "int list \<Rightarrow> TaskEvent list \<Rightarrow> TaskEvent option" where
  "latest_pending resolved evs =
     find (\<lambda>ev. e_kind ev = PROPOSAL_KIND \<and> e_id ev \<notin> set resolved) (rev evs)"

definition task_history :: "string \<Rightarrow> task_db \<Rightarrow> TaskEvent list" where
  "task_history tid db = sort_key e_id (filter (\<lambda>e. e_task_id e = tid) (db_task_events db))"

definition resolve_proposal_sync ::
  "datetime \<Rightarrow> ProposalResolutionCommand \<Rightarrow> task_db \<Rightarrow> ProposalResolutionResult task_result" where
  "resolve_proposal_sync now cmd db =
     (case validate_resolution_command cmd of
        Some e \<Rightarrow> (db, Inl e)
      | None \<Rightarrow>
        (let tid = pc_task_id cmd in
         case fetchone (\<lambda>t. t_id t = tid) (db_tasks db) of
           None \<Rightarrow> (db, Inl TaskNotFoundError)
         | Some task \<Rightarrow>
           if t_version task \<noteq> pc_expected_version cmd then (db, Inl TaskConflictError)
           else if t_is_archived task then (db, Inl TaskStateError)
           else if t_status task \<noteq> TaskStatus.WAITING_APPROVAL then (db, Inl TaskStateError)
           else
           (case resolved_ids (task_history tid db) of
              Inl e \<Rightarrow> (db, Inl e)
            | Inr resolved \<Rightarrow>
              (case latest_pending resolved (task_history tid db) of
                 None \<Rightarrow> (db, Inl TaskStateError)
               | Some ev \<Rightarrow>
                 (let db1 = insert_event tid None (pc_event_kind cmd)
                              [(''decision'', JStr (pc_decision cmd)), (''note'', jopt (pc_note cmd)),
                               (''proposal_event_id'', JInt (e_id ev))] now db;
                      cas = (\<lambda>t. t_id t = tid \<and> t_version t = pc_expected_version cmd \<and>
                                 t_status t = TaskStatus.WAITING_APPROVAL \<and> \<not> t_is_archived t)
                  in if rowcount cas (db_tasks db1) \<noteq> 1 then (db, Inl TaskConflictError)
                     else
                     (let db2 = db1\<lparr>db_tasks := sql_update cas
                              (\<lambda>t. t\<lparr>t_status := TaskStatus.QUEUED, t_version := t_version t + 1,
                                      t_updated_at := Some now\<rparr>) (db_tasks db1)\<rparr>
                      in case (reread (\<lambda>t. t_id t = tid) (db_tasks db2),
                               reread (\<lambda>e. e_id e = db_event_seq db2) (db_task_events db2)) of
                           (Inr t, Inr e) \<Rightarrow>
                             (db2, Inr \<lparr>pr_proposal_event_id = e_id ev, pr_task = t,
                                        pr_decision_event = e\<rparr>)
                         | _ \<Rightarrow> (db2, Inl PyTypeError)))))))"

definition latest_waiting_approval_in_session_sync ::
  "string \<Rightarrow> task_db \<Rightarrow> task_error + Task option" where
  "latest_waiting_approval_in_session_sync session_id db =
     (if session_id = [] then Inl TaskValidationError
      else Inr (case rev (sort_key list_key
                  (filter (\<lambda>t. t_origin_session_id t = Some session_id \<and>
                               t_status t = TaskStatus.WAITING_APPROVAL \<and> \<not> t_is_archived t)
                    (db_tasks db))) of
                  [] \<Rightarrow> None | t # _ \<Rightarrow> Some t))"

section \<open>Attachments\<close>

definition add_attachment_sync ::
  "datetime \<Rightarrow> string \<Rightarrow> TaskAttachment \<Rightarrow> task_db \<Rightarrow> TaskAttachment task_result" where
  "add_attachment_sync now att_id spec db =
     (if \<not> task_exists (a_task_id spec) db then (db, Inl TaskNotFoundError)
      else if (\<exists>a\<in>set (db_task_attachments db). a_id a = att_id) then (db, Inl IntegrityError)
      else (let a = spec\<lparr>a_id := att_id, a_created_at := Some now\<rparr>
            in (db\<lparr>db_task_attachments := db_task_attachments db @ [a]\<rparr>, Inr a)))"

definition list_attachments_sync :: "string \<Rightarrow> task_db \<Rightarrow> TaskAttachment list" where
  "list_attachments_sync tid db =
     sort_key (\<lambda>a. (a_created_at a, a_id a))
       (filter (\<lambda>a. a_task_id a = tid) (db_task_attachments db))"

definition get_attachment_sync :: "string \<Rightarrow> task_db \<Rightarrow> TaskAttachment option" where
  "get_attachment_sync aid db = fetchone (\<lambda>a. a_id a = aid) (db_task_attachments db)"

definition delete_attachment_sync :: "string \<Rightarrow> task_db \<Rightarrow> task_db \<times> bool" where
  "delete_attachment_sync aid db =
     (db\<lparr>db_task_attachments := sql_delete (\<lambda>a. a_id a = aid) (db_task_attachments db)\<rparr>,
      rowcount (\<lambda>a. a_id a = aid) (db_task_attachments db) > 0)"

section \<open>Notification subscriptions\<close>

definition thread_key :: "string option \<Rightarrow> string" where
  "thread_key thread_id = (case thread_id of None \<Rightarrow> '''' | Some s \<Rightarrow> s)"

definition sub_matches :: "string \<Rightarrow> string \<Rightarrow> string \<Rightarrow> string option \<Rightarrow> NotifySub \<Rightarrow> bool" where
  "sub_matches tid platform chat_id thread_id n \<longleftrightarrow> n_task_id n = tid \<and> n_platform n = platform \<and>
     n_chat_id n = chat_id \<and> n_thread_id n = thread_key thread_id"

definition subscribe_notify_sync ::
  "datetime \<Rightarrow> string \<Rightarrow> string \<Rightarrow> string \<Rightarrow> string option \<Rightarrow> task_db \<Rightarrow> bool task_result" where
  "subscribe_notify_sync now tid platform chat_id thread_id db =
     (if \<not> task_exists tid db then (db, Inl TaskNotFoundError)
      else if (\<exists>n\<in>set (db_task_notify_subs db). sub_matches tid platform chat_id thread_id n)
      then (db\<lparr>db_task_notify_subs := sql_update (sub_matches tid platform chat_id thread_id)
                 (\<lambda>n. n\<lparr>n_updated_at := now\<rparr>) (db_task_notify_subs db)\<rparr>, Inr True)
      else (db\<lparr>db_task_notify_subs := db_task_notify_subs db @
                 [\<lparr>n_task_id = tid, n_platform = platform, n_chat_id = chat_id,
                   n_thread_id = thread_key thread_id, n_last_terminal_event_id = 0,
                   n_created_at = now, n_updated_at = now\<rparr>]\<rparr>, Inr True))"

definition list_notify_subs_sync ::
  "string \<Rightarrow> task_db \<Rightarrow> (string \<times> string \<times> string \<times> string option \<times> int) list" where
  "list_notify_subs_sync tid db =
     map (\<lambda>n. (n_task_id n, n_platform n, n_chat_id n,
               (if n_thread_id n = [] then None else Some (n_thread_id n)),
               n_last_terminal_event_id n))
       (sort_key n_created_at (filter (\<lambda>n. n_task_id n = tid) (db_task_notify_subs db)))"

definition unsubscribe_notify_sync ::
  "string \<Rightarrow> string \<Rightarrow> string \<Rightarrow> string option \<Rightarrow> task_db \<Rightarrow> task_db \<times> bool" where
  "unsubscribe_notify_sync tid platform chat_id thread_id db =
     (db\<lparr>db_task_notify_subs :=
          sql_delete (sub_matches tid platform chat_id thread_id) (db_task_notify_subs db)\<rparr>,
      rowcount (sub_matches tid platform chat_id thread_id) (db_task_notify_subs db) > 0)"

definition update_notify_sub_last_event_sync ::
  "datetime \<Rightarrow> string \<Rightarrow> string \<Rightarrow> string \<Rightarrow> string option \<Rightarrow> int \<Rightarrow> task_db \<Rightarrow> task_db \<times> bool" where
  "update_notify_sub_last_event_sync now tid platform chat_id thread_id last_id db =
     (let P = (\<lambda>n. sub_matches tid platform chat_id thread_id n \<and>
                   n_last_terminal_event_id n < last_id)
      in (db\<lparr>db_task_notify_subs := sql_update P
              (\<lambda>n. n\<lparr>n_last_terminal_event_id := last_id, n_updated_at := now\<rparr>)
              (db_task_notify_subs db)\<rparr>,
          rowcount P (db_task_notify_subs db) > 0))"

section \<open>Deletion\<close>

definition delete_task_sync :: "datetime \<Rightarrow> string \<Rightarrow> task_db \<Rightarrow> task_db \<times> bool" where
  "delete_task_sync now tid db =
     (let run_ids = map r_id (filter (\<lambda>r. r_task_id r = tid) (db_task_runs db));
          db1 = db\<lparr>db_agent_runs := map_option
                   (sql_update (\<lambda>a. case ar_task_run_id a of None \<Rightarrow> False | Some i \<Rightarrow> i \<in> set run_ids)
                     (\<lambda>a. a\<lparr>ar_business_owner_deleted_at := Some now\<rparr>)) (db_agent_runs db)\<rparr>;
          db2 = db1\<lparr>db_trace_links := map_option
                   (sql_delete (\<lambda>l. tl_biz_type l = ''task_run'' \<and>
                                    tl_biz_id l \<in> set (map int_text run_ids))) (db_trace_links db1)\<rparr>;
          deleted = rowcount (\<lambda>t. t_id t = tid) (db_tasks db2) > 0;
          db3 = db2\<lparr>db_tasks := sql_delete (\<lambda>t. t_id t = tid) (db_tasks db2)\<rparr>;
          db4 = (if \<not> deleted then db3 else db3
                 \<lparr>db_task_runs := sql_delete (\<lambda>r. r_task_id r = tid) (db_task_runs db3),
                  db_task_comments := sql_delete (\<lambda>c. c_task_id c = tid) (db_task_comments db3),
                  db_task_events := sql_delete (\<lambda>e. e_task_id e = tid) (db_task_events db3),
                  db_task_attachments := sql_delete (\<lambda>a. a_task_id a = tid) (db_task_attachments db3),
                  db_task_notify_subs := sql_delete (\<lambda>n. n_task_id n = tid) (db_task_notify_subs db3)\<rparr>)
      in (db4, deleted))"

end
