(* ===== verification/Lease.thy ===== *)
theory Lease
  imports Main
begin

text \<open>
  Exclusive leases, as the registries hand them out: at any time a key (a task)
  has at most one holder. The contract is a labelled step relation whose labels are
  the acquisitions and releases a step performs; the consequence, proved once, is that every
  run of the system produces a well-formed log: acquisitions and releases of a key
  alternate, and a release is always by the holder.
\<close>

datatype ('k, 'h) lease_event = Acquire 'k 'h | Release 'k 'h

fun valid_log :: "('k \<rightharpoonup> 'h) \<Rightarrow> ('k, 'h) lease_event list \<Rightarrow> bool" where
  "valid_log H [] = True"
| "valid_log H (Acquire k h # es) = (H k = None \<and> valid_log (H(k \<mapsto> h)) es)"
| "valid_log H (Release k h # es) = (H k = Some h \<and> valid_log (H(k := None)) es)"

fun after_log :: "('k \<rightharpoonup> 'h) \<Rightarrow> ('k, 'h) lease_event list \<Rightarrow> ('k \<rightharpoonup> 'h)" where
  "after_log H [] = H"
| "after_log H (Acquire k h # es) = after_log (H(k \<mapsto> h)) es"
| "after_log H (Release k h # es) = after_log (H(k := None)) es"

lemma valid_log_append:
  "valid_log H (xs @ ys) \<longleftrightarrow> valid_log H xs \<and> valid_log (after_log H xs) ys"
proof (induction xs arbitrary: H)
  case (Cons e es)
  then show ?case by (cases e) (simp_all del: fun_upd_apply)
qed simp

lemma after_log_append: "after_log H (xs @ ys) = after_log (after_log H xs) ys"
proof (induction xs arbitrary: H)
  case (Cons e es)
  then show ?case by (cases e) (simp_all del: fun_upd_apply)
qed simp

text \<open>A transaction may take back several leases at once.\<close>

lemma after_log_releases:
  "after_log H (map (\<lambda>x. Release (k x) (h x)) xs) j = (if j \<in> k ` set xs then None else H j)"
  by (induction xs arbitrary: H) auto

lemma valid_log_releases:
  assumes "distinct (map k xs)" and "\<And>x. x \<in> set xs \<Longrightarrow> H (k x) = Some (h x)"
  shows "valid_log H (map (\<lambda>x. Release (k x) (h x)) xs)"
  using assms
proof (induction xs arbitrary: H)
  case (Cons a xs)
  have "(H(k a := None)) (k x) = Some (h x)" if "x \<in> set xs" for x
    using that Cons.prems(1) Cons.prems(2) [of x] by (auto simp: image_iff)
  with Cons show ?case by (simp del: fun_upd_apply)
qed simp

text \<open>While a key is not released by its holder, nobody else acquires it.\<close>

lemma held_until_release:
  "H k = Some h \<Longrightarrow> valid_log H es \<Longrightarrow> Release k h \<notin> set es \<Longrightarrow> after_log H es k = Some h"
proof (induction es arbitrary: H)
  case (Cons e es)
  show ?case
  proof (cases e)
    case (Acquire j h')
    with Cons.prems have "j \<noteq> k" by auto
    then have "(H(j \<mapsto> h')) k = Some h" using Cons.prems(1) by simp
    from Cons.IH [of "H(j \<mapsto> h')", OF this] Acquire Cons.prems show ?thesis by (simp del: fun_upd_apply)
  next
    case (Release j h')
    with Cons.prems have "j \<noteq> k" by auto
    then have "(H(j := None)) k = Some h" using Cons.prems(1) by simp
    from Cons.IH [of "H(j := None)", OF this] Release Cons.prems show ?thesis by (simp del: fun_upd_apply)
  qed
qed simp

lemma acquire_twice_released_between:
  assumes "valid_log H (xs @ Acquire k h # ys @ Acquire k h' # zs)"
  shows "Release k h \<in> set ys"
proof (rule ccontr)
  let ?H = "(after_log H xs)(k \<mapsto> h)"
  assume "Release k h \<notin> set ys"
  moreover from assms have "valid_log ?H ys" and "after_log ?H ys k = None"
    by (simp_all add: valid_log_append after_log_append del: fun_upd_apply)
  ultimately show False using held_until_release [of ?H k h ys] by simp
qed

inductive lts_run :: "('s \<Rightarrow> 'e list \<Rightarrow> 's \<Rightarrow> bool) \<Rightarrow> 's \<Rightarrow> 'e list \<Rightarrow> 's \<Rightarrow> bool" for step where
  stop: "lts_run step s [] s"
| more: "lts_run step s es t \<Longrightarrow> step t es' u \<Longrightarrow> lts_run step s (es @ es') u"

locale lease_system =
  fixes inv :: "'s \<Rightarrow> bool"
    and holder :: "'s \<Rightarrow> 'k \<rightharpoonup> 'h"
    and step :: "'s \<Rightarrow> ('k, 'h) lease_event list \<Rightarrow> 's \<Rightarrow> bool"
  assumes step_inv: "inv s \<Longrightarrow> step s es t \<Longrightarrow> inv t"
    and step_log: "inv s \<Longrightarrow> step s es t \<Longrightarrow> valid_log (holder s) es"
    and step_holder: "inv s \<Longrightarrow> step s es t \<Longrightarrow> holder t = after_log (holder s) es"
begin

lemma run_inv: "lts_run step s es t \<Longrightarrow> inv s \<Longrightarrow> inv t"
  by (induction rule: lts_run.induct) (auto intro: step_inv)

lemma run_holder: "lts_run step s es t \<Longrightarrow> inv s \<Longrightarrow> holder t = after_log (holder s) es"
proof (induction rule: lts_run.induct)
  case (stop s)
  then show ?case by simp
next
  case (more s es t es' u)
  then show ?case
    by (metis after_log_append run_inv step_holder)
qed

lemma run_log: "lts_run step s es t \<Longrightarrow> inv s \<Longrightarrow> valid_log (holder s) es"
proof (induction rule: lts_run.induct)
  case (stop s)
  then show ?case by simp
next
  case (more s es t es' u)
  then show ?case
    by (metis valid_log_append run_holder run_inv step_log)
qed

lemma run_exclusive:
  assumes "lts_run step s (xs @ Acquire k h # ys @ Acquire k h' # zs) t" and "inv s"
  shows "Release k h \<in> set ys"
  using acquire_twice_released_between [OF run_log [OF assms]] .

end

end
