(* ===== verification/Lease_Table.thy ===== *)
theory Lease_Table
  imports Lease
begin

text \<open>
  The abstract lease table the task registry implements: per task, either no lease or the
  run that holds it with its lock; per run, the task it belongs to and, while it is running,
  the lock it was started with. \<open>lease_rel\<close> ties the two together, and each abstract
  operation keeps it. Lists of views are kept in table order so that the concrete tables
  abstract to them by \<open>map\<close>.
\<close>

type_synonym task_view = "string \<times> (int option \<times> string option) option"
type_synonym run_view = "int \<times> string \<times> string option option"

definition lease_rel :: "task_view list \<Rightarrow> run_view list \<Rightarrow> int \<Rightarrow> bool" where
  "lease_rel tv rv seq \<longleftrightarrow>
     distinct (map fst tv) \<and> distinct (map fst rv) \<and>
     (\<forall>i k x. (i, k, x) \<in> set rv \<longrightarrow> i \<le> seq) \<and>
     (\<forall>k v. (k, Some v) \<in> set tv \<longrightarrow> (\<exists>i l. v = (Some i, Some l) \<and> (i, k, Some (Some l)) \<in> set rv)) \<and>
     (\<forall>i k l. (i, k, Some l) \<in> set rv \<longrightarrow> (\<exists>l'. (k, Some (Some i, l')) \<in> set tv))"

definition set_lease :: "string \<Rightarrow> (int option \<times> string option) option \<Rightarrow> task_view list \<Rightarrow> task_view list" where
  "set_lease k v tv = map (\<lambda>(k', x). if k' = k then (k', v) else (k', x)) tv"

definition clear_run :: "int \<Rightarrow> run_view list \<Rightarrow> run_view list" where
  "clear_run i rv = map (\<lambda>(i', k, x). if i' = i then (i', k, None) else (i', k, x)) rv"

definition view_holder :: "task_view list \<Rightarrow> string \<rightharpoonup> int \<times> string" where
  "view_holder tv k =
     (case map_of tv k of Some (Some (Some i, Some l)) \<Rightarrow> Some (i, l) | _ \<Rightarrow> None)"

lemma map_fst_set_lease [simp]: "map fst (set_lease k v tv) = map fst tv"
  by (auto simp: set_lease_def)

lemma map_fst_clear_run [simp]: "map fst (clear_run i rv) = map fst rv"
  by (auto simp: clear_run_def)

lemma set_lease_iff:
  "(k', x) \<in> set (set_lease k v tv) \<longleftrightarrow>
     (if k' = k then x = v \<and> k \<in> fst ` set tv else (k', x) \<in> set tv)"
  by (auto simp: set_lease_def image_iff split: if_splits) force+

lemma clear_run_iff:
  "(i', k, x) \<in> set (clear_run i rv) \<longleftrightarrow>
     (if i' = i then x = None \<and> (\<exists>y. (i, k, y) \<in> set rv) else (i', k, x) \<in> set rv)"
  by (auto simp: clear_run_def image_iff split: if_splits) force+

lemma map_of_set_lease:
  "map_of (set_lease k v tv) j =
     (if j = k then map_option (\<lambda>_. v) (map_of tv k) else map_of tv j)"
  by (induction tv) (auto simp: set_lease_def split: prod.splits)

lemma view_holder_set_lease:
  assumes "k \<in> fst ` set tv"
  shows "view_holder (set_lease k (Some (Some i, Some l)) tv) = (view_holder tv)(k \<mapsto> (i, l))"
    and "view_holder (set_lease k None tv) = (view_holder tv)(k := None)"
proof -
  from assms obtain x where "map_of tv k = Some x"
    by (metis domIff dom_map_of_conv_image_fst option.exhaust)
  then show "view_holder (set_lease k (Some (Some i, Some l)) tv) = (view_holder tv)(k \<mapsto> (i, l))"
    and "view_holder (set_lease k None tv) = (view_holder tv)(k := None)"
    by (simp_all add: view_holder_def map_of_set_lease fun_eq_iff)
qed

lemma lease_rel_distinctD:
  "lease_rel tv rv seq \<Longrightarrow> (k, x) \<in> set tv \<Longrightarrow> (k, y) \<in> set tv \<Longrightarrow> x = y"
  "lease_rel tv rv seq \<Longrightarrow> (i, a) \<in> set rv \<Longrightarrow> (i, b) \<in> set rv \<Longrightarrow> a = b"
  by (auto simp: lease_rel_def dest: eq_key_imp_eq_value)

lemma lease_rel_running_task:
  "lease_rel tv rv seq \<Longrightarrow> (k, Some v) \<in> set tv \<Longrightarrow>
     \<exists>i l. v = (Some i, Some l) \<and> (i, k, Some (Some l)) \<in> set rv"
  unfolding lease_rel_def by blast

lemma lease_rel_running_run:
  assumes "lease_rel tv rv seq" and "(i, k, Some x) \<in> set rv"
  shows "\<exists>l. x = Some l \<and> (k, Some (Some i, Some l)) \<in> set tv"
proof -
  from assms obtain l' where l': "(k, Some (Some i, l')) \<in> set tv"
    unfolding lease_rel_def by blast
  with assms(1) obtain l where l: "l' = Some l" "(i, k, Some (Some l)) \<in> set rv"
    using lease_rel_running_task by blast
  with assms have "x = Some l" using lease_rel_distinctD(2) by blast
  with l l' show ?thesis by blast
qed

lemma view_holder_eq:
  assumes "lease_rel tv rv seq"
  shows "view_holder tv k = Some (i, l) \<longleftrightarrow> (k, Some (Some i, Some l)) \<in> set tv"
proof -
  from assms have d: "distinct (map fst tv)" by (simp add: lease_rel_def)
  show ?thesis
    by (auto simp: view_holder_def simp flip: map_of_eq_Some_iff [OF d] split: option.splits)
qed

lemma view_holder_None: "lease_rel tv rv seq \<Longrightarrow> (k, None) \<in> set tv \<Longrightarrow> view_holder tv k = None"
  by (simp add: view_holder_def lease_rel_def)

subsection \<open>The abstract operations keep the relation\<close>

lemma lease_rel_claim:
  assumes rel: "lease_rel tv rv seq" and free: "(k, None) \<in> set tv"
  shows "lease_rel (set_lease k (Some (Some (seq + 1), Some l)) tv)
           (rv @ [(seq + 1, k, Some (Some l))]) (seq + 1)"
proof -
  have fresh: "seq + 1 \<notin> fst ` set rv"
    using rel by (force simp: lease_rel_def)
  have other: "k' \<noteq> k" if "(i, k', Some x) \<in> set rv" for i k' x
    using lease_rel_running_run [OF rel that] lease_rel_distinctD(1) [OF rel free] by auto
  have k: "k \<in> fst ` set tv" using free by force
  show ?thesis
    unfolding lease_rel_def
  proof (intro conjI allI impI)
    show "distinct (map fst (set_lease k (Some (Some (seq + 1), Some l)) tv))"
      using rel by (simp add: lease_rel_def)
    show "distinct (map fst (rv @ [(seq + 1, k, Some (Some l))]))"
      using rel fresh by (auto simp: lease_rel_def)
    show "i \<le> seq + 1" if "(i, k', x) \<in> set (rv @ [(seq + 1, k, Some (Some l))])" for i k' x
      using rel that by (force simp: lease_rel_def)
    show "\<exists>i l'. v = (Some i, Some l') \<and>
        (i, k', Some (Some l')) \<in> set (rv @ [(seq + 1, k, Some (Some l))])"
      if "(k', Some v) \<in> set (set_lease k (Some (Some (seq + 1), Some l)) tv)" for k' v
      using lease_rel_running_task [OF rel, of k' v] that by (auto simp: set_lease_iff split: if_splits)
    show "\<exists>l'. (k', Some (Some i, l')) \<in> set (set_lease k (Some (Some (seq + 1), Some l)) tv)"
      if "(i, k', Some x) \<in> set (rv @ [(seq + 1, k, Some (Some l))])" for i k' x
      using that k other lease_rel_running_run [OF rel, of i k' x] by (auto simp: set_lease_iff)
  qed
qed

lemma lease_rel_finish:
  assumes rel: "lease_rel tv rv seq" and held: "(k, Some (Some i, l)) \<in> set tv"
  shows "lease_rel (set_lease k None tv) (clear_run i rv) seq"
proof -
  obtain l0 where run: "(i, k, Some (Some l0)) \<in> set rv"
    using lease_rel_running_task [OF rel held] by auto
  have other: "i' \<noteq> i" if "(i', k', Some x) \<in> set rv" and "k' \<noteq> k" for i' k' x
    using that lease_rel_distinctD(2) [OF rel run] by auto
  have same: "i' = i" if "(i', k, Some x) \<in> set rv" for i' x
    using lease_rel_running_run [OF rel that] lease_rel_distinctD(1) [OF rel held] by auto
  show ?thesis
    unfolding lease_rel_def
  proof (intro conjI allI impI)
    show "distinct (map fst (set_lease k None tv))" "distinct (map fst (clear_run i rv))"
      using rel by (simp_all add: lease_rel_def)
    show "i' \<le> seq" if "(i', k', x) \<in> set (clear_run i rv)" for i' k' x
      using rel that by (auto simp: lease_rel_def clear_run_iff split: if_splits)
    show "\<exists>i' l'. v = (Some i', Some l') \<and> (i', k', Some (Some l')) \<in> set (clear_run i rv)"
      if "(k', Some v) \<in> set (set_lease k None tv)" for k' v
    proof -
      from that have "k' \<noteq> k" and "(k', Some v) \<in> set tv"
        by (auto simp: set_lease_iff split: if_splits)
      then show ?thesis
        using lease_rel_running_task [OF rel, of k' v] other by (auto simp: clear_run_iff)
    qed
    show "\<exists>l'. (k', Some (Some i', l')) \<in> set (set_lease k None tv)"
      if "(i', k', Some x) \<in> set (clear_run i rv)" for i' k' x
    proof -
      from that have "i' \<noteq> i" and r: "(i', k', Some x) \<in> set rv"
        by (auto simp: clear_run_iff split: if_splits)
      with same have "k' \<noteq> k" by blast
      with lease_rel_running_run [OF rel r] show ?thesis by (auto simp: set_lease_iff)
    qed
  qed
qed

lemma lease_rel_create:
  "lease_rel tv rv seq \<Longrightarrow> k \<notin> fst ` set tv \<Longrightarrow> lease_rel (tv @ [(k, None)]) rv seq"
  unfolding lease_rel_def by auto

lemma lease_rel_delete:
  assumes rel: "lease_rel tv rv seq"
  shows "lease_rel (filter (\<lambda>v. fst v \<noteq> k) tv) (filter (\<lambda>r. fst (snd r) \<noteq> k) rv) seq"
  using rel unfolding lease_rel_def
  by (auto simp: distinct_map_filter)

end
