(* ===== verification/Task_Safety.thy ===== *)
theory Task_Safety
  imports Task_Proposals Lease_Table
begin

text \<open>
  The task registry implements the lease contract of \<open>Lease\<close>. A database is abstracted to
  the views of \<open>Lease_Table\<close>; every operation is shown to act on the views as one of the
  abstract operations (or not at all); \<open>registry_step\<close> collects the operations of the
  registry as one labelled step relation, and \<open>lease_system\<close> is interpreted on it.
\<close>

section \<open>Abstraction\<close>

definition tview :: "Task \<Rightarrow> task_view" where
  "tview t = (t_id t, if t_status t = TaskStatus.RUNNING
                      then Some (t_current_run_id t, t_claim_lock t) else None)"

definition rview :: "TaskRun \<Rightarrow> run_view" where
  "rview r = (r_id r, r_task_id r,
              if r_status r = TaskRunStatus.RUNNING then Some (r_claim_lock r) else None)"

definition lease_inv :: "task_db \<Rightarrow> bool" where
  "lease_inv db \<longleftrightarrow> lease_rel (map tview (db_tasks db)) (map rview (db_task_runs db)) (db_run_seq db)"

definition leases :: "task_db \<Rightarrow> string \<rightharpoonup> int \<times> string" where
  "leases db = view_holder (map tview (db_tasks db))"

definition same_leases :: "task_db \<Rightarrow> task_db \<Rightarrow> bool" where
  "same_leases db db' \<longleftrightarrow> map tview (db_tasks db') = map tview (db_tasks db) \<and>
     map rview (db_task_runs db') = map rview (db_task_runs db) \<and> db_run_seq db' = db_run_seq db"

lemma fst_tview [simp]: "fst (tview t) = t_id t"
  by (simp add: tview_def)

lemma fst_rview [simp]: "fst (rview r) = r_id r" "fst (snd (rview r)) = r_task_id r"
  by (simp_all add: rview_def)

lemma fst_o_tview [simp]: "fst \<circ> tview = t_id" and fst_o_rview [simp]: "fst \<circ> rview = r_id"
  by (simp_all add: fun_eq_iff)

lemma tview_None: "t_status t \<noteq> TaskStatus.RUNNING \<Longrightarrow> tview t = (t_id t, None)"
  by (simp add: tview_def)

lemma tview_Some_iff: "tview t = (k, Some (i, l)) \<longleftrightarrow>
    t_id t = k \<and> t_status t = TaskStatus.RUNNING \<and> t_current_run_id t = i \<and> t_claim_lock t = l"
  by (auto simp: tview_def)

lemma rview_Some_iff: "rview r = (i, k, Some l) \<longleftrightarrow>
    r_id r = i \<and> r_task_id r = k \<and> r_status r = TaskRunStatus.RUNNING \<and> r_claim_lock r = l"
  by (auto simp: rview_def)

lemma lease_inv_keyed:
  "lease_inv db \<Longrightarrow> keyed t_id (db_tasks db)"
  "lease_inv db \<Longrightarrow> keyed r_id (db_task_runs db)"
  by (simp_all add: lease_inv_def lease_rel_def keyed_def)

lemma same_leases_refl [simp]: "same_leases db db"
  by (simp add: same_leases_def)

lemma same_leases_trans: "same_leases a b \<Longrightarrow> same_leases b c \<Longrightarrow> same_leases a c"
  by (simp add: same_leases_def)

lemma same_leases_inv: "same_leases db db' \<Longrightarrow> lease_inv db' = lease_inv db"
  by (simp add: same_leases_def lease_inv_def)

lemma same_leases_leases: "same_leases db db' \<Longrightarrow> leases db' = leases db"
  by (simp add: same_leases_def leases_def)

lemma insert_event_tables [simp]:
  "db_tasks (insert_event tid rid k p now db) = db_tasks db"
  "db_task_runs (insert_event tid rid k p now db) = db_task_runs db"
  "db_run_seq (insert_event tid rid k p now db) = db_run_seq db"
  "db_event_seq (insert_event tid rid k p now db) = db_event_seq db + 1"
  by (simp_all add: insert_event_def)

lemma same_leases_other_tables [simp]:
  "same_leases db (db\<lparr>db_task_comments := cs\<rparr>)"
  "same_leases db (db\<lparr>db_task_attachments := as\<rparr>)"
  "same_leases db (db\<lparr>db_task_notify_subs := ns\<rparr>)"
  by (simp_all add: same_leases_def)

lemma same_leases_insert_event [simp]:
  "same_leases db (insert_event tid rid k p now db') = same_leases db db'"
  by (simp add: same_leases_def)

section \<open>Updates seen through the views\<close>

lemma map_view_sql_update_id:
  assumes "\<And>r. r \<in> set rows \<Longrightarrow> P r \<Longrightarrow> v (f r) = v r"
  shows "map v (sql_update P f rows) = map v rows"
  using assms by (auto simp: sql_update_def)

lemma map_tview_sql_update:
  assumes "keyed t_id rows" and "t \<in> set rows" and "t_id t = k" and "Q t"
    and "\<And>t. t_id t = k \<Longrightarrow> tview (f t) = (k, v)"
  shows "map tview (sql_update (\<lambda>t. t_id t = k \<and> Q t) f rows) = set_lease k v (map tview rows)"
proof -
  have "map tview (sql_update (\<lambda>t. t_id t = k) f rows) = set_lease k v (map tview rows)"
    using assms(5) by (simp add: sql_update_def set_lease_def case_prod_unfold) (simp add: tview_def)
  then show ?thesis using sql_update_keyed [of t_id rows t k Q, OF assms(1-4)] by simp
qed

lemma map_rview_sql_update:
  assumes "\<And>r. rview (f r) = (r_id r, r_task_id r, None)"
  shows "map rview (sql_update (\<lambda>r. r_id r = i) f rows) = clear_run i (map rview rows)"
proof -
  have "r_id (f r) = r_id r \<and> r_task_id (f r) = r_task_id r \<and> r_status (f r) \<noteq> TaskRunStatus.RUNNING" for r
    using assms [of r] by (simp add: rview_def split: if_splits)
  then show ?thesis by (simp add: sql_update_def clear_run_def rview_def)
qed

lemma fetchone_tview:
  assumes "fetchone P (db_tasks db) = Some t"
  shows "tview t \<in> set (map tview (db_tasks db))" and "P t"
  using fetchone_SomeD [OF assms] by auto

lemma reread_update:
  assumes "t \<in> set rows" and "\<And>r. key (f r) = key r"
  shows "\<exists>u. reread (\<lambda>r. key r = key t) (sql_update P f rows) = Inr u"
proof -
  let ?u = "if P t then f t else t"
  have "?u \<in> set (sql_update P f rows)" and "key ?u = key t"
    using assms by (auto simp: set_sql_update)
  then have "fetchone (\<lambda>r. key r = key t) (sql_update P f rows) \<noteq> None"
    unfolding fetchone_None_iff by blast
  then show ?thesis by (auto simp: reread_def)
qed

section \<open>Claim\<close>

lemma claimable_queued: "claimable now t \<Longrightarrow> t_status t = TaskStatus.QUEUED"
  by (simp add: claimable_def)

lemma claimed_row_view:
  "tview (claimed_row now w l s i t) = (t_id t, Some (Some i, Some l))"
  by (simp add: claimed_row_def tview_def)

lemma new_run_view:
  "rview (new_run now w l s i t) = (i, t_id t, Some (Some l))"
  by (simp add: new_run_def rview_def)

lemma r_id_new_run [simp]: "r_id (new_run now w l s i t) = i"
  by (simp add: new_run_def)

lemma claim_None:
  "claim_task_sync now w tid l s db = (db', Inr None) \<Longrightarrow> db' = db"
  by (auto simp: claim_task_sync_def Let_def split: option.splits sum.splits)

lemma claim_views:
  assumes inv: "lease_inv db"
    and task: "fetchone (\<lambda>t. t_id t = tid \<and> claimable now t) (db_tasks db) = Some task"
  obtains db' cr where "claim_task_sync now w tid l s db = (db', Inr (Some cr))"
    "r_id (cr_run cr) = db_run_seq db + 1"
    "map tview (db_tasks db') =
       set_lease tid (Some (Some (db_run_seq db + 1), Some l)) (map tview (db_tasks db))"
    "map rview (db_task_runs db') =
       map rview (db_task_runs db) @ [(db_run_seq db + 1, tid, Some (Some l))]"
    "db_run_seq db' = db_run_seq db + 1"
proof -
  let ?i = "db_run_seq db + 1"
  from fetchone_SomeD [OF task] have t: "task \<in> set (db_tasks db)" "t_id task = tid" by auto
  let ?upd = "sql_update (\<lambda>t. t_id t = tid \<and> t_version t = t_version task) (claimed_row now w l s ?i)"
  have "map tview (?upd (db_tasks db)) = set_lease tid (Some (Some ?i, Some l)) (map tview (db_tasks db))"
    by (rule map_tview_sql_update) (use t lease_inv_keyed(1) [OF inv] in \<open>auto simp: claimed_row_view\<close>)
  moreover obtain t' where "reread (\<lambda>t. t_id t = tid) (?upd (db_tasks db)) = Inr t'"
    using reread_update [OF t(1), of t_id "claimed_row now w l s ?i"] t(2)
    by (auto simp: claimed_row_def)
  moreover obtain r where r: "reread (\<lambda>r. r_id r = ?i) (db_task_runs db @ [new_run now w l s ?i task]) = Inr r"
    "r_id r = ?i"
  proof -
    have "fetchone (\<lambda>r. r_id r = ?i) (db_task_runs db @ [new_run now w l s ?i task]) \<noteq> None"
      by (simp add: fetchone_None_iff)
    then obtain r where "fetchone (\<lambda>r. r_id r = ?i) (db_task_runs db @ [new_run now w l s ?i task]) = Some r"
      by blast
    with fetchone_SomeD [OF this] show thesis by (intro that) (auto simp: reread_def)
  qed
  ultimately show thesis
    by (intro that [of "insert_event tid (Some ?i) ''claimed'' [(''claim_lock'', JStr l)] now
          (db\<lparr>db_run_seq := ?i, db_task_runs := db_task_runs db @ [new_run now w l s ?i task],
              db_tasks := ?upd (db_tasks db)\<rparr>)" "\<lparr>cr_task = t', cr_run = r\<rparr>"])
       (simp_all add: claim_task_sync_def task Let_def new_run_view t)
qed

section \<open>Run finalization\<close>

lemma outcome_to_run_status_not_running [simp]:
  "outcome_to_run_status oc \<noteq> TaskRunStatus.RUNNING"
  by (cases oc) auto

lemma outcome_to_task_status_not_running [simp]:
  "outcome_to_task_status oc n m \<noteq> TaskStatus.RUNNING"
  by (auto simp: outcome_to_task_status_def)

lemma finished_run_view: "rview (finished_run now oc sm md err r) = (r_id r, r_task_id r, None)"
  by (simp add: finished_run_def rview_def)

lemma finished_row_keys:
  "t_id (finished_row now oc sm err st n t) = t_id t"
  "t_status (finished_row now oc sm err st n t) = st"
  by (simp_all add: finished_row_def Let_def)

lemma finished_row_view:
  "st \<noteq> TaskStatus.RUNNING \<Longrightarrow> tview (finished_row now oc sm err st n t) = (t_id t, None)"
  by (simp add: tview_None finished_row_keys)

text \<open>A run that is running and whose task carries its lock: the finish goes through.\<close>

lemma finalize_holder:
  assumes inv: "lease_inv db"
    and run: "fetchone (\<lambda>r. r_id r = rid \<and> r_task_id r = tid) (db_task_runs db) = Some r"
    and running: "r_status r = TaskRunStatus.RUNNING"
    and task: "fetchone (holds_claim tid lock rid) (db_tasks db) = Some task"
  shows "leases db tid = Some (rid, lock)" and "(tid, Some (Some rid, Some lock)) \<in> set (map tview (db_tasks db))"
proof -
  let ?tv = "map tview (db_tasks db)" and ?rv = "map rview (db_task_runs db)"
  have rel: "lease_rel ?tv ?rv (db_run_seq db)" using inv by (simp add: lease_inv_def)
  from fetchone_SomeD [OF run] running have "(rid, tid, Some (r_claim_lock r)) \<in> set ?rv"
    by (force simp: rview_def)
  then obtain l where l: "(tid, Some (Some rid, Some l)) \<in> set ?tv"
    using lease_rel_running_run [OF rel] by blast
  from fetchone_tview [OF task]
  have "tview task \<in> set ?tv" "t_id task = tid" "t_claim_lock task = Some lock"
    "t_current_run_id task = Some rid"
    by (auto simp: holds_claim_def)
  with lease_rel_distinctD(1) [OF rel l, of "snd (tview task)"] have "tview task = (tid, Some (Some rid, Some l))"
    by (metis fst_tview prod.collapse)
  with \<open>t_claim_lock task = Some lock\<close> l
  show held: "(tid, Some (Some rid, Some lock)) \<in> set ?tv" by (simp add: tview_Some_iff)
  show "leases db tid = Some (rid, lock)" using held view_holder_eq [OF rel] by (simp add: leases_def)
qed

lemma finalize_views:
  assumes inv: "lease_inv db" and target: "target \<noteq> Some TaskStatus.RUNNING"
    and fin: "finalize_run now tid rid lock oc sm md err rec target db = (db', Inr res)"
  shows "leases db tid = Some (rid, lock)"
    and "map tview (db_tasks db') = set_lease tid None (map tview (db_tasks db))"
    and "map rview (db_task_runs db') = clear_run rid (map rview (db_task_runs db))"
    and "db_run_seq db' = db_run_seq db"
proof -
  from fin obtain r task where
    run: "fetchone (\<lambda>r. r_id r = rid \<and> r_task_id r = tid) (db_task_runs db) = Some r"
    "r_status r = TaskRunStatus.RUNNING"
    and task: "fetchone (holds_claim tid lock rid) (db_tasks db) = Some task"
    by (auto simp: finalize_run_def split: option.splits if_splits)
  show "leases db tid = Some (rid, lock)" by (rule finalize_holder(1) [OF inv run task])
  from fetchone_SomeD [OF task] have t: "task \<in> set (db_tasks db)" "t_id task = tid"
    by (auto simp: holds_claim_def)
  let ?n = "if increment_failures oc then t_consecutive_failures task + 1 else t_consecutive_failures task"
  let ?st = "case target of Some s \<Rightarrow> s | None \<Rightarrow> outcome_to_task_status oc ?n (t_max_retries task)"
  have tasks: "db_tasks db' = sql_update (\<lambda>t. t_id t = tid \<and> t_version t = t_version task)
      (finished_row now oc sm err ?st ?n) (db_tasks db)"
    and runs: "db_task_runs db' = sql_update (\<lambda>r. r_id r = rid)
      (finished_run now oc sm md err) (db_task_runs db)"
    and seq: "db_run_seq db' = db_run_seq db"
    using fin by (auto simp: finalize_run_def run task Let_def split: sum.splits)
  have "?st \<noteq> TaskStatus.RUNNING" using target by (auto split: option.splits)
  then show "map tview (db_tasks db') = set_lease tid None (map tview (db_tasks db))"
    unfolding tasks
    by (intro map_tview_sql_update) (use t lease_inv_keyed(1) [OF inv] in \<open>auto simp: finished_row_view\<close>)
  show "map rview (db_task_runs db') = clear_run rid (map rview (db_task_runs db))"
    unfolding runs by (rule map_rview_sql_update) (rule finished_run_view)
  show "db_run_seq db' = db_run_seq db" by (rule seq)
qed

text \<open>A finish that raises changes at most the audit trail.\<close>

lemma finalize_reread:
  assumes "fetchone (\<lambda>r. r_id r = rid \<and> r_task_id r = tid) (db_task_runs db) = Some r"
    and "fetchone (holds_claim tid lock rid) (db_tasks db) = Some task"
    and "r_status r = TaskRunStatus.RUNNING"
  shows "\<exists>res. snd (finalize_run now tid rid lock oc sm md err rec target db) = Inr res"
proof -
  from fetchone_SomeD [OF assms(1)] fetchone_SomeD [OF assms(2)]
  have r: "r \<in> set (db_task_runs db)" "r_id r = rid" and t: "task \<in> set (db_tasks db)" "t_id task = tid"
    by (auto simp: holds_claim_def)
  have 1: "\<exists>u. reread (\<lambda>t. t_id t = tid) (sql_update P (finished_row now oc sm err st n) (db_tasks db)) = Inr u" for P st n
    using reread_update [OF t(1), of t_id "finished_row now oc sm err st n" P] t(2)
    by (simp add: finished_row_keys)
  have 2: "\<exists>u. reread (\<lambda>r. r_id r = rid) (sql_update P (finished_run now oc sm md err) (db_task_runs db)) = Inr u" for P
    using reread_update [OF r(1), of r_id "finished_run now oc sm md err" P] r(2)
    by (simp add: finished_run_def)
  have 3: "\<exists>u. reread (\<lambda>e. e_id e = db_event_seq (insert_event a b c p now d))
      (db_task_events (insert_event a b c p now d)) = Inr u" for a b c p d
    by (auto simp: reread_def insert_event_def fetchone_append fetchone_Cons split: option.splits)
  have case3: "\<exists>res. snd (case (x, y, z) of (Inr t, Inr r, Inr e) \<Rightarrow> (d, Inr (f t r e)) | _ \<Rightarrow> (d, Inl PyTypeError)) = Inr res"
    if "\<exists>u. x = Inr u" "\<exists>u. y = Inr u" "\<exists>u. z = Inr u" for x y z d f
    using that by auto
  show ?thesis
    by (simp only: finalize_run_def assms Let_def option.case simp_thms if_False,
        rule case3) (use 1 in simp, use 2 in simp, rule 3)
qed

lemma finalize_error:
  assumes "finalize_run now tid rid lock oc sm md err rec target db = (db', Inl e)"
  shows "db_tasks db' = db_tasks db \<and> db_task_runs db' = db_task_runs db \<and> same_leases db db'"
proof (cases "fetchone (\<lambda>r. r_id r = rid \<and> r_task_id r = tid) (db_task_runs db)")
  case None
  with assms show ?thesis by (simp add: finalize_run_def)
next
  case (Some r)
  show ?thesis
  proof (cases "r_status r = TaskRunStatus.RUNNING \<and> fetchone (holds_claim tid lock rid) (db_tasks db) \<noteq> None")
    case True
    then show ?thesis
      using assms finalize_reread [OF Some, of lock _ now oc sm md err rec target] by auto
  next
    case False
    with Some assms show ?thesis
      by (auto simp: finalize_run_def split: if_splits option.splits)
  qed
qed

section \<open>The operations that leave the leases alone\<close>

lemma record_heartbeat_same_leases:
  "record_heartbeat_sync tid rid lock now db = (db', res) \<Longrightarrow> same_leases db db'"
  by (auto simp: record_heartbeat_sync_def Let_def same_leases_def tview_def rview_def
      intro!: map_view_sql_update_id split: option.splits sum.splits)

lemma resolve_proposal_same_leases:
  "resolve_proposal_sync now cmd db = (db', res) \<Longrightarrow> same_leases db db'"
  by (auto simp: resolve_proposal_sync_def Let_def same_leases_def tview_def
      intro!: map_view_sql_update_id split: option.splits sum.splits if_splits)

text \<open>
  What \<open>TaskService\<close> and the routes let through to \<open>update_task\<close>: never the status
  \<open>RUNNING\<close>, and no status or lease column of a running task.
\<close>

fun lease_column :: "task_field \<Rightarrow> bool" where
  "lease_column (F_status _) = True"
| "lease_column (F_claim_lock _) = True"
| "lease_column (F_current_run_id _) = True"
| "lease_column _ = False"

definition update_guard :: "task_field list \<Rightarrow> Task \<Rightarrow> bool" where
  "update_guard flds t \<longleftrightarrow> F_status TaskStatus.RUNNING \<notin> set flds \<and>
     (t_status t = TaskStatus.RUNNING \<longrightarrow> \<not> list_ex lease_column flds)"

definition guarded :: "string \<Rightarrow> task_field list \<Rightarrow> task_db \<Rightarrow> bool" where
  "guarded tid flds db \<longleftrightarrow> list_all (\<lambda>t. t_id t = tid \<longrightarrow> update_guard flds t) (db_tasks db)"

lemma apply_field_status:
  "f \<noteq> F_status TaskStatus.RUNNING \<Longrightarrow> t_status t \<noteq> TaskStatus.RUNNING \<Longrightarrow>
     t_status (apply_field f t) \<noteq> TaskStatus.RUNNING"
  by (cases f) simp_all

lemma apply_field_tview: "\<not> lease_column f \<Longrightarrow> tview (apply_field f t) = tview t"
  by (cases f) (simp_all add: tview_def)

lemma apply_field_id [simp]: "t_id (apply_field f t) = t_id t"
  by (cases f) simp_all

lemma fold_apply_status:
  "F_status TaskStatus.RUNNING \<notin> set flds \<Longrightarrow> t_status t \<noteq> TaskStatus.RUNNING \<Longrightarrow>
     t_status (fold apply_field flds t) \<noteq> TaskStatus.RUNNING"
proof (induction flds arbitrary: t)
  case (Cons f fs)
  then have "t_status (apply_field f t) \<noteq> TaskStatus.RUNNING" by (intro apply_field_status) auto
  with Cons.IH Cons.prems(1) show ?case by simp
qed simp

lemma fold_apply_tview:
  "\<not> list_ex lease_column flds \<Longrightarrow> tview (fold apply_field flds t) = tview t"
  by (induction flds arbitrary: t) (auto simp: apply_field_tview)

lemma fold_apply_id [simp]: "t_id (fold apply_field flds t) = t_id t"
  by (induction flds arbitrary: t) auto

lemma build_update_clause_id [simp]: "t_id (build_update_clause now flds t) = t_id t"
  by (simp add: build_update_clause_def)

lemma build_update_clause_tview:
  assumes "update_guard flds t"
  shows "tview (build_update_clause now flds t) = tview t"
proof -
  let ?fs = "filter (\<lambda>f. \<not> immutable_field f) flds"
  have *: "tview (build_update_clause now flds t) = tview (fold apply_field ?fs t)"
    by (simp add: build_update_clause_def tview_def)
  show ?thesis
  proof (cases "t_status t = TaskStatus.RUNNING")
    case True
    with assms have "\<not> list_ex lease_column ?fs" by (auto simp: update_guard_def list_ex_iff)
    with * show ?thesis by (simp add: fold_apply_tview)
  next
    case False
    with assms have "t_status (fold apply_field ?fs t) \<noteq> TaskStatus.RUNNING"
      by (intro fold_apply_status) (auto simp: update_guard_def)
    with False * show ?thesis by (simp add: tview_None)
  qed
qed

lemma guarded_iff: "guarded tid flds db \<longleftrightarrow>
    F_status TaskStatus.RUNNING \<notin> set flds \<and> (\<forall>v. (tid, Some v) \<in> set (map tview (db_tasks db)) \<longrightarrow>
      \<not> list_ex lease_column flds) \<or> tid \<notin> t_id ` set (db_tasks db)"
  by (force simp: guarded_def update_guard_def list_all_iff tview_def image_iff)

lemma update_row_same_leases:
  assumes "update_row now tid flds v db = Inr db'" and "guarded tid flds db"
  shows "same_leases db db'"
  using assms
  by (auto simp: update_row_def same_leases_def guarded_def list_all_iff
      intro!: map_view_sql_update_id build_update_clause_tview split: option.splits if_splits)

lemma update_task_same_leases:
  "update_task_sync now tid flds v db = (db', res) \<Longrightarrow> guarded tid flds db \<Longrightarrow> same_leases db db'"
  by (auto simp: update_task_sync_def dest: update_row_same_leases split: sum.splits)

lemma same_leases_guarded:
  assumes "same_leases db db'"
  shows "guarded tid flds db' = guarded tid flds db"
proof -
  have "map fst (map tview (db_tasks db')) = map fst (map tview (db_tasks db))"
    using assms by (simp add: same_leases_def)
  then have "t_id ` set (db_tasks db') = t_id ` set (db_tasks db)"
    by (metis fst_o_tview list.map_comp set_map)
  moreover have "map tview (db_tasks db') = map tview (db_tasks db)"
    using assms by (simp add: same_leases_def)
  ultimately show ?thesis unfolding guarded_iff by metis
qed

lemma bulk_rows_same_leases:
  "bulk_rows now items db = Inr db' \<Longrightarrow>
     \<forall>i\<in>set items. guarded (bu_task_id i) (bu_fields i) db \<Longrightarrow> same_leases db db'"
proof (induction items arbitrary: db)
  case Nil
  then show ?case by simp
next
  case (Cons i items)
  then obtain db1 where db1: "update_row now (bu_task_id i) (bu_fields i) (bu_expected_version i) db = Inr db1"
    "bulk_rows now items db1 = Inr db'"
    by (auto split: sum.splits)
  with Cons.prems have same: "same_leases db db1" by (auto intro: update_row_same_leases)
  with Cons.IH [OF db1(2)] Cons.prems(2) show ?case
    by (auto simp: same_leases_guarded intro: same_leases_trans)
qed

lemma bulk_update_same_leases:
  "bulk_update_sync now items db = (db', res) \<Longrightarrow>
     \<forall>i\<in>set items. guarded (bu_task_id i) (bu_fields i) db \<Longrightarrow> same_leases db db'"
  by (auto simp: bulk_update_sync_def dest: bulk_rows_same_leases split: sum.splits)

section \<open>Creation and deletion\<close>

lemma create_views:
  assumes "create_task_sync now task db = (db', Inr t)" and "t_status task \<noteq> TaskStatus.RUNNING"
  shows "map tview (db_tasks db') = map tview (db_tasks db) @ [(t_id task, None)]"
    and "t_id task \<notin> t_id ` set (db_tasks db)"
    and "db_task_runs db' = db_task_runs db" and "db_run_seq db' = db_run_seq db"
  using assms by (auto simp: create_task_sync_def Let_def tview_def split: if_splits)

lemma create_error: "create_task_sync now task db = (db', Inl e) \<Longrightarrow> db' = db"
  by (auto simp: create_task_sync_def Let_def split: if_splits)

lemma delete_views:
  assumes inv: "lease_inv db" and del: "delete_task_sync now tid db = (db', b)"
  shows "map tview (db_tasks db') = filter (\<lambda>v. fst v \<noteq> tid) (map tview (db_tasks db))"
    and "map rview (db_task_runs db') = (if tid \<in> t_id ` set (db_tasks db)
           then filter (\<lambda>r. fst (snd r) \<noteq> tid) (map rview (db_task_runs db))
           else map rview (db_task_runs db))"
    and "db_run_seq db' = db_run_seq db"
proof -
  have rc: "0 < rowcount (\<lambda>t. t_id t = tid) (db_tasks db) \<longleftrightarrow> tid \<in> t_id ` set (db_tasks db)"
    by (auto simp: rowcount_def filter_empty_conv)
  from del show "map tview (db_tasks db') = filter (\<lambda>v. fst v \<noteq> tid) (map tview (db_tasks db))"
    by (auto simp: delete_task_sync_def Let_def sql_delete_def filter_map o_def)
  from del rc show "map rview (db_task_runs db') = (if tid \<in> t_id ` set (db_tasks db)
           then filter (\<lambda>r. fst (snd r) \<noteq> tid) (map rview (db_task_runs db))
           else map rview (db_task_runs db))"
    by (auto simp: delete_task_sync_def Let_def sql_delete_def filter_map o_def)
  from del show "db_run_seq db' = db_run_seq db" by (auto simp: delete_task_sync_def Let_def)
qed

lemma view_holder_delete:
  "view_holder (filter (\<lambda>v. fst v \<noteq> k) tv) = (view_holder tv)(k := None)"
proof -
  have "map_of (filter (\<lambda>v. fst v \<noteq> k) tv) j = (if j = k then None else map_of tv j)" for j
    by (induction tv) auto
  then show ?thesis by (simp add: view_holder_def fun_eq_iff)
qed

section \<open>The registry as a labelled step relation\<close>

text \<open>
  One rule per transaction of the registry; any number of processes may interleave them. The
  label is what the transaction does to the leases. The side conditions exclude what would override a lease: a
  task is not created \<open>RUNNING\<close>, an update respects \<open>guarded\<close>, and a finish does not target \<open>RUNNING\<close>. The
  transactions without these conditions follow below, in \<open>registry_txn\<close>.
\<close>

inductive registry_step :: "task_db \<Rightarrow> (string, int \<times> string) lease_event list \<Rightarrow> task_db \<Rightarrow> bool" where
  claim_won: "claim_task_sync now w tid lock secs db = (db', Inr (Some cr)) \<Longrightarrow>
    registry_step db [Acquire tid (r_id (cr_run cr), lock)] db'"
| claim_lost: "claim_task_sync now w tid lock secs db = (db', Inr None) \<Longrightarrow> registry_step db [] db'"
| claim_error: "claim_task_sync now w tid lock secs db = (db', Inl e) \<Longrightarrow> registry_step db [] db'"
| heartbeat: "record_heartbeat_sync tid rid lock now db = (db', res) \<Longrightarrow> registry_step db [] db'"
| finish_ok: "finalize_run now tid rid lock oc sm md err rec target db = (db', Inr fr) \<Longrightarrow>
    target \<noteq> Some TaskStatus.RUNNING \<Longrightarrow> registry_step db [Release tid (rid, lock)] db'"
| finish_error: "finalize_run now tid rid lock oc sm md err rec target db = (db', Inl e) \<Longrightarrow>
    registry_step db [] db'"
| resolve: "resolve_proposal_sync now cmd db = (db', pres) \<Longrightarrow> registry_step db [] db'"
| create: "create_task_sync now task db = (db', tres) \<Longrightarrow> t_status task \<noteq> TaskStatus.RUNNING \<Longrightarrow>
    registry_step db [] db'"
| update: "update_task_sync now tid flds v db = (db', ures) \<Longrightarrow> guarded tid flds db \<Longrightarrow>
    registry_step db [] db'"
| bulk: "bulk_update_sync now items db = (db', bres) \<Longrightarrow>
    \<forall>i\<in>set items. guarded (bu_task_id i) (bu_fields i) db \<Longrightarrow> registry_step db [] db'"
| event: "append_event_sync now tid kind payload orid db = (db', eres) \<Longrightarrow> registry_step db [] db'"
| comment: "add_comment_sync now cid tid author body db = (db', cres) \<Longrightarrow> registry_step db [] db'"
| attach: "add_attachment_sync now aid spec db = (db', ares) \<Longrightarrow> registry_step db [] db'"
| detach: "delete_attachment_sync aid db = (db', b) \<Longrightarrow> registry_step db [] db'"
| subscribe: "subscribe_notify_sync now tid pf chat th db = (db', sres) \<Longrightarrow> registry_step db [] db'"
| unsubscribe: "unsubscribe_notify_sync tid pf chat th db = (db', b) \<Longrightarrow> registry_step db [] db'"
| watermark: "update_notify_sub_last_event_sync now tid pf chat th i db = (db', b) \<Longrightarrow>
    registry_step db [] db'"
| delete: "delete_task_sync now tid db = (db', b) \<Longrightarrow>
    registry_step db (case leases db tid of None \<Rightarrow> [] | Some h \<Rightarrow> [Release tid h]) db'"

lemma side_same_leases:
  "append_event_sync now tid kind payload orid db = (db', eres) \<Longrightarrow> same_leases db db'"
  "add_comment_sync now cid tid author body db = (db', cres) \<Longrightarrow> same_leases db db'"
  "add_attachment_sync now aid spec db = (db', ares) \<Longrightarrow> same_leases db db'"
  "delete_attachment_sync aid db = (db', b) \<Longrightarrow> same_leases db db'"
  "subscribe_notify_sync now tid pf chat th db = (db', sres) \<Longrightarrow> same_leases db db'"
  "unsubscribe_notify_sync tid pf chat th db = (db', b) \<Longrightarrow> same_leases db db'"
  "update_notify_sub_last_event_sync now tid pf chat th i db = (db', b) \<Longrightarrow> same_leases db db'"
  by (auto simp: append_event_sync_def add_comment_sync_def add_attachment_sync_def
      delete_attachment_sync_def subscribe_notify_sync_def unsubscribe_notify_sync_def
      update_notify_sub_last_event_sync_def Let_def split: if_splits sum.splits)

lemma finalize_error_same_leases:
  "finalize_run now tid rid lock oc sm md err rec target db = (db', Inl e) \<Longrightarrow> same_leases db db'"
  by (simp add: finalize_error)

lemmas same_leases_ops = side_same_leases record_heartbeat_same_leases finalize_error_same_leases
  resolve_proposal_same_leases update_task_same_leases bulk_update_same_leases

definition lease_effect :: "task_db \<Rightarrow> (string, int \<times> string) lease_event list \<Rightarrow> task_db \<Rightarrow> bool" where
  "lease_effect db es db' \<longleftrightarrow> lease_inv db' \<and> valid_log (leases db) es \<and> leases db' = after_log (leases db) es"

lemma lease_effect_same: "lease_inv db \<Longrightarrow> same_leases db db' \<Longrightarrow> lease_effect db [] db'"
  by (simp add: lease_effect_def same_leases_inv same_leases_leases)

lemma lease_rel_of: "lease_inv db \<Longrightarrow>
    lease_rel (map tview (db_tasks db)) (map rview (db_task_runs db)) (db_run_seq db)"
  by (simp add: lease_inv_def)

lemma claim_effect:
  assumes inv: "lease_inv db" and cl: "claim_task_sync now w tid lock secs db = (db', Inr (Some cr))"
  shows "lease_effect db [Acquire tid (r_id (cr_run cr), lock)] db'"
proof -
  from cl obtain task where task: "fetchone (\<lambda>t. t_id t = tid \<and> claimable now t) (db_tasks db) = Some task"
    by (auto simp: claim_task_sync_def split: option.splits)
  then have free: "(tid, None) \<in> set (map tview (db_tasks db))"
    using fetchone_tview [OF task] claimable_queued [of now task] by (simp add: tview_None)
  from claim_views [OF inv task, of w lock secs] cl
  have v: "r_id (cr_run cr) = db_run_seq db + 1"
    "map tview (db_tasks db') = set_lease tid (Some (Some (db_run_seq db + 1), Some lock)) (map tview (db_tasks db))"
    "map rview (db_task_runs db') = map rview (db_task_runs db) @ [(db_run_seq db + 1, tid, Some (Some lock))]"
    "db_run_seq db' = db_run_seq db + 1"
    by auto
  have k: "tid \<in> fst ` set (map tview (db_tasks db))" using imageI [OF free, of fst] by (simp del: set_map)
  show ?thesis
    unfolding lease_effect_def lease_inv_def leases_def v
    using lease_rel_claim [OF lease_rel_of [OF inv] free] view_holder_None [OF lease_rel_of [OF inv] free]
      view_holder_set_lease(1) [OF k]
    by (simp del: set_map)
qed

lemma finish_effect:
  assumes inv: "lease_inv db" and target: "target \<noteq> Some TaskStatus.RUNNING"
    and fin: "finalize_run now tid rid lock oc sm md err rec target db = (db', Inr fr)"
  shows "lease_effect db [Release tid (rid, lock)] db'"
proof -
  note v = finalize_views [OF inv target fin]
  have held: "(tid, Some (Some rid, Some lock)) \<in> set (map tview (db_tasks db))"
    using v(1) view_holder_eq [OF lease_rel_of [OF inv]] by (simp add: leases_def del: set_map)
  have k: "tid \<in> fst ` set (map tview (db_tasks db))" using imageI [OF held, of fst] by (simp del: set_map)
  show ?thesis
    using lease_rel_finish [OF lease_rel_of [OF inv] held] view_holder_set_lease(2) [OF k] v
    by (simp add: lease_effect_def lease_inv_def leases_def del: set_map)
qed

lemma create_effect:
  assumes "lease_inv db" and "create_task_sync now task db = (db', res)"
    and "t_status task \<noteq> TaskStatus.RUNNING"
  shows "lease_effect db [] db'"
proof (cases res)
  case (Inl e)
  with assms show ?thesis using create_error [of now task db db' e] by (simp add: lease_effect_same)
next
  case (Inr t)
  note v = create_views [OF assms(2) [unfolded Inr] assms(3)]
  have fresh: "t_id task \<notin> fst ` set (map tview (db_tasks db))"
    using v(2) by (simp add: image_image)
  then have "map_of (map tview (db_tasks db)) (t_id task) = None"
    by (simp add: map_of_eq_None_iff)
  then have "view_holder (map tview (db_tasks db) @ [(t_id task, None)]) = view_holder (map tview (db_tasks db))"
    by (auto simp: view_holder_def fun_eq_iff map_add_def split: option.splits)
  then show ?thesis
    using lease_rel_create [OF lease_rel_of [OF assms(1)] fresh] v
    by (simp add: lease_effect_def lease_inv_def leases_def)
qed

lemma delete_effect:
  assumes inv: "lease_inv db" and del: "delete_task_sync now tid db = (db', b)"
  shows "lease_effect db (case leases db tid of None \<Rightarrow> [] | Some h \<Rightarrow> [Release tid h]) db'"
proof -
  note v = delete_views [OF inv del] and rel = lease_rel_of [OF inv]
  have "lease_inv db'"
  proof (cases "tid \<in> t_id ` set (db_tasks db)")
    case True
    with v lease_rel_delete [OF rel, of tid] show ?thesis by (simp add: lease_inv_def)
  next
    case False
    then have "filter (\<lambda>v. fst v \<noteq> tid) (map tview (db_tasks db)) = map tview (db_tasks db)"
      by (auto simp: filter_id_conv)
    with False v rel show ?thesis by (simp add: lease_inv_def)
  qed
  moreover have "leases db' = (leases db)(tid := None)"
    using v(1) view_holder_delete by (simp add: leases_def)
  ultimately show ?thesis
    by (auto simp: lease_effect_def split: option.splits)
qed

lemma registry_step_effect:
  assumes "registry_step db es db'" and "lease_inv db"
  shows "lease_effect db es db'"
  using assms
proof (induction rule: registry_step.induct)
  case (claim_won now w tid lock secs db db' cr)
  then show ?case by (simp add: claim_effect)
next
  case (claim_lost now w tid lock secs db db')
  then show ?case using claim_None [OF claim_lost.hyps] by (simp add: lease_effect_same)
next
  case (claim_error now w tid lock secs db db' e)
  then show ?case
    using claim_views [of db tid now _ w lock secs]
    by (cases "fetchone (\<lambda>t. t_id t = tid \<and> claimable now t) (db_tasks db)")
       (fastforce simp: claim_task_sync_def)+
next
  case (finish_ok now tid rid lock oc sm md err rec target db db' fr)
  then show ?case by (simp add: finish_effect)
next
  case (create now task db db' tres)
  then show ?case by (simp add: create_effect)
next
  case (delete now tid db db' b)
  then show ?case by (simp add: delete_effect)
qed (auto intro: lease_effect_same same_leases_ops)

interpretation tl: lease_system lease_inv leases registry_step
  by unfold_locales (simp_all add: registry_step_effect [unfolded lease_effect_def])

section \<open>All transactions\<close>

text \<open>
  The registry itself checks none of the side conditions of \<open>registry_step\<close>: it executes every update whose version fits. The
  services write the status of a running task past its lease in two places, when the run service is absent or has failed:
  \<open>propose_change\<close> and \<open>cancel_task\<close> of \<open>app/application/task_service.py\<close>. Such a transaction is labelled as an override of the
  tasks that it names, unless it was refused and changed nothing.
\<close>

datatype txn_event = Leased "(string, int \<times> string) lease_event" | Override string

inductive registry_txn :: "task_db \<Rightarrow> txn_event list \<Rightarrow> task_db \<Rightarrow> bool" where
  regular: "registry_step db es db' \<Longrightarrow> registry_txn db (map Leased es) db'"
| override: "update_task_sync now tid flds v db = (db', ures) \<Longrightarrow> \<not> guarded tid flds db \<Longrightarrow>
    registry_txn db (if db' = db then [] else [Override tid]) db'"
| override_bulk: "bulk_update_sync now items db = (db', bres) \<Longrightarrow>
    \<not> (\<forall>i\<in>set items. guarded (bu_task_id i) (bu_fields i) db) \<Longrightarrow>
    registry_txn db (if db' = db then [] else map (\<lambda>i. Override (bu_task_id i)) items) db'"
| create_running: "create_task_sync now task db = (db', tres) \<Longrightarrow> t_status task = TaskStatus.RUNNING \<Longrightarrow>
    registry_txn db (if db' = db then [] else [Override (t_id task)]) db'"
| finish_running: "finalize_run now tid rid lock oc sm md err rec (Some TaskStatus.RUNNING) db = (db', Inr fr) \<Longrightarrow>
    registry_txn db [Override tid] db'"

text \<open>Up to the first override, the transactions are steps under the contract.\<close>

fun leased_prefix :: "txn_event list \<Rightarrow> (string, int \<times> string) lease_event list" where
  "leased_prefix (Leased e # es) = e # leased_prefix es"
| "leased_prefix _ = []"

definition overridden :: "txn_event list \<Rightarrow> bool" where
  "overridden es \<longleftrightarrow> (\<exists>tid. Override tid \<in> set es)"

lemma overridden_simps [simp]:
  "\<not> overridden []" "overridden (Override tid # es)" "overridden (Leased e # es) = overridden es"
  "overridden (xs @ ys) \<longleftrightarrow> overridden xs \<or> overridden ys" "\<not> overridden (map Leased ls)"
  by (auto simp: overridden_def)

lemma leased_prefix_append:
  "leased_prefix (xs @ ys) = (if overridden xs then leased_prefix xs else leased_prefix xs @ leased_prefix ys)"
  by (induction xs rule: leased_prefix.induct) auto

lemma leased_prefix_map [simp]: "leased_prefix (map Leased es) = es"
  by (induction es) simp_all

lemma leased_prefix_set: "\<not> overridden es \<Longrightarrow> e \<in> set (leased_prefix es) \<longleftrightarrow> Leased e \<in> set es"
  by (induction es rule: leased_prefix.induct) auto

lemma registry_txn_cases:
  assumes "registry_txn db es db'"
  obtains ls where "es = map Leased ls" "registry_step db ls db'"
  | "es = []" "db' = db"
  | tid es' where "es = Override tid # es'"
  using assms
proof cases
  case (override_bulk now items bres)
  then obtain i rest where "items = i # rest" by (cases items) auto
  with override_bulk(1) that(2,3) show ?thesis by (cases "db' = db") auto
qed (use that in \<open>auto split: if_splits\<close>)

lemma registry_txn_run:
  assumes "lts_run registry_txn a es b"
  shows "\<exists>c. lts_run registry_step a (leased_prefix es) c \<and> (\<not> overridden es \<longrightarrow> c = b)"
  using assms
proof (induction rule: lts_run.induct)
  case (stop s)
  show ?case using lts_run.stop by auto
next
  case (more s es t es' u)
  then obtain c where c: "lts_run registry_step s (leased_prefix es) c" "\<not> overridden es \<longrightarrow> c = t" by blast
  show ?case
  proof (cases "overridden es")
    case True
    with c show ?thesis by (auto simp: leased_prefix_append)
  next
    case False
    with c have run: "lts_run registry_step s (leased_prefix es) t" by simp
    from more(2) show ?thesis
    proof (cases rule: registry_txn_cases)
      case (1 ls)
      from lts_run.more [OF run 1(2)] 1(1) False show ?thesis by (auto simp: leased_prefix_append)
    qed (use run False in \<open>auto simp: leased_prefix_append\<close>)
  qed
qed

lemma txn_more: "lts_run registry_txn a es b \<Longrightarrow> registry_txn b es' c \<Longrightarrow> lts_run registry_txn a (es @ es') c"
  by (rule lts_run.more)

lemma registry_run_txn: "lts_run registry_step a es b \<Longrightarrow> lts_run registry_txn a (map Leased es) b"
proof (induction rule: lts_run.induct)
  case (stop s)
  show ?case by (simp add: lts_run.stop)
next
  case (more s es t es' u)
  from lts_run.more [OF more.IH regular [OF more.hyps(2)]] show ?case by simp
qed

end
