(* ===== verification/Task_Theorems.thy ===== *)
theory Task_Theorems
  imports Task_Safety
begin

text \<open>
  The properties of the task aggregate and of its registry, each with a witness on a small
  database: \<open>demo_db\<close> holds one queued task, \<open>claimed_db\<close> the same task claimed by a worker,
  \<open>finished_db\<close> after the worker's run failed and was re-queued.
\<close>

section \<open>The aggregate\<close>

text \<open>
  a task that succeeded or was cancelled keeps that status under every sequence of the
  aggregate's guarded operations, raising ones included.
\<close>

theorem task_terminal_absorbing:
  "task_terminal (t_status t) \<Longrightarrow> t_status (run_ops apply_task_op ops t) = t_status t"
  by (rule tm.run_terminal)

theorem task_terminal_absorbing_witness:
  "t_status (run_ops apply_task_op [OpRetry, OpClaim 1 ''l'' 9 3] (Task_complete ''ok'' 5 (Task_new ''t'' ''x'')))
     = TaskStatus.SUCCEEDED"
  using task_terminal_absorbing [of "Task_complete ''ok'' 5 (Task_new ''t'' ''x'')"
      "[OpRetry, OpClaim 1 ''l'' 9 3]"]
  by (simp add: task_terminal_def Task_complete_def)

text \<open>
  C19: the guards written in the operations are exactly the transition table: an operation
  succeeds if and only if the table has the transition it performs (for \<open>retry\<close> and the
  approvals, the transition to \<open>QUEUED\<close> from their own source statuses).
\<close>

theorem task_guards_match_table:
  "((\<exists>u. Task_claim rid lock expires now t = Inr u) \<longleftrightarrow> can_transition_to t TaskStatus.RUNNING) \<and>
   ((\<exists>u. Task_cancel now t = Inr u) \<longleftrightarrow> can_transition_to t TaskStatus.CANCELLED) \<and>
   ((\<exists>u. propose_change t = Inr u) \<longleftrightarrow> can_transition_to t TaskStatus.WAITING_APPROVAL) \<and>
   ((\<exists>u. Task_retry t = Inr u) \<or> (\<exists>u. resolve_approval b t = Inr u) \<longleftrightarrow>
     can_transition_to t TaskStatus.QUEUED \<and> t_status t \<noteq> TaskStatus.RUNNING)"
  by (cases "t_status t"; simp add: lifecycle_simps can_transition_to_def)

definition lifecycle_action :: "string \<Rightarrow> datetime \<Rightarrow> Task \<Rightarrow> task_error + Task" where
  "lifecycle_action a now t =
     (if a = ''approve'' then resolve_approval True t
      else if a = ''reject'' then resolve_approval False t
      else if a = ''revise'' then Task_revise t
      else if a = ''cancel'' then Task_cancel now t
      else if a = ''retry'' then Task_retry t
      else Inl TaskValidationError)"

text \<open>
  every action offered to the user for a status is accepted by the aggregate in that
  status: what the task card shows never raises.
\<close>

theorem offered_actions_succeed:
  "a \<in> set (available_lifecycle_actions (t_status t) itype) \<Longrightarrow>
     \<exists>u. lifecycle_action a now t = Inr u \<and> t_status u \<in> TASK_TRANSITION_TABLE (t_status t)"
  by (cases "t_status t")
     (auto simp: available_lifecycle_actions_def lifecycle_action_def lifecycle_simps split: if_splits)

theorem offered_actions_succeed_witness:
  "\<exists>u. lifecycle_action ''retry'' 7 ((Task_new ''t'' ''x'')\<lparr>t_status := TaskStatus.EXPIRED\<rparr>) = Inr u \<and>
     t_status u \<in> TASK_TRANSITION_TABLE TaskStatus.EXPIRED"
  using offered_actions_succeed [of "''retry''" "(Task_new ''t'' ''x'')\<lparr>t_status := TaskStatus.EXPIRED\<rparr>" None 7]
  by (simp add: available_lifecycle_actions_def)

text \<open>
  the circuit breaker. Re-queueing a running task after one more failure is denied
  exactly when the aggregate itself would give up, and denied means that the only
  remaining automatic target is a real transition of the table.
\<close>

theorem breaker_matches_should_give_up:
  assumes "t_status t = TaskStatus.RUNNING"
  shows "TaskPolicy_evaluate \<lparr>tp_current = t_status t, tp_target = TaskStatus.QUEUED,
           tp_consecutive_failures = t_consecutive_failures (record_failure err t),
           tp_max_retries = t_max_retries (record_failure err t)\<rparr> =
         (if should_give_up (record_failure err t) then DENY else ALLOW) \<and>
         TaskPolicy_evaluate \<lparr>tp_current = t_status t, tp_target = TaskStatus.FAILED,
           tp_consecutive_failures = n, tp_max_retries = m\<rparr> = ALLOW"
  using assms by (simp add: TaskPolicy_evaluate_def should_give_up_def record_failure_def)

theorem breaker_matches_should_give_up_witness:
  "TaskPolicy_evaluate \<lparr>tp_current = TaskStatus.RUNNING, tp_target = TaskStatus.QUEUED,
     tp_consecutive_failures = 1, tp_max_retries = 0\<rparr> = DENY"
  using breaker_matches_should_give_up [of "(Task_new ''t'' ''x'')\<lparr>t_status := TaskStatus.RUNNING\<rparr>" "''e''"]
  by (simp add: should_give_up_def record_failure_def Task_new_def)

section \<open>Demonstration databases\<close>

definition demo_db :: task_db where
  "demo_db = fst (create_task_sync 10 (Task_new ''t1'' ''demo'') empty_task_db)"

definition claimed_db :: task_db where
  "claimed_db = fst (claim_task_sync 20 ''w1'' ''t1'' ''lock1'' 900 demo_db)"

definition finished_db :: task_db where
  "finished_db = fst (finalize_run 30 ''t1'' 1 ''lock1'' TaskRunOutcome.FAILED (Some ''boom'')
     (JObj []) None False (Some TaskStatus.QUEUED) claimed_db)"

definition reclaimed_db :: task_db where
  "reclaimed_db = fst (claim_task_sync 40 ''w2'' ''t1'' ''lock2'' 900 finished_db)"

text \<open>Equations for the demonstration rows, evaluated once.\<close>

lemma demo_claim:
  "\<exists>cr. claim_task_sync 20 ''w1'' ''t1'' ''lock1'' 900 demo_db = (claimed_db, Inr (Some cr)) \<and> r_id (cr_run cr) = 1"
proof -
  have "case snd (claim_task_sync 20 ''w1'' ''t1'' ''lock1'' 900 demo_db) of
      Inr (Some cr) \<Rightarrow> r_id (cr_run cr) = 1 | _ \<Rightarrow> False" by code_simp
  then show ?thesis by (simp add: claimed_db_def prod_eq_iff split: sum.splits option.splits)
qed

lemma demo_finish:
  "\<exists>fr. finalize_run 30 ''t1'' 1 ''lock1'' TaskRunOutcome.FAILED (Some ''boom'') (JObj []) None False
     (Some TaskStatus.QUEUED) claimed_db = (finished_db, Inr fr)"
proof -
  have "case snd (finalize_run 30 ''t1'' 1 ''lock1'' TaskRunOutcome.FAILED (Some ''boom'') (JObj []) None False
     (Some TaskStatus.QUEUED) claimed_db) of Inr fr \<Rightarrow> True | Inl _ \<Rightarrow> False" by code_simp
  then show ?thesis by (simp add: finished_db_def prod_eq_iff split: sum.splits)
qed

lemma demo_reclaim:
  "\<exists>cr. claim_task_sync 40 ''w2'' ''t1'' ''lock2'' 900 finished_db = (reclaimed_db, Inr (Some cr)) \<and> r_id (cr_run cr) = 2"
proof -
  have "case snd (claim_task_sync 40 ''w2'' ''t1'' ''lock2'' 900 finished_db) of
      Inr (Some cr) \<Rightarrow> r_id (cr_run cr) = 2 | _ \<Rightarrow> False" by code_simp
  then show ?thesis by (simp add: reclaimed_db_def prod_eq_iff split: sum.splits option.splits)
qed

lemma lease_inv_empty: "lease_inv empty_task_db"
  by (simp add: lease_inv_def empty_task_db_def lease_rel_def)

lemma registry_more:
  "lts_run registry_step a es b \<Longrightarrow> registry_step b es' c \<Longrightarrow> lts_run registry_step a (es @ es') c"
  by (rule lts_run.more)

lemma demo_created: "lts_run registry_step empty_task_db [] demo_db"
proof -
  have "registry_step empty_task_db [] demo_db"
    unfolding demo_db_def
    by (rule create [of 10 "Task_new ''t1'' ''demo''" _ _ "snd (create_task_sync 10 (Task_new ''t1'' ''demo'') empty_task_db)"])
       (simp_all add: Task_new_def)
  from registry_more [OF lts_run.stop this] show ?thesis by simp
qed

lemma demo_claimed: "lts_run registry_step empty_task_db [Acquire ''t1'' (1, ''lock1'')] claimed_db"
  using registry_more [OF demo_created] demo_claim claim_won by fastforce



section \<open>Leases\<close>




text \<open>
  One override is enough: a run whose task is moved on past its lease (here to \<open>WAITING_APPROVAL\<close>, as \<open>propose_change\<close> does
  when the run service fails, and then back to the queue) still counts as running when the next worker claims the task.
\<close>

definition overridden_db :: task_db where
  "overridden_db = fst (update_task_sync 25 ''t1'' [F_status TaskStatus.WAITING_APPROVAL] 2 claimed_db)"

definition requeued_db :: task_db where
  "requeued_db = fst (update_task_sync 26 ''t1'' [F_status TaskStatus.QUEUED] 3 overridden_db)"

definition doubled_db :: task_db where
  "doubled_db = fst (claim_task_sync 2000000000 ''w2'' ''t1'' ''lock2'' 900 requeued_db)"

lemma override_two_runs:
  "\<exists>es. lts_run registry_txn empty_task_db es doubled_db \<and>
     map (\<lambda>r. (r_task_id r, r_status r)) (db_task_runs doubled_db) = replicate 2 (''t1'', TaskRunStatus.RUNNING)"
proof -
  have start: "lts_run registry_txn empty_task_db [Leased (Acquire ''t1'' (1, ''lock1''))] claimed_db"
    using registry_run_txn [OF demo_claimed] by simp
  have unguarded: "\<not> guarded ''t1'' [F_status TaskStatus.WAITING_APPROVAL] claimed_db" by code_simp
  have "registry_txn claimed_db (if overridden_db = claimed_db then [] else [Override ''t1'']) overridden_db"
    by (rule override [OF _ unguarded, of 25 2 _ "snd (update_task_sync 25 ''t1'' [F_status TaskStatus.WAITING_APPROVAL] 2 claimed_db)"])
       (simp add: overridden_db_def)
  note first = txn_more [OF start this]
  have "guarded ''t1'' [F_status TaskStatus.QUEUED] overridden_db" by code_simp
  then have "registry_step overridden_db [] requeued_db"
    by (intro update [of 26 "''t1''" "[F_status TaskStatus.QUEUED]" 3 _ _ "snd (update_task_sync 26 ''t1'' [F_status TaskStatus.QUEUED] 3 overridden_db)"])
       (simp_all add: requeued_db_def)
  note second = txn_more [OF first regular [OF this]]
  obtain cr where cr: "claim_task_sync 2000000000 ''w2'' ''t1'' ''lock2'' 900 requeued_db = (doubled_db, Inr (Some cr))"
  proof -
    have "case snd (claim_task_sync 2000000000 ''w2'' ''t1'' ''lock2'' 900 requeued_db) of Inr (Some cr) \<Rightarrow> True | _ \<Rightarrow> False" by code_simp
    then show thesis using that by (simp add: doubled_db_def prod_eq_iff split: sum.splits option.splits)
  qed
  have "registry_txn requeued_db (map Leased [Acquire ''t1'' (r_id (cr_run cr), ''lock2'')]) doubled_db"
    by (rule regular, rule claim_won, rule cr)
  note third = txn_more [OF second this]
  have "\<exists>es. lts_run registry_txn empty_task_db es doubled_db" by (rule exI, rule third)
  moreover have "map (\<lambda>r. (r_task_id r, r_status r)) (db_task_runs doubled_db) = replicate 2 (''t1'', TaskRunStatus.RUNNING)" by code_simp
  ultimately show ?thesis by blast
qed


lemma running_task_run:
  assumes "lease_inv db" and "t \<in> set (db_tasks db)" and "t_status t = TaskStatus.RUNNING"
  shows "\<exists>r\<in>set (db_task_runs db). r_task_id r = t_id t \<and> r_status r = TaskRunStatus.RUNNING \<and>
           t_current_run_id t = Some (r_id r)"
proof -
  have "(t_id t, Some (t_current_run_id t, t_claim_lock t)) \<in> set (map tview (db_tasks db))"
    using assms(2,3) by (force simp: tview_def)
  then obtain i l where "t_current_run_id t = Some i" "(i, t_id t, Some (Some l)) \<in> set (map rview (db_task_runs db))"
    using lease_rel_running_task [OF lease_rel_of [OF assms(1)]] by blast
  then show ?thesis by (auto simp: rview_Some_iff dest!: sym [of _ "rview _"])
qed




lemma leased_not_claimable:
  assumes "lease_inv db" and "leases db tid = Some h"
  shows "claim_task_sync now w tid lock secs db = (db, Inr None)"
proof -
  obtain i l where "h = (i, l)" by (cases h)
  then have "(tid, Some (Some i, Some l)) \<in> set (map tview (db_tasks db))"
    using view_holder_eq [OF lease_rel_of [OF assms(1)], of tid i l] assms(2)
    by (simp add: leases_def del: set_map)
  then obtain t where t: "t \<in> set (db_tasks db)" "t_id t = tid" "t_status t = TaskStatus.RUNNING"
    by (auto simp: tview_Some_iff dest!: sym [of _ "tview _"])
  have "\<not> (t_id u = tid \<and> claimable now u)" if "u \<in> set (db_tasks db)" for u
    using keyed_eqD [OF lease_inv_keyed(1) [OF assms(1)] that t(1)] t(2,3) by (auto simp: claimable_def)
  then have "fetchone (\<lambda>t. t_id t = tid \<and> claimable now t) (db_tasks db) = None"
    by (simp add: fetchone_None_iff)
  then show ?thesis by (simp add: claim_task_sync_def)
qed

text \<open>
  a lease holds until it is released. While no transaction releases the lease of a run,
  whatever else is committed, no worker can claim the task (at any clock value, with any
  token, lock and lease), and the attempt changes nothing.
\<close>

theorem lease_blocks_other_workers:
  assumes reach: "lts_run registry_step empty_task_db es0 db"
    and held: "leases db tid = Some h"
    and run: "lts_run registry_step db es db'" and kept: "Release tid h \<notin> set es"
  shows "claim_task_sync now w tid lock secs db' = (db', Inr None)"
proof -
  have inv: "lease_inv db" by (rule tl.run_inv [OF reach lease_inv_empty])
  have "leases db' tid = Some h"
    using held_until_release [OF held tl.run_log [OF run inv] kept] tl.run_holder [OF run inv] by simp
  with tl.run_inv [OF run inv] show ?thesis by (rule leased_not_claimable)
qed

theorem lease_blocks_other_workers_witness:
  "claim_task_sync 21 ''w2'' ''t1'' ''lock2'' 900 claimed_db = (claimed_db, Inr None)"
proof (rule lease_blocks_other_workers [OF demo_claimed _ lts_run.stop])
  show "leases claimed_db ''t1'' = Some (1, ''lock1'')"
    using tl.run_holder [OF demo_claimed lease_inv_empty] by simp
qed simp

section \<open>Finalization\<close>

definition run_ended :: "int \<Rightarrow> task_db \<Rightarrow> bool" where
  "run_ended rid db \<longleftrightarrow> rid \<le> db_run_seq db \<and>
     (\<forall>k x. (rid, k, Some x) \<notin> set (map rview (db_task_runs db)))"

lemma same_leases_run_ended: "same_leases db db' \<Longrightarrow> run_ended rid db' = run_ended rid db"
  by (simp add: run_ended_def same_leases_def del: set_map)

lemma run_ended_clear:
  assumes "run_ended rid db" and "map rview (db_task_runs db') = clear_run i (map rview (db_task_runs db))"
    and "db_run_seq db' = db_run_seq db"
  shows "run_ended rid db'"
  using assms by (auto simp: run_ended_def clear_run_iff simp del: set_map)

lemma claim_run_ended:
  assumes inv: "lease_inv db" and cl: "claim_task_sync now w tid lock secs db = (db', res)"
    and "run_ended rid db"
  shows "run_ended rid db'"
proof (cases "fetchone (\<lambda>t. t_id t = tid \<and> claimable now t) (db_tasks db)")
  case None
  with cl have "db' = db" by (simp add: claim_task_sync_def)
  with assms(3) show ?thesis by simp
next
  case (Some task)
  from claim_views [OF inv Some, of w lock secs] cl
  have "map rview (db_task_runs db') = map rview (db_task_runs db) @ [(db_run_seq db + 1, tid, Some (Some lock))]"
    "db_run_seq db' = db_run_seq db + 1" by auto
  with assms(3) show ?thesis by (auto simp: run_ended_def simp del: set_map)
qed

lemma delete_run_ended:
  assumes "lease_inv db" and "delete_task_sync now tid db = (db', b)" and "run_ended rid db"
  shows "run_ended rid db'"
  using delete_views [OF assms(1,2)] assms(3)
  by (auto simp: run_ended_def simp del: set_map split: if_splits)

lemma step_run_ended:
  assumes "registry_step db es db'" and "lease_inv db" and "run_ended rid db"
  shows "run_ended rid db'"
  using assms
proof (induction rule: registry_step.induct)
  case (finish_ok now tid rid' lock oc sm md err rec target db db' fr)
  then show ?case
    using finalize_views(3,4) [OF finish_ok.prems(1) finish_ok.hyps(2,1)] run_ended_clear by blast
next
  case (create now task db db' tres)
  then show ?case
    by (cases tres) (auto simp: run_ended_def create_views(3,4) dest: create_error)
qed (auto intro: claim_run_ended delete_run_ended same_leases_ops [THEN same_leases_run_ended, THEN iffD2])

lemma run_run_ended:
  "lts_run registry_step db es db' \<Longrightarrow> lease_inv db \<Longrightarrow> run_ended rid db \<Longrightarrow> run_ended rid db'"
  by (induction rule: lts_run.induct) (blast intro: step_run_ended tl.run_inv)+

lemma finish_run_ended:
  assumes inv: "lease_inv db" and target: "target \<noteq> Some TaskStatus.RUNNING"
    and fin: "finalize_run now tid rid lock oc sm md err rec target db = (db', Inr fr)"
  shows "run_ended rid db'"
proof -
  note v = finalize_views [OF inv target fin]
  have "(tid, Some (Some rid, Some lock)) \<in> set (map tview (db_tasks db))"
    using v(1) view_holder_eq [OF lease_rel_of [OF inv]] by (simp add: leases_def del: set_map)
  then have "\<exists>x. (rid, tid, x) \<in> set (map rview (db_task_runs db))"
    using lease_rel_running_task [OF lease_rel_of [OF inv]] by blast
  then have "rid \<le> db_run_seq db" using inv unfolding lease_inv_def lease_rel_def by blast
  with v show ?thesis by (simp add: run_ended_def clear_run_iff del: set_map)
qed

lemma run_ended_finalize:
  assumes "run_ended rid db"
  shows "\<exists>db' e. finalize_run now tid rid lock oc sm md err rec target db = (db', Inl e) \<and>
     e \<in> {TaskConflictError, TaskNotFoundError}"
proof -
  have "r_status r \<noteq> TaskRunStatus.RUNNING"
    if "fetchone (\<lambda>r. r_id r = rid \<and> r_task_id r = tid) (db_task_runs db) = Some r" for r
    using fetchone_SomeD [OF that] assms by (force simp: run_ended_def rview_def)
  then show ?thesis by (auto simp: finalize_run_def split: option.splits)
qed

text \<open>
  C7: a run is finished at most once. After a successful finish, in every continuation of the
  registry, any further finish or recovery of the same run (by the same or another lock)
  raises and leaves the task and run tables as they are.
\<close>

theorem finish_at_most_once:
  assumes reach: "lts_run registry_step empty_task_db es0 db"
    and fin: "finalize_run now tid rid lock oc sm md err rec target db = (db1, Inr fr)"
    and target: "target \<noteq> Some TaskStatus.RUNNING"
    and run: "lts_run registry_step db1 es db2"
  shows "\<exists>db3 e. finalize_run now' tid' rid lock' oc' sm' md' err' rec' target' db2 = (db3, Inl e) \<and>
     e \<in> {TaskConflictError, TaskNotFoundError} \<and>
     db_tasks db3 = db_tasks db2 \<and> db_task_runs db3 = db_task_runs db2"
proof -
  have inv: "lease_inv db" by (rule tl.run_inv [OF reach lease_inv_empty])
  have inv1: "lease_inv db1"
    using finish_effect [OF inv target fin] by (simp add: lease_effect_def)
  have "run_ended rid db2"
    using run_run_ended [OF run inv1 finish_run_ended [OF inv target fin]] .
  then show ?thesis using run_ended_finalize finalize_error by meson
qed

theorem finish_at_most_once_witness:
  "\<exists>db3 e. finalize_run 50 ''t1'' 1 ''lock1'' TaskRunOutcome.COMPLETED None (JObj []) None True None reclaimed_db
     = (db3, Inl e) \<and> db_tasks db3 = db_tasks reclaimed_db"
proof -
  obtain fr where fr: "finalize_run 30 ''t1'' 1 ''lock1'' TaskRunOutcome.FAILED (Some ''boom'') (JObj []) None False
     (Some TaskStatus.QUEUED) claimed_db = (finished_db, Inr fr)" using demo_finish by blast
  have "lts_run registry_step finished_db [Acquire ''t1'' (2, ''lock2'')] reclaimed_db"
    using registry_more [OF lts_run.stop] demo_reclaim claim_won by fastforce
  from finish_at_most_once [OF demo_claimed fr _ this] show ?thesis by blast
qed

end
