(* ===== verification/Task_History.thy ===== *)
theory Task_History
  imports Task_Theorems
begin

text \<open>
  The history the registry keeps: event identifiers, row versions, proposals and their
  decisions; and the queries and deletion.
\<close>

section \<open>Claim and finish, functionally\<close>

lemma reread_Inr: "fetchone P rows = Some t \<longleftrightarrow> reread P rows = Inr t"
  by (auto simp: reread_def split: option.splits)

lemma reread_key_update:
  assumes "keyed key rows" and "t \<in> set rows" and "P t" and "\<And>r. key (f r) = key r"
  shows "reread (\<lambda>r. key r = key t) (sql_update P f rows) = Inr (f t)"
  using assms keyed_fetchone [OF assms(1,2)] by (simp add: reread_def fetchone_key_sql_update)

lemma reread_append_fresh:
  "key r \<notin> key ` set rows \<Longrightarrow> reread (\<lambda>x. key x = key r) (rows @ [r]) = Inr r"
  by (auto simp: reread_def fetchone_append fetchone_Cons fetchone_None_iff split: option.splits
      dest!: fetchone_SomeD) (metis imageI)

text \<open>
  C8: a claim of a due, unarchived, queued task whose lease (if any) has run out succeeds, and
  the row it returns is \<open>RUNNING\<close> under the caller's lock until \<open>now + lease\<close>, with the fresh
  run as its current run, one version later; the run row belongs to the task. Any other
  claim returns \<open>None\<close> and changes nothing.
\<close>

theorem claim_result:
  assumes inv: "lease_inv db"
  shows "(\<forall>t. get_task_sync tid db = Some t \<and> claimable now t \<longrightarrow>
            (\<exists>db'. claim_task_sync now w tid lock secs db =
              (db', Inr (Some \<lparr>cr_task = claimed_row now w lock secs (db_run_seq db + 1) t,
                              cr_run = new_run now w lock secs (db_run_seq db + 1) t\<rparr>)) \<and>
             get_task_sync tid db' = Some (claimed_row now w lock secs (db_run_seq db + 1) t))) \<and>
         ((\<forall>t. get_task_sync tid db = Some t \<longrightarrow> \<not> claimable now t) \<longrightarrow>
            claim_task_sync now w tid lock secs db = (db, Inr None))"
proof (intro conjI allI impI)
  fix t assume t: "get_task_sync tid db = Some t \<and> claimable now t"
  let ?i = "db_run_seq db + 1"
  have k: "keyed t_id (db_tasks db)" by (rule lease_inv_keyed(1) [OF inv])
  have f: "fetchone (\<lambda>t. t_id t = tid \<and> claimable now t) (db_tasks db) = Some t"
    using t keyed_fetchone_conj [OF k] by (simp add: get_task_sync_def)
  from fetchone_SomeD [OF f] have in_t: "t \<in> set (db_tasks db)" and id: "t_id t = tid" by auto
  have task: "reread (\<lambda>x. t_id x = tid) (sql_update (\<lambda>x. t_id x = tid \<and> t_version x = t_version t)
      (claimed_row now w lock secs ?i) (db_tasks db)) = Inr (claimed_row now w lock secs ?i t)"
    using reread_key_update [OF k in_t, of "\<lambda>x. t_id x = tid \<and> t_version x = t_version t"
        "claimed_row now w lock secs ?i"] id by (simp add: claimed_row_def)
  have "?i \<notin> r_id ` set (db_task_runs db)"
    using inv by (fastforce simp: lease_inv_def lease_rel_def rview_def)
  then have run: "reread (\<lambda>r. r_id r = ?i) (db_task_runs db @ [new_run now w lock secs ?i t]) =
      Inr (new_run now w lock secs ?i t)"
    using reread_append_fresh [of r_id "new_run now w lock secs ?i t"] by simp
  show "\<exists>db'. claim_task_sync now w tid lock secs db =
      (db', Inr (Some \<lparr>cr_task = claimed_row now w lock secs ?i t, cr_run = new_run now w lock secs ?i t\<rparr>)) \<and>
      get_task_sync tid db' = Some (claimed_row now w lock secs ?i t)"
    using task run by (auto simp: claim_task_sync_def f Let_def get_task_sync_def reread_def split: option.splits)
next
  assume none: "\<forall>t. get_task_sync tid db = Some t \<longrightarrow> \<not> claimable now t"
  have "\<not> (t_id t = tid \<and> claimable now t)" if "t \<in> set (db_tasks db)" for t
    using keyed_fetchone [OF lease_inv_keyed(1) [OF inv] that] none by (auto simp: get_task_sync_def)
  then have "fetchone (\<lambda>t. t_id t = tid \<and> claimable now t) (db_tasks db) = None"
    by (simp add: fetchone_None_iff)
  then show "claim_task_sync now w tid lock secs db = (db, Inr None)" by (simp add: claim_task_sync_def)
qed

theorem claim_result_witness:
  "\<exists>db'. claim_task_sync 20 ''w'' ''t1'' ''k'' 60 demo_db =
     (db', Inr (Some \<lparr>cr_task = claimed_row 20 ''w'' ''k'' 60 1 (hd (db_tasks demo_db)),
                     cr_run = new_run 20 ''w'' ''k'' 60 1 (hd (db_tasks demo_db))\<rparr>))"
proof -
  have "get_task_sync ''t1'' demo_db = Some (hd (db_tasks demo_db))" "claimable 20 (hd (db_tasks demo_db))"
    "db_run_seq demo_db = 0" by code_simp+
  with claim_result [OF tl.run_inv [OF demo_created lease_inv_empty], of "''t1''" 20 "''w''" "''k''" 60]
  show ?thesis by auto
qed

lemma lease_holder_rows:
  assumes inv: "lease_inv db" and held: "leases db tid = Some (rid, lock)"
    and t: "get_task_sync tid db = Some t"
  shows "fetchone (holds_claim tid lock rid) (db_tasks db) = Some t"
    and "\<exists>r. r \<in> set (db_task_runs db) \<and> r_id r = rid \<and> r_status r = TaskRunStatus.RUNNING \<and>
           fetchone (\<lambda>r. r_id r = rid \<and> r_task_id r = tid) (db_task_runs db) = Some r"
proof -
  note rel = lease_rel_of [OF inv] and k = lease_inv_keyed [OF inv]
  have tv: "(tid, Some (Some rid, Some lock)) \<in> set (map tview (db_tasks db))"
    using held view_holder_eq [OF rel] by (simp add: leases_def del: set_map)
  from t have "t \<in> set (db_tasks db)" and "t_id t = tid"
    by (auto simp: get_task_sync_def dest: fetchone_SomeD)
  then have "tview t = (tid, Some (Some rid, Some lock))"
    using lease_rel_distinctD(1) [OF rel tv, of "snd (tview t)"] by (metis fst_tview imageI prod.collapse set_map)
  then show "fetchone (holds_claim tid lock rid) (db_tasks db) = Some t"
    using keyed_fetchone_conj [OF k(1) t [unfolded get_task_sync_def]]
    by (simp add: holds_claim_def [abs_def] tview_Some_iff)
  obtain l where "(rid, tid, Some (Some l)) \<in> set (map rview (db_task_runs db))"
    using lease_rel_running_task [OF rel tv] by auto
  then obtain r where r: "r \<in> set (db_task_runs db)" "r_id r = rid" "r_task_id r = tid" "r_status r = TaskRunStatus.RUNNING"
    by (auto simp: rview_Some_iff dest!: sym [of _ "rview _"])
  then show "\<exists>r. r \<in> set (db_task_runs db) \<and> r_id r = rid \<and> r_status r = TaskRunStatus.RUNNING \<and>
           fetchone (\<lambda>r. r_id r = rid \<and> r_task_id r = tid) (db_task_runs db) = Some r"
    using keyed_fetchone_conj [OF k(2) keyed_fetchone [OF k(2) r(1)], of "\<lambda>r. r_task_id r = tid"] by auto
qed

text \<open>What the finish by the lease holder writes.\<close>

lemma finish_by_holder:
  assumes inv: "lease_inv db" and held: "leases db tid = Some (rid, lock)"
    and t: "get_task_sync tid db = Some t"
    and n: "n = t_consecutive_failures t + (if increment_failures oc then 1 else 0)"
    and st: "st = (case target of Some s \<Rightarrow> s | None \<Rightarrow> outcome_to_task_status oc n (t_max_retries t))"
  obtains db' fr r where
    "finalize_run now tid rid lock oc sm md err rec target db = (db', Inr fr)"
    "get_task_sync tid db' = Some (fr_task fr)" "fr_task fr = finished_row now oc sm err st n t"
    "fr_run fr = finished_run now oc sm md err r" "r_id r = rid"
proof -
  note k = lease_inv_keyed [OF inv] and task = lease_holder_rows(1) [OF inv held t]
  obtain r where r: "r \<in> set (db_task_runs db)" "r_id r = rid" "r_status r = TaskRunStatus.RUNNING"
    and run: "fetchone (\<lambda>r. r_id r = rid \<and> r_task_id r = tid) (db_task_runs db) = Some r"
    using lease_holder_rows(2) [OF inv held t] by blast
  from t have t_in: "t \<in> set (db_tasks db)" and id: "t_id t = tid"
    by (auto simp: get_task_sync_def dest: fetchone_SomeD)
  obtain fr where fr: "snd (finalize_run now tid rid lock oc sm md err rec target db) = Inr fr"
    using finalize_reread [OF run task r(3)] by blast
  have n': "n = (if increment_failures oc then t_consecutive_failures t + 1 else t_consecutive_failures t)"
    by (simp add: n)
  have u1: "reread (\<lambda>x. t_id x = tid) (sql_update (\<lambda>x. t_id x = tid \<and> t_version x = t_version t)
      (finished_row now oc sm err st n) (db_tasks db)) = Inr (finished_row now oc sm err st n t)"
    using reread_key_update [OF k(1) t_in, of "\<lambda>x. t_id x = tid \<and> t_version x = t_version t"
        "finished_row now oc sm err st n"] id by (simp add: finished_row_keys)
  have u2: "reread (\<lambda>x. r_id x = rid) (sql_update (\<lambda>x. r_id x = rid)
      (finished_run now oc sm md err) (db_task_runs db)) = Inr (finished_run now oc sm md err r)"
    using reread_key_update [OF k(2) r(1), of "\<lambda>x. r_id x = rid" "finished_run now oc sm md err"] r(2)
    by (simp add: finished_run_def)
  note fin = finalize_run_def [of now tid rid lock oc sm md err rec target db, unfolded run task Let_def option.case,
      folded n', folded st]
  have res: "fr_task fr = finished_row now oc sm err st n t" "fr_run fr = finished_run now oc sm md err r"
    "get_task_sync tid (fst (finalize_run now tid rid lock oc sm md err rec target db)) = Some (fr_task fr)"
    using fr unfolding fin
    by (auto simp: r(3) u1 u2 get_task_sync_def reread_Inr split: sum.splits if_splits)
  show thesis by (rule that [OF _ res(3,1,2) r(2)]) (simp add: prod_eq_iff fr)
qed

text \<open>
  C18: the finish by the lease holder. The row it returns has the target status (or the one the
  outcome implies), no lease, one more version, the failure streak reset on completion and
  increased exactly for \<open>failed\<close> and \<open>spawn_failed\<close>; the run row carries the outcome.
\<close>

theorem finish_result:
  assumes inv: "lease_inv db" and held: "leases db tid = Some (rid, lock)"
    and t: "get_task_sync tid db = Some t"
  shows "\<exists>db' fr. finalize_run now tid rid lock oc sm md err rec target db = (db', Inr fr) \<and>
     get_task_sync tid db' = Some (fr_task fr) \<and>
     t_status (fr_task fr) = (case target of Some s \<Rightarrow> s
       | None \<Rightarrow> outcome_to_task_status oc (t_consecutive_failures t + (if increment_failures oc then 1 else 0))
                   (t_max_retries t)) \<and>
     t_claim_lock (fr_task fr) = None \<and> t_current_run_id (fr_task fr) = None \<and>
     t_claim_expires (fr_task fr) = None \<and> t_version (fr_task fr) = t_version t + 1 \<and>
     t_consecutive_failures (fr_task fr) =
       (if oc = TaskRunOutcome.COMPLETED then 0
        else t_consecutive_failures t + (if increment_failures oc then 1 else 0)) \<and>
     r_id (fr_run fr) = rid \<and> r_outcome (fr_run fr) = Some oc \<and>
     r_status (fr_run fr) = outcome_to_run_status oc"
proof -
  obtain db' fr r where "finalize_run now tid rid lock oc sm md err rec target db = (db', Inr fr)"
    "get_task_sync tid db' = Some (fr_task fr)"
    and res: "fr_task fr = finished_row now oc sm err (case target of Some s \<Rightarrow> s | None \<Rightarrow>
        outcome_to_task_status oc (t_consecutive_failures t + (if increment_failures oc then 1 else 0))
          (t_max_retries t)) (t_consecutive_failures t + (if increment_failures oc then 1 else 0)) t"
      "fr_run fr = finished_run now oc sm md err r" "r_id r = rid"
    by (rule finish_by_holder [OF assms refl refl])
  then show ?thesis
    by (intro exI [of _ db'] exI [of _ fr])
       (simp add: res finished_row_def finished_run_def increment_failures_def Let_def)
qed

theorem finish_result_witness:
  "\<exists>db' fr. finalize_run 30 ''t1'' 1 ''lock1'' TaskRunOutcome.SPAWN_FAILED None (JObj []) None False None claimed_db
     = (db', Inr fr) \<and> t_status (fr_task fr) = TaskStatus.FAILED \<and> t_consecutive_failures (fr_task fr) = 1"
proof -
  have 1: "leases claimed_db ''t1'' = Some (1, ''lock1'')"
    using tl.run_holder [OF demo_claimed lease_inv_empty] by simp
  have 2: "get_task_sync ''t1'' claimed_db = Some (hd (db_tasks claimed_db))"
    "t_consecutive_failures (hd (db_tasks claimed_db)) = 0" "t_max_retries (hd (db_tasks claimed_db)) = 0"
    by code_simp+
  from finish_result [OF tl.run_inv [OF demo_claimed lease_inv_empty] 1 2(1), of 30 TaskRunOutcome.SPAWN_FAILED
      None "JObj []" None False None] 2
  show ?thesis by (auto simp: outcome_to_task_status_def increment_failures_def)
qed

section \<open>Events\<close>

definition history_inv :: "task_db \<Rightarrow> bool" where
  "history_inv db \<longleftrightarrow> sorted_wrt (<) (map e_id (db_task_events db)) \<and>
     (\<forall>e\<in>set (db_task_events db). e_id e \<le> db_event_seq db)"

text \<open>What a transaction other than a deletion does to the events: nothing, or one append.\<close>

definition event_delta :: "task_db \<Rightarrow> task_db \<Rightarrow> bool" where
  "event_delta db db' \<longleftrightarrow>
     (db_task_events db' = db_task_events db \<and> db_event_seq db' = db_event_seq db) \<or>
     (\<exists>e. db_task_events db' = db_task_events db @ [e] \<and> e_id e = db_event_seq db + 1 \<and>
          db_event_seq db' = db_event_seq db + 1)"

lemma event_delta_refl [simp]: "event_delta db db"
  by (simp add: event_delta_def)

lemma event_delta_insert:
  "db_task_events db1 = db_task_events db \<Longrightarrow> db_event_seq db1 = db_event_seq db \<Longrightarrow>
     event_delta db (insert_event tid rid k p now db1)"
  by (auto simp: event_delta_def insert_event_def)

lemma event_delta_same:
  "db_task_events db' = db_task_events db \<Longrightarrow> db_event_seq db' = db_event_seq db \<Longrightarrow> event_delta db db'"
  by (simp add: event_delta_def)

lemma update_row_events:
  "update_row now tid flds v db = Inr db' \<Longrightarrow>
     db_task_events db' = db_task_events db \<and> db_event_seq db' = db_event_seq db"
  by (auto simp: update_row_def split: option.splits if_splits)

lemma bulk_rows_events:
  "bulk_rows now items db = Inr db' \<Longrightarrow>
     db_task_events db' = db_task_events db \<and> db_event_seq db' = db_event_seq db"
  by (induction items arbitrary: db) (auto dest: update_row_events split: sum.splits)

lemma claim_event_delta: "claim_task_sync now w tid lock secs db = (db', res) \<Longrightarrow> event_delta db db'"
  by (auto simp: claim_task_sync_def Let_def intro!: event_delta_insert split: option.splits sum.splits)

lemma finalize_event_delta:
  "finalize_run now tid rid lock oc sm md err rec target db = (db', res) \<Longrightarrow> event_delta db db'"
  by (auto simp: finalize_run_def Let_def intro!: event_delta_insert
      split: option.splits sum.splits if_split_asm)

lemma resolve_event_delta: "resolve_proposal_sync now cmd db = (db', res) \<Longrightarrow> event_delta db db'"
  by (auto simp: resolve_proposal_sync_def Let_def insert_event_def event_delta_def
      split: option.splits sum.splits if_splits)

lemma registry_step_events:
  "registry_step db es db' \<Longrightarrow> event_delta db db' \<or> (\<exists>now tid b. delete_task_sync now tid db = (db', b))"
proof (induction rule: registry_step.induct)
  case (update now tid flds v db db' ures)
  then show ?case
    by (auto simp: update_task_sync_def intro: event_delta_same dest: update_row_events split: sum.splits)
next
  case (bulk now items db db' bres)
  then show ?case
    by (auto simp: bulk_update_sync_def intro: event_delta_same dest: bulk_rows_events split: sum.splits)
next
  case (heartbeat tid rid lock now db db' res)
  then show ?case
    by (auto simp: record_heartbeat_sync_def Let_def intro: event_delta_same split: option.splits sum.splits)
next
  case (delete now tid db db' b)
  then show ?case by blast
qed (auto intro: claim_event_delta finalize_event_delta resolve_event_delta event_delta_same event_delta_insert
      simp: create_task_sync_def append_event_sync_def add_comment_sync_def add_attachment_sync_def
        delete_attachment_sync_def subscribe_notify_sync_def unsubscribe_notify_sync_def
        update_notify_sub_last_event_sync_def Let_def
      split: if_splits sum.splits)

lemma event_delta_inv: "event_delta db db' \<Longrightarrow> history_inv db \<Longrightarrow> history_inv db'"
  by (force simp: event_delta_def history_inv_def sorted_wrt_append)

lemma delete_events:
  "delete_task_sync now tid db = (db', b) \<Longrightarrow> db_event_seq db' = db_event_seq db \<and>
     db_task_events db' = (if task_exists tid db then filter (\<lambda>e. e_task_id e \<noteq> tid) (db_task_events db)
                           else db_task_events db) \<and>
     db_tasks db' = filter (\<lambda>t. t_id t \<noteq> tid) (db_tasks db)"
  by (auto simp: delete_task_sync_def Let_def sql_delete_def task_exists_def fetchone_None_iff
      rowcount_def filter_empty_conv)

lemma delete_history_inv: "delete_task_sync now tid db = (db', b) \<Longrightarrow> history_inv db \<Longrightarrow> history_inv db'"
  using delete_events [of now tid db db' b]
  by (auto simp: history_inv_def sorted_wrt_map sorted_wrt_filter)

lemma step_history_inv: "registry_step db es db' \<Longrightarrow> history_inv db \<Longrightarrow> history_inv db'"
  using registry_step_events event_delta_inv delete_history_inv by blast

lemma run_history_inv: "lts_run registry_step db es db' \<Longrightarrow> history_inv db \<Longrightarrow> history_inv db'"
  by (induction rule: lts_run.induct) (auto intro: step_history_inv)

lemma history_inv_empty: "history_inv empty_task_db"
  by (simp add: history_inv_def empty_task_db_def)

text \<open>
  the event log. In every reachable database event ids strictly increase in insertion
  order and are never reused, and a transaction never drops or alters an event unless it
  deletes the event's task.
\<close>

theorem event_log_append_only:
  assumes "lts_run registry_step empty_task_db es db" and "registry_step db es' db'"
  shows "sorted_wrt (<) (map e_id (db_task_events db')) \<and>
    (\<forall>e\<in>set (db_task_events db') - set (db_task_events db). e_id e > db_event_seq db) \<and>
    (\<forall>e\<in>set (db_task_events db). e \<in> set (db_task_events db') \<or> \<not> task_exists (e_task_id e) db')"
proof -
  have "history_inv db'"
    using assms run_history_inv [OF assms(1) history_inv_empty] step_history_inv by blast
  moreover have "(\<forall>e\<in>set (db_task_events db') - set (db_task_events db). e_id e > db_event_seq db) \<and>
    (\<forall>e\<in>set (db_task_events db). e \<in> set (db_task_events db') \<or> \<not> task_exists (e_task_id e) db')"
    using registry_step_events [OF assms(2)]
  proof (elim disjE exE)
    assume "event_delta db db'"
    then show ?thesis by (auto simp: event_delta_def)
  next
    fix now tid b assume "delete_task_sync now tid db = (db', b)"
    from delete_events [OF this] show ?thesis by (auto simp: task_exists_def fetchone_None_iff)
  qed
  ultimately show ?thesis by (simp add: history_inv_def)
qed

theorem event_log_append_only_witness:
  "\<exists>e\<in>set (db_task_events claimed_db). e_kind e = ''claimed'' \<and> e \<in> set (db_task_events finished_db)"
proof -
  have step: "registry_step claimed_db [Release ''t1'' (1, ''lock1'')] finished_db"
    using demo_finish by (auto intro: finish_ok)
  let ?e = "hd (db_task_events claimed_db)"
  have "?e \<in> set (db_task_events claimed_db)" "e_kind ?e = ''claimed''" "task_exists (e_task_id ?e) finished_db"
    by code_simp+
  with event_log_append_only [OF demo_claimed step] show ?thesis by blast
qed

end
