(* ===== verification/Task_Versions.thy ===== *)
theory Task_Versions
  imports Task_History
begin

text \<open>
  Optimistic locking (row versions), the all-or-nothing bulk update, the resolution of
  proposals, and the deletion cascade.
\<close>

section \<open>Versions\<close>

definition version_delta :: "task_db \<Rightarrow> task_db \<Rightarrow> bool" where
  "version_delta db db' \<longleftrightarrow> (\<forall>tid t. get_task_sync tid db = Some t \<longrightarrow>
     (\<exists>t'. get_task_sync tid db' = Some t' \<and> (t' = t \<or> t_version t < t_version t')))"

lemma version_delta_refl [simp]: "version_delta db db"
  by (auto simp: version_delta_def)

lemma version_delta_trans:
  assumes "version_delta a b" and "version_delta b c"
  shows "version_delta a c"
  unfolding version_delta_def
proof (intro allI impI)
  fix tid t assume "get_task_sync tid a = Some t"
  then obtain t' where t': "get_task_sync tid b = Some t'" "t' = t \<or> t_version t < t_version t'"
    using assms(1) unfolding version_delta_def by blast
  then obtain t'' where "get_task_sync tid c = Some t''" "t'' = t' \<or> t_version t' < t_version t''"
    using assms(2) unfolding version_delta_def by blast
  with t' show "\<exists>t'. get_task_sync tid c = Some t' \<and> (t' = t \<or> t_version t < t_version t')" by auto
qed

lemma version_delta_same: "db_tasks db' = db_tasks db \<Longrightarrow> version_delta db db'"
  by (simp add: version_delta_def get_task_sync_def)

lemma version_delta_update:
  assumes "db_tasks db' = sql_update P f (db_tasks db)"
    and "\<And>t. t_id (f t) = t_id t" and "\<And>t. t_version (f t) = t_version t + 1"
  shows "version_delta db db'"
  using assms by (auto simp: version_delta_def get_task_sync_def fetchone_key_sql_update)

lemma update_row_version:
  "update_row now tid flds v db = Inr db' \<Longrightarrow> version_delta db db'"
  by (auto simp: update_row_def build_update_clause_def split: option.splits if_splits
      intro!: version_delta_update [where f = "build_update_clause now flds"])

lemma bulk_rows_version: "bulk_rows now items db = Inr db' \<Longrightarrow> version_delta db db'"
  by (induction items arbitrary: db) (auto dest: update_row_version intro: version_delta_trans split: sum.splits)

lemma claim_version: "claim_task_sync now w tid lock secs db = (db', res) \<Longrightarrow> version_delta db db'"
  by (auto simp: claim_task_sync_def Let_def split: option.splits sum.splits
      intro!: version_delta_update [where f = "claimed_row now w lock secs (db_run_seq db + 1)"])
     (simp_all add: claimed_row_def)

lemma finished_row_version: "t_version (finished_row now oc sm err st n t) = t_version t + 1"
  by (simp add: finished_row_def Let_def)

lemma finalize_version:
  assumes "finalize_run now tid rid lock oc sm md err rec target db = (db', res)"
  shows "version_delta db db'"
proof (cases res)
  case (Inl e)
  with assms show ?thesis by (simp add: version_delta_same finalize_error)
next
  case (Inr fr)
  with assms show ?thesis
    by (auto simp: finalize_run_def Let_def split: option.splits sum.splits if_split_asm
        intro!: version_delta_update [of _ _ _ db, OF _ finished_row_keys(1) finished_row_version])
qed

lemma resolve_version: "resolve_proposal_sync now cmd db = (db', res) \<Longrightarrow> version_delta db db'"
  by (auto simp: resolve_proposal_sync_def Let_def split: option.splits sum.splits if_splits
      intro!: version_delta_update [where f = "\<lambda>t. t\<lparr>t_status := TaskStatus.QUEUED,
        t_version := t_version t + 1, t_updated_at := Some now\<rparr>" and db = db])

lemma heartbeat_version: "record_heartbeat_sync tid rid lock now db = (db', res) \<Longrightarrow> version_delta db db'"
  by (auto simp: record_heartbeat_sync_def Let_def split: option.splits sum.splits
      intro!: version_delta_update [of _ "\<lambda>t. t_id t = tid" _ db])

lemma create_version: "create_task_sync now task db = (db', res) \<Longrightarrow> version_delta db db'"
  by (auto simp: create_task_sync_def Let_def version_delta_def get_task_sync_def fetchone_append split: if_splits)

text \<open>
  every change of a task row raises its version. A transaction leaves a task row exactly
  as it was, or replaces it by a row with a strictly larger version, or deletes the task: so
  a client whose expected version matches knows the row has not changed since it was read.
\<close>

theorem row_change_bumps_version:
  assumes "registry_step db es db'" and "get_task_sync tid db = Some t"
  shows "get_task_sync tid db' = None \<or>
    (\<exists>t'. get_task_sync tid db' = Some t' \<and> (t' = t \<or> t_version t < t_version t'))"
proof -
  have "version_delta db db' \<or> (\<exists>now tid b. delete_task_sync now tid db = (db', b))"
    using assms(1)
  proof (induction rule: registry_step.induct)
    case (update now tid flds v db db' ures)
    then show ?case by (auto simp: update_task_sync_def dest: update_row_version split: sum.splits)
  next
    case (bulk now items db db' bres)
    then show ?case by (auto simp: bulk_update_sync_def dest: bulk_rows_version split: sum.splits)
  qed (auto intro: claim_version finalize_version resolve_version heartbeat_version create_version version_delta_same
      simp: append_event_sync_def add_comment_sync_def add_attachment_sync_def delete_attachment_sync_def
        subscribe_notify_sync_def unsubscribe_notify_sync_def update_notify_sub_last_event_sync_def Let_def
      split: if_splits sum.splits)
  then show ?thesis
  proof (elim disjE exE)
    assume "version_delta db db'"
    with assms(2) show ?thesis by (simp add: version_delta_def)
  next
    fix now tid' b assume "delete_task_sync now tid' db = (db', b)"
    then have "db_tasks db' = filter (\<lambda>t. t_id t \<noteq> tid') (db_tasks db)" using delete_events by blast
    moreover have "find Q (filter R xs) = (if \<forall>x. Q x \<longrightarrow> R x then find Q xs else None)"
      if "(\<forall>x. Q x \<longrightarrow> R x) \<or> (\<forall>x. Q x \<longrightarrow> \<not> R x)" for Q R and xs :: "Task list"
      using that by (induction xs) auto
    from this [of "\<lambda>t. t_id t = tid" "\<lambda>t. t_id t \<noteq> tid'"] calculation
    show ?thesis using assms(2) by (cases "tid = tid'") (auto simp: get_task_sync_def fetchone_def)
  qed
qed

theorem row_change_bumps_version_witness:
  "get_task_sync ''t1'' finished_db = None \<or>
    (\<exists>t'. get_task_sync ''t1'' finished_db = Some t' \<and>
       (t' = hd (db_tasks claimed_db) \<or> t_version (hd (db_tasks claimed_db)) < t_version t'))"
proof -
  have "registry_step claimed_db [Release ''t1'' (1, ''lock1'')] finished_db"
    using demo_finish by (auto intro: finish_ok)
  moreover have "get_task_sync ''t1'' claimed_db = Some (hd (db_tasks claimed_db))" by code_simp
  ultimately show ?thesis by (rule row_change_bumps_version)
qed

text \<open>
  no lost update. Of two updates made with the same expected version, the second one
  raises a conflict and changes nothing, whatever the fields.
\<close>

theorem no_lost_update:
  assumes "update_task_sync now tid flds v db = (db1, Inr t)"
  shows "update_task_sync now' tid flds' v db1 = (db1, Inl TaskConflictError) \<and> t_version t = v + 1"
proof -
  from assms obtain row where row: "fetchone (\<lambda>t. t_id t = tid) (db_tasks db) = Some row" "t_version row = v"
    and db1: "db1 = db\<lparr>db_tasks := sql_update (\<lambda>t. t_id t = tid \<and> t_version t = v)
        (build_update_clause now flds) (db_tasks db)\<rparr>"
    by (auto simp: update_task_sync_def update_row_def split: option.splits if_splits sum.splits)
  then have f: "fetchone (\<lambda>t. t_id t = tid) (db_tasks db1) = Some (build_update_clause now flds row)"
    using fetchone_SomeD [OF row(1)] by (simp add: fetchone_key_sql_update)
  have v: "t_version (build_update_clause now flds row) = v + 1" using row(2) by (simp add: build_update_clause_def)
  have "t = build_update_clause now flds row"
    using assms f db1 by (auto simp: update_task_sync_def reread_def split: option.splits sum.splits)
  with f v show ?thesis by (simp add: update_task_sync_def update_row_def)
qed

theorem no_lost_update_witness:
  "update_task_sync 12 ''t1'' [F_priority 5] 1 (fst (update_task_sync 11 ''t1'' [F_title ''new''] 1 demo_db)) =
     (fst (update_task_sync 11 ''t1'' [F_title ''new''] 1 demo_db), Inl TaskConflictError)"
proof -
  have "case snd (update_task_sync 11 ''t1'' [F_title ''new''] 1 demo_db) of Inr t \<Rightarrow> True | Inl _ \<Rightarrow> False"
    by code_simp
  then obtain t where "update_task_sync 11 ''t1'' [F_title ''new''] 1 demo_db =
      (fst (update_task_sync 11 ''t1'' [F_title ''new''] 1 demo_db), Inr t)"
    by (auto simp: prod_eq_iff split: sum.splits)
  from no_lost_update [OF this] show ?thesis by blast
qed

fun update_sequence :: "datetime \<Rightarrow> BulkUpdateItem list \<Rightarrow> task_db \<Rightarrow> task_db option" where
  "update_sequence now [] db = Some db"
| "update_sequence now (i # is) db =
     (case update_task_sync now (bu_task_id i) (bu_fields i) (bu_expected_version i) db of
        (db1, Inr _) \<Rightarrow> update_sequence now is db1 | _ \<Rightarrow> None)"

lemma update_row_task:
  assumes "update_row now tid flds v db = Inr db1"
  shows "\<exists>t. update_task_sync now tid flds v db = (db1, Inr t)" and "task_exists tid db1"
proof -
  from assms obtain row where row: "fetchone (\<lambda>t. t_id t = tid) (db_tasks db) = Some row"
    and db1: "db1 = db\<lparr>db_tasks := sql_update (\<lambda>t. t_id t = tid \<and> t_version t = v)
        (build_update_clause now flds) (db_tasks db)\<rparr>"
    by (auto simp: update_row_def split: option.splits if_splits)
  then have "\<exists>t. fetchone (\<lambda>t. t_id t = tid) (db_tasks db1) = Some t"
    by (simp add: fetchone_key_sql_update)
  with assms show "\<exists>t. update_task_sync now tid flds v db = (db1, Inr t)" "task_exists tid db1"
    by (auto simp: update_task_sync_def reread_def task_exists_def)
qed

lemma update_row_exists:
  assumes "update_row now tid flds v db = Inr db1"
  shows "task_exists k db1 = task_exists k db"
proof -
  from assms have "db_tasks db1 = sql_update (\<lambda>t. t_id t = tid \<and> t_version t = v)
      (build_update_clause now flds) (db_tasks db)"
    by (auto simp: update_row_def split: option.splits if_splits)
  then show ?thesis by (simp add: task_exists_def fetchone_key_sql_update)
qed

lemma bulk_rows_sequence:
  "bulk_rows now items db = Inr db' \<longleftrightarrow> update_sequence now items db = Some db'"
proof (induction items arbitrary: db)
  case Nil
  then show ?case by simp
next
  case (Cons i items)
  show ?case
  proof (cases "update_row now (bu_task_id i) (bu_fields i) (bu_expected_version i) db")
    case (Inl e)
    then show ?thesis by (simp add: update_task_sync_def)
  next
    case (Inr db1)
    obtain t where "update_task_sync now (bu_task_id i) (bu_fields i) (bu_expected_version i) db = (db1, Inr t)"
      using update_row_task(1) [OF Inr] by blast
    then show ?thesis by (simp add: Inr Cons.IH)
  qed
qed

lemma bulk_rows_exists:
  "bulk_rows now items db = Inr db' \<Longrightarrow> (\<forall>k. task_exists k db' = task_exists k db) \<and>
     (\<forall>i\<in>set items. task_exists (bu_task_id i) db')"
proof (induction items arbitrary: db)
  case (Cons i items)
  then obtain db1 where db1: "update_row now (bu_task_id i) (bu_fields i) (bu_expected_version i) db = Inr db1"
    "bulk_rows now items db1 = Inr db'" by (auto split: sum.splits)
  from Cons.IH [OF db1(2)] update_row_exists [OF db1(1)] update_row_task(2) [OF db1(1)] show ?case by auto
qed simp

lemma reread_all_exists:
  "\<forall>k\<in>set tids. task_exists k db \<Longrightarrow>
     reread_all tids (db_tasks db) = Inr (map (\<lambda>k. the (get_task_sync k db)) tids)"
  by (induction tids) (auto simp: task_exists_def reread_def get_task_sync_def)

text \<open>
  a bulk update is all or nothing. If it raises, no row changed; if it returns, its effect
  is that of the single updates in order, each of which would have succeeded, and it returns
  the final rows in the order of the items.
\<close>

theorem bulk_update_atomic:
  "case update_sequence now items db of
     None \<Rightarrow> \<exists>e. bulk_update_sync now items db = (db, Inl e)
   | Some db' \<Rightarrow> bulk_update_sync now items db =
       (db', Inr (map (\<lambda>i. the (get_task_sync (bu_task_id i) db')) items))"
proof (cases "bulk_rows now items db")
  case (Inl e)
  then have "update_sequence now items db = None"
    using bulk_rows_sequence [of now items db] by (metis not_Some_eq sum.distinct(1))
  with Inl show ?thesis by (simp add: bulk_update_sync_def)
next
  case (Inr db')
  then have "update_sequence now items db = Some db'" by (simp add: bulk_rows_sequence)
  moreover have "reread_all (map bu_task_id items) (db_tasks db') =
      Inr (map (\<lambda>k. the (get_task_sync k db')) (map bu_task_id items))"
    using bulk_rows_exists [OF Inr] by (intro reread_all_exists) auto
  ultimately show ?thesis by (simp add: bulk_update_sync_def Inr)
qed

end
