(* ===== verification/Task_Decisions.thy ===== *)
theory Task_Decisions
  imports Task_Versions
begin

text \<open>
  The resolution of change proposals (each proposal is decided at most once, the latest one
  first), the deletion cascade and the notification watermark.
\<close>

section \<open>Proposals\<close>

lemma resolution_kind:
  "validate_resolution_command cmd = None \<Longrightarrow> pc_event_kind cmd \<in> set RESOLUTION_MARKER_KINDS"
  by (auto simp: validate_resolution_command_def DECISION_TO_EVENT_KIND_def RESOLUTION_MARKER_KINDS_def
      split: if_splits option.splits)

lemma resolved_ids_marker:
  "resolved_ids evs = Inr ns \<Longrightarrow> ev \<in> set evs \<Longrightarrow> e_kind ev \<in> set RESOLUTION_MARKER_KINDS \<Longrightarrow>
     map_of (e_payload ev) ''proposal_event_id'' = Some (JInt n) \<Longrightarrow> n \<in> set ns"
  by (induction evs arbitrary: ns)
     (auto simp del: set_simps split: if_splits option.splits json.splits sum.splits, auto)

lemma latest_pending_SomeD:
  assumes "latest_pending resolved evs = Some ev"
  shows "\<exists>pre post. evs = pre @ ev # post \<and> e_kind ev = PROPOSAL_KIND \<and> e_id ev \<notin> set resolved \<and>
    (\<forall>ev'\<in>set post. e_kind ev' = PROPOSAL_KIND \<longrightarrow> e_id ev' \<in> set resolved)"
proof -
  obtain i where i: "i < length (rev evs)" "rev evs ! i = ev" "e_kind ev = PROPOSAL_KIND" "e_id ev \<notin> set resolved"
    and before: "\<forall>j<i. \<not> (e_kind (rev evs ! j) = PROPOSAL_KIND \<and> e_id (rev evs ! j) \<notin> set resolved)"
    using assms unfolding latest_pending_def find_Some_iff by auto
  have split: "rev evs = take i (rev evs) @ ev # drop (Suc i) (rev evs)"
    using i(1,2) by (metis id_take_nth_drop)
  then have "evs = rev (drop (Suc i) (rev evs)) @ ev # rev (take i (rev evs))"
    by (metis append.assoc append_Cons append_Nil rev.simps(2) rev_append rev_rev_ident)
  moreover have "\<forall>ev'\<in>set (rev (take i (rev evs))). e_kind ev' = PROPOSAL_KIND \<longrightarrow> e_id ev' \<in> set resolved"
    using before i(1) by (auto simp: in_set_conv_nth)
  ultimately show ?thesis using i(3,4) by blast
qed

lemma resolve_cases:
  assumes "resolve_proposal_sync now cmd db = (db', Inr res)"
  obtains task resolved ev where "validate_resolution_command cmd = None"
    "fetchone (\<lambda>t. t_id t = pc_task_id cmd) (db_tasks db) = Some task"
    "t_version task = pc_expected_version cmd" "\<not> t_is_archived task"
    "t_status task = TaskStatus.WAITING_APPROVAL"
    "resolved_ids (task_history (pc_task_id cmd) db) = Inr resolved"
    "latest_pending resolved (task_history (pc_task_id cmd) db) = Some ev"
    "pr_proposal_event_id res = e_id ev"
    "db_task_events db' = db_task_events db @
       [\<lparr>e_id = db_event_seq db + 1, e_task_id = pc_task_id cmd, e_kind = pc_event_kind cmd,
         e_payload = [(''decision'', JStr (pc_decision cmd)), (''note'', jopt (pc_note cmd)),
                      (''proposal_event_id'', JInt (e_id ev))],
         e_run_id = None, e_created_at = Some now\<rparr>]"
    "db_tasks db' = sql_update (\<lambda>t. t_id t = pc_task_id cmd \<and> t_version t = pc_expected_version cmd \<and>
         t_status t = TaskStatus.WAITING_APPROVAL \<and> \<not> t_is_archived t)
       (\<lambda>t. t\<lparr>t_status := TaskStatus.QUEUED, t_version := t_version t + 1, t_updated_at := Some now\<rparr>) (db_tasks db)"
  using assms
  by (auto simp: resolve_proposal_sync_def Let_def insert_event_def
      split: option.splits sum.splits if_splits)

section \<open>A demonstration conversation\<close>

definition approve_cmd :: "int \<Rightarrow> ProposalResolutionCommand" where
  "approve_cmd v = \<lparr>pc_task_id = ''t1'', pc_expected_version = v, pc_decision = ''approved'',
     pc_event_kind = ''change_approved'', pc_note = None\<rparr>"

definition propose_and_wait :: "int \<Rightarrow> string \<Rightarrow> task_db \<Rightarrow> task_db" where
  "propose_and_wait rid lock db =
     (let db1 = fst (append_event_sync 25 ''t1'' PROPOSAL_KIND [(''proposal'', JStr ''p'')] (Some rid) db)
      in fst (finalize_run 26 ''t1'' rid lock TaskRunOutcome.WAITING_APPROVAL None (JObj []) None False
           (Some TaskStatus.WAITING_APPROVAL) db1))"

definition waiting_db :: task_db where
  "waiting_db = propose_and_wait 1 ''lock1'' claimed_db"

definition approved_db :: task_db where
  "approved_db = fst (resolve_proposal_sync 28 (approve_cmd 3) waiting_db)"

definition waiting_again_db :: task_db where
  "waiting_again_db = propose_and_wait 2 ''lock2'' (fst (claim_task_sync 40 ''w2'' ''t1'' ''lock2'' 900 approved_db))"

lemma demo_approve:
  "\<exists>res. resolve_proposal_sync 28 (approve_cmd 3) waiting_db = (approved_db, Inr res) \<and> pr_proposal_event_id res = 2"
proof -
  have "case snd (resolve_proposal_sync 28 (approve_cmd 3) waiting_db) of
      Inr res \<Rightarrow> pr_proposal_event_id res = 2 | Inl _ \<Rightarrow> False" by code_simp
  then show ?thesis by (simp add: approved_db_def prod_eq_iff split: sum.splits)
qed

lemma demo_approve_again:
  "\<exists>db' res. resolve_proposal_sync 50 (approve_cmd 6) waiting_again_db = (db', Inr res) \<and> pr_proposal_event_id res = 6"
proof -
  have "case snd (resolve_proposal_sync 50 (approve_cmd 6) waiting_again_db) of
      Inr res \<Rightarrow> pr_proposal_event_id res = 6 | Inl _ \<Rightarrow> False" by code_simp
  then show ?thesis by (simp add: prod_eq_iff split: sum.splits)
qed

text \<open>
  C22: the decision. A successful resolution closes the latest proposal of the task that no
  marker has closed (every later proposal was already closed), moves the task from
  \<open>WAITING_APPROVAL\<close> to \<open>QUEUED\<close> with one more version, and appends exactly one event, the
  marker naming the proposal.
\<close>

theorem resolve_closes_latest_pending:
  assumes "resolve_proposal_sync now cmd db = (db', Inr res)"
  shows "\<exists>pre ev post resolved t u marker.
    task_history (pc_task_id cmd) db = pre @ ev # post \<and> e_kind ev = PROPOSAL_KIND \<and>
    pr_proposal_event_id res = e_id ev \<and>
    resolved_ids (task_history (pc_task_id cmd) db) = Inr resolved \<and> e_id ev \<notin> set resolved \<and>
    (\<forall>ev'\<in>set post. e_kind ev' = PROPOSAL_KIND \<longrightarrow> e_id ev' \<in> set resolved) \<and>
    get_task_sync (pc_task_id cmd) db = Some t \<and> t_status t = TaskStatus.WAITING_APPROVAL \<and>
    get_task_sync (pc_task_id cmd) db' = Some u \<and> t_status u = TaskStatus.QUEUED \<and> t_version u = t_version t + 1 \<and>
    db_task_events db' = db_task_events db @ [marker] \<and> e_kind marker = pc_event_kind cmd \<and>
    map_of (e_payload marker) ''proposal_event_id'' = Some (JInt (e_id ev))"
  using assms
proof (cases rule: resolve_cases)
  case (1 task resolved ev)
  obtain pre post where "task_history (pc_task_id cmd) db = pre @ ev # post" "e_kind ev = PROPOSAL_KIND"
    "e_id ev \<notin> set resolved" "\<forall>ev'\<in>set post. e_kind ev' = PROPOSAL_KIND \<longrightarrow> e_id ev' \<in> set resolved"
    using latest_pending_SomeD [OF 1(7)] by blast
  moreover have "get_task_sync (pc_task_id cmd) db' =
      Some (task\<lparr>t_status := TaskStatus.QUEUED, t_version := t_version task + 1, t_updated_at := Some now\<rparr>)"
    using 1 fetchone_SomeD [OF 1(2)] by (simp add: get_task_sync_def fetchone_key_sql_update)
  ultimately show ?thesis using 1 by (auto simp: get_task_sync_def)
qed

theorem resolve_closes_latest_pending_witness:
  "\<exists>u. get_task_sync ''t1'' approved_db = Some u \<and> t_status u = TaskStatus.QUEUED"
  using demo_approve resolve_closes_latest_pending [of 28 "approve_cmd 3" waiting_db approved_db]
  by (auto simp: approve_cmd_def)

text \<open>
  a proposal is decided at most once. Once a resolution has closed a proposal, no later
  resolution of that task closes it again, as long as the event log keeps the marker (which
  every transaction but the task's deletion does).
\<close>

theorem proposal_decided_once:
  assumes "resolve_proposal_sync now cmd db = (db1, Inr res)"
    and kept: "set (db_task_events db1) \<subseteq> set (db_task_events db2)"
    and "resolve_proposal_sync now' cmd' db2 = (db3, Inr res')"
    and same: "pc_task_id cmd' = pc_task_id cmd"
  shows "pr_proposal_event_id res' \<noteq> pr_proposal_event_id res"
  using assms(1)
proof (cases rule: resolve_cases)
  case first: (1 task resolved ev)
  let ?m = "\<lparr>e_id = db_event_seq db + 1, e_task_id = pc_task_id cmd, e_kind = pc_event_kind cmd,
         e_payload = [(''decision'', JStr (pc_decision cmd)), (''note'', jopt (pc_note cmd)),
                      (''proposal_event_id'', JInt (e_id ev))],
         e_run_id = None, e_created_at = Some now\<rparr>"
  from first(9) kept have "?m \<in> set (db_task_events db2)" by auto
  then have hist: "?m \<in> set (task_history (pc_task_id cmd) db2)" by (simp add: task_history_def)
  from assms(3) show ?thesis
  proof (cases rule: resolve_cases)
    case second: (1 task' resolved' ev')
    have "e_id ev \<in> set resolved'"
      using resolved_ids_marker [OF second(6) [unfolded same] hist] resolution_kind [OF first(1)] by simp
    moreover have "e_id ev' \<notin> set resolved'" using latest_pending_SomeD [OF second(7)] by blast
    ultimately show ?thesis using first(8) second(8) by auto
  qed
qed

theorem proposal_decided_once_witness:
  "\<exists>db' res. resolve_proposal_sync 50 (approve_cmd 6) waiting_again_db = (db', Inr res) \<and> pr_proposal_event_id res \<noteq> 2"
proof -
  obtain res where 1: "resolve_proposal_sync 28 (approve_cmd 3) waiting_db = (approved_db, Inr res)"
    "pr_proposal_event_id res = 2" using demo_approve by blast
  obtain db' res' where 2: "resolve_proposal_sync 50 (approve_cmd 6) waiting_again_db = (db', Inr res')"
    "pr_proposal_event_id res' = 6" using demo_approve_again by blast
  have "list_all (\<lambda>e. list_ex (\<lambda>e'. e' = e) (db_task_events waiting_again_db)) (db_task_events approved_db)"
    by code_simp
  then have "set (db_task_events approved_db) \<subseteq> set (db_task_events waiting_again_db)"
    by (auto simp: list_all_iff list_ex_iff)
  from proposal_decided_once [OF 1(1) this 2(1)] 1(2) 2 show ?thesis by (auto simp: approve_cmd_def)
qed

section \<open>Deletion\<close>

text \<open>
  the deletion cascade is complete and precise: after deleting an existing task no row of
  any table refers to it, every row of another task is kept in its order, the runs' trace
  links are gone, and the agent runs it started are kept and marked with the deletion time.
\<close>

theorem delete_cascade:
  assumes "task_exists tid db"
  shows "\<exists>db'. delete_task_sync now tid db = (db', True) \<and> \<not> task_exists tid db' \<and>
    db_tasks db' = filter (\<lambda>t. t_id t \<noteq> tid) (db_tasks db) \<and>
    db_task_runs db' = filter (\<lambda>r. r_task_id r \<noteq> tid) (db_task_runs db) \<and>
    db_task_events db' = filter (\<lambda>e. e_task_id e \<noteq> tid) (db_task_events db) \<and>
    db_task_comments db' = filter (\<lambda>c. c_task_id c \<noteq> tid) (db_task_comments db) \<and>
    db_task_attachments db' = filter (\<lambda>a. a_task_id a \<noteq> tid) (db_task_attachments db) \<and>
    db_task_notify_subs db' = filter (\<lambda>n. n_task_id n \<noteq> tid) (db_task_notify_subs db) \<and>
    map_option length (db_agent_runs db') = map_option length (db_agent_runs db) \<and>
    (\<forall>rows. db_agent_runs db' = Some rows \<longrightarrow> (\<forall>r\<in>set (db_task_runs db). r_task_id r = tid \<longrightarrow>
       (\<forall>a\<in>set rows. ar_task_run_id a = Some (r_id r) \<longrightarrow> ar_business_owner_deleted_at a = Some now))) \<and>
    (\<forall>links. db_trace_links db' = Some links \<longrightarrow> (\<forall>r\<in>set (db_task_runs db). r_task_id r = tid \<longrightarrow>
       (\<forall>l\<in>set links. tl_biz_type l = ''task_run'' \<longrightarrow> tl_biz_id l \<noteq> int_text (r_id r))))"
proof -
  have ex: "0 < rowcount (\<lambda>t. t_id t = tid) (db_tasks db)"
    using assms by (auto simp: task_exists_def fetchone_None_iff rowcount_def filter_empty_conv)
  show ?thesis
    by (rule exI [of _ "fst (delete_task_sync now tid db)"])
       (use ex in \<open>auto simp: delete_task_sync_def Let_def sql_delete_def task_exists_def fetchone_None_iff
          set_sql_update option.map_comp o_def split: option.splits if_splits\<close>)
qed

theorem delete_cascade_witness:
  "\<exists>db'. delete_task_sync 60 ''t1'' waiting_db = (db', True) \<and> \<not> task_exists ''t1'' db' \<and>
     db_task_events db' = filter (\<lambda>e. e_task_id e \<noteq> ''t1'') (db_task_events waiting_db)"
proof -
  have "task_exists ''t1'' waiting_db" by code_simp
  from delete_cascade [OF this, of 60] show ?thesis by blast
qed

section \<open>Notification watermarks\<close>

text \<open>
  the watermark of a subscription only moves forward: an update keeps every subscription,
  never lowers a watermark, changes only the addressed one, and reports success exactly when
  it moved one.
\<close>

theorem watermark_monotone:
  assumes "update_notify_sub_last_event_sync now tid pf chat th i db = (db', moved)"
  shows "list_all2 (\<lambda>n n'. n_last_terminal_event_id n \<le> n_last_terminal_event_id n' \<and>
            (sub_matches tid pf chat th n \<longrightarrow> i \<le> n_last_terminal_event_id n') \<and>
            (\<not> sub_matches tid pf chat th n \<longrightarrow> n' = n))
          (db_task_notify_subs db) (db_task_notify_subs db') \<and>
         (moved \<longleftrightarrow> db_task_notify_subs db' \<noteq> db_task_notify_subs db)"
proof -
  let ?P = "\<lambda>n. sub_matches tid pf chat th n \<and> n_last_terminal_event_id n < i"
  let ?f = "\<lambda>n. n\<lparr>n_last_terminal_event_id := i, n_updated_at := now\<rparr>"
  have subs: "db_task_notify_subs db' = sql_update ?P ?f (db_task_notify_subs db)"
    and moved: "moved \<longleftrightarrow> (\<exists>n\<in>set (db_task_notify_subs db). ?P n)"
    using assms by (auto simp: update_notify_sub_last_event_sync_def Let_def rowcount_def filter_empty_conv)
  have "sql_update ?P ?f rows = rows \<longleftrightarrow> \<not> (\<exists>n\<in>set rows. ?P n)" for rows
    by (induction rows) (auto simp: sql_update_def dest: arg_cong [where f = n_last_terminal_event_id])
  then show ?thesis
    by (auto simp: subs moved sql_update_def list_all2_map2 list_all2_same)
qed

theorem watermark_monotone_witness:
  "let db = fst (subscribe_notify_sync 30 ''t1'' ''feishu'' ''c'' None waiting_db);
       (db', moved) = update_notify_sub_last_event_sync 31 ''t1'' ''feishu'' ''c'' None 3 db
   in moved = (db_task_notify_subs db' \<noteq> db_task_notify_subs db)"
  using watermark_monotone [of 31 "''t1''" "''feishu''" "''c''" None 3
      "fst (subscribe_notify_sync 30 ''t1'' ''feishu'' ''c'' None waiting_db)"]
  by (auto simp: Let_def)

end
