(* ===== verification/Task_Config.thy ===== *)
theory Task_Config
  imports Prelude
begin

text \<open>
  The task subsystem's runtime configuration (\<open>app/domain/task_config.py\<close>): the resolved
  configuration, the per-field overrides kept in the database with their JSON form, the
  cross-field validation and the merge of the overrides into the environment's values.
\<close>

datatype task_config_error = TaskConfigValidationError string | TaskConfigStoreError string

record TaskConfig =
  task_max_concurrency :: int
  task_lease_seconds :: int
  task_heartbeat_timeout_seconds :: int
  task_max_runtime_seconds :: int
  task_goal_max_turns :: int
  task_attachment_max_bytes :: int
  task_attachment_task_max_bytes :: int
  task_failure_limit :: int
  note_max_codepoints :: int

definition TaskConfig_default :: TaskConfig where
  "TaskConfig_default =
     \<lparr>task_max_concurrency = 4, task_lease_seconds = 900, task_heartbeat_timeout_seconds = 300,
      task_max_runtime_seconds = 3600, task_goal_max_turns = 10,
      task_attachment_max_bytes = 20 * 1024 * 1024,
      task_attachment_task_max_bytes = 100 * 1024 * 1024, task_failure_limit = 3,
      note_max_codepoints = 2000\<rparr>"

definition TASK_CONFIG_FIELDS :: "string list" where
  "TASK_CONFIG_FIELDS =
     [''task_max_concurrency'', ''task_lease_seconds'', ''task_heartbeat_timeout_seconds'',
      ''task_max_runtime_seconds'', ''task_goal_max_turns'', ''task_attachment_max_bytes'',
      ''task_attachment_task_max_bytes'', ''task_failure_limit'', ''note_max_codepoints'']"

text \<open>\<open>getattr\<close> and keyword construction by field name.\<close>

definition cfg_get :: "TaskConfig \<Rightarrow> string \<Rightarrow> int option" where
  "cfg_get c = map_of (zip TASK_CONFIG_FIELDS
     [task_max_concurrency c, task_lease_seconds c, task_heartbeat_timeout_seconds c,
      task_max_runtime_seconds c, task_goal_max_turns c, task_attachment_max_bytes c,
      task_attachment_task_max_bytes c, task_failure_limit c, note_max_codepoints c])"

record TaskConfigOverrides =
  ov_task_max_concurrency :: "int option"
  ov_task_lease_seconds :: "int option"
  ov_task_heartbeat_timeout_seconds :: "int option"
  ov_task_max_runtime_seconds :: "int option"
  ov_task_goal_max_turns :: "int option"
  ov_task_attachment_max_bytes :: "int option"
  ov_task_attachment_task_max_bytes :: "int option"
  ov_task_failure_limit :: "int option"
  ov_note_max_codepoints :: "int option"

definition ov_values :: "TaskConfigOverrides \<Rightarrow> int option list" where
  "ov_values v =
     [ov_task_max_concurrency v, ov_task_lease_seconds v, ov_task_heartbeat_timeout_seconds v,
      ov_task_max_runtime_seconds v, ov_task_goal_max_turns v, ov_task_attachment_max_bytes v,
      ov_task_attachment_task_max_bytes v, ov_task_failure_limit v, ov_note_max_codepoints v]"

definition overrides_of :: "(string \<rightharpoonup> int) \<Rightarrow> TaskConfigOverrides" where
  "overrides_of m =
     \<lparr>ov_task_max_concurrency = m ''task_max_concurrency'',
      ov_task_lease_seconds = m ''task_lease_seconds'',
      ov_task_heartbeat_timeout_seconds = m ''task_heartbeat_timeout_seconds'',
      ov_task_max_runtime_seconds = m ''task_max_runtime_seconds'',
      ov_task_goal_max_turns = m ''task_goal_max_turns'',
      ov_task_attachment_max_bytes = m ''task_attachment_max_bytes'',
      ov_task_attachment_task_max_bytes = m ''task_attachment_task_max_bytes'',
      ov_task_failure_limit = m ''task_failure_limit'',
      ov_note_max_codepoints = m ''note_max_codepoints''\<rparr>"

definition to_dict :: "TaskConfigOverrides \<Rightarrow> json" where
  "to_dict v = JObj (List.map_filter (\<lambda>(f, x). map_option (\<lambda>i. (f, JInt i)) x)
                 (zip TASK_CONFIG_FIELDS (ov_values v)))"

fun parse_overrides :: "(string \<times> json) list \<Rightarrow> task_config_error + (string \<times> int) list" where
  "parse_overrides [] = Inr []"
| "parse_overrides ((k, v) # kvs) =
     (if k \<notin> set TASK_CONFIG_FIELDS then Inl (TaskConfigStoreError ''unknown override key'')
      else case v of
             JInt i \<Rightarrow> (case parse_overrides kvs of Inl e \<Rightarrow> Inl e | Inr m \<Rightarrow> Inr ((k, i) # m))
           | _ \<Rightarrow> Inl (TaskConfigStoreError ''override must be int''))"

definition from_dict :: "json \<Rightarrow> task_config_error + TaskConfigOverrides" where
  "from_dict data =
     (case data of
        JObj kvs \<Rightarrow> (case parse_overrides kvs of Inl e \<Rightarrow> Inl e | Inr m \<Rightarrow> Inr (overrides_of (map_of m)))
      | _ \<Rightarrow> Inl (TaskConfigStoreError ''overrides must be a JSON object''))"

definition overridden_fields :: "TaskConfigOverrides \<Rightarrow> string list" where
  "overridden_fields v =
     List.map_filter (\<lambda>(f, x). map_option (\<lambda>_. f) x) (zip TASK_CONFIG_FIELDS (ov_values v))"

definition validate_task_config :: "TaskConfig \<Rightarrow> int \<Rightarrow> task_config_error option" where
  "validate_task_config cfg dispatch_interval_seconds =
     (case find (\<lambda>f. case cfg_get cfg f of Some v \<Rightarrow> v < 1 | None \<Rightarrow> True) TASK_CONFIG_FIELDS of
        Some f \<Rightarrow> Some (TaskConfigValidationError (''field must be >= 1: '' @ f))
      | None \<Rightarrow>
        if task_heartbeat_timeout_seconds cfg \<ge> task_lease_seconds cfg
        then Some (TaskConfigValidationError ''task_heartbeat_timeout_seconds must be less than task_lease_seconds'')
        else if task_attachment_task_max_bytes cfg < task_attachment_max_bytes cfg
        then Some (TaskConfigValidationError ''task_attachment_task_max_bytes must be >= task_attachment_max_bytes'')
        else if dispatch_interval_seconds \<ge> task_lease_seconds cfg
        then Some (TaskConfigValidationError ''task_lease_seconds must be greater than task_dispatch_interval_seconds'')
        else None)"

definition or_base :: "int option \<Rightarrow> int \<Rightarrow> int" where
  "or_base v base = (case v of None \<Rightarrow> base | Some i \<Rightarrow> i)"

definition merge_overrides :: "TaskConfig \<Rightarrow> TaskConfigOverrides \<Rightarrow> TaskConfig" where
  "merge_overrides base v =
     \<lparr>task_max_concurrency = or_base (ov_task_max_concurrency v) (task_max_concurrency base),
      task_lease_seconds = or_base (ov_task_lease_seconds v) (task_lease_seconds base),
      task_heartbeat_timeout_seconds =
        or_base (ov_task_heartbeat_timeout_seconds v) (task_heartbeat_timeout_seconds base),
      task_max_runtime_seconds = or_base (ov_task_max_runtime_seconds v) (task_max_runtime_seconds base),
      task_goal_max_turns = or_base (ov_task_goal_max_turns v) (task_goal_max_turns base),
      task_attachment_max_bytes =
        or_base (ov_task_attachment_max_bytes v) (task_attachment_max_bytes base),
      task_attachment_task_max_bytes =
        or_base (ov_task_attachment_task_max_bytes v) (task_attachment_task_max_bytes base),
      task_failure_limit = or_base (ov_task_failure_limit v) (task_failure_limit base),
      note_max_codepoints = or_base (ov_note_max_codepoints v) (note_max_codepoints base)\<rparr>"

section \<open>Correctness\<close>

lemma parse_map_filter:
  "set fs \<subseteq> set TASK_CONFIG_FIELDS \<Longrightarrow>
     parse_overrides (List.map_filter (\<lambda>(f, x). map_option (\<lambda>i. (f, JInt i)) x) (zip fs vs)) =
       Inr (List.map_filter (\<lambda>(f, x). map_option (\<lambda>i. (f, i)) x) (zip fs vs))"
proof (induction fs arbitrary: vs)
  case (Cons f fs)
  show ?case
  proof (cases vs)
    case (Cons v vs')
    with Cons.IH [of vs'] Cons.prems show ?thesis by (cases v) (simp_all add: map_filter_simps)
  qed (simp add: map_filter_simps)
qed (simp add: map_filter_simps)

lemma map_of_map_filter:
  "distinct fs \<Longrightarrow> length vs = length fs \<Longrightarrow> i < length fs \<Longrightarrow>
     map_of (List.map_filter (\<lambda>(f, x). map_option (\<lambda>i. (f, i)) x) (zip fs vs)) (fs ! i) = vs ! i"
proof (induction fs arbitrary: vs i)
  case (Cons f fs)
  obtain v vs' where vs: "vs = v # vs'" using Cons.prems(2) by (cases vs) auto
  let ?m = "List.map_filter (\<lambda>(f, x). map_option (\<lambda>i. (f, i)) x) (zip fs vs')"
  have "f \<notin> fst ` set ?m"
    using Cons.prems(1) by (force simp: map_filter_def dest: set_zip_leftD)
  then have none: "map_of ?m f = None" by (simp add: map_of_eq_None_iff)
  show ?case
  proof (cases i)
    case 0
    with vs none show ?thesis by (cases v) (simp_all add: map_filter_simps)
  next
    case (Suc j)
    with Cons.prems have "fs ! j \<noteq> f" by auto
    with Suc vs Cons.IH [of vs' j] Cons.prems show ?thesis by (cases v) (simp_all add: map_filter_simps)
  qed
qed simp

text \<open>
  the overrides survive the database: writing them as JSON and parsing that JSON gives
  them back, and the fields reported as overridden are exactly the keys written.
\<close>

theorem overrides_roundtrip:
  "from_dict (to_dict v) = Inr v \<and>
   (\<exists>kvs. to_dict v = JObj kvs \<and> map fst kvs = overridden_fields v)"
proof -
  let ?m = "List.map_filter (\<lambda>(f, x). map_option (\<lambda>i. (f, i)) x) (zip TASK_CONFIG_FIELDS (ov_values v))"
  have d: "distinct TASK_CONFIG_FIELDS" and l: "length (ov_values v) = length TASK_CONFIG_FIELDS"
    and n: "length TASK_CONFIG_FIELDS = 9"
    by (simp_all add: TASK_CONFIG_FIELDS_def ov_values_def)
  have look: "map_of ?m (TASK_CONFIG_FIELDS ! i) = ov_values v ! i" if "i < 9" for i
    using map_of_map_filter [OF d l, of i] that n by simp
  have "overrides_of (map_of ?m) = v"
    using look [of 0] look [of 1] look [of 2] look [of 3] look [of 4] look [of 5] look [of 6] look [of 7] look [of 8]
    by (simp add: overrides_of_def) (simp add: TASK_CONFIG_FIELDS_def ov_values_def)
  then have "from_dict (to_dict v) = Inr v"
    by (simp add: from_dict_def to_dict_def parse_map_filter)
  moreover have "map fst (List.map_filter (\<lambda>(f, x). map_option (\<lambda>i. (f, JInt i)) x) fvs) =
      List.map_filter (\<lambda>(f, x). map_option (\<lambda>_. f) x) fvs" for fvs
    by (induction fvs) (auto simp: map_filter_simps split: option.splits)
  ultimately show ?thesis by (simp add: to_dict_def overridden_fields_def)
qed

text \<open>
  an accepted configuration makes the timing of the subsystem sound: every field is
  positive, a heartbeat is missed and a tick happens before the lease runs out, and the hard
  timeout of a run, \<open>min(max_runtime, lease - 1)\<close>, is shorter than its lease. Overriding
  nothing keeps the environment's values, and an overridden field wins.
\<close>

theorem accepted_config_timing:
  assumes "validate_task_config cfg dispatch_interval = None"
  shows "(\<forall>f\<in>set TASK_CONFIG_FIELDS. \<exists>v. cfg_get cfg f = Some v \<and> 1 \<le> v) \<and>
    task_heartbeat_timeout_seconds cfg < task_lease_seconds cfg \<and>
    dispatch_interval < task_lease_seconds cfg \<and>
    task_attachment_max_bytes cfg \<le> task_attachment_task_max_bytes cfg \<and>
    min (task_max_runtime_seconds cfg) (task_lease_seconds cfg - 1) < task_lease_seconds cfg \<and>
    0 < min (task_max_runtime_seconds cfg) (task_lease_seconds cfg - 1) \<and>
    merge_overrides cfg (overrides_of (\<lambda>_. None)) = cfg \<and>
    (\<forall>i. task_lease_seconds (merge_overrides cfg (overrides_of [''task_lease_seconds'' \<mapsto> i])) = i)"
proof -
  have none: "find (\<lambda>f. case cfg_get cfg f of Some v \<Rightarrow> v < 1 | None \<Rightarrow> True) TASK_CONFIG_FIELDS = None"
    using assms by (auto simp: validate_task_config_def split: option.splits)
  then have pos: "\<forall>f\<in>set TASK_CONFIG_FIELDS. \<exists>v. cfg_get cfg f = Some v \<and> 1 \<le> v"
    by (auto simp: find_None_iff not_less split: option.splits)
  have "cfg_get cfg ''task_max_runtime_seconds'' = Some (task_max_runtime_seconds cfg)"
    "cfg_get cfg ''task_heartbeat_timeout_seconds'' = Some (task_heartbeat_timeout_seconds cfg)"
    by (simp_all add: cfg_get_def TASK_CONFIG_FIELDS_def)
  with pos have "1 \<le> task_max_runtime_seconds cfg" "1 \<le> task_heartbeat_timeout_seconds cfg"
    by (force simp: TASK_CONFIG_FIELDS_def)+
  with assms none pos show ?thesis
    by (auto simp: validate_task_config_def merge_overrides_def overrides_of_def or_base_def split: if_splits)
qed

theorem accepted_config_timing_witness:
  "validate_task_config TaskConfig_default 30 = None \<and>
   0 < min (task_max_runtime_seconds TaskConfig_default) (task_lease_seconds TaskConfig_default - 1)"
proof -
  have "validate_task_config TaskConfig_default 30 = None" by code_simp
  with accepted_config_timing [OF this] show ?thesis by blast
qed

end
