(* ===== verification/Task_Run_Service.thy ===== *)
theory Task_Run_Service
  imports Task_Decisions Task_Config
begin

text \<open>
  The run service (\<open>app/application/task_run_service.py\<close>) with its in-process dispatcher
  (\<open>app/application/task_runner.py\<close>): one dispatch tick (crash recovery, stale recovery,
  claim and spawn within the concurrency limit), the sole finalization path, and the user's
  terminate. The state is the database, the runner's tables, and the two output channels:
  the chat messages and the notifications delivered. Random identifiers come from a supply
  \<open>uuid\<close>; message texts are left out, what is written for which status is kept. Artifacts are
  not part of the model: their normalization only fills the \<open>artifacts\<close> of the finish command,
  which the registry ignores, and their callbacks run after the transaction, swallow their
  errors and never touch the task.
\<close>

section \<open>TaskRunner\<close>

datatype worker_handle = PENDING | DONE | CANCELLED_HANDLE

record worker_meta =
  wm_run_id :: int
  wm_task_id :: string
  wm_worker_token :: string

record crash_entry =
  ce_run_id :: int
  ce_task_id :: string
  ce_error :: string

record runner =
  rn_bound :: bool
  rn_running_workers :: "int \<rightharpoonup> worker_handle"
  rn_token_to_run :: "string \<rightharpoonup> int"
  rn_run_meta :: "(int \<times> worker_meta) list"
  rn_crashed :: "crash_entry list"

text \<open>\<open>dict[k] = v\<close> and \<open>dict.pop(k, None)\<close> on an insertion-ordered dict.\<close>

definition dict_set :: "'k \<Rightarrow> 'v \<Rightarrow> ('k \<times> 'v) list \<Rightarrow> ('k \<times> 'v) list" where
  "dict_set k v d = (if k \<in> fst ` set d then map (\<lambda>(k', v'). if k' = k then (k', v) else (k', v')) d
                     else d @ [(k, v)])"

definition dict_pop :: "'k \<Rightarrow> ('k \<times> 'v) list \<Rightarrow> ('k \<times> 'v) list" where
  "dict_pop k d = filter (\<lambda>(k', _). k' \<noteq> k) d"

definition worker_token_of :: "int \<Rightarrow> string \<Rightarrow> string" where
  "worker_token_of run_id hex = ''wt-'' @ int_text run_id @ ''-'' @ take 8 hex"

definition runner_spawn :: "string \<Rightarrow> Task \<Rightarrow> int \<Rightarrow> runner \<Rightarrow> runner \<times> string option" where
  "runner_spawn hex task run_id rn =
     (if \<not> rn_bound rn then (rn, None)
      else (let token = worker_token_of run_id hex
            in (rn\<lparr>rn_running_workers := (rn_running_workers rn)(run_id \<mapsto> PENDING),
                   rn_token_to_run := (rn_token_to_run rn)(token \<mapsto> run_id),
                   rn_run_meta := dict_set run_id
                     \<lparr>wm_run_id = run_id, wm_task_id = t_id task, wm_worker_token = token\<rparr>
                     (rn_run_meta rn)\<rparr>, Some token)))"

text \<open>The end of a worker coroutine: \<open>owner\<close> is whether it still owns its slot.\<close>

definition run_worker_end :: "Task \<Rightarrow> int \<Rightarrow> string \<Rightarrow> bool \<Rightarrow> bool \<Rightarrow> runner \<Rightarrow> runner" where
  "run_worker_end task run_id token crashed owner rn =
     (let rn1 = (if crashed
                 then rn\<lparr>rn_crashed := rn_crashed rn @
                   [\<lparr>ce_run_id = run_id, ce_task_id = t_id task, ce_error = ''worker task raised''\<rparr>]\<rparr>
                 else rn);
          rn2 = (if owner
                 then rn1\<lparr>rn_running_workers := (rn_running_workers rn1)(run_id := None),
                          rn_run_meta := dict_pop run_id (rn_run_meta rn1)\<rparr>
                 else rn1)
      in rn2\<lparr>rn_token_to_run := (rn_token_to_run rn2)(token := None)\<rparr>)"

definition runner_cancel :: "string \<Rightarrow> runner \<Rightarrow> runner \<times> bool" where
  "runner_cancel token rn =
     (case rn_token_to_run rn token of
        None \<Rightarrow> (rn, False)
      | Some run_id \<Rightarrow>
          if rn_running_workers rn run_id \<noteq> Some PENDING
          then (rn\<lparr>rn_token_to_run := (rn_token_to_run rn)(token := None)\<rparr>, False)
          else (rn\<lparr>rn_running_workers := (rn_running_workers rn)(run_id := None),
                   rn_run_meta := dict_pop run_id (rn_run_meta rn),
                   rn_token_to_run := (rn_token_to_run rn)(token := None)\<rparr>, True))"

text \<open>\<open>inspect\<close> drops the entries of finished workers and lists the others.\<close>

definition runner_purge :: "runner \<Rightarrow> runner" where
  "runner_purge rn =
     rn\<lparr>rn_running_workers := (\<lambda>i. if rn_running_workers rn i = Some DONE then None else rn_running_workers rn i),
        rn_run_meta := filter (\<lambda>(i, _). rn_running_workers rn i \<noteq> Some DONE) (rn_run_meta rn)\<rparr>"

definition runner_inspect :: "runner \<Rightarrow> runner \<times> worker_meta list" where
  "runner_inspect rn = (runner_purge rn, map snd (rn_run_meta (runner_purge rn)))"

definition get_crashed_workers :: "runner \<Rightarrow> runner \<times> crash_entry list" where
  "get_crashed_workers rn = (rn\<lparr>rn_crashed := []\<rparr>, rn_crashed rn)"

section \<open>Messages and state\<close>

record LifecycleCard =
  lc_task_id :: string
  lc_status :: TaskStatus
  lc_title :: string
  lc_summary :: "string option"  \<comment> \<open>\<open>None\<close>: the fixed text of an expired task\<close>
  lc_available_actions :: "string list"
  lc_interaction_type :: "string option"

datatype ui_msg =
    UiLifecycle string TaskStatus "LifecycleCard option"
  | UiResult string TaskStatus

record run_sys =
  rs_db :: task_db
  rs_runner :: runner
  rs_ui :: "ui_msg list"
  rs_delivered :: "(string \<times> int) list"

definition NOTIFIED_TARGET_STATUSES :: "TaskStatus list" where
  "NOTIFIED_TARGET_STATUSES = [TaskStatus.SUCCEEDED, TaskStatus.WAITING_APPROVAL, TaskStatus.FAILED,
     TaskStatus.CANCELLED, TaskStatus.EXPIRED]"

definition lifecycle_text_written :: "TaskStatus \<Rightarrow> bool" where
  "lifecycle_text_written st \<longleftrightarrow> st \<in> {TaskStatus.WAITING_APPROVAL, TaskStatus.SUCCEEDED, TaskStatus.FAILED,
     TaskStatus.CANCELLED, TaskStatus.EXPIRED}"

definition lifecycle_card ::
  "Task \<Rightarrow> TaskStatus \<Rightarrow> string option \<Rightarrow> string option \<Rightarrow> string option \<Rightarrow> LifecycleCard option" where
  "lifecycle_card task st summary err itype =
     (let actions = available_lifecycle_actions st itype in
      if actions = [] then None
      else Some
        \<lparr>lc_task_id = t_id task, lc_status = st, lc_title = t_title task,
         lc_summary =
           (if st = TaskStatus.WAITING_APPROVAL then py_or summary (Some '''')
            else if st = TaskStatus.FAILED then py_or err (py_or summary (Some ''''))
            else if st = TaskStatus.EXPIRED then py_or err (py_or summary None)
            else Some ''''),
         lc_available_actions = actions,
         lc_interaction_type =
           (if st = TaskStatus.WAITING_APPROVAL then py_or itype (Some ''approval'') else None)\<rparr>)"

definition terminal_result_written :: "TaskStatus \<Rightarrow> bool" where
  "terminal_result_written st \<longleftrightarrow>
     st \<in> {TaskStatus.SUCCEEDED, TaskStatus.FAILED, TaskStatus.CANCELLED, TaskStatus.EXPIRED}"

definition write_lifecycle_for_status ::
  "Task \<Rightarrow> TaskStatus \<Rightarrow> string option \<Rightarrow> string option \<Rightarrow> string option \<Rightarrow> run_sys \<Rightarrow> run_sys" where
  "write_lifecycle_for_status task st summary err itype s =
     (if lifecycle_text_written st
      then s\<lparr>rs_ui := rs_ui s @ [UiLifecycle (t_id task) st (lifecycle_card task st summary err itype)]\<rparr>
      else s)"

definition write_result_if_terminal :: "Task \<Rightarrow> TaskStatus \<Rightarrow> run_sys \<Rightarrow> run_sys" where
  "write_result_if_terminal task st s =
     (if terminal_result_written st then s\<lparr>rs_ui := rs_ui s @ [UiResult (t_id task) st]\<rparr> else s)"

definition notify_if_terminal :: "FinishRunResult \<Rightarrow> TaskStatus \<Rightarrow> run_sys \<Rightarrow> run_sys" where
  "notify_if_terminal res st s =
     (if st \<notin> set NOTIFIED_TARGET_STATUSES then s
      else s\<lparr>rs_delivered := rs_delivered s @ [(t_id (fr_task res), e_id (fr_terminal_event res))]\<rparr>)"

section \<open>Finalization\<close>

definition decide_target_status :: "Task \<Rightarrow> TaskRunOutcome \<Rightarrow> TaskStatus" where
  "decide_target_status task oc =
     (if oc = TaskRunOutcome.COMPLETED then TaskStatus.SUCCEEDED
      else if oc = TaskRunOutcome.WAITING_APPROVAL then TaskStatus.WAITING_APPROVAL
      else if oc = TaskRunOutcome.TERMINATED then TaskStatus.CANCELLED
      else if oc = TaskRunOutcome.ABORTED then TaskStatus.FAILED
      else if oc = TaskRunOutcome.EXPIRED then TaskStatus.EXPIRED
      else if oc \<in> {TaskRunOutcome.CRASHED, TaskRunOutcome.TIMED_OUT} then TaskStatus.EXPIRED
      else if TaskPolicy_evaluate \<lparr>tp_current = TaskStatus.RUNNING, tp_target = TaskStatus.QUEUED,
                tp_consecutive_failures = t_consecutive_failures task + 1,
                tp_max_retries = t_max_retries task\<rparr> = DENY
      then TaskStatus.FAILED
      else TaskStatus.QUEUED)"

definition svc_finish ::
  "datetime \<Rightarrow> Task \<Rightarrow> int \<Rightarrow> string \<Rightarrow> TaskRunOutcome \<Rightarrow> string option \<Rightarrow> string option \<Rightarrow> json
     \<Rightarrow> string option \<Rightarrow> run_sys \<Rightarrow> run_sys \<times> (task_error + FinishRunResult option)" where
  "svc_finish now task run_id lock oc summary err metadata itype s =
     (let target = decide_target_status task oc;
          (db', r) = finish_run_sync now
            \<lparr>fc_task_id = t_id task, fc_run_id = run_id, fc_claim_lock = lock, fc_outcome = oc,
             fc_summary = py_or summary (Some ''''), fc_metadata = metadata,
             fc_target_task_status = Some target, fc_error = err\<rparr> (rs_db s);
          s1 = s\<lparr>rs_db := db'\<rparr>
      in case r of
           Inl TaskConflictError \<Rightarrow> (s1, Inr None)
         | Inl TaskNotFoundError \<Rightarrow> (s1, Inr None)
         | Inl e \<Rightarrow> (s1, Inl e)
         | Inr res \<Rightarrow>
             (notify_if_terminal res target
               (write_result_if_terminal (fr_task res) target
                 (write_lifecycle_for_status (fr_task res) target summary err itype s1)),
              Inr (Some res)))"

record TaskAgentResult =
  ag_status :: TaskRunOutcome
  ag_output :: "string option"
  ag_error :: "string option"
  ag_metadata :: json

definition svc_finalize_run ::
  "datetime \<Rightarrow> Task \<Rightarrow> int \<Rightarrow> string \<Rightarrow> TaskAgentResult \<Rightarrow> run_sys \<Rightarrow> run_sys \<times> (task_error + FinishRunResult option)" where
  "svc_finalize_run now task run_id lock res s =
     svc_finish now task run_id lock (ag_status res)
       (py_or (ag_output res) (py_or (ag_error res) (Some ''''))) (ag_error res) (ag_metadata res) None s"

text \<open>
  What awaiting the executor under the hard timeout can do: return a result, time out, be cancelled by a run-level request,
  raise an exception, or be cancelled with the asyncio task of the worker (\<open>asyncio.CancelledError\<close>, which is no \<open>Exception\<close>:
  no handler takes it, the run is left to the recovery).
\<close>

datatype exec_outcome = Returned TaskAgentResult | TimedOut | RunCancelled | Raised string | ProcessCancelled

datatype claim_raise = Claim_Raised task_error | Claim_Cancelled

definition run_timeout :: "Task \<Rightarrow> TaskConfig \<Rightarrow> int" where
  "run_timeout task cfg =
     (let max_runtime = (case t_max_runtime_seconds task of
            Some m \<Rightarrow> if m = 0 then task_max_runtime_seconds cfg else m
          | None \<Rightarrow> task_max_runtime_seconds cfg)
      in min max_runtime (task_lease_seconds cfg - 1))"

definition agent_result_of :: "int \<Rightarrow> exec_outcome \<Rightarrow> TaskAgentResult option" where
  "agent_result_of timeout x =
     (case x of
        Returned res \<Rightarrow> Some res
      | TimedOut \<Rightarrow> Some \<lparr>ag_status = TaskRunOutcome.TIMED_OUT, ag_output = None,
                     ag_error = Some (''execution timed out after '' @ int_text timeout @ ''s''), ag_metadata = JObj []\<rparr>
      | RunCancelled \<Rightarrow> Some \<lparr>ag_status = TaskRunOutcome.TERMINATED, ag_output = None,
                         ag_error = Some ''terminated by request'', ag_metadata = JObj []\<rparr>
      | Raised msg \<Rightarrow> Some \<lparr>ag_status = TaskRunOutcome.CRASHED, ag_output = None,
                       ag_error = Some (''execution error: '' @ msg), ag_metadata = JObj []\<rparr>
      | ProcessCancelled \<Rightarrow> None)"

definition run_claim ::
  "datetime \<Rightarrow> TaskConfig \<Rightarrow> Task \<Rightarrow> int \<Rightarrow> string \<Rightarrow> exec_outcome \<Rightarrow> run_sys \<Rightarrow> run_sys \<times> (claim_raise + TaskRunOutcome)" where
  "run_claim now cfg task run_id lock x s =
     (let s0 = s\<lparr>rs_ui := rs_ui s @ [UiLifecycle (t_id task) TaskStatus.RUNNING None]\<rparr> in
      case agent_result_of (run_timeout task cfg) x of
        None \<Rightarrow> (s0, Inl Claim_Cancelled)
      | Some res \<Rightarrow>
          (case svc_finalize_run now task run_id lock res s0 of
             (s1, Inl e) \<Rightarrow> (s1, Inl (Claim_Raised e))
           | (s1, Inr _) \<Rightarrow> (s1, Inr (ag_status res))))"

section \<open>Workers\<close>

definition has_active_worker :: "int \<Rightarrow> runner \<Rightarrow> runner \<times> bool" where
  "has_active_worker run_id rn =
     (let (rn1, active) = runner_inspect rn in (rn1, list_ex (\<lambda>w. wm_run_id w = run_id) active))"

definition active_worker_count :: "runner \<Rightarrow> runner \<times> nat" where
  "active_worker_count rn = (let (rn1, active) = runner_inspect rn in (rn1, length active))"

definition cancel_worker_if_active :: "Task \<Rightarrow> int \<Rightarrow> runner \<Rightarrow> runner \<times> bool" where
  "cancel_worker_if_active task run_id rn =
     (let (rn1, has_active) = has_active_worker run_id rn in
      if \<not> has_active \<or> \<not> truthy (t_worker_token task) then (rn1, False)
      else case t_worker_token task of None \<Rightarrow> (rn1, False) | Some token \<Rightarrow> runner_cancel token rn1)"

definition lock_text :: "string option \<Rightarrow> string" where
  "lock_text l = (case l of None \<Rightarrow> '''' | Some cs \<Rightarrow> cs)"

definition finalize_propose ::
  "datetime \<Rightarrow> string \<Rightarrow> int \<Rightarrow> string \<Rightarrow> string option \<Rightarrow> string \<Rightarrow> run_sys \<Rightarrow> run_sys \<times> (task_error + string)" where
  "finalize_propose now tid run_id lock proposal ptype s =
     (case get_task_sync tid (rs_db s) of
        None \<Rightarrow> (s, Inl TaskNotFoundError)
      | Some task \<Rightarrow>
          (let (rn1, _) = cancel_worker_if_active task run_id (rs_runner s);
               (s2, r) = svc_finish now task run_id lock TaskRunOutcome.WAITING_APPROVAL
                           (py_or proposal (Some '''')) None (JObj []) (Some ptype) (s\<lparr>rs_runner := rn1\<rparr>)
           in case r of
                Inl e \<Rightarrow> (s2, Inl e)
              | Inr None \<Rightarrow> (s2, Inr ''conflict'')
              | Inr (Some _) \<Rightarrow> (s2, Inr ''finalized'')))"

text \<open>\<open>run_id or task.current_run_id\<close>: a run id 0 counts as absent.\<close>

definition or_run_id :: "int option \<Rightarrow> int option \<Rightarrow> int option" where
  "or_run_id a b = (case a of Some i \<Rightarrow> if i = 0 then b else Some i | None \<Rightarrow> b)"

definition terminate ::
  "datetime \<Rightarrow> string \<Rightarrow> int option \<Rightarrow> run_sys \<Rightarrow> run_sys \<times> (task_error + string)" where
  "terminate now tid run_id s =
     (case get_task_sync tid (rs_db s) of
        None \<Rightarrow> (s, Inl TaskNotFoundError)
      | Some task \<Rightarrow>
          if t_status task \<noteq> TaskStatus.RUNNING then (s, Inr ''not_running'')
          else (case or_run_id run_id (t_current_run_id task) of
             None \<Rightarrow> (s, Inr ''no_active_run'')
           | Some target_run_id \<Rightarrow>
               (let (rn1, cancelled) = cancel_worker_if_active task target_run_id (rs_runner s);
                    s1 = s\<lparr>rs_runner := rn1\<rparr>
                in if cancelled then
                     (let (s2, r) = svc_finish now task target_run_id (lock_text (t_claim_lock task))
                                TaskRunOutcome.TERMINATED None (Some ''terminated by request'') (JObj []) None s1
                      in case r of
                           Inl e \<Rightarrow> (s2, Inl e)
                         | Inr (Some _) \<Rightarrow> (s2, Inr ''terminated'')
                         | Inr None \<Rightarrow> (s2, Inr ''conflict''))
                   else
                     (let (db', r) = append_event_sync now tid ''terminate_requested''
                                       [(''run_id'', JInt target_run_id)] (Some target_run_id) (rs_db s1)
                      in case r of
                           Inl e \<Rightarrow> (s1\<lparr>rs_db := db'\<rparr>, Inl e)
                         | Inr _ \<Rightarrow> (s1\<lparr>rs_db := db'\<rparr>, Inr ''terminate_requested'')))))"

section \<open>Recovery\<close>

definition recovered_expired :: "FinishRunResult \<Rightarrow> run_sys \<Rightarrow> run_sys" where
  "recovered_expired res s =
     notify_if_terminal res TaskStatus.EXPIRED
       (write_result_if_terminal (fr_task res) TaskStatus.EXPIRED
         (write_lifecycle_for_status (fr_task res) TaskStatus.EXPIRED None None None s))"

definition recover_one ::
  "datetime \<Rightarrow> string \<Rightarrow> int \<Rightarrow> string \<Rightarrow> TaskRunOutcome \<Rightarrow> string \<Rightarrow> run_sys \<Rightarrow> run_sys \<times> (task_error + bool)" where
  "recover_one now tid run_id lock oc err s =
     (let (db', r) = recover_run_sync now
            \<lparr>rc_task_id = tid, rc_run_id = run_id, rc_claim_lock = lock, rc_outcome = oc,
             rc_error = Some err\<rparr> (rs_db s);
          s1 = s\<lparr>rs_db := db'\<rparr>
      in case r of
           Inr res \<Rightarrow> (recovered_expired res s1, Inr True)
         | Inl TaskConflictError \<Rightarrow> (s1, Inr False)
         | Inl TaskNotFoundError \<Rightarrow> (s1, Inr False)
         | Inl e \<Rightarrow> (s1, Inl e))"

fun recover_crashed_loop :: "datetime \<Rightarrow> crash_entry list \<Rightarrow> run_sys \<Rightarrow> run_sys \<times> (task_error + nat)" where
  "recover_crashed_loop now [] s = (s, Inr 0)"
| "recover_crashed_loop now (c # cs) s =
     (case get_task_sync (ce_task_id c) (rs_db s) of
        None \<Rightarrow> recover_crashed_loop now cs s
      | Some task \<Rightarrow>
          if t_status task \<noteq> TaskStatus.RUNNING then recover_crashed_loop now cs s
          else if t_current_run_id task \<noteq> Some (ce_run_id c) then recover_crashed_loop now cs s
          else (case recover_one now (ce_task_id c) (ce_run_id c) (lock_text (t_claim_lock task))
                       TaskRunOutcome.CRASHED (ce_error c) s of
                  (s1, Inl e) \<Rightarrow> (s1, Inl e)
                | (s1, Inr b) \<Rightarrow>
                    (case recover_crashed_loop now cs s1 of
                       (s2, Inl e) \<Rightarrow> (s2, Inl e)
                     | (s2, Inr n) \<Rightarrow> (s2, Inr (n + (if b then 1 else 0))))))"

definition recover_crashed_workers :: "datetime \<Rightarrow> run_sys \<Rightarrow> run_sys \<times> (task_error + nat)" where
  "recover_crashed_workers now s =
     (let (rn1, crashed) = get_crashed_workers (rs_runner s)
      in recover_crashed_loop now crashed (s\<lparr>rs_runner := rn1\<rparr>))"

text \<open>The decision to reclaim a running task, given whether its worker is alive here.\<close>

definition reclaim :: "datetime \<Rightarrow> TaskConfig \<Rightarrow> bool \<Rightarrow> Task \<Rightarrow> bool" where
  "reclaim now cfg has_worker task =
     (if has_worker then is_stale task now (task_heartbeat_timeout_seconds cfg)
      else case t_claim_expires task of None \<Rightarrow> True | Some e \<Rightarrow> \<not> e > now)"

fun recover_stale_loop ::
  "datetime \<Rightarrow> TaskConfig \<Rightarrow> Task list \<Rightarrow> run_sys \<Rightarrow> run_sys \<times> (task_error + nat)" where
  "recover_stale_loop now cfg [] s = (s, Inr 0)"
| "recover_stale_loop now cfg (task # ts) s =
     (case (t_claim_lock task, t_current_run_id task) of
        (Some lock, Some run_id) \<Rightarrow>
          (let (rn1, has_worker) = has_active_worker run_id (rs_runner s);
               s0 = s\<lparr>rs_runner := rn1\<rparr>
           in if \<not> reclaim now cfg has_worker task then recover_stale_loop now cfg ts s0
              else (case recover_one now (t_id task) run_id lock TaskRunOutcome.EXPIRED
                           ''lease expired or heartbeat stale'' s0 of
                      (s1, Inl e) \<Rightarrow> (s1, Inl e)
                    | (s1, Inr b) \<Rightarrow>
                        (case recover_stale_loop now cfg ts s1 of
                           (s2, Inl e) \<Rightarrow> (s2, Inl e)
                         | (s2, Inr n) \<Rightarrow> (s2, Inr (n + (if b then 1 else 0))))))
      | _ \<Rightarrow> recover_stale_loop now cfg ts s)"

definition recover_stale_executions ::
  "datetime \<Rightarrow> TaskConfig \<Rightarrow> run_sys \<Rightarrow> run_sys \<times> (task_error + nat)" where
  "recover_stale_executions now cfg s =
     recover_stale_loop now cfg (list_running_sync ''default'' (rs_db s)) s"

section \<open>Dispatch\<close>

definition claim_and_spawn ::
  "datetime \<Rightarrow> (nat \<Rightarrow> string) \<Rightarrow> Task \<Rightarrow> TaskConfig \<Rightarrow> run_sys \<Rightarrow> run_sys \<times> (task_error + string option)" where
  "claim_and_spawn now uuid task cfg s =
     (let lock = ''cl-'' @ take 12 (uuid 0) in
      case claim_task_sync now (uuid 1) (t_id task) lock (task_lease_seconds cfg) (rs_db s) of
        (db', Inl e) \<Rightarrow> (s\<lparr>rs_db := db'\<rparr>, Inl e)
      | (db', Inr None) \<Rightarrow> (s\<lparr>rs_db := db'\<rparr>, Inr None)
      | (db', Inr (Some claim)) \<Rightarrow>
          (let s1 = s\<lparr>rs_db := db'\<rparr> in
           case runner_spawn (uuid 2) (cr_task claim) (r_id (cr_run claim)) (rs_runner s1) of
             (rn1, Some token) \<Rightarrow> (s1\<lparr>rs_runner := rn1\<rparr>, Inr (Some token))
           | (rn1, None) \<Rightarrow>
               (case svc_finish now (cr_task claim) (r_id (cr_run claim))
                       (lock_text (r_claim_lock (cr_run claim))) TaskRunOutcome.SPAWN_FAILED None
                       (Some ''TaskRunner.run_service not bound; call set_run_service'') (JObj []) None
                       (s1\<lparr>rs_runner := rn1\<rparr>) of
                  (s2, Inl e) \<Rightarrow> (s2, Inl e)
                | (s2, Inr _) \<Rightarrow> (s2, Inr None))))"

fun dispatch_loop ::
  "datetime \<Rightarrow> (nat \<Rightarrow> string) \<Rightarrow> TaskConfig \<Rightarrow> nat \<Rightarrow> Task list \<Rightarrow> nat \<Rightarrow> nat \<Rightarrow> run_sys
     \<Rightarrow> run_sys \<times> nat \<times> nat" where
  "dispatch_loop now uuid cfg active [] spawned failures s = (s, spawned, failures)"
| "dispatch_loop now uuid cfg active (task # ts) spawned failures s =
     (if int (active + spawned) \<ge> task_max_concurrency cfg then (s, spawned, failures)
      else (case claim_and_spawn now uuid task cfg s of
              (s1, Inr (Some _)) \<Rightarrow> dispatch_loop now (\<lambda>n. uuid (n + 3)) cfg active ts (spawned + 1) failures s1
            | (s1, _) \<Rightarrow> dispatch_loop now (\<lambda>n. uuid (n + 3)) cfg active ts spawned (failures + 1) s1))"

record DispatchResult =
  dr_recovered_crashed :: nat
  dr_recovered_stale :: nat
  dr_spawned :: nat
  dr_spawn_failures :: nat

definition dispatch_once ::
  "datetime \<Rightarrow> (nat \<Rightarrow> string) \<Rightarrow> TaskConfig \<Rightarrow> run_sys \<Rightarrow> run_sys \<times> (task_error + DispatchResult)" where
  "dispatch_once now uuid cfg s =
     (case recover_crashed_workers now s of
        (s1, Inl e) \<Rightarrow> (s1, Inl e)
      | (s1, Inr nc) \<Rightarrow>
        (case recover_stale_executions now cfg s1 of
           (s2, Inl e) \<Rightarrow> (s2, Inl e)
         | (s2, Inr ns) \<Rightarrow>
           (let queued = list_queued_due_sync now 100 ''default'' (rs_db s2);
                queued_sorted = sort_key (\<lambda>t. (- t_priority t,
                  (case t_created_at t of None \<Rightarrow> now | Some c \<Rightarrow> c), t_id t)) queued;
                (rn3, active) = active_worker_count (rs_runner s2);
                (s4, spawned, failures) = dispatch_loop now uuid cfg active queued_sorted 0 0 (s2\<lparr>rs_runner := rn3\<rparr>)
            in (s4, Inr \<lparr>dr_recovered_crashed = nc, dr_recovered_stale = ns, dr_spawned = spawned,
                         dr_spawn_failures = failures\<rparr>))))"

end
