(* ===== verification/Task_Service.thy ===== *)
theory Task_Service
  imports Task_Run_Service
begin

text \<open>
  The task service (\<open>app/application/task_service.py\<close>): what users, routes and workers call.
  Each method is a state-and-error computation over the run system (database, runner,
  message channels), composed of the registry's transactions in the order the code awaits
  them; between two of them other transactions may run, so the theorems about a method hold
  for one uninterrupted call. \<open>run_service\<close> tells whether a run service is injected.
  Attachment files, artifact callbacks and the session store are outside the model.
\<close>

type_synonym 'a svc = "run_sys \<Rightarrow> run_sys \<times> (task_error + 'a)"

definition sret :: "'a \<Rightarrow> 'a svc" where
  "sret a s = (s, Inr a)"

definition sraise :: "task_error \<Rightarrow> 'a svc" where
  "sraise e s = (s, Inl e)"

definition sbind :: "'a svc \<Rightarrow> ('a \<Rightarrow> 'b svc) \<Rightarrow> 'b svc" where
  "sbind m f s = (case m s of (s', Inl e) \<Rightarrow> (s', Inl e) | (s', Inr a) \<Rightarrow> f a s')"

text \<open>A transaction of the registry.\<close>

definition sdb :: "(task_db \<Rightarrow> task_db \<times> (task_error + 'a)) \<Rightarrow> 'a svc" where
  "sdb f s = (let (db', r) = f (rs_db s) in (s\<lparr>rs_db := db'\<rparr>, r))"

text \<open>\<open>await ... except Exception: log\<close>: the value tells whether the call went through.\<close>

definition sattempt :: "'a svc \<Rightarrow> bool svc" where
  "sattempt m s = (case m s of (s', Inl _) \<Rightarrow> (s', Inr False) | (s', Inr _) \<Rightarrow> (s', Inr True))"

definition event :: "datetime \<Rightarrow> string \<Rightarrow> string \<Rightarrow> (string \<times> json) list \<Rightarrow> int option \<Rightarrow> TaskEvent svc" where
  "event now tid kind payload rid = sdb (append_event_sync now tid kind payload rid)"

definition svc_get_task :: "string \<Rightarrow> Task svc" where
  "svc_get_task tid s =
     (case get_task_sync tid (rs_db s) of None \<Rightarrow> (s, Inl TaskNotFoundError) | Some t \<Rightarrow> (s, Inr t))"

section \<open>Create, update, delete\<close>

text \<open>
  \<open>create_task\<close>: the caller's keyword arguments are the corresponding fields of \<open>spec\<close>;
  \<open>None\<close> for \<open>max_retries\<close> takes the configured limit. \<open>trigger\<close> is the run that calls.
\<close>

definition svc_create_task ::
  "datetime \<Rightarrow> string \<Rightarrow> TaskConfig \<Rightarrow> string option \<Rightarrow> json \<Rightarrow> Task \<Rightarrow> int option \<Rightarrow> Task svc" where
  "svc_create_task now hex cfg trigger trace spec max_retries =
     (if py_strip (t_title spec) = [] then sraise TaskValidationError
      else if t_board spec \<noteq> ''default'' then sraise TaskValidationError
      else
        (let task = (Task_new (''t_'' @ take 16 hex) (py_strip (t_title spec)))
              \<lparr>t_body := t_body spec, t_priority := t_priority spec, t_created_by := t_created_by spec,
               t_created_at := Some now, t_updated_at := Some now, t_version := 1,
               t_status := TaskStatus.QUEUED, t_board := t_board spec,
               t_origin_session_id := t_origin_session_id spec, t_scheduled_at := t_scheduled_at spec,
               t_skills := t_skills spec, t_execution_policy := t_execution_policy spec,
               t_workspace_kind := t_workspace_kind spec, t_workspace_path := t_workspace_path spec,
               t_model_override := t_model_override spec,
               t_max_runtime_seconds := t_max_runtime_seconds spec,
               t_max_retries := (case max_retries of None \<Rightarrow> task_failure_limit cfg | Some m \<Rightarrow> m),
               t_goal_mode := t_goal_mode spec, t_goal_max_turns := t_goal_max_turns spec,
               t_idempotency_key := t_idempotency_key spec, t_trace_context := trace,
               t_created_by_run_id := trigger, t_pending_trigger_run_id := trigger\<rparr>
         in sbind (sdb (create_task_sync now task)) (\<lambda>created.
            sbind (event now (t_id created) ''created'' [(''title'', JStr (t_title created))] None) (\<lambda>_.
            sret created))))"

fun names_trace_context :: "task_field \<Rightarrow> bool" where
  "names_trace_context (F_trace_context _) = True"
| "names_trace_context (F_other k) = (k = ''trace_context_json'')"
| "names_trace_context _ = False"

fun names_status :: "task_field \<Rightarrow> bool" where
  "names_status (F_status _) = True"
| "names_status _ = False"

definition svc_update_task :: "datetime \<Rightarrow> string \<Rightarrow> task_field list \<Rightarrow> int \<Rightarrow> Task svc" where
  "svc_update_task now tid flds v =
     (if list_ex names_trace_context flds then sraise TaskValidationError
      else sbind (svc_get_task tid) (\<lambda>task.
        if t_status task = TaskStatus.RUNNING then sraise TaskStateError
        else if list_ex names_status flds then sraise TaskStateError
        else sdb (update_task_sync now tid flds v)))"

fun bulk_precheck :: "BulkUpdateItem list \<Rightarrow> task_db \<Rightarrow> task_error option" where
  "bulk_precheck [] db = None"
| "bulk_precheck (i # is) db =
     (if list_ex names_trace_context (bu_fields i) then Some TaskValidationError
      else if list_ex names_status (bu_fields i) then Some TaskStateError
      else case get_task_sync (bu_task_id i) db of
             Some t \<Rightarrow> if t_status t = TaskStatus.RUNNING then Some TaskStateError else bulk_precheck is db
           | None \<Rightarrow> bulk_precheck is db)"

definition svc_bulk_update :: "datetime \<Rightarrow> BulkUpdateItem list \<Rightarrow> Task list svc" where
  "svc_bulk_update now items s =
     (case bulk_precheck items (rs_db s) of
        Some e \<Rightarrow> (s, Inl e)
      | None \<Rightarrow> sdb (bulk_update_sync now items) s)"

definition svc_delete_task :: "datetime \<Rightarrow> string \<Rightarrow> bool svc" where
  "svc_delete_task now tid =
     sbind (svc_get_task tid) (\<lambda>task.
       if t_status task = TaskStatus.RUNNING then sraise TaskStateError
       else sdb (\<lambda>db. let (db', deleted) = delete_task_sync now tid db in (db', Inr deleted)))"

text \<open>The page loop of \<open>delete_tasks_by_session\<close>; \<open>None\<close> when the fuel runs out.\<close>

definition of_session :: "string \<Rightarrow> Task \<Rightarrow> bool" where
  "of_session sid t \<longleftrightarrow> t_origin_session_id t = Some sid \<or> t_execution_session_id t = Some sid"

fun collect_session_tasks :: "nat \<Rightarrow> string \<Rightarrow> TaskListCursor option \<Rightarrow> task_db \<Rightarrow> string list option" where
  "collect_session_tasks 0 sid cursor db = None"
| "collect_session_tasks (Suc fuel) sid cursor db =
     (let page = list_tasks_sync ''default'' cursor 100 True db;
          ids = map t_id (filter (of_session sid) (page_items page))
      in case page_next_cursor page of
           None \<Rightarrow> Some ids
         | Some c \<Rightarrow> map_option (\<lambda>rest. ids @ rest) (collect_session_tasks fuel sid (Some c) db))"

fun delete_all :: "datetime \<Rightarrow> string list \<Rightarrow> unit svc" where
  "delete_all now [] = sret ()"
| "delete_all now (tid # tids) = sbind (svc_delete_task now tid) (\<lambda>_. delete_all now tids)"

text \<open>One page per iteration, so one more than the number of tasks is fuel enough.\<close>

definition svc_delete_tasks_by_session :: "datetime \<Rightarrow> string \<Rightarrow> nat svc" where
  "svc_delete_tasks_by_session now sid s =
     (if py_strip sid = [] then (s, Inl TaskValidationError)
      else case collect_session_tasks (Suc (length (db_tasks (rs_db s)))) sid None (rs_db s) of
             None \<Rightarrow> (s, Inl PyTypeError)
           | Some ids \<Rightarrow> sbind (delete_all now ids) (\<lambda>_. sret (length ids)) s)"

definition svc_set_archived :: "datetime \<Rightarrow> string \<Rightarrow> bool \<Rightarrow> int \<Rightarrow> Task svc" where
  "svc_set_archived now tid value v =
     sbind (svc_get_task tid) (\<lambda>task.
       if t_status task = TaskStatus.RUNNING then sraise TaskStateError
       else sdb (update_task_sync now tid [F_is_archived value] v))"

section \<open>Intent approval\<close>

definition svc_propose_change ::
  "bool \<Rightarrow> datetime \<Rightarrow> string \<Rightarrow> string \<Rightarrow> int \<Rightarrow> string \<Rightarrow> int svc" where
  "svc_propose_change run_service now tid proposal run_id ptype =
     (if py_strip proposal = [] then sraise TaskValidationError
      else if ptype \<noteq> ''approval'' \<and> ptype \<noteq> ''intent_request'' then sraise TaskValidationError
      else sbind (svc_get_task tid) (\<lambda>task.
        if t_status task \<noteq> TaskStatus.RUNNING then sraise TaskStateError
        else if t_current_run_id task \<noteq> Some run_id then sraise TaskStateError
        else if \<not> truthy (t_claim_lock task) then sraise TaskStateError
        else
          sbind (event now tid PROPOSAL_KIND
            [(''proposal'', JStr proposal), (''run_id'', JInt run_id), (''proposal_type'', JStr ptype)]
            (Some run_id)) (\<lambda>ev.
          sbind (if run_service
                 then sattempt (finalize_propose now tid run_id (lock_text (t_claim_lock task)) (Some proposal) ptype)
                 else sret False) (\<lambda>delegated.
          if delegated then sret (e_id ev)
          else (case propose_change task of
                  Inl e \<Rightarrow> sraise e
                | Inr updated \<Rightarrow>
                    sbind (sdb (update_task_sync now tid [F_status (t_status updated)] (t_version task))) (\<lambda>_.
                    sret (e_id ev)))))))"

definition normalize_note :: "bool \<Rightarrow> string option \<Rightarrow> int \<Rightarrow> task_error + string option" where
  "normalize_note required note note_max =
     (case note of
        None \<Rightarrow> if required then Inl TaskValidationError else Inr None
      | Some n \<Rightarrow>
          (let trimmed = py_strip n in
           if trimmed = [] then (if required then Inl TaskValidationError else Inr None)
           else if int (length trimmed) > note_max then Inl TaskValidationError
           else Inr (Some trimmed)))"

definition svc_resolve_proposal ::
  "datetime \<Rightarrow> TaskConfig \<Rightarrow> string \<Rightarrow> string \<Rightarrow> string \<Rightarrow> string option \<Rightarrow> bool \<Rightarrow> ProposalResolutionResult svc" where
  "svc_resolve_proposal now cfg tid dec kind note required =
     (if py_strip tid = [] then sraise TaskValidationError
      else case normalize_note required note (note_max_codepoints cfg) of
             Inl e \<Rightarrow> sraise e
           | Inr normalized \<Rightarrow>
               sbind (svc_get_task tid) (\<lambda>task.
                 if t_status task \<noteq> TaskStatus.WAITING_APPROVAL then sraise TaskStateError
                 else
                   sbind (sdb (resolve_proposal_sync now
                     \<lparr>pc_task_id = tid, pc_expected_version = t_version task, pc_decision = dec,
                      pc_event_kind = kind, pc_note = normalized\<rparr>)) (\<lambda>res s.
                   (s\<lparr>rs_ui := rs_ui s @ [UiLifecycle (t_id (pr_task res)) (t_status (pr_task res)) None]\<rparr>, Inr res))))"

definition approve_change :: "datetime \<Rightarrow> TaskConfig \<Rightarrow> string \<Rightarrow> string option \<Rightarrow> ProposalResolutionResult svc" where
  "approve_change now cfg tid note =
     svc_resolve_proposal now cfg tid ''approved'' ''change_approved'' note False"

definition reject_change :: "datetime \<Rightarrow> TaskConfig \<Rightarrow> string \<Rightarrow> string option \<Rightarrow> ProposalResolutionResult svc" where
  "reject_change now cfg tid note =
     svc_resolve_proposal now cfg tid ''rejected'' ''change_rejected'' note False"

definition revise_change :: "datetime \<Rightarrow> TaskConfig \<Rightarrow> string \<Rightarrow> string option \<Rightarrow> (ProposalResolutionResult \<times> string) svc" where
  "revise_change now cfg tid note =
     sbind (svc_resolve_proposal now cfg tid ''revised'' ''change_revised'' note True) (\<lambda>res.
     sbind (svc_get_task tid) (\<lambda>task. sret (res, t_title task)))"

section \<open>Cancel, retry\<close>

definition TaskStatus_value :: "TaskStatus \<Rightarrow> string" where
  "TaskStatus_value st =
     (case st of TaskStatus.QUEUED \<Rightarrow> ''queued'' | TaskStatus.RUNNING \<Rightarrow> ''running''
      | TaskStatus.WAITING_APPROVAL \<Rightarrow> ''waiting_approval'' | TaskStatus.SUCCEEDED \<Rightarrow> ''succeeded''
      | TaskStatus.FAILED \<Rightarrow> ''failed'' | TaskStatus.CANCELLED \<Rightarrow> ''cancelled''
      | TaskStatus.EXPIRED \<Rightarrow> ''expired'')"

text \<open>The \<open>try\<close> around terminate and its event: any exception falls through to the update.\<close>

definition cancel_running :: "datetime \<Rightarrow> string \<Rightarrow> TaskStatus \<Rightarrow> bool svc" where
  "cancel_running now tid source =
     sattempt (sbind (terminate now tid None) (\<lambda>_.
       event now tid ''cancelled'' [(''source'', JStr (TaskStatus_value source))] None))"

definition svc_cancel_task :: "bool \<Rightarrow> datetime \<Rightarrow> string \<Rightarrow> TaskStatus svc" where
  "svc_cancel_task run_service now tid =
     sbind (svc_get_task tid) (\<lambda>task.
       case Task_cancel now task of
         Inl e \<Rightarrow> sraise e
       | Inr _ \<Rightarrow>
           sbind (if t_status task = TaskStatus.RUNNING \<and> run_service
                  then cancel_running now tid (t_status task) else sret False) (\<lambda>done.
           if done then sret TaskStatus.CANCELLED
           else
             sbind (sdb (update_task_sync now tid [F_status TaskStatus.CANCELLED] (t_version task))) (\<lambda>_ s.
             sbind (event now tid ''cancelled'' [(''source'', JStr (TaskStatus_value (t_status task)))] None)
               (\<lambda>_. sret TaskStatus.CANCELLED)
               (s\<lparr>rs_ui := rs_ui s @ [UiLifecycle tid TaskStatus.CANCELLED None]\<rparr>))))"

definition svc_retry_task :: "datetime \<Rightarrow> string option \<Rightarrow> string \<Rightarrow> TaskStatus svc" where
  "svc_retry_task now trigger tid =
     sbind (svc_get_task tid) (\<lambda>task.
       case Task_retry task of
         Inl e \<Rightarrow> sraise e
       | Inr updated \<Rightarrow>
           sbind (sdb (update_task_sync now tid
             [F_status (t_status updated), F_claim_lock None, F_claim_expires None,
              F_current_run_id None, F_pending_trigger_run_id trigger] (t_version task))) (\<lambda>_.
           sbind (event now tid ''retried'' [(''source'', JStr (TaskStatus_value (t_status task)))] None) (\<lambda>_.
           sret (t_status updated))))"

section \<open>Worker-facing operations\<close>

definition active_claim :: "Task \<Rightarrow> bool" where
  "active_claim task \<longleftrightarrow> truthy (t_claim_lock task) \<and> t_current_run_id task \<noteq> None"

text \<open>
  \<open>complete\<close>: \<open>ref_ok\<close> is the injected validator of workspace references, applied to the
  \<open>storage_ref\<close> of every artifact that names one; a JSON value is serializable by
  construction.
\<close>

definition workspace_ref :: "json \<Rightarrow> string option" where
  "workspace_ref art =
     (case art of
        JObj kvs \<Rightarrow>
          (case map_of kvs ''storage_ref'' of
             Some (JStr r) \<Rightarrow> if take 10 r = ''workspace:'' then Some r else None
           | _ \<Rightarrow> None)
      | _ \<Rightarrow> None)"

definition svc_complete ::
  "datetime \<Rightarrow> (string \<Rightarrow> bool) option \<Rightarrow> string \<Rightarrow> string \<Rightarrow> json \<Rightarrow> json list \<Rightarrow> TaskEvent svc" where
  "svc_complete now ref_ok tid summary metadata artifacts =
     sbind (svc_get_task tid) (\<lambda>task.
       if t_status task \<noteq> TaskStatus.RUNNING then sraise TaskStateError
       else if \<not> active_claim task then sraise TaskStateError
       else if (case ref_ok of None \<Rightarrow> False
                | Some ok \<Rightarrow> list_ex (\<lambda>a. case workspace_ref a of None \<Rightarrow> False | Some r \<Rightarrow> \<not> ok r) artifacts)
       then sraise TaskValidationError
       else event now tid ''complete_requested''
              [(''outcome'', JStr ''completed''), (''summary'', JStr summary), (''metadata'', metadata),
               (''artifacts'', JList artifacts), (''task_id'', JStr tid),
               (''run_id'', case t_current_run_id task of None \<Rightarrow> JNull | Some i \<Rightarrow> JInt i)]
              (t_current_run_id task))"

definition svc_fail :: "datetime \<Rightarrow> string \<Rightarrow> string \<Rightarrow> TaskEvent svc" where
  "svc_fail now tid reason =
     sbind (svc_get_task tid) (\<lambda>task.
       if t_status task \<noteq> TaskStatus.RUNNING then sraise TaskStateError
       else if \<not> active_claim task then sraise TaskStateError
       else event now tid ''fail_requested''
              [(''outcome'', JStr ''aborted''),
               (''error'', JStr (if reason = [] then ''worker aborted'' else reason)), (''task_id'', JStr tid),
               (''run_id'', case t_current_run_id task of None \<Rightarrow> JNull | Some i \<Rightarrow> JInt i)]
              (t_current_run_id task))"

definition svc_heartbeat :: "datetime \<Rightarrow> string \<Rightarrow> string \<Rightarrow> unit svc" where
  "svc_heartbeat now tid note =
     sbind (svc_get_task tid) (\<lambda>task.
       if t_status task \<noteq> TaskStatus.RUNNING then sraise TaskStateError
       else case (t_claim_lock task, t_current_run_id task) of
              (Some lock, Some rid) \<Rightarrow>
                if lock = [] then sraise TaskStateError
                else
                  sbind (sdb (record_heartbeat_sync tid rid lock now)) (\<lambda>_.
                  if note = [] then sret ()
                  else sbind (event now tid ''heartbeat'' [(''note'', JStr note)] (Some rid)) (\<lambda>_. sret ()))
            | _ \<Rightarrow> sraise TaskStateError)"

definition svc_add_comment :: "datetime \<Rightarrow> string \<Rightarrow> string \<Rightarrow> string \<Rightarrow> string \<Rightarrow> TaskComment svc" where
  "svc_add_comment now cid tid body author =
     sbind (svc_get_task tid) (\<lambda>_.
     sbind (sdb (add_comment_sync now cid tid author body)) (\<lambda>c.
     sbind (event now tid ''comment_added'' [(''comment_id'', JStr (c_id c)), (''author'', JStr author)] None) (\<lambda>_.
     sret c)))"

definition svc_subscribe_notify :: "datetime \<Rightarrow> string \<Rightarrow> string \<Rightarrow> string \<Rightarrow> string option \<Rightarrow> bool svc" where
  "svc_subscribe_notify now tid platform chat th =
     sbind (svc_get_task tid) (\<lambda>_. sdb (subscribe_notify_sync now tid platform chat th))"

definition svc_unsubscribe_notify :: "string \<Rightarrow> string \<Rightarrow> string \<Rightarrow> string option \<Rightarrow> bool svc" where
  "svc_unsubscribe_notify tid platform chat th =
     sbind (svc_get_task tid) (\<lambda>_.
       sdb (\<lambda>db. let (db', b) = unsubscribe_notify_sync tid platform chat th db in (db', Inr b)))"

section \<open>Attachments\<close>

definition filename_char_ok :: "char \<Rightarrow> bool" where
  "filename_char_ok c \<longleftrightarrow> (let n = of_char c :: nat in
     n > 31 \<and> n \<noteq> 127 \<and> c \<notin> set ''/<>:|?*'' \<and> n \<noteq> 92)"

text \<open>
  \<open>_validate_attachment_filename\<close>. Python's \<open>$\<close> also matches before a final newline, so
  both regular expressions are tried on the name with one trailing newline dropped.
\<close>

definition re_all :: "(char \<Rightarrow> bool) \<Rightarrow> string \<Rightarrow> bool" where
  "re_all P s \<longleftrightarrow> (s \<noteq> [] \<and> list_all P s) \<or>
     (s \<noteq> [] \<and> last s = CHR 0x0A \<and> butlast s \<noteq> [] \<and> list_all P (butlast s))"

definition filename_valid :: "string \<Rightarrow> bool" where
  "filename_valid f \<longleftrightarrow> f \<noteq> [] \<and> py_strip f \<noteq> [] \<and> \<not> re_all (\<lambda>c. c = CHR ''.'') f \<and>
     re_all filename_char_ok f \<and> CHR ''/'' \<notin> set f \<and> CHR 0x5C \<notin> set f"

definition svc_upload_attachment ::
  "bool \<Rightarrow> datetime \<Rightarrow> string \<Rightarrow> string \<Rightarrow> TaskConfig \<Rightarrow> TaskAttachment \<Rightarrow> TaskAttachment svc" where
  "svc_upload_attachment root_configured now aid hex cfg spec =
     sbind (svc_get_task (a_task_id spec)) (\<lambda>_ s.
       if \<not> filename_valid (a_filename spec) then (s, Inl TaskValidationError)
       else if a_size spec > task_attachment_max_bytes cfg then (s, Inl TaskValidationError)
       else if sum_list (map a_size (list_attachments_sync (a_task_id spec) (rs_db s))) + a_size spec
               > task_attachment_task_max_bytes cfg then (s, Inl TaskValidationError)
       else if \<not> root_configured then (s, Inl TaskStateError)
       else
         sbind (sdb (add_attachment_sync now aid
           (spec\<lparr>a_stored_name := take 16 hex @ ''_'' @ a_filename spec\<rparr>))) (\<lambda>att.
         sbind (event now (a_task_id spec) ''attachment_uploaded''
           [(''attachment_id'', JStr (a_id att)), (''filename'', JStr (a_filename spec))] None) (\<lambda>_.
         sret att)) s)"

end
