(* ===== verification/Task_Run_Theorems.thy ===== *)
theory Task_Run_Theorems
  imports Task_Run_Service
begin

text \<open>
  The properties of the run service: where a finished run sends its task, the concurrency
  bound of a dispatch tick, recovery of stale executions, and what terminate does to a
  worker of this process.
\<close>

section \<open>Target status\<close>

text \<open>
  whatever the outcome of a run, the service sends the task along a legal transition out
  of \<open>RUNNING\<close> (so never back to \<open>RUNNING\<close>), and it decides as the registry would by
  default, but for a deliberate abort, which fails the task without a retry.
\<close>

theorem decide_target_status_legal:
  "decide_target_status t oc \<in> TASK_TRANSITION_TABLE TaskStatus.RUNNING \<and>
   decide_target_status t oc =
     (if oc = TaskRunOutcome.ABORTED then TaskStatus.FAILED
      else outcome_to_task_status oc
             (if increment_failures oc then t_consecutive_failures t + 1 else t_consecutive_failures t)
             (t_max_retries t))"
  by (cases oc)
     (simp_all add: decide_target_status_def outcome_to_task_status_def increment_failures_def TaskPolicy_evaluate_def)

lemma decide_not_running: "decide_target_status t oc \<noteq> TaskStatus.RUNNING"
  by (auto simp: decide_target_status_def)

section \<open>Frames\<close>

lemma write_frames [simp]:
  "rs_db (write_lifecycle_for_status t st sm err it s) = rs_db s"
  "rs_runner (write_lifecycle_for_status t st sm err it s) = rs_runner s"
  "rs_db (write_result_if_terminal t st s) = rs_db s"
  "rs_runner (write_result_if_terminal t st s) = rs_runner s"
  "rs_db (notify_if_terminal res st s) = rs_db s"
  "rs_runner (notify_if_terminal res st s) = rs_runner s"
  by (simp_all add: write_lifecycle_for_status_def write_result_if_terminal_def notify_if_terminal_def)

lemma svc_finish_runner [simp]:
  "rs_runner (fst (svc_finish now task i lock oc sm err md it s)) = rs_runner s"
  by (auto simp: svc_finish_def Let_def split: prod.splits sum.splits task_error.splits)

lemma recover_one_runner [simp]: "rs_runner (fst (recover_one now tid i lock oc err s)) = rs_runner s"
  by (auto simp: recover_one_def recovered_expired_def Let_def split: prod.splits sum.splits task_error.splits)

lemma purge_idem: "runner_purge (runner_purge rn) = runner_purge rn"
  by (rule runner.equality) (auto simp: runner_purge_def fun_eq_iff intro!: filter_cong)

lemma has_active_worker_purge:
  "fst (has_active_worker i rn) = runner_purge rn"
  "snd (has_active_worker i (runner_purge rn)) = snd (has_active_worker i rn)"
  by (simp_all add: has_active_worker_def runner_inspect_def purge_idem)

lemma purge_meta: "length (rn_run_meta (runner_purge rn)) \<le> length (rn_run_meta rn)"
  by (simp add: runner_purge_def)

section \<open>Concurrency\<close>

lemma length_dict_set: "length (dict_set k v d) \<le> Suc (length d)"
  by (simp add: dict_set_def)

lemma claim_and_spawn_meta:
  assumes "claim_and_spawn now uuid task cfg s = (s', r)"
  shows "length (rn_run_meta (rs_runner s')) \<le>
    length (rn_run_meta (rs_runner s)) + (case r of Inr (Some _) \<Rightarrow> 1 | _ \<Rightarrow> 0)"
proof -
  have fin: "rs_runner s2 = rn1" if "svc_finish now t i l oc sm err md it (s1\<lparr>rs_runner := rn1\<rparr>) = (s2, x)"
    for t i l oc sm err md it s1 rn1 s2 x
    using svc_finish_runner [of now t i l oc sm err md it "s1\<lparr>rs_runner := rn1\<rparr>"] that by simp
  show ?thesis
    using assms
    by (auto simp: claim_and_spawn_def runner_spawn_def Let_def length_dict_set dest!: fin
        split: prod.splits sum.splits option.splits if_splits)
qed

lemma dispatch_loop_bound:
  "dispatch_loop now uuid cfg active ts spawned failures s = (s', spawned', failures') \<Longrightarrow>
     length (rn_run_meta (rs_runner s)) \<le> active + spawned \<Longrightarrow>
     length (rn_run_meta (rs_runner s')) \<le> active + spawned' \<and>
     int (active + spawned') \<le> max (int (active + spawned)) (task_max_concurrency cfg)"
proof (induction ts arbitrary: uuid spawned failures s)
  case Nil
  then show ?case by simp
next
  case (Cons task ts)
  show ?case
  proof (cases "task_max_concurrency cfg \<le> int (active + spawned)")
    case True
    with Cons.prems show ?thesis by simp
  next
    case False
    obtain s1 r where cs: "claim_and_spawn now uuid task cfg s = (s1, r)" by (cases "claim_and_spawn now uuid task cfg s")
    note m = claim_and_spawn_meta [OF cs]
    show ?thesis
    proof (cases "\<exists>tok. r = Inr (Some tok)")
      case True
      then have "dispatch_loop now (\<lambda>n. uuid (n + 3)) cfg active ts (spawned + 1) failures s1 = (s', spawned', failures')"
        "length (rn_run_meta (rs_runner s1)) \<le> active + (spawned + 1)"
        using Cons.prems False m by (auto simp: cs)
      from Cons.IH [OF this] False show ?thesis by auto
    next
      case nospawn: False
      then have "dispatch_loop now (\<lambda>n. uuid (n + 3)) cfg active ts spawned (failures + 1) s1 = (s', spawned', failures')"
        "length (rn_run_meta (rs_runner s1)) \<le> active + spawned"
        using Cons.prems False m by (auto simp: cs split: sum.splits option.splits)
      from Cons.IH [OF this] show ?thesis .
    qed
  qed
qed

lemma recover_crashed_loop_runner: "rs_runner (fst (recover_crashed_loop now cs s)) = rs_runner s"
proof (induction cs arbitrary: s)
  case (Cons c cs)
  have "rs_runner s1 = rs_runner s" if "recover_one now tid i l oc err s = (s1, r)" for tid i l oc err s1 r
    using recover_one_runner [of now tid i l oc err s] that by simp
  then show ?case
    using Cons.IH by (auto split: option.splits prod.splits sum.splits) (metis fst_conv)+
qed simp

definition expire_one :: "datetime \<Rightarrow> Task \<Rightarrow> int \<Rightarrow> string \<Rightarrow> run_sys \<Rightarrow> run_sys \<times> (task_error + bool)" where
  "expire_one now t i lock s =
     recover_one now (t_id t) i lock TaskRunOutcome.EXPIRED ''lease expired or heartbeat stale''
       (s\<lparr>rs_runner := runner_purge (rs_runner s)\<rparr>)"

lemma recover_stale_step:
  assumes "t_claim_lock t = Some lock" and "t_current_run_id t = Some i"
  shows "fst (recover_stale_loop now cfg (t # ts) s) =
    (if \<not> reclaim now cfg (snd (has_active_worker i (rs_runner s))) t
     then fst (recover_stale_loop now cfg ts (s\<lparr>rs_runner := runner_purge (rs_runner s)\<rparr>))
     else if isl (snd (expire_one now t i lock s)) then fst (expire_one now t i lock s)
     else fst (recover_stale_loop now cfg ts (fst (expire_one now t i lock s))))"
proof -
  obtain b where haw: "has_active_worker i (rs_runner s) = (runner_purge (rs_runner s), b)"
    using has_active_worker_purge(1) by (metis prod.collapse)
  obtain s1 r where "expire_one now t i lock s = (s1, r)" by (cases "expire_one now t i lock s")
  then show ?thesis
    by (auto simp: assms haw expire_one_def split: prod.splits sum.splits)
qed

lemma expire_one_runner: "rs_runner (fst (expire_one now t i lock s)) = runner_purge (rs_runner s)"
  by (simp add: expire_one_def)

lemma recover_stale_skip:
  "t_claim_lock t = None \<or> t_current_run_id t = None \<Longrightarrow>
     recover_stale_loop now cfg (t # ts) s = recover_stale_loop now cfg ts s"
  by (auto split: option.splits)

lemma recover_stale_loop_meta:
  "length (rn_run_meta (rs_runner (fst (recover_stale_loop now cfg ts s)))) \<le> length (rn_run_meta (rs_runner s))"
proof (induction ts arbitrary: s)
  case Nil
  then show ?case by simp
next
  case (Cons t ts)
  note pm = purge_meta [of "rs_runner s"]
  show ?case
  proof (cases "t_claim_lock t = None \<or> t_current_run_id t = None")
    case True
    with Cons.IH [of s] show ?thesis by (simp only: recover_stale_skip)
  next
    case False
    then obtain lock i where li: "t_claim_lock t = Some lock" "t_current_run_id t = Some i" by auto
    have r: "rs_runner (fst (expire_one now t i lock s)) = runner_purge (rs_runner s)"
      by (rule expire_one_runner)
    from Cons.IH [of "s\<lparr>rs_runner := runner_purge (rs_runner s)\<rparr>"] Cons.IH [of "fst (expire_one now t i lock s)"] pm r
    show ?thesis unfolding recover_stale_step [OF li] by (simp add: r)
  qed
qed

text \<open>
  C24: a dispatch tick respects the global limit: afterwards the process runs at most
  \<open>task_max_concurrency\<close> workers, or no more than it ran before if the limit was already
  exceeded.
\<close>

theorem dispatch_respects_concurrency:
  assumes "dispatch_once now uuid cfg s = (s', Inr r)"
  shows "int (length (rn_run_meta (rs_runner s'))) \<le>
           max (int (length (rn_run_meta (rs_runner s)))) (task_max_concurrency cfg)"
proof -
  obtain s1 nc where 1: "recover_crashed_workers now s = (s1, Inr nc)"
    using assms by (auto simp: dispatch_once_def split: prod.splits sum.splits)
  obtain s2 ns where 2: "recover_stale_executions now cfg s1 = (s2, Inr ns)"
    using assms by (auto simp: dispatch_once_def 1 split: prod.splits sum.splits)
  let ?q = "sort_key (\<lambda>t. (- t_priority t, (case t_created_at t of None \<Rightarrow> now | Some c \<Rightarrow> c), t_id t))
      (list_queued_due_sync now 100 ''default'' (rs_db s2))"
  let ?rn = "runner_purge (rs_runner s2)"
  obtain sp fl where 4: "dispatch_loop now uuid cfg (length (rn_run_meta ?rn)) ?q 0 0 (s2\<lparr>rs_runner := ?rn\<rparr>) = (s', sp, fl)"
    using assms by (auto simp: dispatch_once_def 1 2 Let_def active_worker_count_def runner_inspect_def split: prod.splits)
  have "length (rn_run_meta (rs_runner s1)) = length (rn_run_meta (rs_runner s))"
    using 1 recover_crashed_loop_runner [of now "rn_crashed (rs_runner s)" "s\<lparr>rs_runner := (rs_runner s)\<lparr>rn_crashed := []\<rparr>\<rparr>"]
    by (simp add: recover_crashed_workers_def get_crashed_workers_def)
  moreover have "length (rn_run_meta (rs_runner s2)) \<le> length (rn_run_meta (rs_runner s1))"
    using 2 recover_stale_loop_meta [of now cfg "list_running_sync ''default'' (rs_db s1)" s1]
    by (simp add: recover_stale_executions_def)
  ultimately show ?thesis
    using dispatch_loop_bound [OF 4] purge_meta [of "rs_runner s2"] by auto
qed

definition idle_runner :: runner where
  "idle_runner = \<lparr>rn_bound = True, rn_running_workers = (\<lambda>_. None), rn_token_to_run = (\<lambda>_. None),
     rn_run_meta = [], rn_crashed = []\<rparr>"

definition demo_sys :: "task_db \<Rightarrow> run_sys" where
  "demo_sys db = \<lparr>rs_db = db, rs_runner = idle_runner, rs_ui = [], rs_delivered = []\<rparr>"

theorem dispatch_respects_concurrency_witness:
  "let (s', r) = dispatch_once 20 (\<lambda>n. ''aaaa'') TaskConfig_default (demo_sys demo_db)
   in length (rn_run_meta (rs_runner s')) = 1 \<and> int (length (rn_run_meta (rs_runner s'))) \<le> 4"
proof -
  let ?d = "dispatch_once 20 (\<lambda>n. ''aaaa'') TaskConfig_default (demo_sys demo_db)"
  have ok: "length (rn_run_meta (rs_runner (fst ?d))) = 1"
    "case snd ?d of Inr r \<Rightarrow> dr_spawned r = 1 | Inl _ \<Rightarrow> False" by code_simp+
  then obtain r where "?d = (fst ?d, Inr r)" by (auto simp: prod_eq_iff split: sum.splits)
  from dispatch_respects_concurrency [OF this] ok(1) show ?thesis
    by (simp add: split_beta demo_sys_def idle_runner_def TaskConfig_default_def Let_def)
qed

section \<open>Stale executions\<close>

lemma finalize_frame:
  assumes "finalize_run now tid rid lock oc sm md err rec target db = (db', Inr fr)" and "k \<noteq> tid"
  shows "get_task_sync k db' = get_task_sync k db"
proof -
  obtain Q f where "db_tasks db' = sql_update (\<lambda>t. t_id t = tid \<and> Q t) f (db_tasks db)" "\<And>t. t_id (f t) = t_id t"
    using assms(1) by (auto simp: finalize_run_def Let_def finished_row_keys split: option.splits sum.splits if_split_asm)
  moreover have "fetchone (\<lambda>t. t_id t = k) rows = Some t \<Longrightarrow> t_id t = k" for rows and t :: Task
    using fetchone_SomeD [of "\<lambda>t. t_id t = k" rows t] by simp
  ultimately show ?thesis
    using assms(2) by (cases "fetchone (\<lambda>t. t_id t = k) (db_tasks db)") (auto simp: get_task_sync_def fetchone_key_sql_update)
qed

lemma running_lease:
  assumes inv: "lease_inv db" and t: "get_task_sync tid db = Some t" and run: "t_status t = TaskStatus.RUNNING"
  obtains i lock where "t_current_run_id t = Some i" "t_claim_lock t = Some lock" "leases db tid = Some (i, lock)"
proof -
  from t have t_in: "t \<in> set (db_tasks db)" and id: "t_id t = tid"
    by (auto simp: get_task_sync_def dest: fetchone_SomeD)
  have tv: "(tid, Some (t_current_run_id t, t_claim_lock t)) \<in> set (map tview (db_tasks db))"
    using t_in id run by (force simp: tview_def)
  from lease_rel_running_task [OF lease_rel_of [OF inv] tv] obtain i lock where
    "t_current_run_id t = Some i" "t_claim_lock t = Some lock" by blast
  with tv show thesis using view_holder_eq [OF lease_rel_of [OF inv]] that by (simp add: leases_def)
qed

lemma expire_one_ok:
  assumes inv: "lease_inv (rs_db s)" and t: "get_task_sync (t_id t) (rs_db s) = Some t"
    and "t_status t = TaskStatus.RUNNING" and li: "t_claim_lock t = Some lock" "t_current_run_id t = Some i"
  shows "\<not> isl (snd (expire_one now t i lock s))"
    and "lease_inv (rs_db (fst (expire_one now t i lock s)))"
    and "\<exists>u. get_task_sync (t_id t) (rs_db (fst (expire_one now t i lock s))) = Some u \<and> t_status u = TaskStatus.EXPIRED"
    and "k \<noteq> t_id t \<Longrightarrow> get_task_sync k (rs_db (fst (expire_one now t i lock s))) = get_task_sync k (rs_db s)"
proof -
  have held: "leases (rs_db s) (t_id t) = Some (i, lock)"
    using running_lease [OF inv t assms(3)] li by auto
  obtain db' fr r where fin: "finalize_run now (t_id t) i lock TaskRunOutcome.EXPIRED None (JObj [])
      (Some ''lease expired or heartbeat stale'') True None (rs_db s) = (db', Inr fr)"
    and get: "get_task_sync (t_id t) db' = Some (fr_task fr)"
    and row: "fr_task fr = finished_row now TaskRunOutcome.EXPIRED None (Some ''lease expired or heartbeat stale'')
        TaskStatus.EXPIRED (t_consecutive_failures t) t"
    by (rule finish_by_holder [where oc = TaskRunOutcome.EXPIRED and target = None and now = now and sm = None
          and md = "JObj []" and rec = True and err = "Some ''lease expired or heartbeat stale''", OF inv held t refl refl])
       (simp_all add: outcome_to_task_status_def increment_failures_def)
  have task: "get_task_sync (t_id t) db' = Some (fr_task fr)" "t_status (fr_task fr) = TaskStatus.EXPIRED"
    using get by (simp_all add: row finished_row_def Let_def)
  have e: "expire_one now t i lock s =
      (recovered_expired fr (s\<lparr>rs_runner := runner_purge (rs_runner s), rs_db := db'\<rparr>), Inr True)"
    by (simp add: expire_one_def recover_one_def recover_run_sync_def fin)
  show "\<not> isl (snd (expire_one now t i lock s))" by (simp add: e)
  have db: "rs_db (fst (expire_one now t i lock s)) = db'" by (simp add: e recovered_expired_def)
  show "lease_inv (rs_db (fst (expire_one now t i lock s)))"
    using finish_effect [OF inv _ fin] by (simp add: db lease_effect_def)
  show "\<exists>u. get_task_sync (t_id t) (rs_db (fst (expire_one now t i lock s))) = Some u \<and> t_status u = TaskStatus.EXPIRED"
    using task by (simp add: db)
  show "k \<noteq> t_id t \<Longrightarrow> get_task_sync k (rs_db (fst (expire_one now t i lock s))) = get_task_sync k (rs_db s)"
    using finalize_frame [OF fin] by (simp add: db)
qed

definition worker_alive :: "run_sys \<Rightarrow> Task \<Rightarrow> bool" where
  "worker_alive s t \<longleftrightarrow> (case t_current_run_id t of None \<Rightarrow> False | Some i \<Rightarrow> snd (has_active_worker i (rs_runner s)))"

lemma worker_alive_purge: "rs_runner s' = runner_purge (rs_runner s) \<Longrightarrow> worker_alive s' t = worker_alive s t"
  by (simp add: worker_alive_def has_active_worker_purge split: option.split)

definition stale_outcome :: "datetime \<Rightarrow> TaskConfig \<Rightarrow> bool \<Rightarrow> Task \<Rightarrow> Task option \<Rightarrow> bool" where
  "stale_outcome now cfg alive t row =
     (if reclaim now cfg alive t then \<exists>u. row = Some u \<and> t_status u = TaskStatus.EXPIRED else row = Some t)"

lemma recover_stale_loop_outcome:
  assumes "lease_inv (rs_db s)" and "distinct (map t_id ts)"
    and "\<forall>t\<in>set ts. get_task_sync (t_id t) (rs_db s) = Some t \<and> t_status t = TaskStatus.RUNNING"
  shows "(\<forall>t\<in>set ts. stale_outcome now cfg (worker_alive s t) t
            (get_task_sync (t_id t) (rs_db (fst (recover_stale_loop now cfg ts s))))) \<and>
         (\<forall>k. k \<notin> t_id ` set ts \<longrightarrow>
            get_task_sync k (rs_db (fst (recover_stale_loop now cfg ts s))) = get_task_sync k (rs_db s))"
  using assms
proof (induction ts arbitrary: s)
  case Nil
  then show ?case by simp
next
  case (Cons t ts)
  from Cons.prems have t: "get_task_sync (t_id t) (rs_db s) = Some t" "t_status t = TaskStatus.RUNNING" by auto
  obtain i lock where li: "t_claim_lock t = Some lock" "t_current_run_id t = Some i"
    using running_lease [OF Cons.prems(1) t] by blast
  define s1 where "s1 = (if reclaim now cfg (worker_alive s t) t then fst (expire_one now t i lock s)
      else s\<lparr>rs_runner := runner_purge (rs_runner s)\<rparr>)"
  note e = expire_one_ok [OF Cons.prems(1) t li, where now = now]
  have step: "fst (recover_stale_loop now cfg (t # ts) s) = fst (recover_stale_loop now cfg ts s1)"
    using e(1) unfolding recover_stale_step [OF li] by (simp add: s1_def worker_alive_def li)
  have rn: "rs_runner s1 = runner_purge (rs_runner s)" by (simp add: s1_def expire_one_runner)
  have inv1: "lease_inv (rs_db s1)" using e(2) Cons.prems(1) by (simp add: s1_def)
  have out: "stale_outcome now cfg (worker_alive s t) t (get_task_sync (t_id t) (rs_db s1))"
    using e(3) t(1) by (simp add: stale_outcome_def s1_def)
  have frame: "k \<noteq> t_id t \<Longrightarrow> get_task_sync k (rs_db s1) = get_task_sync k (rs_db s)" for k
    using e(4) by (simp add: s1_def)
  have rest: "\<forall>t'\<in>set ts. get_task_sync (t_id t') (rs_db s1) = Some t' \<and> t_status t' = TaskStatus.RUNNING"
    using Cons.prems(2,3) frame by (metis distinct.simps(2) image_eqI list.set_intros(2) list.simps(9) set_map)
  have t_notin: "t_id t \<notin> t_id ` set ts" using Cons.prems(2) by simp
  from Cons.IH [OF inv1 _ rest] Cons.prems(2) out frame t_notin show ?case
    unfolding step by (simp add: worker_alive_purge [OF rn])
qed

lemma conj_not: "\<not> (a \<and> b) \<Longrightarrow> \<not> (a \<and> b \<and> c)"
  by blast

text \<open>
  C16: recovery of stale executions. A pass over the running tasks of the board turns exactly
  those into \<open>EXPIRED\<close> whose lease has run out with no worker alive in this process, or
  whose live worker's heartbeat is stale; every other task row, in particular that of a task
  whose lease is still valid elsewhere, is left as it was.
\<close>

theorem stale_recovery_exact:
  assumes inv: "lease_inv (rs_db s)" and t: "get_task_sync tid (rs_db s) = Some t"
  shows "(if t_board t = ''default'' \<and> t_status t = TaskStatus.RUNNING \<and> reclaim now cfg (worker_alive s t) t
          then \<exists>u. get_task_sync tid (rs_db (fst (recover_stale_executions now cfg s))) = Some u \<and>
                 t_status u = TaskStatus.EXPIRED
          else get_task_sync tid (rs_db (fst (recover_stale_executions now cfg s))) = Some t)"
proof -
  let ?ts = "list_running_sync ''default'' (rs_db s)"
  note k = lease_inv_keyed(1) [OF inv]
  have set_ts: "set ?ts = {t \<in> set (db_tasks (rs_db s)). t_board t = ''default'' \<and> t_status t = TaskStatus.RUNNING}"
    by (auto simp: list_running_sync_def)
  have "distinct (map t_id (filter P (db_tasks (rs_db s))))" for P
    using k by (simp add: keyed_def distinct_map_filter)
  then have d: "distinct (map t_id ?ts)"
    unfolding list_running_sync_def distinct_map by simp
  have get: "get_task_sync (t_id u) (rs_db s) = Some u" if "u \<in> set (db_tasks (rs_db s))" for u
    using keyed_fetchone [OF k that] by (simp add: get_task_sync_def)
  from t have t_in: "t \<in> set (db_tasks (rs_db s))" and id: "t_id t = tid"
    by (auto simp: get_task_sync_def dest: fetchone_SomeD)
  have pre: "\<forall>u\<in>set ?ts. get_task_sync (t_id u) (rs_db s) = Some u \<and> t_status u = TaskStatus.RUNNING"
    using set_ts get by auto
  note out = recover_stale_loop_outcome [OF inv d pre, of now cfg, folded recover_stale_executions_def]
  show ?thesis
  proof (cases "t_board t = ''default'' \<and> t_status t = TaskStatus.RUNNING")
    case True
    with t_in have "t \<in> set ?ts" by (simp add: set_ts)
    with out id True show ?thesis by (auto simp: stale_outcome_def)
  next
    case False
    have ne: "t_id u \<noteq> tid" if "u \<in> set ?ts" for u
    proof
      assume uid: "t_id u = tid"
      from that have u: "u \<in> set (db_tasks (rs_db s))" "t_board u = ''default'' \<and> t_status u = TaskStatus.RUNNING"
        unfolding set_ts by simp_all
      have "u = t" by (rule keyed_eqD [OF k u(1) t_in]) (simp add: uid id)
      with u(2) False show False by simp
    qed
    have "tid \<notin> t_id ` set ?ts"
    proof
      assume "tid \<in> t_id ` set ?ts"
      then obtain u where "tid = t_id u" "u \<in> set ?ts" by (rule imageE)
      then show False using ne [of u] by simp
    qed
    then have "get_task_sync tid (rs_db (fst (recover_stale_executions now cfg s))) = Some t"
      using conjunct2 [OF out] t by simp
    then show ?thesis unfolding if_not_P [OF conj_not [OF False]] .
  qed
qed

lemma lease_inv_claimed: "lease_inv claimed_db"
  by (rule tl.run_inv [OF demo_claimed lease_inv_empty])

theorem stale_recovery_exact_witness:
  "\<exists>u. get_task_sync ''t1'' (rs_db (fst (recover_stale_executions 2000000000 TaskConfig_default (demo_sys claimed_db)))) = Some u \<and>
     t_status u = TaskStatus.EXPIRED"
proof -
  let ?t = "hd (db_tasks claimed_db)"
  have t: "get_task_sync ''t1'' (rs_db (demo_sys claimed_db)) = Some ?t" by code_simp
  have c: "t_board ?t = ''default'' \<and> t_status ?t = TaskStatus.RUNNING \<and>
      reclaim 2000000000 TaskConfig_default (worker_alive (demo_sys claimed_db) ?t) ?t"
    by code_simp
  have "lease_inv (rs_db (demo_sys claimed_db))" by (simp add: demo_sys_def lease_inv_claimed)
  from stale_recovery_exact [OF this t, of 2000000000 TaskConfig_default] show ?thesis
    unfolding if_P [OF c] .
qed

section \<open>The end of a worker\<close>

lemma claim_snapshot:
  assumes inv: "lease_inv db" and claim: "claim_task_sync now w tid lock secs db = (db', Inr (Some cr))"
  shows "t_id (cr_task cr) = tid" "lease_inv db'" "leases db' tid = Some (r_id (cr_run cr), lock)"
proof -
  from claim have "\<exists>t. get_task_sync tid db = Some t \<and> claimable now t" using claim_result [OF inv, of tid now w lock secs] by auto
  then obtain t where t: "get_task_sync tid db = Some t" "claimable now t" by blast
  have "t_id t = tid" using t(1) fetchone_SomeD [of "\<lambda>t. t_id t = tid" "db_tasks db" t] by (simp add: get_task_sync_def)
  then show "t_id (cr_task cr) = tid" using claim claim_result [OF inv, of tid now w lock secs] t by (auto simp: claimed_row_def)
  show "lease_inv db'" "leases db' tid = Some (r_id (cr_run cr), lock)"
    using claim_effect [OF inv claim] by (simp_all add: lease_effect_def)
qed

lemma lease_holder_row:
  assumes "lease_inv db" and "leases db tid = Some (i, lock)"
  shows "\<exists>t. get_task_sync tid db = Some t"
proof -
  have "(tid, Some (Some i, Some lock)) \<in> set (map tview (db_tasks db))"
    using assms(2) view_holder_eq [OF lease_rel_of [OF assms(1)]] by (simp add: leases_def del: set_map)
  then obtain t where "t \<in> set (db_tasks db)" "t_id t = tid" by (auto simp: tview_Some_iff dest!: sym [of _ "tview _"])
  then show ?thesis by (cases "get_task_sync tid db") (auto simp: get_task_sync_def fetchone_None_iff)
qed

text \<open>The execution of the claim ends, whatever the task row has become meanwhile: the lease is what counts.\<close>

lemma holder_settles:
  assumes inv: "lease_inv (rs_db s)" and held: "leases (rs_db s) (t_id task) = Some (rid, lock)"
    and res: "agent_result_of (run_timeout task cfg) x = Some res"
    and st: "st = decide_target_status task (ag_status res)"
  shows "\<exists>s' u. run_claim now cfg task rid lock x s = (s', Inr (ag_status res)) \<and>
     get_task_sync (t_id task) (rs_db s') = Some u \<and> t_status u = st \<and> t_claim_lock u = None \<and>
     t_current_run_id u = None \<and> lease_inv (rs_db s') \<and> leases (rs_db s') (t_id task) = None \<and>
     length (rs_delivered s') = length (rs_delivered s) + (if st \<in> set NOTIFIED_TARGET_STATUSES then 1 else 0)"
proof -
  let ?sm = "py_or (py_or (ag_output res) (py_or (ag_error res) (Some ''''))) (Some '''')"
  from lease_holder_row [OF inv held] obtain t where t: "get_task_sync (t_id task) (rs_db s) = Some t" by blast
  obtain db' fr r where fin: "finalize_run now (t_id task) rid lock (ag_status res) ?sm
      (ag_metadata res) (ag_error res) False (Some st) (rs_db s) = (db', Inr fr)"
    and get: "get_task_sync (t_id task) db' = Some (fr_task fr)"
    and row: "fr_task fr = finished_row now (ag_status res) ?sm (ag_error res) st
        (t_consecutive_failures t + (if increment_failures (ag_status res) then 1 else 0)) t"
    by (rule finish_by_holder [where oc = "ag_status res" and target = "Some st" and now = now and sm = ?sm
          and md = "ag_metadata res" and rec = False and err = "ag_error res", OF inv held t refl refl]) simp_all
  obtain s' where s': "run_claim now cfg task rid lock x s = (s', Inr (ag_status res))" "rs_db s' = db'"
    "rs_delivered s' = rs_delivered s @ (if st \<in> set NOTIFIED_TARGET_STATUSES
       then [(t_id (fr_task fr), e_id (fr_terminal_event fr))] else [])"
    using fin by (auto simp: run_claim_def svc_finalize_run_def svc_finish_def finish_run_sync_def Let_def
        res st [symmetric] notify_if_terminal_def write_result_if_terminal_def write_lifecycle_for_status_def)
  moreover have "lease_inv db'" "leases db' (t_id task) = None"
    using finish_effect [OF inv _ fin] by (simp_all add: lease_effect_def st decide_not_running)
  ultimately show ?thesis
    using get by (intro exI [of _ s'] exI [of _ "fr_task fr"]) (simp add: row finished_row_def Let_def)
qed

text \<open>
  C23: a worker settles its run. A task was claimed; other transactions followed (heartbeats among them), but none that gave the
  lease of the run back and none that overrode a lease. Then, whatever the execution did (return, time out, be cancelled by a
  request, raise), the worker ends with the run settled: the task has the status that the outcome decides, the lease is gone, the
  invariant of the leases holds, and exactly one notification is delivered when that status is one of the notified ones,
  none otherwise. Only when the worker itself is cancelled (\<open>ProcessCancelled\<close>) the exception propagates and the database
  stays as it is, with the lease, which then runs out and is recovered.
\<close>

theorem worker_settles_run:
  assumes reach: "lts_run registry_step empty_task_db es0 db0"
    and claim: "claim_task_sync now0 w tid lock secs db0 = (db1, Inr (Some cr))"
    and run: "lts_run registry_step db1 es (rs_db s)" and kept: "Release tid (r_id (cr_run cr), lock) \<notin> set es"
  shows "case agent_result_of (run_timeout (cr_task cr) cfg) x of
      None \<Rightarrow> x = ProcessCancelled \<and> snd (run_claim now cfg (cr_task cr) (r_id (cr_run cr)) lock x s) = Inl Claim_Cancelled \<and>
        rs_db (fst (run_claim now cfg (cr_task cr) (r_id (cr_run cr)) lock x s)) = rs_db s \<and>
        leases (rs_db s) tid = Some (r_id (cr_run cr), lock)
    | Some res \<Rightarrow> (\<exists>s' u st. run_claim now cfg (cr_task cr) (r_id (cr_run cr)) lock x s = (s', Inr (ag_status res)) \<and>
        st = decide_target_status (cr_task cr) (ag_status res) \<and>
        get_task_sync tid (rs_db s') = Some u \<and> t_status u = st \<and> t_claim_lock u = None \<and>
        t_current_run_id u = None \<and> lease_inv (rs_db s') \<and> leases (rs_db s') tid = None \<and>
        length (rs_delivered s') = length (rs_delivered s) + (if st \<in> set NOTIFIED_TARGET_STATUSES then 1 else 0))"
proof -
  have inv0: "lease_inv db0" by (rule tl.run_inv [OF reach lease_inv_empty])
  note snap = claim_snapshot [OF inv0 claim]
  have inv: "lease_inv (rs_db s)" by (rule tl.run_inv [OF run snap(2)])
  have held: "leases (rs_db s) tid = Some (r_id (cr_run cr), lock)"
    using held_until_release [OF snap(3) tl.run_log [OF run snap(2)] kept] tl.run_holder [OF run snap(2)] by simp
  show ?thesis
  proof (cases "agent_result_of (run_timeout (cr_task cr) cfg) x")
    case None
    then have "x = ProcessCancelled" by (simp add: agent_result_of_def split: exec_outcome.splits)
    with None held show ?thesis by (simp add: run_claim_def)
  next
    case (Some res)
    from held have "leases (rs_db s) (t_id (cr_task cr)) = Some (r_id (cr_run cr), lock)" by (simp add: snap(1))
    from holder_settles [OF inv this Some refl] Some show ?thesis unfolding snap(1) by simp
  qed
qed

definition beaten_db :: task_db where
  "beaten_db = fst (record_heartbeat_sync ''t1'' 1 ''lock1'' 30 claimed_db)"

theorem worker_settles_run_witness:
  "t_version (hd (db_tasks beaten_db)) = t_version (hd (db_tasks claimed_db)) + 1 \<and>
   (\<exists>task s' u. run_claim 50 TaskConfig_default task 1 ''lock1'' TimedOut (demo_sys beaten_db)
     = (s', Inr TaskRunOutcome.TIMED_OUT) \<and>
     get_task_sync ''t1'' (rs_db s') = Some u \<and> t_status u = TaskStatus.EXPIRED \<and> leases (rs_db s') ''t1'' = None \<and>
     length (rs_delivered s') = 1)"
proof -
  have db: "rs_db (demo_sys beaten_db) = beaten_db" "rs_delivered (demo_sys beaten_db) = []"
    by (simp_all add: demo_sys_def)
  have beat: "t_version (hd (db_tasks beaten_db)) = t_version (hd (db_tasks claimed_db)) + 1" by code_simp
  obtain cr where cr: "claim_task_sync 20 ''w1'' ''t1'' ''lock1'' 900 demo_db = (claimed_db, Inr (Some cr))" "r_id (cr_run cr) = 1"
    using demo_claim by blast
  have "registry_step claimed_db [] beaten_db"
    unfolding beaten_db_def by (rule heartbeat [of "''t1''" 1 "''lock1''" 30]) (rule prod.collapse [symmetric])
  from registry_more [OF lts_run.stop this] have run: "lts_run registry_step claimed_db [] (rs_db (demo_sys beaten_db))"
    by (simp add: db)
  from worker_settles_run [OF demo_created cr(1) run, where x = TimedOut and cfg = TaskConfig_default and now = 50] cr(2) beat db(2) show ?thesis
    by (auto simp: agent_result_of_def decide_target_status_def NOTIFIED_TARGET_STATUSES_def)
qed

section \<open>Terminate\<close>

definition is_uuid_hex :: "string \<Rightarrow> bool" where
  "is_uuid_hex w \<longleftrightarrow> length w = 32 \<and> list_all (\<lambda>c. c \<in> set ''0123456789abcdef'') w"

definition runner_tokens :: "runner \<Rightarrow> bool" where
  "runner_tokens rn \<longleftrightarrow> (\<forall>tok i. rn_token_to_run rn tok = Some i \<longrightarrow> take 3 tok = ''wt-'')"

definition row_tokens :: "task_db \<Rightarrow> bool" where
  "row_tokens db \<longleftrightarrow> list_all (\<lambda>t. case t_worker_token t of None \<Rightarrow> True | Some w \<Rightarrow> is_uuid_hex w) (db_tasks db)"

definition tokens_inv :: "run_sys \<Rightarrow> bool" where
  "tokens_inv s \<longleftrightarrow> runner_tokens (rs_runner s) \<and> row_tokens (rs_db s)"

lemma append_event_ok:
  assumes "task_exists tid db"
  shows "\<exists>e. append_event_sync now tid kind payload rid db = (insert_event tid rid kind payload now db, Inr e)"
proof -
  have "\<exists>e. reread (\<lambda>e. e_id e = db_event_seq (insert_event tid rid kind payload now db))
      (db_task_events (insert_event tid rid kind payload now db)) = Inr e"
    by (auto simp: reread_def insert_event_def fetchone_append fetchone_Cons split: option.splits)
  with assms show ?thesis by (auto simp: append_event_sync_def Let_def)
qed

lemma uuid_not_token: "is_uuid_hex w \<Longrightarrow> take 3 w \<noteq> ''wt-''"
  by (cases w) (auto simp: is_uuid_hex_def)

lemma runner_spawn_tokens: "runner_tokens rn \<Longrightarrow> runner_tokens (fst (runner_spawn hex t i rn))"
  by (auto simp: runner_tokens_def runner_spawn_def worker_token_of_def Let_def)

lemma runner_purge_tokens: "runner_tokens rn \<Longrightarrow> runner_tokens (runner_purge rn)"
  by (simp add: runner_tokens_def runner_purge_def)

lemma row_tokens_update:
  assumes "row_tokens db" and "db_tasks db' = sql_update P f (db_tasks db)"
    and "\<And>t. t_worker_token (f t) = None \<or> t_worker_token (f t) = Some w" and "is_uuid_hex w"
  shows "row_tokens db'"
  unfolding row_tokens_def list_all_iff
proof
  fix t assume "t \<in> set (db_tasks db')"
  then consider t0 where "t = f t0" | "t \<in> set (db_tasks db)"
    using assms(2) by (auto elim: sql_update_cases)
  then show "case t_worker_token t of None \<Rightarrow> True | Some w \<Rightarrow> is_uuid_hex w"
  proof cases
    case (1 t0)
    then show ?thesis using assms(3) [of t0] assms(4) by auto
  next
    case 2
    then show ?thesis using assms(1) by (simp add: row_tokens_def list_all_iff)
  qed
qed

lemma claim_row_tokens:
  assumes "claim_task_sync now w tid lock secs db = (db', r)" and "row_tokens db" and "is_uuid_hex w"
  shows "row_tokens db'"
proof -
  have upd: "row_tokens d" if "db_tasks d = sql_update P (claimed_row now w lock secs i) (db_tasks db)" for P i d
    by (rule row_tokens_update [OF assms(2) that _ assms(3)]) (simp add: claimed_row_def)
  show ?thesis
    using assms(1,2) by (auto simp: claim_task_sync_def Let_def split: option.splits sum.splits intro!: upd)
qed

lemma some_uuid: "is_uuid_hex (replicate 32 CHR ''0'')"
  by (simp add: is_uuid_hex_def list_all_iff)

lemma finalize_row_tokens:
  assumes "finalize_run now tid rid lock oc sm md err rec target db = (db', r)" and "row_tokens db"
  shows "row_tokens db'"
proof (cases r)
  case (Inl e)
  with finalize_error assms show ?thesis by (simp add: row_tokens_def)
next
  case (Inr fr)
  have upd: "row_tokens d" if "db_tasks d = sql_update P (finished_row now oc sm err st n) (db_tasks db)" for P st n d
    by (rule row_tokens_update [OF assms(2) that _ some_uuid]) (simp add: finished_row_def Let_def)
  from assms(1) Inr show ?thesis
    by (auto simp: finalize_run_def Let_def split: option.splits sum.splits if_split_asm intro!: upd)
qed

lemma svc_finish_tokens: "tokens_inv s \<Longrightarrow> tokens_inv (fst (svc_finish now task i lock oc sm err md it s))"
  by (auto simp: tokens_inv_def svc_finish_def finish_run_sync_def Let_def dest!: finalize_row_tokens
      split: prod.splits sum.splits task_error.splits)

lemma recover_one_tokens: "tokens_inv s \<Longrightarrow> tokens_inv (fst (recover_one now tid i lock oc err s))"
  by (auto simp: tokens_inv_def recover_one_def recovered_expired_def recover_run_sync_def Let_def
      dest!: finalize_row_tokens split: prod.splits sum.splits task_error.splits)

text \<open>The parts of a tick keep the invariant, and so does the tick.\<close>

lemma claim_and_spawn_tokens:
  assumes "tokens_inv s" and "is_uuid_hex (uuid 1)"
  shows "tokens_inv (fst (claim_and_spawn now uuid task cfg s))"
proof -
  obtain db' r where cl: "claim_task_sync now (uuid 1) (t_id task) (''cl-'' @ take 12 (uuid 0)) (task_lease_seconds cfg) (rs_db s) = (db', r)"
    by fastforce
  have db': "row_tokens db'" using claim_row_tokens [OF cl] assms by (simp add: tokens_inv_def)
  have rn: "runner_tokens (fst (runner_spawn hex t i (rs_runner s)))" for hex t i
    using assms(1) by (simp add: tokens_inv_def runner_spawn_tokens)
  show ?thesis
  proof (cases "\<exists>claim. r = Inr (Some claim)")
    case False
    then show ?thesis
      using cl assms(1) db' by (auto simp: claim_and_spawn_def Let_def tokens_inv_def split: sum.splits option.splits)
  next
    case True
    then obtain claim where r: "r = Inr (Some claim)" by blast
    obtain rn1 tok where sp: "runner_spawn (uuid 2) (cr_task claim) (r_id (cr_run claim)) (rs_runner s) = (rn1, tok)"
      by fastforce
    have "tokens_inv (s\<lparr>rs_db := db', rs_runner := rn1\<rparr>)"
      using rn [of "uuid 2" "cr_task claim" "r_id (cr_run claim)"] sp db' by (simp add: tokens_inv_def)
    moreover from svc_finish_tokens [OF this, of now "cr_task claim" "r_id (cr_run claim)"
        "lock_text (r_claim_lock (cr_run claim))" TaskRunOutcome.SPAWN_FAILED None
        "Some ''TaskRunner.run_service not bound; call set_run_service''" "JObj []" None]
    have "svc_finish now (cr_task claim) (r_id (cr_run claim)) (lock_text (r_claim_lock (cr_run claim)))
        TaskRunOutcome.SPAWN_FAILED None (Some ''TaskRunner.run_service not bound; call set_run_service'')
        (JObj []) None (s\<lparr>rs_db := db', rs_runner := rn1\<rparr>) = (s2, x) \<Longrightarrow> tokens_inv s2" for s2 x
      by simp
    ultimately show ?thesis
      using cl r sp by (auto simp: claim_and_spawn_def Let_def split: option.splits prod.splits sum.splits)
  qed
qed

lemma dispatch_loop_tokens:
  "tokens_inv s \<Longrightarrow> (\<And>n. is_uuid_hex (uuid n)) \<Longrightarrow>
     tokens_inv (fst (dispatch_loop now uuid cfg active ts spawned failures s))"
proof (induction ts arbitrary: uuid spawned failures s)
  case (Cons t ts)
  obtain s1 r where cs: "claim_and_spawn now uuid t cfg s = (s1, r)" by fastforce
  have s1: "tokens_inv s1" using claim_and_spawn_tokens [OF Cons.prems(1), of uuid now t cfg] Cons.prems(2) cs by simp
  have "tokens_inv (fst (dispatch_loop now (\<lambda>n. uuid (n + 3)) cfg active ts sp fl s1))" for sp fl
    by (rule Cons.IH [OF s1]) (rule Cons.prems(2))
  with Cons.prems(1) cs show ?case by (auto split: sum.splits option.splits)
qed simp

lemma recover_crashed_loop_tokens: "tokens_inv s \<Longrightarrow> tokens_inv (fst (recover_crashed_loop now cs s))"
proof (induction cs arbitrary: s)
  case (Cons c cs)
  have one: "tokens_inv s1" if "recover_one now tid i l oc err s = (s1, r)" for tid i l oc err s1 r
    using recover_one_tokens [OF Cons.prems, of now tid i l oc err] that by simp
  have two: "tokens_inv s2" if "tokens_inv s1" "recover_crashed_loop now cs s1 = (s2, r)" for s1 s2 r
    using Cons.IH [OF that(1)] that(2) by simp
  show ?case
    using Cons.IH [OF Cons.prems] by (auto split: option.splits prod.splits sum.splits dest: one intro: two)
qed simp

lemma recover_stale_loop_tokens: "tokens_inv s \<Longrightarrow> tokens_inv (fst (recover_stale_loop now cfg ts s))"
proof (induction ts arbitrary: s)
  case (Cons t ts)
  have purged: "tokens_inv (s\<lparr>rs_runner := runner_purge (rs_runner s)\<rparr>)"
    using Cons.prems by (simp add: tokens_inv_def runner_purge_tokens)
  show ?case
  proof (cases "t_claim_lock t = None \<or> t_current_run_id t = None")
    case True
    from Cons.IH [OF Cons.prems] show ?thesis by (simp only: recover_stale_skip [OF True])
  next
    case False
    then obtain lock i where li: "t_claim_lock t = Some lock" "t_current_run_id t = Some i" by auto
    have "tokens_inv (fst (expire_one now t i lock s))"
      unfolding expire_one_def by (rule recover_one_tokens [OF purged])
    with Cons.IH purged show ?thesis unfolding recover_stale_step [OF li] by simp
  qed
qed simp

lemma dispatch_once_tokens:
  assumes "tokens_inv s" and "\<And>n. is_uuid_hex (uuid n)"
  shows "tokens_inv (fst (dispatch_once now uuid cfg s))"
proof -
  have 1: "tokens_inv (fst (recover_crashed_workers now s))"
  proof -
    have "tokens_inv (s\<lparr>rs_runner := (rs_runner s)\<lparr>rn_crashed := []\<rparr>\<rparr>)"
      using assms(1) by (simp add: tokens_inv_def runner_tokens_def)
    then show ?thesis
      by (simp add: recover_crashed_workers_def get_crashed_workers_def recover_crashed_loop_tokens)
  qed
  have 2: "tokens_inv (fst (recover_stale_executions now cfg s1))" if "tokens_inv s1" for s1
    unfolding recover_stale_executions_def using that by (rule recover_stale_loop_tokens)
  have 3: "tokens_inv (s2\<lparr>rs_runner := runner_purge (rs_runner s2)\<rparr>)" if "tokens_inv s2" for s2
    using that by (simp add: tokens_inv_def runner_purge_tokens)
  show ?thesis
  proof (cases "recover_crashed_workers now s")
    case c: (Pair s1 r1)
    with 1 have s1: "tokens_inv s1" by simp
    show ?thesis
    proof (cases "recover_stale_executions now cfg s1")
      case st: (Pair s2 r2)
      with 2 [OF s1] have s2: "tokens_inv s2" by simp
      note loop = dispatch_loop_tokens [OF 3 [OF s2] assms(2)]
      show ?thesis
        using s1 s2 loop
        by (simp add: dispatch_once_def c st Let_def active_worker_count_def runner_inspect_def split_beta
            split: sum.split)
    qed
  qed
qed

lemma terminate_requested:
  assumes inv: "tokens_inv s" and t: "get_task_sync tid (rs_db s) = Some t"
    and run: "t_status t = TaskStatus.RUNNING" and i: "t_current_run_id t = Some i"
  shows "snd (terminate now tid None s) = Inr ''terminate_requested'' \<and>
    get_task_sync tid (rs_db (fst (terminate now tid None s))) = Some t \<and>
    rs_runner (fst (terminate now tid None s)) = runner_purge (rs_runner s)"
proof -
  from t have t_in: "t \<in> set (db_tasks (rs_db s))"
    by (auto simp: get_task_sync_def dest: fetchone_SomeD)
  have tok: "rn_token_to_run (runner_purge (rs_runner s)) w = None" if w: "t_worker_token t = Some w" for w
  proof -
    have "is_uuid_hex w" using inv t_in w by (force simp: tokens_inv_def row_tokens_def list_all_iff)
    then have "take 3 w \<noteq> ''wt-''" by (rule uuid_not_token)
    with inv show ?thesis
      by (cases "rn_token_to_run (rs_runner s) w") (auto simp: tokens_inv_def runner_tokens_def runner_purge_def)
  qed
  obtain b where haw: "has_active_worker i (rs_runner s) = (runner_purge (rs_runner s), b)"
    using has_active_worker_purge(1) by (metis prod.collapse)
  have cancel: "cancel_worker_if_active t i (rs_runner s) = (runner_purge (rs_runner s), False)"
    using tok by (auto simp: cancel_worker_if_active_def haw runner_cancel_def split: option.splits)
  have "task_exists tid (rs_db s)" using t by (simp add: task_exists_def get_task_sync_def)
  then obtain e where ev: "append_event_sync now tid ''terminate_requested'' [(''run_id'', JInt i)] (Some i) (rs_db s) =
      (insert_event tid (Some i) ''terminate_requested'' [(''run_id'', JInt i)] now (rs_db s), Inr e)"
    using append_event_ok by blast
  have "terminate now tid None s =
      (s\<lparr>rs_runner := runner_purge (rs_runner s),
         rs_db := insert_event tid (Some i) ''terminate_requested'' [(''run_id'', JInt i)] now (rs_db s)\<rparr>,
       Inr ''terminate_requested'')"
    by (simp add: terminate_def t run i or_run_id_def cancel ev)
  then show ?thesis
    using t by (simp add: get_task_sync_def)
qed

text \<open>
  C13: terminating a running task never stops its worker. The token under which the runner
  knows a worker starts with \<open>wt-\<close>, the token stored in the task row is the registry's own
  \<open>uuid4().hex\<close>, and the run service passes the latter to the runner's \<open>cancel\<close>: so the
  request only leaves a \<open>terminate_requested\<close> event, the task row stays as it was, and the
  worker keeps its slot. The token discipline holds after every dispatch tick.
\<close>

theorem terminate_never_cancels_worker:
  assumes inv: "tokens_inv s" and t: "get_task_sync tid (rs_db s) = Some t"
    and run: "t_status t = TaskStatus.RUNNING" and i: "t_current_run_id t = Some i"
    and uuid: "\<And>n. is_uuid_hex (uuid n)"
  shows "snd (terminate now tid None s) = Inr ''terminate_requested'' \<and>
    get_task_sync tid (rs_db (fst (terminate now tid None s))) = Some t \<and>
    rs_runner (fst (terminate now tid None s)) = runner_purge (rs_runner s) \<and>
    tokens_inv (fst (dispatch_once now uuid cfg s))"
  using terminate_requested [OF inv t run i, of now] dispatch_once_tokens [OF inv, of uuid now cfg, OF uuid] by blast

theorem terminate_never_cancels_worker_witness:
  "\<exists>s. rn_running_workers (rs_runner s) 1 = Some PENDING \<and>
     snd (terminate 30 ''t1'' None s) = Inr ''terminate_requested''"
proof -
  let ?u = "\<lambda>n :: nat. replicate 32 CHR ''a''"
  let ?s = "fst (dispatch_once 20 ?u TaskConfig_default (demo_sys demo_db))"
  let ?t = "hd (db_tasks (rs_db ?s))"
  have u: "is_uuid_hex (?u n)" for n by (simp add: is_uuid_hex_def list_all_iff)
  have "row_tokens demo_db" by code_simp
  then have "tokens_inv (demo_sys demo_db)"
    by (simp add: tokens_inv_def demo_sys_def runner_tokens_def idle_runner_def)
  then have inv: "tokens_inv ?s" by (rule dispatch_once_tokens) (rule u)
  have run: "get_task_sync ''t1'' (rs_db ?s) = Some ?t" "t_status ?t = TaskStatus.RUNNING" "t_current_run_id ?t = Some 1"
    "rn_running_workers (rs_runner ?s) 1 = Some PENDING"
    by code_simp+
  from terminate_never_cancels_worker [OF inv run(1-3) u, of 30] run(4) show ?thesis by blast
qed

end
