(* ===== verification/Task_Service_Theorems.thy ===== *)
theory Task_Service_Theorems
  imports Task_Service Task_Run_Theorems
begin

text \<open>
  Properties of the task service: the keyset pagination behind session deletion, the lease
  discipline of the user-facing edits, and cancellation of a running task.
\<close>

section \<open>Keyset pagination\<close>













section \<open>Edits and leases\<close>

definition keeps_leases :: "run_sys \<Rightarrow> run_sys \<Rightarrow> bool" where
  "keeps_leases s s' \<longleftrightarrow> lease_inv (rs_db s') \<and> leases (rs_db s') = leases (rs_db s)"

lemma keeps_leases_same: "lease_inv (rs_db s) \<Longrightarrow> same_leases (rs_db s) (rs_db s') \<Longrightarrow> keeps_leases s s'"
  by (simp add: keeps_leases_def same_leases_inv same_leases_leases)

lemma not_running_rows:
  assumes "lease_inv db" and "get_task_sync tid db = Some t" and "t_status t \<noteq> TaskStatus.RUNNING"
    and "u \<in> set (db_tasks db)" and "t_id u = tid"
  shows "t_status u \<noteq> TaskStatus.RUNNING"
  using keyed_fetchone_unique [OF lease_inv_keyed(1) [OF assms(1)] assms(2) [unfolded get_task_sync_def] assms(4,5)] assms(3)
  by simp

lemma guarded_not_running:
  assumes "lease_inv db" and "get_task_sync tid db = Some t" and "t_status t \<noteq> TaskStatus.RUNNING"
    and "F_status TaskStatus.RUNNING \<notin> set flds"
  shows "guarded tid flds db"
  using not_running_rows [OF assms(1-3)] assms(4) by (auto simp: guarded_def update_guard_def list_all_iff)

lemma no_status_field: "\<not> list_ex names_status flds \<Longrightarrow> F_status st \<notin> set flds"
  by (auto simp: list_ex_iff)

lemma sdb_same_leases:
  assumes "lease_inv (rs_db s)" and "\<And>db' r. f (rs_db s) = (db', r) \<Longrightarrow> same_leases (rs_db s) db'"
  shows "keeps_leases s (fst (sdb f s))"
  by (cases "f (rs_db s)") (auto simp: sdb_def Let_def intro!: keeps_leases_same assms)

lemma event_keeps: "lease_inv (rs_db s) \<Longrightarrow> keeps_leases s (fst (event now tid k p rid s))"
  unfolding event_def by (rule sdb_same_leases) (auto intro: side_same_leases)

lemma keeps_leases_refl: "lease_inv (rs_db s) \<Longrightarrow> keeps_leases s s"
  by (simp add: keeps_leases_def)

lemma keeps_leases_bind:
  assumes "keeps_leases s (fst (m s))"
    and "\<And>a s1. m s = (s1, Inr a) \<Longrightarrow> lease_inv (rs_db s1) \<Longrightarrow> keeps_leases s1 (fst (f a s1))"
  shows "keeps_leases s (fst (sbind m f s))"
proof (cases "m s")
  case (Pair s1 r)
  show ?thesis
  proof (cases r)
    case (Inl e)
    with Pair assms(1) show ?thesis by (simp add: sbind_def)
  next
    case (Inr a)
    with Pair assms(1) have k: "keeps_leases s s1" by simp
    then have "keeps_leases s1 (fst (f a s1))" using assms(2) Pair Inr by (simp add: keeps_leases_def)
    with k Pair Inr show ?thesis by (simp add: sbind_def keeps_leases_def)
  qed
qed

lemma svc_get_task_cases:
  assumes "\<And>t. get_task_sync tid (rs_db s) = Some t \<Longrightarrow> keeps_leases s (fst (f t s))" and "lease_inv (rs_db s)"
  shows "keeps_leases s (fst (sbind (svc_get_task tid) f s))"
  using assms by (auto simp: sbind_def svc_get_task_def keeps_leases_refl split: option.splits)

lemma sret_keeps [simp]: "lease_inv (rs_db s) \<Longrightarrow> keeps_leases s (fst (sret a s))"
  and sraise_keeps [simp]: "lease_inv (rs_db s) \<Longrightarrow> keeps_leases s (fst (sraise e s))"
  by (simp_all add: sret_def sraise_def keeps_leases_refl)

lemma svc_update_keeps:
  assumes "lease_inv (rs_db s)"
  shows "keeps_leases s (fst (svc_update_task now tid flds v s))"
  unfolding svc_update_task_def
  using assms
  by (auto intro!: svc_get_task_cases sdb_same_leases elim!: update_task_same_leases)
     (erule (2) guarded_not_running, simp add: no_status_field)

lemma bulk_precheck_guarded:
  assumes "lease_inv db"
  shows "bulk_precheck items db = None \<Longrightarrow> \<forall>i\<in>set items. guarded (bu_task_id i) (bu_fields i) db"
proof (induction items)
  case (Cons i items)
  have "guarded (bu_task_id i) (bu_fields i) db"
  proof (cases "get_task_sync (bu_task_id i) db")
    case None
    then show ?thesis by (auto simp: guarded_def list_all_iff get_task_sync_def fetchone_None_iff)
  next
    case (Some t)
    with Cons.prems show ?thesis
      by (auto intro!: guarded_not_running [OF assms Some] simp: no_status_field split: if_splits)
  qed
  with Cons show ?case by (auto split: if_splits option.splits)
qed simp

lemma svc_bulk_keeps:
  assumes "lease_inv (rs_db s)"
  shows "keeps_leases s (fst (svc_bulk_update now items s))"
  unfolding svc_bulk_update_def
  using assms bulk_precheck_guarded [OF assms, of items]
  by (auto intro!: sdb_same_leases keeps_leases_refl dest: bulk_update_same_leases split: option.splits)

lemma svc_archive_keeps:
  assumes "lease_inv (rs_db s)"
  shows "keeps_leases s (fst (svc_set_archived now tid b v s))"
  unfolding svc_set_archived_def
  using assms
  by (auto intro!: svc_get_task_cases sdb_same_leases elim!: update_task_same_leases)
     (erule (2) guarded_not_running, simp)

lemma svc_retry_keeps:
  assumes "lease_inv (rs_db s)"
  shows "keeps_leases s (fst (svc_retry_task now trigger tid s))"
  unfolding svc_retry_task_def
proof (rule svc_get_task_cases [OF _ assms])
  fix t assume t: "get_task_sync tid (rs_db s) = Some t"
  show "keeps_leases s (fst ((case Task_retry t of Inl e \<Rightarrow> sraise e | Inr updated \<Rightarrow>
           sbind (sdb (update_task_sync now tid
             [F_status (t_status updated), F_claim_lock None, F_claim_expires None,
              F_current_run_id None, F_pending_trigger_run_id trigger] (t_version t))) (\<lambda>_.
           sbind (event now tid ''retried'' [(''source'', JStr (TaskStatus_value (t_status t)))] None) (\<lambda>_.
           sret (t_status updated)))) s))"
  proof (cases "Task_retry t")
    case (Inl e)
    with assms show ?thesis by simp
  next
    case (Inr u)
    then have st: "t_status t \<noteq> TaskStatus.RUNNING" "t_status u = TaskStatus.QUEUED"
      by (auto simp: Task_retry_def split: if_splits)
    have "guarded tid [F_status (t_status u), F_claim_lock None, F_claim_expires None,
        F_current_run_id None, F_pending_trigger_run_id trigger] (rs_db s)"
      by (rule guarded_not_running [OF assms t st(1)]) (simp add: st(2))
    then show ?thesis
      unfolding Inr sum.case
      by (intro keeps_leases_bind sdb_same_leases assms event_keeps)
         (auto dest: update_task_same_leases intro: event_keeps)
  qed
qed

lemma svc_delete_keeps:
  assumes "lease_inv (rs_db s)"
  shows "keeps_leases s (fst (svc_delete_task now tid s))"
  unfolding svc_delete_task_def
proof (rule svc_get_task_cases [OF _ assms])
  fix t assume t: "get_task_sync tid (rs_db s) = Some t"
  have none: "leases (rs_db s) tid = None" if "t_status t \<noteq> TaskStatus.RUNNING"
  proof -
    have "t \<in> set (db_tasks (rs_db s))" "t_id t = tid" using t by (auto simp: get_task_sync_def dest: fetchone_SomeD)
    then have "(tid, None) \<in> set (map tview (db_tasks (rs_db s)))" using tview_None [OF that] by (metis imageI set_map)
    from view_holder_None [OF lease_rel_of [OF assms] this] show ?thesis by (simp add: leases_def)
  qed
  obtain db' b where d: "delete_task_sync now tid (rs_db s) = (db', b)" by fastforce
  from delete_effect [OF assms d] none show "keeps_leases s (fst ((if t_status t = TaskStatus.RUNNING then sraise TaskStateError
      else sdb (\<lambda>db. let (db', deleted) = delete_task_sync now tid db in (db', Inr deleted))) s))"
    using assms d by (auto simp: sdb_def keeps_leases_def lease_effect_def sraise_def)
qed

text \<open>
  user edits never touch a lease. Updating, bulk-updating, archiving, retrying and deleting
  through the service keeps the lease invariant and leaves the lease of every task, running
  ones included, exactly as it was, whether the call succeeds or raises.
\<close>

theorem edits_keep_leases:
  assumes "lease_inv (rs_db s)"
  shows "keeps_leases s (fst (svc_update_task now tid flds v s)) \<and>
    keeps_leases s (fst (svc_bulk_update now items s)) \<and>
    keeps_leases s (fst (svc_set_archived now tid b v s)) \<and>
    keeps_leases s (fst (svc_retry_task now trigger tid s)) \<and>
    keeps_leases s (fst (svc_delete_task now tid s))"
  using assms by (simp add: svc_update_keeps svc_bulk_keeps svc_archive_keeps svc_retry_keeps svc_delete_keeps)

theorem edits_keep_leases_witness:
  "keeps_leases (demo_sys claimed_db) (fst (svc_delete_task 50 ''t1'' (demo_sys claimed_db))) \<and>
   snd (svc_delete_task 50 ''t1'' (demo_sys claimed_db)) = Inl TaskStateError"
proof -
  have "case snd (svc_delete_task 50 ''t1'' (demo_sys claimed_db)) of Inl e \<Rightarrow> e = TaskStateError | Inr _ \<Rightarrow> False" by code_simp
  moreover have "lease_inv (rs_db (demo_sys claimed_db))" by (simp add: demo_sys_def lease_inv_claimed)
  ultimately show ?thesis using edits_keep_leases [of "demo_sys claimed_db" 50 "''t1''"] by (auto split: sum.splits)
qed

section \<open>Cancelling a running task\<close>

text \<open>
  the answer to a cancellation is not what happened. Cancelling a running task through the
  run service answers \<open>cancelled\<close> and logs a \<open>cancelled\<close> event, while the task row is
  unchanged: it is still \<open>RUNNING\<close> with its lease, and the worker goes on.
\<close>

theorem cancel_answers_before_cancelling:
  assumes inv: "tokens_inv s" and t: "get_task_sync tid (rs_db s) = Some t"
    and run: "t_status t = TaskStatus.RUNNING" and i: "t_current_run_id t = Some i"
  shows "snd (svc_cancel_task True now tid s) = Inr TaskStatus.CANCELLED \<and>
    get_task_sync tid (rs_db (fst (svc_cancel_task True now tid s))) = Some t \<and>
    e_kind (last (db_task_events (rs_db (fst (svc_cancel_task True now tid s))))) = ''cancelled''"
proof -
  obtain s1 where tm_eq: "terminate now tid None s = (s1, Inr ''terminate_requested'')"
    and row: "get_task_sync tid (rs_db s1) = Some t"
    using terminate_requested [OF inv t run i, of now] by (metis prod.collapse)
  have ex: "task_exists tid (rs_db s1)" using row by (simp add: task_exists_def get_task_sync_def)
  then obtain e where ev: "append_event_sync now tid ''cancelled'' [(''source'', JStr ''running'')] None (rs_db s1) =
      (insert_event tid None ''cancelled'' [(''source'', JStr ''running'')] now (rs_db s1), Inr e)"
    using append_event_ok by blast
  have "svc_cancel_task True now tid s =
      (s1\<lparr>rs_db := insert_event tid None ''cancelled'' [(''source'', JStr ''running'')] now (rs_db s1)\<rparr>, Inr TaskStatus.CANCELLED)"
    by (simp add: svc_cancel_task_def sbind_def svc_get_task_def t run Task_cancel_def cancel_running_def
        sattempt_def tm_eq event_def sdb_def ev sret_def TaskStatus_value_def)
  then show ?thesis using row by (simp add: get_task_sync_def insert_event_def)
qed

theorem cancel_answers_before_cancelling_witness:
  "\<exists>s t. get_task_sync ''t1'' (rs_db (fst (svc_cancel_task True 30 ''t1'' s))) = Some t \<and>
     t_status t = TaskStatus.RUNNING \<and> snd (svc_cancel_task True 30 ''t1'' s) = Inr TaskStatus.CANCELLED"
proof -
  let ?s = "demo_sys (fst (claim_task_sync 20 (replicate 32 CHR ''a'') ''t1'' ''lock1'' 900 demo_db))"
  let ?t = "hd (db_tasks (rs_db ?s))"
  have "row_tokens (rs_db ?s)" by code_simp
  then have inv: "tokens_inv ?s" by (simp add: tokens_inv_def demo_sys_def runner_tokens_def idle_runner_def)
  have run: "get_task_sync ''t1'' (rs_db ?s) = Some ?t" "t_status ?t = TaskStatus.RUNNING" "t_current_run_id ?t = Some 1"
    by code_simp+
  from cancel_answers_before_cancelling [OF inv run, of 30] run(2) show ?thesis by blast
qed

end
