(* ===== verification/Task_Refinement.thy ===== *)
theory Task_Refinement
  imports Task_Run_Theorems
begin

text \<open>
  The run service refines the registry: whatever one of its operations does to the database is
  a sequence of the registry's transactions, so what is proved of every interleaving of those
  (exclusive claims, single finishes, versions, the event log) holds with any number of run
  services on the same database. The interface is a locale: a preorder on databases that
  contains the transactions the run service uses, with their callers' side conditions.
\<close>

locale transactional =
  fixes R :: "task_db \<Rightarrow> task_db \<Rightarrow> bool"
  assumes R_refl: "R db db"
    and R_trans: "R db db' \<Longrightarrow> R db' db'' \<Longrightarrow> R db db''"
    and R_claim: "R db (fst (claim_task_sync now w tid lock secs db))"
    and R_finalize: "target \<noteq> Some TaskStatus.RUNNING \<Longrightarrow>
      R db (fst (finalize_run now tid rid lock oc sm md err rec target db))"
    and R_event: "R db (fst (append_event_sync now tid kind payload orid db))"
begin

lemma finish_R: "R (rs_db s) (rs_db (fst (svc_finish now task i lock oc sm err md it s)))"
proof -
  have "R (rs_db s) (fst (finish_run_sync now \<lparr>fc_task_id = t_id task, fc_run_id = i, fc_claim_lock = lock,
      fc_outcome = oc, fc_summary = py_or sm (Some ''''), fc_metadata = md,
      fc_target_task_status = Some (decide_target_status task oc), fc_error = err\<rparr> (rs_db s)))"
    by (simp add: finish_run_sync_def R_finalize decide_not_running)
  then show ?thesis
    by (auto simp: svc_finish_def Let_def split: prod.splits sum.splits task_error.splits)
qed

lemma recover_one_R: "R (rs_db s) (rs_db (fst (recover_one now tid i lock oc err s)))"
proof -
  have "R (rs_db s) (fst (recover_run_sync now \<lparr>rc_task_id = tid, rc_run_id = i, rc_claim_lock = lock,
      rc_outcome = oc, rc_error = Some err\<rparr> (rs_db s)))"
    by (simp add: recover_run_sync_def R_finalize)
  then show ?thesis
    by (auto simp: recover_one_def recovered_expired_def Let_def split: prod.splits sum.splits task_error.splits)
qed

lemma recover_crashed_R: "R (rs_db s) (rs_db (fst (recover_crashed_loop now cs s)))"
proof (induction cs arbitrary: s)
  case (Cons c cs)
  have "R (rs_db s) (rs_db s1)" if "recover_one now tid i l oc err s = (s1, r)" for tid i l oc err s1 r
    using recover_one_R [of s now tid i l oc err] that by simp
  with Cons.IH show ?case
    by (auto split: option.splits prod.splits sum.splits) (metis fst_conv R_trans)+
qed (simp add: R_refl)

lemma expire_one_R: "R (rs_db s) (rs_db (fst (expire_one now t i lock s)))"
  using recover_one_R [of "s\<lparr>rs_runner := runner_purge (rs_runner s)\<rparr>"] by (simp add: expire_one_def)

lemma recover_stale_R: "R (rs_db s) (rs_db (fst (recover_stale_loop now cfg ts s)))"
proof (induction ts arbitrary: s)
  case (Cons t ts)
  show ?case
  proof (cases "t_claim_lock t = None \<or> t_current_run_id t = None")
    case True
    with Cons.IH [of s] show ?thesis by (simp only: recover_stale_skip)
  next
    case False
    then obtain lock i where li: "t_claim_lock t = Some lock" "t_current_run_id t = Some i" by auto
    from Cons.IH [of "s\<lparr>rs_runner := runner_purge (rs_runner s)\<rparr>"]
      R_trans [OF expire_one_R Cons.IH] expire_one_R
    show ?thesis unfolding recover_stale_step [OF li] by simp
  qed
qed (simp add: R_refl)

lemma claim_and_spawn_R: "R (rs_db s) (rs_db (fst (claim_and_spawn now uuid task cfg s)))"
proof -
  obtain db1 r where c: "claim_task_sync now (uuid 1) (t_id task) (''cl-'' @ take 12 (uuid 0)) (task_lease_seconds cfg)
      (rs_db s) = (db1, r)" by fastforce
  have 1: "R (rs_db s) db1" using R_claim [of "rs_db s"] c by (metis fst_conv)
  have "R db1 (rs_db s2)" if "svc_finish now t i l oc sm err md it (s\<lparr>rs_db := db1, rs_runner := rn\<rparr>) = (s2, x)"
    for t i l oc sm err md it rn s2 x
    using finish_R [of "s\<lparr>rs_db := db1, rs_runner := rn\<rparr>" now t i l oc sm err md it] that by simp
  with 1 show ?thesis
    by (auto simp: claim_and_spawn_def c [simplified] Let_def intro: R_trans split: prod.splits sum.splits option.splits)
qed

lemma dispatch_loop_R:
  "R (rs_db s) (rs_db (fst (dispatch_loop now uuid cfg active ts spawned failures s)))"
proof (induction ts arbitrary: uuid spawned failures s)
  case (Cons task ts)
  obtain s1 r where cs: "claim_and_spawn now uuid task cfg s = (s1, r)" by fastforce
  then have "R (rs_db s) (rs_db s1)" using claim_and_spawn_R [of s now uuid task cfg] by simp
  from R_trans [OF this Cons.IH] show ?case
    by (simp add: cs R_refl split: sum.split option.split)
qed (simp add: R_refl)

lemma dispatch_once_R: "R (rs_db s) (rs_db (fst (dispatch_once now uuid cfg s)))"
proof -
  obtain s1 r1 where 1: "recover_crashed_workers now s = (s1, r1)" by fastforce
  have R1: "R (rs_db s) (rs_db s1)"
    using 1 recover_crashed_R [of "s\<lparr>rs_runner := fst (get_crashed_workers (rs_runner s))\<rparr>" now
        "snd (get_crashed_workers (rs_runner s))"]
    by (simp add: recover_crashed_workers_def split_beta)
  obtain s2 r2 where 2: "recover_stale_executions now cfg s1 = (s2, r2)" by fastforce
  have R2: "R (rs_db s) (rs_db s2)"
    using 2 R_trans [OF R1 recover_stale_R [of s1 now cfg "list_running_sync ''default'' (rs_db s1)"]]
    by (simp add: recover_stale_executions_def)
  have R3: "R (rs_db s) (rs_db (fst (dispatch_loop now uuid cfg a ts 0 0 (s2\<lparr>rs_runner := rn\<rparr>))))" for a ts rn
    using R_trans [OF R2, of "rs_db (fst (dispatch_loop now uuid cfg a ts 0 0 (s2\<lparr>rs_runner := rn\<rparr>)))"]
      dispatch_loop_R [of "s2\<lparr>rs_runner := rn\<rparr>"] by simp
  show ?thesis
    using R1 R2 R3 by (simp add: dispatch_once_def 1 2 split_beta Let_def split: sum.split)
qed

lemma run_claim_R: "R (rs_db s) (rs_db (fst (run_claim now cfg task i lock x s)))"
proof (cases "agent_result_of (run_timeout task cfg) x")
  case None
  then show ?thesis by (simp add: run_claim_def R_refl)
next
  case (Some res)
  with finish_R [of "s\<lparr>rs_ui := rs_ui s @ [UiLifecycle (t_id task) TaskStatus.RUNNING None]\<rparr>"] show ?thesis
    by (simp add: run_claim_def svc_finalize_run_def Let_def split: prod.split sum.split) (metis fst_conv)
qed

lemma finalize_propose_R: "R (rs_db s) (rs_db (fst (finalize_propose now tid i lock proposal ptype s)))"
proof (cases "get_task_sync tid (rs_db s)")
  case (Some task)
  from finish_R [of "s\<lparr>rs_runner := fst (cancel_worker_if_active task i (rs_runner s))\<rparr>" now task i lock]
  show ?thesis
    by (simp add: finalize_propose_def Some split_beta Let_def split: sum.split option.split)
qed (simp add: finalize_propose_def R_refl)

lemma terminate_R: "R (rs_db s) (rs_db (fst (terminate now tid orid s)))"
proof (cases "get_task_sync tid (rs_db s)")
  case (Some task)
  have "R (rs_db s) (rs_db (fst (svc_finish now task i lock oc sm err md it (s\<lparr>rs_runner := rn\<rparr>))))"
    for i lock oc sm err md it rn
    using finish_R [of "s\<lparr>rs_runner := rn\<rparr>"] by simp
  then show ?thesis
    by (simp add: terminate_def Some split_beta Let_def R_refl R_event split: sum.split option.split)
qed (simp add: terminate_def R_refl)

end

section \<open>Runs of the registry\<close>

definition registry_runs :: "task_db \<Rightarrow> task_db \<Rightarrow> bool" where
  "registry_runs db db' \<longleftrightarrow> (\<exists>es. lts_run registry_step db es db')"

lemma lts_run_trans: "lts_run st b es' c \<Longrightarrow> lts_run st a es b \<Longrightarrow> lts_run st a (es @ es') c"
proof (induction rule: lts_run.induct)
  case (more s es1 t es2 u)
  then have "lts_run st a ((es @ es1) @ es2) u" by (blast intro: lts_run.more)
  then show ?case by simp
qed simp

lemma registry_runs_step: "registry_step db es db' \<Longrightarrow> registry_runs db db'"
  unfolding registry_runs_def using lts_run.more [OF lts_run.stop, of registry_step db es db'] by auto

lemma registry_runs_claim: "registry_runs db (fst (claim_task_sync now w tid lock secs db))"
proof -
  obtain db' r where c: "claim_task_sync now w tid lock secs db = (db', r)" by fastforce
  have "\<exists>es. registry_step db es db'"
  proof (cases r)
    case (Inl e)
    then show ?thesis using claim_error c by blast
  next
    case (Inr o1)
    then show ?thesis using claim_won claim_lost c by (cases o1) blast+
  qed
  then show ?thesis using c registry_runs_step by auto
qed

lemma registry_runs_finalize:
  assumes "target \<noteq> Some TaskStatus.RUNNING"
  shows "registry_runs db (fst (finalize_run now tid rid lock oc sm md err rec target db))"
proof -
  obtain db' r where f: "finalize_run now tid rid lock oc sm md err rec target db = (db', r)" by fastforce
  have "\<exists>es. registry_step db es db'"
    using finish_ok [OF _ assms] finish_error f by (cases r) metis+
  then show ?thesis using f registry_runs_step by auto
qed

interpretation rr: transactional registry_runs
proof
  show "registry_runs db db" for db unfolding registry_runs_def by (rule exI [of _ "[]"]) (rule lts_run.stop)
  show "registry_runs db db' \<Longrightarrow> registry_runs db' db'' \<Longrightarrow> registry_runs db db''" for db db' db''
    unfolding registry_runs_def by (metis lts_run_trans)
  show "registry_runs db (fst (append_event_sync now tid kind payload orid db))" for db now tid kind payload orid
    using registry_step.event [of now tid kind payload orid db] registry_runs_step by (metis prod.collapse)
qed (rule registry_runs_claim, erule registry_runs_finalize)

text \<open>
  C22: the run service refines the registry. A dispatch tick, the end of a worker, a terminate
  request and a proposal each take the database through transactions of the registry only,
  whose log of acquired and released leases is well formed for the leases held before; in
  particular they preserve the invariant of the leases.
\<close>

theorem run_service_refines_registry:
  assumes inv: "lease_inv (rs_db s)"
    and op: "s' \<in> {fst (dispatch_once now uuid cfg s), fst (run_claim now cfg task i lock x s),
           fst (terminate now tid orid s), fst (finalize_propose now tid i lock proposal ptype s)}"
  shows "\<exists>es. lts_run registry_step (rs_db s) es (rs_db s') \<and> valid_log (leases (rs_db s)) es \<and>
     leases (rs_db s') = after_log (leases (rs_db s)) es \<and> lease_inv (rs_db s')"
proof -
  have "registry_runs (rs_db s) (rs_db s')"
    using op by (auto intro: rr.dispatch_once_R rr.run_claim_R rr.terminate_R rr.finalize_propose_R)
  then obtain es where run: "lts_run registry_step (rs_db s) es (rs_db s')" by (auto simp: registry_runs_def)
  with tl.run_log [OF run inv] tl.run_holder [OF run inv] tl.run_inv [OF run inv] show ?thesis by blast
qed

theorem run_service_refines_registry_witness:
  "\<exists>es. valid_log (leases demo_db) es \<and>
     leases (rs_db (fst (dispatch_once 20 (\<lambda>_. ''u'') TaskConfig_default (demo_sys demo_db)))) =
       after_log (leases demo_db) es"
proof -
  have "rs_db (demo_sys demo_db) = demo_db" by (simp add: demo_sys_def)
  with run_service_refines_registry [of "demo_sys demo_db", OF _ insertI1, of 20 "\<lambda>_. ''u''" TaskConfig_default]
    tl.run_inv [OF demo_created lease_inv_empty]
  show ?thesis by auto
qed

end
