(* ===== verification/Budget_Theorems.thy ===== *)
theory Budget_Theorems
  imports Budget
begin

text \<open>
  Properties of the run budget: the call limits hold in every reachable account, what a
  reservation takes is what its release or its settlement gives back, and accounts of
  different runs do not interfere.
\<close>

section \<open>Reservation identifiers\<close>

definition digits_value :: "string \<Rightarrow> nat" where
  "digits_value s = foldl (\<lambda>a c. 10 * a + (of_char c - 48)) 0 s"

lemma digits_value_digits: "digits_value (nat_digits n) = n"
proof (induction n rule: nat_digits.induct)
  case (1 n)
  have c: "of_char (char_of (48 + m) :: char) = (48 + m :: nat)" if "m < 10" for m :: nat
    using that by (simp add: of_char_of)
  show ?case
  proof (cases "n < 10")
    case True
    then show ?thesis by (subst nat_digits.simps) (simp add: digits_value_def c)
  next
    case False
    with 1 have "digits_value (nat_digits (n div 10)) = n div 10" by simp
    with False show ?thesis
      by (subst nat_digits.simps) (simp add: digits_value_def c)
  qed
qed

lemma reservation_name_inj: "reservation_name m = reservation_name n \<longleftrightarrow> m = n"
  unfolding reservation_name_def by (metis digits_value_digits same_append_eq)

section \<open>Reachable accounts\<close>

text \<open>
  The operations of an account in any order. A caller settles or releases with a decision it
  got from \<open>reserve\<close>: if its identifier is pending, it is the pending decision.
\<close>

inductive account_step ::
  "'f::{linorder,plus,minus,zero} RunBudgetAccount \<Rightarrow> 'f RunBudgetAccount \<Rightarrow> bool" where
  reserve: "account_reserve now rq a = (a', d) \<Longrightarrow> account_step a a'"
| settle: "map_of (ac_pending a) (bd_reservation_id r) \<in> {None, Some r} \<Longrightarrow> account_step a (account_settle r u a)"
| release: "map_of (ac_pending a) (bd_reservation_id r) \<in> {None, Some r} \<Longrightarrow> account_step a (account_release r a)"
| close: "account_step a (account_close a)"

definition pending_of :: "BudgetReserveKind \<Rightarrow> 'f RunBudgetAccount \<Rightarrow> int" where
  "pending_of k a = int (length (filter (\<lambda>p. bd_kind (snd p) = k) (ac_pending a)))"

definition account_inv :: "'f RunBudgetAccount \<Rightarrow> bool" where
  "account_inv a \<longleftrightarrow>
     distinct (map fst (ac_pending a)) \<and>
     (\<forall>p\<in>set (ac_pending a). \<exists>k\<le>ac_next_id a. fst p = reservation_name k) \<and>
     pending_of LLM_CALL a \<le> bs_llm_calls_reserved (ac_state a) \<and>
     bs_llm_calls_reserved (ac_state a) \<le> max 0 (bc_max_llm_calls (ac_config a)) \<and>
     pending_of TOOL_CALL a \<le> bs_tool_calls_reserved (ac_state a) \<and>
     bs_tool_calls_reserved (ac_state a) \<le> max 0 (bc_max_tool_calls (ac_config a))"

lemma account_inv_new: "account_inv (new_account cfg)"
  by (simp add: account_inv_def new_account_def pending_of_def)

lemma evaluate_reserve_allow:
  assumes "bd_outcome (evaluate_reserve cfg st rq) = ALLOW"
  shows "bd_kind (evaluate_reserve cfg st rq) = bq_kind rq"
    and "bq_kind rq = LLM_CALL \<Longrightarrow> bs_llm_calls_reserved st + 1 \<le> bc_max_llm_calls cfg"
    and "bq_kind rq = TOOL_CALL \<Longrightarrow> bs_tool_calls_reserved st + 1 \<le> bc_max_tool_calls cfg"
  using assms
  by (cases "bq_kind rq";
      auto simp: evaluate_reserve_def evaluate_llm_call_def evaluate_tool_call_def evaluate_wall_time_def
        evaluate_sandbox_def reservation_decision_def Let_def split: if_splits option.splits)+

lemma apply_reserve_calls:
  "bs_llm_calls_reserved (apply_reserve d st) = bs_llm_calls_reserved st + (if bd_kind d = LLM_CALL then 1 else 0)"
  "bs_tool_calls_reserved (apply_reserve d st) = bs_tool_calls_reserved st + (if bd_kind d = TOOL_CALL then 1 else 0)"
  by (cases "bd_kind d"; simp add: apply_reserve_def split: option.splits)+

lemma apply_release_calls:
  "bs_llm_calls_reserved (apply_release d st) = bs_llm_calls_reserved st - (if bd_kind d = LLM_CALL then 1 else 0)"
  "bs_tool_calls_reserved (apply_release d st) = bs_tool_calls_reserved st - (if bd_kind d = TOOL_CALL then 1 else 0)"
  by (cases "bd_kind d"; simp add: apply_release_def evaluate_release_def split: option.splits)+

lemma apply_settle_calls:
  "bs_llm_calls_reserved (apply_settle d u st) = bs_llm_calls_reserved st"
  "bs_tool_calls_reserved (apply_settle d u st) = bs_tool_calls_reserved st"
  by (cases "bd_kind d"; simp add: apply_settle_def evaluate_settle_def Let_def split: option.splits)+

lemma account_reserve_inv:
  assumes inv: "account_inv a" and res: "account_reserve now rq a = (a', d)"
  shows "account_inv a'"
proof -
  define start where "start = (if ac_start_time a = 0 then now else ac_start_time a)"
  define st where "st = (if start > 0 then (ac_state a)\<lparr>bs_elapsed_seconds := now - start\<rparr> else ac_state a)"
  have st: "bs_llm_calls_reserved st = bs_llm_calls_reserved (ac_state a)"
    "bs_tool_calls_reserved st = bs_tool_calls_reserved (ac_state a)"
    by (simp_all add: st_def)
  let ?d = "evaluate_reserve (ac_config a) st rq"
  show ?thesis
  proof (cases "bd_outcome ?d = ALLOW")
    case False
    then have "a' = a\<lparr>ac_start_time := start, ac_state := st\<rparr>"
      using res by (simp add: account_reserve_def Let_def flip: start_def st_def split: if_splits)
    with inv show ?thesis by (simp add: account_inv_def pending_of_def st)
  next
    case True
    note allow = evaluate_reserve_allow [OF True]
    let ?n = "ac_next_id a + 1"
    let ?d1 = "?d\<lparr>bd_reservation_id := reservation_name ?n\<rparr>"
    have a': "a' = a\<lparr>ac_start_time := start, ac_next_id := ?n, ac_state := apply_reserve ?d1 st,
        ac_pending := ac_pending a @ [(reservation_name ?n, ?d1)]\<rparr>"
      using res True by (auto simp: account_reserve_def Let_def simp flip: start_def st_def split: if_splits)
    have fresh: "reservation_name ?n \<notin> fst ` set (ac_pending a)"
      using inv by (force simp: account_inv_def reservation_name_inj)
    have old: "\<exists>k\<le>?n. fst p = reservation_name k" if "p \<in> set (ac_pending a)" for p
    proof -
      from inv that obtain k where "k \<le> ac_next_id a" "fst p = reservation_name k"
        unfolding account_inv_def by blast
      then show ?thesis by (intro exI [of _ k]) simp
    qed
    show ?thesis
      using inv fresh old allow unfolding account_inv_def a'
      by (auto simp: pending_of_def apply_reserve_calls st)
  qed
qed

lemma pending_remove:
  assumes "distinct (map fst ps)" and "map_of ps i = Some r"
  shows "int (length (filter (\<lambda>p. bd_kind (snd p) = k) (filter (\<lambda>p. fst p \<noteq> i) ps))) =
    int (length (filter (\<lambda>p. bd_kind (snd p) = k) ps)) - (if bd_kind r = k then 1 else 0)"
  using assms
proof (induction ps)
  case (Cons p ps)
  show ?case
  proof (cases "fst p = i")
    case True
    with Cons.prems have "r = snd p" and "i \<notin> fst ` set ps" by auto
    then have "filter (\<lambda>p. fst p \<noteq> i) ps = ps" by (force simp: filter_id_conv)
    with True \<open>r = snd p\<close> show ?thesis by simp
  next
    case False
    with Cons show ?thesis by (simp split: if_splits)
  qed
qed simp

lemma remove_inv:
  assumes inv: "account_inv a" and m: "map_of (ac_pending a) i = Some r"
    and llm: "bs_llm_calls_reserved st \<in> {bs_llm_calls_reserved (ac_state a),
        bs_llm_calls_reserved (ac_state a) - (if bd_kind r = LLM_CALL then 1 else 0)}"
    and tool: "bs_tool_calls_reserved st \<in> {bs_tool_calls_reserved (ac_state a),
        bs_tool_calls_reserved (ac_state a) - (if bd_kind r = TOOL_CALL then 1 else 0)}"
  shows "account_inv (a\<lparr>ac_state := st, ac_pending := filter (\<lambda>p. fst p \<noteq> i) (ac_pending a)\<rparr>)"
proof -
  have d: "distinct (map fst (ac_pending a))" using inv by (simp add: account_inv_def)
  show ?thesis
    using inv llm tool pending_remove [OF d m, of LLM_CALL] pending_remove [OF d m, of TOOL_CALL]
    by (auto simp: account_inv_def pending_of_def distinct_map_filter)
qed

lemma pending_cases:
  assumes "map_of (ac_pending a) i \<in> {None, Some r}"
  obtains "i \<notin> fst ` set (ac_pending a)" | "i \<in> fst ` set (ac_pending a)" "map_of (ac_pending a) i = Some r"
  using assms by (metis insertE map_of_eq_None_iff singletonD)

lemma account_settle_inv:
  assumes "account_inv a" and "map_of (ac_pending a) (bd_reservation_id r) \<in> {None, Some r}"
  shows "account_inv (account_settle r u a)"
  using assms(2)
proof (cases rule: pending_cases)
  case 1
  with assms(1) show ?thesis by (simp add: account_settle_def)
next
  case 2
  with remove_inv [OF assms(1) 2(2), of "apply_settle r u (ac_state a)"] show ?thesis
    by (simp add: account_settle_def apply_settle_calls)
qed

lemma account_release_inv:
  assumes "account_inv a" and "map_of (ac_pending a) (bd_reservation_id r) \<in> {None, Some r}"
  shows "account_inv (account_release r a)"
  using assms(2)
proof (cases rule: pending_cases)
  case 1
  with assms(1) show ?thesis by (simp add: account_release_def)
next
  case 2
  with remove_inv [OF assms(1) 2(2), of "apply_release r (ac_state a)"] show ?thesis
    by (simp add: account_release_def apply_release_calls)
qed

lemma close_calls:
  "bs_llm_calls_reserved (fold (\<lambda>p st. apply_release (snd p) st) ps st) =
     bs_llm_calls_reserved st - int (length (filter (\<lambda>p. bd_kind (snd p) = LLM_CALL) ps))"
  "bs_tool_calls_reserved (fold (\<lambda>p st. apply_release (snd p) st) ps st) =
     bs_tool_calls_reserved st - int (length (filter (\<lambda>p. bd_kind (snd p) = TOOL_CALL) ps))"
  by (induction ps arbitrary: st) (simp_all add: apply_release_calls)

lemma account_close_inv: "account_inv a \<Longrightarrow> account_inv (account_close a)"
  by (auto simp: account_inv_def account_close_def pending_of_def close_calls)

lemma account_step_inv: "account_step a a' \<Longrightarrow> account_inv a \<Longrightarrow> account_inv a'"
  by (induction rule: account_step.induct)
     (auto intro: account_reserve_inv account_settle_inv account_release_inv account_close_inv)

lemma account_step_config: "account_step a a' \<Longrightarrow> ac_config a' = ac_config a"
  by (induction rule: account_step.induct)
     (auto simp: account_reserve_def account_settle_def account_release_def account_close_def Let_def split: if_splits)

lemma account_reachable: "account_step\<^sup>*\<^sup>* a a' \<Longrightarrow> account_inv a \<Longrightarrow> account_inv a' \<and> ac_config a' = ac_config a"
  by (induction rule: rtranclp_induct) (auto intro: account_step_inv dest: account_step_config)

text \<open>An account with the kinds of the reservations that were settled so far.\<close>

inductive account_run ::
  "'f::{linorder,plus,minus,zero} BudgetConfig \<Rightarrow> 'f RunBudgetAccount \<Rightarrow> BudgetReserveKind list \<Rightarrow> bool" for cfg where
  opened: "account_run cfg (new_account cfg) []"
| reserved: "account_run cfg a settled \<Longrightarrow> account_reserve now rq a = (a', d) \<Longrightarrow> account_run cfg a' settled"
| settled: "account_run cfg a settled \<Longrightarrow> map_of (ac_pending a) (bd_reservation_id r) \<in> {None, Some r} \<Longrightarrow>
    account_run cfg (account_settle r u a)
      (if bd_reservation_id r \<in> fst ` set (ac_pending a) then bd_kind r # settled else settled)"
| released: "account_run cfg a settled \<Longrightarrow> map_of (ac_pending a) (bd_reservation_id r) \<in> {None, Some r} \<Longrightarrow>
    account_run cfg (account_release r a) settled"
| closed: "account_run cfg a settled \<Longrightarrow> account_run cfg (account_close a) settled"

lemma account_run_steps: "account_run cfg a settled \<Longrightarrow> account_step\<^sup>*\<^sup>* (new_account cfg) a"
  by (induction rule: account_run.induct) (auto intro: account_step.intros rtranclp.rtrancl_into_rtrancl)

definition counts_exact :: "BudgetReserveKind list \<Rightarrow> 'f RunBudgetAccount \<Rightarrow> bool" where
  "counts_exact settled a \<longleftrightarrow>
     bs_llm_calls_reserved (ac_state a) = pending_of LLM_CALL a + int (count_list settled LLM_CALL) \<and>
     bs_tool_calls_reserved (ac_state a) = pending_of TOOL_CALL a + int (count_list settled TOOL_CALL)"

lemma reserve_exact:
  assumes "counts_exact settled a" and "account_reserve now rq a = (a', d)"
  shows "counts_exact settled a'"
proof -
  define start where "start = (if ac_start_time a = 0 then now else ac_start_time a)"
  define st where "st = (if start > 0 then (ac_state a)\<lparr>bs_elapsed_seconds := now - start\<rparr> else ac_state a)"
  have st: "bs_llm_calls_reserved st = bs_llm_calls_reserved (ac_state a)"
    "bs_tool_calls_reserved st = bs_tool_calls_reserved (ac_state a)"
    by (simp_all add: st_def)
  show ?thesis
    using assms st
    by (auto simp: counts_exact_def account_reserve_def Let_def pending_of_def apply_reserve_calls
        simp flip: start_def st_def split: if_splits)
qed

lemma remove_exact:
  assumes "counts_exact settled a" and "account_inv a" and "map_of (ac_pending a) (bd_reservation_id r) = Some r"
  shows "counts_exact (bd_kind r # settled) (account_settle r u a)" and "counts_exact settled (account_release r a)"
proof -
  have pending: "bd_reservation_id r \<in> fst ` set (ac_pending a)" using assms(3) by (force dest: map_of_SomeD)
  have "distinct (map fst (ac_pending a))" using assms(2) by (simp add: account_inv_def)
  note removed = pending_remove [OF this assms(3)]
  show "counts_exact (bd_kind r # settled) (account_settle r u a)"
    using assms(1) removed [of LLM_CALL] removed [of TOOL_CALL] pending
    by (auto simp: counts_exact_def account_settle_def pending_of_def apply_settle_calls)
  show "counts_exact settled (account_release r a)"
    using assms(1) removed [of LLM_CALL] removed [of TOOL_CALL] pending
    by (auto simp: counts_exact_def account_release_def pending_of_def apply_release_calls)
qed

lemma account_run_exact: "account_run cfg a settled \<Longrightarrow> counts_exact settled a"
proof (induction rule: account_run.induct)
  case opened
  show ?case by (simp add: counts_exact_def new_account_def pending_of_def)
next
  case (reserved a settled now rq a' d)
  then show ?case by (blast intro: reserve_exact)
next
  case (settled a settled r u)
  have "account_inv a" using account_reachable [OF account_run_steps [OF settled(1)] account_inv_new] by simp
  with settled(2) show ?case
  proof (cases rule: pending_cases [OF settled(2)])
    case 1
    with settled.IH show ?thesis by (simp add: account_settle_def)
  next
    case 2
    from remove_exact(1) [OF settled.IH \<open>account_inv a\<close> 2(2)] 2(1) show ?thesis by simp
  qed
next
  case (released a settled r)
  have "account_inv a" using account_reachable [OF account_run_steps [OF released(1)] account_inv_new] by simp
  with released(2) show ?case
  proof (cases rule: pending_cases [OF released(2)])
    case 1
    with released.IH show ?thesis by (simp add: account_release_def)
  next
    case 2
    from remove_exact(2) [OF released.IH \<open>account_inv a\<close> 2(2)] show ?thesis .
  qed
next
  case (closed a settled)
  then show ?case by (simp add: counts_exact_def account_close_def close_calls pending_of_def)
qed

text \<open>
  C29: no overselling of calls. However reserve, settle, release and close are interleaved, the LLM and tool calls that an
  account counts are exactly the reservations still pending and those that were settled; a release or a close gives back
  the pending ones and nothing else, and the count stays within the configured limit.
\<close>

theorem calls_never_oversold:
  assumes "account_run cfg a settled" and "0 \<le> bc_max_llm_calls cfg" and "0 \<le> bc_max_tool_calls cfg"
  shows "bs_llm_calls_reserved (ac_state a) = pending_of LLM_CALL a + int (count_list settled LLM_CALL) \<and>
    bs_llm_calls_reserved (ac_state a) \<le> bc_max_llm_calls cfg \<and>
    bs_tool_calls_reserved (ac_state a) = pending_of TOOL_CALL a + int (count_list settled TOOL_CALL) \<and>
    bs_tool_calls_reserved (ac_state a) \<le> bc_max_tool_calls cfg"
proof -
  have "account_inv a" "ac_config a = cfg"
    using account_reachable [OF account_run_steps [OF assms(1)] account_inv_new] by (auto simp: new_account_def)
  with assms(2,3) account_run_exact [OF assms(1)] show ?thesis by (auto simp: account_inv_def counts_exact_def)
qed

definition demo_config :: "int BudgetConfig" where
  "demo_config = \<lparr>bc_max_wall_seconds = 900, bc_max_llm_calls = 1, bc_max_tool_calls = 2,
     bc_max_token_cost = Some 100, bc_max_usd_cost = None, bc_max_sandbox_seconds = Some 60,
     bc_max_sandbox_cpu_seconds = None, bc_max_sandbox_memory_mb_seconds = None,
     bc_max_sandbox_callback_calls = Some 3\<rparr>"

definition llm_request :: "int BudgetReserveRequest" where
  "llm_request = \<lparr>bq_kind = LLM_CALL, bq_estimated_tokens = 40, bq_estimated_usd_cost = 2,
     bq_estimated_duration_seconds = 0, bq_sandbox_spec = None\<rparr>"

definition demo_granted :: "int RunBudgetAccount \<times> int BudgetReservationDecision" where
  "demo_granted = account_reserve 5 llm_request (new_account demo_config)"

definition demo_settled :: "int RunBudgetAccount" where
  "demo_settled = account_settle (snd demo_granted)
     \<lparr>bu_token_cost = Some 10, bu_usd_cost = None, bu_duration_seconds = None, bu_sandbox_callback_count = None\<rparr> (fst demo_granted)"

theorem calls_never_oversold_witness:
  "bs_llm_calls_reserved (ac_state (fst (account_reserve 6 llm_request demo_settled))) = 1 \<and>
   pending_of LLM_CALL (fst (account_reserve 6 llm_request demo_settled)) = 0"
proof -
  have known: "map_of (ac_pending (fst demo_granted)) (bd_reservation_id (snd demo_granted)) = Some (snd demo_granted)"
    "bd_kind (snd demo_granted) = LLM_CALL" by code_simp+
  then have pending: "bd_reservation_id (snd demo_granted) \<in> fst ` set (ac_pending (fst demo_granted))" by (force dest: map_of_SomeD)
  have "account_run demo_config (fst demo_granted) []"
    using account_run.reserved [OF account_run.opened] by (metis demo_granted_def prod.collapse)
  from account_run.settled [OF this, of "snd demo_granted"] known pending
  have "account_run demo_config demo_settled [LLM_CALL]" by (simp add: demo_settled_def)
  from account_run.reserved [OF this prod.collapse [symmetric]]
  have "account_run demo_config (fst (account_reserve 6 llm_request demo_settled)) [LLM_CALL]" .
  note counts = calls_never_oversold [OF this]
  have "pending_of LLM_CALL (fst (account_reserve 6 llm_request demo_settled)) = 0" by code_simp
  with counts show ?thesis by (simp add: demo_config_def)
qed

section \<open>Give and take\<close>

lemma release_undoes_apply:
  fixes st :: "'f::linordered_ab_group_add BudgetState"
  shows "apply_release d (apply_reserve d st) = st"
  by (cases "bd_kind d"; simp add: apply_release_def apply_reserve_def evaluate_release_def split: option.splits)

lemma reserve_then_release:
  fixes a :: "'f::linordered_ab_group_add RunBudgetAccount"
  assumes inv: "account_inv a" and res: "account_reserve now rq a = (a', d)" and ok: "bd_outcome d = ALLOW"
  shows "(ac_state (account_release d a'))\<lparr>bs_elapsed_seconds := e\<rparr> = (ac_state a)\<lparr>bs_elapsed_seconds := e\<rparr> \<and>
    ac_pending (account_release d a') = ac_pending a \<and>
    (ac_pending a = [] \<longrightarrow>
       (ac_state (account_close a'))\<lparr>bs_elapsed_seconds := e\<rparr> = (ac_state a)\<lparr>bs_elapsed_seconds := e\<rparr>)"
proof -
  define start where "start = (if ac_start_time a = 0 then now else ac_start_time a)"
  define st where "st = (if start > 0 then (ac_state a)\<lparr>bs_elapsed_seconds := now - start\<rparr> else ac_state a)"
  have st: "st\<lparr>bs_elapsed_seconds := e\<rparr> = (ac_state a)\<lparr>bs_elapsed_seconds := e\<rparr>"
    by (simp add: st_def)
  let ?n = "ac_next_id a + 1"
  have d: "d = (evaluate_reserve (ac_config a) st rq)\<lparr>bd_reservation_id := reservation_name ?n\<rparr>"
    and a': "ac_state a' = apply_reserve d st" "ac_pending a' = ac_pending a @ [(reservation_name ?n, d)]"
    using res ok by (auto simp: account_reserve_def Let_def simp flip: start_def st_def split: if_splits)
  have id: "bd_reservation_id d = reservation_name ?n" by (simp add: d)
  have fresh: "\<forall>p\<in>set (ac_pending a). fst p \<noteq> reservation_name ?n"
    using inv by (force simp: account_inv_def reservation_name_inj)
  then have "filter (\<lambda>p. fst p \<noteq> reservation_name ?n) (ac_pending a) = ac_pending a"
    by (simp add: filter_id_conv)
  then show ?thesis
    using st a' id by (simp add: account_release_def account_close_def Let_def release_undoes_apply)
qed

text \<open>
  what a reservation takes, its release gives back. Releasing the reservation just made
  restores every counter of the account, but for the clock's projection, and its pending
  reservations, in exact arithmetic; so does closing an account that had none pending.
\<close>

theorem release_undoes_reserve:
  fixes a :: "'f::linordered_ab_group_add RunBudgetAccount"
  assumes inv: "account_inv a" and res: "account_reserve now rq a = (a', d)" and ok: "bd_outcome d = ALLOW"
  shows "(ac_state (account_release d a'))\<lparr>bs_elapsed_seconds := e\<rparr> = (ac_state a)\<lparr>bs_elapsed_seconds := e\<rparr> \<and>
    ac_pending (account_release d a') = ac_pending a \<and>
    (ac_pending a = [] \<longrightarrow>
       (ac_state (account_close a'))\<lparr>bs_elapsed_seconds := e\<rparr> = (ac_state a)\<lparr>bs_elapsed_seconds := e\<rparr>)"
  by (rule reserve_then_release [OF inv res ok])

theorem release_undoes_reserve_witness:
  "let (a', d) = account_reserve 5 llm_request (new_account demo_config)
   in bd_outcome d = ALLOW \<and> ac_pending (account_release d a') = []"
proof -
  obtain a' d where r: "account_reserve 5 llm_request (new_account demo_config) = (a', d)" by fastforce
  have "bd_outcome (snd (account_reserve 5 llm_request (new_account demo_config))) = ALLOW" by code_simp
  with r release_undoes_reserve [OF account_inv_new r] show ?thesis by (simp add: new_account_def)
qed

definition unknown_usage :: "'f BudgetActualUsage" where
  "unknown_usage = \<lparr>bu_token_cost = None, bu_usd_cost = None, bu_duration_seconds = None,
     bu_sandbox_callback_count = None\<rparr>"

lemma apply_settle_unknown:
  fixes st :: "'f::linordered_ab_group_add BudgetState"
  assumes "bd_kind r = SANDBOX_RESOURCE \<Longrightarrow> bd_estimated_duration_seconds r = 0"
  shows "apply_settle r unknown_usage st = st"
  using assms
  by (cases "bd_kind r"; simp add: apply_settle_def evaluate_settle_def unknown_usage_def opt_default_def Let_def
      split: option.splits)

text \<open>
  settlement. A reservation whose real usage is unknown settles at its estimate: nothing is
  given back. With known usage the account moves by exactly the difference to the estimate.
  Either way the call counts stay and the reservation is no longer pending, so that settling
  or releasing it again changes nothing.
\<close>

theorem settle_conservative:
  fixes a :: "'f::linordered_ab_group_add RunBudgetAccount"
  assumes pend: "map_of (ac_pending a) (bd_reservation_id r) = Some r"
    and sandbox: "bd_kind r = SANDBOX_RESOURCE \<Longrightarrow> bd_estimated_duration_seconds r = 0"
  shows "ac_state (account_settle r unknown_usage a) = ac_state a \<and>
    bd_reservation_id r \<notin> fst ` set (ac_pending (account_settle r u a)) \<and>
    account_settle r u' (account_settle r u a) = account_settle r u a \<and>
    account_release r (account_settle r u a) = account_settle r u a \<and>
    bs_token_cost_reserved (ac_state (account_settle r u a)) =
      bs_token_cost_reserved (ac_state a) +
        (if bd_kind r = LLM_CALL then opt_default (bu_token_cost u) (bd_estimated_tokens r) - bd_estimated_tokens r else 0) \<and>
    bs_llm_calls_reserved (ac_state (account_settle r u a)) = bs_llm_calls_reserved (ac_state a)"
proof -
  have "bd_reservation_id r \<in> fst ` set (ac_pending a)"
    using pend by (force dest: map_of_SomeD)
  then have s: "account_settle r u a = a\<lparr>ac_state := apply_settle r u (ac_state a),
      ac_pending := filter (\<lambda>p. fst p \<noteq> bd_reservation_id r) (ac_pending a)\<rparr>" for u
    by (simp add: account_settle_def Let_def)
  have gone: "bd_reservation_id r \<notin> fst ` set (ac_pending (account_settle r u a))"
    by (auto simp: s)
  then have "account_settle r u' (account_settle r u a) = account_settle r u a"
    "account_release r (account_settle r u a) = account_settle r u a"
    by (simp_all add: account_settle_def [of r u' "account_settle r u a"] account_release_def Let_def)
  moreover have "bs_token_cost_reserved (ac_state (account_settle r u a)) =
      bs_token_cost_reserved (ac_state a) +
        (if bd_kind r = LLM_CALL then opt_default (bu_token_cost u) (bd_estimated_tokens r) - bd_estimated_tokens r else 0)"
    by (cases "bd_kind r") (simp_all add: s apply_settle_def evaluate_settle_def Let_def split: option.splits)
  ultimately show ?thesis
    using gone apply_settle_unknown [OF sandbox] by (simp add: s apply_settle_calls)
qed

theorem settle_conservative_witness:
  "let (a', d) = account_reserve 5 llm_request (new_account demo_config)
   in ac_state (account_settle d unknown_usage a') = ac_state a'"
proof -
  obtain a' d where r: "account_reserve 5 llm_request (new_account demo_config) = (a', d)" by fastforce
  have "(let (a', d) = account_reserve 5 llm_request (new_account demo_config)
     in bd_kind d = LLM_CALL \<and> ac_pending a' = [(bd_reservation_id d, d)])" by code_simp
  with r have "bd_kind d = LLM_CALL" "map_of (ac_pending a') (bd_reservation_id d) = Some d" by auto
  with settle_conservative [of a' d] show ?thesis by (simp add: r)
qed

section \<open>Runs\<close>

text \<open>
  budgets of different runs do not interfere, an opened account keeps its configuration,
  and a closed run is forgotten: every operation on one run leaves the account of every other
  run as it is, a settle or release for an unknown run does nothing, and every reservation is
  answered and audited exactly once, a denial being counted once.
\<close>

theorem budget_runs_isolated:
  assumes "other \<noteq> run"
  shows "sv_accounts (fst (budget_reserve now run rq sv)) other = sv_accounts sv other \<and>
    sv_accounts (budget_settle run r u sv) other = sv_accounts sv other \<and>
    sv_accounts (budget_release run r sv) other = sv_accounts sv other \<and>
    sv_accounts (budget_close run sv) other = sv_accounts sv other \<and>
    budget_get_state run (budget_close run sv) = None \<and>
    budget_settle run r u (budget_close run sv) = budget_close run sv \<and>
    budget_release run r (budget_close run sv) = budget_close run sv \<and>
    budget_open run cfg' (budget_open run cfg sv) = budget_open run cfg sv \<and>
    sv_audit (fst (budget_reserve now run rq sv)) = sv_audit sv @
      [(run, bd_reason (snd (budget_reserve now run rq sv)), bd_outcome (snd (budget_reserve now run rq sv)))] \<and>
    length (sv_denied (fst (budget_reserve now run rq sv))) =
      length (sv_denied sv) + (if bd_outcome (snd (budget_reserve now run rq sv)) = DENY then 1 else 0)"
  using assms
  by (auto simp: budget_reserve_def budget_settle_def budget_release_def budget_close_def budget_open_def
      budget_get_state_def with_account_def Let_def split_beta split: option.splits)

theorem budget_runs_isolated_witness:
  "sv_accounts (fst (budget_reserve 5 ''r1'' llm_request
     \<lparr>sv_config = demo_config, sv_accounts = Map.empty, sv_audit = [], sv_denied = []\<rparr>)) ''r2'' = None"
  using budget_runs_isolated [of "''r2''" "''r1''" 5 llm_request
      "\<lparr>sv_config = demo_config, sv_accounts = Map.empty, sv_audit = [], sv_denied = []\<rparr>"]
  by simp

end
