(* ===== verification/Plugin_Dependency.thy ===== *)
theory Plugin_Dependency
  imports Python_Text "HOL-Library.Product_Lexorder"
begin

text \<open>
  Plugin dependency admission (\<open>app/application/plugin_dependency.py\<close>): the stable Kahn
  ordering of the enabled plugins, the classification of a required plugin, and the overall
  scan status. A Python dict is an association list with distinct keys, the set of enabled
  keys a list without duplicates (the result depends on the set only, since every layer is
  sorted by a key that is injective). Of a \<open>TopoResult\<close> the order and the keys left over are
  modelled; splitting the latter into cycle members and blocked keys (Tarjan's components)
  and the lookups in the installed distributions are not.
\<close>

section \<open>Status priority\<close>

datatype PluginScanStatus = OK | MISSING | UNSUPPORTED | FAILED | PARTIAL

fun STATUS_PRIORITY :: "PluginScanStatus \<Rightarrow> nat" where
  "STATUS_PRIORITY MISSING = 4"
| "STATUS_PRIORITY UNSUPPORTED = 3"
| "STATUS_PRIORITY FAILED = 2"
| "STATUS_PRIORITY PARTIAL = 1"
| "STATUS_PRIORITY OK = 0"

definition highest_status :: "PluginScanStatus list \<Rightarrow> PluginScanStatus" where
  "highest_status ss =
     fold (\<lambda>s best. if STATUS_PRIORITY s > STATUS_PRIORITY best then s else best) ss OK"

section \<open>Kahn's ordering\<close>

type_synonym requires_map = "(string \<times> string list) list"

text \<open>The edges the loop adds for one dependent, in order.\<close>

definition edges_of :: "string list \<Rightarrow> string \<times> string list \<Rightarrow> (string \<times> string) list" where
  "edges_of nodes e =
     (if fst e \<notin> set nodes then []
      else map (\<lambda>dep. (dep, fst e)) (filter (\<lambda>dep. dep \<in> set nodes) (snd e)))"

definition all_edges :: "string list \<Rightarrow> requires_map \<Rightarrow> (string \<times> string) list" where
  "all_edges nodes requires = concat (map (edges_of nodes) requires)"

definition adjacency :: "string list \<Rightarrow> requires_map \<Rightarrow> string \<Rightarrow> string list" where
  "adjacency nodes requires n = map snd (filter (\<lambda>e. fst e = n) (all_edges nodes requires))"

definition indegree :: "string list \<Rightarrow> requires_map \<Rightarrow> string \<Rightarrow> int" where
  "indegree nodes requires n = int (length (filter (\<lambda>e. snd e = n) (all_edges nodes requires)))"

definition sort_key_of :: "(string \<times> nat) list \<Rightarrow> string \<Rightarrow> nat \<times> string" where
  "sort_key_of discovery k =
     ((case map_of discovery k of None \<Rightarrow> length discovery | Some i \<Rightarrow> i), k)"

record kahn_state =
  ks_order :: "string list"
  ks_remaining :: "string list"
  ks_indeg :: "string \<Rightarrow> int"

text \<open>The body of the inner loop: one key of the layer.\<close>

definition emit :: "(string \<Rightarrow> string list) \<Rightarrow> string \<Rightarrow> kahn_state \<Rightarrow> kahn_state" where
  "emit adj k s =
     (let rem = removeAll k (ks_remaining s) in
      \<lparr>ks_order = ks_order s @ [k], ks_remaining = rem,
       ks_indeg = fold (\<lambda>d ig. if d \<in> set rem then ig(d := ig d - 1) else ig) (adj k) (ks_indeg s)\<rparr>)"

definition layer :: "(string \<times> nat) list \<Rightarrow> kahn_state \<Rightarrow> string list" where
  "layer discovery s =
     sort_key (sort_key_of discovery) (filter (\<lambda>k. ks_indeg s k = 0) (ks_remaining s))"

lemma emit_remaining [simp]: "ks_remaining (emit adj k s) = removeAll k (ks_remaining s)"
  by (simp add: emit_def Let_def)

lemma fold_emit_remaining:
  "ks_remaining (fold (emit adj) ks s) = filter (\<lambda>k. k \<notin> set ks) (ks_remaining s)"
  by (induction ks arbitrary: s) (auto simp: removeAll_filter_not_eq intro!: filter_cong)

function kahn :: "(string \<Rightarrow> string list) \<Rightarrow> (string \<times> nat) list \<Rightarrow> kahn_state \<Rightarrow> kahn_state" where
  "kahn adj discovery s =
     (if ks_remaining s = [] \<or> layer discovery s = [] then s
      else kahn adj discovery (fold (emit adj) (layer discovery s) s))"
  by pat_completeness auto
termination
proof (relation "measure (\<lambda>(_, _, s). length (ks_remaining s))")
  fix adj discovery and s :: kahn_state
  assume "\<not> (ks_remaining s = [] \<or> layer discovery s = [])"
  then obtain k where k: "k \<in> set (layer discovery s)" by (cases "layer discovery s") auto
  then have "k \<in> set (ks_remaining s)" by (auto simp: layer_def)
  with k have "length (filter (\<lambda>k. k \<notin> set (layer discovery s)) (ks_remaining s)) < length (ks_remaining s)"
    by (intro length_filter_less [of k]) auto
  then show "((adj, discovery, fold (emit adj) (layer discovery s) s), adj, discovery, s)
      \<in> measure (\<lambda>(_, _, s). length (ks_remaining s))"
    by (simp add: fold_emit_remaining)
qed simp

declare kahn.simps [simp del]

definition topological_order ::
  "string list \<Rightarrow> requires_map \<Rightarrow> (string \<times> nat) list \<Rightarrow> string list \<times> string list" where
  "topological_order enabled requires discovery =
     (let s = kahn (adjacency enabled requires) discovery
                \<lparr>ks_order = [], ks_remaining = enabled, ks_indeg = indegree enabled requires\<rparr>
      in (ks_order s, ks_remaining s))"

section \<open>Classification and overall status\<close>

datatype dep_reason =
  DEP_OK | DEP_MISSING | DEP_DISABLED | DEP_UNSUPPORTED | DEP_LOAD_FAILED | DEP_CYCLE | DEP_UNAVAILABLE

record DepAvailability =
  da_key :: string
  da_available :: bool
  da_reason :: dep_reason
  da_diagnostic :: string

definition classify_dep ::
  "string \<Rightarrow> string list \<Rightarrow> string list \<Rightarrow> string list \<Rightarrow> string list \<Rightarrow> string list \<Rightarrow> string list
     \<Rightarrow> DepAvailability" where
  "classify_dep k discovered enabled unsupported cycles load_failed unavailable =
     (let missing = ''missing required plugin: '' @ k;
          unavail = ''required plugin unavailable: '' @ k
      in if k \<notin> set discovered
         then \<lparr>da_key = k, da_available = False, da_reason = DEP_MISSING, da_diagnostic = missing\<rparr>
         else if k \<notin> set enabled
         then \<lparr>da_key = k, da_available = False, da_reason = DEP_DISABLED, da_diagnostic = missing\<rparr>
         else if k \<in> set unsupported
         then \<lparr>da_key = k, da_available = False, da_reason = DEP_UNSUPPORTED, da_diagnostic = missing\<rparr>
         else if k \<in> set load_failed
         then \<lparr>da_key = k, da_available = False, da_reason = DEP_LOAD_FAILED, da_diagnostic = missing\<rparr>
         else if k \<in> set cycles
         then \<lparr>da_key = k, da_available = False, da_reason = DEP_CYCLE, da_diagnostic = unavail\<rparr>
         else if k \<in> set unavailable
         then \<lparr>da_key = k, da_available = False, da_reason = DEP_UNAVAILABLE, da_diagnostic = unavail\<rparr>
         else \<lparr>da_key = k, da_available = True, da_reason = DEP_OK, da_diagnostic = ''''\<rparr>)"

datatype pip_status = PIP_OK | PIP_MISSING | PIP_INCOMPATIBLE | PIP_SKIPPED

record PipCheckResult =
  pip_spec :: string
  pip_name :: string
  pip_status_of :: pip_status
  pip_installed_version :: "string option"
  pip_diagnostic :: string

text \<open>
  \<open>compute_overall_status\<close>: the status, the error summary, and the warnings list it extends.
\<close>

definition partial_errors :: "DepAvailability list \<Rightarrow> PipCheckResult list \<Rightarrow> string list" where
  "partial_errors deps pips =
     map da_diagnostic (filter (\<lambda>d. \<not> da_available d \<and> da_diagnostic d \<noteq> []) deps) @
     map pip_diagnostic
       (filter (\<lambda>p. pip_status_of p \<in> {PIP_MISSING, PIP_INCOMPATIBLE} \<and> pip_diagnostic p \<noteq> []) pips)"

definition compute_overall_status ::
  "bool \<Rightarrow> bool \<Rightarrow> bool \<Rightarrow> string \<Rightarrow> DepAvailability list \<Rightarrow> PipCheckResult list \<Rightarrow> string option
     \<Rightarrow> string list \<Rightarrow> PluginScanStatus \<times> string \<times> string list" where
  "compute_overall_status manifest_ok is_unsupported in_cycle cycle_error deps pips load_error warnings =
     (if \<not> manifest_ok then (FAILED, ''discovery_failed'', warnings)
      else if is_unsupported then (UNSUPPORTED, ''unsupported plugin kind'', warnings)
      else if in_cycle then (FAILED, cycle_error, warnings)
      else if truthy load_error then (FAILED, the load_error, warnings)
      else
        (let warnings' = warnings @ map pip_diagnostic
               (filter (\<lambda>p. pip_status_of p = PIP_OK \<and> pip_diagnostic p \<noteq> []) pips)
         in case partial_errors deps pips of
              [] \<Rightarrow> (OK, '''', warnings')
            | e # _ \<Rightarrow> (PARTIAL, e, warnings')))"

fun join_comma :: "string list \<Rightarrow> string" where
  "join_comma [] = ''''"
| "join_comma [x] = x"
| "join_comma (x # xs) = x @ '', '' @ join_comma xs"

definition cycle_error_message :: "string list \<Rightarrow> string" where
  "cycle_error_message members = ''circular plugin dependency: '' @ join_comma (sort members)"

text \<open>\<open>normalize_external\<close>: a value is a JSON value; only non-blank names are kept.\<close>

definition normalize_entry :: "json \<Rightarrow> (string \<times> string) list option" where
  "normalize_entry item =
     (case item of
        JObj kvs \<Rightarrow>
          (case map_of kvs ''name'' of
             Some (JStr name) \<Rightarrow>
               if py_strip name = [] then None
               else Some ((''name'', py_strip name) #
                 List.map_filter (\<lambda>k. case map_of kvs k of
                      Some (JStr v) \<Rightarrow> if v = [] then None else Some (k, v) | _ \<Rightarrow> None)
                   [''install'', ''check''])
           | _ \<Rightarrow> None)
      | _ \<Rightarrow> None)"

definition normalize_external :: "json list \<Rightarrow> (string \<times> string) list list" where
  "normalize_external items = List.map_filter normalize_entry items"

end
