(* ===== verification/Plugin_Theorems.thy ===== *)
theory Plugin_Theorems
  imports Plugin_Dependency "HOL-Library.Multiset"
begin

text \<open>
  The plugin load order: what Kahn's loop emits, that what it leaves over is exactly what a
  dependency cycle blocks, and that the result does not depend on the iteration order of the
  Python sets and dicts it is computed from. The loop is analysed over an arbitrary list of
  edges; the theorems are about \<open>topological_order\<close> itself.
\<close>

section \<open>Counting edges\<close>

definition edge_count :: "(string \<times> string) list \<Rightarrow> string set \<Rightarrow> string \<Rightarrow> nat" where
  "edge_count E R d = length (filter (\<lambda>e. snd e = d \<and> fst e \<in> R) E)"

definition successors :: "(string \<times> string) list \<Rightarrow> string \<Rightarrow> string list" where
  "successors E n = map snd (filter (\<lambda>e. fst e = n) E)"

lemma adjacency_successors: "adjacency nodes requires = successors (all_edges nodes requires)"
  by (simp add: fun_eq_iff adjacency_def successors_def)

lemma edge_count_zero_iff: "edge_count E R d = 0 \<longleftrightarrow> (\<forall>p \<in> R. (p, d) \<notin> set E)"
  by (auto simp: edge_count_def filter_empty_conv)

lemma edge_count_mono_zero: "edge_count E R d = 0 \<Longrightarrow> R' \<subseteq> R \<Longrightarrow> edge_count E R' d = 0"
  by (auto simp: edge_count_zero_iff)

lemma edge_count_remove:
  "k \<in> R \<Longrightarrow> edge_count E R d = edge_count E (R - {k}) d + count_list (successors E k) d"
  by (induction E) (auto simp: edge_count_def successors_def)

lemma fold_decrement:
  "fold (\<lambda>d ig. if d \<in> R then ig(d := ig d - 1) else ig) xs ig d =
     (if d \<in> R then (ig d :: int) - int (count_list xs d) else ig d)"
  by (induction xs arbitrary: ig) auto

section \<open>The invariant of the loop\<close>

text \<open>
  Every key is emitted or remaining, never both; the stored in-degree of a remaining key counts
  its dependencies that remain; what a key depends on was emitted before it.
\<close>

definition deps_before :: "(string \<times> string) list \<Rightarrow> string list \<Rightarrow> bool" where
  "deps_before E order \<longleftrightarrow>
     (\<forall>i < length order. \<forall>p. (p, order ! i) \<in> set E \<longrightarrow> p \<in> set (take i order))"

definition kahn_inv :: "string set \<Rightarrow> (string \<times> string) list \<Rightarrow> kahn_state \<Rightarrow> bool" where
  "kahn_inv N E s \<longleftrightarrow>
     distinct (ks_order s @ ks_remaining s) \<and> set (ks_order s) \<union> set (ks_remaining s) = N \<and>
     (\<forall>d \<in> set (ks_remaining s). ks_indeg s d = int (edge_count E (set (ks_remaining s)) d)) \<and>
     deps_before E (ks_order s)"

definition edges_within :: "string set \<Rightarrow> (string \<times> string) list \<Rightarrow> bool" where
  "edges_within N E \<longleftrightarrow> fst ` set E \<subseteq> N \<and> snd ` set E \<subseteq> N"

lemma deps_before_snoc:
  assumes "deps_before E order" and "\<And>p. (p, k) \<in> set E \<Longrightarrow> p \<in> set order"
  shows "deps_before E (order @ [k])"
  using assms by (auto simp: deps_before_def nth_append less_Suc_eq)

lemma emit_indeg:
  "ks_indeg (emit (successors E) k s) d =
     (if d \<in> set (ks_remaining s) - {k} then ks_indeg s d - int (count_list (successors E k) d)
      else ks_indeg s d)"
  using fold_decrement [of "set (removeAll k (ks_remaining s))" "successors E k" "ks_indeg s" d]
  by (simp add: emit_def Let_def)

lemma emit_inv:
  assumes inv: "kahn_inv N E s" and E: "edges_within N E" and k: "k \<in> set (ks_remaining s)"
    and z: "edge_count E (set (ks_remaining s)) k = 0"
  shows "kahn_inv N E (emit (successors E) k s)"
proof -
  have o: "ks_order (emit (successors E) k s) = ks_order s @ [k]" by (simp add: emit_def Let_def)
  have "p \<in> set (ks_order s)" if "(p, k) \<in> set E" for p
  proof -
    from that E have "p \<in> N" by (force simp: edges_within_def)
    moreover from z that have "p \<notin> set (ks_remaining s)" by (auto simp: edge_count_zero_iff)
    ultimately show ?thesis using inv by (auto simp: kahn_inv_def)
  qed
  then have "deps_before E (ks_order s @ [k])"
    using inv by (intro deps_before_snoc) (auto simp: kahn_inv_def)
  moreover have "ks_indeg (emit (successors E) k s) d
      = int (edge_count E (set (ks_remaining s) - {k}) d)" if "d \<in> set (ks_remaining s) - {k}" for d
    using that inv edge_count_remove [OF k, of E d] by (simp add: emit_indeg kahn_inv_def)
  ultimately show ?thesis
    using inv k by (auto simp: kahn_inv_def o distinct_removeAll)
qed

lemma emit_layer_inv:
  assumes "kahn_inv N E s" and "edges_within N E" and "distinct ks"
    and "\<And>k. k \<in> set ks \<Longrightarrow> k \<in> set (ks_remaining s) \<and> edge_count E (set (ks_remaining s)) k = 0"
  shows "kahn_inv N E (fold (emit (successors E)) ks s)"
  using assms
proof (induction ks arbitrary: s)
  case (Cons k ks)
  have "kahn_inv N E (emit (successors E) k s)"
    using Cons.prems by (intro emit_inv) auto
  moreover have "j \<in> set (ks_remaining (emit (successors E) k s)) \<and>
      edge_count E (set (ks_remaining (emit (successors E) k s))) j = 0" if "j \<in> set ks" for j
    using Cons.prems(3) Cons.prems(4) [of j] that
    by (auto intro: edge_count_mono_zero)
  ultimately show ?case using Cons.prems by (simp add: Cons.IH)
qed simp

lemma layer_members:
  "set (layer discovery s) = {k \<in> set (ks_remaining s). ks_indeg s k = 0}"
  by (auto simp: layer_def)

lemma kahn_keeps_inv:
  assumes "kahn_inv N E s" and "edges_within N E"
  shows "kahn_inv N E (kahn (successors E) discovery s)"
  using assms
proof (induction "successors E" discovery s rule: kahn.induct)
  case (1 discovery s)
  show ?case
  proof (cases "ks_remaining s = [] \<or> layer discovery s = []")
    case True
    then show ?thesis using 1(2) by (subst kahn.simps) simp
  next
    case False
    have "distinct (layer discovery s)" using 1(2) by (simp add: layer_def kahn_inv_def)
    then have "kahn_inv N E (fold (emit (successors E)) (layer discovery s) s)"
      using 1(2,3) by (intro emit_layer_inv) (auto simp: layer_members kahn_inv_def)
    then show ?thesis using 1(1) [OF False] 1(3) False by (subst kahn.simps) simp
  qed
qed

lemma kahn_stuck:
  "ks_remaining (kahn adj discovery s) = [] \<or> layer discovery (kahn adj discovery s) = []"
proof (induction adj discovery s rule: kahn.induct)
  case (1 adj discovery s)
  then show ?case
    by (cases "ks_remaining s = [] \<or> layer discovery s = []") (simp_all add: kahn.simps [of adj discovery s])
qed

section \<open>What is left over\<close>

text \<open>In a finite set where every element has a predecessor, every element is reached from a cycle.\<close>

lemma cycle_behind:
  assumes "finite R" and pred: "\<And>x. x \<in> R \<Longrightarrow> \<exists>p \<in> R. (p, x) \<in> D" and x: "x \<in> R"
  shows "\<exists>c. (c, c) \<in> D\<^sup>+ \<and> (c, x) \<in> D\<^sup>*"
proof (rule ccontr)
  assume none: "\<not> ?thesis"
  let ?A = "{a \<in> R. (a, x) \<in> D\<^sup>*}" and ?D = "{(p, y). (p, y) \<in> D \<and> p \<in> R \<and> y \<in> R \<and> (y, x) \<in> D\<^sup>*}"
  have fin: "finite ?D" by (rule finite_subset [of _ "R \<times> R"]) (use assms in auto)
  have sub: "(a, b) \<in> D\<^sup>+ \<and> (b, x) \<in> D\<^sup>*" if "(a, b) \<in> ?D\<^sup>+" for a b
    using that
  proof (induction rule: trancl.induct)
    case (trancl_into_trancl a b c)
    then have "(a, b) \<in> D\<^sup>+" "(b, c) \<in> D" "(c, x) \<in> D\<^sup>*" by auto
    then show ?case using trancl.trancl_into_trancl by metis
  qed auto
  have "(a, a) \<notin> ?D\<^sup>+" for a using none sub [of a a] by blast
  then have "acyclic ?D" unfolding acyclic_def by blast
  with fin have "wf ?D" by (rule finite_acyclic_wf)
  then obtain m where m: "m \<in> ?A" and min: "\<And>y. (y, m) \<in> ?D \<Longrightarrow> y \<notin> ?A"
    using wfE_min [of ?D x ?A] x by auto
  from m pred obtain p where p: "p \<in> R" "(p, m) \<in> D" by auto
  with m have "(p, m) \<in> ?D" and "p \<in> ?A" by (auto intro: converse_rtrancl_into_rtrancl)
  with min show False by blast
qed

lemma no_cycle_emitted:
  assumes "deps_before E order" and "i < length order"
  shows "(p, order ! i) \<in> (set E)\<^sup>+ \<Longrightarrow> p \<in> set (take i order)"
  using assms(2)
proof (induction i arbitrary: p rule: less_induct)
  case (less i)
  from less.prems(1) obtain q where q: "q = p \<or> (p, q) \<in> (set E)\<^sup>+" "(q, order ! i) \<in> set E"
    by (auto elim: tranclE)
  with assms(1) less.prems(2) have "q \<in> set (take i order)" by (auto simp: deps_before_def)
  then obtain j where j: "j < i" "q = order ! j" using less.prems(2) by (auto simp: in_set_conv_nth)
  then have "p \<in> set (take j order)" if "(p, q) \<in> (set E)\<^sup>+"
    using less.IH [OF j(1)] less.prems(2) that by simp
  then have "p \<in> set (take i order)" if "(p, q) \<in> (set E)\<^sup>+"
    using that j(1) set_take_subset_set_take [of j i order] by auto
  with q \<open>q \<in> set (take i order)\<close> show ?case by auto
qed

lemma leftover_iff_behind_cycle:
  assumes inv: "kahn_inv N E s" and E: "edges_within N E"
    and stuck: "ks_remaining s = [] \<or> layer discovery s = []"
  shows "k \<in> set (ks_remaining s) \<longleftrightarrow> k \<in> N \<and> (\<exists>c. (c, c) \<in> (set E)\<^sup>+ \<and> (c, k) \<in> (set E)\<^sup>*)"
proof
  assume k: "k \<in> set (ks_remaining s)"
  then have empty: "layer discovery s = []" using stuck by auto
  have "\<exists>p \<in> set (ks_remaining s). (p, x) \<in> set E" if "x \<in> set (ks_remaining s)" for x
  proof -
    have "ks_indeg s x \<noteq> 0" using empty that layer_members [of discovery s] by auto
    then have "edge_count E (set (ks_remaining s)) x \<noteq> 0" using inv that by (auto simp: kahn_inv_def)
    then show ?thesis by (simp add: edge_count_zero_iff)
  qed
  with k have "\<exists>c. (c, c) \<in> (set E)\<^sup>+ \<and> (c, k) \<in> (set E)\<^sup>*" by (intro cycle_behind) auto
  then show "k \<in> N \<and> (\<exists>c. (c, c) \<in> (set E)\<^sup>+ \<and> (c, k) \<in> (set E)\<^sup>*)" using inv k by (auto simp: kahn_inv_def)
next
  assume "k \<in> N \<and> (\<exists>c. (c, c) \<in> (set E)\<^sup>+ \<and> (c, k) \<in> (set E)\<^sup>*)"
  then obtain c where c: "k \<in> N" "(c, c) \<in> (set E)\<^sup>+" "(c, k) \<in> (set E)\<^sup>*" by auto
  have ord: "deps_before E (ks_order s)" and dist: "distinct (ks_order s)"
    using inv by (auto simp: kahn_inv_def)
  have no: "c \<notin> set (ks_order s)"
  proof
    assume "c \<in> set (ks_order s)"
    then obtain i where i: "i < length (ks_order s)" "c = ks_order s ! i" by (auto simp: in_set_conv_nth)
    with no_cycle_emitted [OF ord i(1), of c] c(2) have "c \<in> set (take i (ks_order s))" by simp
    with i dist show False by (auto simp: in_set_conv_nth nth_eq_iff_index_eq)
  qed
  have "k \<notin> set (ks_order s)"
  proof
    assume k: "k \<in> set (ks_order s)"
    then obtain i where i: "i < length (ks_order s)" "k = ks_order s ! i" by (auto simp: in_set_conv_nth)
    from k no have "c \<noteq> k" by auto
    with c(3) have "(c, k) \<in> (set E)\<^sup>+" by (auto simp: rtrancl_eq_or_trancl)
    with no_cycle_emitted [OF ord i(1), of c] i(2) no show False by (auto dest: in_set_takeD)
  qed
  with inv c(1) show "k \<in> set (ks_remaining s)" by (auto simp: kahn_inv_def)
qed

section \<open>The initial state\<close>

lemma all_edges_iff:
  "(p, d) \<in> set (all_edges nodes requires) \<longleftrightarrow>
     p \<in> set nodes \<and> d \<in> set nodes \<and> (\<exists>deps. (d, deps) \<in> set requires \<and> p \<in> set deps)"
  by (force simp: all_edges_def edges_of_def split: if_splits)

definition kahn_start :: "string list \<Rightarrow> requires_map \<Rightarrow> kahn_state" where
  "kahn_start nodes requires =
     \<lparr>ks_order = [], ks_remaining = nodes, ks_indeg = indegree nodes requires\<rparr>"

lemma edges_within_nodes: "edges_within (set nodes) (all_edges nodes requires)"
  by (auto simp: edges_within_def all_edges_iff)

lemma kahn_start_inv:
  assumes "distinct nodes"
  shows "kahn_inv (set nodes) (all_edges nodes requires) (kahn_start nodes requires)"
proof -
  have "fst e \<in> set nodes" if "e \<in> set (all_edges nodes requires)" for e
    using that edges_within_nodes [of nodes requires] by (auto simp: edges_within_def)
  then have "filter (\<lambda>e. snd e = d \<and> fst e \<in> set nodes) (all_edges nodes requires) =
      filter (\<lambda>e. snd e = d) (all_edges nodes requires)" for d
    by (auto intro: filter_cong)
  then show ?thesis
    using assms by (simp add: kahn_inv_def kahn_start_def indegree_def edge_count_def deps_before_def)
qed

lemma topological_order_state:
  assumes "distinct nodes" and "topological_order nodes requires discovery = (order, rest)"
  obtains s where "kahn_inv (set nodes) (all_edges nodes requires) s" "ks_order s = order"
    "ks_remaining s = rest" "rest = [] \<or> layer discovery s = []"
proof
  let ?s = "kahn (successors (all_edges nodes requires)) discovery (kahn_start nodes requires)"
  show "kahn_inv (set nodes) (all_edges nodes requires) ?s"
    by (rule kahn_keeps_inv [OF kahn_start_inv [OF assms(1)] edges_within_nodes])
  show o: "ks_order ?s = order" and r: "ks_remaining ?s = rest"
    using assms(2) by (simp_all add: topological_order_def adjacency_successors kahn_start_def Let_def)
  show "rest = [] \<or> layer discovery ?s = []"
    using kahn_stuck [of "successors (all_edges nodes requires)" discovery "kahn_start nodes requires"] r
    by simp
qed

section \<open>Independence of the iteration order\<close>

text \<open>Two states that agree up to the order of the remaining keys.\<close>

definition same_state :: "kahn_state \<Rightarrow> kahn_state \<Rightarrow> bool" where
  "same_state s t \<longleftrightarrow> ks_order s = ks_order t \<and> ks_indeg s = ks_indeg t \<and>
     set (ks_remaining s) = set (ks_remaining t) \<and>
     distinct (ks_remaining s) \<and> distinct (ks_remaining t)"

lemma sort_key_of_inj: "inj (sort_key_of discovery)"
  by (rule injI) (simp add: sort_key_of_def)

lemma same_state_layer:
  assumes "same_state s t"
  shows "layer discovery s = layer discovery t"
proof -
  let ?f = "sort_key_of discovery"
  have "mset (filter (\<lambda>k. ks_indeg s k = 0) (ks_remaining s)) =
      mset (filter (\<lambda>k. ks_indeg t k = 0) (ks_remaining t))"
    using assms by (intro set_eq_iff_mset_eq_distinct [THEN iffD1]) (auto simp: same_state_def)
  moreover have "inj_on ?f A" for A using sort_key_of_inj by (rule inj_on_subset) simp
  ultimately show ?thesis
    unfolding layer_def by (intro sort_key_inj_key_eq) auto
qed

lemma same_successors_fold:
  assumes "mset xs = mset ys"
  shows "fold (\<lambda>d ig. if d \<in> R then ig(d := ig d - (1::int)) else ig) xs ig =
    fold (\<lambda>d ig. if d \<in> R then ig(d := ig d - 1) else ig) ys ig"
proof -
  have "count_list xs d = count_list ys d" for d
    using assms by (simp add: count_mset [symmetric])
  then show ?thesis by (simp add: fun_eq_iff fold_decrement)
qed

lemma same_state_emit:
  assumes "same_state s t" and "mset E = mset E'"
  shows "same_state (emit (successors E) k s) (emit (successors E') k t)"
proof -
  have "mset (successors E k) = mset (successors E' k)"
    using assms(2) by (simp add: successors_def)
  from same_successors_fold [OF this] show ?thesis
    using assms(1) by (simp add: same_state_def emit_def Let_def distinct_removeAll)
qed

lemma same_state_fold_emit:
  "same_state s t \<Longrightarrow> mset E = mset E' \<Longrightarrow>
     same_state (fold (emit (successors E)) ks s) (fold (emit (successors E')) ks t)"
  by (induction ks arbitrary: s t) (auto intro: same_state_emit)

lemma same_state_kahn:
  assumes "same_state s t" and "mset E = mset E'"
  shows "same_state (kahn (successors E) discovery s) (kahn (successors E') discovery t)"
  using assms
proof (induction "successors E" discovery s arbitrary: t rule: kahn.induct)
  case (1 discovery s)
  have l: "layer discovery s = layer discovery t" by (rule same_state_layer [OF 1(2)])
  have e: "ks_remaining s = [] \<longleftrightarrow> ks_remaining t = []"
    using 1(2) by (auto simp: same_state_def)
  show ?case
  proof (cases "ks_remaining s = [] \<or> layer discovery s = []")
    case True
    then show ?thesis using 1(2) l e by (simp add: kahn.simps [of _ discovery s] kahn.simps [of _ discovery t])
  next
    case False
    have "same_state (fold (emit (successors E)) (layer discovery s) s)
        (fold (emit (successors E')) (layer discovery s) t)"
      by (rule same_state_fold_emit [OF 1(2,3)])
    from 1(1) [OF False this 1(3)] show ?thesis
      using False l e by (simp add: kahn.simps [of _ discovery s] kahn.simps [of _ discovery t])
  qed
qed

lemma all_edges_perm:
  assumes "set nodes = set nodes'" and "mset requires = mset requires'"
  shows "mset (all_edges nodes requires) = mset (all_edges nodes' requires')"
proof -
  have e: "edges_of nodes = edges_of nodes'" using assms(1) by (simp add: fun_eq_iff edges_of_def)
  have "mset (all_edges nodes' rs) = (\<Sum>x\<in>#mset rs. mset (edges_of nodes' x))" for rs
    by (induction rs) (simp_all add: all_edges_def)
  then have "mset (all_edges nodes' requires) = mset (all_edges nodes' requires')" by (simp add: assms(2))
  then show ?thesis by (simp add: all_edges_def e)
qed

section \<open>Theorems\<close>

text \<open>
  C30: The load order is sound: the keys emitted and the keys left over partition the enabled
  keys without repetition, and every enabled plugin that an emitted plugin requires is emitted
  strictly before it.
\<close>

theorem load_order_sound:
  assumes "distinct enabled" and "topological_order enabled requires discovery = (order, rest)"
  shows "distinct (order @ rest) \<and> set (order @ rest) = set enabled \<and>
    (\<forall>i < length order. \<forall>deps dep. (order ! i, deps) \<in> set requires \<longrightarrow> dep \<in> set deps \<longrightarrow>
       dep \<in> set enabled \<longrightarrow> dep \<in> set (take i order))"
proof -
  obtain s where s: "kahn_inv (set enabled) (all_edges enabled requires) s" "ks_order s = order"
    "ks_remaining s = rest" by (rule topological_order_state [OF assms])
  have part: "distinct (order @ rest)" "set (order @ rest) = set enabled"
    using s by (auto simp: kahn_inv_def)
  have "dep \<in> set (take i order)" if "i < length order" "(order ! i, deps) \<in> set requires"
    "dep \<in> set deps" "dep \<in> set enabled" for i deps dep
  proof -
    from that(1) have "order ! i \<in> set enabled" using part(2) by (metis UnCI nth_mem set_append)
    with that have "(dep, order ! i) \<in> set (all_edges enabled requires)" by (auto simp: all_edges_iff)
    with s that(1) show ?thesis by (auto simp: kahn_inv_def deps_before_def)
  qed
  with part show ?thesis by blast
qed

definition demo_requires :: requires_map where
  "demo_requires = [(''web'', [''http'', ''log'']), (''http'', [''log'']), (''x'', [''y'']),
     (''y'', [''x'']), (''z'', [''x'', ''log''])]"

definition demo_enabled :: "string list" where
  "demo_enabled = [''web'', ''http'', ''log'', ''x'', ''y'', ''z'']"

definition demo_discovery :: "(string \<times> nat) list" where
  "demo_discovery = [(''web'', 0), (''log'', 1), (''http'', 2)]"

lemma demo_order:
  "topological_order demo_enabled demo_requires demo_discovery =
     ([''log'', ''http'', ''web''], [''x'', ''y'', ''z''])"
  by code_simp

lemma demo_distinct [simp]: "distinct demo_enabled"
  by (simp add: demo_enabled_def)

theorem load_order_sound_witness:
  "set ([''log'', ''http'', ''web''] @ [''x'', ''y'', ''z'']) = set demo_enabled \<and>
   ''log'' \<in> set (take 1 [''log'', ''http'', ''web'']) \<and> ''http'' \<in> set (take 2 [''log'', ''http'', ''web''])"
proof -
  have "(''http'', [''log'']) \<in> set demo_requires" "(''web'', [''http'', ''log'']) \<in> set demo_requires"
    "''log'' \<in> set demo_enabled" "''http'' \<in> set demo_enabled"
    by (simp_all add: demo_requires_def demo_enabled_def)
  then show ?thesis
    using load_order_sound [OF demo_distinct demo_order]
    by (fastforce dest: spec [of _ 1] spec [of _ 2])
qed

text \<open>
  The load order is complete: an enabled plugin is left out exactly when it is on, or
  depends through enabled plugins on, a dependency cycle of enabled plugins. In particular
  every enabled plugin is loaded when the enabled plugins have no cycle.
\<close>

theorem load_order_complete:
  assumes "distinct enabled" and "topological_order enabled requires discovery = (order, rest)"
    and "D = {(dep, k). dep \<in> set enabled \<and> k \<in> set enabled \<and>
           (\<exists>deps. (k, deps) \<in> set requires \<and> dep \<in> set deps)}"
  shows "k \<in> set rest \<longleftrightarrow> k \<in> set enabled \<and> (\<exists>c. (c, c) \<in> D\<^sup>+ \<and> (c, k) \<in> D\<^sup>*)"
proof -
  have D: "set (all_edges enabled requires) = D" unfolding assms(3) by (auto simp: all_edges_iff)
  obtain s where s: "kahn_inv (set enabled) (all_edges enabled requires) s"
    "ks_remaining s = rest" "rest = [] \<or> layer discovery s = []"
    by (rule topological_order_state [OF assms(1,2)])
  from leftover_iff_behind_cycle [OF s(1) edges_within_nodes, of discovery k] s(2,3) D
  show ?thesis by simp
qed

theorem load_order_complete_witness:
  "let D = {(dep, k). dep \<in> set demo_enabled \<and> k \<in> set demo_enabled \<and>
           (\<exists>deps. (k, deps) \<in> set demo_requires \<and> dep \<in> set deps)}
   in (\<exists>c. (c, c) \<in> D\<^sup>+ \<and> (c, ''z'') \<in> D\<^sup>*) \<and> \<not> (\<exists>c. (c, c) \<in> D\<^sup>+ \<and> (c, ''web'') \<in> D\<^sup>*)"
  using load_order_complete [OF _ demo_order refl, of "''z''"]
    load_order_complete [OF _ demo_order refl, of "''web''"]
  by (simp add: demo_enabled_def Let_def)

text \<open>
  The load order is reproducible: it does not depend on the iteration order of the set of
  enabled keys nor on that of the dict of requirements; and the same keys are left over.
\<close>

theorem load_order_stable:
  assumes "distinct enabled" and "distinct enabled'" and "set enabled = set enabled'"
    and "mset requires = mset requires'"
  shows "fst (topological_order enabled requires discovery) = fst (topological_order enabled' requires' discovery) \<and>
    set (snd (topological_order enabled requires discovery)) = set (snd (topological_order enabled' requires' discovery))"
proof -
  note E = all_edges_perm [OF assms(3,4)]
  have "indegree enabled requires n = indegree enabled' requires' n" for n
    using arg_cong [OF E, of "\<lambda>M. size (filter_mset (\<lambda>e. snd e = n) M)"]
    by (simp add: indegree_def flip: mset_filter)
  then have "same_state (kahn_start enabled requires) (kahn_start enabled' requires')"
    using assms by (simp add: same_state_def kahn_start_def fun_eq_iff)
  from same_state_kahn [OF this E, of discovery] show ?thesis
    by (simp add: topological_order_def adjacency_successors kahn_start_def same_state_def Let_def)
qed

theorem load_order_stable_witness:
  "fst (topological_order (rev demo_enabled) (rev demo_requires) demo_discovery) = [''log'', ''http'', ''web'']"
  using load_order_stable [of demo_enabled "rev demo_enabled" demo_requires "rev demo_requires" demo_discovery]
  by (simp add: demo_order demo_distinct)

lemma partial_errors_none:
  "partial_errors deps pips = [] \<longleftrightarrow>
     \<not> (\<exists>d \<in> set deps. \<not> da_available d \<and> da_diagnostic d \<noteq> []) \<and>
     \<not> (\<exists>p \<in> set pips. pip_status_of p \<in> {PIP_MISSING, PIP_INCOMPATIBLE} \<and> pip_diagnostic p \<noteq> [])"
  by (auto simp: partial_errors_def filter_empty_conv)

text \<open>
  The overall scan status of a plugin: \<open>OK\<close> exactly when the manifest was read, the kind
  is supported, the plugin is on no cycle, nothing failed to load, and no unavailable dependency
  and no missing or incompatible distribution reports a diagnostic; \<open>MISSING\<close> is never produced;
  a manifest that was not read gives \<open>FAILED\<close> even for an unsupported kind.
\<close>

theorem overall_status_exact:
  "(fst (compute_overall_status manifest_ok is_unsupported in_cycle cycle_error deps pips load_error warnings) = OK \<longleftrightarrow>
      manifest_ok \<and> \<not> is_unsupported \<and> \<not> in_cycle \<and> \<not> truthy load_error \<and>
      \<not> (\<exists>d \<in> set deps. \<not> da_available d \<and> da_diagnostic d \<noteq> []) \<and>
      \<not> (\<exists>p \<in> set pips. pip_status_of p \<in> {PIP_MISSING, PIP_INCOMPATIBLE} \<and> pip_diagnostic p \<noteq> [])) \<and>
   fst (compute_overall_status manifest_ok is_unsupported in_cycle cycle_error deps pips load_error warnings) \<noteq> MISSING \<and>
   fst (compute_overall_status False is_unsupported in_cycle cycle_error deps pips load_error warnings) = FAILED"
  using partial_errors_none [of deps pips]
  by (auto simp: compute_overall_status_def Let_def split: list.splits)

end
