(* ===== verification/Delegation_Domain.thy ===== *)
theory Delegation_Domain
  imports Policy_Kernel Lifecycle Python_Text
begin

text \<open>
  The delegation aggregate (\<open>app/domain/delegation.py\<close>): a parent agent hands parallel work to
  child agents and joins their results. The aggregates are mutated in place by \<open>transition\<close>
  in the code; here a transition returns the new aggregate. Timestamps, which the code keeps as
  ISO texts in UTC, are instants; a JSON mapping is a JSON value.
\<close>

section \<open>Enumerations and tables\<close>

datatype DelegationStatus =
  PENDING | RUNNING | JOINING | SUCCEEDED | FAILED | CANCELLING | CANCELLED | EXPIRED

datatype DelegationMemberStatus =
  PENDING | RUNNING | SUCCEEDED | FAILED | CANCELLED | EXPIRED

datatype DelegationMemberRole = WORKER | AGGREGATOR

datatype DelegationJoinPolicy = ALL_COMPLETED | ALL_SUCCEEDED | BEST_EFFORT

datatype DelegationAggregationPolicy = PARENT | AGENT

datatype MutationOutcome = SUCCESS | IDEMPOTENT_REPLAY | CONFLICT | BUSY

datatype delegation_error =
  DelegationStateError | DelegationConflictError | DelegationValueError | IntegrityError | PyTypeError

definition DELEGATION_TERMINAL_STATES :: "DelegationStatus set" where
  "DELEGATION_TERMINAL_STATES =
     {DelegationStatus.SUCCEEDED, DelegationStatus.FAILED, DelegationStatus.CANCELLED, DelegationStatus.EXPIRED}"

fun DELEGATION_TRANSITION_TABLE :: "DelegationStatus \<Rightarrow> DelegationStatus set" where
  "DELEGATION_TRANSITION_TABLE DelegationStatus.PENDING =
     {DelegationStatus.RUNNING, DelegationStatus.CANCELLING, DelegationStatus.EXPIRED}"
| "DELEGATION_TRANSITION_TABLE DelegationStatus.RUNNING =
     {DelegationStatus.JOINING, DelegationStatus.SUCCEEDED, DelegationStatus.FAILED,
      DelegationStatus.CANCELLING, DelegationStatus.EXPIRED}"
| "DELEGATION_TRANSITION_TABLE DelegationStatus.JOINING =
     {DelegationStatus.SUCCEEDED, DelegationStatus.FAILED, DelegationStatus.CANCELLING, DelegationStatus.EXPIRED}"
| "DELEGATION_TRANSITION_TABLE DelegationStatus.CANCELLING =
     {DelegationStatus.CANCELLED, DelegationStatus.EXPIRED}"
| "DELEGATION_TRANSITION_TABLE DelegationStatus.SUCCEEDED = {}"
| "DELEGATION_TRANSITION_TABLE DelegationStatus.FAILED = {}"
| "DELEGATION_TRANSITION_TABLE DelegationStatus.CANCELLED = {}"
| "DELEGATION_TRANSITION_TABLE DelegationStatus.EXPIRED = {}"

definition DELEGATION_MEMBER_TERMINAL_STATES :: "DelegationMemberStatus set" where
  "DELEGATION_MEMBER_TERMINAL_STATES =
     {DelegationMemberStatus.SUCCEEDED, DelegationMemberStatus.FAILED, DelegationMemberStatus.CANCELLED,
      DelegationMemberStatus.EXPIRED}"

fun DELEGATION_MEMBER_TRANSITION_TABLE :: "DelegationMemberStatus \<Rightarrow> DelegationMemberStatus set" where
  "DELEGATION_MEMBER_TRANSITION_TABLE DelegationMemberStatus.PENDING =
     {DelegationMemberStatus.RUNNING, DelegationMemberStatus.CANCELLED, DelegationMemberStatus.EXPIRED}"
| "DELEGATION_MEMBER_TRANSITION_TABLE DelegationMemberStatus.RUNNING =
     {DelegationMemberStatus.SUCCEEDED, DelegationMemberStatus.FAILED, DelegationMemberStatus.CANCELLED,
      DelegationMemberStatus.EXPIRED, DelegationMemberStatus.PENDING}"
| "DELEGATION_MEMBER_TRANSITION_TABLE DelegationMemberStatus.SUCCEEDED = {}"
| "DELEGATION_MEMBER_TRANSITION_TABLE DelegationMemberStatus.FAILED = {}"
| "DELEGATION_MEMBER_TRANSITION_TABLE DelegationMemberStatus.CANCELLED = {}"
| "DELEGATION_MEMBER_TRANSITION_TABLE DelegationMemberStatus.EXPIRED = {}"

section \<open>Value objects\<close>

record DelegationParentRef =
  pr_source :: string
  pr_scope_id :: string
  pr_run_id :: string
  pr_session_id :: string

text \<open>Of an output schema only the text that \<open>repr\<close> gives is ever used.\<close>

record DelegationChildSpec =
  cs_title :: string
  cs_instruction :: string
  cs_skills :: "string list"
  cs_allowed_tools :: "string list"
  cs_model_override :: "string option"
  cs_max_runtime_seconds :: "int option"
  cs_budget_tokens :: int
  cs_output_schema :: "string option"

record DelegationResult =
  re_status :: DelegationMemberStatus
  re_summary :: string
  re_structured_data :: "json option"
  re_artifact_refs :: "string list"
  re_error_code :: "string option"
  re_error_message :: "string option"
  re_usage_summary :: "(string \<times> int) list"
  re_classification :: "string option"
  re_checksum :: string
  re_started_at :: "datetime option"
  re_ended_at :: "datetime option"

definition DelegationResult_new :: "DelegationMemberStatus \<Rightarrow> DelegationResult" where
  "DelegationResult_new st =
     \<lparr>re_status = st, re_summary = [], re_structured_data = None, re_artifact_refs = [],
      re_error_code = None, re_error_message = None, re_usage_summary = [], re_classification = None,
      re_checksum = [], re_started_at = None, re_ended_at = None\<rparr>"

record DelegationResultSet =
  rt_delegation_id :: string
  rt_status :: DelegationStatus
  rt_member_results :: "DelegationResult list"
  rt_aggregation_result :: "DelegationResult option"
  rt_partial :: bool
  rt_partial_reason :: "string option"
  rt_filter_notes :: "string list"
  rt_total_usage :: "(string \<times> int) list option"

record DelegationEvent =
  de_id :: int
  de_delegation_id :: string
  de_kind :: string
  de_payload :: json
  de_member_ordinal :: "int option"
  de_created_at :: datetime

section \<open>The aggregates\<close>

record Delegation =
  d_id :: string
  d_parent :: DelegationParentRef
  d_delegation_key :: string
  d_fingerprint :: string
  d_join_policy :: DelegationJoinPolicy
  d_aggregation :: DelegationAggregationPolicy
  d_deadline_at :: "datetime option"
  d_policy_snapshot_id :: string
  d_budget_total_tokens :: int
  d_budget_reserved_tokens :: int
  d_budget_settled_tokens :: int
  d_status :: DelegationStatus
  d_version :: int
  d_first_run_id :: "string option"
  d_created_at :: datetime
  d_updated_at :: datetime
  d_cancellation_reason :: "string option"
  d_canonical_parent_run_id :: "string option"

definition Delegation_transition :: "DelegationStatus \<Rightarrow> Delegation \<Rightarrow> delegation_error + Delegation" where
  "Delegation_transition target d =
     (if target \<notin> DELEGATION_TRANSITION_TABLE (d_status d) then Inl DelegationStateError
      else Inr (d\<lparr>d_status := target, d_version := d_version d + 1\<rparr>))"

definition mark_cancelling :: "Delegation \<Rightarrow> delegation_error + Delegation" where
  "mark_cancelling d = Delegation_transition DelegationStatus.CANCELLING d"

definition Delegation_is_terminal :: "Delegation \<Rightarrow> bool" where
  "Delegation_is_terminal d \<longleftrightarrow> d_status d \<in> DELEGATION_TERMINAL_STATES"

record DelegationMember =
  m_id :: string
  m_delegation_id :: string
  m_role :: DelegationMemberRole
  m_ordinal :: int
  m_title :: string
  m_instruction :: string
  m_skills :: "string list"
  m_allowed_tools :: "string list"
  m_model_override :: "string option"
  m_max_runtime_seconds :: "int option"
  m_execution_session_id :: string
  m_deadline_at :: "datetime option"
  m_budget_tokens :: int
  m_status :: DelegationMemberStatus
  m_version :: int
  m_retry_count :: int
  m_retry_of :: "string option"
  m_claim_lock :: "string option"
  m_claim_expires_at :: "datetime option"
  m_last_heartbeat_at :: "datetime option"
  m_cancel_reason :: "string option"
  m_cancel_requested_at :: "datetime option"
  m_started_at :: "datetime option"
  m_ended_at :: "datetime option"

definition DelegationMember_new ::
  "string \<Rightarrow> string \<Rightarrow> DelegationMemberRole \<Rightarrow> int \<Rightarrow> string \<Rightarrow> string \<Rightarrow> string list \<Rightarrow> string list \<Rightarrow> string
     \<Rightarrow> datetime option \<Rightarrow> int \<Rightarrow> string option \<Rightarrow> int option \<Rightarrow> DelegationMember" where
  "DelegationMember_new mid did role ord title instr skills tools session deadline budget model runtime =
     \<lparr>m_id = mid, m_delegation_id = did, m_role = role, m_ordinal = ord, m_title = title,
      m_instruction = instr, m_skills = skills, m_allowed_tools = tools, m_model_override = model,
      m_max_runtime_seconds = runtime, m_execution_session_id = session, m_deadline_at = deadline,
      m_budget_tokens = budget, m_status = DelegationMemberStatus.PENDING, m_version = 1,
      m_retry_count = 0, m_retry_of = None, m_claim_lock = None, m_claim_expires_at = None,
      m_last_heartbeat_at = None, m_cancel_reason = None, m_cancel_requested_at = None,
      m_started_at = None, m_ended_at = None\<rparr>"

definition Member_transition ::
  "DelegationMemberStatus \<Rightarrow> DelegationMember \<Rightarrow> delegation_error + DelegationMember" where
  "Member_transition target m =
     (if target \<notin> DELEGATION_MEMBER_TRANSITION_TABLE (m_status m) then Inl DelegationStateError
      else
        (let m1 = (if target = DelegationMemberStatus.PENDING \<and> m_status m = DelegationMemberStatus.RUNNING
                   then m\<lparr>m_retry_count := m_retry_count m + 1,
                          m_retry_of := (case m_retry_of m of None \<Rightarrow> Some (m_id m) | Some i \<Rightarrow> Some i)\<rparr>
                   else m)
         in Inr (m1\<lparr>m_status := target, m_version := m_version m + 1\<rparr>)))"

definition Member_is_terminal :: "DelegationMember \<Rightarrow> bool" where
  "Member_is_terminal m \<longleftrightarrow> m_status m \<in> DELEGATION_MEMBER_TERMINAL_STATES"

section \<open>Joining\<close>

definition join_status ::
  "DelegationJoinPolicy \<Rightarrow> DelegationAggregationPolicy \<Rightarrow> DelegationResult list \<Rightarrow> DelegationResult option
     \<Rightarrow> bool \<Rightarrow> string option \<Rightarrow> DelegationStatus" where
  "join_status policy aggregation results agg partial reason =
     (if reason = Some ''cancelled'' then DelegationStatus.CANCELLED
      else case (aggregation, agg) of
        (AGENT, Some r) \<Rightarrow>
          if re_status r = DelegationMemberStatus.SUCCEEDED then DelegationStatus.SUCCEEDED
          else DelegationStatus.FAILED
      | _ \<Rightarrow>
          if policy \<in> {ALL_COMPLETED, ALL_SUCCEEDED} then
            (if partial then DelegationStatus.FAILED
             else if results \<noteq> [] \<and> list_all (\<lambda>r. re_status r = DelegationMemberStatus.SUCCEEDED) results
             then DelegationStatus.SUCCEEDED else DelegationStatus.FAILED)
          else if list_ex (\<lambda>r. re_status r = DelegationMemberStatus.SUCCEEDED) results
          then DelegationStatus.SUCCEEDED else DelegationStatus.FAILED)"

definition evaluate_join_outcome ::
  "string \<Rightarrow> DelegationJoinPolicy \<Rightarrow> DelegationAggregationPolicy \<Rightarrow> DelegationResult list
     \<Rightarrow> DelegationResult option \<Rightarrow> bool \<Rightarrow> string option \<Rightarrow> DelegationResultSet" where
  "evaluate_join_outcome did policy aggregation results agg partial reason =
     \<lparr>rt_delegation_id = did, rt_status = join_status policy aggregation results agg partial reason,
      rt_member_results = results, rt_aggregation_result = agg, rt_partial = partial,
      rt_partial_reason = reason, rt_filter_notes = [], rt_total_usage = None\<rparr>"

section \<open>Commands and results of the registry\<close>

record ClaimMemberResult =
  cm_outcome :: MutationOutcome
  cm_member :: "DelegationMember option"
  cm_delegation :: "Delegation option"

record FinishMemberResult =
  fm_outcome :: MutationOutcome
  fm_member :: "DelegationMember option"
  fm_delegation :: "Delegation option"

record LedgerResult =
  lr_outcome :: MutationOutcome
  lr_reservation_id :: "string option"
  lr_balance :: "int option"

record PolicySnapshotRecord =
  ps_profile_version :: string
  ps_parent_config :: json
  ps_child_config :: json
  ps_aggregator_config :: "json option"
  ps_checksum :: string

record DelegationCreateRequest =
  dc_parent :: DelegationParentRef
  dc_delegation_key :: string
  dc_fingerprint :: string
  dc_join_policy :: DelegationJoinPolicy
  dc_aggregation :: DelegationAggregationPolicy
  dc_deadline_at :: "datetime option"
  dc_budget_total_tokens :: int
  dc_members :: "DelegationMember list"
  dc_snapshot :: PolicySnapshotRecord
  dc_trace_context :: json
  dc_canonical_parent_run_id :: "string option"

section \<open>The state machines\<close>

definition delegation_terminal :: "DelegationStatus \<Rightarrow> bool" where
  "delegation_terminal s \<longleftrightarrow> s \<in> DELEGATION_TERMINAL_STATES"

definition member_terminal :: "DelegationMemberStatus \<Rightarrow> bool" where
  "member_terminal s \<longleftrightarrow> s \<in> DELEGATION_MEMBER_TERMINAL_STATES"

interpretation dm: state_machine DELEGATION_TRANSITION_TABLE delegation_terminal d_status Delegation_transition
proof unfold_locales
  show "delegation_terminal s = (DELEGATION_TRANSITION_TABLE s = {})" for s
    by (cases s) (simp_all add: delegation_terminal_def DELEGATION_TERMINAL_STATES_def)
  show "Delegation_transition p x = Inr y \<Longrightarrow>
      d_status y = d_status x \<or> d_status y \<in> DELEGATION_TRANSITION_TABLE (d_status x)" for p x y
    by (auto simp: Delegation_transition_def split: if_splits)
qed

interpretation mm: state_machine DELEGATION_MEMBER_TRANSITION_TABLE member_terminal m_status Member_transition
proof unfold_locales
  show "member_terminal s = (DELEGATION_MEMBER_TRANSITION_TABLE s = {})" for s
    by (cases s) (simp_all add: member_terminal_def DELEGATION_MEMBER_TERMINAL_STATES_def)
  show "Member_transition p x = Inr y \<Longrightarrow>
      m_status y = m_status x \<or> m_status y \<in> DELEGATION_MEMBER_TRANSITION_TABLE (m_status x)" for p x y
    by (auto simp: Member_transition_def Let_def split: if_splits)
qed

end
