(* ===== verification/Delegation_Registry.thy ===== *)
theory Delegation_Registry
  imports Delegation_Domain "HOL-Library.Option_ord" "HOL-Library.Product_Lexorder"
begin

text \<open>
  The SQLite delegation registry (\<open>app/infrastructure/registry/sqlite_delegation_registry.py\<close>),
  one definition per \<open>_..._sync\<close> method, each one transaction: a database to a new database and
  a result. Texts of new identifiers and the clock are arguments. A constraint of the schema
  (\<open>CHECK\<close>, primary key, unique index, foreign key) that an insert or update would violate is
  the error \<open>IntegrityError\<close>, upon which the connection's context manager rolls back. JSON
  columns hold the values themselves.
\<close>

section \<open>Tables\<close>

record ResultRow =
  rr_delegation_id :: string
  rr_result_scope :: string
  rr_member_id :: "string option"
  rr_result :: DelegationResult
  rr_created_at :: datetime
  rr_adopted :: bool

record LedgerRow =
  lg_delegation_id :: string
  lg_reservation_id :: string
  lg_purpose :: string
  lg_amount :: int
  lg_reserved :: int
  lg_settled :: int
  lg_released :: int
  lg_usage_event_id :: "string option"
  lg_created_at :: datetime
  lg_updated_at :: datetime

record SnapshotRow =
  sn_id :: string
  sn_delegation_id :: string
  sn_record :: PolicySnapshotRecord
  sn_created_at :: datetime

record CancelOutboxEntry =
  co_id :: int
  co_delegation_id :: string
  co_member_id :: "string option"
  co_reason :: string
  co_attempts :: int
  co_next_attempt_at :: "datetime option"
  co_acked_at :: "datetime option"
  co_created_at :: datetime
  co_updated_at :: datetime

record ChildRunRow =
  cu_id :: string
  cu_session_id :: string
  cu_delegation_member_id :: "string option"
  cu_business_owner_deleted_at :: "datetime option"

record delegation_db =
  dg_delegations :: "Delegation list"
  dg_members :: "DelegationMember list"
  dg_snapshots :: "SnapshotRow list"
  dg_results :: "ResultRow list"
  dg_events :: "DelegationEvent list"
  dg_event_seq :: int
  dg_ledger :: "LedgerRow list"
  dg_outbox :: "CancelOutboxEntry list"
  dg_outbox_seq :: int
  dg_agent_runs :: "ChildRunRow list"

definition empty_delegation_db :: delegation_db where
  "empty_delegation_db =
     \<lparr>dg_delegations = [], dg_members = [], dg_snapshots = [], dg_results = [], dg_events = [],
      dg_event_seq = 0, dg_ledger = [], dg_outbox = [], dg_outbox_seq = 0, dg_agent_runs = []\<rparr>"

type_synonym 'a dg_result = "delegation_db \<times> (delegation_error + 'a)"

definition dg_insert_event ::
  "string \<Rightarrow> string \<Rightarrow> json \<Rightarrow> int option \<Rightarrow> datetime \<Rightarrow> delegation_db \<Rightarrow> delegation_db" where
  "dg_insert_event did kind payload ord now db =
     db\<lparr>dg_event_seq := dg_event_seq db + 1,
        dg_events := dg_events db @
          [\<lparr>de_id = dg_event_seq db + 1, de_delegation_id = did, de_kind = kind, de_payload = payload,
            de_member_ordinal = ord, de_created_at = now\<rparr>]\<rparr>"

definition dg_get_sync :: "string \<Rightarrow> delegation_db \<Rightarrow> Delegation option" where
  "dg_get_sync did db = fetchone (\<lambda>d. d_id d = did) (dg_delegations db)"

definition set_delegation :: "string \<Rightarrow> (Delegation \<Rightarrow> Delegation) \<Rightarrow> delegation_db \<Rightarrow> delegation_db" where
  "set_delegation did f db = db\<lparr>dg_delegations := sql_update (\<lambda>d. d_id d = did) f (dg_delegations db)\<rparr>"

section \<open>Creation\<close>

definition inserted_member :: "string \<Rightarrow> DelegationMember \<Rightarrow> DelegationMember" where
  "inserted_member did m =
     m\<lparr>m_delegation_id := did, m_status := DelegationMemberStatus.PENDING, m_version := 1,
       m_retry_count := 0, m_retry_of := None, m_claim_lock := None, m_claim_expires_at := None,
       m_last_heartbeat_at := None, m_cancel_reason := None, m_cancel_requested_at := None,
       m_started_at := None, m_ended_at := None\<rparr>"

definition inserted_delegation :: "datetime \<Rightarrow> string \<Rightarrow> DelegationCreateRequest \<Rightarrow> Delegation" where
  "inserted_delegation now did req =
     \<lparr>d_id = did, d_parent = dc_parent req, d_delegation_key = dc_delegation_key req,
      d_fingerprint = dc_fingerprint req, d_join_policy = dc_join_policy req,
      d_aggregation = dc_aggregation req, d_deadline_at = dc_deadline_at req,
      d_policy_snapshot_id = ''snap-'' @ did, d_budget_total_tokens = dc_budget_total_tokens req,
      d_budget_reserved_tokens = 0, d_budget_settled_tokens = 0, d_status = DelegationStatus.PENDING,
      d_version = 1, d_first_run_id = None, d_created_at = now, d_updated_at = now,
      d_cancellation_reason = None, d_canonical_parent_run_id = dc_canonical_parent_run_id req\<rparr>"

text \<open>The constraints that the inserts of a creation may violate.\<close>

definition create_violates :: "string \<Rightarrow> DelegationCreateRequest \<Rightarrow> delegation_db \<Rightarrow> bool" where
  "create_violates did req db \<longleftrightarrow>
     did \<in> d_id ` set (dg_delegations db) \<or> dc_budget_total_tokens req < 0 \<or>
     \<not> distinct (map m_id (dc_members req)) \<or>
     list_ex (\<lambda>m. m_id m \<in> m_id ` set (dg_members db) \<or> m_ordinal m < 0 \<or> m_budget_tokens m < 0) (dc_members req) \<or>
     \<not> distinct (map (\<lambda>m. (m_role m, m_ordinal m)) (dc_members req)) \<or>
     (''snap-'' @ did) \<in> sn_id ` set (dg_snapshots db)"

definition create_or_reconnect_sync ::
  "datetime \<Rightarrow> string \<Rightarrow> DelegationCreateRequest \<Rightarrow> delegation_db \<Rightarrow> Delegation dg_result" where
  "create_or_reconnect_sync now did req db =
     (case fetchone (\<lambda>d. pr_source (d_parent d) = pr_source (dc_parent req) \<and>
                       pr_scope_id (d_parent d) = pr_scope_id (dc_parent req) \<and>
                       d_delegation_key d = dc_delegation_key req) (dg_delegations db) of
        Some existing \<Rightarrow>
          if d_fingerprint existing \<noteq> dc_fingerprint req then (db, Inl DelegationConflictError)
          else (db, Inr existing)
      | None \<Rightarrow>
          if (case dc_canonical_parent_run_id req of
                None \<Rightarrow> False
              | Some rid \<Rightarrow> (case fetchone (\<lambda>r. cu_id r = rid) (dg_agent_runs db) of
                               None \<Rightarrow> True
                             | Some r \<Rightarrow> cu_session_id r \<noteq> pr_session_id (dc_parent req)))
          then (db, Inl DelegationValueError)
          else if create_violates did req db then (db, Inl IntegrityError)
          else
            (let d = inserted_delegation now did req;
                 db1 = db\<lparr>dg_delegations := dg_delegations db @ [d],
                          dg_members := dg_members db @ map (inserted_member did) (dc_members req),
                          dg_snapshots := dg_snapshots db @
                            [\<lparr>sn_id = ''snap-'' @ did, sn_delegation_id = did, sn_record = dc_snapshot req,
                              sn_created_at = now\<rparr>]\<rparr>
             in (dg_insert_event did ''created'' (JObj [(''trace_context'', dc_trace_context req)]) None now db1,
                 Inr d)))"

section \<open>Queries and deletion\<close>

definition list_execution_session_ids_for_parent_sync :: "string \<Rightarrow> delegation_db \<Rightarrow> string list" where
  "list_execution_session_ids_for_parent_sync sid db =
     map m_execution_session_id
       (filter (\<lambda>m. m_execution_session_id m \<noteq> [] \<and>
                list_ex (\<lambda>d. d_id d = m_delegation_id m \<and> pr_session_id (d_parent d) = sid) (dg_delegations db))
         (dg_members db))"

text \<open>The foreign keys cascade: every row of a deleted delegation goes with it.\<close>

definition delete_by_parent_session_sync :: "datetime \<Rightarrow> string \<Rightarrow> delegation_db \<Rightarrow> delegation_db \<times> nat" where
  "delete_by_parent_session_sync now sid db =
     (let gone = (\<lambda>did. list_ex (\<lambda>d. d_id d = did \<and> pr_session_id (d_parent d) = sid) (dg_delegations db));
          members = map m_id (filter (\<lambda>m. gone (m_delegation_id m)) (dg_members db))
      in (db\<lparr>dg_agent_runs := sql_update
               (\<lambda>r. case cu_delegation_member_id r of None \<Rightarrow> False | Some i \<Rightarrow> i \<in> set members)
               (\<lambda>r. r\<lparr>cu_business_owner_deleted_at := Some now\<rparr>) (dg_agent_runs db),
             dg_delegations := sql_delete (\<lambda>d. pr_session_id (d_parent d) = sid) (dg_delegations db),
             dg_members := sql_delete (\<lambda>m. gone (m_delegation_id m)) (dg_members db),
             dg_snapshots := sql_delete (\<lambda>n. gone (sn_delegation_id n)) (dg_snapshots db),
             dg_results := sql_delete (\<lambda>r. gone (rr_delegation_id r)) (dg_results db),
             dg_events := sql_delete (\<lambda>e. gone (de_delegation_id e)) (dg_events db),
             dg_ledger := sql_delete (\<lambda>l. gone (lg_delegation_id l)) (dg_ledger db),
             dg_outbox := sql_delete (\<lambda>x. gone (co_delegation_id x)) (dg_outbox db)\<rparr>,
          rowcount (\<lambda>d. pr_session_id (d_parent d) = sid) (dg_delegations db)))"

text \<open>\<open>ORDER BY created_at DESC\<close>; a negative \<open>LIMIT\<close> of SQLite is no limit.\<close>

definition sql_limit :: "int \<Rightarrow> 'a list \<Rightarrow> 'a list" where
  "sql_limit n xs = (if n < 0 then xs else take (nat n) xs)"

definition list_for_trusted_scope_sync :: "string \<Rightarrow> int \<Rightarrow> delegation_db \<Rightarrow> Delegation list" where
  "list_for_trusted_scope_sync scope lim db =
     sql_limit lim (sort_key (\<lambda>d. - d_created_at d)
       (filter (\<lambda>d. pr_scope_id (d_parent d) = scope) (dg_delegations db)))"

definition list_delegations_sync ::
  "int \<Rightarrow> nat \<Rightarrow> string option \<Rightarrow> DelegationStatus option \<Rightarrow> delegation_db \<Rightarrow> Delegation list" where
  "list_delegations_sync lim offset scope status db =
     sql_limit lim (drop offset (sort_key (\<lambda>d. - d_created_at d)
       (filter (\<lambda>d. (case scope of None \<Rightarrow> True | Some sc \<Rightarrow> pr_scope_id (d_parent d) = sc) \<and>
                (case status of None \<Rightarrow> True | Some st \<Rightarrow> d_status d = st)) (dg_delegations db))))"

definition list_members_sync :: "string \<Rightarrow> delegation_db \<Rightarrow> DelegationMember list" where
  "list_members_sync did db = sort_key m_ordinal (filter (\<lambda>m. m_delegation_id m = did) (dg_members db))"

definition get_policy_snapshot_sync :: "string \<Rightarrow> delegation_db \<Rightarrow> PolicySnapshotRecord option" where
  "get_policy_snapshot_sync did db = map_option sn_record (fetchone (\<lambda>n. sn_delegation_id n = did) (dg_snapshots db))"

definition dg_append_event_sync ::
  "datetime \<Rightarrow> string \<Rightarrow> string \<Rightarrow> json \<Rightarrow> int option \<Rightarrow> delegation_db \<Rightarrow> DelegationEvent dg_result" where
  "dg_append_event_sync now did kind payload ord db =
     (if did \<notin> d_id ` set (dg_delegations db) then (db, Inl IntegrityError)
      else let db1 = dg_insert_event did kind payload ord now db in (db1, Inr (last (dg_events db1))))"

definition dg_list_events_sync :: "string \<Rightarrow> int \<Rightarrow> int \<Rightarrow> delegation_db \<Rightarrow> DelegationEvent list" where
  "dg_list_events_sync did since lim db =
     sql_limit lim (sort_key de_id (filter (\<lambda>e. de_delegation_id e = did \<and> de_id e > since) (dg_events db)))"

section \<open>Claim and finish of a member\<close>

definition at_ordinal :: "string \<Rightarrow> int \<Rightarrow> DelegationMember \<Rightarrow> bool" where
  "at_ordinal did ord m \<longleftrightarrow> m_delegation_id m = did \<and> m_ordinal m = ord"

definition claimed_member :: "datetime \<Rightarrow> string \<Rightarrow> int \<Rightarrow> DelegationMember \<Rightarrow> DelegationMember" where
  "claimed_member now lock lease m =
     m\<lparr>m_status := DelegationMemberStatus.RUNNING, m_claim_lock := Some lock,
       m_claim_expires_at := Some (now + timedelta_seconds lease),
       m_started_at := (case m_started_at m of None \<Rightarrow> Some now | Some s \<Rightarrow> Some s),
       m_version := m_version m + 1\<rparr>"

definition claim_member_sync ::
  "datetime \<Rightarrow> string \<Rightarrow> int \<Rightarrow> string \<Rightarrow> int \<Rightarrow> delegation_db \<Rightarrow> ClaimMemberResult dg_result" where
  "claim_member_sync now did ord lock lease db =
     (let P = (\<lambda>m. at_ordinal did ord m \<and> m_status m = DelegationMemberStatus.PENDING);
          db1 = db\<lparr>dg_members := sql_update P (claimed_member now lock lease) (dg_members db)\<rparr>;
          m_row = fetchone (at_ordinal did ord) (dg_members db1);
          fail = (\<lambda>oc. (db1, Inr \<lparr>cm_outcome = oc, cm_member = None, cm_delegation = None\<rparr>))
      in if rowcount P (dg_members db) = 1 then
           (case (m_row, dg_get_sync did db1) of
              (Some m, Some d) \<Rightarrow>
                (db1, Inr \<lparr>cm_outcome = SUCCESS, cm_member = Some m, cm_delegation = Some d\<rparr>)
            | _ \<Rightarrow> (db1, Inl PyTypeError))
         else case m_row of
           None \<Rightarrow> fail BUSY
         | Some m \<Rightarrow>
             if m_claim_lock m = Some lock \<and> m_status m = DelegationMemberStatus.RUNNING
             then (db1, Inr \<lparr>cm_outcome = IDEMPOTENT_REPLAY, cm_member = Some m,
                             cm_delegation = dg_get_sync did db1\<rparr>)
             else if Member_is_terminal m then fail BUSY
             else fail CONFLICT)"

definition adopted_result :: "string \<Rightarrow> delegation_db \<Rightarrow> ResultRow option" where
  "adopted_result mid db = fetchone (\<lambda>r. rr_member_id r = Some mid \<and> rr_adopted r) (dg_results db)"

definition finished_member :: "datetime \<Rightarrow> DelegationMemberStatus \<Rightarrow> DelegationMember \<Rightarrow> DelegationMember" where
  "finished_member now st m = m\<lparr>m_status := st, m_ended_at := Some now, m_version := m_version m + 1\<rparr>"

definition member_result_row :: "datetime \<Rightarrow> DelegationMember \<Rightarrow> DelegationResult \<Rightarrow> ResultRow" where
  "member_result_row now m res =
     \<lparr>rr_delegation_id = m_delegation_id m, rr_result_scope = ''member'', rr_member_id = Some (m_id m),
      rr_result = res, rr_created_at = now, rr_adopted = True\<rparr>"

definition finish_member_sync ::
  "datetime \<Rightarrow> string \<Rightarrow> int \<Rightarrow> string \<Rightarrow> DelegationResult \<Rightarrow> int \<Rightarrow> delegation_db \<Rightarrow> FinishMemberResult dg_result" where
  "finish_member_sync now did ord lock res expected_version db =
     (let fail = (\<lambda>oc. (db, Inr \<lparr>fm_outcome = oc, fm_member = None, fm_delegation = None\<rparr>)) in
      case fetchone (at_ordinal did ord) (dg_members db) of
        None \<Rightarrow> fail BUSY
      | Some m \<Rightarrow>
          if Member_is_terminal m then
            (case adopted_result (m_id m) db of
               Some r \<Rightarrow>
                 if re_checksum (rr_result r) = re_checksum res
                 then (db, Inr \<lparr>fm_outcome = IDEMPOTENT_REPLAY, fm_member = Some m,
                                fm_delegation = dg_get_sync did db\<rparr>)
                 else fail CONFLICT
             | None \<Rightarrow> fail CONFLICT)
          else if m_status m \<noteq> DelegationMemberStatus.RUNNING then fail BUSY
          else if m_claim_lock m \<noteq> Some lock \<or> m_version m \<noteq> expected_version then fail CONFLICT
          else if adopted_result (m_id m) db \<noteq> None then (db, Inl IntegrityError)
          else
            (case dg_get_sync did db of
               None \<Rightarrow> (db, Inl PyTypeError)
             | Some d \<Rightarrow>
                 (let db1 = db\<lparr>dg_members := sql_update (\<lambda>x. m_id x = m_id m)
                                  (finished_member now (re_status res)) (dg_members db),
                               dg_results := dg_results db @ [member_result_row now m res]\<rparr>;
                      db2 = set_delegation did (\<lambda>d. d\<lparr>d_updated_at := now\<rparr>) db1
                  in (db2, Inr \<lparr>fm_outcome = SUCCESS,
                                fm_member = fetchone (\<lambda>x. m_id x = m_id m) (dg_members db2),
                                fm_delegation = Some d\<rparr>))))"

section \<open>The budget ledger\<close>

definition ledger_balance :: "Delegation \<Rightarrow> int" where
  "ledger_balance d = d_budget_total_tokens d - d_budget_reserved_tokens d - d_budget_settled_tokens d"

definition reserve_ledger_sync ::
  "datetime \<Rightarrow> string \<Rightarrow> string \<Rightarrow> int \<Rightarrow> string \<Rightarrow> delegation_db \<Rightarrow> LedgerResult dg_result" where
  "reserve_ledger_sync now rid did amount purpose db =
     (case dg_get_sync did db of
        None \<Rightarrow> (db, Inr \<lparr>lr_outcome = BUSY, lr_reservation_id = None, lr_balance = None\<rparr>)
      | Some d \<Rightarrow>
          if ledger_balance d < amount
          then (db, Inr \<lparr>lr_outcome = CONFLICT, lr_reservation_id = None, lr_balance = None\<rparr>)
          else if amount < 0 \<or> rid \<in> lg_reservation_id ` set (dg_ledger db) then (db, Inl IntegrityError)
          else
            (let db1 = set_delegation did
                         (\<lambda>d. d\<lparr>d_budget_reserved_tokens := d_budget_reserved_tokens d + amount, d_updated_at := now\<rparr>) db
             in (db1\<lparr>dg_ledger := dg_ledger db1 @
                     [\<lparr>lg_delegation_id = did, lg_reservation_id = rid, lg_purpose = purpose, lg_amount = amount,
                       lg_reserved = amount, lg_settled = 0, lg_released = 0, lg_usage_event_id = None,
                       lg_created_at = now, lg_updated_at = now\<rparr>]\<rparr>,
                 Inr \<lparr>lr_outcome = SUCCESS, lr_reservation_id = Some rid,
                      lr_balance = Some (ledger_balance d - amount)\<rparr>)))"

text \<open>
  Both ways of closing a reservation give its tokens back to the delegation that the caller
  names and count what was really used; the \<open>CHECK\<close>s refuse negative counters.
\<close>

definition close_reservation ::
  "datetime \<Rightarrow> string \<Rightarrow> LedgerRow \<Rightarrow> int \<Rightarrow> (LedgerRow \<Rightarrow> LedgerRow) \<Rightarrow> delegation_db \<Rightarrow> LedgerResult dg_result" where
  "close_reservation now did row used f db =
     (case dg_get_sync did db of
        None \<Rightarrow> (db, Inl PyTypeError)
      | Some d \<Rightarrow>
          if used < 0 \<or> d_budget_reserved_tokens d - lg_reserved row < 0 \<or> d_budget_settled_tokens d + used < 0
          then (db, Inl IntegrityError)
          else
            (let d1 = d\<lparr>d_budget_reserved_tokens := d_budget_reserved_tokens d - lg_reserved row,
                        d_budget_settled_tokens := d_budget_settled_tokens d + used, d_updated_at := now\<rparr>;
                 db1 = set_delegation did
                         (\<lambda>d. d\<lparr>d_budget_reserved_tokens := d_budget_reserved_tokens d - lg_reserved row,
                               d_budget_settled_tokens := d_budget_settled_tokens d + used, d_updated_at := now\<rparr>) db
             in (db1\<lparr>dg_ledger := sql_update (\<lambda>l. lg_reservation_id l = lg_reservation_id row) f (dg_ledger db1)\<rparr>,
                 Inr \<lparr>lr_outcome = SUCCESS, lr_reservation_id = Some (lg_reservation_id row),
                      lr_balance = Some (ledger_balance d1)\<rparr>)))"

definition settle_ledger_sync ::
  "datetime \<Rightarrow> string \<Rightarrow> string \<Rightarrow> int \<Rightarrow> string option \<Rightarrow> delegation_db \<Rightarrow> LedgerResult dg_result" where
  "settle_ledger_sync now did rid actual usage_event db =
     (case (case usage_event of None \<Rightarrow> None
            | Some ev \<Rightarrow> fetchone (\<lambda>l. lg_usage_event_id l = Some ev \<and> lg_settled l > 0) (dg_ledger db)) of
        Some existing \<Rightarrow>
          (db, Inr \<lparr>lr_outcome = IDEMPOTENT_REPLAY, lr_reservation_id = Some (lg_reservation_id existing),
                    lr_balance = map_option ledger_balance (dg_get_sync did db)\<rparr>)
      | None \<Rightarrow>
          (case fetchone (\<lambda>l. lg_reservation_id l = rid) (dg_ledger db) of
             None \<Rightarrow> (db, Inr \<lparr>lr_outcome = CONFLICT, lr_reservation_id = None, lr_balance = None\<rparr>)
           | Some row \<Rightarrow>
               if lg_settled row > 0
               then (db, Inr \<lparr>lr_outcome = IDEMPOTENT_REPLAY, lr_reservation_id = Some rid, lr_balance = None\<rparr>)
               else close_reservation now did row actual
                      (\<lambda>l. l\<lparr>lg_settled := actual, lg_usage_event_id := usage_event, lg_updated_at := now\<rparr>) db))"

definition release_ledger_sync ::
  "datetime \<Rightarrow> string \<Rightarrow> string \<Rightarrow> delegation_db \<Rightarrow> LedgerResult dg_result" where
  "release_ledger_sync now did rid db =
     (case fetchone (\<lambda>l. lg_reservation_id l = rid) (dg_ledger db) of
        None \<Rightarrow> (db, Inr \<lparr>lr_outcome = CONFLICT, lr_reservation_id = None, lr_balance = None\<rparr>)
      | Some row \<Rightarrow>
          if lg_released row > 0 \<or> lg_settled row > 0
          then (db, Inr \<lparr>lr_outcome = IDEMPOTENT_REPLAY, lr_reservation_id = Some rid, lr_balance = None\<rparr>)
          else close_reservation now did row 0
                 (\<lambda>l. l\<lparr>lg_released := lg_reserved row, lg_updated_at := now\<rparr>) db)"

section \<open>Cancellation\<close>

definition active_status :: "DelegationMember \<Rightarrow> bool" where
  "active_status m \<longleftrightarrow> m_status m \<notin> DELEGATION_MEMBER_TERMINAL_STATES"

definition request_cancel_sync ::
  "datetime \<Rightarrow> string \<Rightarrow> string \<Rightarrow> delegation_db \<Rightarrow> Delegation dg_result" where
  "request_cancel_sync now did reason db =
     (case dg_get_sync did db of
        None \<Rightarrow> (db, Inl DelegationConflictError)
      | Some d \<Rightarrow>
          if Delegation_is_terminal d then (db, Inr d)
          else if d_status d = DelegationStatus.CANCELLING \<and>
                  fetchone (\<lambda>x. co_delegation_id x = did) (dg_outbox db) \<noteq> None then (db, Inr d)
          else
            (let db1 = set_delegation did
                         (\<lambda>d. d\<lparr>d_status := DelegationStatus.CANCELLING, d_updated_at := now\<rparr>) db;
                 db2 = db1\<lparr>dg_members := sql_update (\<lambda>m. m_delegation_id m = did \<and> active_status m)
                             (\<lambda>m. m\<lparr>m_cancel_requested_at := Some now\<rparr>) (dg_members db1),
                           dg_outbox_seq := dg_outbox_seq db1 + 1,
                           dg_outbox := dg_outbox db1 @
                             [\<lparr>co_id = dg_outbox_seq db1 + 1, co_delegation_id = did, co_member_id = None,
                               co_reason = reason, co_attempts = 0, co_next_attempt_at = Some now,
                               co_acked_at = None, co_created_at = now, co_updated_at = now\<rparr>]\<rparr>;
                 db3 = dg_insert_event did ''cancel_requested'' (JObj [(''reason'', JStr reason)]) None now db2
             in (db3, case dg_get_sync did db3 of None \<Rightarrow> Inl PyTypeError | Some d' \<Rightarrow> Inr d')))"

definition list_outbox_pending_sync :: "int \<Rightarrow> delegation_db \<Rightarrow> CancelOutboxEntry list" where
  "list_outbox_pending_sync lim db =
     sql_limit lim (sort_key co_next_attempt_at (filter (\<lambda>x. co_acked_at x = None) (dg_outbox db)))"

definition ack_outbox_sync :: "datetime \<Rightarrow> int \<Rightarrow> delegation_db \<Rightarrow> delegation_db" where
  "ack_outbox_sync now eid db =
     db\<lparr>dg_outbox := sql_update (\<lambda>x. co_id x = eid \<and> co_acked_at x = None)
          (\<lambda>x. x\<lparr>co_acked_at := Some now, co_updated_at := now\<rparr>) (dg_outbox db)\<rparr>"

definition cancel_pending_members_sync ::
  "datetime \<Rightarrow> string \<Rightarrow> string \<Rightarrow> delegation_db \<Rightarrow> delegation_db \<times> nat" where
  "cancel_pending_members_sync now did reason db =
     (let P = (\<lambda>m. m_delegation_id m = did \<and> active_status m)
      in (db\<lparr>dg_members := sql_update P
               (\<lambda>m. m\<lparr>m_status := DelegationMemberStatus.CANCELLED,
                     m_cancel_reason := Some (if reason = [] then ''cancelled'' else reason),
                     m_ended_at := Some now, m_version := m_version m + 1\<rparr>) (dg_members db)\<rparr>,
          rowcount P (dg_members db)))"

section \<open>Result set\<close>

definition member_result :: "delegation_db \<Rightarrow> DelegationMember \<Rightarrow> DelegationResult" where
  "member_result db m =
     (case adopted_result (m_id m) db of
        Some r \<Rightarrow> rr_result r
      | None \<Rightarrow> DelegationResult_new (m_status m))"

definition get_result_set_sync :: "string \<Rightarrow> delegation_db \<Rightarrow> DelegationResultSet option" where
  "get_result_set_sync did db =
     (case dg_get_sync did db of
        None \<Rightarrow> None
      | Some d \<Rightarrow>
          (let members = list_members_sync did db in
           if \<not> list_all Member_is_terminal members then None
           else Some (evaluate_join_outcome did (d_join_policy d) (d_aggregation d)
                  (map (member_result db) members)
                  (map_option rr_result
                    (fetchone (\<lambda>r. rr_delegation_id r = did \<and> rr_result_scope r = ''delegation'' \<and> rr_adopted r)
                      (dg_results db)))
                  False None)))"

section \<open>Recovery and scheduling\<close>

definition mark_expired_sync :: "datetime \<Rightarrow> delegation_db \<Rightarrow> delegation_db \<times> nat" where
  "mark_expired_sync now db =
     (let P = (\<lambda>d. (case d_deadline_at d of None \<Rightarrow> False | Some t \<Rightarrow> t < now) \<and> \<not> Delegation_is_terminal d)
      in (db\<lparr>dg_delegations := sql_update P
               (\<lambda>d. d\<lparr>d_status := DelegationStatus.EXPIRED, d_updated_at := now\<rparr>) (dg_delegations db)\<rparr>,
          rowcount P (dg_delegations db)))"

definition stale_member :: "datetime \<Rightarrow> DelegationMember \<Rightarrow> bool" where
  "stale_member now m \<longleftrightarrow> m_status m = DelegationMemberStatus.RUNNING \<and>
     (case m_claim_expires_at m of None \<Rightarrow> False | Some t \<Rightarrow> t < now)"

definition mark_stale_sync :: "datetime \<Rightarrow> delegation_db \<Rightarrow> delegation_db \<times> nat" where
  "mark_stale_sync now db =
     (db\<lparr>dg_members := sql_update (stale_member now)
           (\<lambda>m. m\<lparr>m_status := DelegationMemberStatus.PENDING, m_claim_lock := None,
                 m_claim_expires_at := None, m_version := m_version m + 1\<rparr>) (dg_members db)\<rparr>,
      rowcount (stale_member now) (dg_members db))"

definition list_pending_members_sync :: "int \<Rightarrow> delegation_db \<Rightarrow> DelegationMember list" where
  "list_pending_members_sync lim db =
     sql_limit lim (sort_key (\<lambda>m. (m_delegation_id m, m_ordinal m))
       (filter (\<lambda>m. m_status m = DelegationMemberStatus.PENDING) (dg_members db)))"

definition list_active_delegations_sync :: "int \<Rightarrow> delegation_db \<Rightarrow> Delegation list" where
  "list_active_delegations_sync lim db =
     sql_limit lim (sort_key d_created_at (filter (\<lambda>d. \<not> Delegation_is_terminal d) (dg_delegations db)))"

definition finalize_cancelled_sync :: "datetime \<Rightarrow> string \<Rightarrow> delegation_db \<Rightarrow> delegation_db \<times> Delegation option" where
  "finalize_cancelled_sync now did db =
     (case dg_get_sync did db of
        None \<Rightarrow> (db, None)
      | Some d \<Rightarrow>
          if d_status d \<noteq> DelegationStatus.CANCELLING then (db, Some d)
          else if rowcount (\<lambda>m. m_delegation_id m = did \<and> active_status m) (dg_members db) > 0 then (db, Some d)
          else
            (let db1 = dg_insert_event did ''cancelled'' (JObj []) None now
                   (db\<lparr>dg_delegations := sql_update (\<lambda>d. d_id d = did \<and> d_status d = DelegationStatus.CANCELLING)
                         (\<lambda>d. d\<lparr>d_status := DelegationStatus.CANCELLED, d_updated_at := now\<rparr>) (dg_delegations db)\<rparr>)
             in (db1, dg_get_sync did db1)))"

definition advance_to_joining_sync :: "datetime \<Rightarrow> string \<Rightarrow> delegation_db \<Rightarrow> delegation_db \<times> Delegation option" where
  "advance_to_joining_sync now did db =
     (case dg_get_sync did db of
        None \<Rightarrow> (db, None)
      | Some d \<Rightarrow>
          if d_status d \<noteq> DelegationStatus.RUNNING then (db, Some d)
          else
            (let db1 = db\<lparr>dg_delegations := sql_update (\<lambda>d. d_id d = did \<and> d_status d = DelegationStatus.RUNNING)
                         (\<lambda>d. d\<lparr>d_status := DelegationStatus.JOINING, d_updated_at := now\<rparr>) (dg_delegations db)\<rparr>
             in (db1, dg_get_sync did db1)))"

definition start_delegation_sync :: "datetime \<Rightarrow> string \<Rightarrow> delegation_db \<Rightarrow> delegation_db \<times> Delegation option" where
  "start_delegation_sync now did db =
     (case dg_get_sync did db of
        None \<Rightarrow> (db, None)
      | Some d \<Rightarrow>
          if d_status d \<noteq> DelegationStatus.PENDING then (db, Some d)
          else
            (let db1 = dg_insert_event did ''started'' (JObj []) None now
                   (db\<lparr>dg_delegations := sql_update (\<lambda>d. d_id d = did \<and> d_status d = DelegationStatus.PENDING)
                         (\<lambda>d. d\<lparr>d_status := DelegationStatus.RUNNING, d_updated_at := now\<rparr>) (dg_delegations db)\<rparr>)
             in (db1, dg_get_sync did db1)))"

fun DelegationStatus_value :: "DelegationStatus \<Rightarrow> string" where
  "DelegationStatus_value DelegationStatus.PENDING = ''pending''"
| "DelegationStatus_value DelegationStatus.RUNNING = ''running''"
| "DelegationStatus_value DelegationStatus.JOINING = ''joining''"
| "DelegationStatus_value DelegationStatus.SUCCEEDED = ''succeeded''"
| "DelegationStatus_value DelegationStatus.FAILED = ''failed''"
| "DelegationStatus_value DelegationStatus.CANCELLING = ''cancelling''"
| "DelegationStatus_value DelegationStatus.CANCELLED = ''cancelled''"
| "DelegationStatus_value DelegationStatus.EXPIRED = ''expired''"

definition finalize_result_set_sync ::
  "datetime \<Rightarrow> string \<Rightarrow> DelegationStatus \<Rightarrow> delegation_db \<Rightarrow> delegation_db \<times> Delegation option" where
  "finalize_result_set_sync now did st db =
     (let P = (\<lambda>d. d_id d = did \<and> d_status d = DelegationStatus.JOINING) in
      if rowcount P (dg_delegations db) = 0 then (db, None)
      else
        (let db1 = dg_insert_event did (DelegationStatus_value st) (JObj []) None now
               (db\<lparr>dg_delegations := sql_update P
                     (\<lambda>d. d\<lparr>d_status := st, d_updated_at := now\<rparr>) (dg_delegations db)\<rparr>)
         in (db1, dg_get_sync did db1)))"

end
