(* ===== verification/Delegation_Safety.thy ===== *)
theory Delegation_Safety
  imports Delegation_Registry Lease
begin

text \<open>
  What the transactions of the delegation registry keep. \<open>delegation_inv\<close> is the invariant of
  the tables; \<open>delegation_step\<close> is the labelled step relation, one rule per transaction, whose
  labels are the member claims handed out and taken back. A claim of a member is the pair of
  its lock and its version.

  Every transaction but creation and deletion rewritten rows in place: \<open>legal_rewrite\<close> collects what
  such a rewriting may do, and the invariant, the life cycles and the versions follow from it alone.
\<close>

section \<open>Invariant\<close>

definition claim_of :: "DelegationMember \<Rightarrow> (string option \<times> int) option" where
  "claim_of m = (if m_status m = DelegationMemberStatus.RUNNING
                 then Some (m_claim_lock m, m_version m) else None)"

definition the_member :: "string \<Rightarrow> delegation_db \<Rightarrow> DelegationMember option" where
  "the_member k db = fetchone (\<lambda>m. m_id m = k) (dg_members db)"

definition member_claims :: "delegation_db \<Rightarrow> string \<rightharpoonup> string option \<times> int" where
  "member_claims db k = Option.bind (the_member k db) claim_of"

definition slot :: "DelegationMember \<Rightarrow> string \<times> int" where
  "slot m = (m_delegation_id m, m_ordinal m)"

definition reconnect_key :: "Delegation \<Rightarrow> string \<times> string \<times> string" where
  "reconnect_key d = (pr_source (d_parent d), pr_scope_id (d_parent d), d_delegation_key d)"

definition adopted_ids :: "delegation_db \<Rightarrow> string option list" where
  "adopted_ids db = map rr_member_id (filter rr_adopted (dg_results db))"

definition result_fits :: "delegation_db \<Rightarrow> ResultRow \<Rightarrow> bool" where
  "result_fits db r \<longleftrightarrow> rr_adopted r \<and> rr_result_scope r = ''member'' \<and>
     (\<exists>m\<in>set (dg_members db). rr_member_id r = Some (m_id m) \<and> rr_delegation_id r = m_delegation_id m \<and>
        Member_is_terminal m \<and> m_status m = re_status (rr_result r))"

definition delegation_inv :: "delegation_db \<Rightarrow> bool" where
  "delegation_inv db \<longleftrightarrow>
     keyed d_id (dg_delegations db) \<and> keyed reconnect_key (dg_delegations db) \<and>
     keyed m_id (dg_members db) \<and> keyed slot (dg_members db) \<and>
     (\<forall>m\<in>set (dg_members db). m_delegation_id m \<in> d_id ` set (dg_delegations db)) \<and>
     distinct (adopted_ids db) \<and> (\<forall>r\<in>set (dg_results db). result_fits db r)"

lemma delegation_inv_empty: "delegation_inv empty_delegation_db"
  by (simp add: delegation_inv_def empty_delegation_db_def keyed_def adopted_ids_def)

section \<open>Rewriting rows in place\<close>

definition member_moves :: "DelegationMember \<Rightarrow> DelegationMember \<Rightarrow> bool" where
  "member_moves m m' \<longleftrightarrow> m_id m' = m_id m \<and> slot m' = slot m \<and>
     ((m_status m' = m_status m \<and> m_version m' = m_version m \<and> m_claim_lock m' = m_claim_lock m) \<or>
      (m_status m' \<in> DELEGATION_MEMBER_TRANSITION_TABLE (m_status m) \<and> m_version m' = m_version m + 1))"

definition delegation_moves :: "Delegation \<Rightarrow> Delegation \<Rightarrow> bool" where
  "delegation_moves d d' \<longleftrightarrow> d_id d' = d_id d \<and> reconnect_key d' = reconnect_key d \<and>
     d_fingerprint d' = d_fingerprint d \<and> d_budget_total_tokens d' = d_budget_total_tokens d \<and>
     (d_status d' = d_status d \<or> d_status d' \<in> DELEGATION_TRANSITION_TABLE (d_status d))"

definition rewritten :: "('r \<Rightarrow> 'r \<Rightarrow> bool) \<Rightarrow> 'r list \<Rightarrow> 'r list \<Rightarrow> bool" where
  "rewritten R rows rows' \<longleftrightarrow> list_all2 R rows rows'"

lemma rewritten_sql_update:
  "rewritten R rows (sql_update P f rows) \<longleftrightarrow> (\<forall>r\<in>set rows. if P r then R r (f r) else R r r)"
  by (induction rows) (auto simp: rewritten_def sql_update_def)

lemma rewritten_refl: "(\<And>r. R r r) \<Longrightarrow> rewritten R rows rows"
  by (simp add: rewritten_def list.rel_refl)

lemma rewritten_map_eq:
  assumes "rewritten R rows rows'" and "\<And>r r'. R r r' \<Longrightarrow> key r' = key r"
  shows "map key rows' = map key rows"
  using assms(1) unfolding rewritten_def
  by (induction rule: list_all2_induct) (simp_all add: assms(2))

lemma rewritten_keyed:
  assumes "rewritten R rows rows'" and "\<And>r r'. R r r' \<Longrightarrow> key r' = key r" and "keyed key rows"
  shows "keyed key rows'"
  using assms(3) rewritten_map_eq [of R rows rows' key, OF assms(1,2)] by (simp add: keyed_def)

lemma rewritten_image:
  assumes "rewritten R rows rows'" and "\<And>r r'. R r r' \<Longrightarrow> key r' = key r"
  shows "key ` set rows' = key ` set rows"
  using arg_cong [OF rewritten_map_eq [of R rows rows' key, OF assms], of set] by simp

lemma rewritten_fetchone:
  assumes "rewritten R rows rows'" and "\<And>r r'. R r r' \<Longrightarrow> key r' = key r"
  shows "rel_option R (fetchone (\<lambda>r. key r = k) rows) (fetchone (\<lambda>r. key r = k) rows')"
  using assms(1) unfolding rewritten_def
  by (induction rule: list_all2_induct) (auto simp: sql_simps assms(2))

lemma rewritten_in:
  assumes "rewritten R rows rows'" and "r \<in> set rows"
  shows "\<exists>r'\<in>set rows'. R r r'"
  using assms unfolding rewritten_def by (induction rule: list_all2_induct) auto

lemma rewritten_in':
  assumes "rewritten R rows rows'" and "r' \<in> set rows'"
  shows "\<exists>r\<in>set rows. R r r'"
  using assms unfolding rewritten_def by (induction rule: list_all2_induct) auto

lemma member_moves_refl [simp]: "member_moves m m"
  by (simp add: member_moves_def)

lemma delegation_moves_refl [simp]: "delegation_moves d d"
  by (simp add: delegation_moves_def)

lemma member_moves_keys:
  "member_moves m m' \<Longrightarrow> m_id m' = m_id m"
  "member_moves m m' \<Longrightarrow> slot m' = slot m"
  "member_moves m m' \<Longrightarrow> m_delegation_id m' = m_delegation_id m"
  by (auto simp: member_moves_def slot_def)

lemma delegation_moves_keys:
  "delegation_moves d d' \<Longrightarrow> d_id d' = d_id d"
  "delegation_moves d d' \<Longrightarrow> reconnect_key d' = reconnect_key d"
  "delegation_moves d d' \<Longrightarrow> d_fingerprint d' = d_fingerprint d"
  by (auto simp: delegation_moves_def)

lemma member_moves_terminal:
  assumes "member_moves m m'" and "Member_is_terminal m"
  shows "m_status m' = m_status m" and "m_version m' = m_version m"
  using assms mm.terminal_iff [of "m_status m"]
  by (auto simp: member_moves_def Member_is_terminal_def member_terminal_def)

definition legal_rewrite :: "delegation_db \<Rightarrow> delegation_db \<Rightarrow> bool" where
  "legal_rewrite db db' \<longleftrightarrow>
     rewritten member_moves (dg_members db) (dg_members db') \<and>
     rewritten delegation_moves (dg_delegations db) (dg_delegations db')"

lemma legal_rewrite_refl [simp]: "legal_rewrite db db"
  by (simp add: legal_rewrite_def rewritten_refl)

lemma result_fits_rewrite:
  assumes "legal_rewrite db db'" and "result_fits db r"
  shows "result_fits db' r"
proof -
  from assms(2) have scope: "rr_result_scope r = ''member''" by (simp add: result_fits_def)
  from assms(2) obtain m where m: "m \<in> set (dg_members db)" "rr_adopted r" "rr_member_id r = Some (m_id m)"
    "rr_delegation_id r = m_delegation_id m" "Member_is_terminal m" "m_status m = re_status (rr_result r)"
    by (auto simp: result_fits_def)
  with assms(1) obtain m' where "m' \<in> set (dg_members db')" and mv: "member_moves m m'"
    using rewritten_in by (force simp: legal_rewrite_def)
  moreover from mv m have "Member_is_terminal m'"
    using member_moves_terminal(1) [OF mv] by (simp add: Member_is_terminal_def)
  ultimately show ?thesis
    using m scope member_moves_keys [OF mv] member_moves_terminal(1) [OF mv] unfolding result_fits_def by metis
qed

lemma legal_rewrite_inv:
  assumes inv: "delegation_inv db" and rw: "legal_rewrite db db'"
    and res: "distinct (adopted_ids db')" "\<And>r. r \<in> set (dg_results db') \<Longrightarrow> result_fits db r \<or> result_fits db' r"
  shows "delegation_inv db'"
proof -
  from rw have M: "rewritten member_moves (dg_members db) (dg_members db')"
    and D: "rewritten delegation_moves (dg_delegations db) (dg_delegations db')"
    by (simp_all add: legal_rewrite_def)
  have "m_delegation_id m \<in> d_id ` set (dg_delegations db')" if m: "m \<in> set (dg_members db')" for m
  proof -
    obtain m0 where "m0 \<in> set (dg_members db)" "m_delegation_id m = m_delegation_id m0"
      using rewritten_in' [OF M m] member_moves_keys(3) by blast
    with inv show ?thesis
      using rewritten_image [OF D delegation_moves_keys(1)] by (auto simp: delegation_inv_def)
  qed
  moreover have "keyed d_id (dg_delegations db')" "keyed reconnect_key (dg_delegations db')"
      "keyed m_id (dg_members db')" "keyed slot (dg_members db')"
    using inv rewritten_keyed [OF D, of d_id] rewritten_keyed [OF D, of reconnect_key]
      rewritten_keyed [OF M, of m_id] rewritten_keyed [OF M, of slot]
    by (auto simp: delegation_inv_def member_moves_keys delegation_moves_keys)
  ultimately show ?thesis
    using res result_fits_rewrite [OF rw] unfolding delegation_inv_def by blast
qed

corollary legal_rewrite_inv_same_results:
  "delegation_inv db \<Longrightarrow> legal_rewrite db db' \<Longrightarrow> dg_results db' = dg_results db \<Longrightarrow> delegation_inv db'"
  by (rule legal_rewrite_inv) (auto simp: delegation_inv_def adopted_ids_def)

lemma legal_rewrite_member:
  "legal_rewrite db db' \<Longrightarrow> rel_option member_moves (the_member k db) (the_member k db')"
  unfolding the_member_def legal_rewrite_def
  by (intro rewritten_fetchone) (simp_all add: member_moves_keys)

lemma legal_rewrite_delegation:
  "legal_rewrite db db' \<Longrightarrow> rel_option delegation_moves (dg_get_sync did db) (dg_get_sync did db')"
  unfolding dg_get_sync_def legal_rewrite_def
  by (intro rewritten_fetchone) (simp_all add: delegation_moves_keys)

section \<open>The transactions that rewrite\<close>

lemma dg_insert_event_tables [simp]:
  "dg_delegations (dg_insert_event did k p ord now db) = dg_delegations db"
  "dg_members (dg_insert_event did k p ord now db) = dg_members db"
  "dg_results (dg_insert_event did k p ord now db) = dg_results db"
  "dg_ledger (dg_insert_event did k p ord now db) = dg_ledger db"
  "dg_outbox (dg_insert_event did k p ord now db) = dg_outbox db"
  by (simp_all add: dg_insert_event_def)

lemma dg_get_sync_insert_event [simp]:
  "dg_get_sync did (dg_insert_event did' k p ord now db) = dg_get_sync did db"
  by (simp add: dg_get_sync_def)

lemma legal_rewrite_insert_event [simp]:
  "legal_rewrite db (dg_insert_event did k p ord now db') = legal_rewrite db db'"
  by (simp add: legal_rewrite_def)

lemma set_delegation_tables [simp]:
  "dg_members (set_delegation did f db) = dg_members db"
  "dg_results (set_delegation did f db) = dg_results db"
  "dg_delegations (set_delegation did f db) = sql_update (\<lambda>d. d_id d = did) f (dg_delegations db)"
  by (simp_all add: set_delegation_def)

lemma members_same: "rewritten member_moves ms ms"
  by (rule rewritten_refl) simp

lemma delegations_same: "rewritten delegation_moves ds ds"
  by (rule rewritten_refl) simp

lemmas rewrite_simps = legal_rewrite_def rewritten_sql_update members_same delegations_same

lemma nonterminal_moves:
  assumes "\<not> Delegation_is_terminal d"
  shows "DelegationStatus.EXPIRED \<in> DELEGATION_TRANSITION_TABLE (d_status d)"
    and "d_status d = DelegationStatus.CANCELLING \<or>
      DelegationStatus.CANCELLING \<in> DELEGATION_TRANSITION_TABLE (d_status d)"
  using assms
  by (cases "d_status d"; simp add: Delegation_is_terminal_def DELEGATION_TERMINAL_STATES_def)+

lemma active_moves:
  assumes "active_status m"
  shows "DelegationMemberStatus.CANCELLED \<in> DELEGATION_MEMBER_TRANSITION_TABLE (m_status m)"
  using assms by (cases "m_status m"; simp add: active_status_def DELEGATION_MEMBER_TERMINAL_STATES_def)

lemma claim_member_rewrite:
  assumes "claim_member_sync now did ord lock lease db = (db', r)"
  shows "dg_members db' = sql_update (\<lambda>m. at_ordinal did ord m \<and> m_status m = DelegationMemberStatus.PENDING)
      (claimed_member now lock lease) (dg_members db)"
    and "dg_delegations db' = dg_delegations db" and "dg_results db' = dg_results db"
    and "legal_rewrite db db'"
proof -
  have db': "db' = db\<lparr>dg_members := sql_update (\<lambda>m. at_ordinal did ord m \<and> m_status m = DelegationMemberStatus.PENDING)
      (claimed_member now lock lease) (dg_members db)\<rparr>"
    using assms by (auto simp: claim_member_sync_def Let_def split: if_splits option.splits)
  show "dg_members db' = sql_update (\<lambda>m. at_ordinal did ord m \<and> m_status m = DelegationMemberStatus.PENDING)
      (claimed_member now lock lease) (dg_members db)"
    and "dg_delegations db' = dg_delegations db" and "dg_results db' = dg_results db"
    by (simp_all add: db')
  show "legal_rewrite db db'"
    by (simp add: db' rewrite_simps member_moves_def claimed_member_def slot_def)
qed

lemma finish_member_cases:
  assumes "finish_member_sync now did ord lock res v db = (db', r)"
  obtains (same) "db' = db" and "\<And>x. r = Inr x \<Longrightarrow> fm_outcome x \<noteq> SUCCESS"
    | (finished) m d where "fetchone (at_ordinal did ord) (dg_members db) = Some m" "claim_of m = Some (Some lock, v)"
      "adopted_result (m_id m) db = None" "dg_get_sync did db = Some d"
      "dg_members db' = sql_update (\<lambda>x. m_id x = m_id m) (finished_member now (re_status res)) (dg_members db)"
      "dg_results db' = dg_results db @ [member_result_row now m res]"
      "dg_delegations db' = sql_update (\<lambda>d. d_id d = did) (\<lambda>d. d\<lparr>d_updated_at := now\<rparr>) (dg_delegations db)"
      "r = Inr \<lparr>fm_outcome = SUCCESS, fm_member = fetchone (\<lambda>x. m_id x = m_id m) (dg_members db'),
                fm_delegation = Some d\<rparr>"
  using assms
  by (auto simp: finish_member_sync_def claim_of_def Let_def split: option.splits if_splits)

lemma finish_member_rewrite:
  assumes inv: "delegation_inv db" and fin: "finish_member_sync now did ord lock res v db = (db', r)"
    and fin_term: "re_status res \<in> DELEGATION_MEMBER_TERMINAL_STATES"
  shows "legal_rewrite db db'" and "delegation_inv db'"
proof -
  show rw: "legal_rewrite db db'"
    using fin
  proof (cases rule: finish_member_cases)
    case same
    then show ?thesis by simp
  next
    case (finished m d)
    have "m \<in> set (dg_members db)" and run: "m_status m = DelegationMemberStatus.RUNNING"
      using finished(1,2) by (auto simp: claim_of_def dest: fetchone_SomeD split: if_splits)
    then have "m_status x = DelegationMemberStatus.RUNNING" if "x \<in> set (dg_members db)" "m_id x = m_id m" for x
      using that inv keyed_eqD [of m_id "dg_members db" x m] by (auto simp: delegation_inv_def)
    with fin_term show ?thesis
      unfolding legal_rewrite_def finished(5,7) rewritten_sql_update
      by (auto simp: member_moves_def delegation_moves_def reconnect_key_def finished_member_def slot_def
          DELEGATION_MEMBER_TERMINAL_STATES_def)
  qed
  show "delegation_inv db'"
    using fin
  proof (cases rule: finish_member_cases)
    case same
    with inv show ?thesis by simp
  next
    case (finished m d)
    have m: "m \<in> set (dg_members db)" "at_ordinal did ord m"
      using finished(1) by (auto dest: fetchone_SomeD)
    have "finished_member now (re_status res) m \<in> set (dg_members db')"
      using m by (auto simp: finished(5) set_sql_update)
    then have new: "result_fits db' (member_result_row now m res)"
      using fin_term unfolding result_fits_def
      by (intro conjI bexI) (simp_all add: member_result_row_def finished_member_def Member_is_terminal_def)
    have "Some (m_id m) \<notin> set (adopted_ids db)"
      using finished(3) by (auto simp: adopted_result_def adopted_ids_def fetchone_None_iff)
    then have "distinct (adopted_ids db')"
      using inv by (simp add: delegation_inv_def adopted_ids_def finished(6) member_result_row_def)
    moreover have "result_fits db r \<or> result_fits db' r" if "r \<in> set (dg_results db')" for r
      using that inv new by (auto simp: finished(6) delegation_inv_def)
    ultimately show ?thesis by (rule legal_rewrite_inv [OF inv rw])
  qed
qed

lemma close_reservation_tables:
  assumes "close_reservation now did row used f db = (db', r)"
  shows "legal_rewrite db db' \<and> dg_results db' = dg_results db \<and> dg_members db' = dg_members db"
proof -
  have "fst (close_reservation now did row used f db) = db' "
    using assms by simp
  then show ?thesis
    by (simp add: close_reservation_def Let_def rewrite_simps delegation_moves_def reconnect_key_def
      split: option.splits if_splits) (auto simp: members_same rewritten_sql_update delegation_moves_def reconnect_key_def)
qed

lemma ledger_tables:
  "reserve_ledger_sync now rid did amount purpose db = (db', r) \<Longrightarrow>
     legal_rewrite db db' \<and> dg_results db' = dg_results db \<and> dg_members db' = dg_members db"
  "settle_ledger_sync now did rid actual ev db = (db', r) \<Longrightarrow>
     legal_rewrite db db' \<and> dg_results db' = dg_results db \<and> dg_members db' = dg_members db"
  "release_ledger_sync now did rid db = (db', r) \<Longrightarrow>
     legal_rewrite db db' \<and> dg_results db' = dg_results db \<and> dg_members db' = dg_members db"
    apply (force simp: reserve_ledger_sync_def Let_def rewrite_simps delegation_moves_def reconnect_key_def
      split: option.splits if_splits)
   apply (force simp: settle_ledger_sync_def dest: close_reservation_tables split: option.splits if_splits)
  apply (force simp: release_ledger_sync_def dest: close_reservation_tables split: option.splits if_splits)
  done

lemma request_cancel_tables:
  assumes "request_cancel_sync now did reason db = (db', r)" and "keyed d_id (dg_delegations db)"
  shows "legal_rewrite db db'" and "dg_results db' = dg_results db"
    and "\<exists>P. dg_members db' = sql_update P (\<lambda>m. m\<lparr>m_cancel_requested_at := Some now\<rparr>) (dg_members db)"
proof -
  consider (same) "db' = db"
    | (cancel) d P where "d \<in> set (dg_delegations db)" "d_id d = did" "\<not> Delegation_is_terminal d"
      "dg_delegations db' = sql_update (\<lambda>d. d_id d = did)
         (\<lambda>d. d\<lparr>d_status := DelegationStatus.CANCELLING, d_updated_at := now\<rparr>) (dg_delegations db)"
      "dg_members db' = sql_update P (\<lambda>m. m\<lparr>m_cancel_requested_at := Some now\<rparr>) (dg_members db)"
      "dg_results db' = dg_results db"
  proof (cases "dg_get_sync did db")
    case None
    with assms(1) show ?thesis by (intro that(1)) (simp add: request_cancel_sync_def)
  next
    case (Some d)
    then have d: "d \<in> set (dg_delegations db)" "d_id d = did"
      by (auto simp: dg_get_sync_def dest: fetchone_SomeD)
    show ?thesis
    proof (cases "Delegation_is_terminal d \<or> d_status d = DelegationStatus.CANCELLING \<and>
        fetchone (\<lambda>x. co_delegation_id x = did) (dg_outbox db) \<noteq> None")
      case True
      then have "request_cancel_sync now did reason db = (db, Inr d)"
        using Some by (auto simp: request_cancel_sync_def)
      with assms(1) show ?thesis by (intro that(1)) simp
    next
      case False
      then have nt: "\<not> Delegation_is_terminal d"
        and "fst (request_cancel_sync now did reason db) =
          dg_insert_event did ''cancel_requested'' (JObj [(''reason'', JStr reason)]) None now
            ((set_delegation did (\<lambda>d. d\<lparr>d_status := DelegationStatus.CANCELLING, d_updated_at := now\<rparr>) db)
               \<lparr>dg_members := sql_update (\<lambda>m. m_delegation_id m = did \<and> active_status m)
                   (\<lambda>m. m\<lparr>m_cancel_requested_at := Some now\<rparr>) (dg_members db),
                dg_outbox_seq := dg_outbox_seq db + 1,
                dg_outbox := dg_outbox db @
                  [\<lparr>co_id = dg_outbox_seq db + 1, co_delegation_id = did, co_member_id = None,
                    co_reason = reason, co_attempts = 0, co_next_attempt_at = Some now,
                    co_acked_at = None, co_created_at = now, co_updated_at = now\<rparr>]\<rparr>)"
        using Some by (auto simp: request_cancel_sync_def Let_def set_delegation_def)
      with assms(1) show ?thesis
        by (intro that(2) [OF d nt]) simp_all
    qed
  qed
  then have "legal_rewrite db db' \<and> dg_results db' = dg_results db \<and>
      (\<exists>P. dg_members db' = sql_update P (\<lambda>m. m\<lparr>m_cancel_requested_at := Some now\<rparr>) (dg_members db))"
  proof cases
    case same
    then show ?thesis by (auto intro!: exI [of _ "\<lambda>_. False"] simp: sql_update_def)
  next
    case cancel
    have "d_status x = DelegationStatus.CANCELLING \<or>
        DelegationStatus.CANCELLING \<in> DELEGATION_TRANSITION_TABLE (d_status x)"
      if "x \<in> set (dg_delegations db)" "d_id x = did" for x
      using keyed_eqD [OF assms(2) that(1) cancel(1)] that cancel(2,3) nonterminal_moves(2) by simp
    then show ?thesis
      by (fastforce simp: legal_rewrite_def rewritten_sql_update cancel(4-6) member_moves_def delegation_moves_def
          reconnect_key_def slot_def)
  qed
  then show "legal_rewrite db db'" and "dg_results db' = dg_results db"
    and "\<exists>P. dg_members db' = sql_update P (\<lambda>m. m\<lparr>m_cancel_requested_at := Some now\<rparr>) (dg_members db)"
    by blast+
qed

lemma cancel_pending_members_rewrite: "legal_rewrite db (fst (cancel_pending_members_sync now did reason db))"
  using active_moves
  by (simp add: cancel_pending_members_sync_def Let_def rewrite_simps member_moves_def slot_def)

lemma mark_stale_rewrite: "legal_rewrite db (fst (mark_stale_sync now db))"
  by (simp add: mark_stale_sync_def rewrite_simps member_moves_def stale_member_def slot_def)

lemma mark_expired_rewrite: "legal_rewrite db (fst (mark_expired_sync now db))"
  using nonterminal_moves(1)
  by (simp add: mark_expired_sync_def Let_def rewrite_simps delegation_moves_def reconnect_key_def)

lemma status_transactions_rewrite:
  "legal_rewrite db (fst (finalize_cancelled_sync now did db))"
  "legal_rewrite db (fst (advance_to_joining_sync now did db))"
  "legal_rewrite db (fst (start_delegation_sync now did db))"
  "st \<in> {DelegationStatus.SUCCEEDED, DelegationStatus.FAILED} \<Longrightarrow>
     legal_rewrite db (fst (finalize_result_set_sync now did st db))"
     apply (simp add: finalize_cancelled_sync_def Let_def rewrite_simps delegation_moves_def reconnect_key_def
      split: option.splits)
    apply (simp add: advance_to_joining_sync_def Let_def rewrite_simps delegation_moves_def reconnect_key_def
      split: option.splits)
   apply (simp add: start_delegation_sync_def Let_def rewrite_simps delegation_moves_def reconnect_key_def
      split: option.splits)
  apply (auto simp add: finalize_result_set_sync_def Let_def rewrite_simps delegation_moves_def reconnect_key_def)
  done

lemma status_transactions_tables:
  "dg_members (fst (finalize_cancelled_sync now did db)) = dg_members db"
  "dg_results (fst (finalize_cancelled_sync now did db)) = dg_results db"
  "dg_members (fst (advance_to_joining_sync now did db)) = dg_members db"
  "dg_results (fst (advance_to_joining_sync now did db)) = dg_results db"
  "dg_members (fst (start_delegation_sync now did db)) = dg_members db"
  "dg_results (fst (start_delegation_sync now did db)) = dg_results db"
  "dg_members (fst (finalize_result_set_sync now did st db)) = dg_members db"
  "dg_results (fst (finalize_result_set_sync now did st db)) = dg_results db"
  "dg_members (fst (mark_expired_sync now db)) = dg_members db"
  "dg_results (fst (mark_expired_sync now db)) = dg_results db"
  by (simp_all add: finalize_cancelled_sync_def advance_to_joining_sync_def start_delegation_sync_def
      finalize_result_set_sync_def mark_expired_sync_def Let_def split: option.splits)

section \<open>Creation and deletion\<close>

lemma create_or_reconnect_cases:
  assumes "create_or_reconnect_sync now did req db = (db', r)"
  obtains (same) "db' = db"
    | (created) "\<not> create_violates did req db"
      "fetchone (\<lambda>d. pr_source (d_parent d) = pr_source (dc_parent req) \<and>
         pr_scope_id (d_parent d) = pr_scope_id (dc_parent req) \<and>
         d_delegation_key d = dc_delegation_key req) (dg_delegations db) = None"
      "dg_delegations db' = dg_delegations db @ [inserted_delegation now did req]"
      "dg_members db' = dg_members db @ map (inserted_member did) (dc_members req)"
      "dg_results db' = dg_results db"
      "r = Inr (inserted_delegation now did req)"
  using assms
  by (auto simp: create_or_reconnect_sync_def Let_def split: option.splits if_splits)

lemma inserted_member_keys [simp]:
  "m_id (inserted_member did m) = m_id m"
  "m_delegation_id (inserted_member did m) = did"
  "slot (inserted_member did m) = (did, m_ordinal m)"
  "claim_of (inserted_member did m) = None"
  by (simp_all add: inserted_member_def slot_def claim_of_def)

lemma inserted_delegation_keys [simp]:
  "d_id (inserted_delegation now did req) = did"
  "reconnect_key (inserted_delegation now did req) =
     (pr_source (dc_parent req), pr_scope_id (dc_parent req), dc_delegation_key req)"
  "d_status (inserted_delegation now did req) = DelegationStatus.PENDING"
  by (simp_all add: inserted_delegation_def reconnect_key_def)

lemma keyed_append:
  "keyed key (xs @ ys) \<longleftrightarrow> keyed key xs \<and> keyed key ys \<and> key ` set xs \<inter> key ` set ys = {}"
  by (simp add: keyed_def)

lemma result_fits_more:
  "result_fits db r \<Longrightarrow> set (dg_members db) \<subseteq> set (dg_members db') \<Longrightarrow> result_fits db' r"
  by (auto simp: result_fits_def)

lemma create_or_reconnect_inv:
  assumes inv: "delegation_inv db" and create: "create_or_reconnect_sync now did req db = (db', r)"
    and ords: "distinct (map m_ordinal (dc_members req))"
  shows "delegation_inv db'"
  using create
proof (cases rule: create_or_reconnect_cases)
  case same
  with inv show ?thesis by simp
next
  case created
  have did: "did \<notin> d_id ` set (dg_delegations db)"
    using created(1) by (simp add: create_violates_def)
  have "keyed d_id (dg_delegations db')"
    using inv did by (simp add: created(3) keyed_append1 delegation_inv_def)
  moreover have "keyed reconnect_key (dg_delegations db')"
    using inv created(2)
    by (auto simp: created(3) keyed_append1 delegation_inv_def fetchone_None_iff reconnect_key_def inserted_delegation_def)
  moreover have "keyed m_id (dg_members db')"
  proof -
    have "m_id m \<notin> m_id ` set (dg_members db)" if "m \<in> set (dc_members req)" for m
      using that created(1) by (simp add: create_violates_def list_ex_iff)
    then have "m_id ` set (dg_members db) \<inter> m_id ` set (map (inserted_member did) (dc_members req)) = {}"
      by (force simp: image_iff)
    moreover have "keyed m_id (map (inserted_member did) (dc_members req))"
      using created(1) by (simp add: create_violates_def keyed_def comp_def)
    ultimately show ?thesis
      using inv by (simp add: created(4) keyed_append delegation_inv_def)
  qed
  moreover have "keyed slot (dg_members db')"
  proof -
    have "slot ` set (dg_members db) \<inter> slot ` set (map (inserted_member did) (dc_members req)) = {}"
      using inv did by (force simp: delegation_inv_def slot_def)
    moreover have "keyed slot (map (inserted_member did) (dc_members req))"
      using ords by (simp add: keyed_def comp_def distinct_map inj_on_def)
    ultimately show ?thesis
      using inv by (simp add: created(4) keyed_append delegation_inv_def)
  qed
  moreover have "m_delegation_id m \<in> d_id ` set (dg_delegations db')" if "m \<in> set (dg_members db')" for m
    using that inv by (auto simp: created(3,4) delegation_inv_def)
  moreover have "distinct (adopted_ids db')"
    using inv by (simp add: adopted_ids_def created(5) delegation_inv_def)
  moreover have "result_fits db' r" if "r \<in> set (dg_results db')" for r
    using that inv by (auto simp: created(4,5) delegation_inv_def intro: result_fits_more)
  ultimately show ?thesis unfolding delegation_inv_def by blast
qed

definition gone_with :: "string \<Rightarrow> delegation_db \<Rightarrow> string \<Rightarrow> bool" where
  "gone_with sid db did \<longleftrightarrow> (\<exists>d\<in>set (dg_delegations db). d_id d = did \<and> pr_session_id (d_parent d) = sid)"

lemma delete_by_parent_session_tables:
  "dg_delegations (fst (delete_by_parent_session_sync now sid db)) =
     filter (\<lambda>d. pr_session_id (d_parent d) \<noteq> sid) (dg_delegations db)"
  "dg_members (fst (delete_by_parent_session_sync now sid db)) =
     filter (\<lambda>m. \<not> gone_with sid db (m_delegation_id m)) (dg_members db)"
  "dg_results (fst (delete_by_parent_session_sync now sid db)) =
     filter (\<lambda>r. \<not> gone_with sid db (rr_delegation_id r)) (dg_results db)"
  by (simp_all add: delete_by_parent_session_sync_def Let_def sql_delete_def gone_with_def list_ex_iff)

lemma delete_by_parent_session_inv:
  assumes inv: "delegation_inv db"
  shows "delegation_inv (fst (delete_by_parent_session_sync now sid db))" (is "delegation_inv ?db'")
proof -
  have "m_delegation_id m \<in> d_id ` set (dg_delegations ?db')" if "m \<in> set (dg_members ?db')" for m
  proof -
    from that inv obtain d where "d \<in> set (dg_delegations db)" "d_id d = m_delegation_id m"
      "\<not> gone_with sid db (m_delegation_id m)"
      by (auto simp: delete_by_parent_session_tables delegation_inv_def)
    then show ?thesis
      by (auto simp: delete_by_parent_session_tables gone_with_def intro!: image_eqI [of _ _ d])
  qed
  moreover have "result_fits ?db' r" if "r \<in> set (dg_results ?db')" for r
  proof -
    from that inv have "result_fits db r" "\<not> gone_with sid db (rr_delegation_id r)"
      by (auto simp: delete_by_parent_session_tables delegation_inv_def)
    then show ?thesis by (auto simp: result_fits_def delete_by_parent_session_tables)
  qed
  moreover have "adopted_ids ?db' = map rr_member_id
      (filter (\<lambda>r. \<not> gone_with sid db (rr_delegation_id r)) (filter rr_adopted (dg_results db)))"
    by (simp add: adopted_ids_def delete_by_parent_session_tables conj_commute)
  then have "distinct (adopted_ids ?db')"
    using inv by (simp add: delegation_inv_def adopted_ids_def distinct_map_filter del: filter_filter)
  ultimately show ?thesis
    using inv by (simp add: delegation_inv_def delete_by_parent_session_tables keyed_filter)
qed

section \<open>The step relation\<close>

definition releases :: "(DelegationMember \<Rightarrow> bool) \<Rightarrow> delegation_db \<Rightarrow> (string, string option \<times> int) lease_event list" where
  "releases P db = map (\<lambda>m. Release (m_id m) (m_claim_lock m, m_version m))
     (filter (\<lambda>m. P m \<and> m_status m = DelegationMemberStatus.RUNNING) (dg_members db))"

inductive delegation_step ::
  "delegation_db \<Rightarrow> (string, string option \<times> int) lease_event list \<Rightarrow> delegation_db \<Rightarrow> bool" where
  create: "create_or_reconnect_sync now did req db = (db', r) \<Longrightarrow> distinct (map m_ordinal (dc_members req))
     \<Longrightarrow> delegation_step db [] db'"
| delete: "delegation_step db (releases (\<lambda>m. gone_with sid db (m_delegation_id m)) db)
     (fst (delete_by_parent_session_sync now sid db))"
| event: "dg_append_event_sync now did kind payload ord db = (db', r) \<Longrightarrow> delegation_step db [] db'"
| claim: "claim_member_sync now did ord lock lease db = (db', Inr r) \<Longrightarrow> cm_outcome r = SUCCESS
     \<Longrightarrow> cm_member r = Some m \<Longrightarrow> delegation_step db [Acquire (m_id m) (Some lock, m_version m)] db'"
| claim_refused: "claim_member_sync now did ord lock lease db = (db', Inr r) \<Longrightarrow> cm_outcome r \<noteq> SUCCESS
     \<Longrightarrow> delegation_step db [] db'"
| finish: "finish_member_sync now did ord lock res v db = (db', Inr r) \<Longrightarrow> fm_outcome r = SUCCESS
     \<Longrightarrow> fm_member r = Some m \<Longrightarrow> re_status res \<in> DELEGATION_MEMBER_TERMINAL_STATES
     \<Longrightarrow> delegation_step db [Release (m_id m) (Some lock, v)] db'"
| finish_refused: "finish_member_sync now did ord lock res v db = (db', r)
     \<Longrightarrow> (\<And>x. r = Inr x \<Longrightarrow> fm_outcome x \<noteq> SUCCESS) \<Longrightarrow> delegation_step db [] db'"
| reserve: "reserve_ledger_sync now rid did amount purpose db = (db', r) \<Longrightarrow> delegation_step db [] db'"
| settle: "settle_ledger_sync now did rid actual ev db = (db', r) \<Longrightarrow> delegation_step db [] db'"
| release: "release_ledger_sync now did rid db = (db', r) \<Longrightarrow> delegation_step db [] db'"
| request_cancel: "request_cancel_sync now did reason db = (db', r) \<Longrightarrow> delegation_step db [] db'"
| ack: "delegation_step db [] (ack_outbox_sync now eid db)"
| cancel_members: "delegation_step db (releases (\<lambda>m. m_delegation_id m = did) db)
     (fst (cancel_pending_members_sync now did reason db))"
| expire: "delegation_step db [] (fst (mark_expired_sync now db))"
| stale: "delegation_step db (releases (stale_member now) db) (fst (mark_stale_sync now db))"
| finalize_cancelled: "delegation_step db [] (fst (finalize_cancelled_sync now did db))"
| advance: "delegation_step db [] (fst (advance_to_joining_sync now did db))"
| start: "delegation_step db [] (fst (start_delegation_sync now did db))"
| finalize: "st \<in> {DelegationStatus.SUCCEEDED, DelegationStatus.FAILED}
     \<Longrightarrow> delegation_step db [] (fst (finalize_result_set_sync now did st db))"

lemma ack_outbox_tables [simp]:
  "dg_members (ack_outbox_sync now eid db) = dg_members db"
  "dg_delegations (ack_outbox_sync now eid db) = dg_delegations db"
  "dg_results (ack_outbox_sync now eid db) = dg_results db"
  by (simp_all add: ack_outbox_sync_def)

lemma append_event_tables:
  assumes "dg_append_event_sync now did kind payload ord db = (db', r)"
  shows "dg_members db' = dg_members db \<and> dg_delegations db' = dg_delegations db \<and> dg_results db' = dg_results db"
  using assms by (auto simp: dg_append_event_sync_def Let_def split: if_splits)

lemma same_tables_rewrite:
  "dg_members db' = dg_members db \<Longrightarrow> dg_delegations db' = dg_delegations db \<Longrightarrow> legal_rewrite db db'"
  by (simp add: legal_rewrite_def members_same delegations_same)

lemma cancel_and_stale_members:
  "dg_members (fst (cancel_pending_members_sync now did reason db)) =
     sql_update (\<lambda>m. m_delegation_id m = did \<and> active_status m)
       (\<lambda>m. m\<lparr>m_status := DelegationMemberStatus.CANCELLED,
             m_cancel_reason := Some (if reason = [] then ''cancelled'' else reason),
             m_ended_at := Some now, m_version := m_version m + 1\<rparr>) (dg_members db)"
  "dg_members (fst (mark_stale_sync now db)) = sql_update (stale_member now)
     (\<lambda>m. m\<lparr>m_status := DelegationMemberStatus.PENDING, m_claim_lock := None,
           m_claim_expires_at := None, m_version := m_version m + 1\<rparr>) (dg_members db)"
  by (simp_all add: cancel_pending_members_sync_def mark_stale_sync_def Let_def)

lemma cancel_and_stale_results:
  "dg_results (fst (cancel_pending_members_sync now did reason db)) = dg_results db"
  "dg_results (fst (mark_stale_sync now db)) = dg_results db"
  by (simp_all add: cancel_pending_members_sync_def mark_stale_sync_def Let_def)

text \<open>Each transaction creates, deletes or rewrites.\<close>

lemma delegation_step_kind:
  assumes "delegation_step db es db'" and "delegation_inv db"
  shows "legal_rewrite db db' \<or> (\<exists>now did req r. create_or_reconnect_sync now did req db = (db', r)) \<or>
    (\<exists>now sid. db' = fst (delete_by_parent_session_sync now sid db))"
  using assms
proof (induction rule: delegation_step.induct)
  case (request_cancel now did reason db db' r)
  then show ?case using request_cancel_tables(1) by (auto simp: delegation_inv_def)
next
  case (event now did kind payload ord db db' r)
  then show ?case using append_event_tables same_tables_rewrite by blast
next
  case (finish_refused now did ord lock res v db db' r)
  from finish_refused(1) show ?case
    by (cases rule: finish_member_cases) (use finish_refused(2) in auto)
qed (auto intro: claim_member_rewrite finish_member_rewrite same_tables_rewrite cancel_pending_members_rewrite
    mark_stale_rewrite mark_expired_rewrite status_transactions_rewrite
    simp: ledger_tables)

lemma delegation_step_inv:
  assumes "delegation_step db es db'" and "delegation_inv db"
  shows "delegation_inv db'"
  using assms
proof (induction rule: delegation_step.induct)
  case (create now did req db db' r)
  then show ?case using create_or_reconnect_inv by blast
next
  case (delete db sid now)
  then show ?case by (simp add: delete_by_parent_session_inv)
next
  case (event now did kind payload ord db db' r)
  then show ?case
    using append_event_tables same_tables_rewrite legal_rewrite_inv_same_results by metis
next
  case (finish_refused now did ord lock res v db db' r)
  from finish_refused(1) show ?case
    by (cases rule: finish_member_cases) (use finish_refused(2,3) in auto)
next
  case (request_cancel now did reason db db' r)
  then show ?case
    using request_cancel_tables(1,2) legal_rewrite_inv_same_results by (metis delegation_inv_def)
next
  case (ack db now eid)
  then show ?case by (rule legal_rewrite_inv_same_results) (simp_all add: same_tables_rewrite)
qed (auto intro: legal_rewrite_inv_same_results claim_member_rewrite finish_member_rewrite same_tables_rewrite
    cancel_pending_members_rewrite mark_stale_rewrite mark_expired_rewrite status_transactions_rewrite
    simp: ledger_tables status_transactions_tables cancel_and_stale_results)

section \<open>Claims are leases\<close>

lemma member_claims_sql_update:
  assumes "dg_members db' = sql_update P f (dg_members db)" and "\<And>m. P m \<Longrightarrow> m_id (f m) = m_id m"
  shows "member_claims db' k = Option.bind (the_member k db) (\<lambda>m. claim_of (if P m then f m else m))"
  using assms
  by (simp add: member_claims_def the_member_def fetchone_key_sql_update)
    (simp add: bind_map_option comp_def)

lemma member_claims_same:
  assumes "dg_members db' = dg_members db"
  shows "member_claims db' = member_claims db"
  by (simp add: fun_eq_iff member_claims_def the_member_def assms)

lemma the_member_SomeD: "the_member k db = Some m \<Longrightarrow> m \<in> set (dg_members db) \<and> m_id m = k"
  by (auto simp: the_member_def dest: fetchone_SomeD)

lemma the_member_in: "delegation_inv db \<Longrightarrow> m \<in> set (dg_members db) \<Longrightarrow> the_member (m_id m) db = Some m"
  by (simp add: delegation_inv_def the_member_def keyed_fetchone)

lemma releases_valid:
  assumes "delegation_inv db"
  shows "valid_log (member_claims db) (releases P db)"
  unfolding releases_def
proof (rule valid_log_releases)
  show "distinct (map m_id (filter (\<lambda>m. P m \<and> m_status m = DelegationMemberStatus.RUNNING) (dg_members db)))"
    using assms by (simp add: delegation_inv_def keyed_def distinct_map_filter)
  show "member_claims db (m_id m) = Some (m_claim_lock m, m_version m)"
    if "m \<in> set (filter (\<lambda>m. P m \<and> m_status m = DelegationMemberStatus.RUNNING) (dg_members db))" for m
    using that by (simp add: member_claims_def the_member_in [OF assms] claim_of_def)
qed

lemma releases_after:
  assumes "delegation_inv db"
  shows "after_log (member_claims db) (releases P db) k =
    Option.bind (the_member k db) (\<lambda>m. if P m then None else claim_of m)"
proof (cases "the_member k db")
  case None
  then show ?thesis by (simp add: releases_def after_log_releases member_claims_def)
next
  case (Some m)
  have "k \<in> m_id ` set (filter (\<lambda>m. P m \<and> m_status m = DelegationMemberStatus.RUNNING) (dg_members db))
      \<longleftrightarrow> P m \<and> m_status m = DelegationMemberStatus.RUNNING"
  proof
    assume "k \<in> m_id ` set (filter (\<lambda>m. P m \<and> m_status m = DelegationMemberStatus.RUNNING) (dg_members db))"
    then obtain x where "x \<in> set (dg_members db)" "m_id x = k" "P x" "m_status x = DelegationMemberStatus.RUNNING"
      by auto
    with the_member_in [OF assms, of x] Some show "P m \<and> m_status m = DelegationMemberStatus.RUNNING" by simp
  qed (use the_member_SomeD [OF Some] in auto)
  with Some show ?thesis
    by (simp add: releases_def after_log_releases member_claims_def claim_of_def)
qed

lemma releases_by_update:
  assumes "delegation_inv db" and "dg_members db' = sql_update Q f (dg_members db)"
    and "\<And>m. m_id (f m) = m_id m"
    and "\<And>m. Q m \<Longrightarrow> P m \<and> claim_of (f m) = None" and "\<And>m. P m \<Longrightarrow> \<not> Q m \<Longrightarrow> claim_of m = None"
  shows "member_claims db' = after_log (member_claims db) (releases P db)"
proof
  fix k
  have "claim_of (if Q m then f m else m) = (if P m then None else claim_of m)" for m
    using assms(4,5) [of m] by auto
  then show "member_claims db' k = after_log (member_claims db) (releases P db) k"
    using member_claims_sql_update [of db' Q f db k, OF assms(2,3)] releases_after [OF assms(1), of P k]
    by simp
qed

lemma fetchone_filter: "fetchone P (filter Q rows) = fetchone (\<lambda>r. P r \<and> Q r) rows"
  by (induction rows) (simp_all add: sql_simps)

lemma keyed_fetchone_filter:
  assumes "keyed key rows"
  shows "fetchone (\<lambda>r. key r = k) (filter Q rows) =
    Option.bind (fetchone (\<lambda>r. key r = k) rows) (\<lambda>r. if Q r then Some r else None)"
proof (cases "fetchone (\<lambda>r. key r = k) rows")
  case None
  then have "fetchone (\<lambda>r. key r = k \<and> Q r) rows = None"
    by (simp add: fetchone_None_iff)
  with None show ?thesis by (simp add: fetchone_filter)
next
  case (Some r)
  then show ?thesis by (simp add: fetchone_filter keyed_fetchone_conj [OF assms])
qed

lemma create_claims:
  assumes "create_or_reconnect_sync now did req db = (db', r)"
  shows "member_claims db' = member_claims db"
  using assms
proof (cases rule: create_or_reconnect_cases)
  case same
  then show ?thesis by simp
next
  case created
  have "Option.bind (fetchone (\<lambda>m. m_id m = k) (map (inserted_member did) ms)) claim_of = None" for k ms
    by (induction ms) (simp_all add: sql_simps)
  then show ?thesis
    by (simp add: fun_eq_iff member_claims_def the_member_def created(4) fetchone_append split: option.split)
qed

lemma delete_claims:
  assumes "delegation_inv db"
  shows "member_claims (fst (delete_by_parent_session_sync now sid db)) =
    after_log (member_claims db) (releases (\<lambda>m. gone_with sid db (m_delegation_id m)) db)"
proof
  fix k
  have "keyed m_id (dg_members db)" using assms by (simp add: delegation_inv_def)
  then show "member_claims (fst (delete_by_parent_session_sync now sid db)) k =
      after_log (member_claims db) (releases (\<lambda>m. gone_with sid db (m_delegation_id m)) db) k"
    unfolding releases_after [OF assms] member_claims_def the_member_def delete_by_parent_session_tables
    by (cases "fetchone (\<lambda>m. m_id m = k) (dg_members db)") (simp_all add: keyed_fetchone_filter)
qed

text \<open>A claim finds at most one row, since the ordinals of a delegation are distinct.\<close>

lemma at_ordinal_slot: "at_ordinal did ord m \<longleftrightarrow> slot m = (did, ord)"
  by (auto simp: at_ordinal_def slot_def)

lemma fetchone_at_ordinal:
  assumes "delegation_inv db" and "m \<in> set (dg_members db)"
  shows "fetchone (at_ordinal (m_delegation_id m) (m_ordinal m)) (dg_members db) = Some m"
  using assms keyed_fetchone [of slot "dg_members db" m]
  by (simp add: delegation_inv_def at_ordinal_slot [abs_def] slot_def)

lemma member_has_delegation:
  assumes "delegation_inv db" and "m \<in> set (dg_members db)"
  obtains d where "dg_get_sync (m_delegation_id m) db = Some d"
proof -
  have "\<exists>d\<in>set (dg_delegations db). d_id d = m_delegation_id m"
    using assms by (force simp: delegation_inv_def)
  then show ?thesis
    using that by (cases "dg_get_sync (m_delegation_id m) db") (auto simp: dg_get_sync_def fetchone_None_iff)
qed

lemma claim_pending:
  assumes inv: "delegation_inv db" and m: "m \<in> set (dg_members db)" "m_status m = DelegationMemberStatus.PENDING"
    and d: "dg_get_sync (m_delegation_id m) db = Some d"
  shows "claim_member_sync now (m_delegation_id m) (m_ordinal m) lock lease db =
    (db\<lparr>dg_members := sql_update (\<lambda>x. m_id x = m_id m) (claimed_member now lock lease) (dg_members db)\<rparr>,
     Inr \<lparr>cm_outcome = SUCCESS, cm_member = Some (claimed_member now lock lease m), cm_delegation = Some d\<rparr>)"
proof -
  let ?Q = "\<lambda>m. m_status m = DelegationMemberStatus.PENDING"
  let ?P = "\<lambda>x. slot x = slot m \<and> ?Q x"
  let ?rows = "sql_update (\<lambda>x. m_id x = m_id m) (claimed_member now lock lease) (dg_members db)"
  have key: "keyed slot (dg_members db)" "keyed m_id (dg_members db)"
    using inv by (simp_all add: delegation_inv_def)
  have at: "at_ordinal (m_delegation_id m) (m_ordinal m) = (\<lambda>x. slot x = slot m)"
    by (auto simp: at_ordinal_slot slot_def)
  have "?P x \<longleftrightarrow> m_id x = m_id m" if "x \<in> set (dg_members db)" for x
    using keyed_eqD [OF key(1) that m(1)] keyed_eqD [OF key(2) that m(1)] m(2) by auto
  then have upd: "sql_update ?P (claimed_member now lock lease) (dg_members db) = ?rows"
    by (simp add: sql_update_def)
  have rc: "rowcount ?P (dg_members db) = 1"
    using rowcount_keyed [of slot "dg_members db" m "slot m" ?Q, OF key(1) m(1) refl m(2)] .
  have row: "fetchone (\<lambda>x. slot x = slot m) ?rows = Some (claimed_member now lock lease m)"
    using keyed_fetchone [OF key(1) m(1)]
    by (subst fetchone_key_sql_update) (simp_all add: claimed_member_def slot_def)
  show ?thesis
    using d upd rc row unfolding claim_member_sync_def at by (simp add: Let_def dg_get_sync_def)
qed

lemma claim_member_cases:
  assumes inv: "delegation_inv db" and claim: "claim_member_sync now did ord lock lease db = (db', r)"
  obtains (won) m d where "m \<in> set (dg_members db)" "at_ordinal did ord m" "m_status m = DelegationMemberStatus.PENDING"
      "dg_members db' = sql_update (\<lambda>x. m_id x = m_id m) (claimed_member now lock lease) (dg_members db)"
      "r = Inr \<lparr>cm_outcome = SUCCESS, cm_member = Some (claimed_member now lock lease m), cm_delegation = Some d\<rparr>"
    | (lost) x where "db' = db" "r = Inr x" "cm_outcome x \<noteq> SUCCESS"
proof (cases "\<exists>m\<in>set (dg_members db). at_ordinal did ord m \<and> m_status m = DelegationMemberStatus.PENDING")
  case True
  then obtain m where m: "m \<in> set (dg_members db)" "at_ordinal did ord m" "m_status m = DelegationMemberStatus.PENDING"
    by blast
  obtain d where d: "dg_get_sync (m_delegation_id m) db = Some d"
    using member_has_delegation [OF inv m(1)] .
  have "did = m_delegation_id m" "ord = m_ordinal m" using m(2) by (simp_all add: at_ordinal_def)
  with claim claim_pending [OF inv m(1,3) d] show ?thesis by (intro that(1) [OF m]) auto
next
  case False
  let ?P = "\<lambda>m. at_ordinal did ord m \<and> m_status m = DelegationMemberStatus.PENDING"
  from False have "dg_members db' = dg_members db" and rc: "rowcount ?P (dg_members db) = 0"
    using claim_member_rewrite(1) [OF claim] by (auto simp: sql_update_id rowcount_def filter_empty_conv)
  moreover have "db' = db\<lparr>dg_members := dg_members db'\<rparr>"
    using claim by (auto simp: claim_member_sync_def Let_def split: option.splits if_splits)
  ultimately have "db' = db" by simp
  moreover from rc claim have "\<exists>x. r = Inr x \<and> cm_outcome x \<noteq> SUCCESS"
    by (auto simp: claim_member_sync_def Let_def split: option.splits if_splits)
  ultimately show ?thesis using that(2) by blast
qed

text \<open>The holder of a member's claim can finish it: no result was adopted before.\<close>

lemma no_result_before:
  assumes inv: "delegation_inv db" and m: "m \<in> set (dg_members db)" "\<not> Member_is_terminal m"
  shows "adopted_result (m_id m) db = None"
proof -
  have "rr_member_id r \<noteq> Some (m_id m)" if r: "r \<in> set (dg_results db)" for r
  proof
    assume id: "rr_member_id r = Some (m_id m)"
    from inv r obtain x where x: "x \<in> set (dg_members db)" "rr_member_id r = Some (m_id x)" "Member_is_terminal x"
      by (auto simp: delegation_inv_def result_fits_def)
    with id have "x = m" using the_member_in [OF inv] m(1) by (metis option.inject)
    with x(3) m(2) show False by simp
  qed
  then show ?thesis by (auto simp: adopted_result_def fetchone_None_iff)
qed

lemma finish_claimed:
  assumes inv: "delegation_inv db" and m: "m \<in> set (dg_members db)" "claim_of m = Some (Some lock, v)"
    and d: "dg_get_sync (m_delegation_id m) db = Some d"
  shows "fst (finish_member_sync now (m_delegation_id m) (m_ordinal m) lock res v db) =
    set_delegation (m_delegation_id m) (\<lambda>d. d\<lparr>d_updated_at := now\<rparr>)
      (db\<lparr>dg_members := sql_update (\<lambda>x. m_id x = m_id m) (finished_member now (re_status res)) (dg_members db),
          dg_results := dg_results db @ [member_result_row now m res]\<rparr>)"
proof -
  have run: "m_status m = DelegationMemberStatus.RUNNING" "m_claim_lock m = Some lock" "m_version m = v"
    using m(2) by (auto simp: claim_of_def split: if_splits)
  then have "\<not> Member_is_terminal m"
    by (simp add: Member_is_terminal_def DELEGATION_MEMBER_TERMINAL_STATES_def)
  with run d fetchone_at_ordinal [OF inv m(1)] no_result_before [OF inv m(1)] show ?thesis
    by (simp add: finish_member_sync_def Let_def)
qed

lemma finish_claims:
  assumes inv: "delegation_inv db" and fin: "finish_member_sync now did ord lock res v db = (db', Inr r)"
    and ok: "fm_outcome r = SUCCESS" "fm_member r = Some m" and st: "re_status res \<in> DELEGATION_MEMBER_TERMINAL_STATES"
  shows "member_claims db (m_id m) = Some (Some lock, v)" and "member_claims db' = (member_claims db)(m_id m := None)"
proof -
  from fin ok obtain m0 where m0: "fetchone (at_ordinal did ord) (dg_members db) = Some m0"
      "claim_of m0 = Some (Some lock, v)"
      "dg_members db' = sql_update (\<lambda>x. m_id x = m_id m0) (finished_member now (re_status res)) (dg_members db)"
      "fetchone (\<lambda>x. m_id x = m_id m0) (dg_members db') = Some m"
    by (cases rule: finish_member_cases) auto
  have in0: "the_member (m_id m0) db = Some m0"
    using m0(1) the_member_in [OF inv] by (auto dest: fetchone_SomeD)
  have id: "m_id m = m_id m0"
    using m0(4) by (auto dest: fetchone_SomeD)
  show "member_claims db (m_id m) = Some (Some lock, v)"
    by (simp add: id member_claims_def in0 m0(2))
  show "member_claims db' = (member_claims db)(m_id m := None)"
  proof
    fix k
    have "member_claims db' k =
        Option.bind (the_member k db) (\<lambda>x. claim_of (if m_id x = m_id m0 then finished_member now (re_status res) x else x))"
      using member_claims_sql_update [OF m0(3)] by (simp add: finished_member_def)
    moreover have "claim_of (finished_member now (re_status res) x) = None" for x
      using st by (auto simp: claim_of_def finished_member_def DELEGATION_MEMBER_TERMINAL_STATES_def)
    ultimately show "member_claims db' k = ((member_claims db)(m_id m := None)) k"
      using in0 the_member_SomeD [of k db] unfolding id
      by (cases "the_member k db") (auto simp: member_claims_def)
  qed
qed

lemma claim_claims:
  assumes inv: "delegation_inv db" and claim: "claim_member_sync now did ord lock lease db = (db', Inr r)"
    and ok: "cm_outcome r = SUCCESS" "cm_member r = Some m"
  shows "member_claims db (m_id m) = None"
    and "member_claims db' = (member_claims db)(m_id m \<mapsto> (Some lock, m_version m))"
proof -
  from inv claim ok obtain m0 where m0: "m0 \<in> set (dg_members db)" "m_status m0 = DelegationMemberStatus.PENDING"
      "dg_members db' = sql_update (\<lambda>x. m_id x = m_id m0) (claimed_member now lock lease) (dg_members db)"
      "m = claimed_member now lock lease m0"
    by (cases rule: claim_member_cases) auto
  have in0: "the_member (m_id m0) db = Some m0"
    using the_member_in [OF inv m0(1)] .
  have id: "m_id m = m_id m0"
    using m0(4) by (simp add: claimed_member_def)
  show "member_claims db (m_id m) = None"
    by (simp add: id member_claims_def in0 claim_of_def m0(2))
  show "member_claims db' = (member_claims db)(m_id m \<mapsto> (Some lock, m_version m))"
  proof
    fix k
    have "member_claims db' k =
        Option.bind (the_member k db) (\<lambda>x. claim_of (if m_id x = m_id m0 then claimed_member now lock lease x else x))"
      using member_claims_sql_update [OF m0(3)] by (simp add: claimed_member_def)
    note step = this
    show "member_claims db' k = ((member_claims db)(m_id m \<mapsto> (Some lock, m_version m))) k"
    proof (cases "k = m_id m0")
      case True
      with in0 step show ?thesis by (simp add: id m0(4) claimed_member_def claim_of_def)
    next
      case False
      with step the_member_SomeD [of k db] show ?thesis
        by (cases "the_member k db") (simp_all add: id member_claims_def)
    qed
  qed
qed

lemma request_cancel_claims:
  assumes "request_cancel_sync now did reason db = (db', r)" and "delegation_inv db"
  shows "member_claims db' = member_claims db"
proof -
  obtain P where "dg_members db' = sql_update P (\<lambda>m. m\<lparr>m_cancel_requested_at := Some now\<rparr>) (dg_members db)"
    using request_cancel_tables(3) [OF assms(1)] assms(2) by (auto simp: delegation_inv_def)
  then have "member_claims db' k = Option.bind (the_member k db) claim_of" for k
    by (subst member_claims_sql_update, assumption) (auto simp: claim_of_def intro!: bind_option_cong)
  then show ?thesis by (simp add: fun_eq_iff member_claims_def)
qed

lemma delegation_step_log:
  assumes "delegation_step db es db'" and "delegation_inv db"
  shows "valid_log (member_claims db) es \<and> member_claims db' = after_log (member_claims db) es"
  using assms
proof (induction rule: delegation_step.induct)
  case (create now did req db db' r)
  then show ?case by (simp add: create_claims)
next
  case (delete db sid now)
  then show ?case by (simp add: delete_claims releases_valid)
next
  case (event now did kind payload ord db db' r)
  then show ?case using append_event_tables [OF event(1)] member_claims_same [of db' db] by simp
next
  case (claim now did ord lock lease db db' r m)
  then show ?case using claim_claims [OF claim(4,1-3)] by (simp del: fun_upd_apply)
next
  case (claim_refused now did ord lock lease db db' r)
  from claim_refused(3,1) show ?case
    by (cases rule: claim_member_cases) (use claim_refused(2) in \<open>auto intro: member_claims_same\<close>)
next
  case (finish now did ord lock res v db db' r m)
  then show ?case using finish_claims [OF finish(5,1-4)] by (simp del: fun_upd_apply)
next
  case (finish_refused now did ord lock res v db db' r)
  from finish_refused(1) show ?case
    by (cases rule: finish_member_cases) (use finish_refused(2) in auto)
next
  case (request_cancel now did reason db db' r)
  then show ?case by (simp add: request_cancel_claims)
next
  case (cancel_members db did now reason)
  have "member_claims (fst (cancel_pending_members_sync now did reason db)) =
      after_log (member_claims db) (releases (\<lambda>m. m_delegation_id m = did) db)"
    by (rule releases_by_update [OF cancel_members cancel_and_stale_members(1)])
      (auto simp: claim_of_def active_status_def DELEGATION_MEMBER_TERMINAL_STATES_def)
  with cancel_members show ?case by (simp add: releases_valid)
next
  case (stale db now)
  have "member_claims (fst (mark_stale_sync now db)) = after_log (member_claims db) (releases (stale_member now) db)"
    by (rule releases_by_update [OF stale cancel_and_stale_members(2)]) (auto simp: claim_of_def)
  with stale show ?case by (simp add: releases_valid)
qed (auto intro!: member_claims_same simp: ledger_tables status_transactions_tables)

interpretation dl: lease_system delegation_inv member_claims delegation_step
  by unfold_locales (use delegation_step_inv delegation_step_log in blast)+

end
