(* ===== verification/Delegation_Run.thy ===== *)
theory Delegation_Run
  imports Delegation_Safety Complex_Main
begin

text \<open>
  The delegation run service (\<open>app/application/delegation_run_service.py\<close>): one \<open>tick\<close> expires,
  reclaims, delivers cancellations, claims and executes pending members and joins delegations
  whose members are all terminal. The child executor is a parameter: from the claimed member,
  the model name, the parent's capability, the deadline and the parent run it gives an outcome and
  the time at which it ends. The coroutines that \<open>asyncio.gather\<close> starts run one after the other
  here, in the order in which they are started; their registry calls are single transactions, and what
  holds of every interleaving of transactions is shown of \<open>delegation_step\<close>.
\<close>

section \<open>Configuration and capabilities\<close>

record DelegationPolicyConfig =
  cf_enabled :: bool
  cf_realtime_enabled :: bool
  cf_task_enabled :: bool
  cf_max_children :: int
  cf_max_concurrency :: int
  cf_max_concurrency_per_parent :: int
  cf_max_runtime_seconds :: int
  cf_member_max_runtime_seconds :: int
  cf_max_total_tokens :: int
  cf_max_tokens_per_child :: int
  cf_result_max_bytes :: int
  cf_structured_result_max_bytes :: int
  cf_event_payload_max_bytes :: int
  cf_member_max_retries :: int
  cf_cancel_retry_max_attempts :: int
  cf_cancel_retry_max_backoff_seconds :: int

definition DelegationPolicyConfig_default :: DelegationPolicyConfig where
  "DelegationPolicyConfig_default =
     \<lparr>cf_enabled = False, cf_realtime_enabled = False, cf_task_enabled = False, cf_max_children = 8,
      cf_max_concurrency = 8, cf_max_concurrency_per_parent = 3, cf_max_runtime_seconds = 1800,
      cf_member_max_runtime_seconds = 900, cf_max_total_tokens = 100000, cf_max_tokens_per_child = 50000,
      cf_result_max_bytes = 65536, cf_structured_result_max_bytes = 32768, cf_event_payload_max_bytes = 32768,
      cf_member_max_retries = 1, cf_cancel_retry_max_attempts = 5, cf_cancel_retry_max_backoff_seconds = 60\<rparr>"

text \<open>The keys of a parent capability, with the values that \<open>get\<close> gives for missing ones.\<close>

record ParentCapability =
  pc_source :: string
  pc_scope_id :: string
  pc_run_id :: string
  pc_session_id :: string
  pc_actor_id :: "string option"
  pc_has_capability :: bool
  pc_classification :: string
  pc_parent_allowed_tools :: "string list"
  pc_system_child_allowlist :: "string list"
  pc_parent_deadline :: "rat option"

definition no_parent_cap :: ParentCapability where
  "no_parent_cap =
     \<lparr>pc_source = ''delegation'', pc_scope_id = [], pc_run_id = [], pc_session_id = [], pc_actor_id = None,
      pc_has_capability = False, pc_classification = ''internal'', pc_parent_allowed_tools = [],
      pc_system_child_allowlist = [], pc_parent_deadline = None\<rparr>"

record DelegationRunService =
  rs_config :: DelegationPolicyConfig
  rs_kill_switch :: bool
  rs_parent_caps :: "string \<rightharpoonup> ParentCapability"

definition activate_kill_switch :: "DelegationRunService \<Rightarrow> DelegationRunService" where
  "activate_kill_switch s = s\<lparr>rs_kill_switch := True\<rparr>"

definition deactivate_kill_switch :: "DelegationRunService \<Rightarrow> DelegationRunService" where
  "deactivate_kill_switch s = s\<lparr>rs_kill_switch := False\<rparr>"

definition set_parent_capability :: "string \<Rightarrow> ParentCapability \<Rightarrow> DelegationRunService \<Rightarrow> DelegationRunService" where
  "set_parent_capability did cap s = s\<lparr>rs_parent_caps := (rs_parent_caps s)(did \<mapsto> cap)\<rparr>"

section \<open>Executing a member\<close>

text \<open>How a call of the child executor may end.\<close>

datatype exec_outcome =
    Returned DelegationResult
  | RunCancelledError
  | AsyncCancelledError
  | OtherError

type_synonym child_executor =
  "DelegationMember \<Rightarrow> string \<Rightarrow> ParentCapability \<Rightarrow> datetime option \<Rightarrow> string option \<Rightarrow> exec_outcome \<times> datetime"

text \<open>\<open>None\<close>: the cancellation of the coroutine is raised further.\<close>

definition outcome_result :: "DelegationMember \<Rightarrow> exec_outcome \<Rightarrow> datetime \<Rightarrow> DelegationResult option" where
  "outcome_result m out ended =
     (case out of
        Returned r \<Rightarrow> Some r
      | RunCancelledError \<Rightarrow>
          Some ((DelegationResult_new DelegationMemberStatus.CANCELLED)
                  \<lparr>re_error_code := Some ''agent_run_cancelled'', re_error_message := Some ''member execution cancelled'',
                   re_started_at := m_started_at m, re_ended_at := Some ended\<rparr>)
      | AsyncCancelledError \<Rightarrow> None
      | OtherError \<Rightarrow>
          Some ((DelegationResult_new DelegationMemberStatus.FAILED)
                  \<lparr>re_error_code := Some ''delegation_run_error'', re_error_message := Some ''member execution failed''\<rparr>))"

definition execute_member ::
  "child_executor \<Rightarrow> DelegationRunService \<Rightarrow> delegation_db \<Rightarrow> DelegationMember \<Rightarrow> DelegationResult option \<times> datetime" where
  "execute_member exec s db m =
     (let d = dg_get_sync (m_delegation_id m) db;
          cap = (case rs_parent_caps s (m_delegation_id m) of None \<Rightarrow> no_parent_cap | Some c \<Rightarrow> c);
          (out, ended) = exec m ''N-Agent'' cap (Option.bind d d_deadline_at) (Option.bind d d_canonical_parent_run_id)
      in (outcome_result m out ended, ended))"

text \<open>
  \<open>killed\<close> is what the kill switch reads after the claim; looking up the trace context of the
  creation event changes no table. An error of a transaction ends the coroutine, and \<open>gather\<close>
  collects it.
\<close>

definition claim_and_run ::
  "child_executor \<Rightarrow> (string \<Rightarrow> bool) \<Rightarrow> datetime \<Rightarrow> DelegationRunService \<Rightarrow> DelegationMember \<Rightarrow> delegation_db \<Rightarrow> delegation_db" where
  "claim_and_run exec killed now s m db =
     (let did = m_delegation_id m; lock = ''run-'' @ m_id m;
          (db1, r) = claim_member_sync now did (m_ordinal m) lock (cf_member_max_runtime_seconds (rs_config s)) db
      in case r of
           Inl _ \<Rightarrow> db1
         | Inr cr \<Rightarrow>
             if cm_outcome cr \<noteq> SUCCESS then db1
             else
               (let db2 = fst (start_delegation_sync now did db1) in
                case cm_member cr of
                  None \<Rightarrow> db2
                | Some claimed \<Rightarrow>
                    if killed (m_id m) then fst (cancel_pending_members_sync now did ''kill_switch'' db2)
                    else
                      (case execute_member exec s db2 claimed of
                         (None, _) \<Rightarrow> db2
                       | (Some res, ended) \<Rightarrow>
                           fst (finish_member_sync ended did (m_ordinal m) lock res (m_version claimed) db2))))"

section \<open>Scheduling\<close>

text \<open>\<open>setdefault(...).append\<close> on a dictionary in insertion order.\<close>

fun group_add :: "DelegationMember \<Rightarrow> (string \<times> DelegationMember list) list \<Rightarrow> (string \<times> DelegationMember list) list" where
  "group_add m [] = [(m_delegation_id m, [m])]"
| "group_add m ((k, g) # gs) = (if k = m_delegation_id m then (k, g @ [m]) # gs else (k, g) # group_add m gs)"

definition by_delegation :: "DelegationMember list \<Rightarrow> (string \<times> DelegationMember list) list" where
  "by_delegation ms = foldl (\<lambda>gs m. group_add m gs) [] ms"

text \<open>One turn of the \<open>while\<close> loop pops the head of each group and deletes the exhausted ones.\<close>

definition pop_heads :: "(string \<times> DelegationMember list) list \<Rightarrow> DelegationMember list" where
  "pop_heads gs = concat (map (\<lambda>(k, g). take 1 g) gs)"

definition pop_rest :: "(string \<times> DelegationMember list) list \<Rightarrow> (string \<times> DelegationMember list) list" where
  "pop_rest gs = filter (\<lambda>(k, g). g \<noteq> []) (map (\<lambda>(k, g). (k, drop 1 g)) gs)"

definition groups_size :: "(string \<times> DelegationMember list) list \<Rightarrow> nat" where
  "groups_size gs = sum_list (map (\<lambda>(k, g). Suc (length g)) gs)"

lemma groups_size_pop_rest: "groups_size (pop_rest gs) \<le> groups_size gs"
  by (induction gs) (auto simp: groups_size_def pop_rest_def)

lemma groups_size_pop_rest_less: "gs \<noteq> [] \<Longrightarrow> groups_size (pop_rest gs) < groups_size gs"
proof (induction gs)
  case (Cons a gs)
  obtain k g where "a = (k, g)" by (cases a)
  with groups_size_pop_rest [of gs] show ?case
    by (cases g) (auto simp: groups_size_def pop_rest_def)
qed simp

function interleave :: "(string \<times> DelegationMember list) list \<Rightarrow> DelegationMember list" where
  "interleave gs = (if gs = [] then [] else pop_heads gs @ interleave (pop_rest gs))"
  by auto

termination
  by (relation "measure groups_size") (simp_all add: groups_size_pop_rest_less)

declare interleave.simps [simp del]

definition claim_and_execute_pending ::
  "child_executor \<Rightarrow> (string \<Rightarrow> bool) \<Rightarrow> datetime \<Rightarrow> DelegationRunService \<Rightarrow> delegation_db \<Rightarrow> delegation_db" where
  "claim_and_execute_pending exec killed now s db =
     fold (claim_and_run exec killed now s)
       (interleave (by_delegation (list_pending_members_sync (cf_max_concurrency (rs_config s)) db))) db"

section \<open>Cancellation\<close>

definition deliver_entry :: "datetime \<Rightarrow> CancelOutboxEntry \<Rightarrow> delegation_db \<Rightarrow> delegation_db" where
  "deliver_entry now e db =
     ack_outbox_sync now (co_id e)
       (fst (finalize_cancelled_sync now (co_delegation_id e)
         (fst (cancel_pending_members_sync now (co_delegation_id e) (co_reason e) db))))"

definition deliver_cancel_outbox :: "datetime \<Rightarrow> delegation_db \<Rightarrow> delegation_db" where
  "deliver_cancel_outbox now db = fold (deliver_entry now) (list_outbox_pending_sync 50 db) db"

fun cancel_each :: "datetime \<Rightarrow> string list \<Rightarrow> DelegationMember list \<Rightarrow> delegation_db \<Rightarrow> delegation_db" where
  "cancel_each now seen [] db = db"
| "cancel_each now seen (m # ms) db =
     (let did = m_delegation_id m in
      if did \<in> set seen then cancel_each now seen ms db
      else case dg_get_sync did db of
        None \<Rightarrow> cancel_each now seen ms db
      | Some d \<Rightarrow>
          if Delegation_is_terminal d then cancel_each now seen ms db
          else
            (let db1 = (if d_status d \<noteq> DelegationStatus.CANCELLING
                        then fst (request_cancel_sync now did ''kill_switch'' db) else db)
             in cancel_each now (did # seen) ms (fst (cancel_pending_members_sync now did ''kill_switch'' db1))))"

definition cancel_under_kill_switch :: "datetime \<Rightarrow> delegation_db \<Rightarrow> delegation_db" where
  "cancel_under_kill_switch now db = cancel_each now [] (list_pending_members_sync 100 db) db"

section \<open>Joining and the tick\<close>

text \<open>\<open>d\<close> is the row read when the active delegations were listed.\<close>

definition advance_join :: "datetime \<Rightarrow> Delegation \<Rightarrow> delegation_db \<Rightarrow> delegation_db" where
  "advance_join now d db =
     (let members = list_members_sync (d_id d) db in
      if members = [] then db
      else if \<not> list_all Member_is_terminal members then db
      else if d_status d = DelegationStatus.CANCELLING then fst (finalize_cancelled_sync now (d_id d) db)
      else
        (let db1 = (if d_status d = DelegationStatus.RUNNING then fst (advance_to_joining_sync now (d_id d) db) else db)
         in case get_result_set_sync (d_id d) db1 of
              None \<Rightarrow> db1
            | Some rs \<Rightarrow> fst (finalize_result_set_sync now (d_id d) (rt_status rs) db1)))"

definition try_advance_joins :: "datetime \<Rightarrow> delegation_db \<Rightarrow> delegation_db" where
  "try_advance_joins now db = fold (advance_join now) (list_active_delegations_sync 100 db) db"

definition delegation_tick ::
  "child_executor \<Rightarrow> (string \<Rightarrow> bool) \<Rightarrow> datetime \<Rightarrow> DelegationRunService \<Rightarrow> delegation_db \<Rightarrow> delegation_db" where
  "delegation_tick exec killed now s db =
     (let db1 = fst (mark_expired_sync now db);
          db2 = fst (mark_stale_sync now db1);
          db3 = deliver_cancel_outbox now db2;
          db4 = (if rs_kill_switch s then cancel_under_kill_switch now db3
                 else claim_and_execute_pending exec killed now s db3)
      in try_advance_joins now db4)"

definition run_request_cancel :: "datetime \<Rightarrow> string \<Rightarrow> string \<Rightarrow> delegation_db \<Rightarrow> Delegation dg_result" where
  "run_request_cancel now did reason db = request_cancel_sync now did reason db"

section \<open>A tick is a run of transactions\<close>

definition terminal_executor :: "child_executor \<Rightarrow> bool" where
  "terminal_executor exec \<longleftrightarrow> (\<forall>m model cap dl run.
     case fst (exec m model cap dl run) of
       Returned r \<Rightarrow> re_status r \<in> DELEGATION_MEMBER_TERMINAL_STATES | _ \<Rightarrow> True)"

definition transactions :: "delegation_db \<Rightarrow> delegation_db \<Rightarrow> bool" where
  "transactions db db' \<longleftrightarrow> (\<exists>es. lts_run delegation_step db es db')"

lemma transactions_refl [simp]: "transactions db db"
  by (auto simp: transactions_def intro: lts_run.stop)

lemma transactions_step: "transactions db db1 \<Longrightarrow> delegation_step db1 es db2 \<Longrightarrow> transactions db db2"
  by (auto simp: transactions_def intro: lts_run.more)

lemma transactions_trans:
  assumes "transactions db db1" and "transactions db1 db2"
  shows "transactions db db2"
proof -
  from assms(2) obtain es where "lts_run delegation_step db1 es db2" by (auto simp: transactions_def)
  from this assms(1) show ?thesis
    by (induction rule: lts_run.induct) (auto intro: transactions_step)
qed

lemma transactions_one: "delegation_step db es db' \<Longrightarrow> transactions db db'"
  by (rule transactions_step [OF transactions_refl])

lemma transactions_fold:
  assumes "\<And>x db. x \<in> set xs \<Longrightarrow> transactions db (f x db)"
  shows "transactions db (fold f xs db)"
  using assms by (induction xs arbitrary: db) (auto intro: transactions_trans)

lemma outcome_result_terminal:
  assumes "terminal_executor exec" and "execute_member exec s db m = (Some res, t)"
  shows "re_status res \<in> DELEGATION_MEMBER_TERMINAL_STATES"
proof -
  from assms(2) obtain model cap dl run out where out: "exec m model cap dl run = (out, t)" "outcome_result m out t = Some res"
    by (auto simp: execute_member_def Let_def split: prod.splits)
  show ?thesis
  proof (cases out)
    case (Returned r)
    moreover have "case fst (exec m model cap dl run) of
        Returned r \<Rightarrow> re_status r \<in> DELEGATION_MEMBER_TERMINAL_STATES | _ \<Rightarrow> True"
      using assms(1) unfolding terminal_executor_def by blast
    ultimately show ?thesis using out by (simp add: outcome_result_def)
  qed (use out(2) in \<open>auto simp: outcome_result_def DelegationResult_new_def DELEGATION_MEMBER_TERMINAL_STATES_def\<close>)
qed

lemma finish_transactions:
  assumes "re_status res \<in> DELEGATION_MEMBER_TERMINAL_STATES"
  shows "transactions db (fst (finish_member_sync now did ord lock res v db))"
proof -
  obtain db' r where fin: "finish_member_sync now did ord lock res v db = (db', r)" by fastforce
  from fin show ?thesis
  proof (cases rule: finish_member_cases)
    case same
    with fin show ?thesis by simp
  next
    case (finished m d)
    then have "fetchone (\<lambda>x. m_id x = m_id m) (dg_members db') =
        map_option (finished_member now (re_status res)) (fetchone (\<lambda>x. m_id x = m_id m) (dg_members db))"
      by (simp add: fetchone_key_sql_update finished_member_def)
        (auto simp: map_option_case dest: fetchone_SomeD split: option.split)
    moreover have "fetchone (\<lambda>x. m_id x = m_id m) (dg_members db) \<noteq> None"
      using fetchone_SomeD [OF finished(1)] by (auto simp: fetchone_None_iff)
    ultimately obtain m' where "fetchone (\<lambda>x. m_id x = m_id m) (dg_members db') = Some m'"
      by auto
    with finished fin assms have "delegation_step db [Release (m_id m') (Some lock, v)] db'"
      by (intro delegation_step.finish) auto
    with fin show ?thesis by (auto intro: transactions_one)
  qed
qed

lemma claim_transactions:
  assumes "delegation_inv db" and "claim_member_sync now did ord lock lease db = (db1, r)"
  shows "transactions db db1"
  using assms
proof (cases rule: claim_member_cases)
  case (won m d)
  with assms(2) show ?thesis by (auto intro!: transactions_one delegation_step.claim)
qed simp

lemma transactions_inv: "transactions db db' \<Longrightarrow> delegation_inv db \<Longrightarrow> delegation_inv db'"
  using dl.run_inv by (auto simp: transactions_def)

text \<open>Chaining transactions: each one starts from a database that keeps the invariant.\<close>

lemma transactions_then:
  assumes "delegation_inv db" and "transactions db db1" and "delegation_inv db1 \<Longrightarrow> transactions db1 db2"
  shows "transactions db db2"
  using assms transactions_inv transactions_trans by blast

lemma transactions_fold_inv:
  assumes "\<And>x db. x \<in> set xs \<Longrightarrow> delegation_inv db \<Longrightarrow> transactions db (f x db)" and "delegation_inv db"
  shows "transactions db (fold f xs db)"
  using assms
proof (induction xs arbitrary: db)
  case (Cons x xs)
  have "transactions db (f x db)" using Cons.prems by simp
  moreover have "transactions (f x db) (fold f xs (f x db))"
    using Cons.prems calculation transactions_inv by (intro Cons.IH) auto
  ultimately show ?case using transactions_trans by simp
qed simp

lemmas transaction_intros =
  transactions_one [OF delegation_step.start] transactions_one [OF delegation_step.cancel_members]
  transactions_one [OF delegation_step.expire] transactions_one [OF delegation_step.stale]
  transactions_one [OF delegation_step.ack] transactions_one [OF delegation_step.finalize_cancelled]
  transactions_one [OF delegation_step.advance]

lemma claim_and_run_transactions:
  assumes inv: "delegation_inv db" and exec: "terminal_executor exec"
  shows "transactions db (claim_and_run exec killed now s m db)"
proof -
  let ?did = "m_delegation_id m" and ?lock = "''run-'' @ m_id m"
  obtain db1 r where claim: "claim_member_sync now ?did (m_ordinal m) ?lock
      (cf_member_max_runtime_seconds (rs_config s)) db = (db1, r)" by fastforce
  have t1: "transactions db db1" by (rule claim_transactions [OF inv claim])
  let ?db2 = "fst (start_delegation_sync now ?did db1)"
  have t2: "transactions db ?db2"
    using t1 transactions_trans transaction_intros(1) by blast
  have cancel: "transactions db (fst (cancel_pending_members_sync now ?did ''kill_switch'' ?db2))"
    using t2 transactions_trans transaction_intros(2) by blast
  have fin: "transactions db (fst (finish_member_sync t ?did (m_ordinal m) ?lock res v ?db2))"
    if "execute_member exec s ?db2 c = (Some res, t)" for c res t v
    using t2 transactions_trans finish_transactions outcome_result_terminal [OF exec that] by blast
  show ?thesis
    unfolding claim_and_run_def Let_def claim
    using t1 t2 cancel fin by (auto split: sum.splits option.splits prod.splits)
qed

lemma deliver_entry_transactions: "transactions db (deliver_entry now e db)"
  unfolding deliver_entry_def by (meson transactions_trans transaction_intros)

lemma request_cancel_transactions: "transactions db (fst (request_cancel_sync now did reason db))"
  by (rule transactions_one [OF delegation_step.request_cancel]) (rule prod.collapse [symmetric])

lemma cancel_each_transactions: "transactions db (cancel_each now seen ms db)"
proof (induction ms arbitrary: seen db)
  case (Cons m ms)
  let ?did = "m_delegation_id m"
  have "transactions db (fst (cancel_pending_members_sync now ?did ''kill_switch'' db))"
    "transactions db (fst (cancel_pending_members_sync now ?did ''kill_switch''
       (fst (request_cancel_sync now ?did ''kill_switch'' db))))"
    by (meson transactions_trans transaction_intros request_cancel_transactions)+
  with Cons show ?case
    by (auto simp: Let_def split: option.splits intro: transactions_trans)
qed simp

lemma get_result_set_status:
  assumes "get_result_set_sync did db = Some rs"
  shows "rt_status rs \<in> {DelegationStatus.SUCCEEDED, DelegationStatus.FAILED}"
  using assms
  by (auto simp: get_result_set_sync_def evaluate_join_outcome_def join_status_def Let_def
      split: option.splits if_splits DelegationAggregationPolicy.splits)

lemma advance_join_transactions: "transactions db (advance_join now d db)"
proof -
  let ?db1 = "if d_status d = DelegationStatus.RUNNING then fst (advance_to_joining_sync now (d_id d) db) else db"
  have t1: "transactions db ?db1" by (simp add: transaction_intros)
  have "transactions db (fst (finalize_result_set_sync now (d_id d) (rt_status rs) ?db1))"
    if "get_result_set_sync (d_id d) ?db1 = Some rs" for rs
    using t1 transactions_trans transactions_one [OF delegation_step.finalize] get_result_set_status [OF that] by blast
  with t1 show ?thesis
    unfolding advance_join_def Let_def
    by (auto simp: transaction_intros split: option.splits)
qed

lemma delegation_tick_transactions:
  assumes inv: "delegation_inv db" and exec: "terminal_executor exec"
  shows "transactions db (delegation_tick exec killed now s db)"
proof -
  let ?db2 = "fst (mark_stale_sync now (fst (mark_expired_sync now db)))"
  let ?db3 = "deliver_cancel_outbox now ?db2"
  let ?db4 = "if rs_kill_switch s then cancel_under_kill_switch now ?db3
                 else claim_and_execute_pending exec killed now s ?db3"
  have "transactions db ?db2" by (meson transactions_trans transaction_intros)
  moreover have "transactions ?db2 ?db3"
    unfolding deliver_cancel_outbox_def by (intro transactions_fold deliver_entry_transactions)
  ultimately have t3: "transactions db ?db3" using transactions_trans by blast
  have "transactions ?db3 ?db4"
    using transactions_inv [OF t3 inv] exec
    by (auto simp: cancel_under_kill_switch_def claim_and_execute_pending_def
        intro!: transactions_fold_inv claim_and_run_transactions cancel_each_transactions)
  with t3 have t4: "transactions db ?db4" using transactions_trans by blast
  have "transactions ?db4 (try_advance_joins now ?db4)"
    unfolding try_advance_joins_def by (intro transactions_fold advance_join_transactions)
  with t4 show ?thesis
    unfolding delegation_tick_def Let_def using transactions_trans by blast
qed

end
