(* ===== verification/Delegation_Policy.thy ===== *)
theory Delegation_Policy
  imports Complex_Main Delegation_Domain "HOL-Library.Product_Lexorder"
begin

text \<open>
  Admission of a delegation: the pure policy (\<open>app/domain/delegation_policy.py\<close>) and the
  normalization and fingerprint of a request (\<open>app/application/delegation_request_parser.py\<close>).
  A frozen set is a list of which only the members matter. The remaining time of the parent, a
  \<open>float\<close>, is a rational. SHA-256 of the canonical JSON of the request is the parameter \<open>digest\<close>,
  and \<open>json.loads\<close> the parameter \<open>loads\<close> of the decoder; its result keeps repeated keys.
\<close>

section \<open>The policy\<close>

definition FORBIDDEN_CHILD_TOOLS :: "string list" where
  "FORBIDDEN_CHILD_TOOLS =
     [''delegate_agents'', ''create_task'', ''list_tasks'', ''approve_task'', ''reject_task'', ''revise_task'',
      ''task_show'', ''task_complete'', ''task_heartbeat'', ''task_propose_change'', ''task_fail'',
      ''manage_schedule'', ''schedule_query'', ''skill_manage'', ''manage_plugin'']"

record DelegationPolicyRequest =
  dp_parent :: DelegationParentRef
  dp_has_capability :: bool
  dp_children :: "DelegationChildSpec list"
  dp_join_policy :: DelegationJoinPolicy
  dp_aggregation :: DelegationAggregationPolicy
  dp_depth :: int
  dp_parent_allowed_tools :: "string list"
  dp_system_child_allowlist :: "string list"
  dp_max_children :: int
  dp_max_runtime_seconds :: "int option"
  dp_member_max_runtime_seconds :: "int option"
  dp_max_total_tokens :: "int option"
  dp_max_tokens_per_child :: "int option"
  dp_timeout_seconds :: "int option"
  dp_parent_deadline :: "rat option"
  dp_aggregator_spec :: "DelegationChildSpec option"
  dp_classification :: "string option"

definition validate_spec :: "DelegationChildSpec \<Rightarrow> DelegationPolicyRequest \<Rightarrow> bool" where
  "validate_spec spec r =
     (if length (cs_title spec) > 200 then False
      else if py_strip (cs_instruction spec) = [] then False
      else if length (cs_instruction spec) > 8000 then False
      else if length (cs_skills spec) > 20 then False
      else if (case cs_output_schema spec of None \<Rightarrow> False | Some t \<Rightarrow> length t > 16384) then False
      else if (case cs_max_runtime_seconds spec of None \<Rightarrow> False | Some n \<Rightarrow> n \<le> 0) then False
      else if cs_budget_tokens spec < 0 then False
      else if (case dp_max_tokens_per_child r of None \<Rightarrow> False | Some n \<Rightarrow> cs_budget_tokens spec > n) then False
      else if (case (dp_member_max_runtime_seconds r, cs_max_runtime_seconds spec) of
                 (Some cap, Some n) \<Rightarrow> n > cap | _ \<Rightarrow> False) then False
      else True)"

definition normalize_spec ::
  "DelegationChildSpec \<Rightarrow> string \<times> string \<times> string list \<times> string list \<times> string option" where
  "normalize_spec spec =
     (py_lower (py_strip (cs_title spec)), py_strip (cs_instruction spec), sort (cs_skills spec),
      sort (cs_allowed_tools spec), cs_model_override spec)"

definition requested_tokens :: "DelegationPolicyRequest \<Rightarrow> int" where
  "requested_tokens r =
     sum_list (map cs_budget_tokens (dp_children r)) +
     (case (dp_aggregation r, dp_aggregator_spec r) of (AGENT, Some a) \<Rightarrow> cs_budget_tokens a | _ \<Rightarrow> 0)"

definition validate_budget_runtime :: "DelegationPolicyRequest \<Rightarrow> bool" where
  "validate_budget_runtime r =
     (if (case dp_max_runtime_seconds r of None \<Rightarrow> False | Some n \<Rightarrow> n \<le> 0) then False
      else if (case dp_member_max_runtime_seconds r of None \<Rightarrow> False | Some n \<Rightarrow> n \<le> 0) then False
      else (case dp_max_total_tokens r of None \<Rightarrow> True | Some cap \<Rightarrow> \<not> requested_tokens r > cap))"

definition validate_timeout :: "DelegationPolicyRequest \<Rightarrow> bool" where
  "validate_timeout r =
     (case dp_timeout_seconds r of
        None \<Rightarrow> True
      | Some n \<Rightarrow>
          if n \<le> 0 then False
          else if (case dp_parent_deadline r of None \<Rightarrow> False | Some t \<Rightarrow> of_int n > t) then False
          else if pr_source (dp_parent r) = ''realtime'' \<and> n > 300 then False
          else if pr_source (dp_parent r) = ''task'' \<and> n > 3600 then False
          else (case dp_max_runtime_seconds r of None \<Rightarrow> True | Some cap \<Rightarrow> \<not> n > cap))"

definition tools_granted :: "DelegationPolicyRequest \<Rightarrow> DelegationChildSpec \<Rightarrow> bool" where
  "tools_granted r spec \<longleftrightarrow>
     list_all (\<lambda>t. t \<in> set (dp_parent_allowed_tools r) \<and> t \<in> set (dp_system_child_allowlist r))
       (cs_allowed_tools spec)"

definition has_forbidden :: "string list \<Rightarrow> bool" where
  "has_forbidden tools \<longleftrightarrow> list_ex (\<lambda>t. t \<in> set FORBIDDEN_CHILD_TOOLS) tools"

definition validate_aggregator :: "DelegationPolicyRequest \<Rightarrow> bool" where
  "validate_aggregator r =
     (if dp_aggregation r = AGENT then
        (case dp_aggregator_spec r of
           None \<Rightarrow> False
         | Some agg \<Rightarrow>
             validate_spec agg r \<and> \<not> has_forbidden (cs_allowed_tools agg) \<and> tools_granted r agg \<and>
             \<not> list_ex (\<lambda>c. normalize_spec c = normalize_spec agg) (dp_children r))
      else True)"

definition DelegationPolicy_evaluate :: "DelegationPolicyRequest \<Rightarrow> PolicyOutcome" where
  "DelegationPolicy_evaluate r =
     (if \<not> dp_has_capability r then DENY
      else if dp_depth r \<noteq> 1 then DENY
      else if length (dp_children r) < 1 \<or> int (length (dp_children r)) > dp_max_children r then DENY
      else if has_forbidden (dp_parent_allowed_tools r) then DENY
      else if list_ex (\<lambda>c. has_forbidden (cs_allowed_tools c)) (dp_children r) then DENY
      else if \<not> list_all (tools_granted r) (dp_children r) then DENY
      else if \<not> list_all (\<lambda>c. validate_spec c r) (dp_children r) then DENY
      else if \<not> distinct (map normalize_spec (dp_children r)) then DENY
      else if \<not> validate_budget_runtime r then DENY
      else if \<not> validate_timeout r then DENY
      else if \<not> validate_aggregator r then DENY
      else ALLOW)"

section \<open>The request parser\<close>

text \<open>\<open>DelegationError\<close> carries a stable code; the codes the parser and the service raise.\<close>

datatype DelegationError = DelegationError string

definition delegation_invalid :: DelegationError where
  "delegation_invalid = DelegationError ''delegation_invalid''"

definition normalize_key :: "string \<Rightarrow> DelegationError + string" where
  "normalize_key key =
     (let n = py_lower (py_strip (nfc key)) in if n = [] then Inl delegation_invalid else Inr n)"

definition normalize_spec_key ::
  "DelegationChildSpec \<Rightarrow> string \<Rightarrow> string \<Rightarrow> string \<times> string \<times> string list \<times> string list \<times> string option" where
  "normalize_spec_key spec title instr =
     (py_lower title, instr, sort (cs_skills spec), sort (cs_allowed_tools spec), cs_model_override spec)"

fun normalize_loop ::
  "(string \<times> string \<times> string list \<times> string list \<times> string option) list \<Rightarrow> DelegationChildSpec list
     \<Rightarrow> DelegationError + DelegationChildSpec list" where
  "normalize_loop seen [] = Inr []"
| "normalize_loop seen (spec # specs) =
     (let instr = py_strip (cs_instruction spec);
          title = py_strip (nfc (cs_title spec));
          norm = normalize_spec_key spec title instr
      in if instr = [] then Inl delegation_invalid
         else if title = [] then Inl delegation_invalid
         else if norm \<in> set seen then Inl delegation_invalid
         else (case normalize_loop (norm # seen) specs of
                 Inl e \<Rightarrow> Inl e
               | Inr rest \<Rightarrow> Inr (spec\<lparr>cs_title := title, cs_instruction := instr\<rparr> # rest)))"

definition normalize_children :: "DelegationChildSpec list \<Rightarrow> DelegationError + DelegationChildSpec list" where
  "normalize_children children =
     (if children = [] then Inl delegation_invalid else normalize_loop [] children)"

text \<open>The canonical payload; \<open>json.dumps(..., sort_keys=True)\<close> of it is what is digested.\<close>

definition jopt_str :: "string option \<Rightarrow> json" where
  "jopt_str s = (case s of None \<Rightarrow> JNull | Some t \<Rightarrow> JStr t)"

definition jopt_int :: "int option \<Rightarrow> json" where
  "jopt_int n = (case n of None \<Rightarrow> JNull | Some i \<Rightarrow> JInt i)"

definition child_payload :: "DelegationChildSpec \<Rightarrow> json" where
  "child_payload c =
     JObj [(''t'', JStr (cs_title c)), (''i'', JStr (cs_instruction c)),
           (''s'', JList (map JStr (sort (cs_skills c)))), (''a'', JList (map JStr (sort (cs_allowed_tools c)))),
           (''m'', jopt_str (cs_model_override c)), (''r'', jopt_int (cs_max_runtime_seconds c)),
           (''b'', JInt (cs_budget_tokens c))]"

definition request_payload ::
  "string \<Rightarrow> DelegationChildSpec list \<Rightarrow> string \<Rightarrow> string \<Rightarrow> int option \<Rightarrow> string option \<Rightarrow> json" where
  "request_payload key children join aggregation timeout agg_instr =
     JObj [(''k'', JStr key), (''c'', JList (map child_payload children)), (''j'', JStr join),
           (''g'', JStr aggregation), (''t'', jopt_int timeout),
           (''ai'', if truthy agg_instr then JStr (py_strip (the agg_instr)) else JNull)]"

definition fingerprint ::
  "(json \<Rightarrow> string) \<Rightarrow> string \<Rightarrow> DelegationChildSpec list \<Rightarrow> string \<Rightarrow> string \<Rightarrow> int option \<Rightarrow> string option
     \<Rightarrow> DelegationError + string" where
  "fingerprint digest key children join aggregation timeout agg_instr =
     (case normalize_key key of
        Inl e \<Rightarrow> Inl e
      | Inr k \<Rightarrow>
        (case normalize_children children of
           Inl e \<Rightarrow> Inl e
         | Inr cs \<Rightarrow> Inr (digest (request_payload k cs join aggregation timeout agg_instr))))"

section \<open>Strict decoding\<close>

fun check_depth :: "nat \<Rightarrow> json \<Rightarrow> bool" where
  "check_depth 0 node = False"
| "check_depth (Suc n) (JObj kvs) = list_all (\<lambda>(k, v). check_depth n v) kvs"
| "check_depth (Suc n) (JList xs) = list_all (check_depth n) xs"
| "check_depth (Suc n) _ = True"

fun unique_keys :: "json \<Rightarrow> bool" where
  "unique_keys (JObj kvs) = (distinct (map fst kvs) \<and> list_all (\<lambda>(k, v). unique_keys v) kvs)"
| "unique_keys (JList xs) = list_all unique_keys xs"
| "unique_keys _ = True"

definition utf8_length :: "string \<Rightarrow> nat" where
  "utf8_length s = sum_list (map (\<lambda>c. if of_char c < (128 :: nat) then 1 else 2) s)"

definition decode_arguments ::
  "(string \<Rightarrow> json option) \<Rightarrow> string option \<Rightarrow> DelegationError + (string \<times> json) list" where
  "decode_arguments loads raw =
     (case raw of
        None \<Rightarrow> Inr []
      | Some text \<Rightarrow>
          (let stripped = py_strip text in
           if stripped = [] then Inr []
           else if utf8_length stripped > 1048576 then Inl delegation_invalid
           else case loads stripped of
                  None \<Rightarrow> Inl delegation_invalid
                | Some data \<Rightarrow>
                    if \<not> unique_keys data \<or> \<not> check_depth 64 data then Inl delegation_invalid
                    else (case data of JObj kvs \<Rightarrow> Inr kvs | _ \<Rightarrow> Inl delegation_invalid)))"

end
