(* ===== verification/Child_Agent.thy ===== *)
theory Child_Agent
  imports Delegation_Run Delegation_Policy Information_Flow
begin

text \<open>
  The child agent executor (\<open>app/application/child_agent_executor.py\<close>): it builds the isolated chat
  request of a member, calls the chat service and reads a \<open>DelegationResult\<close> from the answer. The
  chat service is a parameter, as are \<open>json.loads\<close>, \<open>json.dumps\<close>, the ISO text of a time and
  the identifier of the run; a number of the usage report is a rational.
\<close>

section \<open>The request\<close>

record ChatCompletionInput =
  ci_model :: string
  ci_messages :: "(string \<times> string) list"
  ci_stream :: bool
  ci_session_id :: string
  ci_session_title :: string
  ci_persist_messages :: bool
  ci_parent_run_id :: "string option"
  ci_delegation_member_id :: string
  ci_execution_kind :: string
  ci_ingress_run_id :: string
  ci_ingress_session_id :: string
  ci_ingress_source :: string
  ci_ingress_actor_id :: "string option"
  ci_ingress_mode :: ExecutionMode
  ci_ingress_claims :: json
  ci_granted_tools :: "string list"
  ci_trusted_delegation :: json

record ChatCompletionResult =
  cr_finish_reason :: string
  cr_content :: "string option"
  cr_usage :: "(string \<times> rat option) list"

datatype chat_outcome = ChatReturned ChatCompletionResult | ChatRunCancelled | ChatAsyncCancelled | ChatFailed

fun DelegationMemberRole_value :: "DelegationMemberRole \<Rightarrow> string" where
  "DelegationMemberRole_value WORKER = ''worker''"
| "DelegationMemberRole_value AGGREGATOR = ''aggregator''"

text \<open>The module's own table of forbidden tools lists the same names as the policy's.\<close>

definition strip_forbidden :: "string list \<Rightarrow> string list" where
  "strip_forbidden tools = filter (\<lambda>t. t \<notin> set FORBIDDEN_CHILD_TOOLS) tools"

fun join_text :: "string \<Rightarrow> string list \<Rightarrow> string" where
  "join_text sep [] = []"
| "join_text sep [x] = x"
| "join_text sep (x # y # xs) = x @ sep @ join_text sep (y # xs)"

definition build_child_prompt :: "(datetime \<Rightarrow> string) \<Rightarrow> DelegationMember \<Rightarrow> datetime option \<Rightarrow> (string \<times> string) list" where
  "build_child_prompt isotext m deadline =
     (let label = (if m_role m = AGGREGATOR then ''aggregator'' else ''worker'');
          system = ''You are a delegated '' @ label @ '' agent. '' @
            ''Execute your assigned instruction and return a concise result. '' @
            ''Output protocol: respond with a clear summary of your work. '' @
            ''If you produce structured data, format it as JSON. '' @
            ''Do not invoke delegation, task management, or approval tools.'';
          parts = (if m_title m \<noteq> [] then [''Title: '' @ m_title m] else []) @
            [''Task: '' @ m_instruction m] @
            (case deadline of None \<Rightarrow> [] | Some t \<Rightarrow> [''Deadline: '' @ isotext t]) @
            (if m_budget_tokens m > 0 then [''Budget: '' @ int_text (m_budget_tokens m) @ '' tokens''] else []) @
            (if m_allowed_tools m \<noteq> [] then [''Allowed tools: '' @ join_text '', '' (m_allowed_tools m)] else [])
      in [(''system'', system), (''user'', join_text [CHR 0x0A] parts)])"

definition child_session :: "DelegationMember \<Rightarrow> string" where
  "child_session m = (if m_execution_session_id m \<noteq> [] then m_execution_session_id m else ''delegation-'' @ m_id m)"

definition ingress_claims :: "ParentCapability \<Rightarrow> string list \<Rightarrow> string \<Rightarrow> string \<Rightarrow> json" where
  "ingress_claims cap tools did mid =
     JObj [(''parent_source'', JStr (pc_source cap)), (''parent_scope_id'', JStr (pc_scope_id cap)),
           (''parent_session_id'', JStr (pc_session_id cap)), (''parent_run_id'', JStr (pc_run_id cap)),
           (''granted_tools'', JList (map JStr tools)),
           (''delegation'', JObj [(''delegation_id'', JStr did), (''member_id'', JStr mid)])]"

definition child_request ::
  "(datetime \<Rightarrow> string) \<Rightarrow> string \<Rightarrow> DelegationMember \<Rightarrow> string \<Rightarrow> ParentCapability \<Rightarrow> datetime option \<Rightarrow> string option
     \<Rightarrow> ChatCompletionInput" where
  "child_request isotext run_hex m model cap deadline parent_run =
     (let granted = strip_forbidden (m_allowed_tools m) in
      \<lparr>ci_model = model, ci_messages = build_child_prompt isotext m deadline, ci_stream = False,
       ci_session_id = child_session m, ci_session_title = m_title m, ci_persist_messages = False,
       ci_parent_run_id = parent_run, ci_delegation_member_id = m_id m,
       ci_execution_kind = ''delegation_'' @ DelegationMemberRole_value (m_role m),
       ci_ingress_run_id = ''delegation-run-'' @ run_hex, ci_ingress_session_id = child_session m,
       ci_ingress_source = ''delegation'', ci_ingress_actor_id = pc_actor_id cap, ci_ingress_mode = UNATTENDED,
       ci_ingress_claims = ingress_claims cap granted (m_delegation_id m) (m_id m),
       ci_granted_tools = granted,
       ci_trusted_delegation =
         JObj [(''delegation_id'', JStr (m_delegation_id m)), (''member_id'', JStr (m_id m)),
               (''role'', JStr (DelegationMemberRole_value (m_role m))), (''ordinal'', JInt (m_ordinal m)),
               (''deadline_at'', case deadline of None \<Rightarrow> JNull | Some t \<Rightarrow> JStr (isotext t)),
               (''budget_tokens'', JInt (m_budget_tokens m))]\<rparr>)"

section \<open>The result\<close>

definition redact_json_with :: "(string \<Rightarrow> json option) \<Rightarrow> (json \<Rightarrow> string) \<Rightarrow> (json \<Rightarrow> json) \<Rightarrow> string \<Rightarrow> string" where
  "redact_json_with loads dumps redact summary =
     (case loads summary of
        None \<Rightarrow> summary
      | Some data \<Rightarrow>
          (case data of
             JObj _ \<Rightarrow> dumps (redact data)
           | JList _ \<Rightarrow> dumps (redact data)
           | _ \<Rightarrow> summary))"

definition no_secrets :: SecretCatalog where
  "no_secrets = \<lparr>sc_secret_values = [], sc_credential_field_names = DEFAULT_CREDENTIAL_FIELD_NAMES\<rparr>"

text \<open>\<open>int(val)\<close> of a number truncates towards zero.\<close>

definition trunc :: "rat \<Rightarrow> int" where
  "trunc x = (if x < 0 then \<lceil>x\<rceil> else \<lfloor>x\<rfloor>)"

definition usage_summary :: "(string \<times> rat option) list \<Rightarrow> (string \<times> int) list" where
  "usage_summary usage =
     List.map_filter (\<lambda>key. map_option (\<lambda>v. (key, trunc v)) (Option.bind (map_of usage key) id))
       [''total_tokens'', ''prompt_tokens'', ''completion_tokens'']"

definition child_failure :: "datetime \<Rightarrow> datetime \<Rightarrow> DelegationResult" where
  "child_failure started ended =
     (DelegationResult_new DelegationMemberStatus.FAILED)
       \<lparr>re_error_code := Some ''delegation_child_execution_error'',
        re_error_message := Some ''child agent execution failed'',
        re_started_at := Some started, re_ended_at := Some ended\<rparr>"

definition parse_result ::
  "(string \<Rightarrow> json option) \<Rightarrow> (json \<Rightarrow> string) \<Rightarrow> ChatCompletionResult \<Rightarrow> datetime \<Rightarrow> datetime \<Rightarrow> DelegationResult" where
  "parse_result loads dumps res started ended =
     (if cr_finish_reason res = ''error'' then child_failure started ended
      else
        (let content = (case cr_content res of None \<Rightarrow> [] | Some t \<Rightarrow> t);
             summary = redact_json_with loads dumps (redact_structured no_secrets) content
         in (DelegationResult_new
               (if summary \<noteq> [] then DelegationMemberStatus.SUCCEEDED else DelegationMemberStatus.FAILED))
              \<lparr>re_summary := summary, re_usage_summary := usage_summary (cr_usage res),
               re_started_at := Some started, re_ended_at := Some ended\<rparr>))"

definition child_execute ::
  "(datetime \<Rightarrow> string) \<Rightarrow> (string \<Rightarrow> json option) \<Rightarrow> (json \<Rightarrow> string) \<Rightarrow> (DelegationMember \<Rightarrow> string) \<Rightarrow> datetime
     \<Rightarrow> (ChatCompletionInput \<Rightarrow> chat_outcome \<times> datetime) \<Rightarrow> child_executor" where
  "child_execute isotext loads dumps run_hex started chat m model cap deadline parent_run =
     (let (out, ended) = chat (child_request isotext (run_hex m) m model cap deadline parent_run)
      in (case out of
            ChatReturned res \<Rightarrow> Returned (parse_result loads dumps res started ended)
          | ChatRunCancelled \<Rightarrow> RunCancelledError
          | ChatAsyncCancelled \<Rightarrow> AsyncCancelledError
          | ChatFailed \<Rightarrow> Returned (child_failure started ended), ended))"

lemma parse_result_status:
  "re_status (parse_result loads dumps res started ended) \<in> {DelegationMemberStatus.SUCCEEDED, DelegationMemberStatus.FAILED}"
  by (simp add: parse_result_def child_failure_def DelegationResult_new_def Let_def)

text \<open>The executor keeps the contract that the run service relies on.\<close>

lemma child_execute_terminal: "terminal_executor (child_execute isotext loads dumps run_hex started chat)"
  using parse_result_status [of loads dumps _ started]
  by (auto simp: terminal_executor_def child_execute_def Let_def DELEGATION_MEMBER_TERMINAL_STATES_def child_failure_def
      DelegationResult_new_def split: prod.splits chat_outcome.splits)

lemma strip_forbidden_none: "\<not> has_forbidden (strip_forbidden tools)"
  by (auto simp: has_forbidden_def strip_forbidden_def list_ex_iff)

end
