(* ===== verification/Delegation_Service.thy ===== *)
theory Delegation_Service
  imports Child_Agent Budget
begin

text \<open>
  The delegation facade (\<open>app/application/delegation_service.py\<close>): from a parent's request to the
  filtered result set. It composes the request parser, the policy, the parent's budget, the registry,
  the run service and information flow. Its state is the registry's database, the budget service when
  one is configured, and the run service. New identifiers, the clocks, the digests and the JSON codec are
  arguments; the trace context is part of the request.
\<close>

section \<open>Requests\<close>

text \<open>A \<open>ValueError\<close> of an enumeration is raised past the handlers; everything else is a
  \<open>DelegationError\<close> with its code.\<close>

datatype delegate_raise = DRaise DelegationError | DValueError

definition draise :: "string \<Rightarrow> delegate_raise" where
  "draise code = DRaise (DelegationError code)"

definition parse_join_policy :: "string \<Rightarrow> DelegationJoinPolicy option" where
  "parse_join_policy s =
     (if s = ''all_completed'' then Some ALL_COMPLETED
      else if s = ''all_succeeded'' then Some ALL_SUCCEEDED
      else if s = ''best_effort'' then Some BEST_EFFORT else None)"

definition parse_aggregation :: "string \<Rightarrow> DelegationAggregationPolicy option" where
  "parse_aggregation s = (if s = ''parent'' then Some DelegationAggregationPolicy.PARENT
     else if s = ''agent'' then Some AGENT else None)"

record DelegateRequest =
  dr_delegation_key :: string
  dr_children :: "DelegationChildSpec list"
  dr_join_policy :: string
  dr_aggregation :: string
  dr_timeout_seconds :: int
  dr_aggregator_instruction :: "string option"

record 'f delegation_world =
  dw_db :: delegation_db
  dw_budget :: "'f BudgetService option"
  dw_run :: DelegationRunService

definition check_feature_flags :: "DelegationPolicyConfig \<Rightarrow> ParentCapability \<Rightarrow> delegate_raise option" where
  "check_feature_flags cfg cap =
     (if \<not> cf_enabled cfg then Some (draise ''delegation_disabled'')
      else if pc_source cap = ''realtime'' \<and> \<not> cf_realtime_enabled cfg then Some (draise ''delegation_disabled'')
      else if pc_source cap = ''task'' \<and> \<not> cf_task_enabled cfg then Some (draise ''delegation_disabled'')
      else None)"

definition build_parent_ref :: "ParentCapability \<Rightarrow> DelegationParentRef" where
  "build_parent_ref cap =
     \<lparr>pr_source = pc_source cap, pr_scope_id = pc_scope_id cap, pr_run_id = pc_run_id cap,
      pr_session_id = pc_session_id cap\<rparr>"

definition build_policy_request ::
  "DelegationPolicyConfig \<Rightarrow> ParentCapability \<Rightarrow> DelegationChildSpec list \<Rightarrow> DelegationJoinPolicy
     \<Rightarrow> DelegationAggregationPolicy \<Rightarrow> int \<Rightarrow> string option \<Rightarrow> DelegationPolicyRequest" where
  "build_policy_request cfg cap children join aggregation timeout agg_instr =
     \<lparr>dp_parent = build_parent_ref cap, dp_has_capability = pc_has_capability cap, dp_children = children,
      dp_join_policy = join, dp_aggregation = aggregation, dp_depth = 1,
      dp_parent_allowed_tools = pc_parent_allowed_tools cap,
      dp_system_child_allowlist = pc_system_child_allowlist cap,
      dp_max_children = cf_max_children cfg, dp_max_runtime_seconds = Some (cf_max_runtime_seconds cfg),
      dp_member_max_runtime_seconds = Some (cf_member_max_runtime_seconds cfg),
      dp_max_total_tokens = Some (cf_max_total_tokens cfg),
      dp_max_tokens_per_child = Some (cf_max_tokens_per_child cfg),
      dp_timeout_seconds = Some timeout, dp_parent_deadline = pc_parent_deadline cap,
      dp_aggregator_spec =
        (if aggregation = AGENT \<and> truthy agg_instr
         then Some \<lparr>cs_title = ''aggregator'', cs_instruction = py_strip (the agg_instr), cs_skills = [],
                    cs_allowed_tools = [], cs_model_override = None, cs_max_runtime_seconds = None,
                    cs_budget_tokens = 0, cs_output_schema = None\<rparr>
         else None),
      dp_classification = Some (pc_classification cap)\<rparr>"

section \<open>The parent's budget\<close>

definition total_budget :: "DelegationChildSpec list \<Rightarrow> int" where
  "total_budget children = max (sum_list (map cs_budget_tokens children)) 0"

definition reserve_parent_budget ::
  "'f::{linorder,plus,minus,zero} \<Rightarrow> ParentCapability \<Rightarrow> DelegationChildSpec list \<Rightarrow> 'f BudgetService option
     \<Rightarrow> 'f BudgetService option \<times> (delegate_raise + 'f BudgetReservationDecision option)" where
  "reserve_parent_budget tick cap children budget =
     (case budget of
        None \<Rightarrow> (None, Inr None)
      | Some sv \<Rightarrow>
          if total_budget children \<le> 0 then (Some sv, Inr None)
          else
            (let (sv1, d) = budget_reserve tick (pc_run_id cap)
                   \<lparr>bq_kind = LLM_CALL, bq_estimated_tokens = total_budget children, bq_estimated_usd_cost = 0,
                    bq_estimated_duration_seconds = 0, bq_sandbox_spec = None\<rparr> sv
             in if bd_outcome d \<noteq> ALLOW then (Some sv1, Inl (draise ''delegation_budget_exceeded''))
                else (Some sv1, Inr (Some d))))"

definition release_parent_budget ::
  "ParentCapability \<Rightarrow> 'f::{linorder,plus,minus,zero} BudgetReservationDecision option \<Rightarrow> 'f BudgetService option
     \<Rightarrow> 'f BudgetService option" where
  "release_parent_budget cap reservation budget =
     (case (budget, reservation) of
        (Some sv, Some d) \<Rightarrow> Some (budget_release (pc_run_id cap) d sv)
      | _ \<Rightarrow> budget)"

section \<open>Snapshot, deadline and members\<close>

definition build_snapshot :: "(json \<Rightarrow> string) \<Rightarrow> DelegationPolicyConfig \<Rightarrow> PolicySnapshotRecord" where
  "build_snapshot digest cfg =
     (let fields = [(''max_children'', JInt (cf_max_children cfg)),
                    (''max_runtime_seconds'', JInt (cf_max_runtime_seconds cfg)),
                    (''max_total_tokens'', JInt (cf_max_total_tokens cfg))];
          parent = JObj fields; child = JObj (fields @ [(''delegation_enabled'', JBool False)])
      in \<lparr>ps_profile_version = ''system-v1'', ps_parent_config = parent, ps_child_config = child,
          ps_aggregator_config = None, ps_checksum = digest (JObj [(''p'', parent), (''c'', child)])\<rparr>)"

text \<open>\<open>timedelta(seconds=x)\<close> of a float: the nearest number of microseconds, ties to even.\<close>

definition round_half_even :: "rat \<Rightarrow> int" where
  "round_half_even x =
     (let f = \<lfloor>x\<rfloor>; r = x - of_int f
      in if r < 1 / 2 then f else if r > 1 / 2 then f + 1 else if even f then f else f + 1)"

definition compute_deadline :: "datetime \<Rightarrow> ParentCapability \<Rightarrow> int \<Rightarrow> datetime" where
  "compute_deadline now cap timeout =
     (let deadline = now + timedelta_seconds timeout in
      case pc_parent_deadline cap of
        Some x \<Rightarrow>
          if x > 0 \<and> now + round_half_even (x * 1000000) < deadline then now + round_half_even (x * 1000000) else deadline
      | None \<Rightarrow> deadline)"

text \<open>\<open>ids i\<close> are the member and session identifiers of the \<open>i\<close>-th member.\<close>

definition build_members ::
  "(nat \<Rightarrow> string \<times> string) \<Rightarrow> DelegationPolicyConfig \<Rightarrow> DelegationChildSpec list \<Rightarrow> datetime \<Rightarrow> DelegationAggregationPolicy
     \<Rightarrow> string option \<Rightarrow> DelegationMember list" where
  "build_members ids cfg children deadline aggregation agg_instr =
     map (\<lambda>(i, c). DelegationMember_new (fst (ids i)) [] WORKER (int i) (cs_title c) (cs_instruction c) (cs_skills c)
            (cs_allowed_tools c) (''delegation-'' @ snd (ids i)) (Some deadline) (cs_budget_tokens c)
            (cs_model_override c) (cs_max_runtime_seconds c)) (enumerate 0 children) @
     (if aggregation = AGENT \<and> truthy agg_instr
      then [DelegationMember_new (fst (ids (length children))) [] AGGREGATOR (int (length children)) ''aggregator''
              (py_strip (the agg_instr)) [] [] (''delegation-'' @ snd (ids (length children))) (Some deadline) 0 None
              (Some (cf_member_max_runtime_seconds cfg))]
      else [])"

section \<open>Driving a delegation\<close>

text \<open>\<open>tick_at i\<close> is the time of the \<open>i\<close>-th tick before the end of the loop.\<close>

fun drive_to_terminal ::
  "nat \<Rightarrow> child_executor \<Rightarrow> (nat \<Rightarrow> datetime) \<Rightarrow> DelegationRunService \<Rightarrow> string \<Rightarrow> delegation_db
     \<Rightarrow> delegation_db \<times> delegate_raise option" where
  "drive_to_terminal 0 exec tick_at s did db = (db, Some (draise ''delegation_timeout''))"
| "drive_to_terminal (Suc n) exec tick_at s did db =
     (case dg_get_sync did db of
        None \<Rightarrow> (db, Some (draise ''deletion_missing''))
      | Some d \<Rightarrow>
          if Delegation_is_terminal d then (db, None)
          else drive_to_terminal n exec tick_at s did (delegation_tick exec (\<lambda>_. rs_kill_switch s) (tick_at n) s db))"

definition MAX_TICKS :: nat where
  "MAX_TICKS = 200"

section \<open>Filtering\<close>

definition classification_of :: "ParentCapability \<Rightarrow> Classification" where
  "classification_of cap =
     (if pc_classification cap = ''public'' then PUBLIC
      else if pc_classification cap = ''internal'' then INTERNAL
      else if pc_classification cap = ''sensitive'' then SENSITIVE
      else if pc_classification cap = ''secret'' then SECRET else INTERNAL)"

definition filter_result ::
  "(string \<Rightarrow> json option) \<Rightarrow> (json \<Rightarrow> string) \<Rightarrow> InformationFlowService \<Rightarrow> Classification \<Rightarrow> DelegationResult \<Rightarrow> DelegationResult" where
  "filter_result loads dumps flow cls r =
     (let summary = redact_json_with loads dumps (if_redact_structured flow) (re_summary r);
          released = if_release flow summary ReleaseTarget.PARENT cls ''delegation_result'' []
      in r\<lparr>re_summary := (if rl_allowed released
                          then (case rl_content released of Some t \<Rightarrow> t | None \<Rightarrow> summary)
                          else ''[filtered]'')\<rparr>)"

definition filter_result_set ::
  "(string \<Rightarrow> json option) \<Rightarrow> (json \<Rightarrow> string) \<Rightarrow> InformationFlowService \<Rightarrow> ParentCapability \<Rightarrow> DelegationResultSet
     \<Rightarrow> DelegationResultSet" where
  "filter_result_set loads dumps flow cap rs =
     (let f = filter_result loads dumps flow (classification_of cap)
      in rs\<lparr>rt_member_results := map f (rt_member_results rs),
            rt_aggregation_result := map_option f (rt_aggregation_result rs)\<rparr>)"

section \<open>Delegate\<close>

text \<open>What the service is given by its environment for one call.\<close>

record 'f delegate_env =
  en_exec :: child_executor
  en_flow :: InformationFlowService
  en_config :: DelegationPolicyConfig
  en_loads :: "string \<Rightarrow> json option"
  en_dumps :: "json \<Rightarrow> string"
  en_digest :: "json \<Rightarrow> string"
  en_now :: datetime
  en_mono :: 'f
  en_tick_at :: "nat \<Rightarrow> datetime"
  en_new_id :: string
  en_member_ids :: "nat \<Rightarrow> string \<times> string"
  en_current_run :: "string option"
  en_trace :: json

definition create_request ::
  "'f delegate_env \<Rightarrow> ParentCapability \<Rightarrow> DelegateRequest \<Rightarrow> string \<Rightarrow> DelegationChildSpec list \<Rightarrow> string \<Rightarrow> DelegationJoinPolicy
     \<Rightarrow> DelegationAggregationPolicy \<Rightarrow> DelegationCreateRequest" where
  "create_request env cap rq key children fp join aggregation =
     (let deadline = compute_deadline (en_now env) cap (dr_timeout_seconds rq) in
      \<lparr>dc_parent = build_parent_ref cap, dc_delegation_key = key, dc_fingerprint = fp, dc_join_policy = join,
       dc_aggregation = aggregation, dc_deadline_at = Some deadline, dc_budget_total_tokens = total_budget children,
       dc_members = build_members (en_member_ids env) (en_config env) children deadline aggregation
                      (dr_aggregator_instruction rq),
       dc_snapshot = build_snapshot (en_digest env) (en_config env), dc_trace_context = en_trace env,
       dc_canonical_parent_run_id =
         (case en_current_run env of None \<Rightarrow> None | Some r \<Rightarrow> if r = pc_run_id cap then Some r else None)\<rparr>)"

text \<open>Steps 1 to 3: what is admitted, before anything is reserved or stored.\<close>

definition admit ::
  "'f delegate_env \<Rightarrow> ParentCapability \<Rightarrow> DelegateRequest
     \<Rightarrow> delegate_raise + (string \<times> DelegationChildSpec list \<times> string \<times> DelegationJoinPolicy \<times> DelegationAggregationPolicy)" where
  "admit env cap rq =
     (case check_feature_flags (en_config env) cap of
        Some e \<Rightarrow> Inl e
      | None \<Rightarrow>
          if \<not> pc_has_capability cap then Inl (draise ''delegation_not_authorized'')
          else case normalize_key (dr_delegation_key rq) of
            Inl e \<Rightarrow> Inl (DRaise e)
          | Inr key \<Rightarrow>
              (case normalize_children (dr_children rq) of
                 Inl e \<Rightarrow> Inl (DRaise e)
               | Inr children \<Rightarrow>
                   (case fingerprint (en_digest env) (dr_delegation_key rq) children (dr_join_policy rq)
                           (dr_aggregation rq) (Some (dr_timeout_seconds rq)) (dr_aggregator_instruction rq) of
                      Inl e \<Rightarrow> Inl (DRaise e)
                    | Inr fp \<Rightarrow>
                        (case (parse_join_policy (dr_join_policy rq), parse_aggregation (dr_aggregation rq)) of
                           (Some join, Some aggregation) \<Rightarrow>
                             if DelegationPolicy_evaluate (build_policy_request (en_config env) cap children join aggregation
                                  (dr_timeout_seconds rq) (dr_aggregator_instruction rq)) \<noteq> ALLOW
                             then Inl (draise ''delegation_invalid'')
                             else Inr (key, children, fp, join, aggregation)
                         | _ \<Rightarrow> Inl DValueError))))"

definition creation_error :: "delegation_error \<Rightarrow> delegate_raise" where
  "creation_error e =
     (if e = DelegationConflictError then draise ''delegation_conflict'' else draise ''delegation_create_failed'')"

definition delegate ::
  "'f::{linorder,plus,minus,zero} delegate_env \<Rightarrow> ParentCapability \<Rightarrow> DelegateRequest \<Rightarrow> 'f delegation_world
     \<Rightarrow> 'f delegation_world \<times> (delegate_raise + DelegationResultSet)" where
  "delegate env cap rq w =
     (case admit env cap rq of
        Inl e \<Rightarrow> (w, Inl e)
      | Inr (key, children, fp, join, aggregation) \<Rightarrow>
          (let (budget1, res) = reserve_parent_budget (en_mono env) cap children (dw_budget w);
               w1 = w\<lparr>dw_budget := budget1\<rparr>
           in case res of
                Inl e \<Rightarrow> (w1, Inl e)
              | Inr reservation \<Rightarrow>
                  (case create_or_reconnect_sync (en_now env) (en_new_id env)
                          (create_request env cap rq key children fp join aggregation) (dw_db w) of
                     (db1, Inl e) \<Rightarrow>
                       (w1\<lparr>dw_db := db1, dw_budget := release_parent_budget cap reservation budget1\<rparr>, Inl (creation_error e))
                   | (db1, Inr d) \<Rightarrow>
                       (let s1 = set_parent_capability (d_id d) cap (dw_run w);
                            (db2, stop) = drive_to_terminal MAX_TICKS (en_exec env) (en_tick_at env) s1 (d_id d) db1;
                            w2 = w1\<lparr>dw_db := db2, dw_run := s1\<rparr>
                        in case stop of
                             Some e \<Rightarrow> (w2, Inl e)
                           | None \<Rightarrow>
                               (case get_result_set_sync (d_id d) db2 of
                                  None \<Rightarrow> (w2, Inl (draise ''delegation_no_result''))
                                | Some rs \<Rightarrow>
                                    (w2, Inr (filter_result_set (en_loads env) (en_dumps env) (en_flow env) cap rs)))))))"

end
