(* ===== verification/Delegation_Theorems.thy ===== *)
theory Delegation_Theorems
  imports Delegation_Safety
begin

text \<open>
  The properties of the delegation registry: member claims are exclusive and fenced by the
  member's version, statuses follow the life cycles, creation is idempotent per delegation key,
  and the token ledger never promises more than the delegation has.
\<close>

section \<open>Runs that keep a delegation\<close>

text \<open>
  Deleting the parent session removes a delegation; what is said of a delegation over time is said
  of runs of transactions that keep it.
\<close>

definition kept_step :: "string \<Rightarrow> delegation_db \<Rightarrow> (string, string option \<times> int) lease_event list \<Rightarrow> delegation_db \<Rightarrow> bool" where
  "kept_step did db es db' \<longleftrightarrow> delegation_step db es db' \<and> dg_get_sync did db' \<noteq> None"

lemma dg_get_sync_SomeD: "dg_get_sync did db = Some d \<Longrightarrow> d \<in> set (dg_delegations db) \<and> d_id d = did"
  by (auto simp: dg_get_sync_def dest: fetchone_SomeD)

lemma dg_get_sync_in: "delegation_inv db \<Longrightarrow> d \<in> set (dg_delegations db) \<Longrightarrow> dg_get_sync (d_id d) db = Some d"
  by (simp add: dg_get_sync_def delegation_inv_def keyed_fetchone)

lemma kept_by_delete:
  assumes inv: "delegation_inv db" and d: "dg_get_sync did db = Some d"
    and kept: "dg_get_sync did (fst (delete_by_parent_session_sync now sid db)) \<noteq> None"
  shows "dg_get_sync did (fst (delete_by_parent_session_sync now sid db)) = Some d"
    and "\<not> gone_with sid db did"
proof -
  have key: "keyed d_id (dg_delegations db)" using inv by (simp add: delegation_inv_def)
  have g: "dg_get_sync did (fst (delete_by_parent_session_sync now sid db)) =
      (if pr_session_id (d_parent d) \<noteq> sid then Some d else None)"
    using d unfolding dg_get_sync_def delete_by_parent_session_tables
    by (simp add: keyed_fetchone_filter [OF key])
  with kept show "dg_get_sync did (fst (delete_by_parent_session_sync now sid db)) = Some d"
    by (simp split: if_splits)
  show "\<not> gone_with sid db did"
  proof
    assume "gone_with sid db did"
    then obtain x where x: "x \<in> set (dg_delegations db)" "d_id x = did" "pr_session_id (d_parent x) = sid"
      by (auto simp: gone_with_def)
    then have "x = d" using dg_get_sync_in [OF inv x(1)] d by simp
    with x g kept show False by simp
  qed
qed

lemma created_keeps:
  assumes "create_or_reconnect_sync now did' req db = (db', r)"
  shows "dg_get_sync did db = Some d \<Longrightarrow> dg_get_sync did db' = Some d"
    and "the_member k db = Some m \<Longrightarrow> the_member k db' = Some m"
  using assms
  by (cases rule: create_or_reconnect_cases; simp add: dg_get_sync_def the_member_def fetchone_append)+

lemma kept_step_delegation:
  assumes inv: "delegation_inv db" and step: "kept_step did db es db'" and d: "dg_get_sync did db = Some d"
  shows "\<exists>d'. dg_get_sync did db' = Some d' \<and> delegation_moves d d'"
proof -
  from step have s: "delegation_step db es db'" and kept: "dg_get_sync did db' \<noteq> None"
    by (simp_all add: kept_step_def)
  from delegation_step_kind [OF s inv] show ?thesis
  proof (elim disjE exE)
    assume "legal_rewrite db db'"
    from legal_rewrite_delegation [OF this, of did] d show ?thesis
      by (auto simp: option_rel_Some1)
  next
    fix now did' req r assume "create_or_reconnect_sync now did' req db = (db', r)"
    with created_keeps(1) d show ?thesis by fastforce
  next
    fix now sid assume "db' = fst (delete_by_parent_session_sync now sid db)"
    with kept_by_delete(1) [OF inv d, of now sid] kept show ?thesis by auto
  qed
qed

lemma kept_step_member:
  assumes inv: "delegation_inv db" and step: "kept_step did db es db'" and d: "dg_get_sync did db = Some d"
    and m: "the_member k db = Some m" "m_delegation_id m = did"
  shows "\<exists>m'. the_member k db' = Some m' \<and> member_moves m m'"
proof -
  from step have s: "delegation_step db es db'" and kept: "dg_get_sync did db' \<noteq> None"
    by (simp_all add: kept_step_def)
  from delegation_step_kind [OF s inv] show ?thesis
  proof (elim disjE exE)
    assume "legal_rewrite db db'"
    from legal_rewrite_member [OF this, of k] m show ?thesis
      by (auto simp: option_rel_Some1)
  next
    fix now did' req r assume "create_or_reconnect_sync now did' req db = (db', r)"
    with created_keeps(2) m show ?thesis by fastforce
  next
    fix now sid assume db': "db' = fst (delete_by_parent_session_sync now sid db)"
    then have "\<not> gone_with sid db (m_delegation_id m)"
      using kept_by_delete(2) [OF inv d] kept m(2) by auto
    moreover have "keyed m_id (dg_members db)" using inv by (simp add: delegation_inv_def)
    ultimately have "the_member k db' = Some m"
      using m(1) unfolding db' the_member_def delete_by_parent_session_tables
      by (simp add: keyed_fetchone_filter)
    then show ?thesis by simp
  qed
qed

text \<open>The single steps, along a run.\<close>

definition member_reaches :: "DelegationMember \<Rightarrow> DelegationMember \<Rightarrow> bool" where
  "member_reaches m m' \<longleftrightarrow> m_id m' = m_id m \<and> slot m' = slot m \<and> mm.reaches (m_status m) (m_status m') \<and>
     m_version m \<le> m_version m' \<and> (m_version m' = m_version m \<longrightarrow> m_status m' = m_status m)"

definition delegation_reaches :: "Delegation \<Rightarrow> Delegation \<Rightarrow> bool" where
  "delegation_reaches d d' \<longleftrightarrow> d_id d' = d_id d \<and> reconnect_key d' = reconnect_key d \<and>
     d_fingerprint d' = d_fingerprint d \<and> dm.reaches (d_status d) (d_status d')"

lemma member_reaches_step:
  assumes "member_reaches m m1" and "member_moves m1 m2"
  shows "member_reaches m m2"
proof -
  have "mm.reaches (m_status m) (m_status m2)"
    using assms mm.reaches_step by (auto simp: member_reaches_def member_moves_def)
  then show ?thesis
    using assms by (auto simp: member_reaches_def member_moves_def)
qed

lemma delegation_reaches_step:
  assumes "delegation_reaches d d1" and "delegation_moves d1 d2"
  shows "delegation_reaches d d2"
proof -
  have "dm.reaches (d_status d) (d_status d2)"
    using assms dm.reaches_step by (auto simp: delegation_reaches_def delegation_moves_def)
  then show ?thesis
    using assms by (auto simp: delegation_reaches_def delegation_moves_def)
qed

lemma kept_run_inv: "lts_run (kept_step did) db es db' \<Longrightarrow> delegation_inv db \<Longrightarrow> delegation_inv db'"
  by (induction rule: lts_run.induct) (auto simp: kept_step_def intro: delegation_step_inv)

lemma kept_run_delegation:
  assumes "lts_run (kept_step did) db es db'" and "delegation_inv db" and "dg_get_sync did db = Some d"
  shows "\<exists>d'. dg_get_sync did db' = Some d' \<and> delegation_reaches d d'"
  using assms
proof (induction rule: lts_run.induct)
  case (stop s)
  then show ?case by (auto simp: delegation_reaches_def)
next
  case (more s es t es' u)
  then obtain d1 where "dg_get_sync did t = Some d1" "delegation_reaches d d1" by blast
  moreover from this(1) obtain d2 where "dg_get_sync did u = Some d2" "delegation_moves d1 d2"
    using kept_step_delegation [OF kept_run_inv [OF more(1,4)] more(2)] by blast
  ultimately show ?case using delegation_reaches_step by blast
qed

lemma kept_run_member:
  assumes "lts_run (kept_step did) db es db'" and "delegation_inv db" and "dg_get_sync did db = Some d"
    and "the_member k db = Some m" and "m_delegation_id m = did"
  shows "\<exists>m'. the_member k db' = Some m' \<and> member_reaches m m'"
  using assms
proof (induction rule: lts_run.induct)
  case (stop s)
  then show ?case by (auto simp: member_reaches_def)
next
  case (more s es t es' u)
  then obtain m1 where m1: "the_member k t = Some m1" "member_reaches m m1" by blast
  moreover obtain d1 where "dg_get_sync did t = Some d1"
    using kept_run_delegation [OF more(1,4,5)] by blast
  moreover have "m_delegation_id m1 = did"
    using m1(2) more.prems(4) by (simp add: member_reaches_def slot_def)
  ultimately obtain m2 where "the_member k u = Some m2" "member_moves m1 m2"
    using kept_step_member [OF kept_run_inv [OF more(1,4)] more(2)] by blast
  with m1(2) show ?case using member_reaches_step by blast
qed

section \<open>Fencing\<close>

lemma step_events:
  assumes "delegation_step db es db'"
  shows "(\<exists>k h. es = [Acquire k h]) \<or> (\<forall>e\<in>set es. \<exists>k h. e = Release k h)"
  using assms by induction (auto simp: releases_def)

lemma released_in_log:
  assumes "valid_log H es" and "Release k h \<in> set es" and "\<forall>e\<in>set es. \<exists>k h. e = Release k h"
  shows "H k = Some h \<and> after_log H es k = None"
proof -
  have none: "after_log G es k = None" if "G k = None" "\<forall>e\<in>set es. \<exists>k h. e = Release k h" for G es
    using that
  proof (induction es arbitrary: G)
    case (Cons e es)
    then obtain j h' where e: "e = Release j h'" by auto
    have "(G(j := None)) k = None" using Cons.prems(1) by simp
    with Cons e show ?case by (simp del: fun_upd_apply)
  qed simp
  show ?thesis
    using assms
  proof (induction es arbitrary: H)
    case (Cons e es)
    then obtain j h' where e: "e = Release j h'" by auto
    show ?case
    proof (cases "e = Release k h")
      case True
      with Cons.prems none [of "H(k := None)" es] show ?thesis by (simp del: fun_upd_apply) simp
    next
      case False
      with Cons.prems e have "Release k h \<in> set es" "valid_log (H(j := None)) es"
        by (auto simp del: fun_upd_apply)
      then have IH: "(H(j := None)) k = Some h \<and> after_log (H(j := None)) es k = None"
        using Cons.IH [of "H(j := None)"] Cons.prems(3) by (simp del: fun_upd_apply)
      then have "j \<noteq> k" by auto
      with IH e show ?thesis by (simp del: fun_upd_apply) simp
    qed
  qed simp
qed

lemma kept_step_release:
  assumes inv: "delegation_inv db" and step: "kept_step did db es db'" and rel: "Release k (l, v) \<in> set es"
    and m: "the_member k db = Some m" and m': "the_member k db' = Some m'" and mv: "member_moves m m'"
  shows "v < m_version m'"
proof -
  from step have s: "delegation_step db es db'" by (simp add: kept_step_def)
  have log: "valid_log (member_claims db) es" "member_claims db' = after_log (member_claims db) es"
    using delegation_step_log [OF s inv] by simp_all
  have "\<forall>e\<in>set es. \<exists>k h. e = Release k h"
    using step_events [OF s] rel by auto
  then have "member_claims db k = Some (l, v)" "member_claims db' k = None"
    using released_in_log [OF log(1) rel] log(2) by simp_all
  then have "m_status m = DelegationMemberStatus.RUNNING" "m_version m = v"
    and "m_status m' \<noteq> DelegationMemberStatus.RUNNING"
    using m m' by (auto simp: member_claims_def claim_of_def split: if_splits)
  with mv show ?thesis by (auto simp: member_moves_def)
qed

lemma kept_run_release:
  assumes "lts_run (kept_step did) db es db'" and "delegation_inv db" and "dg_get_sync did db = Some d"
    and "the_member k db = Some m" and "m_delegation_id m = did"
    and "Release k (l, v) \<in> set es" and "the_member k db' = Some m'"
  shows "v < m_version m'"
  using assms
proof (induction arbitrary: m' rule: lts_run.induct)
  case (stop s)
  then show ?case by simp
next
  case (more s es t es' u)
  obtain m1 where m1: "the_member k t = Some m1" "member_reaches m m1"
    using kept_run_member [OF more(1) more.prems(1-4)] by blast
  obtain d1 where d1: "dg_get_sync did t = Some d1"
    using kept_run_delegation [OF more(1) more.prems(1,2)] by blast
  have "m_delegation_id m1 = did"
    using m1(2) more.prems(4) by (simp add: member_reaches_def slot_def)
  then have mv: "member_moves m1 m'"
    using kept_step_member [OF kept_run_inv [OF more(1) more.prems(1)] more(2) d1 m1(1)] more.prems(6) by auto
  show ?case
  proof (cases "Release k (l, v) \<in> set es'")
    case True
    then show ?thesis
      using kept_step_release [OF kept_run_inv [OF more(1) more.prems(1)] more(2) _ m1(1) more.prems(6) mv] by blast
  next
    case False
    then have "v < m_version m1"
      using more.IH [OF more.prems(1-4) _ m1(1)] more.prems(5) by simp
    with mv show ?thesis by (auto simp: member_moves_def)
  qed
qed

lemma finish_needs_version:
  assumes inv: "delegation_inv db" and m: "the_member k db = Some m" and v: "m_version m \<noteq> v"
    and fin: "finish_member_sync now (m_delegation_id m) (m_ordinal m) lock res v db = (db', r)"
  shows "db' = db \<and> (\<forall>x. r = Inr x \<longrightarrow> fm_outcome x \<noteq> SUCCESS)"
  using fin
proof (cases rule: finish_member_cases)
  case same
  then show ?thesis by simp
next
  case (finished m0 d)
  have "slot m0 = slot m" "m0 \<in> set (dg_members db)"
    using fetchone_SomeD [OF finished(1)] by (auto simp: at_ordinal_def slot_def)
  then have "m0 = m"
    using inv the_member_SomeD [OF m] keyed_eqD [of slot "dg_members db" m0 m] by (simp add: delegation_inv_def)
  with finished(2) v show ?thesis by (auto simp: claim_of_def split: if_splits)
qed

section \<open>The ledger\<close>

definition open_part :: "string \<Rightarrow> LedgerRow \<Rightarrow> int" where
  "open_part did l = (if lg_delegation_id l = did \<and> lg_settled l = 0 \<and> lg_released l = 0 then lg_reserved l else 0)"

definition settled_part :: "string \<Rightarrow> LedgerRow \<Rightarrow> int" where
  "settled_part did l = (if lg_delegation_id l = did then lg_settled l else 0)"

definition ledger_sum :: "(LedgerRow \<Rightarrow> int) \<Rightarrow> delegation_db \<Rightarrow> int" where
  "ledger_sum h db = sum_list (map h (dg_ledger db))"

definition ledger_inv :: "delegation_db \<Rightarrow> bool" where
  "ledger_inv db \<longleftrightarrow>
     keyed d_id (dg_delegations db) \<and> keyed lg_reservation_id (dg_ledger db) \<and>
     (\<forall>l\<in>set (dg_ledger db). 0 \<le> lg_reserved l \<and> 0 \<le> lg_settled l \<and> 0 \<le> lg_released l) \<and>
     (\<forall>d\<in>set (dg_delegations db).
        d_budget_reserved_tokens d = ledger_sum (open_part (d_id d)) db \<and>
        d_budget_settled_tokens d = ledger_sum (settled_part (d_id d)) db \<and>
        d_budget_reserved_tokens d + d_budget_settled_tokens d \<le> d_budget_total_tokens d)"

text \<open>
  A disciplined caller settles and releases a reservation for the delegation that made it,
  settles it before it is released, and for a positive part of what was reserved.
\<close>

definition owns_reservation :: "string \<Rightarrow> string \<Rightarrow> (LedgerRow \<Rightarrow> bool) \<Rightarrow> delegation_db \<Rightarrow> bool" where
  "owns_reservation did rid P db \<longleftrightarrow>
     (case fetchone (\<lambda>l. lg_reservation_id l = rid) (dg_ledger db) of
        None \<Rightarrow> True | Some l \<Rightarrow> lg_delegation_id l = did \<and> P l)"

inductive ledger_step :: "delegation_db \<Rightarrow> delegation_db \<Rightarrow> bool" where
  reserve: "reserve_ledger_sync now rid did amount purpose db = (db', r) \<Longrightarrow> ledger_step db db'"
| settle: "settle_ledger_sync now did rid actual ev db = (db', r) \<Longrightarrow> 0 < actual
    \<Longrightarrow> owns_reservation did rid (\<lambda>l. lg_released l = 0 \<and> actual \<le> lg_reserved l) db \<Longrightarrow> ledger_step db db'"
| release: "release_ledger_sync now did rid db = (db', r)
    \<Longrightarrow> owns_reservation did rid (\<lambda>_. True) db \<Longrightarrow> ledger_step db db'"

lemma sum_list_keyed_update:
  fixes h :: "'r \<Rightarrow> int"
  assumes "keyed key rows" and "row \<in> set rows"
  shows "sum_list (map h (sql_update (\<lambda>x. key x = key row) f rows)) = sum_list (map h rows) - h row + h (f row)"
  using assms
proof (induction rows)
  case (Cons a rows)
  show ?case
  proof (cases "a = row")
    case True
    with Cons.prems(1) have "\<And>x. x \<in> set rows \<Longrightarrow> key x \<noteq> key row"
      by (auto simp: keyed_def image_iff)
    then have "sql_update (\<lambda>x. key x = key row) f rows = rows"
      by (intro sql_update_id) auto
    with True show ?thesis by (simp add: sql_update_def)
  next
    case False
    with Cons.prems have "key a \<noteq> key row" "row \<in> set rows" "keyed key rows"
      by (auto simp: keyed_def)
    with Cons.IH show ?thesis by (simp add: sql_update_def)
  qed
qed simp

lemma ledger_inv_close:
  assumes inv: "ledger_inv db" and close: "close_reservation now did row used f db = (db', r)"
    and row: "row \<in> set (dg_ledger db)" "lg_delegation_id row = did" "lg_settled row = 0" "lg_released row = 0"
    and used: "0 \<le> used" "used \<le> lg_reserved row"
    and f: "\<And>l. lg_reservation_id (f l) = lg_reservation_id l" "\<And>l. lg_reserved (f l) = lg_reserved l"
      "lg_delegation_id (f row) = did" "lg_settled (f row) = used"
      "lg_settled (f row) \<noteq> 0 \<or> lg_released (f row) = lg_reserved row"
      "\<And>l. 0 \<le> lg_settled l \<Longrightarrow> 0 \<le> lg_released l \<Longrightarrow> 0 \<le> lg_settled (f l) \<and> 0 \<le> lg_released (f l)"
  shows "ledger_inv db'"
proof -
  have key: "keyed lg_reservation_id (dg_ledger db)" "keyed d_id (dg_delegations db)"
    using inv by (simp_all add: ledger_inv_def)
  consider "db' = db"
    | (closed) "dg_ledger db' = sql_update (\<lambda>l. lg_reservation_id l = lg_reservation_id row) f (dg_ledger db)"
      "dg_delegations db' = sql_update (\<lambda>d. d_id d = did)
         (\<lambda>d. d\<lparr>d_budget_reserved_tokens := d_budget_reserved_tokens d - lg_reserved row,
               d_budget_settled_tokens := d_budget_settled_tokens d + used, d_updated_at := now\<rparr>) (dg_delegations db)"
  proof (cases "fst (close_reservation now did row used f db) = db")
    case True
    with close show ?thesis by (intro that(1)) simp
  next
    case False
    with close show ?thesis
      by (intro that(2)) (auto simp: close_reservation_def Let_def set_delegation_def split: option.splits if_splits)
  qed
  then show ?thesis
  proof cases
    case 1
    with inv show ?thesis by simp
  next
    case closed
    have sums: "ledger_sum h db' = ledger_sum h db - h row + h (f row)" for h
      unfolding ledger_sum_def closed(1) by (rule sum_list_keyed_update [OF key(1) row(1)])
    have parts: "open_part did row = lg_reserved row" "open_part did (f row) = 0"
        "settled_part did row = 0" "settled_part did (f row) = used"
        "j \<noteq> did \<Longrightarrow> open_part j row = 0 \<and> open_part j (f row) = 0 \<and> settled_part j row = 0 \<and> settled_part j (f row) = 0" for j
      using row(2-4) f(2) [of row] f(3-5) by (auto simp: open_part_def settled_part_def)
    have "keyed lg_reservation_id (dg_ledger db')" "keyed d_id (dg_delegations db')"
      unfolding closed using key by (auto intro!: keyed_sql_update simp: f(1))
    moreover have "\<forall>l\<in>set (dg_ledger db'). 0 \<le> lg_reserved l \<and> 0 \<le> lg_settled l \<and> 0 \<le> lg_released l"
      using inv unfolding closed by (auto simp: ledger_inv_def set_sql_update f(2,6))
    moreover have "d_budget_reserved_tokens d = ledger_sum (open_part (d_id d)) db' \<and>
        d_budget_settled_tokens d = ledger_sum (settled_part (d_id d)) db' \<and>
        d_budget_reserved_tokens d + d_budget_settled_tokens d \<le> d_budget_total_tokens d"
      if "d \<in> set (dg_delegations db')" for d
      using that unfolding closed(2)
    proof (cases rule: sql_update_cases)
      case (1 d0)
      with inv used show ?thesis by (auto simp: ledger_inv_def sums parts)
    next
      case 2
      with inv show ?thesis by (auto simp: ledger_inv_def sums parts)
    qed
    ultimately show ?thesis unfolding ledger_inv_def by blast
  qed
qed

lemma ledger_step_inv:
  assumes "ledger_step db db'" and inv: "ledger_inv db"
  shows "ledger_inv db'"
  using assms(1)
proof cases
  case (reserve now rid did amount purpose r)
  consider "db' = db"
    | (new) d where "dg_get_sync did db = Some d" "amount \<le> ledger_balance d" "0 \<le> amount"
      "rid \<notin> lg_reservation_id ` set (dg_ledger db)"
      "dg_ledger db' = dg_ledger db @
                     [\<lparr>lg_delegation_id = did, lg_reservation_id = rid, lg_purpose = purpose, lg_amount = amount,
                       lg_reserved = amount, lg_settled = 0, lg_released = 0, lg_usage_event_id = None,
                       lg_created_at = now, lg_updated_at = now\<rparr>]"
      "dg_delegations db' = sql_update (\<lambda>d. d_id d = did)
         (\<lambda>d. d\<lparr>d_budget_reserved_tokens := d_budget_reserved_tokens d + amount, d_updated_at := now\<rparr>) (dg_delegations db)"
  proof (cases "fst (reserve_ledger_sync now rid did amount purpose db) = db")
    case True
    with reserve show ?thesis by (intro that(1)) simp
  next
    case False
    then obtain d where d: "dg_get_sync did db = Some d" "amount \<le> ledger_balance d" "0 \<le> amount"
      "rid \<notin> lg_reservation_id ` set (dg_ledger db)"
      by (auto simp: reserve_ledger_sync_def not_less split: option.splits if_splits)
    from reserve have "db' = fst (reserve_ledger_sync now rid did amount purpose db)" by simp
    with d show ?thesis
      by (intro that(2) [OF d]) (simp_all add: reserve_ledger_sync_def Let_def set_delegation_def)
  qed
  then show ?thesis
  proof cases
    case 1
    with inv show ?thesis by simp
  next
    case new
    have d: "d_id x = did \<Longrightarrow> x \<in> set (dg_delegations db) \<Longrightarrow> x = d" for x
      using inv dg_get_sync_SomeD [OF new(1)] keyed_eqD [of d_id "dg_delegations db" x d]
      by (simp add: ledger_inv_def)
    have sums: "ledger_sum (open_part j) db' = ledger_sum (open_part j) db + (if j = did then amount else 0)"
      "ledger_sum (settled_part j) db' = ledger_sum (settled_part j) db" for j
      by (simp_all add: ledger_sum_def new(5) open_part_def settled_part_def)
    have "keyed lg_reservation_id (dg_ledger db')" "keyed d_id (dg_delegations db')"
      using inv new(4) unfolding new(5,6) by (auto intro!: keyed_sql_update simp: ledger_inv_def keyed_append1)
    moreover have "\<forall>l\<in>set (dg_ledger db'). 0 \<le> lg_reserved l \<and> 0 \<le> lg_settled l \<and> 0 \<le> lg_released l"
      using inv new(3) unfolding new(5) by (auto simp: ledger_inv_def)
    moreover have "x \<in> set (dg_delegations db') \<Longrightarrow> d_budget_reserved_tokens x = ledger_sum (open_part (d_id x)) db' \<and>
        d_budget_settled_tokens x = ledger_sum (settled_part (d_id x)) db' \<and>
        d_budget_reserved_tokens x + d_budget_settled_tokens x \<le> d_budget_total_tokens x" for x
      unfolding new(6)
    proof (erule sql_update_cases)
      fix x0 assume "x0 \<in> set (dg_delegations db)" "d_id x0 = did"
        "x = x0\<lparr>d_budget_reserved_tokens := d_budget_reserved_tokens x0 + amount, d_updated_at := now\<rparr>"
      with inv d new(2) show ?thesis by (auto simp: ledger_inv_def sums ledger_balance_def)
    next
      assume "x \<in> set (dg_delegations db)" "d_id x \<noteq> did"
      with inv show ?thesis by (auto simp: ledger_inv_def sums)
    qed
    ultimately show ?thesis unfolding ledger_inv_def by blast
  qed
next
  case (settle now did rid actual ev r)
  show ?thesis
  proof (cases "db' = db")
    case False
    with settle(1) obtain row where row: "fetchone (\<lambda>l. lg_reservation_id l = rid) (dg_ledger db) = Some row"
      "\<not> lg_settled row > 0"
      "close_reservation now did row actual
         (\<lambda>l. l\<lparr>lg_settled := actual, lg_usage_event_id := ev, lg_updated_at := now\<rparr>) db = (db', r)"
      by (auto simp: settle_ledger_sync_def split: option.splits if_splits)
    then have "row \<in> set (dg_ledger db)" "lg_settled row = 0"
      using inv by (force simp: ledger_inv_def dest: fetchone_SomeD)+
    moreover from settle(3) row(1) have "lg_delegation_id row = did" "lg_released row = 0" "actual \<le> lg_reserved row"
      by (simp_all add: owns_reservation_def)
    ultimately show ?thesis
      using settle(2) by (intro ledger_inv_close [OF inv row(3)]) simp_all
  qed (use inv in simp)
next
  case (release now did rid r)
  show ?thesis
  proof (cases "db' = db")
    case False
    with release(1) obtain row where row: "fetchone (\<lambda>l. lg_reservation_id l = rid) (dg_ledger db) = Some row"
      "\<not> (lg_released row > 0 \<or> lg_settled row > 0)"
      "close_reservation now did row 0 (\<lambda>l. l\<lparr>lg_released := lg_reserved row, lg_updated_at := now\<rparr>) db = (db', r)"
      by (auto simp: release_ledger_sync_def split: option.splits if_splits)
    then have "row \<in> set (dg_ledger db)" "lg_settled row = 0" "lg_released row = 0" "0 \<le> lg_reserved row"
      using inv by (force simp: ledger_inv_def dest: fetchone_SomeD)+
    moreover from release(2) row(1) have "lg_delegation_id row = did"
      by (simp add: owns_reservation_def)
    ultimately show ?thesis
      by (intro ledger_inv_close [OF inv row(3)]) simp_all
  qed (use inv in simp)
qed

section \<open>An example history\<close>

definition demo_parent :: DelegationParentRef where
  "demo_parent = \<lparr>pr_source = ''chat'', pr_scope_id = ''s1'', pr_run_id = ''run1'', pr_session_id = ''s1''\<rparr>"

definition demo_member :: DelegationMember where
  "demo_member = DelegationMember_new ''m1'' ''d1'' WORKER 0 ''t'' ''i'' [] [] ''x1'' None 100 None None"

definition demo_request :: DelegationCreateRequest where
  "demo_request =
     \<lparr>dc_parent = demo_parent, dc_delegation_key = ''key'', dc_fingerprint = ''fp'', dc_join_policy = ALL_COMPLETED,
      dc_aggregation = PARENT, dc_deadline_at = None, dc_budget_total_tokens = 100, dc_members = [demo_member],
      dc_snapshot = \<lparr>ps_profile_version = ''1'', ps_parent_config = JNull, ps_child_config = JNull,
                     ps_aggregator_config = None, ps_checksum = ''c''\<rparr>,
      dc_trace_context = JNull, dc_canonical_parent_run_id = None\<rparr>"

text \<open>The delegation is created, its member claimed, the claim expires and is taken again.\<close>

definition demo_created :: delegation_db where
  "demo_created = fst (create_or_reconnect_sync 0 ''d1'' demo_request empty_delegation_db)"

definition demo_claimed :: delegation_db where
  "demo_claimed = fst (claim_member_sync 10 ''d1'' 0 ''run-m1'' 5 demo_created)"

definition demo_stale :: delegation_db where
  "demo_stale = fst (mark_stale_sync 9000000 demo_claimed)"

definition demo_reclaimed :: delegation_db where
  "demo_reclaimed = fst (claim_member_sync 9000000 ''d1'' 0 ''run-m1'' 5 demo_stale)"

lemma demo_kept:
  "dg_get_sync ''d1'' demo_created \<noteq> None" "dg_get_sync ''d1'' demo_claimed \<noteq> None"
  "dg_get_sync ''d1'' demo_stale \<noteq> None" "dg_get_sync ''d1'' demo_reclaimed \<noteq> None"
  by code_simp+

lemma demo_creation:
  "create_or_reconnect_sync 0 ''d1'' demo_request empty_delegation_db =
     (demo_created, Inr (inserted_delegation 0 ''d1'' demo_request))"
  by (simp add: demo_created_def) code_simp

lemma demo_create_step: "delegation_step empty_delegation_db [] demo_created"
proof (rule delegation_step.create [OF demo_creation])
  show "distinct (map m_ordinal (dc_members demo_request))" by code_simp
qed

lemma demo_claim_step: "delegation_step demo_created [Acquire ''m1'' (Some ''run-m1'', 2)] demo_claimed"
proof -
  have "case snd (claim_member_sync 10 ''d1'' 0 ''run-m1'' 5 demo_created) of
      Inr r \<Rightarrow> cm_outcome r = SUCCESS \<and> map_option (\<lambda>m. (m_id m, m_version m)) (cm_member r) = Some (''m1'', 2)
    | Inl _ \<Rightarrow> False" by code_simp
  then obtain r m where "claim_member_sync 10 ''d1'' 0 ''run-m1'' 5 demo_created = (demo_claimed, Inr r)"
    "cm_outcome r = SUCCESS" "cm_member r = Some m" "m_id m = ''m1''" "m_version m = 2"
    by (cases "claim_member_sync 10 ''d1'' 0 ''run-m1'' 5 demo_created")
      (auto simp: demo_claimed_def split: sum.splits)
  with delegation_step.claim show ?thesis by metis
qed

lemma demo_stale_step: "delegation_step demo_claimed [Release ''m1'' (Some ''run-m1'', 2)] demo_stale"
proof -
  have "releases (stale_member 9000000) demo_claimed = [Release ''m1'' (Some ''run-m1'', 2)]" by code_simp
  then show ?thesis using delegation_step.stale [of demo_claimed 9000000] by (simp add: demo_stale_def)
qed

lemma demo_reclaim_step: "delegation_step demo_stale [Acquire ''m1'' (Some ''run-m1'', 4)] demo_reclaimed"
proof -
  have "case snd (claim_member_sync 9000000 ''d1'' 0 ''run-m1'' 5 demo_stale) of
      Inr r \<Rightarrow> cm_outcome r = SUCCESS \<and> map_option (\<lambda>m. (m_id m, m_version m)) (cm_member r) = Some (''m1'', 4)
    | Inl _ \<Rightarrow> False" by code_simp
  then obtain r m where "claim_member_sync 9000000 ''d1'' 0 ''run-m1'' 5 demo_stale = (demo_reclaimed, Inr r)"
    "cm_outcome r = SUCCESS" "cm_member r = Some m" "m_id m = ''m1''" "m_version m = 4"
    by (cases "claim_member_sync 9000000 ''d1'' 0 ''run-m1'' 5 demo_stale")
      (auto simp: demo_reclaimed_def split: sum.splits)
  with delegation_step.claim show ?thesis by metis
qed

lemma demo_inv: "delegation_inv demo_created"
  using delegation_step_inv [OF demo_create_step delegation_inv_empty] .

lemma demo_kept_run:
  "lts_run (kept_step ''d1'') demo_created
     ([Acquire ''m1'' (Some ''run-m1'', 2)] @ [Release ''m1'' (Some ''run-m1'', 2)] @ [Acquire ''m1'' (Some ''run-m1'', 4)])
     demo_reclaimed"
proof -
  have "lts_run (kept_step ''d1'') demo_created ((([] @ [Acquire ''m1'' (Some ''run-m1'', 2)]) @
      [Release ''m1'' (Some ''run-m1'', 2)]) @ [Acquire ''m1'' (Some ''run-m1'', 4)]) demo_reclaimed"
    using demo_claim_step demo_stale_step demo_reclaim_step demo_kept
    by (intro lts_run.more lts_run.stop) (auto simp: kept_step_def intro: lts_run.stop)
  then show ?thesis by simp
qed

lemma kept_run_is_run: "lts_run (kept_step did) db es db' \<Longrightarrow> lts_run delegation_step db es db'"
  by (induction rule: lts_run.induct) (auto simp: kept_step_def intro: lts_run.intros)

section \<open>Properties\<close>

text \<open>
  C9: Two claims of the same member are separated by the release of the first: no transaction of
  the registry hands a member out while somebody holds it.
\<close>

theorem member_claims_exclusive:
  assumes "delegation_inv db" and "lts_run delegation_step db (xs @ Acquire k h # ys @ Acquire k h' # zs) db'"
  shows "Release k h \<in> set ys"
  using dl.run_exclusive assms by blast

theorem member_claims_exclusive_witness:
  "delegation_inv demo_created \<and>
   Release ''m1'' (Some ''run-m1'', 2) \<in> set [Release ''m1'' (Some ''run-m1'', 2 :: int)]"
proof -
  have "lts_run delegation_step demo_created ([] @ Acquire ''m1'' (Some ''run-m1'', 2) #
      [Release ''m1'' (Some ''run-m1'', 2)] @ Acquire ''m1'' (Some ''run-m1'', 4) # []) demo_reclaimed"
    using kept_run_is_run [OF demo_kept_run] by simp
  from member_claims_exclusive [OF demo_inv this] show ?thesis using demo_inv by simp
qed

text \<open>
  C10: Once a claim of a member has been taken back (it expired, was cancelled or was finished),
  a worker that comes back with the version it claimed cannot finish the member any more: the
  registry answers without success and its tables stay as they are, whatever lock and result the
  worker presents.
\<close>

theorem stale_finish_fenced:
  assumes "delegation_inv db" and "dg_get_sync did db = Some d"
    and "the_member k db = Some m" and "m_delegation_id m = did"
    and "lts_run (kept_step did) db es db'" and "Release k (l, v) \<in> set es"
  shows "\<exists>r. finish_member_sync now did (m_ordinal m) lock res v db' = (db', r) \<and>
    (case r of Inl _ \<Rightarrow> True | Inr x \<Rightarrow> fm_outcome x \<noteq> SUCCESS)"
proof -
  obtain m' where m': "the_member k db' = Some m'" "member_reaches m m'"
    using kept_run_member assms by blast
  have "m_version m' \<noteq> v"
    using kept_run_release [OF assms(5,1-4,6) m'(1)] by simp
  moreover have "m_delegation_id m' = did" "m_ordinal m' = m_ordinal m"
    using m'(2) assms(4) by (simp_all add: member_reaches_def slot_def)
  moreover obtain db2 r where fin: "finish_member_sync now did (m_ordinal m) lock res v db' = (db2, r)"
    by fastforce
  ultimately have "db2 = db' \<and> (\<forall>x. r = Inr x \<longrightarrow> fm_outcome x \<noteq> SUCCESS)"
    using finish_needs_version [OF kept_run_inv [OF assms(5,1)] m'(1)] by metis
  with fin show ?thesis by (auto split: sum.splits)
qed

theorem stale_finish_fenced_witness:
  "\<exists>r. finish_member_sync 9000001 ''d1'' 0 ''run-m1'' (DelegationResult_new DelegationMemberStatus.SUCCEEDED) 2
      demo_reclaimed = (demo_reclaimed, r) \<and>
    (case r of Inl _ \<Rightarrow> True | Inr x \<Rightarrow> fm_outcome x \<noteq> SUCCESS)"
proof -
  have "dg_get_sync ''d1'' demo_created = Some (inserted_delegation 0 ''d1'' demo_request)"
    "the_member ''m1'' demo_created = Some (inserted_member ''d1'' demo_member)"
    "m_delegation_id (inserted_member ''d1'' demo_member) = ''d1''" by code_simp+
  from stale_finish_fenced [OF demo_inv this demo_kept_run, of "Some ''run-m1''" 2 9000001 "''run-m1''"
      "DelegationResult_new DelegationMemberStatus.SUCCEEDED"]
  show ?thesis by (simp add: inserted_member_def demo_member_def DelegationMember_new_def)
qed

text \<open>
  While a delegation exists, its status only moves along the transition table of delegations, the
  statuses of its members only along the table of members, and a member's version never
  decreases and changes whenever the status does; so a terminal delegation or member keeps
  its status for good.
\<close>

theorem delegation_lifecycle:
  assumes "delegation_inv db" and "dg_get_sync did db = Some d" and "lts_run (kept_step did) db es db'"
    and "the_member k db = Some m" and "m_delegation_id m = did"
  shows "\<exists>d' m'. dg_get_sync did db' = Some d' \<and> the_member k db' = Some m' \<and>
    (\<lambda>s t. t \<in> DELEGATION_TRANSITION_TABLE s)\<^sup>*\<^sup>* (d_status d) (d_status d') \<and>
    (\<lambda>s t. t \<in> DELEGATION_MEMBER_TRANSITION_TABLE s)\<^sup>*\<^sup>* (m_status m) (m_status m') \<and>
    m_version m \<le> m_version m' \<and> (m_version m = m_version m' \<longrightarrow> m_status m' = m_status m) \<and>
    (Delegation_is_terminal d \<longrightarrow> d_status d' = d_status d) \<and>
    (Member_is_terminal m \<longrightarrow> m_status m' = m_status m)"
proof -
  obtain d' where d': "dg_get_sync did db' = Some d'" "delegation_reaches d d'"
    using kept_run_delegation [OF assms(3,1,2)] by blast
  obtain m' where m': "the_member k db' = Some m'" "member_reaches m m'"
    using kept_run_member [OF assms(3,1,2,4,5)] by blast
  have "Delegation_is_terminal d \<longrightarrow> d_status d' = d_status d"
    using d'(2) dm.terminal_stuck
    by (auto simp: delegation_reaches_def Delegation_is_terminal_def delegation_terminal_def)
  moreover have "Member_is_terminal m \<longrightarrow> m_status m' = m_status m"
    using m'(2) mm.terminal_stuck
    by (auto simp: member_reaches_def Member_is_terminal_def member_terminal_def)
  ultimately show ?thesis
    using d' m' by (auto simp: delegation_reaches_def member_reaches_def dm.reaches_def mm.reaches_def)
qed

theorem delegation_lifecycle_witness:
  "\<exists>d' m'. dg_get_sync ''d1'' demo_reclaimed = Some d' \<and> the_member ''m1'' demo_reclaimed = Some m' \<and>
    (\<lambda>s t. t \<in> DELEGATION_TRANSITION_TABLE s)\<^sup>*\<^sup>* DelegationStatus.PENDING (d_status d') \<and>
    (\<lambda>s t. t \<in> DELEGATION_MEMBER_TRANSITION_TABLE s)\<^sup>*\<^sup>* DelegationMemberStatus.PENDING (m_status m') \<and>
    1 \<le> m_version m'"
proof -
  have "dg_get_sync ''d1'' demo_created = Some (inserted_delegation 0 ''d1'' demo_request)"
    "the_member ''m1'' demo_created = Some (inserted_member ''d1'' demo_member)"
    "m_delegation_id (inserted_member ''d1'' demo_member) = ''d1''" by code_simp+
  from delegation_lifecycle [OF demo_inv this(1) demo_kept_run this(2,3)]
  show ?thesis by (auto simp: inserted_member_def)
qed

text \<open>
  In every database the transactions can reach from the empty one, a delegation is found
  by its id and by its key alone, the members of a delegation have distinct ordinals, and a
  member has at most one adopted result, which belongs to a terminal member whose status is that
  of the result.
\<close>

theorem delegation_reachable_inv:
  assumes "lts_run delegation_step empty_delegation_db es db"
  shows "distinct (map d_id (dg_delegations db)) \<and> distinct (map reconnect_key (dg_delegations db)) \<and>
    distinct (map slot (dg_members db)) \<and> distinct (adopted_ids db) \<and>
    list_all (\<lambda>r. rr_adopted r \<and> list_ex (\<lambda>m. rr_member_id r = Some (m_id m) \<and> Member_is_terminal m \<and>
        m_status m = re_status (rr_result r)) (dg_members db)) (dg_results db)"
proof -
  have "delegation_inv db" using dl.run_inv [OF assms delegation_inv_empty] .
  then show ?thesis
    by (auto simp: delegation_inv_def keyed_def list_all_iff list_ex_iff result_fits_def)
qed

theorem delegation_reachable_inv_witness:
  "distinct (map slot (dg_members demo_created)) \<and> distinct (adopted_ids demo_created)"
proof -
  have "lts_run delegation_step empty_delegation_db ([] @ []) demo_created"
    using lts_run.more [of delegation_step, OF lts_run.stop demo_create_step] .
  from delegation_reachable_inv [OF this] show ?thesis by simp
qed

text \<open>
  Creating a delegation is idempotent per key: as long as the delegation exists, a second
  request with the same source, scope and key changes nothing; it is answered with the same
  delegation when its fingerprint is the same, and refused as a conflict when it is not.
\<close>

theorem create_reconnects:
  assumes "delegation_inv db" and "distinct (map m_ordinal (dc_members req))"
    and "create_or_reconnect_sync now did req db = (db1, Inr d)"
    and "lts_run (kept_step (d_id d)) db1 es db'"
    and "pr_source (dc_parent req') = pr_source (dc_parent req)"
    and "pr_scope_id (dc_parent req') = pr_scope_id (dc_parent req)"
    and "dc_delegation_key req' = dc_delegation_key req"
  shows "\<exists>d'. d_id d' = d_id d \<and> dg_get_sync (d_id d) db' = Some d' \<and>
    create_or_reconnect_sync now' did' req' db' =
      (db', if dc_fingerprint req' = dc_fingerprint req then Inr d' else Inl DelegationConflictError)"
proof -
  have inv1: "delegation_inv db1"
    using create_or_reconnect_inv assms(1-3) by blast
  have d: "d \<in> set (dg_delegations db1)" "d_fingerprint d = dc_fingerprint req"
    "reconnect_key d = (pr_source (dc_parent req), pr_scope_id (dc_parent req), dc_delegation_key req)"
    using assms(3)
    by (auto simp: create_or_reconnect_sync_def Let_def reconnect_key_def inserted_delegation_def
        dest: fetchone_SomeD split: option.splits if_splits)
  obtain d' where d': "dg_get_sync (d_id d) db' = Some d'" "delegation_reaches d d'"
    using kept_run_delegation [OF assms(4) inv1 dg_get_sync_in [OF inv1 d(1)]] by blast
  have "keyed reconnect_key (dg_delegations db')"
    using kept_run_inv [OF assms(4) inv1] by (simp add: delegation_inv_def)
  then have "fetchone (\<lambda>x. reconnect_key x = reconnect_key d') (dg_delegations db') = Some d'"
    using dg_get_sync_SomeD [OF d'(1)] by (simp add: keyed_fetchone)
  moreover have "reconnect_key d' = reconnect_key d" "d_fingerprint d' = d_fingerprint d" "d_id d' = d_id d"
    using d'(2) by (simp_all add: delegation_reaches_def)
  ultimately have "fetchone (\<lambda>x. pr_source (d_parent x) = pr_source (dc_parent req') \<and>
      pr_scope_id (d_parent x) = pr_scope_id (dc_parent req') \<and>
      d_delegation_key x = dc_delegation_key req') (dg_delegations db') = Some d'"
    using d(3) assms(5-7) by (simp add: reconnect_key_def)
  with d' d(2) \<open>d_id d' = d_id d\<close> \<open>d_fingerprint d' = d_fingerprint d\<close> show ?thesis
    by (intro exI [of _ d']) (simp add: create_or_reconnect_sync_def)
qed

theorem create_reconnects_witness:
  "\<exists>d'. d_id d' = ''d1'' \<and> create_or_reconnect_sync 99 ''d2'' demo_request demo_reclaimed = (demo_reclaimed, Inr d')"
proof -
  have "distinct (map m_ordinal (dc_members demo_request))" by code_simp
  moreover have "lts_run (kept_step (d_id (inserted_delegation 0 ''d1'' demo_request))) demo_created
     ([Acquire ''m1'' (Some ''run-m1'', 2)] @ [Release ''m1'' (Some ''run-m1'', 2)] @ [Acquire ''m1'' (Some ''run-m1'', 4)])
     demo_reclaimed" using demo_kept_run by simp
  ultimately show ?thesis
    using create_reconnects [OF delegation_inv_empty _ demo_creation, of _ demo_reclaimed demo_request 99 "''d2''"]
    by auto
qed

text \<open>
  Under disciplined use, however reservations, settlements and releases interleave, the reserved
  tokens of a delegation are exactly those of its open reservations, its settled tokens exactly
  those of its settlements, and the two never exceed the delegation's total.
\<close>

theorem ledger_exact:
  assumes "ledger_inv db" and "ledger_step\<^sup>*\<^sup>* db db'" and "dg_get_sync did db' = Some d"
  shows "d_budget_reserved_tokens d = sum_list (map lg_reserved (filter (\<lambda>l. lg_delegation_id l = did \<and>
      lg_settled l = 0 \<and> lg_released l = 0) (dg_ledger db'))) \<and>
    d_budget_settled_tokens d = sum_list (map lg_settled (filter (\<lambda>l. lg_delegation_id l = did) (dg_ledger db'))) \<and>
    d_budget_reserved_tokens d + d_budget_settled_tokens d \<le> d_budget_total_tokens d"
proof -
  have "ledger_inv db'"
    using assms(2,1) by (induction rule: rtranclp_induct) (auto intro: ledger_step_inv)
  then have "d_budget_reserved_tokens d = ledger_sum (open_part did) db'"
    "d_budget_settled_tokens d = ledger_sum (settled_part did) db'"
    "d_budget_reserved_tokens d + d_budget_settled_tokens d \<le> d_budget_total_tokens d"
    using dg_get_sync_SomeD [OF assms(3)] by (auto simp: ledger_inv_def)
  moreover have "sum_list (map h (filter P ls)) = sum_list (map (\<lambda>l. if P l then h l else 0) ls)"
    for h :: "LedgerRow \<Rightarrow> int" and P and ls :: "LedgerRow list"
    by (induction ls) simp_all
  ultimately show ?thesis
    by (simp add: ledger_sum_def open_part_def [abs_def] settled_part_def [abs_def])
qed

definition demo_reserved :: delegation_db where
  "demo_reserved = fst (reserve_ledger_sync 1 ''r2'' ''d1'' 60 ''child''
     (fst (reserve_ledger_sync 1 ''r1'' ''d1'' 40 ''child'' demo_created)))"

theorem ledger_exact_witness:
  "map d_budget_reserved_tokens (dg_delegations demo_reserved) = [100] \<and>
   list_all (\<lambda>d. d_budget_reserved_tokens d + d_budget_settled_tokens d \<le> d_budget_total_tokens d)
     (dg_delegations demo_reserved)"
proof -
  have inv: "ledger_inv demo_created" by code_simp
  have step: "ledger_step db (fst (reserve_ledger_sync now rid did amount purpose db))" for now rid did amount purpose db
    by (rule ledger_step.reserve) (rule prod.collapse [symmetric])
  have "ledger_step\<^sup>*\<^sup>* demo_created demo_reserved"
    unfolding demo_reserved_def by (meson step converse_rtranclp_into_rtranclp rtranclp.rtrancl_refl)
  from ledger_exact [OF inv this, of "''d1''"]
  have ok: "dg_get_sync ''d1'' demo_reserved = Some d \<Longrightarrow>
      d_budget_reserved_tokens d + d_budget_settled_tokens d \<le> d_budget_total_tokens d" for d by blast
  have one: "dg_get_sync ''d1'' demo_reserved = Some (hd (dg_delegations demo_reserved))"
    "tl (dg_delegations demo_reserved) = []" "dg_delegations demo_reserved \<noteq> []"
    "map d_budget_reserved_tokens (dg_delegations demo_reserved) = [100]" by code_simp+
  then show ?thesis using ok [OF one(1)] by (cases "dg_delegations demo_reserved") auto
qed

text \<open>
  Outside that discipline the ledger can promise more than the total: settling a reservation
  at zero tokens leaves its row open, so settling it again frees its tokens a second time, although
  another reservation of the same delegation is still open.
\<close>

theorem settle_zero_frees_twice:
  "let settle = (\<lambda>db. fst (settle_ledger_sync 2 ''d1'' ''r1'' 0 None db));
       db = settle (settle (fst (reserve_ledger_sync 1 ''r2'' ''d1'' 50 ''child''
              (fst (reserve_ledger_sync 1 ''r1'' ''d1'' 25 ''child'' demo_created)))))
   in map d_budget_reserved_tokens (dg_delegations db) = [25] \<and>
      map lg_reserved (filter (\<lambda>l. lg_reservation_id l = ''r2'' \<and> lg_settled l = 0 \<and> lg_released l = 0) (dg_ledger db)) = [50]"
  by code_simp

end
