(* ===== verification/Delegation_Run_Theorems.thy ===== *)
theory Delegation_Run_Theorems
  imports Delegation_Run Delegation_Theorems "HOL-Library.Multiset"
begin

text \<open>
  What a tick of the delegation run service achieves. Every tick is a run of registry
  transactions, so everything shown of \<open>delegation_step\<close> holds of it; and a tick that finds the members of a
  delegation pending, with capacity for all of them, brings the delegation to the status that the
  join policy gives for the results of its executors.
\<close>

section \<open>Round robin loses nothing\<close>

definition group_mset :: "(string \<times> DelegationMember list) list \<Rightarrow> DelegationMember multiset" where
  "group_mset gs = mset (concat (map snd gs))"

lemma group_mset_add: "group_mset (group_add m gs) = add_mset m (group_mset gs)"
  by (induction m gs rule: group_add.induct) (auto simp: group_mset_def)

lemma group_mset_by_delegation: "group_mset (by_delegation ms) = mset ms"
proof -
  have "group_mset (foldl (\<lambda>gs m. group_add m gs) gs ms) = group_mset gs + mset ms" for gs
    by (induction ms arbitrary: gs) (simp_all add: group_mset_add)
  from this [of "[]"] show ?thesis by (simp add: by_delegation_def group_mset_def)
qed

lemma mset_pop: "mset (pop_heads gs) + group_mset (pop_rest gs) = group_mset gs"
proof (induction gs)
  case (Cons a gs)
  obtain k g where a: "a = (k, g)" by (cases a)
  with Cons show ?case
    by (cases g) (auto simp: pop_heads_def pop_rest_def group_mset_def)
qed (simp add: pop_heads_def pop_rest_def group_mset_def)

lemma mset_interleave: "mset (interleave gs) = group_mset gs"
proof (induction gs rule: interleave.induct)
  case (1 gs)
  show ?case
  proof (cases "gs = []")
    case True
    then show ?thesis by (simp add: interleave.simps group_mset_def)
  next
    case False
    then have "mset (interleave gs) = mset (pop_heads gs) + mset (interleave (pop_rest gs))"
      by (subst interleave.simps) simp
    with 1 False mset_pop [of gs] show ?thesis by simp
  qed
qed

lemma mset_round_robin: "mset (interleave (by_delegation ms)) = mset ms"
  by (simp add: mset_interleave group_mset_by_delegation)

section \<open>Claiming and running one member\<close>

abbreviation member_lease :: "DelegationRunService \<Rightarrow> int" where
  "member_lease s \<equiv> cf_member_max_runtime_seconds (rs_config s)"

definition claimed_by_run :: "datetime \<Rightarrow> DelegationRunService \<Rightarrow> DelegationMember \<Rightarrow> DelegationMember" where
  "claimed_by_run now s m = claimed_member now (''run-'' @ m_id m) (member_lease s) m"

definition run_outcome ::
  "child_executor \<Rightarrow> datetime \<Rightarrow> DelegationRunService \<Rightarrow> delegation_db \<Rightarrow> DelegationMember \<Rightarrow> DelegationResult option \<times> datetime" where
  "run_outcome exec now s db m = execute_member exec s db (claimed_by_run now s m)"

definition run_result ::
  "child_executor \<Rightarrow> datetime \<Rightarrow> DelegationRunService \<Rightarrow> delegation_db \<Rightarrow> DelegationMember \<Rightarrow> DelegationResult" where
  "run_result exec now s db m = the (fst (run_outcome exec now s db m))"

definition finished_by_run ::
  "child_executor \<Rightarrow> datetime \<Rightarrow> DelegationRunService \<Rightarrow> delegation_db \<Rightarrow> DelegationMember \<Rightarrow> DelegationMember" where
  "finished_by_run exec now s db m =
     finished_member (snd (run_outcome exec now s db m)) (re_status (run_result exec now s db m)) (claimed_by_run now s m)"

definition result_by_run ::
  "child_executor \<Rightarrow> datetime \<Rightarrow> DelegationRunService \<Rightarrow> delegation_db \<Rightarrow> DelegationMember \<Rightarrow> ResultRow" where
  "result_by_run exec now s db m =
     member_result_row (snd (run_outcome exec now s db m)) (claimed_by_run now s m) (run_result exec now s db m)"

text \<open>The executor always comes back with a result (it is never cancelled from outside).\<close>

definition answering_executor :: "child_executor \<Rightarrow> bool" where
  "answering_executor exec \<longleftrightarrow> terminal_executor exec \<and>
     (\<forall>m model cap dl run. fst (exec m model cap dl run) \<noteq> AsyncCancelledError)"

lemma run_outcome_answers:
  assumes "answering_executor exec"
  shows "run_outcome exec now s db m = (Some (run_result exec now s db m), snd (run_outcome exec now s db m))"
    and "re_status (run_result exec now s db m) \<in> DELEGATION_MEMBER_TERMINAL_STATES"
proof -
  have "fst (execute_member exec s db c) \<noteq> None" for c
    using assms by (auto simp: execute_member_def Let_def outcome_result_def answering_executor_def
        split: prod.splits exec_outcome.splits) (metis fst_conv)
  then show out: "run_outcome exec now s db m = (Some (run_result exec now s db m), snd (run_outcome exec now s db m))"
    unfolding run_result_def run_outcome_def by (simp add: prod_eq_iff)
  show "re_status (run_result exec now s db m) \<in> DELEGATION_MEMBER_TERMINAL_STATES"
    using assms out outcome_result_terminal
    unfolding answering_executor_def run_outcome_def by metis
qed

definition started_delegation :: "datetime \<Rightarrow> datetime \<Rightarrow> Delegation \<Rightarrow> Delegation" where
  "started_delegation now ended d =
     d\<lparr>d_status := (if d_status d = DelegationStatus.PENDING then DelegationStatus.RUNNING else d_status d),
       d_updated_at := ended\<rparr>"

lemma start_delegation_tables:
  assumes "dg_get_sync did db = Some d" and "keyed d_id (dg_delegations db)"
  shows "dg_delegations (fst (start_delegation_sync now did db)) =
      sql_update (\<lambda>d. d_id d = did \<and> d_status d = DelegationStatus.PENDING)
        (\<lambda>d. d\<lparr>d_status := DelegationStatus.RUNNING, d_updated_at := now\<rparr>) (dg_delegations db)"
proof (cases "d_status d = DelegationStatus.PENDING")
  case True
  with assms(1) show ?thesis by (simp add: start_delegation_sync_def Let_def)
next
  case False
  have "\<not> (d_id x = did \<and> d_status x = DelegationStatus.PENDING)" if "x \<in> set (dg_delegations db)" for x
    using that assms False keyed_fetchone_unique [of d_id "dg_delegations db" did d x]
    by (auto simp: dg_get_sync_def)
  with False assms(1) show ?thesis
    by (simp add: start_delegation_sync_def sql_update_id)
qed

lemma execute_member_terms:
  assumes "map_option d_deadline_at (dg_get_sync (m_delegation_id m) db') = map_option d_deadline_at (dg_get_sync (m_delegation_id m) db)"
    and "map_option d_canonical_parent_run_id (dg_get_sync (m_delegation_id m) db') =
         map_option d_canonical_parent_run_id (dg_get_sync (m_delegation_id m) db)"
  shows "execute_member exec s db' m = execute_member exec s db m"
proof -
  have "Option.bind (dg_get_sync (m_delegation_id m) db') d_deadline_at = Option.bind (dg_get_sync (m_delegation_id m) db) d_deadline_at"
    "Option.bind (dg_get_sync (m_delegation_id m) db') d_canonical_parent_run_id =
     Option.bind (dg_get_sync (m_delegation_id m) db) d_canonical_parent_run_id"
    using assms
    by (cases "dg_get_sync (m_delegation_id m) db'"; cases "dg_get_sync (m_delegation_id m) db"; simp)+
  then show ?thesis by (simp add: execute_member_def Let_def)
qed

lemma claimed_by_run_simps [simp]:
  "m_id (claimed_by_run now s m) = m_id m" "m_delegation_id (claimed_by_run now s m) = m_delegation_id m"
  "m_ordinal (claimed_by_run now s m) = m_ordinal m"
  "m_status (claimed_by_run now s m) = DelegationMemberStatus.RUNNING"
  "claim_of (claimed_by_run now s m) = Some (Some (''run-'' @ m_id m), m_version (claimed_by_run now s m))"
  by (simp_all add: claimed_by_run_def claimed_member_def claim_of_def)

lemma finished_by_run_simps [simp]:
  "m_id (finished_by_run exec now s db m) = m_id m"
  "m_delegation_id (finished_by_run exec now s db m) = m_delegation_id m"
  "m_ordinal (finished_by_run exec now s db m) = m_ordinal m"
  "m_status (finished_by_run exec now s db m) = re_status (run_result exec now s db m)"
  by (simp_all add: finished_by_run_def finished_member_def)

lemma sql_update_twice:
  assumes "keyed key rows" and "r \<in> set rows" and "\<And>x. key (f x) = key x"
  shows "sql_update (\<lambda>x. key x = key r) g (sql_update (\<lambda>x. key x = key r) f rows) =
    sql_update (\<lambda>x. key x = key r) (\<lambda>_. g (f r)) rows"
  using assms by (auto simp: sql_update_def dest: keyed_eqD)

lemma sql_update_keyed_const:
  assumes "keyed key rows" and "r \<in> set rows"
  shows "sql_update (\<lambda>x. key x = key r) f rows = sql_update (\<lambda>x. key x = key r) (\<lambda>_. f r) rows"
  using assms by (auto simp: sql_update_def dest: keyed_eqD)

lemma claim_and_run_pending:
  assumes inv: "delegation_inv db" and exec: "answering_executor exec" and live: "\<not> killed (m_id m)"
    and m: "m \<in> set (dg_members db)" "m_status m = DelegationMemberStatus.PENDING"
  shows "dg_members (claim_and_run exec killed now s m db) =
      sql_update (\<lambda>x. m_id x = m_id m) (finished_by_run exec now s db) (dg_members db)"
    and "dg_results (claim_and_run exec killed now s m db) = dg_results db @ [result_by_run exec now s db m]"
    and "dg_delegations (claim_and_run exec killed now s m db) =
      sql_update (\<lambda>d. d_id d = m_delegation_id m)
        (started_delegation now (snd (run_outcome exec now s db m))) (dg_delegations db)"
    and "delegation_inv (claim_and_run exec killed now s m db)"
proof -
  let ?did = "m_delegation_id m" and ?lock = "''run-'' @ m_id m" and ?c = "claimed_by_run now s m"
  obtain d where d: "dg_get_sync ?did db = Some d" using member_has_delegation [OF inv m(1)] .
  have key: "keyed m_id (dg_members db)" "keyed d_id (dg_delegations db)"
    using inv by (simp_all add: delegation_inv_def)
  define db1 where "db1 = db\<lparr>dg_members := sql_update (\<lambda>x. m_id x = m_id m) (\<lambda>_. ?c) (dg_members db)\<rparr>"
  have claim: "claim_member_sync now ?did (m_ordinal m) ?lock (member_lease s) db =
      (db1, Inr \<lparr>cm_outcome = SUCCESS, cm_member = Some ?c, cm_delegation = Some d\<rparr>)"
    using claim_pending [OF inv m d, of now ?lock "member_lease s"]
      sql_update_keyed_const [OF key(1) m(1), of "claimed_member now ?lock (member_lease s)"]
    by (simp add: db1_def claimed_by_run_def)
  define db2 where "db2 = fst (start_delegation_sync now ?did db1)"
  have get1: "dg_get_sync j db1 = dg_get_sync j db" for j
    by (simp add: db1_def dg_get_sync_def)
  have D2: "dg_delegations db2 = sql_update (\<lambda>d. d_id d = ?did \<and> d_status d = DelegationStatus.PENDING)
        (\<lambda>d. d\<lparr>d_status := DelegationStatus.RUNNING, d_updated_at := now\<rparr>) (dg_delegations db)"
    unfolding db2_def using start_delegation_tables [of ?did db1 d now] get1 d key(2) by (simp add: db1_def)
  have M2: "dg_members db2 = sql_update (\<lambda>x. m_id x = m_id m) (\<lambda>_. ?c) (dg_members db)"
    and R2: "dg_results db2 = dg_results db"
    by (simp_all add: db2_def status_transactions_tables db1_def)
  have inv2: "delegation_inv db2"
    unfolding db2_def using inv claim_transactions [OF inv claim] transactions_inv transaction_intros(1) by metis
  have get2: "dg_get_sync ?did db2 = map_option (\<lambda>d. if d_id d = ?did \<and> d_status d = DelegationStatus.PENDING
      then d\<lparr>d_status := DelegationStatus.RUNNING, d_updated_at := now\<rparr> else d) (dg_get_sync ?did db)"
    unfolding dg_get_sync_def D2 by (rule fetchone_key_sql_update) simp
  then obtain d2 where d2: "dg_get_sync ?did db2 = Some d2"
      "d_deadline_at d2 = d_deadline_at d" "d_canonical_parent_run_id d2 = d_canonical_parent_run_id d"
    using d by (auto split: if_splits)
  have "execute_member exec s db2 ?c = execute_member exec s db ?c"
    by (rule execute_member_terms) (simp_all add: d d2)
  then have run: "execute_member exec s db2 ?c = (Some (run_result exec now s db m), snd (run_outcome exec now s db m))"
    using run_outcome_answers(1) [OF exec, of now s db m] by (simp add: run_outcome_def)
  have c2: "?c \<in> set (dg_members db2)"
    unfolding M2 using m(1) by (force simp: set_sql_update)
  have fin: "claim_and_run exec killed now s m db =
      fst (finish_member_sync (snd (run_outcome exec now s db m)) ?did (m_ordinal m) ?lock
        (run_result exec now s db m) (m_version ?c) db2)"
    unfolding claim_and_run_def Let_def claim using run live by (simp add: db2_def)
  also have "\<dots> = set_delegation ?did (\<lambda>d. d\<lparr>d_updated_at := snd (run_outcome exec now s db m)\<rparr>)
      (db2\<lparr>dg_members := sql_update (\<lambda>x. m_id x = m_id m)
             (finished_member (snd (run_outcome exec now s db m)) (re_status (run_result exec now s db m))) (dg_members db2),
          dg_results := dg_results db2 @
            [member_result_row (snd (run_outcome exec now s db m)) ?c (run_result exec now s db m)]\<rparr>)"
    using finish_claimed [OF inv2 c2 claimed_by_run_simps(5)] d2(1) by simp
  finally have final: "claim_and_run exec killed now s m db = \<dots>" .
  have twice: "sql_update (\<lambda>x. m_id x = m_id m) g (sql_update (\<lambda>x. m_id x = m_id m) (\<lambda>_. ?c) (dg_members db)) =
      sql_update (\<lambda>x. m_id x = m_id m) (\<lambda>_. g ?c) (dg_members db)" for g
    by (auto simp: sql_update_def)
  show "dg_members (claim_and_run exec killed now s m db) =
      sql_update (\<lambda>x. m_id x = m_id m) (finished_by_run exec now s db) (dg_members db)"
    using sql_update_keyed_const [OF key(1) m(1), of "finished_by_run exec now s db"]
    by (simp add: final M2 twice finished_by_run_def)
  show "dg_results (claim_and_run exec killed now s m db) = dg_results db @ [result_by_run exec now s db m]"
    by (simp add: final R2 result_by_run_def)
  show "dg_delegations (claim_and_run exec killed now s m db) =
      sql_update (\<lambda>d. d_id d = ?did) (started_delegation now (snd (run_outcome exec now s db m))) (dg_delegations db)"
    by (simp add: final D2) (auto simp: sql_update_def started_delegation_def)
  show "delegation_inv (claim_and_run exec killed now s m db)"
    using claim_and_run_transactions [OF inv, of exec killed now s m] exec inv transactions_inv
    by (auto simp: answering_executor_def)
qed

section \<open>Claiming and running all of them\<close>

text \<open>What no transaction of a tick changes of a delegation.\<close>

definition terms :: "Delegation \<Rightarrow> string \<times> datetime option \<times> string option \<times> DelegationJoinPolicy \<times> DelegationAggregationPolicy \<times> datetime" where
  "terms d = (d_id d, d_deadline_at d, d_canonical_parent_run_id d, d_join_policy d, d_aggregation d, d_created_at d)"

definition same_terms :: "delegation_db \<Rightarrow> delegation_db \<Rightarrow> bool" where
  "same_terms db db' \<longleftrightarrow> (\<forall>did. map_option terms (dg_get_sync did db') = map_option terms (dg_get_sync did db))"

lemma same_terms_D:
  assumes "same_terms db db'"
  shows "map_option d_deadline_at (dg_get_sync did db') = map_option d_deadline_at (dg_get_sync did db)"
    and "map_option d_canonical_parent_run_id (dg_get_sync did db') = map_option d_canonical_parent_run_id (dg_get_sync did db)"
proof -
  have "map_option terms (dg_get_sync did db') = map_option terms (dg_get_sync did db)"
    using assms by (simp add: same_terms_def)
  then show "map_option d_deadline_at (dg_get_sync did db') = map_option d_deadline_at (dg_get_sync did db)"
    and "map_option d_canonical_parent_run_id (dg_get_sync did db') = map_option d_canonical_parent_run_id (dg_get_sync did db)"
    by (cases "dg_get_sync did db'"; cases "dg_get_sync did db"; simp add: terms_def)+
qed

lemma run_outcome_terms:
  assumes "same_terms db db'"
  shows "run_outcome exec now s db' = run_outcome exec now s db"
  by (rule ext) (auto simp: run_outcome_def intro!: execute_member_terms same_terms_D [OF assms])

lemma by_run_terms:
  assumes "same_terms db db'"
  shows "run_result exec now s db' = run_result exec now s db"
    and "finished_by_run exec now s db' = finished_by_run exec now s db"
    and "result_by_run exec now s db' = result_by_run exec now s db"
  by (simp_all add: fun_eq_iff run_result_def finished_by_run_def result_by_run_def run_outcome_terms [OF assms])

lemma claim_and_run_delegation:
  assumes "delegation_inv db" and "answering_executor exec" and "\<not> killed (m_id m)"
    and "m \<in> set (dg_members db)" "m_status m = DelegationMemberStatus.PENDING"
  shows "dg_get_sync did (claim_and_run exec killed now s m db) =
    map_option (\<lambda>d. if d_id d = m_delegation_id m
                    then started_delegation now (snd (run_outcome exec now s db m)) d else d) (dg_get_sync did db)"
  unfolding dg_get_sync_def claim_and_run_pending(3) [of db exec killed m, OF assms]
  by (rule fetchone_key_sql_update) (simp add: started_delegation_def)

lemma fold_claim_and_run:
  assumes "delegation_inv db" and "answering_executor exec" and "\<And>m. m \<in> set ms \<Longrightarrow> \<not> killed (m_id m)"
    and "\<And>m. m \<in> set ms \<Longrightarrow> m \<in> set (dg_members db) \<and> m_status m = DelegationMemberStatus.PENDING"
    and "distinct (map m_id ms)"
  shows "let db' = fold (claim_and_run exec killed now s) ms db in
    delegation_inv db' \<and> same_terms db db' \<and>
    dg_members db' = sql_update (\<lambda>x. m_id x \<in> m_id ` set ms) (finished_by_run exec now s db) (dg_members db) \<and>
    dg_results db' = dg_results db @ map (result_by_run exec now s db) ms \<and>
    map_option d_status (dg_get_sync did db') =
      map_option (\<lambda>d. if did \<in> m_delegation_id ` set ms \<and> d_status d = DelegationStatus.PENDING
                     then DelegationStatus.RUNNING else d_status d) (dg_get_sync did db)"
  using assms
proof (induction ms arbitrary: db)
  case Nil
  then show ?case by (simp add: same_terms_def sql_update_def cong: map_option_cong)
next
  case (Cons m ms)
  let ?db1 = "claim_and_run exec killed now s m db"
  have m: "delegation_inv db" "answering_executor exec" "\<not> killed (m_id m)"
    "m \<in> set (dg_members db)" "m_status m = DelegationMemberStatus.PENDING"
    using Cons.prems by auto
  note step = claim_and_run_pending [of db exec killed m now s, OF m] and get = claim_and_run_delegation [of db exec killed m _ now s, OF m]
  have terms1: "same_terms db ?db1"
    unfolding same_terms_def get
    by (auto simp: started_delegation_def terms_def option.map_comp comp_def intro!: map_option_cong)
  have rest: "x \<in> set (dg_members ?db1) \<and> m_status x = DelegationMemberStatus.PENDING" if "x \<in> set ms" for x
  proof -
    have "m_id x \<noteq> m_id m" using Cons.prems(5) that by (auto simp: image_iff)
    moreover have "x \<in> set (dg_members db)" "m_status x = DelegationMemberStatus.PENDING"
      using Cons.prems(4) that by auto
    ultimately show ?thesis by (auto simp: step(1) set_sql_update image_iff)
  qed
  let ?db' = "fold (claim_and_run exec killed now s) ms ?db1"
  have IH: "delegation_inv ?db'" "same_terms ?db1 ?db'"
    "dg_members ?db' = sql_update (\<lambda>x. m_id x \<in> m_id ` set ms) (finished_by_run exec now s ?db1) (dg_members ?db1)"
    "dg_results ?db' = dg_results ?db1 @ map (result_by_run exec now s ?db1) ms"
    "map_option d_status (dg_get_sync did ?db') =
      map_option (\<lambda>d. if did \<in> m_delegation_id ` set ms \<and> d_status d = DelegationStatus.PENDING
                     then DelegationStatus.RUNNING else d_status d) (dg_get_sync did ?db1)"
    using Cons.IH [OF step(4) m(2) _ rest] Cons.prems(3,5) by (auto simp: Let_def)
  have "same_terms db ?db'"
    using terms1 IH(2) by (simp add: same_terms_def)
  moreover have "dg_members ?db' = sql_update (\<lambda>x. m_id x \<in> m_id ` set (m # ms)) (finished_by_run exec now s db) (dg_members db)"
  proof -
    have "m_id m \<notin> m_id ` set ms" using Cons.prems(5) by simp
    then show ?thesis
      unfolding IH(3) by_run_terms [OF terms1] step(1) by (auto simp: sql_update_def)
  qed
  moreover have "dg_results ?db' = dg_results db @ map (result_by_run exec now s db) (m # ms)"
    unfolding IH(4) by_run_terms [OF terms1] step(2) by simp
  moreover have "map_option d_status (dg_get_sync did ?db') =
      map_option (\<lambda>d. if did \<in> m_delegation_id ` set (m # ms) \<and> d_status d = DelegationStatus.PENDING
                     then DelegationStatus.RUNNING else d_status d) (dg_get_sync did db)"
  proof (cases "dg_get_sync did db")
    case None
    then show ?thesis unfolding IH(5) by (simp add: get)
  next
    case (Some d)
    then have "d_id d = did" by (auto simp: dg_get_sync_def dest: fetchone_SomeD)
    with Some show ?thesis unfolding IH(5) by (auto simp: get started_delegation_def)
  qed
  ultimately show ?case using IH(1) by (simp add: Let_def)
qed

section \<open>Rewriting never wakes up what is terminal\<close>

lemma rowcount_rewritten:
  assumes "rewritten R rows rows'" and "\<And>r r'. R r r' \<Longrightarrow> P r' \<Longrightarrow> P r"
  shows "rowcount P rows' \<le> rowcount P rows"
  using assms(1) unfolding rewritten_def
  by (induction rule: list_all2_induct) (auto simp: rowcount_def dest: assms(2))

lemma delegation_moves_active:
  assumes "delegation_moves d d'" and "\<not> Delegation_is_terminal d'"
  shows "\<not> Delegation_is_terminal d"
  using assms dm.terminal_iff [of "d_status d"]
  by (auto simp: delegation_moves_def Delegation_is_terminal_def delegation_terminal_def)

lemma member_moves_active:
  assumes "member_moves m m'" and "active_status m'"
  shows "active_status m"
  using assms member_moves_terminal(1) [OF assms(1)] by (auto simp: active_status_def Member_is_terminal_def)

lemma rewrites_count:
  assumes "legal_rewrite\<^sup>*\<^sup>* db db'"
  shows "rowcount (\<lambda>d. \<not> Delegation_is_terminal d) (dg_delegations db') \<le>
      rowcount (\<lambda>d. \<not> Delegation_is_terminal d) (dg_delegations db)"
    and "rowcount active_status (dg_members db') \<le> rowcount active_status (dg_members db)"
  using assms
proof (induction rule: rtranclp_induct)
  case (step y z)
  from step(2) have D: "rewritten delegation_moves (dg_delegations y) (dg_delegations z)"
    and M: "rewritten member_moves (dg_members y) (dg_members z)"
    by (simp_all add: legal_rewrite_def)
  have "rowcount (\<lambda>d. \<not> Delegation_is_terminal d) (dg_delegations z) \<le>
      rowcount (\<lambda>d. \<not> Delegation_is_terminal d) (dg_delegations y)"
    by (rule rowcount_rewritten [OF D]) (rule delegation_moves_active)
  moreover have "rowcount active_status (dg_members z) \<le> rowcount active_status (dg_members y)"
    by (rule rowcount_rewritten [OF M]) (rule member_moves_active)
  ultimately show "rowcount (\<lambda>d. \<not> Delegation_is_terminal d) (dg_delegations z) \<le>
      rowcount (\<lambda>d. \<not> Delegation_is_terminal d) (dg_delegations db)"
    "rowcount active_status (dg_members z) \<le> rowcount active_status (dg_members db)"
    using step by simp_all
qed simp_all

lemma claim_and_run_rewrites:
  assumes inv: "delegation_inv db" and exec: "terminal_executor exec"
  shows "legal_rewrite\<^sup>*\<^sup>* db (claim_and_run exec killed now s m db)"
proof -
  let ?did = "m_delegation_id m" and ?lock = "''run-'' @ m_id m"
  obtain db1 r where claim: "claim_member_sync now ?did (m_ordinal m) ?lock (member_lease s) db = (db1, r)" by fastforce
  have r1: "legal_rewrite\<^sup>*\<^sup>* db db1" using claim_member_rewrite(4) [OF claim] by blast
  have inv1: "delegation_inv db1" using claim_transactions [OF inv claim] transactions_inv inv by blast
  let ?db2 = "fst (start_delegation_sync now ?did db1)"
  have r2: "legal_rewrite\<^sup>*\<^sup>* db ?db2"
    using r1 status_transactions_rewrite(3) by (rule rtranclp.rtrancl_into_rtrancl)
  have inv2: "delegation_inv ?db2" using transaction_intros(1) transactions_inv inv1 by blast
  have cancel: "legal_rewrite\<^sup>*\<^sup>* db (fst (cancel_pending_members_sync now ?did ''kill_switch'' ?db2))"
    using r2 cancel_pending_members_rewrite by (rule rtranclp.rtrancl_into_rtrancl)
  have fin: "legal_rewrite\<^sup>*\<^sup>* db (fst (finish_member_sync t ?did (m_ordinal m) ?lock res v ?db2))"
    if "execute_member exec s ?db2 c = (Some res, t)" for c res t v
    using r2 finish_member_rewrite(1) [OF inv2 prod.collapse [symmetric] outcome_result_terminal [OF exec that]]
    by (rule rtranclp.rtrancl_into_rtrancl)
  show ?thesis
    unfolding claim_and_run_def Let_def claim
    using r1 r2 cancel fin by (auto split: sum.splits option.splits prod.splits)
qed

lemma fold_claim_and_run_rewrites:
  assumes "delegation_inv db" and exec: "terminal_executor exec"
  shows "legal_rewrite\<^sup>*\<^sup>* db (fold (claim_and_run exec killed now s) ms db)"
  using assms(1)
proof (induction ms arbitrary: db)
  case (Cons m ms)
  have "delegation_inv (claim_and_run exec killed now s m db)"
    using claim_and_run_transactions [OF Cons.prems exec] transactions_inv Cons.prems by blast
  from Cons.IH [OF this] claim_and_run_rewrites [OF Cons.prems exec, of killed now s m] show ?case
    by simp
qed simp

lemma deliver_rewrites: "legal_rewrite\<^sup>*\<^sup>* db (deliver_cancel_outbox now db)"
proof -
  have one: "legal_rewrite\<^sup>*\<^sup>* db (deliver_entry now e db)" for e db
  proof -
    let ?db1 = "fst (cancel_pending_members_sync now (co_delegation_id e) (co_reason e) db)"
    let ?db2 = "fst (finalize_cancelled_sync now (co_delegation_id e) ?db1)"
    have "legal_rewrite db ?db1" "legal_rewrite ?db1 ?db2" "legal_rewrite ?db2 (deliver_entry now e db)"
      by (simp_all add: cancel_pending_members_rewrite status_transactions_rewrite deliver_entry_def same_tables_rewrite)
    then show ?thesis by (meson rtranclp.rtrancl_into_rtrancl rtranclp.rtrancl_refl)
  qed
  have "legal_rewrite\<^sup>*\<^sup>* db (fold (deliver_entry now) es db)" for es
  proof (induction es arbitrary: db)
    case (Cons e es)
    from one [of db e] Cons.IH [of "deliver_entry now e db"] show ?case by simp
  qed simp
  then show ?thesis by (simp add: deliver_cancel_outbox_def)
qed

section \<open>What the stages leave alone\<close>

definition same_for :: "string \<Rightarrow> delegation_db \<Rightarrow> delegation_db \<Rightarrow> bool" where
  "same_for did db db' \<longleftrightarrow> dg_get_sync did db' = dg_get_sync did db \<and>
     filter (\<lambda>m. m_delegation_id m = did) (dg_members db') = filter (\<lambda>m. m_delegation_id m = did) (dg_members db)"

lemma same_for_refl [simp]: "same_for did db db"
  by (simp add: same_for_def)

lemma same_for_trans: "same_for did db db1 \<Longrightarrow> same_for did db1 db2 \<Longrightarrow> same_for did db db2"
  by (simp add: same_for_def)

lemma filter_sql_update_other:
  assumes "\<And>r. r \<in> set rows \<Longrightarrow> P r \<Longrightarrow> \<not> Q r \<and> \<not> Q (f r)"
  shows "filter Q (sql_update P f rows) = filter Q rows"
  using assms by (induction rows) (auto simp: sql_update_def)

lemma fetchone_sql_update_other:
  assumes "\<And>r. r \<in> set rows \<Longrightarrow> P r \<Longrightarrow> \<not> Q r \<and> \<not> Q (f r)"
  shows "fetchone Q (sql_update P f rows) = fetchone Q rows"
  using assms by (induction rows) (auto simp: sql_update_def sql_simps)

lemma expire_same_for:
  assumes "keyed d_id (dg_delegations db)" and "dg_get_sync did db = Some d"
    and "case d_deadline_at d of None \<Rightarrow> True | Some t \<Rightarrow> now \<le> t"
  shows "same_for did db (fst (mark_expired_sync now db))"
proof -
  have "dg_get_sync did (fst (mark_expired_sync now db)) = dg_get_sync did db"
    unfolding dg_get_sync_def mark_expired_sync_def Let_def
  proof (simp, rule fetchone_sql_update_other)
    fix r assume r: "r \<in> set (dg_delegations db)"
      "(case d_deadline_at r of None \<Rightarrow> False | Some t \<Rightarrow> t < now) \<and> \<not> Delegation_is_terminal r"
    then have "d_id r \<noteq> did"
      using assms keyed_fetchone_unique [of d_id "dg_delegations db" did d r]
      by (auto simp: dg_get_sync_def split: option.splits)
    then show "d_id r \<noteq> did \<and> d_id (r\<lparr>d_status := DelegationStatus.EXPIRED, d_updated_at := now\<rparr>) \<noteq> did" by simp
  qed
  then show ?thesis by (simp add: same_for_def status_transactions_tables)
qed

lemma stale_same_for:
  assumes "\<And>m. m \<in> set (dg_members db) \<Longrightarrow> m_delegation_id m = did \<Longrightarrow> m_status m = DelegationMemberStatus.PENDING"
  shows "same_for did db (fst (mark_stale_sync now db))"
proof -
  have "filter (\<lambda>m. m_delegation_id m = did) (dg_members (fst (mark_stale_sync now db))) =
      filter (\<lambda>m. m_delegation_id m = did) (dg_members db)"
    unfolding cancel_and_stale_members
    by (rule filter_sql_update_other) (use assms in \<open>auto simp: stale_member_def\<close>)
  then show ?thesis by (simp add: same_for_def mark_stale_sync_def dg_get_sync_def)
qed

lemma finalize_cancelled_other:
  assumes "j \<noteq> did"
  shows "dg_get_sync did (fst (finalize_cancelled_sync now j db)) = dg_get_sync did db"
  using assms
  by (auto simp: finalize_cancelled_sync_def Let_def dg_get_sync_def intro!: fetchone_sql_update_other split: option.splits)

lemma deliver_same_for:
  assumes "\<And>e. e \<in> set (dg_outbox db) \<Longrightarrow> co_acked_at e = None \<Longrightarrow> co_delegation_id e \<noteq> did"
  shows "same_for did db (deliver_cancel_outbox now db)"
proof -
  have one: "same_for did db (deliver_entry now e db)" if "co_delegation_id e \<noteq> did" for e db
  proof -
    have "filter (\<lambda>m. m_delegation_id m = did) (dg_members (deliver_entry now e db)) =
        filter (\<lambda>m. m_delegation_id m = did) (dg_members db)"
      unfolding deliver_entry_def ack_outbox_tables status_transactions_tables cancel_and_stale_members
      by (rule filter_sql_update_other) (use that in auto)
    moreover have "dg_get_sync did (deliver_entry now e db) = dg_get_sync did db"
      unfolding deliver_entry_def
      using finalize_cancelled_other [OF that, of now "fst (cancel_pending_members_sync now (co_delegation_id e) (co_reason e) db)"]
      by (simp add: dg_get_sync_def ack_outbox_sync_def cancel_pending_members_sync_def Let_def)
    ultimately show ?thesis by (simp add: same_for_def)
  qed
  have "same_for did db (fold (deliver_entry now) es db)" if "\<And>e. e \<in> set es \<Longrightarrow> co_delegation_id e \<noteq> did" for es
    using that
  proof (induction es arbitrary: db)
    case (Cons e es)
    have "same_for did db (deliver_entry now e db)" using one Cons.prems by simp
    moreover have "same_for did (deliver_entry now e db) (fold (deliver_entry now) es (deliver_entry now e db))"
      using Cons by simp
    ultimately show ?case using same_for_trans by simp
  qed simp
  moreover have "co_delegation_id e \<noteq> did" if "e \<in> set (list_outbox_pending_sync 50 db)" for e
    using that assms by (force simp: list_outbox_pending_sync_def sql_limit_def dest!: in_set_takeD)
  ultimately show ?thesis by (simp add: deliver_cancel_outbox_def)
qed

section \<open>Joining\<close>

lemma advance_join_tables:
  "dg_members (advance_join now d db) = dg_members db" "dg_results (advance_join now d db) = dg_results db"
  by (simp_all add: advance_join_def Let_def status_transactions_tables split: option.split)

lemma try_advance_joins_tables:
  "dg_members (try_advance_joins now db) = dg_members db" "dg_results (try_advance_joins now db) = dg_results db"
proof -
  have "dg_members (fold (advance_join now) ds db) = dg_members db \<and> dg_results (fold (advance_join now) ds db) = dg_results db" for ds
    by (induction ds arbitrary: db) (simp_all add: advance_join_tables)
  then show "dg_members (try_advance_joins now db) = dg_members db" "dg_results (try_advance_joins now db) = dg_results db"
    by (simp_all add: try_advance_joins_def)
qed

lemma advance_join_other:
  assumes "d_id d \<noteq> did"
  shows "same_for did db (advance_join now d db)"
proof -
  have adv: "dg_get_sync did (fst (advance_to_joining_sync now (d_id d) db)) = dg_get_sync did db"
    using assms by (auto simp: advance_to_joining_sync_def Let_def dg_get_sync_def
        intro!: fetchone_sql_update_other split: option.splits)
  have fin: "dg_get_sync did (fst (finalize_result_set_sync now (d_id d) st x)) = dg_get_sync did x" for st x
    using assms by (auto simp: finalize_result_set_sync_def Let_def dg_get_sync_def intro!: fetchone_sql_update_other)
  have "dg_get_sync did (advance_join now d db) = dg_get_sync did db"
    using adv fin finalize_cancelled_other [OF assms]
    by (auto simp: advance_join_def Let_def split: option.split)
  then show ?thesis by (simp add: same_for_def advance_join_tables)
qed

lemma fold_advance_join_other:
  assumes "\<And>d. d \<in> set ds \<Longrightarrow> d_id d \<noteq> did"
  shows "same_for did db (fold (advance_join now) ds db)"
  using assms
proof (induction ds arbitrary: db)
  case (Cons d ds)
  have "same_for did db (advance_join now d db)" using Cons.prems by (simp add: advance_join_other)
  with Cons.IH [of "advance_join now d db"] Cons.prems show ?case using same_for_trans by simp
qed simp

lemma advance_join_running:
  assumes inv: "delegation_inv db" and d: "dg_get_sync did db = Some d" "d_status d = DelegationStatus.RUNNING"
    and d0: "d_id d0 = did" "d_status d0 = DelegationStatus.RUNNING"
    and ms: "list_members_sync did db \<noteq> []" "list_all Member_is_terminal (list_members_sync did db)"
  shows "\<exists>d'. dg_get_sync did (advance_join now d0 db) = Some d' \<and>
    d_status d' = join_status (d_join_policy d) (d_aggregation d) (map (member_result db) (list_members_sync did db)) None False None \<and>
    d_join_policy d' = d_join_policy d \<and> d_aggregation d' = d_aggregation d"
proof -
  let ?db1 = "fst (advance_to_joining_sync now did db)"
  let ?j = "d\<lparr>d_status := DelegationStatus.JOINING, d_updated_at := now\<rparr>"
  have id: "d_id d = did" using d(1) by (auto simp: dg_get_sync_def dest: fetchone_SomeD)
  have D1: "dg_delegations ?db1 = sql_update (\<lambda>d. d_id d = did \<and> d_status d = DelegationStatus.RUNNING)
      (\<lambda>d. d\<lparr>d_status := DelegationStatus.JOINING, d_updated_at := now\<rparr>) (dg_delegations db)"
    using d by (simp add: advance_to_joining_sync_def Let_def)
  have get1: "dg_get_sync did ?db1 = Some ?j"
    using d id unfolding dg_get_sync_def D1 by (subst fetchone_key_sql_update) simp_all
  have same: "list_members_sync did ?db1 = list_members_sync did db" "member_result ?db1 = member_result db"
    by (simp_all add: list_members_sync_def member_result_def [abs_def] adopted_result_def status_transactions_tables)
  have "fetchone (\<lambda>r. rr_delegation_id r = did \<and> rr_result_scope r = ''delegation'' \<and> rr_adopted r) (dg_results ?db1) = None"
    using inv by (auto simp: fetchone_None_iff status_transactions_tables delegation_inv_def result_fits_def)
  then obtain rs where rs: "get_result_set_sync did ?db1 = Some rs"
      "rt_status rs = join_status (d_join_policy d) (d_aggregation d) (map (member_result db) (list_members_sync did db)) None False None"
    using ms(2) get1 by (simp add: get_result_set_sync_def Let_def same evaluate_join_outcome_def)
  let ?P = "\<lambda>d. d_id d = did \<and> d_status d = DelegationStatus.JOINING"
  have "?j \<in> set (dg_delegations ?db1)"
    using get1 by (auto simp: dg_get_sync_def dest: fetchone_SomeD)
  then have "filter ?P (dg_delegations ?db1) \<noteq> []"
    using id by (auto simp: filter_empty_conv intro!: bexI [of _ ?j])
  then have "rowcount ?P (dg_delegations ?db1) \<noteq> 0" by (simp add: rowcount_def)
  then have fin: "dg_delegations (fst (finalize_result_set_sync now did (rt_status rs) ?db1)) =
      sql_update ?P (\<lambda>d. d\<lparr>d_status := rt_status rs, d_updated_at := now\<rparr>) (dg_delegations ?db1)"
    by (simp add: finalize_result_set_sync_def Let_def)
  have "dg_get_sync did (fst (finalize_result_set_sync now did (rt_status rs) ?db1)) =
      Some (?j\<lparr>d_status := rt_status rs, d_updated_at := now\<rparr>)"
    using get1 id unfolding dg_get_sync_def fin by (subst fetchone_key_sql_update) simp_all
  moreover have "advance_join now d0 db = fst (finalize_result_set_sync now did (rt_status rs) ?db1)"
    using ms d0 rs(1) by (simp add: advance_join_def Let_def)
  ultimately show ?thesis using rs(2) by simp
qed

lemma try_advance_joins_running:
  assumes inv: "delegation_inv db" and d: "dg_get_sync did db = Some d" "d_status d = DelegationStatus.RUNNING"
    and ms: "list_members_sync did db \<noteq> []" "list_all Member_is_terminal (list_members_sync did db)"
    and few: "rowcount (\<lambda>d. \<not> Delegation_is_terminal d) (dg_delegations db) \<le> 100"
  shows "\<exists>d'. dg_get_sync did (try_advance_joins now db) = Some d' \<and>
    d_status d' = join_status (d_join_policy d) (d_aggregation d) (map (member_result db) (list_members_sync did db)) None False None \<and>
    d_join_policy d' = d_join_policy d \<and> d_aggregation d' = d_aggregation d"
proof -
  let ?as = "list_active_delegations_sync 100 db"
  have key: "keyed d_id (dg_delegations db)" using inv by (simp add: delegation_inv_def)
  have as: "?as = sort_key d_created_at (filter (\<lambda>d. \<not> Delegation_is_terminal d) (dg_delegations db))"
    using few by (simp add: list_active_delegations_sync_def sql_limit_def rowcount_def)
  have in_db: "d \<in> set (dg_delegations db)" "d_id d = did"
    using d(1) by (auto simp: dg_get_sync_def dest: fetchone_SomeD)
  then have "d \<in> set ?as"
    using d(2) by (simp add: as Delegation_is_terminal_def DELEGATION_TERMINAL_STATES_def)
  then obtain xs ys where split: "?as = xs @ d # ys" by (meson split_list)
  have "mset (map d_id ?as) = mset (map d_id (filter (\<lambda>d. \<not> Delegation_is_terminal d) (dg_delegations db)))"
    by (simp add: as)
  moreover have "distinct (map d_id (filter (\<lambda>d. \<not> Delegation_is_terminal d) (dg_delegations db)))"
    using key by (simp add: keyed_def distinct_map_filter)
  ultimately have "distinct (map d_id ?as)" by (metis mset_eq_imp_distinct_iff)
  then have other: "\<And>x. x \<in> set xs \<Longrightarrow> d_id x \<noteq> did" "\<And>x. x \<in> set ys \<Longrightarrow> d_id x \<noteq> did"
    using split in_db(2) by (auto simp: image_iff)
  let ?db1 = "fold (advance_join now) xs db"
  have "dg_members (fold (advance_join now) ds x) = dg_members x \<and> dg_results (fold (advance_join now) ds x) = dg_results x" for ds x
    by (induction ds arbitrary: x) (simp_all add: advance_join_tables)
  then have same1: "same_for did db ?db1" "dg_members ?db1 = dg_members db" "dg_results ?db1 = dg_results db"
    using fold_advance_join_other [of xs did] other(1) by auto
  have inv1: "delegation_inv ?db1"
    using transactions_fold [of xs "advance_join now" db] advance_join_transactions inv transactions_inv by blast
  have eq: "list_members_sync did ?db1 = list_members_sync did db" "member_result ?db1 = member_result db"
    by (simp_all add: list_members_sync_def member_result_def [abs_def] adopted_result_def same1)
  have "dg_get_sync did ?db1 = Some d" using same1(1) d(1) by (simp add: same_for_def)
  from advance_join_running [OF inv1 this d(2) in_db(2) d(2), of now] ms obtain d' where
    d': "dg_get_sync did (advance_join now d ?db1) = Some d'"
      "d_status d' = join_status (d_join_policy d) (d_aggregation d) (map (member_result db) (list_members_sync did db)) None False None"
      "d_join_policy d' = d_join_policy d" "d_aggregation d' = d_aggregation d"
    by (auto simp: eq)
  have "try_advance_joins now db = fold (advance_join now) ys (advance_join now d ?db1)"
    by (simp add: try_advance_joins_def split)
  moreover have "same_for did (advance_join now d ?db1) (fold (advance_join now) ys (advance_join now d ?db1))"
    using fold_advance_join_other [of ys did] other(2) by auto
  ultimately show ?thesis using d' by (auto simp: same_for_def)
qed

section \<open>The tick\<close>

lemma insort_key_map: "insort_key k (f x) (map f xs) = map f (insort_key (\<lambda>y. k (f y)) x xs)"
  by (induction xs) auto

lemma sort_key_map: "sort_key k (map f xs) = map f (sort_key (\<lambda>y. k (f y)) xs)"
  by (induction xs) (simp_all add: insort_key_map)

lemma sort_key_cong: "(\<And>x. k x = k' x) \<Longrightarrow> sort_key k xs = sort_key k' xs"
  by presburger

definition ready :: "string \<Rightarrow> Delegation \<Rightarrow> datetime \<Rightarrow> DelegationRunService \<Rightarrow> delegation_db \<Rightarrow> bool" where
  "ready did d now s db \<longleftrightarrow>
     dg_get_sync did db = Some d \<and> d_status d \<in> {DelegationStatus.PENDING, DelegationStatus.RUNNING} \<and>
     (case d_deadline_at d of None \<Rightarrow> True | Some t \<Rightarrow> now \<le> t) \<and>
     list_members_sync did db \<noteq> [] \<and>
     list_all (\<lambda>m. m_status m = DelegationMemberStatus.PENDING) (list_members_sync did db) \<and>
     list_all (\<lambda>e. co_acked_at e = None \<longrightarrow> co_delegation_id e \<noteq> did) (dg_outbox db) \<and>
     int (rowcount active_status (dg_members db)) \<le> cf_max_concurrency (rs_config s) \<and>
     rowcount (\<lambda>d. \<not> Delegation_is_terminal d) (dg_delegations db) \<le> 100 \<and> \<not> rs_kill_switch s"

lemma length_filter_implies: "(\<And>x. P x \<Longrightarrow> Q x) \<Longrightarrow> length (filter P xs) \<le> length (filter Q xs)"
  by (induction xs) auto

lemma pending_after_run:
  fixes now :: datetime
  assumes inv: "delegation_inv db" and exec: "answering_executor exec" and live: "\<And>k. \<not> killed k"
    and cap: "int (rowcount active_status (dg_members db)) \<le> cf_max_concurrency (rs_config s)"
    and get: "dg_get_sync did db = Some d" "d_status d \<in> {DelegationStatus.PENDING, DelegationStatus.RUNNING}"
    and ms: "list_members_sync did db \<noteq> []"
      "list_all (\<lambda>m. m_status m = DelegationMemberStatus.PENDING) (list_members_sync did db)"
  defines "db' \<equiv> claim_and_execute_pending exec killed now s db"
  shows "delegation_inv db'" and "\<exists>d'. dg_get_sync did db' = Some d' \<and> terms d' = terms d \<and> d_status d' = DelegationStatus.RUNNING"
    and "list_members_sync did db' = map (finished_by_run exec now s db) (list_members_sync did db)"
    and "map (member_result db') (list_members_sync did db') = map (run_result exec now s db) (list_members_sync did db)"
proof -
  let ?pend = "filter (\<lambda>m. m_status m = DelegationMemberStatus.PENDING) (dg_members db)"
  define M where "M = interleave (by_delegation (list_pending_members_sync (cf_max_concurrency (rs_config s)) db))"
  have key: "keyed m_id (dg_members db)" using inv by (simp add: delegation_inv_def)
  have "length ?pend \<le> rowcount active_status (dg_members db)"
    unfolding rowcount_def
    by (rule length_filter_implies) (simp add: active_status_def DELEGATION_MEMBER_TERMINAL_STATES_def)
  then have "mset M = mset ?pend"
    using cap by (simp add: M_def mset_round_robin list_pending_members_sync_def sql_limit_def)
  then have setM: "set M = set ?pend" and "mset (map m_id M) = mset (map m_id ?pend)"
    by (metis set_mset_mset, simp)
  moreover have "distinct (map m_id ?pend)" using key by (simp add: keyed_def distinct_map_filter)
  ultimately have dist: "distinct (map m_id M)" by (metis mset_eq_imp_distinct_iff)
  have fold: "delegation_inv db'" "same_terms db db'"
    "dg_members db' = sql_update (\<lambda>x. m_id x \<in> m_id ` set M) (finished_by_run exec now s db) (dg_members db)"
    "dg_results db' = dg_results db @ map (result_by_run exec now s db) M"
    "map_option d_status (dg_get_sync did db') =
      map_option (\<lambda>d. if did \<in> m_delegation_id ` set M \<and> d_status d = DelegationStatus.PENDING
                     then DelegationStatus.RUNNING else d_status d) (dg_get_sync did db)"
    using fold_claim_and_run [OF inv exec, where ms = M and killed = killed and did = did and now = now and s = s] live setM dist
    by (simp_all add: db'_def claim_and_execute_pending_def M_def Let_def)
  show "delegation_inv db'" by (rule fold(1))
  have mine: "m \<in> set ?pend" if "m \<in> set (list_members_sync did db)" for m
    using that ms(2) by (auto simp: list_members_sync_def list_all_iff)
  have in_list: "m \<in> set (dg_members db) \<Longrightarrow> m_delegation_id m = did \<Longrightarrow> m \<in> set (list_members_sync did db)" for m
    by (simp add: list_members_sync_def)
  have "did \<in> m_delegation_id ` set M"
  proof -
    obtain m where "m \<in> set (list_members_sync did db)" using ms(1) by (meson list.set_sel(1))
    then have "m \<in> set M" "m_delegation_id m = did"
      using mine setM by (auto simp: list_members_sync_def)
    then show ?thesis by blast
  qed
  moreover have "map_option terms (dg_get_sync did db') = Some (terms d)"
    using fold(2) get(1) by (simp add: same_terms_def)
  ultimately show "\<exists>d'. dg_get_sync did db' = Some d' \<and> terms d' = terms d \<and> d_status d' = DelegationStatus.RUNNING"
    using fold(5) get by auto
  have "filter (\<lambda>m. m_delegation_id m = did) (dg_members db') =
      map (finished_by_run exec now s db) (filter (\<lambda>m. m_delegation_id m = did) (dg_members db))"
  proof -
    have "m_id m \<in> m_id ` set M" if "m \<in> set (dg_members db)" "m_delegation_id m = did" for m
      using mine [OF in_list [OF that]] setM by auto
    then show ?thesis
      unfolding fold(3)
      by (induction "dg_members db") (auto simp: sql_update_def filter_map comp_def)
  qed
  then show members: "list_members_sync did db' = map (finished_by_run exec now s db) (list_members_sync did db)"
    by (simp add: list_members_sync_def sort_key_map)
  have "member_result db' (finished_by_run exec now s db m) = run_result exec now s db m"
    if m: "m \<in> set (list_members_sync did db)" for m
  proof -
    have mM: "m \<in> set M" and "m \<in> set (dg_members db)" "m_status m = DelegationMemberStatus.PENDING"
      using mine [OF m] setM by auto
    then have "adopted_result (m_id m) db = None"
      using no_result_before [OF inv] by (auto simp: Member_is_terminal_def DELEGATION_MEMBER_TERMINAL_STATES_def)
    moreover have "fetchone (\<lambda>r. rr_member_id r = Some (m_id m) \<and> rr_adopted r) (map (result_by_run exec now s db) M) =
        Some (result_by_run exec now s db m)"
      using mM dist
      by (induction M) (auto simp: sql_simps result_by_run_def member_result_row_def image_iff)
    ultimately have "adopted_result (m_id m) db' = Some (result_by_run exec now s db m)"
      by (simp add: adopted_result_def fold(4) fetchone_append)
    then show ?thesis by (simp add: member_result_def result_by_run_def member_result_row_def)
  qed
  then show "map (member_result db') (list_members_sync did db') = map (run_result exec now s db) (list_members_sync did db)"
    by (simp add: members)
qed

lemma same_for_members: "same_for did db db' \<Longrightarrow> list_members_sync did db' = list_members_sync did db"
  by (simp add: same_for_def list_members_sync_def)

lemma run_result_same_for:
  assumes "same_for (m_delegation_id m) db db'"
  shows "run_result exec now s db' m = run_result exec now s db m"
  using assms unfolding run_result_def run_outcome_def
  by (subst execute_member_terms [of _ db' db]) (simp_all add: same_for_def)

lemma join_status_terminal:
  "join_status policy aggregation results None False None \<in> {DelegationStatus.SUCCEEDED, DelegationStatus.FAILED}"
  by (auto simp: join_status_def split: DelegationAggregationPolicy.split)

text \<open>Expiry, recovery and the delivery of cancellations do not touch a delegation that is ready.\<close>

lemma before_claims:
  assumes inv: "delegation_inv db" and ready: "ready did d now s db"
  shows "same_for did db (deliver_cancel_outbox now (fst (mark_stale_sync now (fst (mark_expired_sync now db)))))"
    and "legal_rewrite\<^sup>*\<^sup>* db (deliver_cancel_outbox now (fst (mark_stale_sync now (fst (mark_expired_sync now db)))))"
    and "delegation_inv (deliver_cancel_outbox now (fst (mark_stale_sync now (fst (mark_expired_sync now db)))))"
proof -
  let ?db1 = "fst (mark_expired_sync now db)"
  let ?db2 = "fst (mark_stale_sync now ?db1)"
  let ?db3 = "deliver_cancel_outbox now ?db2"
  have d: "dg_get_sync did db = Some d" and key: "keyed d_id (dg_delegations db)"
    using ready inv by (simp_all add: ready_def delegation_inv_def)
  have pend: "m_status m = DelegationMemberStatus.PENDING" if "m \<in> set (dg_members db)" "m_delegation_id m = did" for m
    using ready that by (auto simp: ready_def list_members_sync_def list_all_iff)
  have s1: "same_for did db ?db1"
    using expire_same_for [OF key d] ready by (simp add: ready_def)
  have s2: "same_for did ?db1 ?db2"
    by (rule stale_same_for) (use pend in \<open>simp add: status_transactions_tables\<close>)
  have "dg_outbox ?db2 = dg_outbox db"
    by (simp add: mark_expired_sync_def mark_stale_sync_def Let_def)
  then have s3: "same_for did ?db2 ?db3"
    using ready by (intro deliver_same_for) (auto simp: ready_def list_all_iff)
  show "same_for did db ?db3" using s1 s2 s3 same_for_trans by blast
  show "legal_rewrite\<^sup>*\<^sup>* db ?db3"
    using deliver_rewrites [of ?db2 now] mark_expired_rewrite [of db now] mark_stale_rewrite [of ?db1 now]
    by (meson converse_rtranclp_into_rtranclp)
  have "transactions db ?db2" by (meson transactions_trans transaction_intros)
  moreover have "transactions ?db2 ?db3"
    unfolding deliver_cancel_outbox_def by (intro transactions_fold deliver_entry_transactions)
  ultimately show "delegation_inv ?db3" using inv transactions_trans transactions_inv by blast
qed

lemma tick_completes:
  assumes inv: "delegation_inv db" and exec: "answering_executor exec" and ready: "ready did d now s db"
  shows "\<exists>d'. dg_get_sync did (delegation_tick exec (\<lambda>_. False) now s db) = Some d' \<and> Delegation_is_terminal d' \<and>
    d_status d' = join_status (d_join_policy d) (d_aggregation d)
      (map (run_result exec now s db) (list_members_sync did db)) None False None \<and>
    d_join_policy d' = d_join_policy d \<and> d_aggregation d' = d_aggregation d"
    and "list_all Member_is_terminal (list_members_sync did (delegation_tick exec (\<lambda>_. False) now s db))"
    and "map (member_result (delegation_tick exec (\<lambda>_. False) now s db))
      (list_members_sync did (delegation_tick exec (\<lambda>_. False) now s db)) =
      map (run_result exec now s db) (list_members_sync did db)"
proof -
  let ?db3 = "deliver_cancel_outbox now (fst (mark_stale_sync now (fst (mark_expired_sync now db))))"
  let ?db4 = "claim_and_execute_pending exec (\<lambda>_. False) now s ?db3"
  note same = before_claims(1) [OF inv ready] and rw = before_claims(2) [OF inv ready]
    and inv3 = before_claims(3) [OF inv ready]
  have d: "dg_get_sync did db = Some d" "d_status d \<in> {DelegationStatus.PENDING, DelegationStatus.RUNNING}"
    using ready by (simp_all add: ready_def)
  have cap: "int (rowcount active_status (dg_members ?db3)) \<le> cf_max_concurrency (rs_config s)"
    using rewrites_count(2) [OF rw] ready by (simp add: ready_def)
  have get3: "dg_get_sync did ?db3 = Some d" "list_members_sync did ?db3 = list_members_sync did db"
    using same d(1) same_for_members by (auto simp: same_for_def)
  have ms3: "list_members_sync did ?db3 \<noteq> []"
    "list_all (\<lambda>m. m_status m = DelegationMemberStatus.PENDING) (list_members_sync did ?db3)"
    using ready by (simp_all add: ready_def get3)
  have no_kill: "\<not> (\<lambda>_. False) k" for k :: string by simp
  note after = pending_after_run [OF inv3 exec no_kill cap get3(1) d(2) ms3, of now]
  obtain d4 where d4: "dg_get_sync did ?db4 = Some d4" "terms d4 = terms d" "d_status d4 = DelegationStatus.RUNNING"
    using after(2) by blast
  have results: "map (member_result ?db4) (list_members_sync did ?db4) = map (run_result exec now s db) (list_members_sync did db)"
    unfolding after(4) get3(2)
    by (rule map_cong [OF refl]) (use run_result_same_for same in \<open>auto simp: list_members_sync_def\<close>)
  have "legal_rewrite\<^sup>*\<^sup>* db ?db4"
    using rw fold_claim_and_run_rewrites [OF inv3] exec
    unfolding claim_and_execute_pending_def answering_executor_def by (meson rtranclp_trans)
  then have few: "rowcount (\<lambda>d. \<not> Delegation_is_terminal d) (dg_delegations ?db4) \<le> 100"
    using rewrites_count(1) [of db ?db4] ready by (simp add: ready_def)
  have "list_members_sync did ?db4 \<noteq> []" "list_all Member_is_terminal (list_members_sync did ?db4)"
    using ms3(1) run_outcome_answers(2) [OF exec] by (auto simp: after(3) list_all_iff Member_is_terminal_def)
  note ms4 = this
  have final: "delegation_tick exec (\<lambda>_. False) now s db = try_advance_joins now ?db4"
    using ready by (simp add: delegation_tick_def Let_def ready_def)
  from try_advance_joins_running [OF after(1) d4(1,3) ms4 few, of now] obtain d' where
    d': "dg_get_sync did (try_advance_joins now ?db4) = Some d'"
    "d_status d' = join_status (d_join_policy d) (d_aggregation d)
       (map (run_result exec now s db) (list_members_sync did db)) None False None"
    "d_join_policy d' = d_join_policy d" "d_aggregation d' = d_aggregation d"
    using d4(2) by (auto simp: results terms_def)
  moreover have "Delegation_is_terminal d'"
    using d'(2) join_status_terminal [of "d_join_policy d" "d_aggregation d"]
    by (auto simp: Delegation_is_terminal_def DELEGATION_TERMINAL_STATES_def)
  ultimately show "\<exists>d'. dg_get_sync did (delegation_tick exec (\<lambda>_. False) now s db) = Some d' \<and> Delegation_is_terminal d' \<and>
    d_status d' = join_status (d_join_policy d) (d_aggregation d)
      (map (run_result exec now s db) (list_members_sync did db)) None False None \<and>
    d_join_policy d' = d_join_policy d \<and> d_aggregation d' = d_aggregation d"
    unfolding final by blast
  have "list_members_sync did (try_advance_joins now ?db4) = list_members_sync did ?db4"
    "member_result (try_advance_joins now ?db4) = member_result ?db4"
    by (simp_all add: list_members_sync_def member_result_def [abs_def] adopted_result_def try_advance_joins_tables)
  then show "list_all Member_is_terminal (list_members_sync did (delegation_tick exec (\<lambda>_. False) now s db))"
    "map (member_result (delegation_tick exec (\<lambda>_. False) now s db))
      (list_members_sync did (delegation_tick exec (\<lambda>_. False) now s db)) =
      map (run_result exec now s db) (list_members_sync did db)"
    unfolding final using ms4(2) results by simp_all
qed

section \<open>Properties\<close>

text \<open>
  Every tick, whatever the executor, the kill switch and the state of the registry, is a sequence of
  registry transactions: what they keep (exclusive member claims, the life cycles, one adopted result
  per member), a tick keeps.
\<close>

theorem tick_refines_transactions:
  assumes "delegation_inv db" and "terminal_executor exec"
  shows "\<exists>es. lts_run delegation_step db es (delegation_tick exec killed now s db) \<and>
    delegation_inv (delegation_tick exec killed now s db)"
  using delegation_tick_transactions [OF assms] transactions_inv [OF _ assms(1)]
  unfolding transactions_def by blast

text \<open>
  A tick finishes what it can: when the members of a delegation are all pending, its deadline
  has not passed, no cancellation of it waits, the kill switch is off and the concurrency limit has room
  for the active members, then after one tick the delegation is terminal, with the status that its
  join policy gives for the results of its members in the order of their ordinals.
\<close>

theorem tick_joins_delegation:
  assumes "delegation_inv db" and "answering_executor exec" and "ready did d now s db"
  shows "\<exists>d'. dg_get_sync did (delegation_tick exec (\<lambda>_. False) now s db) = Some d' \<and> Delegation_is_terminal d' \<and>
    d_status d' = join_status (d_join_policy d) (d_aggregation d)
      (map (run_result exec now s db) (list_members_sync did db)) None False None"
  using tick_completes(1) [OF assms] by blast

definition demo_executor :: child_executor where
  "demo_executor m model cap dl run = (Returned (DelegationResult_new DelegationMemberStatus.SUCCEEDED), 20)"

definition demo_service :: DelegationRunService where
  "demo_service = \<lparr>rs_config = DelegationPolicyConfig_default, rs_kill_switch = False, rs_parent_caps = (\<lambda>_. None)\<rparr>"

lemma demo_executor_answers: "answering_executor demo_executor"
  by (simp add: answering_executor_def terminal_executor_def demo_executor_def DelegationResult_new_def
      DELEGATION_MEMBER_TERMINAL_STATES_def)

theorem tick_refines_transactions_witness:
  "\<exists>es. lts_run delegation_step demo_created es (delegation_tick demo_executor (\<lambda>_. False) 10 demo_service demo_created) \<and>
    delegation_inv (delegation_tick demo_executor (\<lambda>_. False) 10 demo_service demo_created)"
  using tick_refines_transactions [OF demo_inv, of demo_executor] demo_executor_answers
  by (simp add: answering_executor_def)

theorem tick_joins_delegation_witness:
  "\<exists>d'. dg_get_sync ''d1'' (delegation_tick demo_executor (\<lambda>_. False) 10 demo_service demo_created) = Some d' \<and>
    d_status d' = DelegationStatus.SUCCEEDED"
proof -
  have "ready ''d1'' (inserted_delegation 0 ''d1'' demo_request) 10 demo_service demo_created" by code_simp
  moreover have "join_status (d_join_policy (inserted_delegation 0 ''d1'' demo_request))
      (d_aggregation (inserted_delegation 0 ''d1'' demo_request))
      (map (run_result demo_executor 10 demo_service demo_created) (list_members_sync ''d1'' demo_created)) None False None
      = DelegationStatus.SUCCEEDED" by code_simp
  ultimately show ?thesis
    using tick_joins_delegation [OF demo_inv demo_executor_answers, of "''d1''"] by metis
qed

end
