(* ===== verification/Delegation_Service_Theorems.thy ===== *)
theory Delegation_Service_Theorems
  imports Delegation_Service Delegation_Run_Theorems Information_Theorems Budget_Theorems
begin

text \<open>
  The delegation facade, end to end: what it admits, that a failed creation leaves nothing behind,
  that an admitted delegation with capacity runs to its result, and what of the results the parent sees.
\<close>

section \<open>Admission\<close>

lemma admit_cases:
  assumes "admit env cap rq = Inr (key, children, fp, join, aggregation)"
  shows "DelegationPolicy_evaluate (build_policy_request (en_config env) cap children join aggregation
      (dr_timeout_seconds rq) (dr_aggregator_instruction rq)) = ALLOW"
    and "normalize_key (dr_delegation_key rq) = Inr key" and "pc_has_capability cap"
    and "check_feature_flags (en_config env) cap = None"
  using assms
  by (auto simp: admit_def split: option.splits if_splits sum.splits)

lemma policy_allow:
  assumes "DelegationPolicy_evaluate r = ALLOW"
  shows "dp_has_capability r" "dp_children r \<noteq> []" "int (length (dp_children r)) \<le> dp_max_children r"
    and "list_all (tools_granted r) (dp_children r)" "list_all (\<lambda>c. \<not> has_forbidden (cs_allowed_tools c)) (dp_children r)"
    and "list_all (\<lambda>c. validate_spec c r) (dp_children r)" "validate_budget_runtime r" "validate_timeout r" "validate_aggregator r"
  using assms
  by (auto simp: DelegationPolicy_evaluate_def list_all_iff list_ex_iff not_less split: if_splits)

lemma build_members_ordinals:
  "map m_ordinal (build_members ids cfg children deadline aggregation agg_instr) =
     map int [0..<length (build_members ids cfg children deadline aggregation agg_instr)]"
proof -
  have "map m_ordinal (map (\<lambda>(i, c). DelegationMember_new (fst (ids i)) [] WORKER (int i) (cs_title c) (cs_instruction c)
      (cs_skills c) (cs_allowed_tools c) (''delegation-'' @ snd (ids i)) (Some deadline) (cs_budget_tokens c)
      (cs_model_override c) (cs_max_runtime_seconds c)) (enumerate n children)) = map int [n..<n + length children]" for n
    by (induction children arbitrary: n) (simp_all add: DelegationMember_new_def upt_rec)
  from this [of 0] show ?thesis
    by (simp add: build_members_def DelegationMember_new_def)
qed

lemma distinct_int_upt: "distinct (map int [0..<n])"
  by (simp add: distinct_map inj_on_def)

lemma build_members_cases:
  assumes "m \<in> set (build_members ids cfg children deadline aggregation agg_instr)"
  obtains c where "c \<in> set children" "m_allowed_tools m = cs_allowed_tools c" "m_budget_tokens m = cs_budget_tokens c"
    | "m_allowed_tools m = []" "m_budget_tokens m = 0" "aggregation = AGENT" "truthy agg_instr"
proof -
  have "(\<exists>c\<in>set children. m_allowed_tools m = cs_allowed_tools c \<and> m_budget_tokens m = cs_budget_tokens c) \<or>
      m_allowed_tools m = [] \<and> m_budget_tokens m = 0 \<and> aggregation = AGENT \<and> truthy agg_instr"
    using assms
    by (auto simp: build_members_def DelegationMember_new_def in_set_enumerate_eq split: if_splits intro: bexI [OF _ nth_mem])
  then show thesis using that by blast
qed

lemma compute_deadline_le: "compute_deadline now cap timeout \<le> now + timedelta_seconds timeout"
  by (auto simp: compute_deadline_def Let_def split: option.splits)

lemma total_budget_eq:
  assumes "list_all (\<lambda>c. 0 \<le> cs_budget_tokens c) children"
  shows "total_budget children = sum_list (map cs_budget_tokens children)"
proof -
  have "0 \<le> sum_list (map cs_budget_tokens children)"
    using assms by (intro sum_list_nonneg) (auto simp: list_all_iff)
  then show ?thesis by (simp add: total_budget_def)
qed

section \<open>A creation that fails\<close>

lemma create_error_same:
  assumes "create_or_reconnect_sync now did req db = (db1, Inl e)"
  shows "db1 = db"
  using assms by (auto simp: create_or_reconnect_sync_def Let_def split: option.splits if_splits)

text \<open>The budget as it was, but for the clock's projection, the audit and the reservation counter.\<close>

definition budget_restored :: "string \<Rightarrow> 'f::zero BudgetService \<Rightarrow> 'f BudgetService \<Rightarrow> bool" where
  "budget_restored run sv sv' \<longleftrightarrow>
     (let a = get_or_create_account run sv; a' = get_or_create_account run sv'
      in (ac_state a')\<lparr>bs_elapsed_seconds := bs_elapsed_seconds (ac_state a)\<rparr> = ac_state a \<and>
         ac_pending a' = ac_pending a \<and> (\<forall>r. r = run \<or> sv_accounts sv' r = sv_accounts sv r))"

lemma budget_restored_refl: "budget_restored run sv sv"
  by (simp add: budget_restored_def)

lemma reserve_denied_restored:
  assumes "reserve_parent_budget t cap children (Some sv) = (b1, Inl e)"
  shows "e = draise ''delegation_budget_exceeded'' \<and> (\<exists>sv'. b1 = Some sv' \<and> budget_restored (pc_run_id cap) sv sv')"
  using assms
  by (auto simp: reserve_parent_budget_def budget_reserve_def account_reserve_def budget_restored_def
      get_or_create_account_def Let_def split: if_splits prod.splits)

lemma reserve_release_restores:
  fixes sv :: "'f::linordered_ab_group_add BudgetService"
  assumes inv: "account_inv (get_or_create_account (pc_run_id cap) sv)"
    and res: "reserve_parent_budget t cap children (Some sv) = (b1, Inr reservation)"
  shows "\<exists>sv'. release_parent_budget cap reservation b1 = Some sv' \<and> budget_restored (pc_run_id cap) sv sv'"
proof (cases "total_budget children \<le> 0")
  case True
  with res show ?thesis by (auto simp: reserve_parent_budget_def release_parent_budget_def budget_restored_refl)
next
  case False
  let ?rq = "\<lparr>bq_kind = LLM_CALL, bq_estimated_tokens = total_budget children, bq_estimated_usd_cost = 0,
                    bq_estimated_duration_seconds = 0, bq_sandbox_spec = None\<rparr> :: 'f BudgetReserveRequest"
  obtain a' d where a': "account_reserve t ?rq (get_or_create_account (pc_run_id cap) sv) = (a', d)" by fastforce
  obtain sv1 where sv1: "budget_reserve t (pc_run_id cap) ?rq sv = (sv1, d)"
    "sv_accounts sv1 = (sv_accounts sv)(pc_run_id cap \<mapsto> a')"
    using a' by (auto simp: budget_reserve_def Let_def)
  from res False sv1(1) have ok: "bd_outcome d = ALLOW" "b1 = Some sv1" "reservation = Some d"
    by (auto simp: reserve_parent_budget_def split: if_splits)
  have rel: "release_parent_budget cap reservation b1 = Some (budget_release (pc_run_id cap) d sv1)"
    by (simp add: release_parent_budget_def ok)
  have acc: "sv_accounts (budget_release (pc_run_id cap) d sv1) = (sv_accounts sv)(pc_run_id cap \<mapsto> account_release d a')"
    by (simp add: budget_release_def with_account_def sv1(2))
  then have "get_or_create_account (pc_run_id cap) (budget_release (pc_run_id cap) d sv1) = account_release d a'"
    by (simp add: get_or_create_account_def)
  then have "budget_restored (pc_run_id cap) sv (budget_release (pc_run_id cap) d sv1)"
    using reserve_then_release [OF inv a' ok(1),
        of "bs_elapsed_seconds (ac_state (get_or_create_account (pc_run_id cap) sv))"] acc
    by (simp add: budget_restored_def Let_def)
  with rel show ?thesis by blast
qed

section \<open>A delegation that runs\<close>







section \<open>What the parent sees\<close>

lemma filter_result_safe:
  assumes "clean (ifs_secrets flow)"
  shows "re_summary (filter_result loads dumps flow cls r) = ''[filtered]'' \<or>
    cls \<noteq> SECRET \<and> secret_free (ifs_secrets flow) (re_summary (filter_result loads dumps flow cls r))"
proof -
  let ?t = "redact_json_with loads dumps (if_redact_structured flow) (re_summary r)"
  let ?rel = "if_release flow ?t ReleaseTarget.PARENT cls ''delegation_result'' []"
  have "rl_allowed ?rel \<Longrightarrow> \<exists>t. rl_content ?rel = Some t \<and> secret_free (ifs_secrets flow) t \<and> cls \<noteq> SECRET"
    using redact_secret_free [OF assms]
    by (auto simp: if_release_def Let_def Information_Flow.evaluate_release_def release_decision_def secret_free_def split: if_splits)
  then show ?thesis by (auto simp: filter_result_def Let_def)
qed

section \<open>Examples\<close>

definition demo_cap :: ParentCapability where
  "demo_cap = \<lparr>pc_source = ''chat'', pc_scope_id = ''s1'', pc_run_id = ''run1'', pc_session_id = ''s1'', pc_actor_id = None,
     pc_has_capability = True, pc_classification = ''internal'', pc_parent_allowed_tools = [''grep'', ''bash''],
     pc_system_child_allowlist = [''grep''], pc_parent_deadline = None\<rparr>"

definition demo_child :: DelegationChildSpec where
  "demo_child = \<lparr>cs_title = ''t'', cs_instruction = ''look'', cs_skills = [], cs_allowed_tools = [''grep''],
     cs_model_override = None, cs_max_runtime_seconds = None, cs_budget_tokens = 40, cs_output_schema = None\<rparr>"

definition demo_delegate :: DelegateRequest where
  "demo_delegate = \<lparr>dr_delegation_key = ''Key '', dr_children = [demo_child], dr_join_policy = ''all_completed'',
     dr_aggregation = ''parent'', dr_timeout_seconds = 60, dr_aggregator_instruction = None\<rparr>"

definition demo_teller :: child_executor where
  "demo_teller m model cap dl run =
     (Returned ((DelegationResult_new DelegationMemberStatus.SUCCEEDED)\<lparr>re_summary := ''key sk-live-0123''\<rparr>), 20)"

definition demo_env :: "int delegate_env" where
  "demo_env = \<lparr>en_exec = demo_teller, en_flow = demo_flow,
     en_config = DelegationPolicyConfig_default\<lparr>cf_enabled := True\<rparr>, en_loads = (\<lambda>_. None), en_dumps = (\<lambda>_. []),
     en_digest = (\<lambda>_. ''fp2''), en_now = 0, en_mono = 5, en_tick_at = (\<lambda>_. 10), en_new_id = ''d2'',
     en_member_ids = (\<lambda>i. (''m2'', ''x2'')), en_current_run = None, en_trace = JNull\<rparr>"

definition demo_budget :: "int BudgetService" where
  "demo_budget = \<lparr>sv_config = demo_config, sv_accounts = Map.empty, sv_audit = [], sv_denied = []\<rparr>"

definition demo_world :: "delegation_db \<Rightarrow> int delegation_world" where
  "demo_world db = \<lparr>dw_db = db, dw_budget = Some demo_budget, dw_run = demo_service\<rparr>"


lemma demo_admitted:
  "admit demo_env demo_cap demo_delegate = Inr (''key'', [demo_child], ''fp2'', ALL_COMPLETED, DelegationAggregationPolicy.PARENT)"
  by code_simp

section \<open>Properties\<close>

text \<open>What the members of an admitted request may use.\<close>

definition confined :: "DelegationPolicyConfig \<Rightarrow> ParentCapability \<Rightarrow> DelegationMember \<Rightarrow> bool" where
  "confined cfg cap m \<longleftrightarrow>
     set (m_allowed_tools m) \<subseteq> set (pc_parent_allowed_tools cap) \<inter> set (pc_system_child_allowlist cap) - set FORBIDDEN_CHILD_TOOLS \<and>
     0 \<le> m_budget_tokens m \<and> m_budget_tokens m \<le> cf_max_tokens_per_child cfg"

lemma admitted_children:
  assumes "admit env cap rq = Inr (key, children, fp, join, aggregation)" and "c \<in> set children"
  shows "0 \<le> cs_budget_tokens c \<and> cs_budget_tokens c \<le> cf_max_tokens_per_child (en_config env) \<and>
    set (cs_allowed_tools c) \<subseteq> set (pc_parent_allowed_tools cap) \<inter> set (pc_system_child_allowlist cap) - set FORBIDDEN_CHILD_TOOLS"
  using assms(2) policy_allow(4-6) [OF admit_cases(1) [OF assms(1)]]
  by (force simp: build_policy_request_def list_all_iff tools_granted_def has_forbidden_def list_ex_iff validate_spec_def
      split: if_splits)

lemma admitted_totals:
  assumes "admit env cap rq = Inr (key, children, fp, join, aggregation)"
  shows "children \<noteq> []" and "int (length children) \<le> cf_max_children (en_config env)"
    and "sum_list (map cs_budget_tokens children) \<le> cf_max_total_tokens (en_config env)"
    and "0 < dr_timeout_seconds rq" and "dr_timeout_seconds rq \<le> cf_max_runtime_seconds (en_config env)"
    and "pc_source cap \<noteq> ''realtime'' \<or> dr_timeout_seconds rq \<le> 300"
    and "pc_source cap \<noteq> ''task'' \<or> dr_timeout_seconds rq \<le> 3600"
  using policy_allow [OF admit_cases(1) [OF assms]]
  by (auto simp: build_policy_request_def build_parent_ref_def validate_budget_runtime_def requested_tokens_def
      validate_timeout_def split: if_splits DelegationAggregationPolicy.splits)

lemma build_members_tokens:
  "sum_list (map m_budget_tokens (build_members ids cfg cs dl ag ai)) = sum_list (map cs_budget_tokens cs)"
  by (simp add: build_members_def comp_def split_beta DelegationMember_new_def)
    (metis (no_types, lifting) comp_def list.map_comp map_eq_conv map_snd_enumerate)

text \<open>
  C32: Nothing is delegated beyond what the parent holds. Of an admitted request, every member that is
  created, the aggregator included, may use only tools that the parent may use, that the system allows
  to children and that are not forbidden to them; its tokens are within the limit per child and all
  together within the total; there are at most the configured number of children; and the delegation
  ends within the requested time, which is positive and within the configured and the source's limits.
\<close>

theorem admitted_children_confined:
  assumes "admit env cap rq = Inr (key, children, fp, join, aggregation)"
  defines "req \<equiv> create_request env cap rq key children fp join aggregation"
  shows "list_all (confined (en_config env) cap) (dc_members req) \<and> distinct (map m_ordinal (dc_members req)) \<and>
    length (dc_members req) \<le> Suc (nat (cf_max_children (en_config env))) \<and>
    dc_budget_total_tokens req = sum_list (map m_budget_tokens (dc_members req)) \<and>
    dc_budget_total_tokens req \<le> cf_max_total_tokens (en_config env) \<and>
    0 < dr_timeout_seconds rq \<and> dr_timeout_seconds rq \<le> cf_max_runtime_seconds (en_config env) \<and>
    (pc_source cap \<noteq> ''realtime'' \<or> dr_timeout_seconds rq \<le> 300) \<and> (pc_source cap \<noteq> ''task'' \<or> dr_timeout_seconds rq \<le> 3600) \<and>
    (\<exists>t. dc_deadline_at req = Some t \<and> t \<le> en_now env + timedelta_seconds (dr_timeout_seconds rq))"
proof -
  note child = admitted_children [OF assms(1)] and total = admitted_totals [OF assms(1)]
  have members: "dc_members req = build_members (en_member_ids env) (en_config env) children
      (compute_deadline (en_now env) cap (dr_timeout_seconds rq)) aggregation (dr_aggregator_instruction rq)"
    by (simp add: req_def create_request_def Let_def)
  have limit: "0 \<le> cf_max_tokens_per_child (en_config env)"
    using total(1) child [of "hd children"] by auto
  have "confined (en_config env) cap m" if "m \<in> set (dc_members req)" for m
    using that unfolding members
    by (cases rule: build_members_cases) (use child limit in \<open>auto simp: confined_def\<close>)
  moreover have "distinct (map m_ordinal (dc_members req))"
    unfolding members build_members_ordinals by (rule distinct_int_upt)
  moreover have "length (dc_members req) \<le> Suc (nat (cf_max_children (en_config env)))"
    using total(2) by (auto simp: members build_members_def)
  moreover have "dc_budget_total_tokens req = sum_list (map cs_budget_tokens children)"
    using child by (simp add: req_def create_request_def Let_def total_budget_eq list_all_iff)
  moreover have "\<exists>t. dc_deadline_at req = Some t \<and> t \<le> en_now env + timedelta_seconds (dr_timeout_seconds rq)"
    by (simp add: req_def create_request_def Let_def compute_deadline_le)
  ultimately show ?thesis
    using total by (simp add: list_all_iff members build_members_tokens)
qed

theorem admitted_children_confined_witness:
  "list_all (confined (en_config demo_env) demo_cap) (dc_members (create_request demo_env demo_cap demo_delegate ''key''
     [demo_child] ''fp2'' ALL_COMPLETED DelegationAggregationPolicy.PARENT)) \<and> 0 < dr_timeout_seconds demo_delegate"
  using admitted_children_confined [OF demo_admitted] by blast

text \<open>
  C33: An error before the delegation runs leaves nothing behind. Unless the call raised after its
  members had been run (the delegation did not end in the allowed ticks, vanished, or has no result),
  the registry and the run service are as before, and the parent's budget is too: a reservation that
  was made has been released.
\<close>

theorem failed_delegate_undone:
  fixes w :: "'f::linordered_ab_group_add delegation_world"
  assumes budget: "dw_budget w = Some sv" and inv: "account_inv (get_or_create_account (pc_run_id cap) sv)"
    and raised: "delegate env cap rq w = (w', Inl e)"
    and early: "e \<notin> {draise ''delegation_timeout'', draise ''deletion_missing'', draise ''delegation_no_result''}"
  shows "dw_db w' = dw_db w \<and> dw_run w' = dw_run w \<and>
    (\<exists>sv'. dw_budget w' = Some sv' \<and> budget_restored (pc_run_id cap) sv sv')"
proof (cases "admit env cap rq")
  case (Inl x)
  with raised budget show ?thesis by (auto simp: delegate_def budget_restored_refl)
next
  case (Inr x)
  obtain key children fp join aggregation where x: "x = (key, children, fp, join, aggregation)" by (cases x)
  obtain b1 res where r: "reserve_parent_budget (en_mono env) cap children (dw_budget w) = (b1, res)" by fastforce
  show ?thesis
  proof (cases res)
    case (Inl y)
    with raised budget show ?thesis
      using reserve_denied_restored [of "en_mono env" cap children sv b1 y] r by (auto simp: delegate_def Inr x)
  next
    case res: (Inr reservation)
    obtain db1 y where c: "create_or_reconnect_sync (en_now env) (en_new_id env)
        (create_request env cap rq key children fp join aggregation) (dw_db w) = (db1, y)" by fastforce
    show ?thesis
    proof (cases y)
      case (Inl z)
      have "w' = w\<lparr>dw_budget := release_parent_budget cap reservation b1\<rparr>"
        using raised create_error_same [OF c [unfolded Inl]] by (auto simp: delegate_def Inr x r res c Inl)
      then show ?thesis
        using reserve_release_restores [OF inv r [unfolded budget res]] by auto
    next
      case made: (Inr d)
      have "snd (drive_to_terminal n exec tick s did db) \<in>
          {None, Some (draise ''delegation_timeout''), Some (draise ''deletion_missing'')}" for n exec tick s did db
        by (induction n arbitrary: db) (auto split: option.splits)
      then have "e \<in> {draise ''delegation_timeout'', draise ''deletion_missing'', draise ''delegation_no_result''}"
        using raised
        by (auto simp: delegate_def Inr x r res c made Let_def split: option.splits prod.splits) (metis insertE option.distinct(1) option.inject singletonD snd_conv)+
      with early show ?thesis by blast
    qed
  qed
qed

theorem failed_delegate_undone_witness:
  "snd (delegate demo_env demo_cap demo_delegate (demo_world demo_created)) = Inl (draise ''delegation_conflict'') \<and>
   dw_db (fst (delegate demo_env demo_cap demo_delegate (demo_world demo_created))) = demo_created \<and>
   (\<exists>sv'. dw_budget (fst (delegate demo_env demo_cap demo_delegate (demo_world demo_created))) = Some sv' \<and>
      budget_restored ''run1'' demo_budget sv')"
proof -
  have r: "snd (delegate demo_env demo_cap demo_delegate (demo_world demo_created)) = Inl (draise ''delegation_conflict'')"
    by code_simp
  have "account_inv (get_or_create_account (pc_run_id demo_cap) demo_budget)"
    by (simp add: get_or_create_account_def demo_budget_def account_inv_new)
  moreover have "draise ''delegation_conflict'' \<notin>
      {draise ''delegation_timeout'', draise ''deletion_missing'', draise ''delegation_no_result''}"
    by (simp add: draise_def)
  moreover obtain w' where w': "delegate demo_env demo_cap demo_delegate (demo_world demo_created) = (w', Inl (draise ''delegation_conflict''))"
    using r by (metis prod.collapse)
  moreover have "dw_budget (demo_world demo_created) = Some demo_budget" "dw_db (demo_world demo_created) = demo_created"
    "pc_run_id demo_cap = ''run1''"
    by (simp_all add: demo_world_def demo_cap_def)
  ultimately show ?thesis
    using failed_delegate_undone [of "demo_world demo_created" demo_budget demo_cap demo_env demo_delegate w'] by simp
qed



text \<open>
  What the parent is shown of the results is safe: every summary of a delegation that returned is
  either withheld or without any catalogued secret, and all are withheld for a parent classified as secret.
\<close>

theorem delegate_summaries_safe:
  assumes "delegate env cap rq w = (w', Inr rs)" and "clean (ifs_secrets (en_flow env))"
  shows "list_all (\<lambda>r. re_summary r = ''[filtered]'' \<or>
      classification_of cap \<noteq> SECRET \<and> secret_free (ifs_secrets (en_flow env)) (re_summary r))
    (rt_member_results rs @ (case rt_aggregation_result rs of None \<Rightarrow> [] | Some r \<Rightarrow> [r]))"
proof -
  obtain rs0 where "rs = filter_result_set (en_loads env) (en_dumps env) (en_flow env) cap rs0"
    using assms(1) by (auto simp: delegate_def Let_def split: sum.splits prod.splits option.splits)
  then show ?thesis
    using filter_result_safe [OF assms(2)]
    by (auto simp: filter_result_set_def Let_def list_all_iff split: option.splits)
qed

theorem delegate_summaries_safe_witness:
  "\<exists>w' rs. delegate demo_env demo_cap demo_delegate (demo_world empty_delegation_db) = (w', Inr rs) \<and>
     secret_free (ifs_secrets demo_flow) (re_summary (hd (rt_member_results rs)))"
proof -
  have "case snd (delegate demo_env demo_cap demo_delegate (demo_world empty_delegation_db)) of
      Inr rs \<Rightarrow> rt_member_results rs \<noteq> [] \<and> re_summary (hd (rt_member_results rs)) \<noteq> ''[filtered]'' | Inl e \<Rightarrow> False"
    by code_simp
  then obtain w' rs where r: "delegate demo_env demo_cap demo_delegate (demo_world empty_delegation_db) = (w', Inr rs)"
    "rt_member_results rs \<noteq> []" "re_summary (hd (rt_member_results rs)) \<noteq> ''[filtered]''"
    by (cases "delegate demo_env demo_cap demo_delegate (demo_world empty_delegation_db)") (auto split: sum.splits)
  have "clean (ifs_secrets (en_flow demo_env))" by code_simp
  from delegate_summaries_safe [OF r(1) this] r(2,3)
  have "secret_free (ifs_secrets (en_flow demo_env)) (re_summary (hd (rt_member_results rs)))"
    by (auto simp: list_all_iff)
  with r(1) show ?thesis by (auto simp: demo_env_def)
qed

end
