(* ===== verification/Schedule_Domain.thy ===== *)
theory Schedule_Domain
  imports Policy_Kernel Python_Text
begin

text \<open>
  Scheduled prompts: the values of \<open>app/domain/schedule.py\<close>, the claim constraints and the run policy of
  \<open>app/domain/schedule_policy.py\<close>, and the prompt scanner of
  \<open>app/infrastructure/schedule/prompt_safety.py\<close>. The cron calculator rests on the croniter package: its two
  methods are parameters where they are used. A dict of string keys is an association list.
\<close>

section \<open>Values\<close>

datatype ScheduledTaskStatus = ACTIVE | PAUSED | SESSION_MISSING | DELETED

datatype ScheduledTaskExecutionStatus = RUNNING | SUCCEEDED | FAILED | CANCELLED | BLOCKED | SKIPPED_MISSED

fun ScheduledTaskStatus_value :: "ScheduledTaskStatus \<Rightarrow> string" where
  "ScheduledTaskStatus_value ACTIVE = ''active''"
| "ScheduledTaskStatus_value PAUSED = ''paused''"
| "ScheduledTaskStatus_value SESSION_MISSING = ''session_missing''"
| "ScheduledTaskStatus_value DELETED = ''deleted''"

fun ScheduledTaskExecutionStatus_value :: "ScheduledTaskExecutionStatus \<Rightarrow> string" where
  "ScheduledTaskExecutionStatus_value RUNNING = ''running''"
| "ScheduledTaskExecutionStatus_value SUCCEEDED = ''succeeded''"
| "ScheduledTaskExecutionStatus_value FAILED = ''failed''"
| "ScheduledTaskExecutionStatus_value CANCELLED = ''cancelled''"
| "ScheduledTaskExecutionStatus_value BLOCKED = ''blocked''"
| "ScheduledTaskExecutionStatus_value SKIPPED_MISSED = ''skipped_missed''"

datatype DeliveryTargetType = ORIGIN | FEISHU | DASHBOARD | SILENT

definition parse_target_type :: "string \<Rightarrow> DeliveryTargetType option" where
  "parse_target_type s = (if s = ''origin'' then Some ORIGIN else if s = ''feishu'' then Some FEISHU
     else if s = ''dashboard'' then Some DASHBOARD else if s = ''silent'' then Some SILENT else None)"

type_synonym dict = "(string \<times> json) list"

record DeliveryTarget =
  dt_target_type :: DeliveryTargetType
  dt_context :: dict

record DeliveryResult =
  dv_status :: string
  dv_error :: "string option"

record ScheduledExecutionPolicy =
  xp_mode :: string
  xp_tool_exposure_policy :: string
  xp_allow_confirm_tools :: bool
  xp_allowed_tools :: "string list"

definition ScheduledExecutionPolicy_new :: "string list \<Rightarrow> ScheduledExecutionPolicy" where
  "ScheduledExecutionPolicy_new tools =
     \<lparr>xp_mode = ''unattended'', xp_tool_exposure_policy = ''safe_only'', xp_allow_confirm_tools = False,
      xp_allowed_tools = tools\<rparr>"

record ScheduledTask =
  sk_id :: string
  sk_name :: string
  sk_prompt :: string
  sk_schedule :: string
  sk_timezone :: string
  sk_session_id :: string
  sk_delivery_target :: DeliveryTarget
  sk_next_run_at :: datetime
  sk_enabled :: bool
  sk_status :: ScheduledTaskStatus
  sk_origin :: dict
  sk_execution_policy :: ScheduledExecutionPolicy
  sk_lease_until :: "datetime option"
  sk_lease_owner :: "string option"
  sk_claim_id :: "string option"
  sk_last_run_at :: "datetime option"
  sk_last_status :: "ScheduledTaskExecutionStatus option"
  sk_last_error :: "string option"
  sk_last_delivery_error :: "string option"
  sk_unread_count :: int
  sk_created_at :: "datetime option"
  sk_updated_at :: "datetime option"

text \<open>The constructor with its defaults.\<close>

definition ScheduledTask_new ::
  "string \<Rightarrow> string \<Rightarrow> string \<Rightarrow> string \<Rightarrow> string \<Rightarrow> string \<Rightarrow> DeliveryTarget \<Rightarrow> datetime \<Rightarrow> ScheduledTask" where
  "ScheduledTask_new tid name prompt schedule tz session target next_run =
     \<lparr>sk_id = tid, sk_name = name, sk_prompt = prompt, sk_schedule = schedule, sk_timezone = tz,
      sk_session_id = session, sk_delivery_target = target, sk_next_run_at = next_run, sk_enabled = True,
      sk_status = ACTIVE, sk_origin = [], sk_execution_policy = ScheduledExecutionPolicy_new [],
      sk_lease_until = None, sk_lease_owner = None, sk_claim_id = None, sk_last_run_at = None,
      sk_last_status = None, sk_last_error = None, sk_last_delivery_error = None, sk_unread_count = 0,
      sk_created_at = None, sk_updated_at = None\<rparr>"

datatype claim_reason = CLAIM_REASON_DUE | CLAIM_REASON_RUN_NOW

record ScheduledTaskClaim =
  kc_task :: ScheduledTask
  kc_claim_id :: string
  kc_lease_owner :: string
  kc_lease_until :: datetime
  kc_claimed_next_run_at :: datetime
  kc_next_run_at :: datetime
  kc_reason :: claim_reason

record ScheduledTaskExecution =
  kx_id :: string
  kx_task_id :: string
  kx_session_id :: string
  kx_claim_id :: string
  kx_lease_owner :: string
  kx_status :: ScheduledTaskExecutionStatus
  kx_claimed_next_run_at :: "datetime option"
  kx_started_at :: "datetime option"
  kx_completed_at :: "datetime option"
  kx_output :: "string option"
  kx_error :: "string option"
  kx_delivery_status :: "string option"
  kx_delivery_error :: "string option"
  kx_created_at :: "datetime option"
  kx_trigger_run_id :: "string option"

section \<open>Claim constraints\<close>

record ScheduleClaimConstraints =
  cc_status :: ScheduledTaskStatus
  cc_enabled :: bool
  cc_due_at_or_before :: "datetime option"
  cc_lease_free_at :: "datetime option"

definition for_due_claim :: "datetime \<Rightarrow> ScheduleClaimConstraints" where
  "for_due_claim now = \<lparr>cc_status = ACTIVE, cc_enabled = True, cc_due_at_or_before = Some now, cc_lease_free_at = Some now\<rparr>"

definition for_run_now_claim :: "datetime \<Rightarrow> ScheduleClaimConstraints" where
  "for_run_now_claim now = \<lparr>cc_status = ACTIVE, cc_enabled = True, cc_due_at_or_before = None, cc_lease_free_at = Some now\<rparr>"

definition is_satisfied_by :: "ScheduleClaimConstraints \<Rightarrow> ScheduledTask \<Rightarrow> bool" where
  "is_satisfied_by c t =
     (if sk_enabled t \<noteq> cc_enabled c then False
      else if sk_status t \<noteq> cc_status c then False
      else if (case cc_due_at_or_before c of None \<Rightarrow> False | Some d \<Rightarrow> sk_next_run_at t > d) then False
      else if (case (cc_lease_free_at c, sk_lease_until t) of (Some f, Some l) \<Rightarrow> l \<ge> f | _ \<Rightarrow> False) then False
      else True)"

section \<open>The run policy\<close>

datatype MissedAction = MA_RUN_NOW | MA_SKIPPED_MISSED

datatype DeliveryMode = DM_DELIVER | DM_SILENT

datatype RetryPlan = RP_NONE | RP_RETRY

record RunOverrides =
  ro_execution_mode :: string
  ro_tool_exposure_policy :: string
  ro_allow_confirm_tools :: bool

definition RunOverrides_default :: RunOverrides where
  "RunOverrides_default = \<lparr>ro_execution_mode = ''unattended'', ro_tool_exposure_policy = ''safe_only'', ro_allow_confirm_tools = False\<rparr>"

record ScheduleRunDecision =
  sd_verdict :: PolicyOutcome
  sd_missed_action :: MissedAction
  sd_retry_plan :: RetryPlan
  sd_delivery_mode :: DeliveryMode
  sd_run_overrides :: RunOverrides
  sd_reason :: string

definition should_run :: "ScheduleRunDecision \<Rightarrow> bool" where
  "should_run d \<longleftrightarrow> sd_verdict d = ALLOW \<and> sd_missed_action d = MA_RUN_NOW"

definition should_deliver :: "ScheduleRunDecision \<Rightarrow> bool" where
  "should_deliver d \<longleftrightarrow> should_run d \<and> sd_delivery_mode d = DM_DELIVER"

definition bool_text :: "bool \<Rightarrow> string" where
  "bool_text b = (if b then ''True'' else ''False'')"

text \<open>\<open>grace\<close> is \<open>missed_grace_seconds\<close>. The claimed run time is a datetime, so the fallback to the task's
  own is never taken.\<close>

definition SchedulePolicy_evaluate :: "int \<Rightarrow> ScheduledTaskClaim \<Rightarrow> datetime \<Rightarrow> ScheduleRunDecision" where
  "SchedulePolicy_evaluate grace claim now =
     (let task = kc_task claim in
      if \<not> sk_enabled task \<or> sk_status task \<in> {DELETED, SESSION_MISSING, PAUSED} then
        \<lparr>sd_verdict = DENY, sd_missed_action = MA_RUN_NOW, sd_retry_plan = RP_NONE, sd_delivery_mode = DM_DELIVER,
         sd_run_overrides = RunOverrides_default,
         sd_reason = ''task not runnable: status='' @ ScheduledTaskStatus_value (sk_status task) @
           '' enabled='' @ bool_text (sk_enabled task)\<rparr>
      else if kc_reason claim \<noteq> CLAIM_REASON_RUN_NOW \<and> now - kc_claimed_next_run_at claim > timedelta_seconds grace then
        \<lparr>sd_verdict = ALLOW, sd_missed_action = MA_SKIPPED_MISSED, sd_retry_plan = RP_NONE, sd_delivery_mode = DM_SILENT,
         sd_run_overrides = RunOverrides_default, sd_reason = ''task past missed grace window''\<rparr>
      else
        \<lparr>sd_verdict = ALLOW, sd_missed_action = MA_RUN_NOW, sd_retry_plan = RP_NONE,
         sd_delivery_mode = (if dt_target_type (sk_delivery_target task) = SILENT then DM_SILENT else DM_DELIVER),
         sd_run_overrides = \<lparr>ro_execution_mode = xp_mode (sk_execution_policy task),
           ro_tool_exposure_policy = xp_tool_exposure_policy (sk_execution_policy task),
           ro_allow_confirm_tools = xp_allow_confirm_tools (sk_execution_policy task)\<rparr>,
         sd_reason = ''task due for execution''\<rparr>)"

record ScheduledDeliveryAuthorizationRequest =
  da_platform :: string
  da_address_type :: string
  da_conversation_verified :: bool
  da_address_matches :: bool
  da_platform_available :: bool

definition delivery_authorization :: "ScheduledDeliveryAuthorizationRequest \<Rightarrow> PolicyDecision" where
  "delivery_authorization r =
     (let allowed = (da_platform r = ''feishu'' \<and> da_address_type r = ''chat_id'' \<and> da_conversation_verified r \<and>
                     da_address_matches r \<and> da_platform_available r)
      in \<lparr>pd_outcome = (if allowed then ALLOW else DENY),
          pd_reason = (if allowed then ''scheduled_delivery_authorized'' else ''scheduled_delivery_denied''),
          pd_policy = ''scheduled_delivery_authorization'', pd_version = ''1''\<rparr>)"

section \<open>The prompt scanner\<close>

record PromptSafetyResult =
  sf_allowed :: bool
  sf_reason :: string

text \<open>The patterns and the text are compared as code points, since four of the patterns are not Latin-1.\<close>

definition code_points :: "string \<Rightarrow> int list" where
  "code_points s = map of_char s"

definition blocked_patterns :: "(int list \<times> string) list" where
  "blocked_patterns =
     [(code_points ''confirm'', ''confirm permission bypass''),
      ([32469, 36807], ''permission bypass''),
      (code_points ''bypass'', ''permission bypass''),
      (code_points ''api key'', ''secret leakage''),
      (code_points ''secret'', ''secret leakage''),
      ([23494, 38053], ''secret leakage''),
      ([27844, 38706], ''secret leakage''),
      (code_points ''scheduler'', ''scheduler self modification''),
      ([20219, 21153], ''scheduler self modification''),
      (code_points ''recurring job'', ''scheduler self modification'')]"

definition scan_prompt :: "string \<Rightarrow> PromptSafetyResult" where
  "scan_prompt prompt =
     (case find (\<lambda>(pat, reason). sublist pat (code_points (py_lower prompt))) blocked_patterns of
        Some (_, reason) \<Rightarrow> \<lparr>sf_allowed = False, sf_reason = reason\<rparr>
      | None \<Rightarrow> \<lparr>sf_allowed = True, sf_reason = []\<rparr>)"

end
