(* ===== verification/Schedule_Registry.thy ===== *)
theory Schedule_Registry
  imports Schedule_Domain
begin

text \<open>
  The SQLite registry of scheduled tasks (\<open>app/infrastructure/registry/sqlite_schedule_registry.py\<close>), one
  definition per method: a transaction from a database to a database and a result. The time of the
  transaction and the identifiers it draws are arguments; the cron calculator's \<open>next_after\<close> is a parameter
  that gives \<open>None\<close> where it raises. A comparison with \<open>NULL\<close> is not true, in either direction.
\<close>

section \<open>Tables\<close>

record schedule_db =
  sch_tasks :: "ScheduledTask list"
  sch_executions :: "ScheduledTaskExecution list"

definition empty_schedule_db :: schedule_db where
  "empty_schedule_db = \<lparr>sch_tasks = [], sch_executions = []\<rparr>"

datatype schedule_error = SchedIntegrityError | SchedAssertionError | ScheduleCalculationError

type_synonym 'a sch_result = "schedule_db \<times> (schedule_error + 'a)"

text \<open>\<open>ScheduledTask\<close> to row and back: the creation and update times are filled in.\<close>

definition task_params :: "datetime \<Rightarrow> ScheduledTask \<Rightarrow> ScheduledTask" where
  "task_params now t =
     t\<lparr>sk_created_at := Some (case sk_created_at t of None \<Rightarrow> now | Some c \<Rightarrow> c),
       sk_updated_at := Some (case sk_updated_at t of None \<Rightarrow> now | Some u \<Rightarrow> u)\<rparr>"

definition created_key :: "datetime option \<Rightarrow> datetime" where
  "created_key t = (case t of None \<Rightarrow> 0 | Some c \<Rightarrow> c)"

section \<open>Definitions of tasks\<close>

definition sched_get :: "string \<Rightarrow> schedule_db \<Rightarrow> ScheduledTask option" where
  "sched_get tid db = fetchone (\<lambda>t. sk_id t = tid \<and> sk_status t \<noteq> DELETED) (sch_tasks db)"

definition reread_task :: "string \<Rightarrow> schedule_db \<Rightarrow> ScheduledTask sch_result" where
  "reread_task tid db =
     (case sched_get tid db of None \<Rightarrow> (db, Inl SchedAssertionError) | Some t \<Rightarrow> (db, Inr t))"

definition sched_create :: "datetime \<Rightarrow> ScheduledTask \<Rightarrow> schedule_db \<Rightarrow> ScheduledTask sch_result" where
  "sched_create now t db =
     (if sk_id t \<in> sk_id ` set (sch_tasks db) then (db, Inl SchedIntegrityError)
      else reread_task (sk_id t) (db\<lparr>sch_tasks := sch_tasks db @ [task_params now t]\<rparr>))"

definition sched_list :: "schedule_db \<Rightarrow> ScheduledTask list" where
  "sched_list db = sort_key (\<lambda>t. created_key (sk_created_at t)) (filter (\<lambda>t. sk_status t \<noteq> DELETED) (sch_tasks db))"

text \<open>Every column is written but the identifier and the creation time; in particular the lease columns
  of the given task, whatever the row holds by now.\<close>

definition sched_update :: "datetime \<Rightarrow> ScheduledTask \<Rightarrow> schedule_db \<Rightarrow> ScheduledTask sch_result" where
  "sched_update now t db =
     reread_task (sk_id t)
       (db\<lparr>sch_tasks := sql_update (\<lambda>r. sk_id r = sk_id t)
              (\<lambda>r. t\<lparr>sk_created_at := sk_created_at r, sk_updated_at := Some now\<rparr>) (sch_tasks db)\<rparr>)"

definition sched_update_status ::
  "datetime \<Rightarrow> string \<Rightarrow> ScheduledTaskStatus \<Rightarrow> bool \<Rightarrow> schedule_db \<Rightarrow> ScheduledTask sch_result" where
  "sched_update_status now tid st enabled db =
     reread_task tid
       (db\<lparr>sch_tasks := sql_update (\<lambda>r. sk_id r = tid)
              (\<lambda>r. r\<lparr>sk_status := st, sk_enabled := enabled, sk_updated_at := Some now\<rparr>) (sch_tasks db)\<rparr>)"

definition sched_delete :: "string \<Rightarrow> schedule_db \<Rightarrow> schedule_db \<times> bool" where
  "sched_delete tid db =
     (db\<lparr>sch_tasks := sql_delete (\<lambda>r. sk_id r = tid) (sch_tasks db)\<rparr>, rowcount (\<lambda>r. sk_id r = tid) (sch_tasks db) > 0)"

section \<open>Claims\<close>

definition lease_free :: "datetime \<Rightarrow> ScheduledTask \<Rightarrow> bool" where
  "lease_free now t \<longleftrightarrow> (case sk_lease_until t of None \<Rightarrow> True | Some l \<Rightarrow> l < now)"

definition due :: "datetime \<Rightarrow> ScheduledTask \<Rightarrow> bool" where
  "due now t \<longleftrightarrow> sk_enabled t \<and> sk_status t = ACTIVE \<and> sk_next_run_at t \<le> now \<and> lease_free now t"

definition make_claim ::
  "ScheduledTask \<Rightarrow> datetime \<Rightarrow> int \<Rightarrow> claim_reason \<Rightarrow> datetime \<Rightarrow> string \<times> string \<Rightarrow> ScheduledTaskClaim" where
  "make_claim t now lease reason next_run ids =
     \<lparr>kc_task = t, kc_claim_id = fst ids, kc_lease_owner = snd ids, kc_lease_until = now + timedelta_seconds lease,
      kc_claimed_next_run_at = sk_next_run_at t, kc_next_run_at = next_run, kc_reason = reason\<rparr>"

definition claimed_task :: "datetime \<Rightarrow> ScheduledTaskClaim \<Rightarrow> ScheduledTask \<Rightarrow> ScheduledTask" where
  "claimed_task now c r =
     r\<lparr>sk_lease_until := Some (kc_lease_until c), sk_lease_owner := Some (kc_lease_owner c),
       sk_claim_id := Some (kc_claim_id c), sk_next_run_at := kc_next_run_at c, sk_updated_at := Some now\<rparr>"

definition sql_head :: "int \<Rightarrow> 'a list \<Rightarrow> 'a list" where
  "sql_head n xs = (if n < 0 then xs else take (nat n) xs)"

definition due_rows :: "datetime \<Rightarrow> int \<Rightarrow> schedule_db \<Rightarrow> ScheduledTask list" where
  "due_rows now lim db = sql_head lim (sort_key sk_next_run_at (filter (due now) (sch_tasks db)))"

text \<open>\<open>next_after schedule base timezone\<close>; \<open>ids\<close> are the identifiers drawn for the claims.\<close>

fun claim_loop ::
  "(string \<Rightarrow> datetime \<Rightarrow> string \<Rightarrow> datetime option) \<Rightarrow> datetime \<Rightarrow> int \<Rightarrow> (string \<times> string) list \<Rightarrow> ScheduledTask list
     \<Rightarrow> schedule_db \<Rightarrow> (schedule_db \<times> ScheduledTaskClaim list) option" where
  "claim_loop next_after now lease (i # ids) (t # rows) db =
     (case next_after (sk_schedule t) now (sk_timezone t) of
        None \<Rightarrow> None
      | Some next_run \<Rightarrow>
          (let c = make_claim t now lease CLAIM_REASON_DUE next_run i;
               P = (\<lambda>r. sk_id r = sk_id t \<and> sk_enabled r \<and> sk_status r = ACTIVE \<and> lease_free now r);
               db1 = db\<lparr>sch_tasks := sql_update P (claimed_task now c) (sch_tasks db)\<rparr>
           in map_option (apsnd (\<lambda>cs. if rowcount P (sch_tasks db) > 0 then c # cs else cs))
                (claim_loop next_after now lease ids rows db1)))"
| "claim_loop next_after now lease ids rows db = Some (db, [])"

definition claim_due_tasks ::
  "(string \<Rightarrow> datetime \<Rightarrow> string \<Rightarrow> datetime option) \<Rightarrow> datetime \<Rightarrow> int \<Rightarrow> int \<Rightarrow> (nat \<Rightarrow> string \<times> string) \<Rightarrow> schedule_db
     \<Rightarrow> ScheduledTaskClaim list sch_result" where
  "claim_due_tasks next_after now lim lease ids db =
     (let rows = due_rows now lim db in
      case claim_loop next_after now lease (map ids [0..<length rows]) rows db of
        None \<Rightarrow> (db, Inl ScheduleCalculationError)
      | Some (db1, claims) \<Rightarrow> (db1, Inr claims))"

definition settled_claim :: "schedule_db \<Rightarrow> ScheduledTask \<Rightarrow> bool" where
  "settled_claim db t \<longleftrightarrow>
     list_ex (\<lambda>e. kx_task_id e = sk_id t \<and> Some (kx_claim_id e) = sk_claim_id t \<and>
                  Some (kx_lease_owner e) = sk_lease_owner t \<and> kx_status e \<noteq> RUNNING) (sch_executions db)"

definition claim_task_for_run_now ::
  "string \<Rightarrow> datetime \<Rightarrow> int \<Rightarrow> string \<times> string \<Rightarrow> schedule_db \<Rightarrow> schedule_db \<times> ScheduledTaskClaim option" where
  "claim_task_for_run_now tid now lease ids db =
     (let P = (\<lambda>r. sk_id r = tid \<and> sk_enabled r \<and> sk_status r = ACTIVE \<and> (lease_free now r \<or> settled_claim db r)) in
      case fetchone P (sch_tasks db) of
        None \<Rightarrow> (db, None)
      | Some t \<Rightarrow>
          (let c = make_claim t now lease CLAIM_REASON_RUN_NOW (sk_next_run_at t) ids;
               set_lease = (\<lambda>r. r\<lparr>sk_lease_until := Some (kc_lease_until c), sk_lease_owner := Some (kc_lease_owner c),
                                  sk_claim_id := Some (kc_claim_id c), sk_updated_at := Some now\<rparr>)
           in (db\<lparr>sch_tasks := sql_update P set_lease (sch_tasks db)\<rparr>,
               if rowcount P (sch_tasks db) > 0 then Some c else None)))"

section \<open>Executions\<close>

definition holds_lease :: "string \<Rightarrow> string \<Rightarrow> string \<Rightarrow> ScheduledTask \<Rightarrow> bool" where
  "holds_lease tid cid owner r \<longleftrightarrow> sk_id r = tid \<and> sk_claim_id r = Some cid \<and> sk_lease_owner r = Some owner"

definition record_execution_started :: "datetime \<Rightarrow> ScheduledTaskExecution \<Rightarrow> schedule_db \<Rightarrow> ScheduledTaskExecution sch_result" where
  "record_execution_started now e db =
     (if kx_id e \<in> kx_id ` set (sch_executions db) then (db, Inl SchedIntegrityError)
      else (db\<lparr>sch_executions := sch_executions db @
                  [e\<lparr>kx_created_at := Some (case kx_created_at e of None \<Rightarrow> now | Some c \<Rightarrow> c)\<rparr>]\<rparr>, Inr e))"

definition record_execution_completed :: "datetime \<Rightarrow> ScheduledTaskExecution \<Rightarrow> schedule_db \<Rightarrow> schedule_db \<times> bool" where
  "record_execution_completed now e db =
     (let held = holds_lease (kx_task_id e) (kx_claim_id e) (kx_lease_owner e);
          P = (\<lambda>r. kx_id r = kx_id e \<and> list_ex held (sch_tasks db))
      in if rowcount P (sch_executions db) > 0 then
           (db\<lparr>sch_executions := sql_update P (\<lambda>r. r\<lparr>kx_completed_at := kx_completed_at e, kx_status := kx_status e,
                 kx_output := kx_output e, kx_error := kx_error e\<rparr>) (sch_executions db),
               sch_tasks := sql_update held (\<lambda>r. r\<lparr>sk_last_run_at := kx_completed_at e, sk_last_status := Some (kx_status e),
                 sk_last_error := kx_error e, sk_lease_until := None, sk_updated_at := Some now\<rparr>) (sch_tasks db)\<rparr>, True)
         else (db, False))"

definition record_delivery_result :: "datetime \<Rightarrow> ScheduledTaskExecution \<Rightarrow> schedule_db \<Rightarrow> schedule_db \<times> bool" where
  "record_delivery_result now e db =
     (let held = holds_lease (kx_task_id e) (kx_claim_id e) (kx_lease_owner e);
          P = (\<lambda>r. kx_id r = kx_id e \<and> list_ex held (sch_tasks db))
      in if rowcount P (sch_executions db) > 0 then
           (db\<lparr>sch_executions := sql_update P (\<lambda>r. r\<lparr>kx_delivery_status := kx_delivery_status e,
                 kx_delivery_error := kx_delivery_error e\<rparr>) (sch_executions db),
               sch_tasks := sql_update held (\<lambda>r. r\<lparr>sk_last_delivery_error := kx_delivery_error e,
                 sk_updated_at := Some now\<rparr>) (sch_tasks db)\<rparr>, True)
         else (db, False))"

text \<open>A running execution is stale when its claim's lease ran out or another claim took its place.\<close>

definition lease_expired :: "datetime \<Rightarrow> ScheduledTask \<Rightarrow> bool" where
  "lease_expired now t \<longleftrightarrow> (case sk_lease_until t of None \<Rightarrow> False | Some l \<Rightarrow> l < now)"

definition stale_execution :: "datetime \<Rightarrow> ScheduledTask list \<Rightarrow> ScheduledTaskExecution \<Rightarrow> bool" where
  "stale_execution now ts e \<longleftrightarrow> kx_status e = RUNNING \<and>
     list_ex (\<lambda>t. sk_id t = kx_task_id e \<and>
       (sk_claim_id t = Some (kx_claim_id e) \<and> sk_lease_owner t = Some (kx_lease_owner e) \<and> lease_expired now t \<or>
        (case sk_claim_id t of None \<Rightarrow> False | Some c \<Rightarrow> c \<noteq> kx_claim_id e))) ts"

definition sched_recover_stale :: "datetime \<Rightarrow> schedule_db \<Rightarrow> schedule_db \<times> nat" where
  "sched_recover_stale now db =
     (db\<lparr>sch_executions := sql_update (stale_execution now (sch_tasks db))
            (\<lambda>e. e\<lparr>kx_status := FAILED, kx_completed_at := Some now, kx_error := Some ''execution_stale_recovered''\<rparr>)
            (sch_executions db),
         sch_tasks := sql_update (lease_expired now) (\<lambda>t. t\<lparr>sk_lease_until := None, sk_updated_at := Some now\<rparr>)
            (sch_tasks db)\<rparr>,
      rowcount (stale_execution now (sch_tasks db)) (sch_executions db))"

definition sched_list_executions :: "string option \<Rightarrow> int \<Rightarrow> schedule_db \<Rightarrow> ScheduledTaskExecution list" where
  "sched_list_executions tid lim db =
     sql_head lim (sort_key (\<lambda>e. - created_key (kx_created_at e))
       (filter (\<lambda>e. case tid of None \<Rightarrow> True | Some i \<Rightarrow> kx_task_id e = i) (sch_executions db)))"

section \<open>Notices and sessions\<close>

definition mark_dashboard_unread :: "datetime \<Rightarrow> string \<Rightarrow> string \<Rightarrow> string \<Rightarrow> schedule_db \<Rightarrow> schedule_db \<times> bool" where
  "mark_dashboard_unread now tid cid owner db =
     (db\<lparr>sch_tasks := sql_update (holds_lease tid cid owner)
            (\<lambda>t. t\<lparr>sk_unread_count := sk_unread_count t + 1, sk_updated_at := Some now\<rparr>) (sch_tasks db)\<rparr>,
      rowcount (holds_lease tid cid owner) (sch_tasks db) > 0)"

definition clear_dashboard_unread :: "datetime \<Rightarrow> string \<Rightarrow> schedule_db \<Rightarrow> schedule_db \<times> bool" where
  "clear_dashboard_unread now tid db =
     (db\<lparr>sch_tasks := sql_update (\<lambda>t. sk_id t = tid)
            (\<lambda>t. t\<lparr>sk_unread_count := 0, sk_updated_at := Some now\<rparr>) (sch_tasks db)\<rparr>,
      rowcount (\<lambda>t. sk_id t = tid) (sch_tasks db) > 0)"

definition mark_session_missing :: "datetime \<Rightarrow> string \<Rightarrow> schedule_db \<Rightarrow> schedule_db \<times> nat" where
  "mark_session_missing now sid db =
     (let P = (\<lambda>t. sk_session_id t = sid \<and> sk_status t \<noteq> DELETED) in
      (db\<lparr>sch_tasks := sql_update P (\<lambda>t. t\<lparr>sk_enabled := False, sk_status := SESSION_MISSING, sk_updated_at := Some now\<rparr>)
             (sch_tasks db)\<rparr>,
       rowcount P (sch_tasks db)))"

definition list_recoverable_origin_tasks :: "schedule_db \<Rightarrow> ScheduledTask list" where
  "list_recoverable_origin_tasks db =
     sort_key sk_next_run_at (filter (\<lambda>t. sk_status t = SESSION_MISSING \<and> dt_target_type (sk_delivery_target t) = ORIGIN) (sch_tasks db))"

section \<open>Migration\<close>

text \<open>\<open>_normalize_origin_platform\<close> on a stored dict: \<open>source_type\<close> becomes \<open>platform\<close>, which moves to the end
  unless it was there.\<close>

definition dict_put :: "string \<Rightarrow> json \<Rightarrow> dict \<Rightarrow> dict" where
  "dict_put k v d = (if k \<in> fst ` set d then map (\<lambda>(k', v'). if k' = k then (k, v) else (k', v')) d else d @ [(k, v)])"

definition normalize_origin_platform :: "dict \<Rightarrow> dict \<times> bool" where
  "normalize_origin_platform d =
     (case map_of d ''source_type'' of
        None \<Rightarrow> (d, False)
      | Some v \<Rightarrow> (dict_put ''platform'' v (filter (\<lambda>p. fst p \<noteq> ''source_type'') d), True))"

definition migrate_origin_source_type :: "schedule_db \<Rightarrow> schedule_db" where
  "migrate_origin_source_type db =
     db\<lparr>sch_tasks := map (\<lambda>t.
          let (orig, c1) = normalize_origin_platform (sk_origin t);
              (ctx, c2) = normalize_origin_platform (dt_context (sk_delivery_target t))
          in if c1 \<or> c2 then t\<lparr>sk_origin := orig, sk_delivery_target := (sk_delivery_target t)\<lparr>dt_context := ctx\<rparr>\<rparr> else t)
        (sch_tasks db)\<rparr>"

end
