(* ===== verification/Gateway_Policy.thy ===== *)
theory Gateway_Policy
  imports Policy_Kernel
begin

text \<open>
  Governance of messages that enter and leave through a message platform: the session key of
  \<open>app/domain/gateway.py\<close> and the policy of \<open>app/domain/gateway_policy.py\<close>. The trusted claims of an
  access decision are always empty in the code.
\<close>

datatype Platform = FEISHU | DINGTALK | WECOM

fun Platform_value :: "Platform \<Rightarrow> string" where
  "Platform_value FEISHU = ''feishu''"
| "Platform_value DINGTALK = ''dingtalk''"
| "Platform_value WECOM = ''wecom''"

definition parse_platform :: "string \<Rightarrow> Platform option" where
  "parse_platform s = (if s = ''feishu'' then Some FEISHU else if s = ''dingtalk'' then Some DINGTALK
     else if s = ''wecom'' then Some WECOM else None)"

datatype GatewayConfirmationAction = NEW | RENAME | DELETE | SCHEDULE_REMOVE

record GatewaySessionKey =
  gk_source :: string
  gk_platform_session_id :: string
  gk_thread_id :: string

definition conversation_parts :: "GatewaySessionKey \<Rightarrow> string \<times> string \<times> string" where
  "conversation_parts k = (gk_source k, gk_platform_session_id k, gk_thread_id k)"

record GatewayAccessDecision =
  ga_verdict :: PolicyOutcome
  ga_actor :: "string option"
  ga_session_owner :: "(string \<times> string \<times> string) option"
  ga_confirmation_requirement :: "string option"
  ga_reason :: string

record GatewayDeliveryDecision =
  gd_verdict :: PolicyOutcome
  gd_reason :: string
  gd_target_owner :: "(string \<times> string \<times> string) option"

record GatewayInboundRequest =
  gi_session_key :: GatewaySessionKey
  gi_actor_id :: "string option"
  gi_action :: "GatewayConfirmationAction option"
  gi_is_bootstrap :: bool
  gi_has_confirmation_channel :: bool
  gi_session_id :: "string option"
  gi_require_actor :: bool

record GatewayOutboundRequest =
  go_target_session_key :: GatewaySessionKey
  go_origin_session_key :: GatewaySessionKey
  go_target_actor_id :: "string option"
  go_origin_actor_id :: "string option"

definition session_owner :: "GatewayInboundRequest \<Rightarrow> (string \<times> string \<times> string) option" where
  "session_owner r = (if truthy (gi_session_id r) then Some (conversation_parts (gi_session_key r)) else None)"

definition evaluate_inbound :: "GatewayInboundRequest \<Rightarrow> GatewayAccessDecision" where
  "evaluate_inbound r =
     (if gi_action r = None then
        \<lparr>ga_verdict = ALLOW, ga_actor = gi_actor_id r, ga_session_owner = session_owner r,
         ga_confirmation_requirement = None, ga_reason = ''ordinary verified message allowed''\<rparr>
      else if gi_is_bootstrap r then
        \<lparr>ga_verdict = ALLOW, ga_actor = gi_actor_id r, ga_session_owner = None,
         ga_confirmation_requirement = None, ga_reason = ''bootstrap action allowed''\<rparr>
      else if \<not> gi_require_actor r then
        \<lparr>ga_verdict = ALLOW, ga_actor = gi_actor_id r, ga_session_owner = session_owner r,
         ga_confirmation_requirement = None, ga_reason = ''managed action allowed (actor not required)''\<rparr>
      else if gi_actor_id r = None then
        (if gi_has_confirmation_channel r then
           \<lparr>ga_verdict = REQUIRE_APPROVAL, ga_actor = None, ga_session_owner = None,
            ga_confirmation_requirement = Some ''once'',
            ga_reason = ''destructive action requires actor confirmation''\<rparr>
         else
           \<lparr>ga_verdict = DENY, ga_actor = None, ga_session_owner = None, ga_confirmation_requirement = None,
            ga_reason = ''destructive action without actor denied (no confirmation channel)''\<rparr>)
      else if gi_session_id r = None \<and> gi_action r \<noteq> Some NEW then
        \<lparr>ga_verdict = DENY, ga_actor = gi_actor_id r, ga_session_owner = None, ga_confirmation_requirement = None,
         ga_reason = ''destructive action requires existing session''\<rparr>
      else
        \<lparr>ga_verdict = ALLOW, ga_actor = gi_actor_id r, ga_session_owner = session_owner r,
         ga_confirmation_requirement = None, ga_reason = ''verified actor with session match''\<rparr>)"

definition evaluate_outbound :: "GatewayOutboundRequest \<Rightarrow> GatewayDeliveryDecision" where
  "evaluate_outbound r =
     (let owner = Some (conversation_parts (go_target_session_key r)) in
      if go_origin_actor_id r = None \<or> go_target_actor_id r = None then
        \<lparr>gd_verdict = DENY, gd_reason = ''outbound delivery requires actor on both sides'', gd_target_owner = owner\<rparr>
      else if go_target_actor_id r \<noteq> go_origin_actor_id r \<or>
              conversation_parts (go_target_session_key r) \<noteq> conversation_parts (go_origin_session_key r) then
        \<lparr>gd_verdict = DENY,
         gd_reason = ''outbound origin mismatch: target belongs to different actor/session/thread'',
         gd_target_owner = owner\<rparr>
      else \<lparr>gd_verdict = ALLOW, gd_reason = ''outbound origin match'', gd_target_owner = owner\<rparr>)"

text \<open>An outbound delivery is allowed exactly to the actor and conversation it came from.\<close>

lemma evaluate_outbound_allow:
  "gd_verdict (evaluate_outbound r) = ALLOW \<longleftrightarrow>
     (\<exists>a. go_origin_actor_id r = Some a \<and> go_target_actor_id r = Some a) \<and>
     conversation_parts (go_target_session_key r) = conversation_parts (go_origin_session_key r)"
  by (auto simp: evaluate_outbound_def Let_def)

text \<open>A managed action is never admitted for nobody, unless the deployment waives the actor or it is the
  bootstrap of a session.\<close>

lemma evaluate_inbound_actor:
  assumes "gi_action r \<noteq> None" and "\<not> gi_is_bootstrap r" and "gi_require_actor r"
  shows "ga_verdict (evaluate_inbound r) = ALLOW \<longleftrightarrow>
    gi_actor_id r \<noteq> None \<and> (gi_session_id r \<noteq> None \<or> gi_action r = Some NEW)"
  using assms by (auto simp: evaluate_inbound_def)

end
