(* ===== verification/Schedule_Delivery.thy ===== *)
theory Schedule_Delivery
  imports Schedule_Registry Gateway_Policy "HOL-Library.Product_Lexorder"
begin

text \<open>
  Where the result of a scheduled task may be sent: the address resolution of
  \<open>app/application/schedule_delivery_service.py\<close> over the conversations of the gateway registry, and the
  outbound client of \<open>app/infrastructure/schedule/outbound.py\<close>. The registry's conversations and home target, the
  platform status and the client's \<open>send_markdown_reply\<close> are the environment; projections for the dashboard are not modelled.
\<close>

section \<open>Local evidence\<close>

record GatewayConversation =
  gv_id :: string
  gv_platform :: Platform
  gv_platform_session_id :: string
  gv_created_at :: datetime
  gv_receive_id_type :: "string option"

record GatewayHomeTarget =
  gh_platform :: Platform
  gh_receive_id :: string
  gh_receive_id_type :: string

record delivery_env =
  de_conversations :: "GatewayConversation list"
  de_home :: "Platform \<Rightarrow> GatewayHomeTarget option"
  de_platform_status :: "Platform \<Rightarrow> string"

datatype ScheduleDeliveryError = ScheduleDeliveryError string

definition get_conversation :: "delivery_env \<Rightarrow> string \<Rightarrow> GatewayConversation option" where
  "get_conversation env cid = fetchone (\<lambda>c. gv_id c = cid) (de_conversations env)"

definition find_conversations :: "delivery_env \<Rightarrow> Platform \<Rightarrow> string \<Rightarrow> GatewayConversation list" where
  "find_conversations env p address = filter (\<lambda>c. gv_platform c = p \<and> gv_platform_session_id c = address) (de_conversations env)"

definition json_text :: "json option \<Rightarrow> string option" where
  "json_text j = (case j of Some (JStr s) \<Rightarrow> Some s | _ \<Rightarrow> None)"

text \<open>The pairs of an address and a type of address that the registry and the stored origin tasks give.\<close>

definition context_evidence :: "dict \<Rightarrow> (string \<times> string) list" where
  "context_evidence ctx =
     (case (json_text (map_of ctx ''receive_id''), json_text (map_of ctx ''receive_id_type'')) of
        (Some address, Some kind) \<Rightarrow>
          if map_of ctx ''platform'' = Some (JStr ''feishu'') \<and> kind \<noteq> [] then [(address, kind)] else []
      | _ \<Rightarrow> [])"

definition local_types :: "delivery_env \<Rightarrow> schedule_db \<Rightarrow> (string \<times> string) list" where
  "local_types env db =
     (case de_home env Platform.FEISHU of
        Some h \<Rightarrow> if gh_platform h = Platform.FEISHU then [(gh_receive_id h, gh_receive_id_type h)] else []
      | None \<Rightarrow> []) @
     concat (map (\<lambda>t. if dt_target_type (sk_delivery_target t) = ORIGIN
                      then context_evidence (sk_origin t) @ context_evidence (dt_context (sk_delivery_target t)) else [])
               (sched_list db))"

definition rows_and_type ::
  "delivery_env \<Rightarrow> (string \<times> string) list \<Rightarrow> GatewayConversation \<Rightarrow> ScheduleDeliveryError + GatewayConversation list" where
  "rows_and_type env types row =
     (if gv_platform row \<noteq> Platform.FEISHU then Inl (ScheduleDeliveryError ''unsupported_platform'')
      else if py_strip (gv_platform_session_id row) = [] then Inl (ScheduleDeliveryError ''unsupported_address_type'')
      else
        (let rows = find_conversations env (gv_platform row) (gv_platform_session_id row);
             evidence = remdups (List.map_filter (\<lambda>r. if truthy (gv_receive_id_type r) then gv_receive_id_type r else None) rows @
                                 map snd (filter (\<lambda>p. fst p = gv_platform_session_id row) types))
         in if length evidence > 1 then Inl (ScheduleDeliveryError ''address_type_conflict'')
            else if evidence \<noteq> [''chat_id''] then Inl (ScheduleDeliveryError ''unsupported_address_type'')
            else if rows = [] then Inl (ScheduleDeliveryError ''conversation_not_found'')
            else Inr rows))"

section \<open>Selection, validation and import\<close>

fun representative :: "GatewayConversation list \<Rightarrow> GatewayConversation option" where
  "representative [] = None"
| "representative (r # rs) =
     (case representative rs of
        None \<Rightarrow> Some r
      | Some m \<Rightarrow> if (gv_created_at m, gv_id m) < (gv_created_at r, gv_id r) then Some m else Some r)"

definition feishu_target :: "GatewayConversation \<Rightarrow> DeliveryTarget" where
  "feishu_target row =
     \<lparr>dt_target_type = DeliveryTargetType.FEISHU,
      dt_context = [(''conversation_id'', JStr (gv_id row)), (''platform'', JStr ''feishu''),
                    (''receive_id'', JStr (gv_platform_session_id row)), (''receive_id_type'', JStr ''chat_id'')]\<rparr>"

definition resolve_selection :: "delivery_env \<Rightarrow> schedule_db \<Rightarrow> string \<Rightarrow> ScheduleDeliveryError + DeliveryTarget" where
  "resolve_selection env db cid =
     (case get_conversation env cid of
        None \<Rightarrow> Inl (ScheduleDeliveryError ''conversation_not_found'')
      | Some row \<Rightarrow>
          (case rows_and_type env (local_types env db) row of
             Inl e \<Rightarrow> Inl e
           | Inr rows \<Rightarrow>
               if map_option gv_id (representative rows) \<noteq> Some (gv_id row)
               then Inl (ScheduleDeliveryError ''same_chat_representative'')
               else if de_platform_status env (gv_platform row) \<noteq> ''connected''
               then Inl (ScheduleDeliveryError ''platform_unavailable'')
               else Inr (feishu_target row)))"

text \<open>A missing conversation id is looked up as the empty text.\<close>

definition validate_snapshot :: "delivery_env \<Rightarrow> schedule_db \<Rightarrow> DeliveryTarget \<Rightarrow> ScheduleDeliveryError + DeliveryTarget" where
  "validate_snapshot env db target =
     (if dt_target_type target \<noteq> DeliveryTargetType.FEISHU then Inl (ScheduleDeliveryError ''unsupported_target'')
      else
        (case (case map_of (dt_context target) ''conversation_id'' of
                 None \<Rightarrow> get_conversation env [] | Some (JStr cid) \<Rightarrow> get_conversation env cid | Some _ \<Rightarrow> None) of
           None \<Rightarrow> Inl (ScheduleDeliveryError ''conversation_not_found'')
         | Some row \<Rightarrow>
             (case rows_and_type env (local_types env db) row of
                Inl e \<Rightarrow> Inl e
              | Inr rows \<Rightarrow>
                  if list_ex (\<lambda>(k, v). map_of (dt_context target) k \<noteq> Some v) (dt_context (feishu_target row))
                  then Inl (ScheduleDeliveryError ''snapshot_mismatch'')
                  else if de_platform_status env (gv_platform row) \<noteq> ''connected''
                  then Inl (ScheduleDeliveryError ''platform_unavailable'')
                  else Inr (feishu_target row))))"

definition rebind_import ::
  "delivery_env \<Rightarrow> schedule_db \<Rightarrow> (string \<times> string) list option \<Rightarrow> dict \<Rightarrow> ScheduleDeliveryError + DeliveryTarget" where
  "rebind_import env db types ctx =
     (case json_text (map_of ctx ''receive_id'') of
        None \<Rightarrow> Inl (ScheduleDeliveryError ''invalid_import_target'')
      | Some address \<Rightarrow>
          if map_of ctx ''platform'' \<noteq> Some (JStr ''feishu'') \<or> map_of ctx ''receive_id_type'' \<noteq> Some (JStr ''chat_id'') \<or>
             py_strip address = []
          then Inl (ScheduleDeliveryError ''invalid_import_target'')
          else
            (case representative (find_conversations env Platform.FEISHU address) of
               None \<Rightarrow> Inl (ScheduleDeliveryError ''conversation_not_found'')
             | Some row \<Rightarrow>
                 (case rows_and_type env (case types of None \<Rightarrow> local_types env db | Some ts \<Rightarrow> ts) row of
                    Inl e \<Rightarrow> Inl e
                  | Inr _ \<Rightarrow> Inr (feishu_target row))))"

section \<open>The outbound client\<close>

text \<open>What was sent: address, type of address and content. The client, when there is one, says of a message whether
  sending it raises, and with which text.\<close>

record outbound =
  ob_client :: "(string \<times> string \<times> string \<Rightarrow> string option) option"
  ob_has_resolver :: bool

type_synonym message = "string \<times> string \<times> string"

definition dict_text :: "dict \<Rightarrow> string \<Rightarrow> string" where
  "dict_text ctx k = (case json_text (map_of ctx k) of None \<Rightarrow> [] | Some s \<Rightarrow> s)"

definition deliver :: "outbound \<Rightarrow> delivery_env \<Rightarrow> DeliveryTarget \<Rightarrow> string \<Rightarrow> message list \<times> DeliveryResult" where
  "deliver ob env target content =
     (let ctx = dt_context target;
          failed = (\<lambda>e. ([], \<lparr>dv_status = ''failed'', dv_error = Some e\<rparr>)) in
      case dt_target_type target of
        SILENT \<Rightarrow> ([], \<lparr>dv_status = ''skipped'', dv_error = None\<rparr>)
      | DASHBOARD \<Rightarrow> ([], \<lparr>dv_status = ''success'', dv_error = None\<rparr>)
      | DeliveryTargetType.FEISHU \<Rightarrow>
          (case ob_client ob of
             None \<Rightarrow> failed ''send_failed''
           | Some send \<Rightarrow>
               if dict_text ctx ''platform'' \<noteq> ''feishu'' \<or> dict_text ctx ''receive_id_type'' \<noteq> ''chat_id'' \<or>
                  dict_text ctx ''receive_id'' = []
               then failed ''send_failed''
               else (let m = (dict_text ctx ''receive_id'', ''chat_id'', content) in
                     case send m of Some _ \<Rightarrow> failed ''send_failed'' | None \<Rightarrow> ([m], \<lparr>dv_status = ''success'', dv_error = None\<rparr>)))
      | ORIGIN \<Rightarrow>
          (let platform_value = dict_text ctx ''platform'' in
           if platform_value = [] then failed ''origin missing platform''
           else case parse_platform platform_value of
             None \<Rightarrow> failed (''unsupported platform: '' @ platform_value)
           | Some Platform.FEISHU \<Rightarrow>
               (case ob_client ob of
                  None \<Rightarrow> failed ''feishu client is not configured''
                | Some send \<Rightarrow>
                    (let home = (if ob_has_resolver ob then de_home env Platform.FEISHU else None);
                         address = (case home of Some h \<Rightarrow> gh_receive_id h | None \<Rightarrow> dict_text ctx ''receive_id'');
                         kind = (case home of Some h \<Rightarrow> gh_receive_id_type h
                                 | None \<Rightarrow> (case map_of ctx ''receive_id_type'' of None \<Rightarrow> ''chat_id'' | Some _ \<Rightarrow> dict_text ctx ''receive_id_type''))
                     in if home = None \<and> dict_text ctx ''target'' = ''home''
                        then failed (if ob_has_resolver ob then ''feishu home target is not configured''
                                     else ''feishu home target resolver is not configured'')
                        else if address = [] then failed ''feishu origin missing receive_id''
                        else (case send (address, kind, content) of
                                Some e \<Rightarrow> failed e
                              | None \<Rightarrow> ([(address, kind, content)], \<lparr>dv_status = ''success'', dv_error = None\<rparr>))))
           | Some p \<Rightarrow> failed (''unsupported platform: '' @ Platform_value p)))"

end
