(* ===== verification/Schedule_Run.thy ===== *)
theory Schedule_Run
  imports Schedule_Delivery Information_Flow
begin

text \<open>
  Running scheduled tasks: \<open>app/application/schedule_run_service.py\<close> and the agent executor of
  \<open>app/application/scheduled_agent_executor.py\<close>. The chat service is a parameter. While the agent works and
  while a result is delivered other transactions may happen on the same registry: \<open>during_run\<close> and
  \<open>during_delivery\<close> are what they do to it. Telemetry is left out. The values of a delivery context are texts.
\<close>

section \<open>The agent\<close>

record ScheduledAgentResult =
  ar_status :: ScheduledTaskExecutionStatus
  ar_output :: "string option"
  ar_error :: "string option"

text \<open>What awaiting the chat completion gives: its finish reason and content, or one of the exceptions that the
  run service tells apart.\<close>

datatype agent_outcome = AgentReturned string string | AgentTimeout | AgentRunCancelled | AgentRaised string

definition executor_run :: "(ScheduledTask \<Rightarrow> agent_outcome) \<Rightarrow> ScheduledTask \<Rightarrow> ScheduledAgentResult + agent_outcome" where
  "executor_run chat t =
     (let safety = scan_prompt (sk_prompt t) in
      if \<not> sf_allowed safety then Inl \<lparr>ar_status = BLOCKED, ar_output = None, ar_error = Some (sf_reason safety)\<rparr>
      else case chat t of
        AgentReturned finish content \<Rightarrow>
          if finish = ''error'' then Inl \<lparr>ar_status = FAILED, ar_output = None, ar_error = Some content\<rparr>
          else Inl \<lparr>ar_status = SUCCEEDED, ar_output = Some content, ar_error = None\<rparr>
      | raised \<Rightarrow> Inr raised)"

record ScheduleRunService =
  sr_max_due_per_tick :: int
  sr_lease_seconds :: int
  sr_missed_grace_seconds :: int
  sr_execution_timeout_seconds :: int
  sr_flow :: InformationFlowService
  sr_outbound :: outbound
  sr_has_delivery_service :: bool

definition run_executor :: "ScheduleRunService \<Rightarrow> (ScheduledTask \<Rightarrow> agent_outcome) \<Rightarrow> ScheduledTask \<Rightarrow> ScheduledAgentResult" where
  "run_executor s chat t =
     (case executor_run chat t of
        Inl r \<Rightarrow> r
      | Inr AgentTimeout \<Rightarrow>
          \<lparr>ar_status = FAILED, ar_output = None,
           ar_error = Some (''execution timed out after '' @ int_text (sr_execution_timeout_seconds s) @ ''s'')\<rparr>
      | Inr AgentRunCancelled \<Rightarrow> \<lparr>ar_status = CANCELLED, ar_output = None, ar_error = Some ''cancelled by request''\<rparr>
      | Inr (AgentRaised e) \<Rightarrow> \<lparr>ar_status = FAILED, ar_output = None, ar_error = Some (''execution error: '' @ e)\<rparr>
      | Inr (AgentReturned f c) \<Rightarrow> \<lparr>ar_status = SUCCEEDED, ar_output = Some c, ar_error = None\<rparr>)"

section \<open>Delivery\<close>

definition text_or :: "string \<Rightarrow> string \<Rightarrow> string" where
  "text_or a b = (if a \<noteq> [] then a else b)"

definition gateway_request :: "ScheduledTask \<Rightarrow> GatewayOutboundRequest" where
  "gateway_request t =
     (let origin = sk_origin t; ctx = dt_context (sk_delivery_target t);
          op = dict_text origin ''platform''; oi = dict_text origin ''receive_id''; ot = dict_text origin ''thread_id'';
          actor = text_or (dict_text origin ''actor_id'') oi;
          origin_actor = (if actor \<noteq> [] then Some actor else None)
      in \<lparr>go_target_session_key = \<lparr>gk_source = text_or (dict_text ctx ''platform'') op,
            gk_platform_session_id = text_or (dict_text ctx ''receive_id'') oi,
            gk_thread_id = text_or (dict_text ctx ''thread_id'') ot\<rparr>,
          go_origin_session_key = \<lparr>gk_source = op, gk_platform_session_id = oi, gk_thread_id = ot\<rparr>,
          go_target_actor_id = (if dict_text ctx ''actor_id'' \<noteq> [] then Some (dict_text ctx ''actor_id'') else origin_actor),
          go_origin_actor_id = origin_actor\<rparr>)"

definition delivery_failed :: "string \<Rightarrow> message list \<times> DeliveryResult" where
  "delivery_failed e = ([], \<lparr>dv_status = ''failed'', dv_error = Some e\<rparr>)"

definition validation_reason :: "ScheduleDeliveryError \<Rightarrow> string" where
  "validation_reason e =
     (case e of ScheduleDeliveryError code \<Rightarrow>
        if code = ''conversation_not_found'' then ''target_deleted''
        else if code = ''snapshot_mismatch'' then ''target_mismatch''
        else if code = ''platform_unavailable'' then ''platform_unavailable''
        else ''target_unverified'')"

definition release_to_gateway :: "ScheduleRunService \<Rightarrow> string \<Rightarrow> string option" where
  "release_to_gateway s content =
     (let r = if_release (sr_flow s) content GATEWAY INTERNAL ''scheduled_delivery'' []
      in if \<not> rl_allowed r then None else rl_content r)"

definition deliver_feishu ::
  "ScheduleRunService \<Rightarrow> delivery_env \<Rightarrow> schedule_db \<Rightarrow> DeliveryTarget \<Rightarrow> string \<Rightarrow> message list \<times> DeliveryResult" where
  "deliver_feishu s env db target content =
     (if \<not> sr_has_delivery_service s then delivery_failed ''target_unverified''
      else case validate_snapshot env db target of
        Inl e \<Rightarrow> delivery_failed (validation_reason e)
      | Inr canonical \<Rightarrow>
          if pd_outcome (delivery_authorization
               \<lparr>da_platform = dict_text (dt_context canonical) ''platform'',
                da_address_type = dict_text (dt_context canonical) ''receive_id_type'',
                da_conversation_verified = True, da_address_matches = True, da_platform_available = True\<rparr>) \<noteq> ALLOW
          then delivery_failed ''authorization_denied''
          else (case release_to_gateway s content of
                  None \<Rightarrow> delivery_failed ''information_flow_denied''
                | Some safe \<Rightarrow>
                    (let (sent, r) = deliver (sr_outbound s) env canonical safe
                     in if dv_status r = ''success'' then (sent, r)
                        else (sent, \<lparr>dv_status = ''failed'', dv_error = Some ''send_failed''\<rparr>))))"

definition run_deliver ::
  "ScheduleRunService \<Rightarrow> delivery_env \<Rightarrow> schedule_db \<Rightarrow> ScheduledTask \<Rightarrow> string \<Rightarrow> message list \<times> DeliveryResult" where
  "run_deliver s env db t content =
     (let target = sk_delivery_target t in
      if dt_target_type target = DASHBOARD then deliver (sr_outbound s) env target content
      else if dt_target_type target = DeliveryTargetType.FEISHU then deliver_feishu s env db target content
      else case release_to_gateway s content of
        None \<Rightarrow> delivery_failed ''information_flow_denied''
      | Some safe \<Rightarrow>
          (let d = evaluate_outbound (gateway_request t)
           in if gd_verdict d = DENY then delivery_failed (''gateway_denied: '' @ gd_reason d)
              else deliver (sr_outbound s) env target safe))"

section \<open>Running a claim\<close>

record run_env =
  re_env :: delivery_env
  re_chat :: "ScheduledTask \<Rightarrow> agent_outcome"
  re_during_run :: "schedule_db \<Rightarrow> schedule_db"
  re_during_delivery :: "schedule_db \<Rightarrow> schedule_db"
  re_clock :: datetime

text \<open>The report of a run: status and, when a delivery was tried, its status.\<close>

record run_report =
  rp_status :: string
  rp_delivery_status :: "string option"

definition new_execution :: "ScheduledTaskClaim \<Rightarrow> datetime \<Rightarrow> string \<Rightarrow> string option \<Rightarrow> ScheduledTaskExecution" where
  "new_execution c now xid trigger =
     \<lparr>kx_id = xid, kx_task_id = sk_id (kc_task c), kx_session_id = sk_session_id (kc_task c), kx_claim_id = kc_claim_id c,
      kx_lease_owner = kc_lease_owner c, kx_status = RUNNING, kx_claimed_next_run_at = Some (kc_claimed_next_run_at c),
      kx_started_at = Some now, kx_completed_at = None, kx_output = None, kx_error = None, kx_delivery_status = None,
      kx_delivery_error = None, kx_created_at = None, kx_trigger_run_id = trigger\<rparr>"

definition completed_execution ::
  "ScheduledTaskExecution \<Rightarrow> ScheduledTaskExecutionStatus \<Rightarrow> datetime \<Rightarrow> string option \<Rightarrow> string option \<Rightarrow> ScheduledTaskExecution" where
  "completed_execution e st at_time out err =
     e\<lparr>kx_status := st, kx_completed_at := Some at_time, kx_output := out, kx_error := err\<rparr>"

text \<open>\<open>result.output or result.error or ...\<close>\<close>

definition delivery_content :: "ScheduledAgentResult \<Rightarrow> string" where
  "delivery_content r =
     (if ar_status r = BLOCKED
      then ''Scheduled task blocked: '' @ (if truthy (ar_error r) then the (ar_error r) else ''blocked'')
      else if truthy (ar_output r) then the (ar_output r)
      else if truthy (ar_error r) then the (ar_error r)
      else ''scheduled task completed'')"

definition finish_delivery ::
  "ScheduleRunService \<Rightarrow> run_env \<Rightarrow> ScheduledTaskClaim \<Rightarrow> ScheduledTaskExecution \<Rightarrow> ScheduledAgentResult \<Rightarrow> schedule_db
     \<Rightarrow> schedule_db \<times> message list \<times> run_report" where
  "finish_delivery s env c completed r db =
     (let (sent, dr) = run_deliver s (re_env env) db (kc_task c) (delivery_content r);
          delivered = completed\<lparr>kx_delivery_status := Some (dv_status dr), kx_delivery_error := dv_error dr\<rparr>;
          db1 = fst (record_delivery_result (re_clock env) delivered (re_during_delivery env db));
          db2 = (if dt_target_type (sk_delivery_target (kc_task c)) = DASHBOARD
                 then fst (mark_dashboard_unread (re_clock env) (sk_id (kc_task c)) (kc_claim_id c) (kc_lease_owner c) db1)
                 else db1)
      in (db2, sent, \<lparr>rp_status = ScheduledTaskExecutionStatus_value (ar_status r), rp_delivery_status = Some (dv_status dr)\<rparr>))"

definition execute_claim ::
  "ScheduleRunService \<Rightarrow> run_env \<Rightarrow> datetime \<Rightarrow> string \<Rightarrow> string option \<Rightarrow> ScheduledTaskClaim \<Rightarrow> schedule_db
     \<Rightarrow> schedule_db \<times> message list \<times> (schedule_error + run_report)" where
  "execute_claim s env now xid trigger c db =
     (let d = SchedulePolicy_evaluate (sr_missed_grace_seconds s) c now;
          e = new_execution c now xid trigger;
          report = (\<lambda>st. Inr \<lparr>rp_status = st, rp_delivery_status = None\<rparr>)
      in case record_execution_started (re_clock env) e db of
           (db1, Inl err) \<Rightarrow> (db1, [], Inl err)
         | (db1, Inr _) \<Rightarrow>
             if sd_verdict d = DENY then
               (fst (record_execution_completed (re_clock env) (completed_execution e BLOCKED now None (Some (sd_reason d))) db1),
                [], report (ScheduledTaskExecutionStatus_value BLOCKED))
             else if sd_missed_action d = MA_SKIPPED_MISSED then
               (fst (record_execution_completed (re_clock env) (completed_execution e SKIPPED_MISSED now None None) db1),
                [], report (ScheduledTaskExecutionStatus_value SKIPPED_MISSED))
             else
               (let r = run_executor s (re_chat env) (kc_task c);
                    completed = completed_execution e (ar_status r) now (ar_output r) (ar_error r);
                    (db2, ok) = record_execution_completed (re_clock env) completed (re_during_run env db1);
                    st = ScheduledTaskExecutionStatus_value (ar_status r)
                in if \<not> ok then (db2, [], report ''stale'')
                   else if ar_status r = CANCELLED then (db2, [], report st)
                   else if sd_delivery_mode d = DM_SILENT then (db2, [], report st)
                   else (let (db3, sent, rep) = finish_delivery s env c completed r db2 in (db3, sent, Inr rep))))"

section \<open>Ticks\<close>

text \<open>The claims of a tick are run one after another; \<open>xids\<close> are the identifiers of their executions. An exception
  ends the tick.\<close>

fun run_claims ::
  "ScheduleRunService \<Rightarrow> run_env \<Rightarrow> datetime \<Rightarrow> (nat \<Rightarrow> string) \<Rightarrow> nat \<Rightarrow> ScheduledTaskClaim list \<Rightarrow> schedule_db
     \<Rightarrow> schedule_db \<times> message list \<times> (schedule_error + run_report list)" where
  "run_claims s env now xids n [] db = (db, [], Inr [])"
| "run_claims s env now xids n (c # cs) db =
     (case execute_claim s env now (xids n) None c db of
        (db1, sent1, Inl e) \<Rightarrow> (db1, sent1, Inl e)
      | (db1, sent1, Inr rep) \<Rightarrow>
          (case run_claims s env now xids (Suc n) cs db1 of
             (db2, sent2, Inl e) \<Rightarrow> (db2, sent1 @ sent2, Inl e)
           | (db2, sent2, Inr reps) \<Rightarrow> (db2, sent1 @ sent2, Inr (rep # reps))))"

definition run_due_claims ::
  "ScheduleRunService \<Rightarrow> run_env \<Rightarrow> (string \<Rightarrow> datetime \<Rightarrow> string \<Rightarrow> datetime option) \<Rightarrow> (schedule_db \<Rightarrow> schedule_db) \<Rightarrow> datetime
     \<Rightarrow> (nat \<Rightarrow> string \<times> string) \<Rightarrow> (nat \<Rightarrow> string) \<Rightarrow> schedule_db \<Rightarrow> schedule_db \<times> message list \<times> (schedule_error + run_report list)" where
  "run_due_claims s env next_after recover_origins now ids xids db =
     (case claim_due_tasks next_after now (sr_max_due_per_tick s) (sr_lease_seconds s) ids
             (fst (sched_recover_stale now (recover_origins db))) of
        (db1, Inl e) \<Rightarrow> (db1, [], Inl e)
      | (db1, Inr claims) \<Rightarrow> run_claims s env now xids 0 claims db1)"

text \<open>A run on demand claims the task at once and executes it in the background.\<close>

definition run_now_claim ::
  "ScheduleRunService \<Rightarrow> (schedule_db \<Rightarrow> schedule_db) \<Rightarrow> datetime \<Rightarrow> string \<times> string \<Rightarrow> string \<Rightarrow> schedule_db
     \<Rightarrow> schedule_db \<times> ScheduledTaskClaim option" where
  "run_now_claim s recover_origins now ids tid db =
     claim_task_for_run_now tid now (sr_lease_seconds s) ids (fst (sched_recover_stale now (recover_origins db)))"

end
