(* ===== verification/Schedule_Service.thy ===== *)
theory Schedule_Service
  imports Schedule_Delivery
begin

text \<open>
  What users and importers do with scheduled tasks (\<open>app/application/schedule_service.py\<close>). The state is the registry
  and the sessions that were created for tasks. The calculator's \<open>validate\<close> (the message it raises, if any) and
  \<open>next_after\<close>, the clock and new identifiers come from the environment.
\<close>

datatype schedule_service_error =
    ScheduledTaskNotFoundError
  | ScheduleValidationError string
  | ScheduleDeliveryContextError string
  | DeliveryError ScheduleDeliveryError
  | ScheduledTaskNotRunnableError string
  | ScheduledTaskLeaseHeldError
  | ScheduleServiceError string
  | RegistryError schedule_error

record schedule_env =
  se_validate :: "string \<Rightarrow> string \<Rightarrow> string option"
  se_next_after :: "string \<Rightarrow> datetime \<Rightarrow> string \<Rightarrow> datetime option"
  se_delivery :: "delivery_env option"
  se_now :: datetime
  se_new_id :: string
  se_new_session :: string

record schedule_state =
  ss_db :: schedule_db
  ss_sessions :: "string list"

type_synonym 'a svc_result = "schedule_state \<times> (schedule_service_error + 'a)"

section \<open>Validation\<close>

definition svc_validate :: "schedule_env \<Rightarrow> string \<Rightarrow> string \<Rightarrow> string \<Rightarrow> schedule_service_error option" where
  "svc_validate env expr tz prompt =
     (case se_validate env expr tz of
        Some msg \<Rightarrow> Some (ScheduleValidationError msg)
      | None \<Rightarrow> (let safety = scan_prompt prompt
                 in if sf_allowed safety then None else Some (ScheduleValidationError (sf_reason safety))))"

definition validate_delivery_selection :: "string option \<Rightarrow> string option \<Rightarrow> schedule_service_error option" where
  "validate_delivery_selection target cid =
     (case cid of
        None \<Rightarrow> None
      | Some c \<Rightarrow>
          if py_strip c = [] then Some (ScheduleDeliveryContextError ''delivery_conversation_required'')
          else if target \<noteq> Some ''feishu'' then Some (ScheduleDeliveryContextError ''delivery_conversation_requires_feishu'')
          else None)"

text \<open>Python's truth of a value of a context.\<close>

fun json_truthy :: "json option \<Rightarrow> bool" where
  "json_truthy None = False"
| "json_truthy (Some JNull) = False"
| "json_truthy (Some (JBool b)) = b"
| "json_truthy (Some (JInt n)) = (n \<noteq> 0)"
| "json_truthy (Some (JStr s)) = (s \<noteq> [])"
| "json_truthy (Some (JList xs)) = (xs \<noteq> [])"
| "json_truthy (Some (JObj kvs)) = (kvs \<noteq> [])"

definition delivery_target :: "string \<Rightarrow> dict \<Rightarrow> schedule_service_error + DeliveryTarget" where
  "delivery_target target origin =
     (case parse_target_type target of
        None \<Rightarrow> Inl (ScheduleDeliveryContextError ''unsupported_delivery_target'')
      | Some DeliveryTargetType.FEISHU \<Rightarrow> Inl (ScheduleDeliveryContextError ''delivery_conversation_required'')
      | Some ORIGIN \<Rightarrow>
          if map_of origin ''target'' \<noteq> Some (JStr ''home'') \<and>
             (\<not> json_truthy (map_of origin ''receive_id'') \<or> \<not> json_truthy (map_of origin ''receive_id_type''))
          then Inl (ScheduleDeliveryContextError ''origin delivery requires receive_id and receive_id_type'')
          else Inr \<lparr>dt_target_type = ORIGIN, dt_context = origin\<rparr>
      | Some SILENT \<Rightarrow> Inr \<lparr>dt_target_type = SILENT, dt_context = []\<rparr>
      | Some DASHBOARD \<Rightarrow> Inr \<lparr>dt_target_type = DASHBOARD, dt_context = []\<rparr>)"

definition resolve_delivery_target ::
  "schedule_env \<Rightarrow> schedule_db \<Rightarrow> string \<Rightarrow> dict \<Rightarrow> string option \<Rightarrow> ScheduledTask option \<Rightarrow> schedule_service_error + DeliveryTarget" where
  "resolve_delivery_target env db target origin cid task =
     (case parse_target_type target of
        None \<Rightarrow> Inl (ScheduleDeliveryContextError ''unsupported_delivery_target'')
      | Some DeliveryTargetType.FEISHU \<Rightarrow>
          (case cid of
             Some c \<Rightarrow>
               if py_strip c = [] then Inl (ScheduleDeliveryContextError ''delivery_conversation_required'')
               else (case se_delivery env of
                       None \<Rightarrow> Inl (ScheduleDeliveryContextError ''delivery_service_unavailable'')
                     | Some denv \<Rightarrow> (case resolve_selection denv db c of Inl e \<Rightarrow> Inl (DeliveryError e) | Inr t \<Rightarrow> Inr t))
           | None \<Rightarrow>
               (case task of
                  Some t \<Rightarrow> if dt_target_type (sk_delivery_target t) = DeliveryTargetType.FEISHU then Inr (sk_delivery_target t)
                            else Inl (ScheduleDeliveryContextError ''delivery_conversation_required'')
                | None \<Rightarrow> Inl (ScheduleDeliveryContextError ''delivery_conversation_required'')))
      | Some ty \<Rightarrow>
          if ty = ORIGIN \<and> (case task of None \<Rightarrow> False | Some t \<Rightarrow> map_of (sk_origin t) ''platform'' \<noteq> Some (JStr ''feishu''))
          then Inl (ScheduleDeliveryContextError ''origin_delivery_unavailable'')
          else delivery_target target origin)"

section \<open>Creation and editing\<close>

record ScheduledTaskCreateInput =
  ic_name :: string
  ic_prompt :: string
  ic_cron_expression :: string
  ic_timezone :: string
  ic_delivery_target :: string
  ic_origin :: dict
  ic_session_id :: "string option"
  ic_allowed_tools :: "string list"
  ic_delivery_conversation_id :: "string option"

record ScheduledTaskUpdateInput =
  iu_name :: "string option"
  iu_prompt :: "string option"
  iu_cron_expression :: "string option"
  iu_timezone :: "string option"
  iu_delivery_target :: "string option"
  iu_origin :: "dict option"
  iu_session_id :: "string option"
  iu_allowed_tools :: "string list option"
  iu_delivery_conversation_id :: "string option"

definition lift_registry :: "schedule_state \<Rightarrow> ScheduledTask sch_result \<Rightarrow> ScheduledTask svc_result" where
  "lift_registry st r = (st\<lparr>ss_db := fst r\<rparr>, case snd r of Inl e \<Rightarrow> Inl (RegistryError e) | Inr t \<Rightarrow> Inr t)"

definition name_or :: "string \<Rightarrow> string \<Rightarrow> string" where
  "name_or name fallback = (if py_strip name \<noteq> [] then py_strip name else fallback)"

definition schedule_create :: "schedule_env \<Rightarrow> ScheduledTaskCreateInput \<Rightarrow> schedule_state \<Rightarrow> ScheduledTask svc_result" where
  "schedule_create env rq st =
     (case validate_delivery_selection (Some (ic_delivery_target rq)) (ic_delivery_conversation_id rq) of
        Some e \<Rightarrow> (st, Inl e)
      | None \<Rightarrow>
      (case svc_validate env (ic_cron_expression rq) (ic_timezone rq) (ic_prompt rq) of
         Some e \<Rightarrow> (st, Inl e)
       | None \<Rightarrow>
       (case resolve_delivery_target env (ss_db st) (ic_delivery_target rq) (ic_origin rq) (ic_delivery_conversation_id rq) None of
          Inl e \<Rightarrow> (st, Inl e)
        | Inr target \<Rightarrow>
            (let own = (ic_session_id rq = None \<or> dt_target_type target \<in> {ORIGIN, DeliveryTargetType.FEISHU});
                 session = (if own then ''schedule-'' @ se_new_session env else the (ic_session_id rq));
                 st1 = (if own then st\<lparr>ss_sessions := ss_sessions st @ [session]\<rparr> else st);
                 now = se_now env
             in case se_next_after env (ic_cron_expression rq) now (ic_timezone rq) of
                  None \<Rightarrow> (st1, Inl (RegistryError ScheduleCalculationError))
                | Some next_run \<Rightarrow>
                    lift_registry st1 (sched_create now
                      ((ScheduledTask_new (''sched-'' @ se_new_id env) (name_or (ic_name rq) ''Scheduled Task'') (ic_prompt rq)
                          (ic_cron_expression rq) (ic_timezone rq) session target next_run)
                         \<lparr>sk_origin := ic_origin rq, sk_execution_policy := ScheduledExecutionPolicy_new (ic_allowed_tools rq),
                          sk_created_at := Some now, sk_updated_at := Some now\<rparr>) (ss_db st1))))))"

definition schedule_get :: "string \<Rightarrow> schedule_state \<Rightarrow> schedule_service_error + ScheduledTask" where
  "schedule_get tid st = (case sched_get tid (ss_db st) of None \<Rightarrow> Inl ScheduledTaskNotFoundError | Some t \<Rightarrow> Inr t)"

definition text_or_else :: "string option \<Rightarrow> string \<Rightarrow> string" where
  "text_or_else a b = (if truthy a then the a else b)"

definition updated_task ::
  "ScheduledTaskUpdateInput \<Rightarrow> DeliveryTarget \<Rightarrow> datetime \<Rightarrow> datetime \<Rightarrow> ScheduledTask \<Rightarrow> ScheduledTask" where
  "updated_task rq target next_run now t =
     t\<lparr>sk_name := (case iu_name rq of None \<Rightarrow> sk_name t | Some n \<Rightarrow> n),
       sk_prompt := (case iu_prompt rq of None \<Rightarrow> sk_prompt t | Some p \<Rightarrow> p),
       sk_schedule := text_or_else (iu_cron_expression rq) (sk_schedule t),
       sk_timezone := text_or_else (iu_timezone rq) (sk_timezone t),
       sk_origin := (case iu_origin rq of None \<Rightarrow> sk_origin t | Some d \<Rightarrow> d),
       sk_delivery_target := target,
       sk_session_id := (case iu_session_id rq of None \<Rightarrow> sk_session_id t | Some s \<Rightarrow> s),
       sk_next_run_at := next_run,
       sk_execution_policy := (case iu_allowed_tools rq of None \<Rightarrow> sk_execution_policy t
                               | Some tools \<Rightarrow> (sk_execution_policy t)\<lparr>xp_allowed_tools := tools\<rparr>),
       sk_updated_at := Some now\<rparr>"

definition schedule_update :: "schedule_env \<Rightarrow> string \<Rightarrow> ScheduledTaskUpdateInput \<Rightarrow> schedule_state \<Rightarrow> ScheduledTask svc_result" where
  "schedule_update env tid rq st =
     (case validate_delivery_selection (iu_delivery_target rq) (iu_delivery_conversation_id rq) of
        Some e \<Rightarrow> (st, Inl e)
      | None \<Rightarrow>
      (case schedule_get tid st of
         Inl e \<Rightarrow> (st, Inl e)
       | Inr t \<Rightarrow>
           (let expr = text_or_else (iu_cron_expression rq) (sk_schedule t);
                tz = text_or_else (iu_timezone rq) (sk_timezone t);
                prompt = (case iu_prompt rq of None \<Rightarrow> sk_prompt t | Some p \<Rightarrow> p)
            in case svc_validate env expr tz prompt of
                 Some e \<Rightarrow> (st, Inl e)
               | None \<Rightarrow>
               (case (case iu_delivery_target rq of
                        None \<Rightarrow> Inr (sk_delivery_target t)
                      | Some target \<Rightarrow> resolve_delivery_target env (ss_db st) target (sk_origin t) (iu_delivery_conversation_id rq) (Some t)) of
                  Inl e \<Rightarrow> (st, Inl e)
                | Inr target \<Rightarrow>
                    (case se_next_after env expr (se_now env) tz of
                       None \<Rightarrow> (st, Inl (RegistryError ScheduleCalculationError))
                     | Some next_run \<Rightarrow>
                         lift_registry st (sched_update (se_now env) (updated_task rq target next_run (se_now env) t) (ss_db st)))))))"

definition schedule_pause :: "schedule_env \<Rightarrow> string \<Rightarrow> schedule_state \<Rightarrow> ScheduledTask svc_result" where
  "schedule_pause env tid st =
     (case schedule_get tid st of
        Inl e \<Rightarrow> (st, Inl e)
      | Inr _ \<Rightarrow> lift_registry st (sched_update_status (se_now env) tid PAUSED False (ss_db st)))"

definition schedule_resume :: "schedule_env \<Rightarrow> string \<Rightarrow> schedule_state \<Rightarrow> ScheduledTask svc_result" where
  "schedule_resume env tid st =
     (case schedule_get tid st of
        Inl e \<Rightarrow> (st, Inl e)
      | Inr t \<Rightarrow>
          (case se_next_after env (sk_schedule t) (se_now env) (sk_timezone t) of
             None \<Rightarrow> (st, Inl (RegistryError ScheduleCalculationError))
           | Some next_run \<Rightarrow>
               (case lift_registry st (sched_update (se_now env)
                       (t\<lparr>sk_next_run_at := next_run, sk_updated_at := Some (se_now env)\<rparr>) (ss_db st)) of
                  (st1, Inl e) \<Rightarrow> (st1, Inl e)
                | (st1, Inr _) \<Rightarrow> lift_registry st1 (sched_update_status (se_now env) tid ACTIVE True (ss_db st1)))))"

definition schedule_delete :: "string \<Rightarrow> schedule_state \<Rightarrow> bool svc_result" where
  "schedule_delete tid st =
     (case schedule_get tid st of
        Inl e \<Rightarrow> (st, Inl e)
      | Inr _ \<Rightarrow> (let (db1, b) = sched_delete tid (ss_db st) in (st\<lparr>ss_db := db1\<rparr>, Inr b)))"

section \<open>Sessions and runs\<close>

definition handle_session_deleted :: "schedule_env \<Rightarrow> string \<Rightarrow> schedule_state \<Rightarrow> schedule_state \<times> nat" where
  "handle_session_deleted env sid st =
     (let (db1, n) = mark_session_missing (se_now env) sid (ss_db st) in (st\<lparr>ss_db := db1\<rparr>, n))"

text \<open>Each recovered task gets a session of its own, here the \<open>i\<close>-th of \<open>sessions\<close>.\<close>

fun recover_loop :: "datetime \<Rightarrow> (nat \<Rightarrow> string) \<Rightarrow> nat \<Rightarrow> ScheduledTask list \<Rightarrow> schedule_state \<Rightarrow> nat svc_result" where
  "recover_loop now sessions i [] st = (st, Inr i)"
| "recover_loop now sessions i (t # ts) st =
     (let session = ''schedule-'' @ sessions i;
          st1 = st\<lparr>ss_sessions := ss_sessions st @ [session]\<rparr>
      in case lift_registry st1 (sched_update now (t\<lparr>sk_session_id := session, sk_enabled := True, sk_status := ACTIVE\<rparr>) (ss_db st1)) of
           (st2, Inl e) \<Rightarrow> (st2, Inl e)
         | (st2, Inr _) \<Rightarrow> recover_loop now sessions (Suc i) ts st2)"

definition recover_missing_origin_sessions :: "schedule_env \<Rightarrow> (nat \<Rightarrow> string) \<Rightarrow> schedule_state \<Rightarrow> nat svc_result" where
  "recover_missing_origin_sessions env sessions st =
     recover_loop (se_now env) sessions 0 (list_recoverable_origin_tasks (ss_db st)) st"

text \<open>\<open>handler\<close> is the run service's \<open>run_now\<close>, whose answer is whether it claimed the task.\<close>

definition schedule_run_now ::
  "schedule_env \<Rightarrow> (nat \<Rightarrow> string) \<Rightarrow> (string \<Rightarrow> schedule_db \<Rightarrow> schedule_db \<times> bool) option \<Rightarrow> string \<Rightarrow> schedule_state \<Rightarrow> unit svc_result" where
  "schedule_run_now env sessions handler tid st =
     (case recover_missing_origin_sessions env sessions st of
        (st1, Inl e) \<Rightarrow> (st1, Inl e)
      | (st1, Inr _) \<Rightarrow>
          (case schedule_get tid st1 of
             Inl e \<Rightarrow> (st1, Inl e)
           | Inr t \<Rightarrow>
               if sk_status t = PAUSED \<or> \<not> sk_enabled t then (st1, Inl (ScheduledTaskNotRunnableError ''scheduled_task_paused''))
               else if sk_status t = SESSION_MISSING
               then (st1, Inl (ScheduledTaskNotRunnableError ''scheduled_task_session_missing''))
               else (case handler of
                       None \<Rightarrow> (st1, Inl (ScheduleServiceError ''run_now is not configured''))
                     | Some h \<Rightarrow>
                         (let (db1, claimed) = h tid (ss_db st1); st2 = st1\<lparr>ss_db := db1\<rparr>
                          in if claimed then (st2, Inr ())
                             else (st2, Inl (ScheduledTaskNotRunnableError ''scheduled_task_claim_conflict''))))))"

definition schedule_list_executions :: "string \<Rightarrow> int \<Rightarrow> schedule_state \<Rightarrow> schedule_service_error + ScheduledTaskExecution list" where
  "schedule_list_executions tid lim st =
     (case schedule_get tid st of
        Inl e \<Rightarrow> Inl e
      | Inr _ \<Rightarrow> if lim < 1 \<or> lim > 50 then Inl (ScheduleValidationError ''execution history limit must be between 1 and 50'')
                 else Inr (sched_list_executions (Some tid) lim (ss_db st)))"

definition schedule_list_all_executions ::
  "int \<Rightarrow> string option \<Rightarrow> schedule_state \<Rightarrow> schedule_service_error + ScheduledTaskExecution list" where
  "schedule_list_all_executions lim tid st =
     (if lim < 1 \<or> lim > 200 then Inl (ScheduleValidationError ''execution history limit must be between 1 and 200'')
      else if truthy tid then
        (case schedule_get (the tid) st of
           Inl e \<Rightarrow> Inl e
         | Inr _ \<Rightarrow> Inr (sched_list_executions tid lim (ss_db st)))
      else Inr (sched_list_executions None lim (ss_db st)))"

section \<open>Migration of configuration\<close>

definition normalize_runnability :: "bool \<Rightarrow> ScheduledTaskStatus \<Rightarrow> bool \<times> ScheduledTaskStatus" where
  "normalize_runnability enabled status = (if enabled \<and> status = ACTIVE then (True, ACTIVE) else (False, PAUSED))"

record schedule_import =
  ii_name :: string
  ii_prompt :: string
  ii_cron_expression :: string
  ii_timezone :: string
  ii_delivery_target :: string
  ii_origin :: dict
  ii_delivery_context :: dict
  ii_execution_policy :: ScheduledExecutionPolicy
  ii_enabled :: bool
  ii_status :: ScheduledTaskStatus
  ii_delivery_evidence :: "(string \<times> string) list option"

definition import_delivery_target :: "schedule_env \<Rightarrow> schedule_db \<Rightarrow> schedule_import \<Rightarrow> schedule_service_error + DeliveryTarget" where
  "import_delivery_target env db rq =
     (if ii_delivery_target rq \<noteq> ''feishu'' then delivery_target (ii_delivery_target rq) (ii_delivery_context rq)
      else case se_delivery env of
        None \<Rightarrow> Inl (DeliveryError (ScheduleDeliveryError ''delivery_resolver_unavailable''))
      | Some denv \<Rightarrow>
          (case rebind_import denv db (ii_delivery_evidence rq) (ii_delivery_context rq) of
             Inl e \<Rightarrow> Inl (DeliveryError e) | Inr t \<Rightarrow> Inr t))"

definition import_create :: "schedule_env \<Rightarrow> schedule_import \<Rightarrow> schedule_state \<Rightarrow> ScheduledTask svc_result" where
  "import_create env rq st =
     (case svc_validate env (ii_cron_expression rq) (ii_timezone rq) (ii_prompt rq) of
        Some e \<Rightarrow> (st, Inl e)
      | None \<Rightarrow>
      (case import_delivery_target env (ss_db st) rq of
         Inl e \<Rightarrow> (st, Inl e)
       | Inr target \<Rightarrow>
           (let (enabled, status) = normalize_runnability (ii_enabled rq) (ii_status rq);
                session = ''schedule-'' @ se_new_session env;
                st1 = st\<lparr>ss_sessions := ss_sessions st @ [session]\<rparr>;
                now = se_now env
            in case se_next_after env (ii_cron_expression rq) now (ii_timezone rq) of
                 None \<Rightarrow> (st1, Inl (RegistryError ScheduleCalculationError))
               | Some next_run \<Rightarrow>
                   lift_registry st1 (sched_create now
                     ((ScheduledTask_new (''sched-'' @ se_new_id env) (name_or (ii_name rq) ''Scheduled Task'') (ii_prompt rq)
                         (ii_cron_expression rq) (ii_timezone rq) session target next_run)
                        \<lparr>sk_origin := ii_origin rq, sk_enabled := enabled, sk_status := status,
                         sk_execution_policy := ii_execution_policy rq, sk_created_at := Some now, sk_updated_at := Some now\<rparr>)
                     (ss_db st1)))))"

definition import_update :: "schedule_env \<Rightarrow> string \<Rightarrow> schedule_import \<Rightarrow> schedule_state \<Rightarrow> ScheduledTask svc_result" where
  "import_update env tid rq st =
     (case schedule_get tid st of
        Inl e \<Rightarrow> (st, Inl e)
      | Inr t \<Rightarrow>
          (let now = se_now env in
           if (case sk_lease_until t of None \<Rightarrow> False | Some l \<Rightarrow> l > now) then (st, Inl ScheduledTaskLeaseHeldError)
           else case svc_validate env (ii_cron_expression rq) (ii_timezone rq) (ii_prompt rq) of
             Some e \<Rightarrow> (st, Inl e)
           | None \<Rightarrow>
           (case import_delivery_target env (ss_db st) rq of
              Inl e \<Rightarrow> (st, Inl e)
            | Inr target \<Rightarrow>
                (let (enabled, status) = normalize_runnability (ii_enabled rq) (ii_status rq);
                     reschedule = (ii_cron_expression rq \<noteq> sk_schedule t \<or> ii_timezone rq \<noteq> sk_timezone t \<or> enabled \<noteq> sk_enabled t)
                 in case (if reschedule then se_next_after env (ii_cron_expression rq) now (ii_timezone rq) else Some (sk_next_run_at t)) of
                      None \<Rightarrow> (st, Inl (RegistryError ScheduleCalculationError))
                    | Some next_run \<Rightarrow>
                        lift_registry st (sched_update now
                          (t\<lparr>sk_name := name_or (ii_name rq) (sk_name t), sk_prompt := ii_prompt rq,
                             sk_schedule := ii_cron_expression rq, sk_timezone := ii_timezone rq, sk_origin := ii_origin rq,
                             sk_delivery_target := target, sk_execution_policy := ii_execution_policy rq, sk_enabled := enabled,
                             sk_status := status, sk_next_run_at := next_run, sk_updated_at := Some now\<rparr>) (ss_db st))))))"

end
