(* ===== verification/Schedule_Theorems.thy ===== *)
theory Schedule_Theorems
  imports Schedule_Run Schedule_Service Information_Theorems
begin

text \<open>
  The schedule registry and the run service: claims are what the domain's constraints say, a lease protects a run,
  a run settles its claim, and what is delivered.
\<close>

definition sched_inv :: "schedule_db \<Rightarrow> bool" where
  "sched_inv db \<longleftrightarrow> keyed sk_id (sch_tasks db) \<and> keyed kx_id (sch_executions db)"

definition the_task :: "string \<Rightarrow> schedule_db \<Rightarrow> ScheduledTask option" where
  "the_task k db = fetchone (\<lambda>t. sk_id t = k) (sch_tasks db)"

lemma the_task_SomeD: "the_task k db = Some t \<Longrightarrow> t \<in> set (sch_tasks db) \<and> sk_id t = k"
  by (auto simp: the_task_def dest: fetchone_SomeD)

lemma the_task_in: "sched_inv db \<Longrightarrow> t \<in> set (sch_tasks db) \<Longrightarrow> the_task (sk_id t) db = Some t"
  unfolding sched_inv_def the_task_def by (rule keyed_fetchone) auto

section \<open>Claiming due tasks\<close>

lemma due_satisfied: "due now t \<longleftrightarrow> is_satisfied_by (for_due_claim now) t"
  by (auto simp: due_def lease_free_def is_satisfied_by_def for_due_claim_def split: option.splits)

text \<open>What a claim writes to its row.\<close>

definition apply_claims :: "datetime \<Rightarrow> ScheduledTaskClaim list \<Rightarrow> ScheduledTask \<Rightarrow> ScheduledTask" where
  "apply_claims now cs t = (case find (\<lambda>c. sk_id (kc_task c) = sk_id t) cs of None \<Rightarrow> t | Some c \<Rightarrow> claimed_task now c t)"

lemma claimed_task_id [simp]: "sk_id (claimed_task now c t) = sk_id t"
  by (simp add: claimed_task_def)

lemma kc_task_make_claim [simp]: "kc_task (make_claim t now lease reason next_run ids) = t"
  by (simp add: make_claim_def)

lemma claim_loop_spec:
  fixes lease :: int and nxt :: "ScheduledTask \<Rightarrow> datetime" and ids :: "(string \<times> string) list"
  assumes "keyed sk_id (sch_tasks db)" and "distinct (map sk_id rows)" and "length ids = length rows"
    and "\<And>t. t \<in> set rows \<Longrightarrow> t \<in> set (sch_tasks db) \<and> due now t"
    and "\<And>t. t \<in> set rows \<Longrightarrow> next_after (sk_schedule t) now (sk_timezone t) = Some (nxt t)"
  defines "cs \<equiv> map2 (\<lambda>i t. make_claim t now lease CLAIM_REASON_DUE (nxt t) i) ids rows"
  shows "claim_loop next_after now lease ids rows db =
    Some (db\<lparr>sch_tasks := map (apply_claims now cs) (sch_tasks db)\<rparr>, cs)"
  using assms(1-5) unfolding cs_def
proof (induction rows arbitrary: ids db)
  case Nil
  then show ?case by (cases ids) (simp_all add: apply_claims_def)
next
  case (Cons t rows)
  then obtain i ids' where ids: "ids = i # ids'" "length ids' = length rows" by (cases ids) auto
  let ?c = "make_claim t now lease CLAIM_REASON_DUE (nxt t) i"
  let ?P = "\<lambda>r. sk_id r = sk_id t \<and> sk_enabled r \<and> sk_status r = ACTIVE \<and> lease_free now r"
  let ?db1 = "db\<lparr>sch_tasks := sql_update ?P (claimed_task now ?c) (sch_tasks db)\<rparr>"
  have t: "t \<in> set (sch_tasks db)" "due now t" using Cons.prems(4) by auto
  have P: "?P r \<longleftrightarrow> sk_id r = sk_id t" if "r \<in> set (sch_tasks db)" for r
    using that t keyed_eqD [OF Cons.prems(1) that t(1)] by (auto simp: due_def)
  have upd: "sch_tasks ?db1 = map (\<lambda>r. if sk_id r = sk_id t then claimed_task now ?c r else r) (sch_tasks db)"
    using P by (auto simp: sql_update_def)
  have count: "rowcount ?P (sch_tasks db) > 0"
    using t P unfolding rowcount_def by (metis (mono_tags, lifting) filter_empty_conv length_greater_0_conv)
  have rows1: "r \<in> set (sch_tasks ?db1) \<and> due now r" if "r \<in> set rows" for r
    using that Cons.prems(2) Cons.prems(4) [of r] unfolding upd by (force simp: image_iff)
  have key1: "keyed sk_id (sch_tasks ?db1)"
    using Cons.prems(1) by (simp add: keyed_sql_update)
  let ?cs = "map2 (\<lambda>i t. make_claim t now lease CLAIM_REASON_DUE (nxt t) i) ids' rows"
  have rec: "claim_loop next_after now lease ids' rows ?db1 =
      Some (?db1\<lparr>sch_tasks := map (apply_claims now ?cs) (sch_tasks ?db1)\<rparr>, ?cs)"
    using Cons.IH [OF key1 _ ids(2) rows1] Cons.prems(2,5) by simp
  have "sk_id t \<notin> (sk_id \<circ> kc_task) ` set ?cs"
    using Cons.prems(2) by (auto simp: make_claim_def dest: set_zip_rightD)
  then have "find (\<lambda>c. sk_id (kc_task c) = sk_id t) ?cs = None" unfolding find_None_iff by force
  then have "apply_claims now ?cs (if sk_id r = sk_id t then claimed_task now ?c r else r) = apply_claims now (?c # ?cs) r" for r
    by (auto simp: apply_claims_def)
  then have "map (apply_claims now ?cs) (sch_tasks ?db1) = map (apply_claims now (?c # ?cs)) (sch_tasks db)"
    unfolding upd by simp
  with rec count show ?case
    using Cons.prems(5) [of t] by (simp add: ids Let_def)
qed

lemma due_rows_in: "t \<in> set (due_rows now lim db) \<Longrightarrow> t \<in> set (sch_tasks db) \<and> due now t"
  by (auto simp: due_rows_def sql_head_def dest: in_set_takeD split: if_splits)

lemma due_rows_distinct: "keyed sk_id (sch_tasks db) \<Longrightarrow> distinct (map sk_id (due_rows now lim db))"
proof -
  assume "keyed sk_id (sch_tasks db)"
  then have "distinct (map sk_id (filter (due now) (sch_tasks db)))" by (simp add: keyed_def distinct_map_filter)
  then have "distinct (map sk_id (sort_key sk_next_run_at (filter (due now) (sch_tasks db))))" by (simp add: distinct_map)
  then show ?thesis by (auto simp: due_rows_def sql_head_def take_map [symmetric])
qed

lemma claim_due_spec:
  fixes lease :: int and nxt :: "ScheduledTask \<Rightarrow> datetime" and ids :: "nat \<Rightarrow> string \<times> string"
  assumes "keyed sk_id (sch_tasks db)"
    and "\<And>t. t \<in> set (due_rows now lim db) \<Longrightarrow> next_after (sk_schedule t) now (sk_timezone t) = Some (nxt t)"
  defines "cs \<equiv> map2 (\<lambda>i t. make_claim t now lease CLAIM_REASON_DUE (nxt t) (ids i)) [0..<length (due_rows now lim db)] (due_rows now lim db)"
  shows "claim_due_tasks next_after now lim lease ids db =
    (db\<lparr>sch_tasks := map (apply_claims now cs) (sch_tasks db)\<rparr>, Inr cs)"
    and "map kc_task cs = due_rows now lim db"
proof -
  have "claim_loop next_after now lease (map ids [0..<length (due_rows now lim db)]) (due_rows now lim db) db =
      Some (db\<lparr>sch_tasks := map (apply_claims now cs) (sch_tasks db)\<rparr>, cs)"
    using claim_loop_spec [OF assms(1) due_rows_distinct [OF assms(1), of now lim], where ids = "map ids [0..<length (due_rows now lim db)]"
        and next_after = next_after and nxt = nxt and now = now and lease = lease] assms(2) due_rows_in [of _ now lim db]
    by (simp add: cs_def zip_map1 comp_def case_prod_unfold)
  then show "claim_due_tasks next_after now lim lease ids db =
    (db\<lparr>sch_tasks := map (apply_claims now cs) (sch_tasks db)\<rparr>, Inr cs)"
    by (simp add: claim_due_tasks_def Let_def)
  show "map kc_task cs = due_rows now lim db"
    by (simp add: cs_def comp_def case_prod_unfold)
qed

section \<open>Transactions in any order\<close>

datatype sched_op =
    OpCreate datetime ScheduledTask
  | OpUpdate datetime ScheduledTask
  | OpStatus datetime string ScheduledTaskStatus bool
  | OpDelete string
  | OpClaimDue datetime int int "nat \<Rightarrow> string \<times> string"
  | OpRunNow string datetime int "string \<times> string"
  | OpStart datetime ScheduledTaskExecution
  | OpComplete datetime ScheduledTaskExecution
  | OpDelivery datetime ScheduledTaskExecution
  | OpRecover datetime
  | OpUnread datetime string string string
  | OpClear datetime string
  | OpMissing datetime string

type_synonym calculator = "string \<Rightarrow> datetime \<Rightarrow> string \<Rightarrow> datetime option"

text \<open>The effect of a transaction and the claims it hands out.\<close>

fun sched_apply :: "calculator \<Rightarrow> sched_op \<Rightarrow> schedule_db \<Rightarrow> schedule_db \<times> ScheduledTaskClaim list" where
  "sched_apply f (OpCreate now t) db = (fst (sched_create now t db), [])"
| "sched_apply f (OpUpdate now t) db = (fst (sched_update now t db), [])"
| "sched_apply f (OpStatus now k st b) db = (fst (sched_update_status now k st b db), [])"
| "sched_apply f (OpDelete k) db = (fst (sched_delete k db), [])"
| "sched_apply f (OpClaimDue now lim lease ids) db =
     (let (db', r) = claim_due_tasks f now lim lease ids db in (db', case r of Inl e \<Rightarrow> [] | Inr cs \<Rightarrow> cs))"
| "sched_apply f (OpRunNow k now lease ids) db =
     (let (db', r) = claim_task_for_run_now k now lease ids db in (db', case r of None \<Rightarrow> [] | Some c \<Rightarrow> [c]))"
| "sched_apply f (OpStart now e) db = (fst (record_execution_started now e db), [])"
| "sched_apply f (OpComplete now e) db = (fst (record_execution_completed now e db), [])"
| "sched_apply f (OpDelivery now e) db = (fst (record_delivery_result now e db), [])"
| "sched_apply f (OpRecover now) db = (fst (sched_recover_stale now db), [])"
| "sched_apply f (OpUnread now k c ow) db = (fst (mark_dashboard_unread now k c ow db), [])"
| "sched_apply f (OpClear now k) db = (fst (clear_dashboard_unread now k db), [])"
| "sched_apply f (OpMissing now sid) db = (fst (mark_session_missing now sid db), [])"

fun sched_trace :: "calculator \<Rightarrow> sched_op list \<Rightarrow> schedule_db \<Rightarrow> schedule_db \<times> ScheduledTaskClaim list" where
  "sched_trace f [] db = (db, [])"
| "sched_trace f (op # ops) db =
     (let (db1, cs1) = sched_apply f op db; (db2, cs2) = sched_trace f ops db1 in (db2, cs1 @ cs2))"

text \<open>The lease columns of a row.\<close>

definition lease_of :: "ScheduledTask \<Rightarrow> datetime option \<times> string option \<times> string option" where
  "lease_of t = (sk_lease_until t, sk_claim_id t, sk_lease_owner t)"

definition leased :: "string \<Rightarrow> string \<Rightarrow> string \<Rightarrow> datetime \<Rightarrow> schedule_db \<Rightarrow> bool" where
  "leased k c ow l db \<longleftrightarrow>
     (case the_task k db of None \<Rightarrow> False | Some t \<Rightarrow> lease_of t = (Some l, Some c, Some ow) \<and> \<not> settled_claim db t)"

text \<open>
  The transactions that leave the lease \<open>(c, ow)\<close> of task \<open>k\<close> alone: made before it ends, no deletion of the task, no
  completion of its run, and updates that write back the lease they read.
\<close>

fun permits :: "string \<Rightarrow> string \<Rightarrow> string \<Rightarrow> datetime \<Rightarrow> sched_op \<Rightarrow> schedule_db \<Rightarrow> bool" where
  "permits k c ow l (OpUpdate now t) db = (sk_id t \<noteq> k \<or> map_option lease_of (the_task k db) = Some (lease_of t))"
| "permits k c ow l (OpDelete j) db = (j \<noteq> k)"
| "permits k c ow l (OpClaimDue now lim lease ids) db = (now \<le> l)"
| "permits k c ow l (OpRunNow j now lease ids) db = (now \<le> l)"
| "permits k c ow l (OpStart now e) db = (kx_status e = RUNNING)"
| "permits k c ow l (OpComplete now e) db =
     ((kx_task_id e, kx_claim_id e, kx_lease_owner e) \<noteq> (k, c, ow) \<and>
      list_all (\<lambda>r. kx_id r \<noteq> kx_id e \<or>
        (kx_task_id r, kx_claim_id r, kx_lease_owner r) = (kx_task_id e, kx_claim_id e, kx_lease_owner e)) (sch_executions db))"
| "permits k c ow l (OpRecover now) db = (now \<le> l)"
| "permits k c ow l op db = True"

fun undisturbed :: "calculator \<Rightarrow> string \<Rightarrow> string \<Rightarrow> string \<Rightarrow> datetime \<Rightarrow> sched_op list \<Rightarrow> schedule_db \<Rightarrow> bool" where
  "undisturbed f k c ow l [] db = True"
| "undisturbed f k c ow l (op # ops) db = (permits k c ow l op db \<and> undisturbed f k c ow l ops (fst (sched_apply f op db)))"

section \<open>A lease protects a run\<close>

lemma fst_reread_task [simp]: "fst (reread_task k db) = db"
  by (simp add: reread_task_def split: option.split)

lemma claim_due_fails:
  assumes "\<exists>t\<in>set (due_rows now lim db). f (sk_schedule t) now (sk_timezone t) = None"
  shows "claim_due_tasks f now lim lease ids db = (db, Inl ScheduleCalculationError)"
proof -
  have "claim_loop f now lease is rows db' = None"
    if "length is = length rows" "\<exists>t\<in>set rows. f (sk_schedule t) now (sk_timezone t) = None" for "is" rows db'
    using that
  proof (induction rows arbitrary: "is" db')
    case (Cons t rows)
    then show ?case by (cases "is") (auto simp: Let_def split: option.split)
  qed simp
  with assms show ?thesis by (simp add: claim_due_tasks_def Let_def)
qed

lemma claim_due_cases:
  assumes "keyed sk_id (sch_tasks db)"
  obtains cs where "claim_due_tasks f now lim lease ids db = (db\<lparr>sch_tasks := map (apply_claims now cs) (sch_tasks db)\<rparr>, Inr cs)"
      "map kc_task cs = due_rows now lim db"
    | "claim_due_tasks f now lim lease ids db = (db, Inl ScheduleCalculationError)"
proof (cases "\<exists>t\<in>set (due_rows now lim db). f (sk_schedule t) now (sk_timezone t) = None")
  case True
  from claim_due_fails [where f = f and lease = lease and ids = ids, OF True] show ?thesis by (rule that(2))
next
  case False
  then have "f (sk_schedule t) now (sk_timezone t) = Some (the (f (sk_schedule t) now (sk_timezone t)))"
    if "t \<in> set (due_rows now lim db)" for t using that by auto
  from claim_due_spec [where nxt = "\<lambda>t. the (f (sk_schedule t) now (sk_timezone t))" and next_after = f and lease = lease and ids = ids,
      OF assms this]
  show ?thesis using that(1) by blast
qed

lemma run_now_cases:
  assumes "keyed sk_id (sch_tasks db)"
  obtains "claim_task_for_run_now k now lease ids db = (db, None)"
    | t where "the_task k db = Some t" "lease_free now t \<or> settled_claim db t" "sk_enabled t" "sk_status t = ACTIVE"
      "claim_task_for_run_now k now lease ids db =
        (db\<lparr>sch_tasks := sql_update (\<lambda>r. sk_id r = k)
           (claimed_task now (make_claim t now lease CLAIM_REASON_RUN_NOW (sk_next_run_at t) ids)) (sch_tasks db)\<rparr>,
         Some (make_claim t now lease CLAIM_REASON_RUN_NOW (sk_next_run_at t) ids))"
proof (cases "fetchone (\<lambda>r. sk_id r = k \<and> sk_enabled r \<and> sk_status r = ACTIVE \<and> (lease_free now r \<or> settled_claim db r)) (sch_tasks db)")
  case None
  then show ?thesis by (intro that(1)) (simp add: claim_task_for_run_now_def Let_def)
next
  case (Some t)
  let ?P = "\<lambda>r. sk_id r = k \<and> sk_enabled r \<and> sk_status r = ACTIVE \<and> (lease_free now r \<or> settled_claim db r)"
  from Some have t: "t \<in> set (sch_tasks db)" "?P t" by (auto dest: fetchone_SomeD)
  have P: "?P r \<longleftrightarrow> sk_id r = k" if "r \<in> set (sch_tasks db)" for r
    using that t keyed_eqD [OF assms that t(1)] by auto
  have "rowcount ?P (sch_tasks db) > 0"
    using t by (auto simp: rowcount_def filter_empty_conv)
  moreover have "r = t" if "r \<in> set (sch_tasks db)" "sk_id r = k" for r
    using that t keyed_eqD [OF assms that(1) t(1)] by auto
  ultimately have "claim_task_for_run_now k now lease ids db =
        (db\<lparr>sch_tasks := sql_update (\<lambda>r. sk_id r = k)
           (claimed_task now (make_claim t now lease CLAIM_REASON_RUN_NOW (sk_next_run_at t) ids)) (sch_tasks db)\<rparr>,
         Some (make_claim t now lease CLAIM_REASON_RUN_NOW (sk_next_run_at t) ids))"
    using Some P t(2) by (auto simp: claim_task_for_run_now_def Let_def sql_update_def claimed_task_def make_claim_def)
  moreover have "the_task k db = Some t"
    using keyed_fetchone [OF assms t(1)] t(2) by (simp add: the_task_def)
  ultimately show ?thesis using that(2) t(2) by blast
qed

definition open_run :: "string \<Rightarrow> string \<Rightarrow> string \<Rightarrow> schedule_db \<Rightarrow> bool" where
  "open_run k c ow db \<longleftrightarrow>
     list_all (\<lambda>e. (kx_task_id e, kx_claim_id e, kx_lease_owner e) = (k, c, ow) \<longrightarrow> kx_status e = RUNNING) (sch_executions db)"

lemma leased_iff:
  "leased k c ow l db \<longleftrightarrow> map_option lease_of (the_task k db) = Some (Some l, Some c, Some ow) \<and> open_run k c ow db"
  by (auto simp: leased_def open_run_def settled_claim_def lease_of_def list_ex_iff list_all_iff
      dest: the_task_SomeD split: option.splits)

lemma the_task_sql_update:
  assumes "\<And>r. P r \<Longrightarrow> sk_id (g r) = sk_id r"
  shows "the_task k (db\<lparr>sch_tasks := sql_update P g (sch_tasks db)\<rparr>) =
    map_option (\<lambda>r. if P r then g r else r) (the_task k db)"
  unfolding the_task_def using assms by (simp add: fetchone_key_sql_update)

lemma the_task_same_tasks: "sch_tasks db' = sch_tasks db \<Longrightarrow> the_task k db' = the_task k db"
  by (simp add: the_task_def)

lemma lease_kept_sql_update:
  assumes "\<And>r. P r \<Longrightarrow> sk_id (g r) = sk_id r" and "\<And>r. r \<in> set (sch_tasks db) \<Longrightarrow> sk_id r = k \<Longrightarrow> P r \<Longrightarrow> lease_of (g r) = lease_of r"
    and "sch_tasks db' = sql_update P g (sch_tasks db)"
  shows "map_option lease_of (the_task k db') = map_option lease_of (the_task k db)"
proof -
  have "the_task k db' = map_option (\<lambda>r. if P r then g r else r) (the_task k db)"
    using the_task_sql_update [of P g k db, OF assms(1)] assms(3) by (simp add: the_task_def)
  then show ?thesis using assms(2) the_task_SomeD [of k db] by (cases "the_task k db") auto
qed

lemma sched_apply_inv:
  assumes "sched_inv db"
  shows "sched_inv (fst (sched_apply f op db))"
proof (cases op)
  case (OpClaimDue now lim lease ids)
  have "keyed sk_id (sch_tasks db)" using assms by (simp add: sched_inv_def)
  moreover have "sk_id (apply_claims now cs t) = sk_id t" for cs t by (simp add: apply_claims_def split: option.split)
  ultimately show ?thesis
    using assms by (cases rule: claim_due_cases [where f = f and now = now and lim = lim and lease = lease and ids = ids])
      (simp_all add: OpClaimDue sched_inv_def keyed_def comp_def)
next
  case (OpRunNow k now lease ids)
  have key: "keyed sk_id (sch_tasks db)" using assms by (simp add: sched_inv_def)
  from key show ?thesis
    using assms by (cases rule: run_now_cases [where k = k and now = now and lease = lease and ids = ids])
      (simp_all add: OpRunNow sched_inv_def keyed_sql_update)
qed (use assms in \<open>auto simp: sched_inv_def sched_create_def sched_update_def sched_update_status_def sched_delete_def
      record_execution_started_def record_execution_completed_def record_delivery_result_def sched_recover_stale_def
      mark_dashboard_unread_def clear_dashboard_unread_def mark_session_missing_def Let_def task_params_def sql_delete_def
      keyed_append1 keyed_filter intro: keyed_sql_update\<close>)

lemma open_run_same: "sch_executions db' = sch_executions db \<Longrightarrow> open_run k c ow db' = open_run k c ow db"
  by (simp add: open_run_def)

lemma leased_task:
  assumes "leased k c ow l db"
  obtains t where "the_task k db = Some t" "sk_lease_until t = Some l" "sk_claim_id t = Some c" "sk_lease_owner t = Some ow"
    "\<not> settled_claim db t"
  using assms by (auto simp: leased_def lease_of_def split: option.splits)

lemma leased_not_free:
  assumes "leased k c ow l db" and "the_task k db = Some t" and "now \<le> l"
  shows "\<not> lease_free now t \<and> \<not> settled_claim db t \<and> \<not> lease_expired now t"
  using assms by (auto simp: leased_def lease_of_def lease_free_def lease_expired_def)

lemma leased_claim_due:
  assumes inv: "sched_inv db" and held: "leased k c ow l db" and now: "now \<le> l"
  shows "leased k c ow l (fst (sched_apply f (OpClaimDue now lim lease ids) db)) \<and>
    list_all (\<lambda>x. sk_id (kc_task x) \<noteq> k) (snd (sched_apply f (OpClaimDue now lim lease ids) db))"
proof -
  have key: "keyed sk_id (sch_tasks db)" using inv by (simp add: sched_inv_def)
  have no: "sk_id t \<noteq> k" if "t \<in> set (due_rows now lim db)" for t
  proof
    assume "sk_id t = k"
    with that have "the_task k db = Some t" "due now t"
      using the_task_in [OF inv] due_rows_in [OF that] by auto
    with leased_not_free [OF held _ now] show False by (auto simp: due_def)
  qed
  from key show ?thesis
  proof (cases rule: claim_due_cases [where f = f and now = now and lim = lim and lease = lease and ids = ids])
    case (1 cs)
    have claims: "sk_id (kc_task x) \<noteq> k" if "x \<in> set cs" for x
      using no that 1(2) by (metis image_eqI list.set_map)
    have id: "sk_id (apply_claims now cs t) = sk_id t" for t by (simp add: apply_claims_def split: option.split)
    have "fetchone (\<lambda>t. sk_id t = k) (map (apply_claims now cs) ts) = map_option (apply_claims now cs) (fetchone (\<lambda>t. sk_id t = k) ts)" for ts
      by (induction ts) (simp_all add: sql_simps id)
    moreover have "apply_claims now cs t = t" if "sk_id t = k" for t
    proof -
      have "find (\<lambda>c. sk_id (kc_task c) = sk_id t) cs = None" using claims that by (auto simp: find_None_iff)
      then show ?thesis by (simp add: apply_claims_def)
    qed
    ultimately have "the_task k (db\<lparr>sch_tasks := map (apply_claims now cs) (sch_tasks db)\<rparr>) = the_task k db"
      by (cases "the_task k db") (use the_task_SomeD [of k db] in \<open>simp_all add: the_task_def\<close>)
    with 1 claims held show ?thesis by (simp add: leased_iff open_run_def list_all_iff)
  next
    case 2
    with held show ?thesis by simp
  qed
qed

lemma leased_run_now:
  assumes inv: "sched_inv db" and held: "leased k c ow l db" and now: "now \<le> l"
  shows "leased k c ow l (fst (sched_apply f (OpRunNow j now lease ids) db)) \<and>
    list_all (\<lambda>x. sk_id (kc_task x) \<noteq> k) (snd (sched_apply f (OpRunNow j now lease ids) db))"
proof -
  have "keyed sk_id (sch_tasks db)" using inv by (simp add: sched_inv_def)
  then show ?thesis
  proof (cases rule: run_now_cases [where k = j and now = now and lease = lease and ids = ids])
    case 1
    with held show ?thesis by simp
  next
    case (2 t)
    then have "j \<noteq> k" "sk_id t = j" using leased_not_free [OF held _ now] the_task_SomeD [of j db t] by auto
    then have "map_option lease_of (the_task k (fst (claim_task_for_run_now j now lease ids db))) = map_option lease_of (the_task k db)"
      by (intro lease_kept_sql_update [where P = "\<lambda>r. sk_id r = j"
            and g = "claimed_task now (make_claim t now lease CLAIM_REASON_RUN_NOW (sk_next_run_at t) ids)"])
        (auto simp: 2(5))
    with 2(5) held \<open>j \<noteq> k\<close> \<open>sk_id t = j\<close> show ?thesis by (simp add: leased_iff open_run_def)
  qed
qed

lemma leased_recover:
  assumes inv: "sched_inv db" and held: "leased k c ow l db" and now: "now \<le> l"
  shows "leased k c ow l (fst (sched_recover_stale now db))"
proof -
  obtain t where t: "the_task k db = Some t" "sk_claim_id t = Some c" "\<not> lease_expired now t"
    using leased_task [OF held] leased_not_free [OF held _ now] by metis
  have uniq: "x = t" if "x \<in> set (sch_tasks db)" "sk_id x = k" for x
    using the_task_in [OF inv that(1)] that(2) t(1) by simp
  have "map_option lease_of (the_task k (fst (sched_recover_stale now db))) = map_option lease_of (the_task k db)"
    by (rule lease_kept_sql_update [where P = "lease_expired now" and g = "\<lambda>t. t\<lparr>sk_lease_until := None, sk_updated_at := Some now\<rparr>"])
      (use uniq t(3) in \<open>auto simp: sched_recover_stale_def\<close>)
  moreover have "\<not> stale_execution now (sch_tasks db) e" if "(kx_task_id e, kx_claim_id e, kx_lease_owner e) = (k, c, ow)" for e
    using that uniq t by (auto simp: stale_execution_def list_ex_iff split: option.splits)
  then have "open_run k c ow (fst (sched_recover_stale now db)) = open_run k c ow db"
    by (auto simp: open_run_def sched_recover_stale_def list_all_iff set_sql_update)
  ultimately show ?thesis using held by (simp add: leased_iff)
qed

lemma leased_complete:
  assumes held: "leased k c ow l db" and ok: "permits k c ow l (OpComplete now e) db"
  shows "leased k c ow l (fst (record_execution_completed now e db))"
proof (cases "snd (record_execution_completed now e db)")
  case True
  let ?held = "holds_lease (kx_task_id e) (kx_claim_id e) (kx_lease_owner e)"
  obtain t where t: "the_task k db = Some t" "lease_of t = (Some l, Some c, Some ow)"
    using leased_task [OF held] by (auto simp: lease_of_def)
  have db': "sch_tasks (fst (record_execution_completed now e db)) = sql_update ?held
      (\<lambda>r. r\<lparr>sk_last_run_at := kx_completed_at e, sk_last_status := Some (kx_status e),
                 sk_last_error := kx_error e, sk_lease_until := None, sk_updated_at := Some now\<rparr>) (sch_tasks db)"
    "sch_executions (fst (record_execution_completed now e db)) = sql_update (\<lambda>r. kx_id r = kx_id e \<and> list_ex ?held (sch_tasks db))
      (\<lambda>r. r\<lparr>kx_completed_at := kx_completed_at e, kx_status := kx_status e, kx_output := kx_output e, kx_error := kx_error e\<rparr>)
      (sch_executions db)"
    using True by (auto simp: record_execution_completed_def Let_def split: if_splits)
  have "\<not> ?held t"
    using ok t the_task_SomeD [OF t(1)] by (auto simp: holds_lease_def lease_of_def)
  then have "the_task k (fst (record_execution_completed now e db)) = Some t"
    using the_task_sql_update [of ?held "\<lambda>r. r\<lparr>sk_last_run_at := kx_completed_at e, sk_last_status := Some (kx_status e),
                 sk_last_error := kx_error e, sk_lease_until := None, sk_updated_at := Some now\<rparr>" k db] t(1) db'(1)
    by (simp add: the_task_def)
  moreover have "open_run k c ow (fst (record_execution_completed now e db))"
    using held ok unfolding leased_iff
    by (fastforce simp: open_run_def db'(2) list_all_iff set_sql_update)
  ultimately show ?thesis using t(2) by (simp add: leased_iff)
next
  case False
  then have "fst (record_execution_completed now e db) = db"
    by (auto simp: record_execution_completed_def Let_def split: if_splits)
  with held show ?thesis by simp
qed

lemma leased_other:
  assumes inv: "sched_inv db" and held: "leased k c ow l db" and ok: "permits k c ow l op db"
    and other: "\<forall>now lim lease ids i j e. op \<noteq> OpClaimDue now lim lease ids \<and> op \<noteq> OpRunNow j now lease i \<and>
      op \<noteq> OpRecover now \<and> op \<noteq> OpComplete now e"
  shows "leased k c ow l (fst (sched_apply f op db))" and "snd (sched_apply f op db) = []"
proof -
  show "snd (sched_apply f op db) = []" using other by (cases op) auto
  have lease: "map_option lease_of (the_task k db) = Some (Some l, Some c, Some ow)" and run: "open_run k c ow db"
    using held by (simp_all add: leased_iff)
  show "leased k c ow l (fst (sched_apply f op db))"
  proof (cases op)
    case (OpCreate now t)
    with held show ?thesis
      by (auto simp: sched_create_def leased_iff the_task_def open_run_def fetchone_append split: option.splits)
  next
    case (OpUpdate now t)
    have same: "lease_of r = lease_of t" if "r \<in> set (sch_tasks db)" "sk_id r = k" "sk_id t = k" for r
      using ok the_task_in [OF inv that(1)] that(2,3) by (auto simp: OpUpdate)
    have "map_option lease_of (the_task k (fst (sched_update now t db))) = map_option lease_of (the_task k db)"
      by (rule lease_kept_sql_update [where P = "\<lambda>r. sk_id r = sk_id t" and g = "\<lambda>r. t\<lparr>sk_created_at := sk_created_at r, sk_updated_at := Some now\<rparr>"])
        (use same in \<open>auto simp: sched_update_def lease_of_def\<close>)
    with run lease OpUpdate show ?thesis by (simp add: leased_iff sched_update_def open_run_def)
  next
    case (OpStatus now j st b)
    have "map_option lease_of (the_task k (fst (sched_update_status now j st b db))) = map_option lease_of (the_task k db)"
      by (rule lease_kept_sql_update [where P = "\<lambda>r. sk_id r = j" and g = "\<lambda>r. r\<lparr>sk_status := st, sk_enabled := b, sk_updated_at := Some now\<rparr>"])
        (auto simp: sched_update_status_def lease_of_def)
    with run lease OpStatus show ?thesis by (simp add: leased_iff sched_update_status_def open_run_def)
  next
    case (OpDelete j)
    have "fetchone (\<lambda>t. sk_id t = k) (filter (\<lambda>r. sk_id r \<noteq> j) ts) = fetchone (\<lambda>t. sk_id t = k) ts" for ts
      using ok OpDelete by (induction ts) (auto simp: sql_simps)
    then have "the_task k (fst (sched_delete j db)) = the_task k db" by (simp add: sched_delete_def sql_delete_def the_task_def)
    with run lease OpDelete show ?thesis by (simp add: leased_iff sched_delete_def open_run_def)
  next
    case (OpStart now e)
    with ok run lease show ?thesis
      by (auto simp: leased_iff record_execution_started_def the_task_def open_run_def)
  next
    case (OpDelivery now e)
    let ?h = "holds_lease (kx_task_id e) (kx_claim_id e) (kx_lease_owner e)"
    show ?thesis
    proof (cases "snd (record_delivery_result now e db)")
      case True
      then have "map_option lease_of (the_task k (fst (record_delivery_result now e db))) = map_option lease_of (the_task k db)"
        by (intro lease_kept_sql_update [where P = ?h and g = "\<lambda>r. r\<lparr>sk_last_delivery_error := kx_delivery_error e, sk_updated_at := Some now\<rparr>"])
          (auto simp: record_delivery_result_def lease_of_def Let_def split: if_splits)
      moreover have "open_run k c ow (fst (record_delivery_result now e db))"
        using run by (auto simp: record_delivery_result_def Let_def open_run_def list_all_iff set_sql_update)
      ultimately show ?thesis using lease OpDelivery by (simp add: leased_iff)
    next
      case False
      with held OpDelivery show ?thesis by (auto simp: record_delivery_result_def Let_def split: if_splits)
    qed
  next
    case (OpUnread now j c' o')
    have "map_option lease_of (the_task k (fst (mark_dashboard_unread now j c' o' db))) = map_option lease_of (the_task k db)"
      by (rule lease_kept_sql_update [where P = "holds_lease j c' o'" and g = "\<lambda>t. t\<lparr>sk_unread_count := sk_unread_count t + 1, sk_updated_at := Some now\<rparr>"])
        (auto simp: mark_dashboard_unread_def lease_of_def)
    with run lease OpUnread show ?thesis by (simp add: leased_iff mark_dashboard_unread_def open_run_def)
  next
    case (OpClear now j)
    have "map_option lease_of (the_task k (fst (clear_dashboard_unread now j db))) = map_option lease_of (the_task k db)"
      by (rule lease_kept_sql_update [where P = "\<lambda>t. sk_id t = j" and g = "\<lambda>t. t\<lparr>sk_unread_count := 0, sk_updated_at := Some now\<rparr>"])
        (auto simp: clear_dashboard_unread_def lease_of_def)
    with run lease OpClear show ?thesis by (simp add: leased_iff clear_dashboard_unread_def open_run_def)
  next
    case (OpMissing now sid)
    have "map_option lease_of (the_task k (fst (mark_session_missing now sid db))) = map_option lease_of (the_task k db)"
      by (rule lease_kept_sql_update [where P = "\<lambda>t. sk_session_id t = sid \<and> sk_status t \<noteq> DELETED"
            and g = "\<lambda>t. t\<lparr>sk_enabled := False, sk_status := SESSION_MISSING, sk_updated_at := Some now\<rparr>"])
        (auto simp: mark_session_missing_def lease_of_def Let_def)
    with run lease OpMissing show ?thesis by (simp add: leased_iff mark_session_missing_def Let_def open_run_def)
  qed (use other in auto)
qed

lemma leased_step:
  assumes "sched_inv db" and "leased k c ow l db" and "permits k c ow l op db"
  shows "leased k c ow l (fst (sched_apply f op db)) \<and> list_all (\<lambda>x. sk_id (kc_task x) \<noteq> k) (snd (sched_apply f op db))"
proof (cases op)
  case (OpClaimDue now lim lease ids)
  with assms leased_claim_due show ?thesis by auto
next
  case (OpRunNow j now lease ids)
  with assms leased_run_now show ?thesis by auto
next
  case (OpRecover now)
  with assms leased_recover show ?thesis by auto
next
  case (OpComplete now e)
  with assms leased_complete show ?thesis by auto
qed (use leased_other [OF assms, of f] in auto)

lemma leased_trace:
  assumes "sched_inv db" and "leased k c ow l db" and "undisturbed f k c ow l ops db"
  shows "sched_inv (fst (sched_trace f ops db)) \<and> leased k c ow l (fst (sched_trace f ops db)) \<and>
    list_all (\<lambda>x. sk_id (kc_task x) \<noteq> k) (snd (sched_trace f ops db))"
  using assms
proof (induction ops arbitrary: db)
  case (Cons op ops)
  have "leased k c ow l (fst (sched_apply f op db))" "list_all (\<lambda>x. sk_id (kc_task x) \<noteq> k) (snd (sched_apply f op db))"
    using leased_step Cons.prems by auto
  with Cons.IH [of "fst (sched_apply f op db)"] Cons.prems sched_apply_inv [of db f op] show ?case
    by (simp add: case_prod_unfold Let_def)
qed simp

section \<open>Executions under transactions\<close>

text \<open>No transaction removes an execution.\<close>

definition execution_ids :: "schedule_db \<Rightarrow> string list" where
  "execution_ids db = map kx_id (sch_executions db)"

lemma map_kx_id_sql_update:
  "(\<And>r. P r \<Longrightarrow> kx_id (g r) = kx_id r) \<Longrightarrow> map kx_id (sql_update P g es) = map kx_id es"
  by (rule map_key_sql_update)

lemma claim_tables:
  assumes "keyed sk_id (sch_tasks db)"
  shows "sch_executions (fst (claim_due_tasks f now lim lease ids db)) = sch_executions db"
    and "sch_executions (fst (claim_task_for_run_now k now lease i db)) = sch_executions db"
  using assms
  by (cases rule: claim_due_cases [where f = f and now = now and lim = lim and lease = lease and ids = ids]; simp)
    (use assms in \<open>cases rule: run_now_cases [where k = k and now = now and lease = lease and ids = i]; simp\<close>)

lemma sched_apply_keeps_ids:
  assumes "sched_inv db"
  shows "\<exists>new. execution_ids (fst (sched_apply f op db)) = execution_ids db @ new"
proof -
  have key: "keyed sk_id (sch_tasks db)" using assms by (simp add: sched_inv_def)
  show ?thesis
    by (cases op)
      (auto simp: execution_ids_def sched_create_def sched_update_def sched_update_status_def sched_delete_def
        record_execution_started_def record_execution_completed_def record_delivery_result_def sched_recover_stale_def
        mark_dashboard_unread_def clear_dashboard_unread_def mark_session_missing_def Let_def map_kx_id_sql_update
        claim_tables [OF key] case_prod_unfold)
qed

lemma sched_trace_keeps_ids:
  assumes "sched_inv db" and "x \<in> set (execution_ids db)"
  shows "x \<in> set (execution_ids (fst (sched_trace f ops db)))"
  using assms
proof (induction ops arbitrary: db)
  case (Cons op ops)
  have "x \<in> set (execution_ids (fst (sched_apply f op db)))"
    using sched_apply_keeps_ids [OF Cons.prems(1), of f op] Cons.prems(2) by auto
  with Cons.IH sched_apply_inv [OF Cons.prems(1)] show ?case by (simp add: case_prod_unfold Let_def)
qed simp

section \<open>Settling a run\<close>

definition the_execution :: "string \<Rightarrow> schedule_db \<Rightarrow> ScheduledTaskExecution option" where
  "the_execution x db = fetchone (\<lambda>e. kx_id e = x) (sch_executions db)"

definition holds :: "string \<Rightarrow> string \<Rightarrow> string \<Rightarrow> schedule_db \<Rightarrow> bool" where
  "holds k c ow db \<longleftrightarrow> list_ex (holds_lease k c ow) (sch_tasks db)"

text \<open>The run of a claim is settled with a status: its execution and its task say so, and the lease is gone.\<close>

definition settled :: "string \<Rightarrow> string \<Rightarrow> ScheduledTaskExecutionStatus \<Rightarrow> datetime \<Rightarrow> schedule_db \<Rightarrow> bool" where
  "settled k x st now db \<longleftrightarrow>
     map_option (\<lambda>e. (kx_status e, kx_completed_at e)) (the_execution x db) = Some (st, Some now) \<and>
     map_option (\<lambda>t. (sk_lease_until t, sk_last_status t, sk_last_run_at t)) (the_task k db) = Some (None, Some st, Some now)"

lemma completed_by_holder:
  assumes "sched_inv db" and "holds (kx_task_id e) (kx_claim_id e) (kx_lease_owner e) db" and "kx_id e \<in> set (execution_ids db)"
    and "kx_completed_at e = Some now"
  shows "snd (record_execution_completed clock e db)"
    and "settled (kx_task_id e) (kx_id e) (kx_status e) now (fst (record_execution_completed clock e db))"
    and "holds (kx_task_id e) (kx_claim_id e) (kx_lease_owner e) (fst (record_execution_completed clock e db))"
proof -
  let ?h = "holds_lease (kx_task_id e) (kx_claim_id e) (kx_lease_owner e)"
  let ?P = "\<lambda>r. kx_id r = kx_id e \<and> list_ex ?h (sch_tasks db)"
  obtain t where t: "t \<in> set (sch_tasks db)" "?h t" using assms(2) by (auto simp: holds_def list_ex_iff)
  obtain r where r: "r \<in> set (sch_executions db)" "kx_id r = kx_id e" using assms(3) by (auto simp: execution_ids_def)
  have pos: "rowcount ?P (sch_executions db) > 0"
    using r t by (auto simp: rowcount_def filter_empty_conv list_ex_iff)
  then show "snd (record_execution_completed clock e db)" by (simp add: record_execution_completed_def Let_def)
  have task: "the_task (kx_task_id e) db = Some t"
    using the_task_in [OF assms(1) t(1)] t(2) by (simp add: holds_lease_def)
  have exec: "fetchone (\<lambda>r. kx_id r = kx_id e) (sch_executions db) = Some r"
    using keyed_fetchone [of kx_id "sch_executions db" r] assms(1) r by (simp add: sched_inv_def)
  show "settled (kx_task_id e) (kx_id e) (kx_status e) now (fst (record_execution_completed clock e db))"
    using pos task exec t r assms(4)
    by (auto simp: record_execution_completed_def Let_def settled_def the_execution_def the_task_def fetchone_key_sql_update list_ex_iff)
  show "holds (kx_task_id e) (kx_claim_id e) (kx_lease_owner e) (fst (record_execution_completed clock e db))"
  proof -
    let ?g = "\<lambda>r. r\<lparr>sk_last_run_at := kx_completed_at e, sk_last_status := Some (kx_status e),
        sk_last_error := kx_error e, sk_lease_until := None, sk_updated_at := Some clock\<rparr>"
    have "?h (?g t)" "?g t \<in> set (sql_update ?h ?g (sch_tasks db))"
      using t by (auto simp: holds_lease_def set_sql_update intro!: image_eqI)
    with pos show ?thesis by (auto simp: record_execution_completed_def Let_def holds_def list_ex_iff)
  qed
qed

lemma completed_by_other:
  assumes "\<not> holds (kx_task_id e) (kx_claim_id e) (kx_lease_owner e) db"
  shows "record_execution_completed clock e db = (db, False)"
  using assms by (simp add: record_execution_completed_def Let_def holds_def rowcount_def)

end
