(* ===== verification/Schedule_Properties.thy ===== *)
theory Schedule_Properties
  imports Schedule_Theorems
begin

text \<open>
  What the schedule registry and the run service promise: which tasks a tick claims, that a lease protects its run,
  what recovery does, that a run settles its claim unless it was superseded, and what leaves the server.
\<close>

section \<open>A claim takes the lease\<close>

lemma apply_claims_id [simp]: "sk_id (apply_claims now cs t) = sk_id t"
  by (simp add: apply_claims_def split: option.split)

lemma the_task_apply_claims:
  "the_task k (db\<lparr>sch_tasks := map (apply_claims now cs) (sch_tasks db)\<rparr>) = map_option (apply_claims now cs) (the_task k db)"
proof -
  have "fetchone (\<lambda>t. sk_id t = k) (map (apply_claims now cs) ts) = map_option (apply_claims now cs) (fetchone (\<lambda>t. sk_id t = k) ts)" for ts
    by (induction ts) (simp_all add: sql_simps)
  then show ?thesis by (simp add: the_task_def)
qed

lemma apply_claims_of:
  assumes "distinct (map (sk_id \<circ> kc_task) cs)" and "x \<in> set cs" and "sk_id (kc_task x) = sk_id t"
  shows "apply_claims now cs t = claimed_task now x t"
proof -
  have "find (\<lambda>c. sk_id (kc_task c) = sk_id t) cs = Some x"
    using assms by (induction cs) (auto simp: image_iff)
  then show ?thesis by (simp add: apply_claims_def)
qed




lemma sql_update_cong: "(\<And>r. r \<in> set rows \<Longrightarrow> P r = Q r) \<Longrightarrow> sql_update P g rows = sql_update Q g rows"
  by (auto simp: sql_update_def)

lemma the_execution_in:
  "sched_inv db \<Longrightarrow> e \<in> set (sch_executions db) \<Longrightarrow> the_execution (kx_id e) db = Some e"
  unfolding sched_inv_def the_execution_def by (rule keyed_fetchone) auto

text \<open>The database when the agent starts to work.\<close>

definition started_db :: "run_env \<Rightarrow> datetime \<Rightarrow> string \<Rightarrow> string option \<Rightarrow> ScheduledTaskClaim \<Rightarrow> schedule_db \<Rightarrow> schedule_db" where
  "started_db env now xid trigger c db = fst (record_execution_started (re_clock env) (new_execution c now xid trigger) db)"

section \<open>A demonstration\<close>

definition demo_conversation :: GatewayConversation where
  "demo_conversation = \<lparr>gv_id = ''c1'', gv_platform = Platform.FEISHU, gv_platform_session_id = ''oc_1'', gv_created_at = 0,
     gv_receive_id_type = Some ''chat_id''\<rparr>"

definition demo_delivery_env :: delivery_env where
  "demo_delivery_env = \<lparr>de_conversations = [demo_conversation], de_home = (\<lambda>p. None), de_platform_status = (\<lambda>p. ''connected'')\<rparr>"

definition demo_daily :: ScheduledTask where
  "demo_daily = ScheduledTask_new ''t1'' ''Daily'' ''say hi'' ''0 8 * * *'' ''UTC'' ''s1'' (feishu_target demo_conversation) 100"

definition demo_later :: ScheduledTask where
  "demo_later = ScheduledTask_new ''t2'' ''Later'' ''say hi'' ''0 9 * * *'' ''UTC'' ''s1'' \<lparr>dt_target_type = DASHBOARD, dt_context = []\<rparr> 300"

definition demo_schedules :: schedule_db where
  "demo_schedules = \<lparr>sch_tasks = [demo_later, demo_daily], sch_executions = []\<rparr>"

definition demo_next :: "string \<Rightarrow> datetime \<Rightarrow> string \<Rightarrow> datetime option" where
  "demo_next schedule now tz = Some (now + 86400000000)"

definition demo_ids :: "nat \<Rightarrow> string \<times> string" where
  "demo_ids i = (''claim-1'', ''owner-1'')"

definition demo_tick :: sched_op where
  "demo_tick = OpClaimDue 200 5 60 demo_ids"

definition demo_claimed :: schedule_db where
  "demo_claimed = fst (sched_apply demo_next demo_tick demo_schedules)"

definition demo_claim :: ScheduledTaskClaim where
  "demo_claim = make_claim demo_daily 200 60 CLAIM_REASON_DUE 86400000200 (''claim-1'', ''owner-1'')"

definition demo_others :: "sched_op list" where
  "demo_others = [OpRunNow ''t1'' 300 60 (''claim-2'', ''owner-2''), OpClaimDue 400 5 60 (\<lambda>i. (''claim-3'', ''owner-3'')), OpRecover 500]"

definition demo_send :: "string \<times> string \<times> string \<Rightarrow> string option" where
  "demo_send m = None"

definition demo_runs :: ScheduleRunService where
  "demo_runs = \<lparr>sr_max_due_per_tick = 5, sr_lease_seconds = 60, sr_missed_grace_seconds = 60, sr_execution_timeout_seconds = 60,
     sr_flow = demo_flow, sr_outbound = \<lparr>ob_client = Some demo_send, ob_has_resolver = False\<rparr>, sr_has_delivery_service = True\<rparr>"

definition demo_run_env :: "sched_op list \<Rightarrow> run_env" where
  "demo_run_env ops = \<lparr>re_env = demo_delivery_env, re_chat = (\<lambda>t. AgentReturned ''stop'' ''key sk-live-0123!''),
     re_during_run = (\<lambda>d. fst (sched_trace demo_next ops d)), re_during_delivery = (\<lambda>d. fst (sched_trace demo_next [] d)), re_clock = 600\<rparr>"

lemma demo_schedules_inv: "sched_inv demo_schedules" "sched_inv demo_claimed"
  by code_simp+

lemma demo_lease: "leased ''t1'' ''claim-1'' ''owner-1'' 60000200 demo_claimed" "kc_lease_until demo_claim = 60000200"
    "sk_id (kc_task demo_claim) = ''t1''" "kc_claim_id demo_claim = ''claim-1''" "kc_lease_owner demo_claim = ''owner-1''"
  by code_simp+

section \<open>Which tasks are claimed\<close>

text \<open>The tasks that a tick is to claim.\<close>

definition selected :: "datetime \<Rightarrow> int \<Rightarrow> schedule_db \<Rightarrow> ScheduledTask list" where
  "selected now lim db = take (nat lim) (sort_key sk_next_run_at (filter (is_satisfied_by (for_due_claim now)) (sch_tasks db)))"

lemma due_rows_selected: "0 \<le> lim \<Longrightarrow> due_rows now lim db = selected now lim db"
  by (simp add: selected_def due_rows_def sql_head_def due_satisfied [abs_def])

lemma claims_of_selected:
  assumes "sched_inv db" and "0 \<le> lim"
    and "\<And>t. t \<in> set (selected now lim db) \<Longrightarrow> \<exists>n. next_after (sk_schedule t) now (sk_timezone t) = Some n"
  shows "\<exists>db' cs. claim_due_tasks next_after now lim lease ids db = (db', Inr cs) \<and>
    map kc_task cs = selected now lim db \<and>
    list_all (\<lambda>c. kc_lease_until c = now + timedelta_seconds lease \<and>
      next_after (sk_schedule (kc_task c)) now (sk_timezone (kc_task c)) = Some (kc_next_run_at c) \<and>
      the_task (sk_id (kc_task c)) db' = Some (claimed_task now c (kc_task c))) cs \<and>
    list_all (\<lambda>t. t \<in> kc_task ` set cs \<or> the_task (sk_id t) db' = Some t) (sch_tasks db) \<and>
    map sk_id (sch_tasks db') = map sk_id (sch_tasks db) \<and> sch_executions db' = sch_executions db"
proof -
  let ?nxt = "\<lambda>t. the (next_after (sk_schedule t) now (sk_timezone t))"
  let ?rows = "due_rows now lim db"
  define cs where "cs = map2 (\<lambda>i t. make_claim t now lease CLAIM_REASON_DUE (?nxt t) (ids i)) [0..<length ?rows] ?rows"
  let ?db' = "db\<lparr>sch_tasks := map (apply_claims now cs) (sch_tasks db)\<rparr>"
  have key: "keyed sk_id (sch_tasks db)" using assms(1) by (simp add: sched_inv_def)
  have nxt: "next_after (sk_schedule t) now (sk_timezone t) = Some (?nxt t)" if "t \<in> set ?rows" for t
    using assms(3) [of t] that due_rows_selected [OF assms(2)] by auto
  have spec: "claim_due_tasks next_after now lim lease ids db = (?db', Inr cs)"
    unfolding cs_def by (rule claim_due_spec(1) [OF key]) (rule nxt)
  note rows = due_rows_selected [OF assms(2), of now db]
  have tasks: "map kc_task cs = ?rows" by (simp add: cs_def comp_def case_prod_unfold)
  have dist: "distinct (map (sk_id \<circ> kc_task) cs)"
    using due_rows_distinct [OF key, of now lim] arg_cong [OF tasks, of "map sk_id"] by (simp only: map_map o_assoc)
  have claims: "kc_task c \<in> set ?rows" if "c \<in> set cs" for c
    using that tasks by (metis image_eqI list.set_map)
  have claimed: "the_task (sk_id (kc_task c)) ?db' = Some (claimed_task now c (kc_task c))" if "c \<in> set cs" for c
    using apply_claims_of [OF dist that refl] the_task_in [OF assms(1)] due_rows_in [OF claims [OF that]]
    by (simp add: the_task_apply_claims)
  have made: "kc_lease_until c = now + timedelta_seconds lease \<and> next_after (sk_schedule (kc_task c)) now (sk_timezone (kc_task c)) = Some (kc_next_run_at c)"
    if "c \<in> set cs" for c
    using that nxt by (auto simp: cs_def make_claim_def dest: set_zip_rightD)
  have rest: "t \<in> kc_task ` set cs \<or> the_task (sk_id t) ?db' = Some t" if t: "t \<in> set (sch_tasks db)" for t
  proof (cases "\<exists>c\<in>set cs. sk_id (kc_task c) = sk_id t")
    case True
    then show ?thesis using claims due_rows_in [of _ now lim db] keyed_eqD [OF key t] by (metis image_eqI)
  next
    case False
    then have "find (\<lambda>c. sk_id (kc_task c) = sk_id t) cs = None" by (simp only: find_None_iff) blast
    then show ?thesis using the_task_in [OF assms(1) t] by (simp add: the_task_apply_claims apply_claims_def)
  qed
  show ?thesis
    by (rule exI [of _ ?db'], rule exI [of _ cs])
      (use spec tasks rows claimed made rest in \<open>simp add: list_all_iff comp_def\<close>)
qed

text \<open>
  C14: A tick selects exactly the tasks that satisfy the domain's constraints for a due claim, in the order of their next run and
  at most \<open>limit\<close> of them. If the calculator has a next run for each of them, it claims exactly these: every claimed row gets the
  claim's lease and its next run, every other row and every execution stays as it was. If it has none for one of them (a schedule
  or a time zone that it rejects), the whole tick raises and claims nothing.
\<close>

theorem due_claims_exact:
  assumes "sched_inv db" and "0 \<le> lim"
  shows "if list_ex (\<lambda>t. next_after (sk_schedule t) now (sk_timezone t) = None) (selected now lim db)
    then claim_due_tasks next_after now lim lease ids db = (db, Inl ScheduleCalculationError)
    else \<exists>db' cs. claim_due_tasks next_after now lim lease ids db = (db', Inr cs) \<and>
      map kc_task cs = selected now lim db \<and>
      list_all (\<lambda>c. kc_lease_until c = now + timedelta_seconds lease \<and>
        next_after (sk_schedule (kc_task c)) now (sk_timezone (kc_task c)) = Some (kc_next_run_at c) \<and>
        the_task (sk_id (kc_task c)) db' = Some (claimed_task now c (kc_task c))) cs \<and>
      list_all (\<lambda>t. t \<in> kc_task ` set cs \<or> the_task (sk_id t) db' = Some t) (sch_tasks db) \<and>
      map sk_id (sch_tasks db') = map sk_id (sch_tasks db) \<and> sch_executions db' = sch_executions db"
proof (cases "list_ex (\<lambda>t. next_after (sk_schedule t) now (sk_timezone t) = None) (selected now lim db)")
  case True
  with claim_due_fails [of now lim db next_after lease ids] due_rows_selected [OF assms(2), of now db] show ?thesis
    by (simp add: list_ex_iff)
next
  case False
  then have "\<exists>n. next_after (sk_schedule t) now (sk_timezone t) = Some n" if "t \<in> set (selected now lim db)" for t
    using that by (auto simp: list_ex_iff)
  from claims_of_selected [where next_after = next_after and lease = lease and ids = ids, OF assms this] False show ?thesis by simp
qed

theorem due_claims_exact_witness:
  "(\<exists>db' cs. claim_due_tasks demo_next 200 5 60 demo_ids demo_schedules = (db', Inr cs) \<and> map kc_task cs = [demo_daily] \<and>
     map sk_id (sch_tasks db') = [''t2'', ''t1'']) \<and>
   claim_due_tasks (\<lambda>schedule now tz. None) 200 5 60 demo_ids demo_schedules = (demo_schedules, Inl ScheduleCalculationError)"
proof -
  have "selected 200 5 demo_schedules = [demo_daily]" "map sk_id (sch_tasks demo_schedules) = [''t2'', ''t1'']" by code_simp+
  with due_claims_exact [OF demo_schedules_inv(1), of 5 demo_next 200 60 demo_ids]
    due_claims_exact [OF demo_schedules_inv(1), of 5 "\<lambda>schedule now tz. None" 200 60 demo_ids] show ?thesis
    by (simp add: demo_next_def) fastforce
qed

section \<open>Leases and recovery\<close>



text \<open>What recovery leaves: no expired lease, and nothing to recover.\<close>

lemma recovered_not_expired:
  assumes "t \<in> set (sch_tasks (fst (sched_recover_stale now db)))"
  shows "\<not> lease_expired now t"
  using assms by (auto simp: sched_recover_stale_def set_sql_update lease_expired_def)

lemma recovered_not_stale:
  assumes "e \<in> set (sch_executions (fst (sched_recover_stale now db)))"
  shows "\<not> stale_execution now (sch_tasks (fst (sched_recover_stale now db))) e"
proof
  let ?db' = "fst (sched_recover_stale now db)"
  assume "stale_execution now (sch_tasks ?db') e"
  then obtain t where e: "kx_status e = RUNNING" and t: "t \<in> set (sch_tasks ?db')" "sk_id t = kx_task_id e"
      "\<exists>c. sk_claim_id t = Some c \<and> c \<noteq> kx_claim_id e"
    using recovered_not_expired [of _ now db] by (auto simp: stale_execution_def list_ex_iff split: option.splits)
  have old: "e \<in> set (sch_executions db)" "\<not> stale_execution now (sch_tasks db) e"
    using assms e by (auto simp: sched_recover_stale_def set_sql_update split: if_splits)
  obtain t' where "t' \<in> set (sch_tasks db)" "sk_id t' = sk_id t" "sk_claim_id t' = sk_claim_id t"
    using t(1) by (auto simp: sched_recover_stale_def set_sql_update split: if_splits)
  with old e t(2,3) show False by (auto simp: stale_execution_def list_ex_iff)
qed

lemma sched_recover_idle:
  assumes "\<And>e. e \<in> set (sch_executions db) \<Longrightarrow> \<not> stale_execution now (sch_tasks db) e"
    and "\<And>t. t \<in> set (sch_tasks db) \<Longrightarrow> \<not> lease_expired now t"
  shows "sched_recover_stale now db = (db, 0)"
  using assms by (auto simp: sched_recover_stale_def sql_update_id rowcount_def)

text \<open>
  Recovery fails exactly the running executions whose lease has run out or whose task was claimed again, clears
  exactly the expired leases and counts the executions; everything else stays. What then still runs under a claimed
  task belongs to the task's current claim, and recovering again changes nothing.
\<close>

theorem sched_recovery_exact:
  assumes "sched_inv db" and "sched_recover_stale now db = (db', n)"
  shows "sched_inv db' \<and>
    list_all (\<lambda>e. the_execution (kx_id e) db' =
      Some (if stale_execution now (sch_tasks db) e
            then e\<lparr>kx_status := FAILED, kx_completed_at := Some now, kx_error := Some ''execution_stale_recovered''\<rparr> else e))
      (sch_executions db) \<and>
    list_all (\<lambda>t. the_task (sk_id t) db' =
      Some (if lease_expired now t then t\<lparr>sk_lease_until := None, sk_updated_at := Some now\<rparr> else t)) (sch_tasks db) \<and>
    n = length (filter (stale_execution now (sch_tasks db)) (sch_executions db)) \<and>
    list_all (\<lambda>e. kx_status e \<noteq> RUNNING \<or>
      list_all (\<lambda>t. sk_id t = kx_task_id e \<longrightarrow> sk_claim_id t \<in> {None, Some (kx_claim_id e)}) (sch_tasks db')) (sch_executions db') \<and>
    sched_recover_stale now db' = (db', 0)"
proof -
  have db': "db' = fst (sched_recover_stale now db)" "n = snd (sched_recover_stale now db)" using assms(2) by simp_all
  have exec: "the_execution (kx_id e) db' = Some (if stale_execution now (sch_tasks db) e
      then e\<lparr>kx_status := FAILED, kx_completed_at := Some now, kx_error := Some ''execution_stale_recovered''\<rparr> else e)"
    if "e \<in> set (sch_executions db)" for e
    using the_execution_in [OF assms(1) that] unfolding db' the_execution_def
    by (simp add: sched_recover_stale_def fetchone_key_sql_update)
  have task: "the_task (sk_id t) db' = Some (if lease_expired now t then t\<lparr>sk_lease_until := None, sk_updated_at := Some now\<rparr> else t)"
    if "t \<in> set (sch_tasks db)" for t
    using the_task_in [OF assms(1) that] unfolding db' the_task_def
    by (simp add: sched_recover_stale_def fetchone_key_sql_update)
  have claim: "sk_claim_id t \<in> {None, Some (kx_claim_id e)}"
    if "e \<in> set (sch_executions db')" "kx_status e = RUNNING" "t \<in> set (sch_tasks db')" "sk_id t = kx_task_id e" for e t
    using recovered_not_stale [of e now db] that unfolding db'
    by (cases "sk_claim_id t") (auto simp: stale_execution_def list_ex_iff)
  have "sched_recover_stale now db' = (db', 0)"
    unfolding db' by (rule sched_recover_idle) (simp_all add: recovered_not_stale recovered_not_expired)
  moreover have "sched_inv db'" using sched_apply_inv [OF assms(1), of undefined "OpRecover now"] by (simp add: db')
  ultimately show ?thesis
    using exec task claim by (auto simp: list_all_iff db'(2) sched_recover_stale_def rowcount_def)
qed

definition demo_started :: schedule_db where
  "demo_started = started_db (demo_run_env []) 250 ''x1'' None demo_claim demo_claimed"

theorem sched_recovery_exact_witness:
  "snd (sched_recover_stale 60000201 demo_started) = 1 \<and>
   map_option kx_status (the_execution ''x1'' (fst (sched_recover_stale 60000201 demo_started))) = Some FAILED \<and>
   sched_recover_stale 60000201 (fst (sched_recover_stale 60000201 demo_started)) = (fst (sched_recover_stale 60000201 demo_started), 0)"
proof -
  have inv: "sched_inv demo_started" by code_simp
  have "snd (sched_recover_stale 60000201 demo_started) = 1"
    "map_option kx_status (the_execution ''x1'' (fst (sched_recover_stale 60000201 demo_started))) = Some FAILED"
    by code_simp+
  with sched_recovery_exact [OF inv surjective_pairing] show ?thesis by blast
qed

section \<open>A run settles its claim\<close>

text \<open>Unless another run completes the same execution, its outcome stays.\<close>

definition outcome_of :: "string \<Rightarrow> schedule_db \<Rightarrow> (ScheduledTaskExecutionStatus \<times> datetime option \<times> string option \<times> string option) option" where
  "outcome_of x db = map_option (\<lambda>e. (kx_status e, kx_completed_at e, kx_output e, kx_error e)) (the_execution x db)"

fun completes :: "string \<Rightarrow> sched_op \<Rightarrow> bool" where
  "completes x (OpComplete now e) = (kx_id e = x)"
| "completes x op = False"

lemma outcome_sql_update:
  assumes "\<And>e. P e \<Longrightarrow> kx_id (g e) = kx_id e" and "sch_executions db' = sql_update P g (sch_executions db)"
    and "\<And>e. kx_id e = x \<Longrightarrow> P e \<Longrightarrow> map_option fst (outcome_of x db) = Some (kx_status e) \<Longrightarrow>
      (kx_status (g e), kx_completed_at (g e), kx_output (g e), kx_error (g e)) = (kx_status e, kx_completed_at e, kx_output e, kx_error e)"
  shows "outcome_of x db' = outcome_of x db"
proof -
  have "the_execution x db' = map_option (\<lambda>e. if P e then g e else e) (the_execution x db)"
    unfolding the_execution_def assms(2) by (rule fetchone_key_sql_update) (rule assms(1))
  then show ?thesis
    using assms(3) by (cases "the_execution x db") (auto simp: outcome_of_def the_execution_def dest: fetchone_SomeD)
qed

lemma outcome_same_executions: "sch_executions db' = sch_executions db \<Longrightarrow> outcome_of x db' = outcome_of x db"
  by (simp add: outcome_of_def the_execution_def)

lemma outcome_kept:
  assumes "sched_inv db" and "map_option fst (outcome_of x db) = Some st" and "st \<noteq> RUNNING" and "\<not> completes x op"
  shows "outcome_of x (fst (sched_apply f op db)) = outcome_of x db"
proof (cases op)
  case (OpStart now e)
  with assms(2) show ?thesis
    by (auto simp: record_execution_started_def outcome_of_def the_execution_def fetchone_append split: option.split)
next
  case (OpComplete now e)
  with assms(4) have "kx_id e \<noteq> x" by simp
  then show ?thesis unfolding OpComplete
    by (cases "fetchone (\<lambda>e. kx_id e = x) (sch_executions db)")
      (auto simp: record_execution_completed_def Let_def outcome_of_def the_execution_def fetchone_key_sql_update dest: fetchone_SomeD)
next
  case (OpDelivery now e)
  show ?thesis unfolding OpDelivery
    by (cases "fetchone (\<lambda>e. kx_id e = x) (sch_executions db)")
      (auto simp: record_delivery_result_def Let_def outcome_of_def the_execution_def fetchone_key_sql_update)
next
  case (OpRecover now)
  have "outcome_of x (fst (sched_recover_stale now db)) = outcome_of x db"
    by (rule outcome_sql_update [where P = "stale_execution now (sch_tasks db)"
          and g = "\<lambda>e. e\<lparr>kx_status := FAILED, kx_completed_at := Some now, kx_error := Some ''execution_stale_recovered''\<rparr>"])
      (use assms(2,3) in \<open>auto simp: sched_recover_stale_def stale_execution_def\<close>)
  with OpRecover show ?thesis by simp
next
  case (OpClaimDue now lim lease ids)
  with assms(1) show ?thesis
    by (intro outcome_same_executions) (simp add: claim_tables sched_inv_def case_prod_unfold Let_def)
next
  case (OpRunNow k now lease ids)
  with assms(1) show ?thesis
    by (intro outcome_same_executions) (simp add: claim_tables sched_inv_def case_prod_unfold Let_def)
qed (auto intro!: outcome_same_executions simp: sched_create_def sched_update_def sched_update_status_def sched_delete_def
      mark_dashboard_unread_def clear_dashboard_unread_def mark_session_missing_def Let_def)

lemma outcome_kept_trace:
  assumes "sched_inv db" and "map_option fst (outcome_of x db) = Some st" and "st \<noteq> RUNNING" and "list_all (\<lambda>op. \<not> completes x op) ops"
  shows "outcome_of x (fst (sched_trace f ops db)) = outcome_of x db"
  using assms
proof (induction ops arbitrary: db)
  case (Cons op ops)
  then show ?case using outcome_kept [of db x st op f] sched_apply_inv [of db f op] by (simp add: case_prod_unfold Let_def)
qed simp


lemma sched_trace_inv: "sched_inv db \<Longrightarrow> sched_inv (fst (sched_trace f ops db))"
  by (induction ops arbitrary: db) (simp_all add: case_prod_unfold Let_def sched_apply_inv)

text \<open>The status with which the run of a claim ends.\<close>

definition run_status :: "ScheduleRunService \<Rightarrow> run_env \<Rightarrow> datetime \<Rightarrow> ScheduledTaskClaim \<Rightarrow> ScheduledTaskExecutionStatus" where
  "run_status s env now c =
     (let d = SchedulePolicy_evaluate (sr_missed_grace_seconds s) c now in
      if sd_verdict d = DENY then BLOCKED else if sd_missed_action d = MA_SKIPPED_MISSED then SKIPPED_MISSED
      else ar_status (run_executor s (re_chat env) (kc_task c)))"

lemma run_executor_terminal: "ar_status (run_executor s chat t) \<noteq> RUNNING"
  by (auto simp: run_executor_def executor_run_def Let_def split: sum.splits agent_outcome.splits if_splits)

lemma run_status_terminal: "run_status s env now c \<noteq> RUNNING"
  using run_executor_terminal by (auto simp: run_status_def Let_def)

lemma leased_holds: "leased k c ow l db \<Longrightarrow> holds k c ow db"
  by (auto simp: leased_def holds_def lease_of_def holds_lease_def list_ex_iff dest: the_task_SomeD split: option.splits)

lemma started:
  assumes "xid \<notin> set (execution_ids db)"
  shows "record_execution_started clock (new_execution c now xid trigger) db =
    (fst (sched_apply f (OpStart clock (new_execution c now xid trigger)) db), Inr (new_execution c now xid trigger))"
    and "xid \<in> set (execution_ids (fst (sched_apply f (OpStart clock (new_execution c now xid trigger)) db)))"
  using assms by (auto simp: record_execution_started_def execution_ids_def new_execution_def)

lemma started_db_leased:
  assumes "sched_inv db" and "leased k cid ow l db" and "xid \<notin> set (execution_ids db)"
  shows "sched_inv (started_db env now xid trigger c db)" and "leased k cid ow l (started_db env now xid trigger c db)"
    and "xid \<in> set (execution_ids (started_db env now xid trigger c db))"
proof -
  let ?op = "OpStart (re_clock env) (new_execution c now xid trigger)"
  have db: "started_db env now xid trigger c db = fst (sched_apply undefined ?op db)" by (simp add: started_db_def)
  show "sched_inv (started_db env now xid trigger c db)" unfolding db by (rule sched_apply_inv [OF assms(1)])
  show "leased k cid ow l (started_db env now xid trigger c db)"
    unfolding db using leased_step [OF assms(1,2), of ?op undefined] by (simp add: new_execution_def)
  show "xid \<in> set (execution_ids (started_db env now xid trigger c db))" unfolding db by (rule started(2) [OF assms(3)])
qed

text \<open>What a task row says of its last run.\<close>

definition task_columns :: "string \<Rightarrow> schedule_db \<Rightarrow> (datetime option \<times> ScheduledTaskExecutionStatus option \<times> datetime option) option" where
  "task_columns k db = map_option (\<lambda>t. (sk_lease_until t, sk_last_status t, sk_last_run_at t)) (the_task k db)"

lemma task_columns_sql_update:
  assumes "\<And>t. sk_id (g t) = sk_id t \<and> sk_lease_until (g t) = sk_lease_until t \<and> sk_last_status (g t) = sk_last_status t \<and>
      sk_last_run_at (g t) = sk_last_run_at t"
    and "sch_tasks db' = sql_update P g (sch_tasks db)"
  shows "task_columns k db' = task_columns k db"
proof -
  have "the_task k db' = map_option (\<lambda>t. if P t then g t else t) (the_task k db)"
    unfolding the_task_def assms(2) by (rule fetchone_key_sql_update) (use assms(1) in simp)
  then show ?thesis using assms(1) by (cases "the_task k db") (simp_all add: task_columns_def)
qed

lemma finish_delivery_columns:
  "task_columns k (fst (finish_delivery s env c completed r db)) = task_columns k (re_during_delivery env db)"
proof -
  have unread: "task_columns k (fst (mark_dashboard_unread now j cid ow d)) = task_columns k d" for now j cid ow d
    by (rule task_columns_sql_update [where g = "\<lambda>t. t\<lparr>sk_unread_count := sk_unread_count t + 1, sk_updated_at := Some now\<rparr>"])
      (simp_all add: mark_dashboard_unread_def)
  have deliver: "task_columns k (fst (record_delivery_result now e d)) = task_columns k d" for now e d
  proof (cases "snd (record_delivery_result now e d)")
    case True
    show ?thesis
      by (rule task_columns_sql_update [where g = "\<lambda>t. t\<lparr>sk_last_delivery_error := kx_delivery_error e, sk_updated_at := Some now\<rparr>"
            and P = "holds_lease (kx_task_id e) (kx_claim_id e) (kx_lease_owner e)"])
        (use True in \<open>simp_all add: record_delivery_result_def Let_def split: if_splits\<close>)
  qed (simp add: record_delivery_result_def Let_def task_columns_def split: if_splits)
  show ?thesis by (simp add: finish_delivery_def Let_def case_prod_unfold unread deliver)
qed

text \<open>Delivery leaves the outcome of an execution alone.\<close>

lemma finish_delivery_outcome:
  assumes "sched_inv db" and "map_option fst (outcome_of x db) = Some st" and "st \<noteq> RUNNING"
    and "list_all (\<lambda>op. \<not> completes x op) ops" and "re_during_delivery env = (\<lambda>d. fst (sched_trace f ops d))"
  shows "outcome_of x (fst (finish_delivery s env c completed r db)) = outcome_of x db \<and>
    rp_status (snd (snd (finish_delivery s env c completed r db))) = ScheduledTaskExecutionStatus_value (ar_status r)"
proof -
  have deliver: "outcome_of x (fst (record_delivery_result now e d)) = outcome_of x d" for now e d
    by (cases "fetchone (\<lambda>e. kx_id e = x) (sch_executions d)")
      (auto simp: record_delivery_result_def Let_def outcome_of_def the_execution_def fetchone_key_sql_update)
  have unread: "outcome_of x (fst (mark_dashboard_unread now k cid ow d)) = outcome_of x d" for now k cid ow d
    by (rule outcome_same_executions) (simp add: mark_dashboard_unread_def)
  show ?thesis
    using outcome_kept_trace [OF assms(1-4), of f] assms(5)
    by (simp add: finish_delivery_def Let_def case_prod_unfold deliver unread)
qed

lemma completed_execution_fields:
  "kx_id (completed_execution (new_execution c now xid trigger) st t out err) = xid"
  "kx_task_id (completed_execution (new_execution c now xid trigger) st t out err) = sk_id (kc_task c)"
  "kx_claim_id (completed_execution (new_execution c now xid trigger) st t out err) = kc_claim_id c"
  "kx_lease_owner (completed_execution (new_execution c now xid trigger) st t out err) = kc_lease_owner c"
  "kx_status (completed_execution (new_execution c now xid trigger) st t out err) = st"
  "kx_completed_at (completed_execution (new_execution c now xid trigger) st t out err) = Some t"
  by (simp_all add: completed_execution_def new_execution_def)

lemma settled_outcome: "settled k x st now db \<Longrightarrow> map_option fst (outcome_of x db) = Some st"
  by (auto simp: settled_def outcome_of_def)

text \<open>The completing transaction of a run that still holds its lease.\<close>

lemma completion_settles:
  assumes "sched_inv db" and "holds (sk_id (kc_task c)) (kc_claim_id c) (kc_lease_owner c) db" and "xid \<in> set (execution_ids db)"
  shows "\<exists>db'. record_execution_completed clock (completed_execution (new_execution c now xid trigger) st now out err) db = (db', True) \<and>
    settled (sk_id (kc_task c)) xid st now db' \<and> sched_inv db'"
proof -
  let ?e = "completed_execution (new_execution c now xid trigger) st now out err"
  have "sched_inv (fst (record_execution_completed clock ?e db))"
    using sched_apply_inv [OF assms(1), of undefined "OpComplete clock ?e"] by simp
  with completed_by_holder [of db ?e now clock] assms show ?thesis
    by (cases "record_execution_completed clock ?e db") (simp add: completed_execution_fields)
qed

lemma completed_outcome:
  assumes "sched_inv db" and "holds (sk_id (kc_task c)) (kc_claim_id c) (kc_lease_owner c) db" and "xid \<in> set (execution_ids db)"
  shows "outcome_of xid (fst (record_execution_completed clock (completed_execution (new_execution c now xid trigger) st now out err) db)) =
    Some (st, Some now, out, err)"
proof -
  let ?e = "completed_execution (new_execution c now xid trigger) st now out err"
  let ?g = "\<lambda>r. r\<lparr>kx_completed_at := kx_completed_at ?e, kx_status := kx_status ?e, kx_output := kx_output ?e, kx_error := kx_error ?e\<rparr>"
  let ?P = "\<lambda>r. kx_id r = kx_id ?e \<and> list_ex (holds_lease (kx_task_id ?e) (kx_claim_id ?e) (kx_lease_owner ?e)) (sch_tasks db)"
  from assms(3) obtain x where x: "the_execution xid db = Some x"
    by (cases "the_execution xid db") (auto simp: the_execution_def execution_ids_def fetchone_None_iff)
  then have x_in: "x \<in> set (sch_executions db)" "kx_id x = xid" by (auto simp: the_execution_def dest: fetchone_SomeD)
  have P: "?P x" using assms(2) x_in by (simp add: holds_def completed_execution_fields)
  with x_in have "rowcount ?P (sch_executions db) > 0" by (auto simp: rowcount_def filter_empty_conv)
  then have "sch_executions (fst (record_execution_completed clock ?e db)) = sql_update ?P ?g (sch_executions db)"
    by (simp add: record_execution_completed_def Let_def)
  then have "the_execution xid (fst (record_execution_completed clock ?e db)) = map_option (\<lambda>r. if ?P r then ?g r else r) (the_execution xid db)"
    unfolding the_execution_def by (simp only:) (rule fetchone_key_sql_update, simp)
  with x P show ?thesis by (simp add: outcome_of_def completed_execution_def)
qed

text \<open>The branches of a run.\<close>

lemma execute_claim_early:
  assumes "record_execution_started (re_clock env) (new_execution c now xid trigger) db = (db1, Inr e')"
    and "sd_verdict (SchedulePolicy_evaluate (sr_missed_grace_seconds s) c now) = DENY \<or>
      sd_missed_action (SchedulePolicy_evaluate (sr_missed_grace_seconds s) c now) = MA_SKIPPED_MISSED"
  shows "\<exists>err. execute_claim s env now xid trigger c db =
    (fst (record_execution_completed (re_clock env)
       (completed_execution (new_execution c now xid trigger) (run_status s env now c) now None err) db1),
     [], Inr \<lparr>rp_status = ScheduledTaskExecutionStatus_value (run_status s env now c), rp_delivery_status = None\<rparr>)"
  using assms by (simp add: execute_claim_def Let_def run_status_def) blast

lemma execute_claim_run:
  assumes "record_execution_started (re_clock env) (new_execution c now xid trigger) db = (db1, Inr e')"
    and "sd_verdict (SchedulePolicy_evaluate (sr_missed_grace_seconds s) c now) \<noteq> DENY"
    and "sd_missed_action (SchedulePolicy_evaluate (sr_missed_grace_seconds s) c now) \<noteq> MA_SKIPPED_MISSED"
    and "r = run_executor s (re_chat env) (kc_task c)"
    and "completed = completed_execution (new_execution c now xid trigger) (ar_status r) now (ar_output r) (ar_error r)"
    and "record_execution_completed (re_clock env) completed (re_during_run env db1) = (db2, ok)"
  shows "execute_claim s env now xid trigger c db =
    (if \<not> ok then (db2, [], Inr \<lparr>rp_status = ''stale'', rp_delivery_status = None\<rparr>)
     else if ar_status r = CANCELLED \<or> sd_delivery_mode (SchedulePolicy_evaluate (sr_missed_grace_seconds s) c now) = DM_SILENT
     then (db2, [], Inr \<lparr>rp_status = ScheduledTaskExecutionStatus_value (ar_status r), rp_delivery_status = None\<rparr>)
     else let (db3, sent, rep) = finish_delivery s env c completed r db2 in (db3, sent, Inr rep))"
  using assms by (simp add: execute_claim_def Let_def)

text \<open>The database in which a run completes, and the completing transaction.\<close>

definition runs_agent :: "ScheduleRunService \<Rightarrow> datetime \<Rightarrow> ScheduledTaskClaim \<Rightarrow> bool" where
  "runs_agent s now c \<longleftrightarrow>
     (let d = SchedulePolicy_evaluate (sr_missed_grace_seconds s) c now in sd_verdict d \<noteq> DENY \<and> sd_missed_action d \<noteq> MA_SKIPPED_MISSED)"

definition completion_base ::
  "ScheduleRunService \<Rightarrow> run_env \<Rightarrow> datetime \<Rightarrow> string \<Rightarrow> string option \<Rightarrow> ScheduledTaskClaim \<Rightarrow> schedule_db \<Rightarrow> schedule_db" where
  "completion_base s env now xid trigger c db =
     (if runs_agent s now c then re_during_run env (started_db env now xid trigger c db) else started_db env now xid trigger c db)"

definition completion ::
  "ScheduleRunService \<Rightarrow> run_env \<Rightarrow> datetime \<Rightarrow> string \<Rightarrow> string option \<Rightarrow> ScheduledTaskClaim \<Rightarrow> string option \<Rightarrow> string option
     \<Rightarrow> schedule_db \<Rightarrow> schedule_db \<times> bool" where
  "completion s env now xid trigger c out err db =
     record_execution_completed (re_clock env)
       (completed_execution (new_execution c now xid trigger) (run_status s env now c) now out err)
       (completion_base s env now xid trigger c db)"

text \<open>
  C13: A claimed run always ends: whatever other transactions happen while the agent works, as long as they leave its lease alone
  (\<open>undisturbed\<close>: the task is not deleted, and updates of it write back the current lease), one transaction (\<open>completion\<close>) settles the
  execution and the task with the status that the policy and the agent determine, never \<open>running\<close>, and gives the lease back. The
  delivery that may follow changes neither: at the end the execution still has this outcome, and the task row says of its
  last run and its lease what the settling transaction wrote, or what other transactions made of it while the result was
  delivered.
\<close>

theorem run_settles_claim:
  assumes "sched_inv db" and "leased (sk_id (kc_task c)) (kc_claim_id c) (kc_lease_owner c) l db" and "xid \<notin> set (execution_ids db)"
    and "re_during_run env = (\<lambda>d. fst (sched_trace f ops d))"
    and "undisturbed f (sk_id (kc_task c)) (kc_claim_id c) (kc_lease_owner c) l ops (started_db env now xid trigger c db)"
    and "re_during_delivery env = (\<lambda>d. fst (sched_trace f later d))" and "list_all (\<lambda>op. \<not> completes xid op) later"
  shows "\<exists>out err db2 db' sent rep. execute_claim s env now xid trigger c db = (db', sent, Inr rep) \<and>
    completion s env now xid trigger c out err db = (db2, True) \<and>
    settled (sk_id (kc_task c)) xid (run_status s env now c) now db2 \<and>
    outcome_of xid db' = Some (run_status s env now c, Some now, out, err) \<and>
    (db' = db2 \<or> task_columns (sk_id (kc_task c)) db' = task_columns (sk_id (kc_task c)) (fst (sched_trace f later db2))) \<and>
    rp_status rep = ScheduledTaskExecutionStatus_value (run_status s env now c) \<and> run_status s env now c \<noteq> RUNNING"
proof -
  let ?d = "SchedulePolicy_evaluate (sr_missed_grace_seconds s) c now"
  let ?db1 = "started_db env now xid trigger c db"
  let ?st = "run_status s env now c"
  note one = started_db_leased [OF assms(1-3), of env now trigger c]
  have start: "record_execution_started (re_clock env) (new_execution c now xid trigger) db = (?db1, Inr (new_execution c now xid trigger))"
    using started(1) [OF assms(3), of "re_clock env" c now trigger undefined] by (simp add: started_db_def)
  have two: "sched_inv (re_during_run env ?db1)" "leased (sk_id (kc_task c)) (kc_claim_id c) (kc_lease_owner c) l (re_during_run env ?db1)"
      "xid \<in> set (execution_ids (re_during_run env ?db1))"
    using leased_trace [OF one(1,2) assms(5)] sched_trace_keeps_ids [OF one(1,3)] by (simp_all add: assms(4))
  have base: "sched_inv (completion_base s env now xid trigger c db)"
      "holds (sk_id (kc_task c)) (kc_claim_id c) (kc_lease_owner c) (completion_base s env now xid trigger c db)"
      "xid \<in> set (execution_ids (completion_base s env now xid trigger c db))"
    using one two leased_holds by (simp_all add: completion_base_def)
  have settles: "\<exists>db2. completion s env now xid trigger c out err db = (db2, True) \<and> settled (sk_id (kc_task c)) xid ?st now db2 \<and>
      sched_inv db2 \<and> outcome_of xid db2 = Some (?st, Some now, out, err)" for out err
    using completion_settles [OF base, of "re_clock env" now trigger ?st out err]
      completed_outcome [OF base, of "re_clock env" now trigger ?st out err]
    unfolding completion_def by auto
  show ?thesis
  proof (cases "runs_agent s now c")
    case False
    then have early: "sd_verdict ?d = DENY \<or> sd_missed_action ?d = MA_SKIPPED_MISSED" by (auto simp: runs_agent_def Let_def)
    from execute_claim_early [OF start early] obtain err where run: "execute_claim s env now xid trigger c db =
        (fst (completion s env now xid trigger c None err db), [],
         Inr \<lparr>rp_status = ScheduledTaskExecutionStatus_value ?st, rp_delivery_status = None\<rparr>)"
      using False by (auto simp: completion_def completion_base_def)
    from settles [of None err] run show ?thesis
      using run_status_terminal [of s env now c] by (elim exE conjE) (rule exI [of _ None], rule exI [of _ err], simp)
  next
    case True
    then have goes: "sd_verdict ?d \<noteq> DENY" "sd_missed_action ?d \<noteq> MA_SKIPPED_MISSED" by (auto simp: runs_agent_def Let_def)
    define r where "r = run_executor s (re_chat env) (kc_task c)"
    define e where "e = completed_execution (new_execution c now xid trigger) (ar_status r) now (ar_output r) (ar_error r)"
    have st: "?st = ar_status r" "ar_status r \<noteq> RUNNING"
      using goes run_executor_terminal by (simp_all add: run_status_def r_def Let_def)
    obtain db2 where db2: "completion s env now xid trigger c (ar_output r) (ar_error r) db = (db2, True)"
        "settled (sk_id (kc_task c)) xid ?st now db2" "sched_inv db2" "outcome_of xid db2 = Some (?st, Some now, ar_output r, ar_error r)"
      using settles by blast
    from db2(1) have done_: "record_execution_completed (re_clock env) e (re_during_run env ?db1) = (db2, True)"
      using True by (simp add: completion_def completion_base_def e_def st(1))
    note kept = finish_delivery_outcome [OF db2(3) settled_outcome [OF db2(2)] _ assms(7,6), of s c e r]
    have columns: "task_columns k (fst (finish_delivery s env c e r db2)) = task_columns k (fst (sched_trace f later db2))" for k
      by (simp add: finish_delivery_columns assms(6))
    show ?thesis
      by (rule exI [of _ "ar_output r"], rule exI [of _ "ar_error r"], rule exI [of _ db2])
        (use execute_claim_run [OF start goes r_def e_def done_] db2 kept columns st in \<open>auto simp: case_prod_unfold Let_def\<close>)
  qed
qed

theorem run_settles_claim_witness:
  "\<exists>db' rep. execute_claim demo_runs (demo_run_env demo_others) 250 ''x1'' None demo_claim demo_claimed =
     (db', [(''oc_1'', ''chat_id'', ''key [REDACTED]!'')], Inr rep) \<and> task_columns ''t1'' db' = Some (None, Some SUCCEEDED, Some 250) \<and>
     map_option fst (outcome_of ''x1'' db') = Some SUCCEEDED"
proof -
  let ?env = "demo_run_env demo_others"
  have ok: "''x1'' \<notin> set (execution_ids demo_claimed)"
    "undisturbed demo_next (sk_id (kc_task demo_claim)) (kc_claim_id demo_claim) (kc_lease_owner demo_claim) 60000200
       demo_others (started_db ?env 250 ''x1'' None demo_claim demo_claimed)" by code_simp+
  have lease: "leased (sk_id (kc_task demo_claim)) (kc_claim_id demo_claim) (kc_lease_owner demo_claim) 60000200 demo_claimed"
    unfolding demo_lease by (rule demo_lease(1))
  have env: "re_during_run ?env = (\<lambda>d. fst (sched_trace demo_next demo_others d))"
    "re_during_delivery ?env = (\<lambda>d. fst (sched_trace demo_next [] d))" by (simp_all add: demo_run_env_def)
  have sent: "fst (snd (execute_claim demo_runs ?env 250 ''x1'' None demo_claim demo_claimed)) = [(''oc_1'', ''chat_id'', ''key [REDACTED]!'')]"
    "run_status demo_runs ?env 250 demo_claim = SUCCEEDED" by code_simp+
  have "list_all (\<lambda>op. \<not> completes ''x1'' op) []" by simp
  from run_settles_claim [OF demo_schedules_inv(2) lease ok(1) env(1) ok(2) env(2) this, of demo_runs] sent
  obtain out err db2 db' rep where run: "execute_claim demo_runs ?env 250 ''x1'' None demo_claim demo_claimed =
      (db', [(''oc_1'', ''chat_id'', ''key [REDACTED]!'')], Inr rep)"
    and end_: "settled ''t1'' ''x1'' SUCCEEDED 250 db2" "outcome_of ''x1'' db' = Some (SUCCEEDED, Some 250, out, err)"
      "db' = db2 \<or> task_columns ''t1'' db' = task_columns ''t1'' db2"
    by (auto simp: demo_lease)
  from end_ have "task_columns ''t1'' db' = Some (None, Some SUCCEEDED, Some 250)" by (auto simp: settled_def task_columns_def)
  with run end_(2) show ?thesis by auto
qed

text \<open>
  C18: A run that lost its lease while the agent worked is reported as \<open>stale\<close> and has no effect: its result is not
  stored, nothing is delivered, and the run that took over is not touched; it is the only run that is reported so.
\<close>

theorem superseded_run_ignored:
  assumes "sched_inv db" and "xid \<notin> set (execution_ids db)"
    and "re_during_run env = (\<lambda>d. fst (sched_trace f ops d))"
    and "sd_verdict (SchedulePolicy_evaluate (sr_missed_grace_seconds s) c now) \<noteq> DENY"
    and "sd_missed_action (SchedulePolicy_evaluate (sr_missed_grace_seconds s) c now) \<noteq> MA_SKIPPED_MISSED"
  shows "if holds (sk_id (kc_task c)) (kc_claim_id c) (kc_lease_owner c) (re_during_run env (started_db env now xid trigger c db))
    then map_sum id rp_status (snd (snd (execute_claim s env now xid trigger c db))) \<noteq> Inr ''stale''
    else execute_claim s env now xid trigger c db =
      (re_during_run env (started_db env now xid trigger c db), [], Inr \<lparr>rp_status = ''stale'', rp_delivery_status = None\<rparr>)"
proof -
  let ?db1 = "started_db env now xid trigger c db"
  define r where "r = run_executor s (re_chat env) (kc_task c)"
  define e where "e = completed_execution (new_execution c now xid trigger) (ar_status r) now (ar_output r) (ar_error r)"
  have start: "record_execution_started (re_clock env) (new_execution c now xid trigger) db = (?db1, Inr (new_execution c now xid trigger))"
    using started(1) [OF assms(2), of "re_clock env" c now trigger undefined] by (simp add: started_db_def)
  have inv: "sched_inv ?db1" "xid \<in> set (execution_ids ?db1)"
    using sched_apply_inv [OF assms(1), of undefined "OpStart (re_clock env) (new_execution c now xid trigger)"]
      started(2) [OF assms(2), of undefined "re_clock env" c now trigger] by (simp_all add: started_db_def)
  have two: "sched_inv (re_during_run env ?db1)" "xid \<in> set (execution_ids (re_during_run env ?db1))"
    using sched_trace_inv [OF inv(1)] sched_trace_keeps_ids [OF inv] by (simp_all add: assms(3))
  have no_stale: "ScheduledTaskExecutionStatus_value st \<noteq> ''stale''" for st by (cases st) simp_all
  obtain db2 ok where done_: "record_execution_completed (re_clock env) e (re_during_run env ?db1) = (db2, ok)" by fastforce
  note run = execute_claim_run [OF start assms(4,5) r_def e_def done_]
  show ?thesis
  proof (cases "holds (sk_id (kc_task c)) (kc_claim_id c) (kc_lease_owner c) (re_during_run env ?db1)")
    case True
    have ok: "ok" using completion_settles [OF two(1) True two(2), of "re_clock env" now trigger "ar_status r" "ar_output r" "ar_error r"] done_
      unfolding e_def by auto
    have "rp_status (snd (snd (finish_delivery s env c e r db2))) = ScheduledTaskExecutionStatus_value (ar_status r)"
      by (simp add: finish_delivery_def Let_def case_prod_unfold)
    with True ok run no_stale show ?thesis by (simp add: case_prod_unfold Let_def)
  next
    case False
    with completed_by_other [of e "re_during_run env ?db1" "re_clock env"] done_ run show ?thesis
      by (simp add: e_def completed_execution_fields)
  qed
qed

definition demo_takeover :: "sched_op list" where
  "demo_takeover = [OpRecover 60000201, OpRunNow ''t1'' 60000300 60 (''claim-2'', ''owner-2'')]"

theorem superseded_run_ignored_witness:
  "execute_claim demo_runs (demo_run_env demo_takeover) 250 ''x1'' None demo_claim demo_claimed =
    (fst (sched_trace demo_next demo_takeover (started_db (demo_run_env demo_takeover) 250 ''x1'' None demo_claim demo_claimed)),
     [], Inr \<lparr>rp_status = ''stale'', rp_delivery_status = None\<rparr>)"
proof -
  let ?env = "demo_run_env demo_takeover"
  have ok: "''x1'' \<notin> set (execution_ids demo_claimed)"
    "sd_verdict (SchedulePolicy_evaluate (sr_missed_grace_seconds demo_runs) demo_claim 250) \<noteq> DENY"
    "sd_missed_action (SchedulePolicy_evaluate (sr_missed_grace_seconds demo_runs) demo_claim 250) \<noteq> MA_SKIPPED_MISSED"
    by code_simp+
  have env: "re_during_run ?env = (\<lambda>d. fst (sched_trace demo_next demo_takeover d))" by (simp add: demo_run_env_def)
  have lost: "\<not> holds (sk_id (kc_task demo_claim)) (kc_claim_id demo_claim) (kc_lease_owner demo_claim)
      (re_during_run ?env (started_db ?env 250 ''x1'' None demo_claim demo_claimed))" by code_simp
  from superseded_run_ignored [OF demo_schedules_inv(2) ok(1) env ok(2,3), of None] lost env show ?thesis by simp
qed

section \<open>What is delivered\<close>









section \<open>Where a run is not protected\<close>

text \<open>An update that writes back a row read before the claim takes the lease from the running execution: a second run
  of the same task is handed out while the first still works.\<close>

lemma stale_update_loses_lease:
  "map_option kx_status (the_execution ''x1'' demo_started) = Some RUNNING \<and> lease_expired 300 demo_daily = False \<and>
   map (sk_id \<circ> kc_task) (snd (sched_trace demo_next
     [OpUpdate 260 demo_daily, OpRunNow ''t1'' 300 60 (''claim-2'', ''owner-2'')] demo_started)) = [''t1'']"
  by code_simp

text \<open>The execution of a task that is deleted while the agent works is never settled: neither its own completion nor
  a recovery at any later time touches it.\<close>

lemma deleted_task_runs_forever:
  "map_option kx_status (the_execution ''x1''
     (fst (sched_recover_stale now (fst (execute_claim demo_runs (demo_run_env [OpDelete ''t1'']) 250 ''x1'' None demo_claim demo_claimed))))) =
   Some RUNNING"
proof -
  let ?db = "fst (execute_claim demo_runs (demo_run_env [OpDelete ''t1'']) 250 ''x1'' None demo_claim demo_claimed)"
  have gone: "map sk_id (sch_tasks ?db) = [''t2'']" by code_simp
  have run: "map_option (\<lambda>e. (kx_status e, kx_task_id e)) (the_execution ''x1'' ?db) = Some (RUNNING, ''t1'')" by code_simp
  have "\<not> stale_execution now (sch_tasks ?db) e" if "kx_task_id e = ''t1''" for e
    using gone that by (auto simp: stale_execution_def list_ex_iff map_eq_Cons_conv)
  with run show ?thesis
    by (auto simp: the_execution_def sched_recover_stale_def fetchone_key_sql_update)
qed

end
